(* ===== verification/Prelude.thy ===== *)
theory Prelude
  imports Main "HOL-Library.Char_ord" "HOL-Library.List_Lexorder"
begin

text \<open>
  Shared base of the development.  It holds the result type of fallible code (a thrown
  JavaScript exception is a value), the rows-and-keys model of a SQL table with the laws every
  component uses, the transaction wrapper, and a locale for invariants of state machines.
\<close>

named_theorems result_simps \<open>rewriting of the result monad\<close>
named_theorems table_simps \<open>rewriting of table lookups and updates\<close>
named_theorems store_defs \<open>definitions of the coordinator store operations\<close>

section \<open>Exceptions as values\<close>

text \<open>
  The exception classes the sources throw, each with its message; \<open>Bolt11DecodeError\<close> is the class of the
  invoice decoder, \<open>CoordinatorDispatchError\<close> the one of the action runner with its fields
  \<^verbatim>\<open>ambiguous\<close> and \<^verbatim>\<open>actionState\<close>.
\<close>

datatype js_error = TypeError string | RangeError string | Error string | Bolt11DecodeError string
  | CoordinatorDispatchError string bool string

type_synonym 'a result = "js_error + 'a"

definition bindE :: "'a result \<Rightarrow> ('a \<Rightarrow> 'b result) \<Rightarrow> 'b result" where
  "bindE m f = (case m of Inl e \<Rightarrow> Inl e | Inr x \<Rightarrow> f x)"

fun mapE :: "('a \<Rightarrow> 'b result) \<Rightarrow> 'a list \<Rightarrow> 'b list result" where
  "mapE f [] = Inr []"
| "mapE f (x # xs) = bindE (f x) (\<lambda>y. bindE (mapE f xs) (\<lambda>ys. Inr (y # ys)))"

fun foldE :: "('a \<Rightarrow> 's \<Rightarrow> 's result) \<Rightarrow> 'a list \<Rightarrow> 's \<Rightarrow> 's result" where
  "foldE f [] s = Inr s"
| "foldE f (x # xs) s = bindE (f x s) (foldE f xs)"

lemma bindE_Inl [simp]: "bindE (Inl e) f = Inl e"
  by (simp add: bindE_def)

lemma bindE_Inr [simp]: "bindE (Inr x) f = f x"
  by (simp add: bindE_def)

lemma bindE_eq_Inr [result_simps]: "bindE m f = Inr y \<longleftrightarrow> (\<exists>x. m = Inr x \<and> f x = Inr y)"
  by (cases m) auto

lemma bindE_eq_Inl: "bindE m f = Inl e \<longleftrightarrow> m = Inl e \<or> (\<exists>x. m = Inr x \<and> f x = Inl e)"
  by (cases m) auto

lemma if_Inl_eq_Inr [result_simps]: "(if b then Inl e else m) = Inr y \<longleftrightarrow> \<not> b \<and> m = Inr y"
  by auto

text \<open>Branches of a body that returned: the cases an exception rules out disappear.\<close>

lemma option_case_eq_Inr:
  "(case x of None \<Rightarrow> a | Some y \<Rightarrow> f y) = Inr z \<longleftrightarrow> x = None \<and> a = Inr z \<or> (\<exists>y. x = Some y \<and> f y = Inr z)"
  by (cases x) auto

lemma if_eq_Inr: "(if b then p else q) = Inr z \<longleftrightarrow> b \<and> p = Inr z \<or> \<not> b \<and> q = Inr z"
  by simp

lemma prod_case_eq_Inr: "(case p of (a, b) \<Rightarrow> f a b) = Inr z \<longleftrightarrow> (\<exists>a b. p = (a, b) \<and> f a b = Inr z)"
  by (cases p) auto

lemmas returned = bindE_eq_Inr option_case_eq_Inr if_eq_Inr prod_case_eq_Inr sum.inject sum.distinct prod.inject
  simp_thms

lemma bindE_cong [fundef_cong]:
  "m = m' \<Longrightarrow> (\<And>x. m' = Inr x \<Longrightarrow> f x = g x) \<Longrightarrow> bindE m f = bindE m' g"
  by (cases m') auto

lemma mapE_cong [fundef_cong]:
  "xs = ys \<Longrightarrow> (\<And>x. x \<in> set ys \<Longrightarrow> f x = g x) \<Longrightarrow> mapE f xs = mapE g ys"
  by (induction xs arbitrary: ys) auto

lemma mapE_map: "mapE f (map g xs) = mapE (f \<circ> g) xs"
  by (induction xs) auto

lemma mapE_total: "(\<And>x. x \<in> set xs \<Longrightarrow> \<exists>y. f x = Inr y) \<Longrightarrow> \<exists>ys. mapE f xs = Inr ys"
proof (induction xs)
  case (Cons x xs)
  then obtain y ys where "f x = Inr y" "mapE f xs = Inr ys" by fastforce
  then show ?case by simp
qed simp

text \<open>An invariant that every step of a loop keeps holds after the loop.\<close>

lemma foldE_invariant:
  assumes "foldE f xs s = Inr s'" and "P s"
    and "\<And>x t t'. x \<in> set xs \<Longrightarrow> P t \<Longrightarrow> f x t = Inr t' \<Longrightarrow> P t'"
  shows "P s'"
  using assms
proof (induction xs arbitrary: s)
  case Nil
  then show ?case by simp
next
  case (Cons x xs)
  from Cons.prems(1) obtain t where t: "f x s = Inr t" and rest: "foldE f xs t = Inr s'"
    by (auto simp: result_simps)
  have "P t" by (rule Cons.prems(3) [OF _ Cons.prems(2) t]) simp
  show ?case
    by (rule Cons.IH [OF rest \<open>P t\<close>]) (auto intro: Cons.prems(3))
qed

section \<open>Transactions\<close>

text \<open>
  A public operation yields the state it leaves behind and a result.  A callback that throws is
  rolled back: the state stays what it was and the exception is handed on.  The rollback is the behaviour
  SQLite documents for \<^verbatim>\<open>ROLLBACK\<close>; it is part of the model, not a result about the store.
\<close>

definition transaction :: "('s \<Rightarrow> ('s \<times> 'a) result) \<Rightarrow> 's \<Rightarrow> 's \<times> 'a result" where
  "transaction callback s = (case callback s of Inl e \<Rightarrow> (s, Inl e) | Inr (s', r) \<Rightarrow> (s', Inr r))"

definition withInput :: "'v result \<Rightarrow> ('v \<Rightarrow> 's \<Rightarrow> 's \<times> 'a result) \<Rightarrow> 's \<Rightarrow> 's \<times> 'a result" where
  "withInput m f s = (case m of Inl e \<Rightarrow> (s, Inl e) | Inr v \<Rightarrow> f v s)"

lemma transaction_Inr:
  "transaction cb s = (s', Inr r) \<longleftrightarrow> cb s = Inr (s', r)"
  by (auto simp: transaction_def split: sum.splits prod.splits)

lemma transaction_Inl:
  "transaction cb s = (s', Inl e) \<longleftrightarrow> s' = s \<and> cb s = Inl e"
  by (auto simp: transaction_def split: sum.splits prod.splits)

lemma withInput_Inr [simp]: "withInput (Inr v) f s = f v s"
  by (simp add: withInput_def)

lemma withInput_Inl [simp]: "withInput (Inl e) f s = (s, Inl e)"
  by (simp add: withInput_def)

lemma transaction_invariant:
  assumes "P s" and "\<And>s' r. cb s = Inr (s', r) \<Longrightarrow> P s'"
  shows "P (fst (transaction cb s))"
  using assms by (auto simp: transaction_def split: sum.splits prod.splits)

lemma withInput_invariant:
  assumes "P s" and "\<And>v. m = Inr v \<Longrightarrow> P (fst (f v s))"
  shows "P (fst (withInput m f s))"
  using assms by (auto simp: withInput_def split: sum.splits)

section \<open>Tables\<close>

text \<open>
  A SQL table is the list of its rows in insertion order.  \<open>row_find\<close> is a lookup by a key
  column, \<open>row_update\<close> an \<^verbatim>\<open>UPDATE ... WHERE key = k\<close>.
\<close>

definition row_find :: "('r \<Rightarrow> 'k) \<Rightarrow> 'k \<Rightarrow> 'r list \<Rightarrow> 'r option" where
  "row_find key k rows = find (\<lambda>r. key r = k) rows"

definition row_update :: "('r \<Rightarrow> 'k) \<Rightarrow> 'k \<Rightarrow> ('r \<Rightarrow> 'r) \<Rightarrow> 'r list \<Rightarrow> 'r list" where
  "row_update key k f rows = map (\<lambda>r. if key r = k then f r else r) rows"

lemma row_find_Nil [simp]: "row_find key k [] = None"
  by (simp add: row_find_def)

lemma row_find_Cons [simp]:
  "row_find key k (r # rows) = (if key r = k then Some r else row_find key k rows)"
  by (simp add: row_find_def)

lemma row_update_Nil [simp]: "row_update key k f [] = []"
  by (simp add: row_update_def)

lemma row_update_Cons [simp]:
  "row_update key k f (r # rows) = (if key r = k then f r else r) # row_update key k f rows"
  by (simp add: row_update_def)

lemma row_find_None: "row_find key k rows = None \<longleftrightarrow> k \<notin> key ` set rows"
  by (induction rows) auto

lemma row_find_SomeD: "row_find key k rows = Some r \<Longrightarrow> r \<in> set rows \<and> key r = k"
  by (induction rows) (auto split: if_splits)

lemma row_find_append [table_simps]:
  "row_find key k (rows @ rows') =
     (case row_find key k rows of None \<Rightarrow> row_find key k rows' | Some r \<Rightarrow> Some r)"
  by (induction rows) auto

lemma row_find_distinct:
  "distinct (map key rows) \<Longrightarrow> r \<in> set rows \<Longrightarrow> row_find key (key r) rows = Some r"
  by (induction rows) force+

lemma row_find_update [table_simps]:
  assumes "\<And>r. key (f r) = key r"
  shows "row_find key k (row_update key k' f rows) =
     (if k = k' then map_option f (row_find key k rows) else row_find key k rows)"
  using assms by (induction rows) auto

lemma map_row_update [table_simps]:
  assumes "\<And>r. g (f r) = g r"
  shows "map g (row_update key k f rows) = map g rows"
  using assms by (induction rows) auto

lemma length_row_update [simp]: "length (row_update key k f rows) = length rows"
  by (simp add: row_update_def)

lemma set_row_update:
  "set (row_update key k f rows) = (\<lambda>r. if key r = k then f r else r) ` set rows"
  by (simp add: row_update_def)

lemma row_update_absent: "k \<notin> key ` set rows \<Longrightarrow> row_update key k f rows = rows"
  by (induction rows) auto

lemma row_update_ident [simp]: "row_update key k (\<lambda>r. r) rows = rows"
  by (simp add: row_update_def)

lemma row_update_hit: "r \<in> set rows \<Longrightarrow> key r = k \<Longrightarrow> f r \<in> set (row_update key k f rows)"
  by (force simp: set_row_update)

lemma list_ex_row_update:
  "\<forall>x\<in>set rows. key x = k \<longrightarrow> P (f x) = P x \<Longrightarrow> list_ex P (row_update key k f rows) = list_ex P rows"
  by (induction rows) auto

lemma row_update_miss: "r \<in> set rows \<Longrightarrow> key r \<noteq> k \<Longrightarrow> r \<in> set (row_update key k f rows)"
  by (force simp: set_row_update)

lemma row_update_cases:
  assumes "x \<in> set (row_update key k f rows)"
  obtains r where "r \<in> set rows" "key r = k" "x = f r" | "x \<in> set rows" "key x \<noteq> k"
  using assms by (auto simp: set_row_update split: if_splits)

lemma filter_row_update_unchanged:
  assumes "\<And>r. P (f r) \<longleftrightarrow> P r" and "\<And>r. P r \<Longrightarrow> g (f r) = g r"
  shows "map g (filter P (row_update key k f rows)) = map g (filter P rows)"
  using assms by (induction rows) auto

text \<open>
  Totals over the rows that satisfy a predicate: what an update of one row does to them.  The
  accounting lemmas of the firm-offer ledger are instances.
\<close>

definition total :: "('r \<Rightarrow> bool) \<Rightarrow> ('r \<Rightarrow> int) \<Rightarrow> 'r list \<Rightarrow> int" where
  "total P g rows = sum_list (map g (filter P rows))"

lemma total_Nil [simp]: "total P g [] = 0"
  by (simp add: total_def)

lemma total_Cons [simp]: "total P g (r # rows) = (if P r then g r else 0) + total P g rows"
  by (simp add: total_def)

lemma total_append [simp]: "total P g (rows @ rows') = total P g rows + total P g rows'"
  by (simp add: total_def)

lemma total_nonneg: "(\<And>r. r \<in> set rows \<Longrightarrow> 0 \<le> g r) \<Longrightarrow> 0 \<le> total P g rows"
  by (induction rows) auto

lemma total_cong:
  "(\<And>r. r \<in> set rows \<Longrightarrow> P r \<longleftrightarrow> Q r) \<Longrightarrow> (\<And>r. r \<in> set rows \<Longrightarrow> P r \<Longrightarrow> g r = h r)
   \<Longrightarrow> total P g rows = total Q h rows"
  by (induction rows) auto

lemma total_row_update:
  assumes "distinct (map key rows)" and "row_find key k rows = Some r"
  shows "total P g (row_update key k f rows) =
     total P g rows - (if P r then g r else 0) + (if P (f r) then g (f r) else 0)"
  using assms
proof (induction rows)
  case Nil
  then show ?case by simp
next
  case (Cons x rows)
  show ?case
  proof (cases "key x = k")
    case True
    with Cons.prems have "k \<notin> key ` set rows" by auto
    with True Cons.prems show ?thesis by (simp add: row_update_absent)
  next
    case False
    with Cons show ?thesis by simp
  qed
qed

lemma length_filter_total: "int (length (filter P rows)) = total P (\<lambda>_. 1) rows"
  by (induction rows) auto

text \<open>
  The interface a table offers to the operations of a store: rows with a key column, the lookup
  and the update.  The client lemmas are proved once here and interpreted for every table.
\<close>

locale table =
  fixes rows :: "'s \<Rightarrow> 'r list"
    and key :: "'r \<Rightarrow> 'k"
    and lookup :: "'s \<Rightarrow> 'k \<Rightarrow> 'r option"
    and modify :: "'k \<Rightarrow> ('r \<Rightarrow> 'r) \<Rightarrow> 's \<Rightarrow> 's"
  assumes lookup_rows: "lookup s k = row_find key k (rows s)"
    and rows_modify: "rows (modify k f s) = row_update key k f (rows s)"
begin

lemma lookup_modify:
  assumes "\<And>r. key (f r) = key r"
  shows "lookup (modify k f s) k' = (if k' = k then map_option f (lookup s k') else lookup s k')"
  using assms by (simp add: lookup_rows rows_modify row_find_update)

lemma keys_modify:
  assumes "\<And>r. key (f r) = key r"
  shows "map key (rows (modify k f s)) = map key (rows s)"
  using assms by (simp add: rows_modify map_row_update)

lemma lookup_SomeD: "lookup s k = Some r \<Longrightarrow> r \<in> set (rows s) \<and> key r = k"
  unfolding lookup_rows by (rule row_find_SomeD)

lemma total_modify:
  assumes "distinct (map key (rows s))" and "lookup s k = Some r"
  shows "total P g (rows (modify k f s)) =
     total P g (rows s) - (if P r then g r else 0) + (if P (f r) then g (f r) else 0)"
  unfolding rows_modify
  by (rule total_row_update [OF assms(1)]) (use assms(2) in \<open>simp add: lookup_rows\<close>)

lemma lookup_member:
  "distinct (map key (rows s)) \<Longrightarrow> r \<in> set (rows s) \<Longrightarrow> lookup s (key r) = Some r"
  by (simp add: lookup_rows row_find_distinct)

end

section \<open>Invariants of state machines\<close>

text \<open>
  A machine is an initial state and a step relation.  An invariant that holds at the start and is
  kept by every step holds in every reachable state.
\<close>

inductive reachable :: "('s \<Rightarrow> bool) \<Rightarrow> ('s \<Rightarrow> 's \<Rightarrow> bool) \<Rightarrow> 's \<Rightarrow> bool"
  for init :: "'s \<Rightarrow> bool" and step :: "'s \<Rightarrow> 's \<Rightarrow> bool" where
  reach_init: "init s \<Longrightarrow> reachable init step s"
| reach_step: "reachable init step s \<Longrightarrow> step s t \<Longrightarrow> reachable init step t"

locale machine =
  fixes init :: "'s \<Rightarrow> bool" and step :: "'s \<Rightarrow> 's \<Rightarrow> bool" and inv :: "'s \<Rightarrow> bool"
  assumes inv_init: "init s \<Longrightarrow> inv s"
    and inv_step: "inv s \<Longrightarrow> step s t \<Longrightarrow> inv t"
begin

lemma inv_reachable: "reachable init step s \<Longrightarrow> inv s"
  by (induction rule: reachable.induct) (auto intro: inv_init inv_step)

end

end
