(* ===== verification/JS_Values.thy ===== *)
theory JS_Values
  imports Prelude
begin

text \<open>
  The part of JavaScript the sources rely on: plain data values, \<^verbatim>\<open>String(...)\<close>,
  \<^verbatim>\<open>BigInt(...)\<close>, \<^verbatim>\<open>Number.isSafeInteger\<close>, arithmetic on integral doubles, the
  regular expressions the validators use, and the decimal round trip that lets the model keep a
  canonical decimal string as the integer it denotes.
\<close>

section \<open>Values\<close>

text \<open>
  \<open>JInt\<close> is a number with a safe integral value, \<open>JNumX\<close> any other number with its printed
  form and, where it is integral, its value, \<open>JBigInt\<close> a bigint.  \<open>JObj\<close> is a plain object with enumerable data
  properties, in insertion order.  Characters are the code units below 256.
\<close>

datatype jsval =
    JUndefined
  | JNull
  | JBool bool
  | JInt int
  | JNumX string "int option"
  | JBigInt int
  | JStr string
  | JArr "jsval list"
  | JObj "(string \<times> jsval) list"

definition MAX_SAFE_INTEGER :: int where
  "MAX_SAFE_INTEGER = 9007199254740991"

fun js_get :: "jsval \<Rightarrow> string \<Rightarrow> jsval" where
  "js_get (JObj kvs) k = (case map_of kvs k of None \<Rightarrow> JUndefined | Some v \<Rightarrow> v)"
| "js_get _ k = JUndefined"

fun js_keys :: "jsval \<Rightarrow> string list" where
  "js_keys (JObj kvs) = map fst kvs"
| "js_keys _ = []"

fun isSafeInteger :: "jsval \<Rightarrow> bool" where
  "isSafeInteger (JInt i) = (\<bar>i\<bar> \<le> MAX_SAFE_INTEGER)"
| "isSafeInteger _ = False"

text \<open>
  Truthiness, and strict equality on the values the sources compare with it: primitives.  Two
  array or object values are distinct references.
\<close>

fun js_truthy :: "jsval \<Rightarrow> bool" where
  "js_truthy JUndefined = False"
| "js_truthy JNull = False"
| "js_truthy (JBool b) = b"
| "js_truthy (JInt i) = (i \<noteq> 0)"
| "js_truthy (JNumX s i) = (s \<noteq> ''NaN'')"
| "js_truthy (JBigInt i) = (i \<noteq> 0)"
| "js_truthy (JStr s) = (s \<noteq> [])"
| "js_truthy (JArr vs) = True"
| "js_truthy (JObj kvs) = True"

fun js_strict_eq :: "jsval \<Rightarrow> jsval \<Rightarrow> bool" where
  "js_strict_eq (JNumX s i) w = (s \<noteq> ''NaN'' \<and> w = JNumX s i)"
| "js_strict_eq (JArr vs) w = False"
| "js_strict_eq (JObj kvs) w = False"
| "js_strict_eq v w = (v = w)"

lemma js_strict_eq_imp: "js_strict_eq v w \<Longrightarrow> v = w"
  by (cases v) auto

text \<open>A destructured parameter with a default value.\<close>

definition js_default :: "jsval \<Rightarrow> jsval \<Rightarrow> jsval" where
  "js_default v d = (if v = JUndefined then d else v)"

section \<open>Decimal notation\<close>

definition is_digit :: "char \<Rightarrow> bool" where
  "is_digit c \<longleftrightarrow> c \<in> set ''0123456789''"

text \<open>The same pattern on the bits of a character, for evaluation.\<close>

lemma is_digit_bits [code]:
  "is_digit (Char b0 b1 b2 b3 b4 b5 b6 b7) \<longleftrightarrow> \<not> b7 \<and> \<not> b6 \<and> b5 \<and> b4 \<and> \<not> (b3 \<and> (b2 \<or> b1))"
  by (cases b0; cases b1; cases b2; cases b3; cases b4; cases b5; cases b6; cases b7) (simp_all add: is_digit_def)

definition digit_char :: "int \<Rightarrow> char" where
  "digit_char d = ''0123456789'' ! nat d"

definition digit_val :: "char \<Rightarrow> int" where
  "digit_val c = int (of_char c) - 48"

function dec_str :: "int \<Rightarrow> string" where
  "dec_str n = (if n < 10 then [digit_char n] else dec_str (n div 10) @ [digit_char (n mod 10)])"
  by pat_completeness auto
termination
  by (relation "measure nat") auto

declare dec_str.simps [simp del]

definition int_str :: "int \<Rightarrow> string" where
  "int_str i = (if i < 0 then CHR ''-'' # dec_str (- i) else dec_str i)"

definition dec_val :: "string \<Rightarrow> int" where
  "dec_val s = foldl (\<lambda>a c. 10 * a + digit_val c) 0 s"

text \<open>The pattern \<^verbatim>\<open>/^(?:0|[1-9][0-9]*)$/\<close>.\<close>

definition is_uint :: "string \<Rightarrow> bool" where
  "is_uint s \<longleftrightarrow> s = ''0'' \<or> (s \<noteq> [] \<and> list_all is_digit s \<and> hd s \<noteq> CHR ''0'')"

lemma digit_cases: "0 \<le> d \<Longrightarrow> d < 10 \<Longrightarrow>
    d = 0 \<or> d = 1 \<or> d = 2 \<or> d = 3 \<or> d = 4 \<or> d = 5 \<or> d = 6 \<or> d = 7 \<or> d = 8 \<or> d = (9::int)"
  by arith

lemma digit_val_char [simp]: "0 \<le> d \<Longrightarrow> d < 10 \<Longrightarrow> digit_val (digit_char d) = d"
  using digit_cases [of d] by (auto simp: digit_val_def digit_char_def)

lemma is_digit_char [simp]: "0 \<le> d \<Longrightarrow> d < 10 \<Longrightarrow> is_digit (digit_char d)"
  using digit_cases [of d] by (auto simp: is_digit_def digit_char_def)

lemma digit_char_0: "0 < d \<Longrightarrow> d < 10 \<Longrightarrow> digit_char d \<noteq> CHR ''0''"
  using digit_cases [of d] by (auto simp: digit_char_def)

lemma digit_char_val [simp]: "is_digit c \<Longrightarrow> digit_char (digit_val c) = c"
  by (auto simp: is_digit_def digit_char_def digit_val_def)

lemma digit_val_range: "is_digit c \<Longrightarrow> 0 \<le> digit_val c \<and> digit_val c < 10"
  by (auto simp: is_digit_def digit_val_def)

lemma digit_val_pos: "is_digit c \<Longrightarrow> c \<noteq> CHR ''0'' \<Longrightarrow> 0 < digit_val c"
  by (auto simp: is_digit_def digit_val_def)

lemma dec_val_snoc [simp]: "dec_val (s @ [c]) = 10 * dec_val s + digit_val c"
  by (simp add: dec_val_def)

lemma dec_val_single: "dec_val [c] = digit_val c"
  by (simp add: dec_val_def)

lemma dec_str_nonempty: "dec_str n \<noteq> []"
  by (subst dec_str.simps) simp

lemma dec_str_digits: "0 \<le> n \<Longrightarrow> list_all is_digit (dec_str n)"
proof (induction n rule: dec_str.induct)
  case (1 n)
  then show ?case
    by (subst dec_str.simps) (auto simp: list_all_iff)
qed

lemma dec_val_dec_str: "0 \<le> n \<Longrightarrow> dec_val (dec_str n) = n"
proof (induction n rule: dec_str.induct)
  case (1 n)
  show ?case
  proof (cases "n < 10")
    case True
    with "1.prems" show ?thesis by (subst dec_str.simps) (simp add: dec_val_single)
  next
    case False
    with "1.prems" have "dec_val (dec_str (n div 10)) = n div 10"
      by (intro "1.IH") auto
    with False show ?thesis by (subst dec_str.simps) simp
  qed
qed

lemma dec_str_hd: "0 < n \<Longrightarrow> hd (dec_str n) \<noteq> CHR ''0''"
proof (induction n rule: dec_str.induct)
  case (1 n)
  then show ?case
    by (subst dec_str.simps) (auto simp: digit_char_0 dec_str_nonempty)
qed

lemma is_uint_dec_str: "0 \<le> n \<Longrightarrow> is_uint (dec_str n)"
proof (cases "n = 0")
  case True
  then show ?thesis by (subst dec_str.simps) (simp add: is_uint_def digit_char_def)
next
  case False
  assume "0 \<le> n"
  with False show ?thesis
    by (simp add: is_uint_def dec_str_nonempty dec_str_digits dec_str_hd)
qed

lemma dec_val_nonneg: "list_all is_digit s \<Longrightarrow> 0 \<le> dec_val s"
proof (induction s rule: rev_induct)
  case Nil
  then show ?case by (simp add: dec_val_def)
next
  case (snoc c s)
  then show ?case using digit_val_range [of c] by auto
qed

lemma dec_val_pos:
  "list_all is_digit s \<Longrightarrow> s \<noteq> [] \<Longrightarrow> hd s \<noteq> CHR ''0'' \<Longrightarrow> 0 < dec_val s"
proof (induction s rule: rev_induct)
  case Nil
  then show ?case by simp
next
  case (snoc c s)
  show ?case
  proof (cases "s = []")
    case True
    with snoc.prems show ?thesis by (simp add: dec_val_single digit_val_pos)
  next
    case False
    with snoc have "0 < dec_val s" by auto
    with snoc.prems digit_val_range [of c] show ?thesis by auto
  qed
qed

lemma dec_str_dec_val:
  "list_all is_digit s \<Longrightarrow> s \<noteq> [] \<Longrightarrow> hd s \<noteq> CHR ''0'' \<Longrightarrow> dec_str (dec_val s) = s"
proof (induction s rule: rev_induct)
  case Nil
  then show ?case by simp
next
  case (snoc c s)
  from snoc.prems have c: "is_digit c" by simp
  show ?case
  proof (cases "s = []")
    case True
    with c digit_val_range [OF c] show ?thesis
      by (subst dec_str.simps) (simp add: dec_val_single)
  next
    case False
    with snoc.prems have "0 < dec_val s" by (intro dec_val_pos) auto
    with digit_val_range [OF c]
    have big: "\<not> dec_val (s @ [c]) < 10" and d: "dec_val (s @ [c]) div 10 = dec_val s"
      and m: "dec_val (s @ [c]) mod 10 = digit_val c"
      by simp_all
    have "dec_str (dec_val s) = s" using snoc False by auto
    with big d m c show ?thesis by (subst dec_str.simps) simp
  qed
qed

lemma dec_str_0 [simp]: "dec_str 0 = ''0''"
  by (subst dec_str.simps) (simp add: digit_char_def)

lemma is_uint_iff: "is_uint s \<longleftrightarrow> (\<exists>n \<ge> 0. s = dec_str n)"
proof
  assume s: "is_uint s"
  show "\<exists>n \<ge> 0. s = dec_str n"
  proof (cases "s = ''0''")
    case True
    then show ?thesis by (intro exI [of _ 0]) simp
  next
    case False
    with s have "dec_str (dec_val s) = s" and "0 \<le> dec_val s"
      by (auto simp: is_uint_def dec_str_dec_val dec_val_nonneg)
    then show ?thesis by metis
  qed
qed (auto simp: is_uint_dec_str)

lemma dec_str_inject: "0 \<le> m \<Longrightarrow> 0 \<le> n \<Longrightarrow> dec_str m = dec_str n \<longleftrightarrow> m = n"
  using dec_val_dec_str by metis

lemma dec_str_length_mono: "0 \<le> n \<Longrightarrow> n \<le> m \<Longrightarrow> length (dec_str n) \<le> length (dec_str m)"
proof (induction m arbitrary: n rule: dec_str.induct)
  case (1 m)
  show ?case
  proof (cases "m < 10")
    case True
    with "1.prems" show ?thesis by (simp add: dec_str.simps [of n] dec_str.simps [of m])
  next
    case False
    have "length (dec_str (n div 10)) \<le> length (dec_str (m div 10))"
      by (rule "1.IH") (use False "1.prems" in \<open>auto simp: zdiv_mono1\<close>)
    with False show ?thesis
      by (simp add: dec_str.simps [of n] dec_str.simps [of m])
  qed
qed

section \<open>String and BigInt conversion\<close>

fun js_join :: "string list \<Rightarrow> string" where
  "js_join [] = ''''"
| "js_join [s] = s"
| "js_join (s # t # ss) = s @ '','' @ js_join (t # ss)"

text \<open>\<^verbatim>\<open>String(value)\<close>; array elements that are null or undefined print as nothing.\<close>

fun js_String :: "jsval \<Rightarrow> string" where
  "js_String JUndefined = ''undefined''"
| "js_String JNull = ''null''"
| "js_String (JBool b) = (if b then ''true'' else ''false'')"
| "js_String (JInt i) = int_str i"
| "js_String (JNumX s i) = s"
| "js_String (JBigInt i) = int_str i"
| "js_String (JStr s) = s"
| "js_String (JArr vs) =
     js_join (map (\<lambda>v. if v = JUndefined \<or> v = JNull then '''' else js_String v) vs)"
| "js_String (JObj kvs) = ''[object Object]''"

text \<open>\<^verbatim>\<open>String(value ?? "")\<close>.\<close>

definition js_text :: "jsval \<Rightarrow> string" where
  "js_text v = (if v = JUndefined \<or> v = JNull then '''' else js_String v)"

definition is_space :: "char \<Rightarrow> bool" where
  "is_space c \<longleftrightarrow> of_char c \<in> {9, 10, 11, 12, 13, 32, 160 :: nat}"

definition js_trim :: "string \<Rightarrow> string" where
  "js_trim s = rev (dropWhile is_space (rev (dropWhile is_space s)))"

definition hex_val :: "char \<Rightarrow> int" where
  "hex_val c = (let n = int (of_char c) in
     if n \<le> 57 then n - 48 else if n \<le> 70 then n - 55 else n - 87)"

definition radix_val :: "int \<Rightarrow> string \<Rightarrow> int" where
  "radix_val b s = foldl (\<lambda>a c. b * a + hex_val c) 0 s"

definition is_hex :: "char \<Rightarrow> bool" where
  "is_hex c \<longleftrightarrow> c \<in> set ''0123456789abcdefABCDEF''"

text \<open>The grammar of \<^verbatim>\<open>BigInt(string)\<close>: blanks around, a signed decimal or a prefixed literal.\<close>

definition string_to_bigint :: "string \<Rightarrow> int option" where
  "string_to_bigint raw = (let s = js_trim raw; p = take 2 s; t = drop 2 s in
     if s = [] then Some 0
     else if list_all is_digit s then Some (dec_val s)
     else if hd s = CHR ''-'' \<and> tl s \<noteq> [] \<and> list_all is_digit (tl s) then Some (- dec_val (tl s))
     else if hd s = CHR ''+'' \<and> tl s \<noteq> [] \<and> list_all is_digit (tl s) then Some (dec_val (tl s))
     else if (p = ''0x'' \<or> p = ''0X'') \<and> t \<noteq> [] \<and> list_all is_hex t then Some (radix_val 16 t)
     else if (p = ''0o'' \<or> p = ''0O'') \<and> t \<noteq> [] \<and> list_all (\<lambda>c. c \<in> set ''01234567'') t
       then Some (radix_val 8 t)
     else if (p = ''0b'' \<or> p = ''0B'') \<and> t \<noteq> [] \<and> list_all (\<lambda>c. c \<in> set ''01'') t
       then Some (radix_val 2 t)
     else None)"

text \<open>
  \<^verbatim>\<open>BigInt(value)\<close>, \<open>None\<close> where it throws.  A number converts when it is integral.
\<close>

fun js_BigInt :: "jsval \<Rightarrow> int option" where
  "js_BigInt JUndefined = None"
| "js_BigInt JNull = None"
| "js_BigInt (JBool b) = Some (if b then 1 else 0)"
| "js_BigInt (JInt i) = Some i"
| "js_BigInt (JNumX s i) = i"
| "js_BigInt (JBigInt i) = Some i"
| "js_BigInt (JStr s) = string_to_bigint s"
| "js_BigInt (JArr vs) = string_to_bigint (js_String (JArr vs))"
| "js_BigInt (JObj kvs) = None"

section \<open>Integral doubles\<close>

text \<open>
  Sums and products of numbers are rounded to 53 significant bits, ties to even.  \<open>dbl_shift\<close>
  counts the low bits that do not fit.
\<close>

function dbl_shift :: "int \<Rightarrow> nat" where
  "dbl_shift n = (if n < 9007199254740992 then 0 else Suc (dbl_shift (n div 2)))"
  by pat_completeness auto
termination
  by (relation "measure nat") auto

declare dbl_shift.simps [simp del]

definition round_half_even :: "int \<Rightarrow> int \<Rightarrow> int" where
  "round_half_even n m = (let q = n div m; r = n mod m in
     m * (if 2 * r < m then q else if 2 * r > m then q + 1 else if even q then q else q + 1))"

definition js_round :: "int \<Rightarrow> int" where
  "js_round i = (if \<bar>i\<bar> \<le> 9007199254740992 then i
     else sgn i * round_half_even \<bar>i\<bar> (2 ^ dbl_shift \<bar>i\<bar>))"

definition num_add :: "int \<Rightarrow> int \<Rightarrow> int" where
  "num_add a b = js_round (a + b)"

definition num_sub :: "int \<Rightarrow> int \<Rightarrow> int" where
  "num_sub a b = js_round (a - b)"

definition num_mul :: "int \<Rightarrow> int \<Rightarrow> int" where
  "num_mul a b = js_round (a * b)"

lemma js_round_exact [simp]: "\<bar>i\<bar> \<le> 9007199254740992 \<Longrightarrow> js_round i = i"
  by (simp add: js_round_def)

lemma dbl_shift_bound:
  "9007199254740992 \<le> n \<Longrightarrow> 4503599627370496 * 2 ^ dbl_shift n \<le> n"
proof (induction n rule: dbl_shift.induct)
  case (1 n)
  show ?case
  proof (cases "n div 2 < 9007199254740992")
    case True
    with "1.prems" show ?thesis
      by (simp add: dbl_shift.simps [of n] dbl_shift.simps [of "n div 2"])
  next
    case False
    with "1" have "4503599627370496 * 2 ^ dbl_shift (n div 2) \<le> n div 2" by simp
    with "1.prems" show ?thesis by (simp add: dbl_shift.simps [of n])
  qed
qed

lemma round_half_even_ge:
  assumes "0 < m" and "k * m \<le> n"
  shows "k * m \<le> round_half_even n m"
proof -
  from assms have "k \<le> n div m"
    by (metis nonzero_mult_div_cancel_right order_less_irrefl zdiv_mono1)
  then have "k * m \<le> m * (n div m)" and "k * m \<le> m * (n div m + 1)"
    using assms(1) by (simp_all add: mult.commute mult_left_mono)
  then show ?thesis by (simp add: round_half_even_def Let_def)
qed

lemma dbl_shift_pos: "9007199254740992 \<le> n \<Longrightarrow> 1 \<le> dbl_shift n"
  by (subst dbl_shift.simps) simp

lemma js_round_big: "9007199254740992 < i \<Longrightarrow> 9007199254740992 \<le> js_round i"
proof -
  assume i: "9007199254740992 < i"
  let ?m = "2 ^ dbl_shift i :: int"
  have "4503599627370496 * ?m \<le> i" using dbl_shift_bound [of i] i by simp
  then have "4503599627370496 * ?m \<le> round_half_even i ?m"
    by (rule round_half_even_ge [rotated]) simp
  moreover have "(2::int) ^ 1 \<le> ?m"
    using dbl_shift_pos [of i] i by (intro power_increasing) auto
  ultimately have "9007199254740992 \<le> round_half_even i ?m" by simp
  with i show ?thesis by (simp add: js_round_def)
qed

text \<open>A rounded sum compares with a safe integer as the exact sum does.\<close>

lemma js_round_minus: "js_round (- i) = - js_round i"
  by (simp add: js_round_def sgn_if)

lemma js_round_less_iff:
  assumes "- 9007199254740992 < e" and "e \<le> 9007199254740992"
  shows "js_round i < e \<longleftrightarrow> i < e"
proof -
  consider "\<bar>i\<bar> \<le> 9007199254740992" | "9007199254740992 < i" | "9007199254740992 < - i" by linarith
  then show ?thesis
  proof cases
    case 2
    with js_round_big [of i] assms show ?thesis by linarith
  next
    case 3
    with js_round_big [of "- i"] js_round_minus [of i] assms show ?thesis by linarith
  qed simp
qed

lemma js_round_ge_iff:
  "- 9007199254740992 < e \<Longrightarrow> e \<le> 9007199254740992 \<Longrightarrow> e \<le> js_round i \<longleftrightarrow> e \<le> i"
  using js_round_less_iff [of e i] by linarith

section \<open>Validators shared by the modules\<close>

text \<open>The lower-case byte patterns \<^verbatim>\<open>/^0x[0-9a-f]{64}$/\<close> and \<^verbatim>\<open>/^0x[0-9a-f]{40}$/\<close>.\<close>

definition is_hex_lower :: "char \<Rightarrow> bool" where
  "is_hex_lower c \<longleftrightarrow> c \<in> set ''0123456789abcdef''"

lemma is_hex_lower_bits [code]:
  "is_hex_lower (Char b0 b1 b2 b3 b4 b5 b6 b7) \<longleftrightarrow> \<not> b7 \<and> b5 \<and>
     (if b6 then \<not> b4 \<and> \<not> b3 \<and> (b2 \<or> b1 \<or> b0) \<and> \<not> (b2 \<and> b1 \<and> b0) else b4 \<and> \<not> (b3 \<and> (b2 \<or> b1)))"
  by (cases b0; cases b1; cases b2; cases b3; cases b4; cases b5; cases b6; cases b7) (simp_all add: is_hex_lower_def)

definition is_bytes32 :: "string \<Rightarrow> bool" where
  "is_bytes32 s \<longleftrightarrow> length s = 66 \<and> take 2 s = ''0x'' \<and> list_all is_hex_lower (drop 2 s)"

definition is_address :: "string \<Rightarrow> bool" where
  "is_address s \<longleftrightarrow> length s = 42 \<and> take 2 s = ''0x'' \<and> list_all is_hex_lower (drop 2 s)"

text \<open>The mixed-case pattern \<^verbatim>\<open>/^0x[0-9a-fA-F]{64}$/\<close>.\<close>

definition is_bytes32_mixed :: "string \<Rightarrow> bool" where
  "is_bytes32_mixed s \<longleftrightarrow> length s = 66 \<and> take 2 s = ''0x'' \<and> list_all is_hex (drop 2 s)"

definition zero_bytes32 :: string where
  "zero_bytes32 = ''0x'' @ replicate 64 (CHR ''0'')"

definition char_lower :: "char \<Rightarrow> char" where
  "char_lower c = (if 65 \<le> (of_char c :: nat) \<and> (of_char c :: nat) \<le> 90
     then char_of ((of_char c :: nat) + 32) else c)"

definition toLowerCase :: "string \<Rightarrow> string" where
  "toLowerCase s = map char_lower s"

text \<open>
  \<^verbatim>\<open>integer(value, name)\<close>: a non-negative safe integer or a TypeError; every module that
  validates numbers has this function.
\<close>

definition integer :: "jsval \<Rightarrow> string \<Rightarrow> int result" where
  "integer v name = (case v of
       JInt i \<Rightarrow> if isSafeInteger v \<and> 0 \<le> i then Inr i
         else Inl (TypeError (name @ '' must be a non-negative safe integer''))
     | _ \<Rightarrow> Inl (TypeError (name @ '' must be a non-negative safe integer'')))"

lemma integer_Inr [result_simps]:
  "integer v name = Inr i \<longleftrightarrow> v = JInt i \<and> 0 \<le> i \<and> i \<le> MAX_SAFE_INTEGER"
  by (auto simp: integer_def split: jsval.splits)

text \<open>\<^verbatim>\<open>bigint(value, name)\<close>: a non-negative integer in any form \<^verbatim>\<open>BigInt\<close> reads.\<close>

definition bigint :: "jsval \<Rightarrow> string \<Rightarrow> int result" where
  "bigint v name = (case js_BigInt v of
       None \<Rightarrow> Inl (TypeError (name @ '' must be a non-negative integer''))
     | Some i \<Rightarrow> if i < 0 then Inl (TypeError (name @ '' must be a non-negative integer'')) else Inr i)"

lemma bigint_Inr [result_simps]: "bigint v name = Inr i \<longleftrightarrow> js_BigInt v = Some i \<and> 0 \<le> i"
  by (auto simp: bigint_def split: option.splits)

text \<open>\<^verbatim>\<open>addReason(reasons, condition, reason)\<close>: reasons collect in order.\<close>

definition addReason :: "bool \<Rightarrow> string \<Rightarrow> string list" where
  "addReason condition reason = (if condition then [reason] else [])"

lemma addReason_Nil [simp]: "addReason c r = [] \<longleftrightarrow> \<not> c"
  by (simp add: addReason_def)

text \<open>\<^verbatim>\<open>reasons.join("; ")\<close>\<close>

fun join_reasons :: "string list \<Rightarrow> string" where
  "join_reasons [] = ''''"
| "join_reasons [r] = r"
| "join_reasons (r # q # rs) = r @ ''; '' @ join_reasons (q # rs)"

end
