(* ===== verification/Canonical_Digest.thy ===== *)
theory Canonical_Digest
  imports JS_Values
begin

text \<open>
  Canonical JSON and the record digests of the coordinator store, and the validators its
  normalizers are built from (\<^verbatim>\<open>src/lib/coordinator-store.mjs\<close>).  The hash itself is the
  native SHA-256 of the runtime: it is the parameter \<open>H\<close>, from a text to its hexadecimal digest.
\<close>

section \<open>Canonical JSON\<close>

definition json_char :: "char \<Rightarrow> string" where
  "json_char c = (let n = (of_char c :: nat); hex = ''0123456789abcdef'' in
     if c = CHR 0x22 then [CHR 0x5C, CHR 0x22]
     else if c = CHR 0x5C then [CHR 0x5C, CHR 0x5C]
     else if n = 8 then [CHR 0x5C, CHR ''b'']
     else if n = 9 then [CHR 0x5C, CHR ''t'']
     else if n = 10 then [CHR 0x5C, CHR ''n'']
     else if n = 12 then [CHR 0x5C, CHR ''f'']
     else if n = 13 then [CHR 0x5C, CHR ''r'']
     else if n < 32 then [CHR 0x5C, CHR ''u'', CHR ''0'', CHR ''0'', hex ! (n div 16), hex ! (n mod 16)]
     else [c])"

text \<open>For evaluation: a printable character that is neither a quote nor a backslash stands for itself.\<close>

definition json_escape :: "char \<Rightarrow> string" where
  "json_escape c = (let n = (of_char c :: nat); hex = ''0123456789abcdef'' in
     if c = CHR 0x22 then [CHR 0x5C, CHR 0x22]
     else if c = CHR 0x5C then [CHR 0x5C, CHR 0x5C]
     else if n = 8 then [CHR 0x5C, CHR ''b'']
     else if n = 9 then [CHR 0x5C, CHR ''t'']
     else if n = 10 then [CHR 0x5C, CHR ''n'']
     else if n = 12 then [CHR 0x5C, CHR ''f'']
     else if n = 13 then [CHR 0x5C, CHR ''r'']
     else if n < 32 then [CHR 0x5C, CHR ''u'', CHR ''0'', CHR ''0'', hex ! (n div 16), hex ! (n mod 16)]
     else [c])"

lemma json_char_bits [code]:
  "json_char (Char b0 b1 b2 b3 b4 b5 b6 b7) =
     (if (b6 \<or> b7 \<or> b5 \<and> \<not> (b1 \<and> \<not> b0 \<and> \<not> b2 \<and> \<not> b3 \<and> \<not> b4)) \<and>
         \<not> (b6 \<and> \<not> b7 \<and> \<not> b5 \<and> b4 \<and> b3 \<and> b2 \<and> \<not> b1 \<and> \<not> b0)
      then [Char b0 b1 b2 b3 b4 b5 b6 b7] else json_escape (Char b0 b1 b2 b3 b4 b5 b6 b7))"
  by (cases b0; cases b1; cases b2; cases b3; cases b4; cases b5; cases b6; cases b7)
    (simp_all add: json_char_def json_escape_def)

text \<open>\<^verbatim>\<open>JSON.stringify\<close> of a string.\<close>

definition json_string :: "string \<Rightarrow> string" where
  "json_string s = [CHR 0x22] @ concat (map json_char s) @ [CHR 0x22]"

lemma jsval_size_obj: "(k, v) \<in> set kvs \<Longrightarrow> size v < Suc (size_list (size_prod (\<lambda>_. 0) size) kvs)"
  by (induction kvs) auto

function canonicalize :: "jsval \<Rightarrow> string result" where
  "canonicalize JNull = Inr ''null''"
| "canonicalize (JBool b) = Inr (if b then ''true'' else ''false'')"
| "canonicalize (JStr s) = Inr (json_string s)"
| "canonicalize (JInt i) =
     (if isSafeInteger (JInt i) then Inr (int_str i)
      else Inl (TypeError ''canonical numbers must be safe integers''))"
| "canonicalize (JNumX s i) = Inl (TypeError ''canonical numbers must be safe integers'')"
| "canonicalize (JArr vs) =
     bindE (mapE canonicalize vs) (\<lambda>ts. Inr (''['' @ js_join ts @ '']''))"
| "canonicalize (JObj kvs) =
     bindE (mapE (\<lambda>(k, v). bindE (canonicalize v) (\<lambda>t. Inr (json_string k @ '':'' @ t)))
       (sort_key fst kvs)) (\<lambda>ts. Inr (''{'' @ js_join ts @ ''}''))"
| "canonicalize JUndefined = Inl (TypeError ''canonical value contains an unsupported type'')"
| "canonicalize (JBigInt i) = Inl (TypeError ''canonical value contains an unsupported type'')"
  by pat_completeness auto

termination
  by (relation "measure size") (auto simp: jsval_size_obj less_Suc_eq_le size_list_estimation')

definition digest :: "(string \<Rightarrow> string) \<Rightarrow> jsval \<Rightarrow> string result" where
  "digest H v = bindE (canonicalize v) (\<lambda>text. Inr (''0x'' @ H text))"

text \<open>The digest of an invoice text (\<^verbatim>\<open>src/lib/lnd-rest-client.mjs\<close>).\<close>

definition invoiceDigest :: "(string \<Rightarrow> string) \<Rightarrow> string \<Rightarrow> string" where
  "invoiceDigest H paymentRequest = ''0x'' @ H paymentRequest"

section \<open>Validators\<close>

definition exactKeys :: "jsval \<Rightarrow> string list \<Rightarrow> string \<Rightarrow> unit result" where
  "exactKeys v expected name = (case v of
     JObj kvs \<Rightarrow> if sort (map fst kvs) = sort expected then Inr ()
       else Inl (TypeError (name @ '' fields are not exact''))
   | _ \<Rightarrow> Inl (TypeError (name @ '' must be an object'')))"

definition bytes32 :: "jsval \<Rightarrow> string \<Rightarrow> string result" where
  "bytes32 v name = (let raw = js_text v in
     if is_bytes32 raw then Inr raw else Inl (TypeError (name @ '' must be lowercase bytes32'')))"

definition address :: "jsval \<Rightarrow> string \<Rightarrow> string result" where
  "address v name = (let raw = js_text v in
     if is_address raw then Inr raw else Inl (TypeError (name @ '' must be a lowercase Ethereum address'')))"

text \<open>
  A canonical unsigned decimal.  The text is kept as the integer it denotes: the decimal notation is
  canonical (\<open>is_uint_iff\<close>, \<open>dec_str_inject\<close>), so equality of texts is equality of integers.
\<close>

definition uint :: "jsval \<Rightarrow> string \<Rightarrow> bool \<Rightarrow> int option \<Rightarrow> int result" where
  "uint v name nonzero maximum = (let raw = js_text v; parsed = dec_val raw in
     if \<not> is_uint raw then Inl (TypeError (name @ '' must be a canonical unsigned decimal string''))
     else if nonzero \<and> parsed = 0 then Inl (RangeError (name @ '' must be non-zero''))
     else if (case maximum of None \<Rightarrow> False | Some m \<Rightarrow> parsed > m)
     then Inl (RangeError (name @ '' exceeds its maximum''))
     else Inr parsed)"

definition UINT64_MAX :: int where
  "UINT64_MAX = 18446744073709551615"

definition UINT256_MAX :: int where
  "UINT256_MAX = 2 ^ 256 - 1"

definition is_upper :: "char \<Rightarrow> bool" where
  "is_upper c \<longleftrightarrow> c \<in> set ''ABCDEFGHIJKLMNOPQRSTUVWXYZ''"

text \<open>The pattern \<^verbatim>\<open>/^[A-Z][A-Z0-9_]{0,63}$/\<close>.\<close>

definition is_code :: "string \<Rightarrow> bool" where
  "is_code s \<longleftrightarrow> s \<noteq> [] \<and> length s \<le> 64 \<and> is_upper (hd s)
     \<and> list_all (\<lambda>c. is_upper c \<or> is_digit c \<or> c = CHR ''_'') (tl s)"

definition code_text :: "jsval \<Rightarrow> string \<Rightarrow> string result" where
  "code_text v name = (let raw = js_text v in
     if is_code raw then Inr raw else Inl (TypeError (name @ '' must be a bounded machine code'')))"

definition boundedInteger :: "jsval \<Rightarrow> int \<Rightarrow> int \<Rightarrow> string \<Rightarrow> int result" where
  "boundedInteger v minimum maximum name = (case v of
       JInt i \<Rightarrow> if isSafeInteger v \<and> minimum \<le> i \<and> i \<le> maximum then Inr i
         else Inl (TypeError (name @ '' is outside policy''))
     | _ \<Rightarrow> Inl (TypeError (name @ '' is outside policy'')))"

section \<open>Facts\<close>

lemma bytes32_Inr [result_simps]: "bytes32 v name = Inr x \<longleftrightarrow> is_bytes32 x \<and> js_text v = x"
  by (auto simp: bytes32_def Let_def)

lemma address_Inr [result_simps]: "address v name = Inr x \<longleftrightarrow> is_address x \<and> js_text v = x"
  by (auto simp: address_def Let_def)

lemma code_text_Inr [result_simps]: "code_text v name = Inr x \<longleftrightarrow> is_code x \<and> js_text v = x"
  by (auto simp: code_text_def Let_def)

lemma exactKeys_Inr: "exactKeys v ks name = Inr u \<longleftrightarrow> (\<exists>kvs. v = JObj kvs \<and> sort (map fst kvs) = sort ks)"
  by (auto simp: exactKeys_def split: jsval.splits)

lemma is_uint_nonneg: "is_uint s \<Longrightarrow> 0 \<le> dec_val s"
  by (auto simp: is_uint_iff dec_val_dec_str)

lemma uint_Inr:
  "uint v name nz mx = Inr x \<longleftrightarrow>
     is_uint (js_text v) \<and> dec_val (js_text v) = x \<and> (nz \<longrightarrow> x \<noteq> 0) \<and>
     (\<forall>m. mx = Some m \<longrightarrow> x \<le> m)"
  by (auto simp: uint_def Let_def split: option.splits)

lemma uint_nonneg: "uint v name nz mx = Inr x \<Longrightarrow> 0 \<le> x \<and> js_text v = dec_str x"
  by (auto simp: uint_Inr is_uint_iff dec_val_dec_str)

lemma uint_positive:
  assumes "uint v name True (Some m) = Inr x"
  shows "0 < x \<and> x \<le> m"
proof -
  have "0 \<le> x" using uint_nonneg [OF assms] by blast
  moreover have "x \<noteq> 0 \<and> x \<le> m" using assms unfolding uint_Inr by blast
  ultimately show ?thesis by linarith
qed

lemma boundedInteger_Inr [result_simps]:
  "boundedInteger v lo hi name = Inr i \<longleftrightarrow> v = JInt i \<and> isSafeInteger (JInt i) \<and> lo \<le> i \<and> i \<le> hi"
  by (auto simp: boundedInteger_def split: jsval.splits)

lemma js_text_JStr [simp]: "js_text (JStr s) = s"
  by (simp add: js_text_def)

text \<open>A digest of canonical data is a byte string whenever the hash yields 64 lower-case digits.\<close>

definition hex_digest :: "(string \<Rightarrow> string) \<Rightarrow> bool" where
  "hex_digest H \<longleftrightarrow> (\<forall>t. length (H t) = 64 \<and> list_all is_hex_lower (H t))"

lemma digest_Inr: "digest H v = Inr d \<longleftrightarrow> (\<exists>t. canonicalize v = Inr t \<and> d = ''0x'' @ H t)"
  by (auto simp: digest_def bindE_eq_Inr)

lemma digest_bytes32: "hex_digest H \<Longrightarrow> digest H v = Inr d \<Longrightarrow> is_bytes32 d"
  by (auto simp: digest_Inr is_bytes32_def hex_digest_def)

end
