(* ===== verification/Admission_Policy.thy ===== *)
theory Admission_Policy
  imports JS_Values
begin

text \<open>
  The admission policy, \<^verbatim>\<open>src/lib/admission-policy.mjs\<close>: when a request for quote is
  admitted, when a signed firm offer may reserve solver capacity, and how reservations and outcomes
  move the solver's accounting.  The objects of the source are records; numbers and bigints are
  integers, and every \<^verbatim>\<open>integer(...)\<close> and \<^verbatim>\<open>bigint(...)\<close> range check stays in its place.
\<close>

section \<open>Definitions\<close>

definition BPS :: int where
  "BPS = 10000"

record rfq_request =
  rr_requestId :: string
  rr_user :: string
  rr_direction :: string
  rr_notionalSats :: int
  rr_nonce :: int
  rr_expiresAt :: int

record rfq_identity =
  ri_authenticated :: bool
  ri_key :: string

record rfq_usage =
  us_activeRequests :: int
  us_acceptedInWindow :: int
  us_cancellationsInWindow :: int
  us_cancellationSequence :: int

record admission_policy =
  ap_minimumNotionalSats :: int
  ap_maxRfqTtlSeconds :: int
  ap_maxActiveRequestsPerIdentity :: int
  ap_maxRequestsPerWindow :: int
  ap_maxCancellationsPerWindow :: int
  ap_quotaWindowSeconds :: int
  ap_maxFirmQuoteTtlSeconds :: int
  ap_maxCapacityAgeSeconds :: int
  ap_maxActiveFirmQuotesPerSolver :: int
  ap_maxConsecutiveFailures :: int
  ap_minimumReliabilitySample :: int
  ap_minimumReliabilityBps :: int
  ap_minimumCompletedFillsForEstablished :: int
  ap_unknownSolverMaxBitToLightningSats :: int
  ap_establishedSolverMaxBitToLightningSats :: int
  ap_maxGlobalBitToLightningInFlightSats :: int

text \<open>The solver object, which is also the row of the table \<^verbatim>\<open>solver_capacity\<close>.\<close>

record solver_capacity =
  sv_solverId :: string
  sv_capabilityDigest :: string
  sv_capabilityExpiresAt :: int
  sv_snapshotDigest :: string
  sv_capacityEpoch :: int
  sv_capacityObservedAt :: int
  sv_availableBitWei :: int
  sv_committedBitWei :: int
  sv_availableLightningSats :: int
  sv_committedLightningSats :: int
  sv_activeFirmQuotes :: int
  sv_successfulFills :: int
  sv_attributableFailures :: int
  sv_consecutiveFailures :: int
  sv_suspended :: bool
  sv_capacityConflict :: bool
  sv_version :: int
  sv_createdAt :: int
  sv_updatedAt :: int

record firm_offer_terms =
  ot_direction :: string
  ot_capabilityDigest :: string
  ot_bitAmountWei :: int
  ot_lightningAmountSats :: int
  ot_maxRoutingFeeSats :: int
  ot_capacityEpoch :: int
  ot_expiresAt :: int
  ot_solverSigned :: bool

definition sameIdentity :: "string \<Rightarrow> string \<Rightarrow> bool" where
  "sameIdentity left right \<longleftrightarrow> toLowerCase left = toLowerCase right"

record rfq_assessment =
  ra_allowed :: bool
  ra_reasons :: "string list"
  ra_inventoryReserved :: bool
  ra_nextUsage :: "rfq_usage option"

definition assessRfqAdmission ::
    "rfq_request \<Rightarrow> rfq_identity \<Rightarrow> rfq_usage \<Rightarrow> admission_policy \<Rightarrow> int \<Rightarrow> rfq_assessment result" where
  "assessRfqAdmission request identity usage policy now =
     bindE (integer (JInt now) ''now'') (\<lambda>observedAt.
     bindE (integer (JInt (rr_expiresAt request)) ''request.expiresAt'') (\<lambda>expiresAt.
     bindE (bigint (JBigInt (rr_notionalSats request)) ''request.notionalSats'') (\<lambda>notionalSats.
     bindE (bigint (JBigInt (rr_nonce request)) ''request.nonce'') (\<lambda>nonce.
     bindE (bigint (JBigInt (ap_minimumNotionalSats policy)) ''policy.minimumNotionalSats'') (\<lambda>minimumNotional.
     bindE (integer (JInt (ap_maxRfqTtlSeconds policy)) ''policy.maxRfqTtlSeconds'') (\<lambda>maxTtl.
     bindE (integer (JInt (us_activeRequests usage)) ''usage.activeRequests'') (\<lambda>activeRequests.
     bindE (integer (JInt (ap_maxActiveRequestsPerIdentity policy)) ''policy.maxActiveRequestsPerIdentity'')
       (\<lambda>maxActive.
     bindE (integer (JInt (us_acceptedInWindow usage)) ''usage.acceptedInWindow'') (\<lambda>accepted.
     bindE (integer (JInt (ap_maxRequestsPerWindow policy)) ''policy.maxRequestsPerWindow'') (\<lambda>maxRequests.
     bindE (integer (JInt (us_cancellationsInWindow usage)) ''usage.cancellationsInWindow'') (\<lambda>cancellations.
     bindE (integer (JInt (ap_maxCancellationsPerWindow policy)) ''policy.maxCancellationsPerWindow'')
       (\<lambda>maxCancellations.
     bindE (bigint (JBigInt (us_cancellationSequence usage)) ''usage.cancellationSequence'') (\<lambda>cancelled.
     let reasons =
       addReason (\<not> ri_authenticated identity) ''authenticated identity required'' @
       addReason (\<not> sameIdentity (ri_key identity) (rr_user request)) ''request identity mismatch'' @
       addReason (\<not> is_bytes32_mixed (rr_requestId request)) ''invalid request identifier'' @
       addReason (rr_direction request \<noteq> ''lightning-to-bit'' \<and> rr_direction request \<noteq> ''bit-to-lightning'')
         ''unsupported direction'' @
       addReason (notionalSats < minimumNotional) ''request is below minimum quantity'' @
       addReason (expiresAt \<le> observedAt) ''request expired'' @
       addReason (expiresAt > num_add observedAt maxTtl) ''request expiry exceeds RFQ limit'' @
       addReason (activeRequests \<ge> maxActive) ''identity has too many active requests'' @
       addReason (accepted \<ge> maxRequests) ''identity request quota exhausted'' @
       addReason (cancellations \<ge> maxCancellations) ''identity cancellation quota exhausted'' @
       addReason (nonce \<le> cancelled) ''request nonce was cancelled or already superseded'' in
     Inr \<lparr>ra_allowed = (reasons = []), ra_reasons = reasons, ra_inventoryReserved = False,
          ra_nextUsage = (if reasons = []
            then Some (usage\<lparr>us_activeRequests := num_add activeRequests 1,
                             us_acceptedInWindow := num_add accepted 1\<rparr>)
            else None)\<rparr>)))))))))))))"

definition solverReliabilityBps :: "solver_capacity \<Rightarrow> int result" where
  "solverReliabilityBps solver =
     bindE (bigint (JBigInt (sv_successfulFills solver)) ''solver.successfulFills'') (\<lambda>successful.
     bindE (bigint (JBigInt (sv_attributableFailures solver)) ''solver.attributableFailures'') (\<lambda>failed.
     Inr (if successful + failed = 0 then BPS else successful * BPS div (successful + failed))))"

record commitment =
  cm_direction :: string
  cm_amount :: int
  cm_bitAmountWei :: int
  cm_lightningAmountSats :: int
  cm_capacityEpoch :: int
  cm_expiresAt :: int

record firm_assessment =
  fa_allowed :: bool
  fa_reasons :: "string list"
  fa_reliabilityBps :: int
  fa_exposureTier :: string
  fa_exposureCapSats :: int
  fa_commitment :: "commitment option"

text \<open>
  The amounts an offer takes from each leg: a Lightning-to-BIT offer reserves BIT and inbound
  Lightning capacity, a BIT-to-Lightning offer the payment and its routing ceiling.
\<close>

definition offer_bit_leg :: "firm_offer_terms \<Rightarrow> int" where
  "offer_bit_leg offer = (if ot_direction offer = ''lightning-to-bit'' then ot_bitAmountWei offer else 0)"

definition offer_lightning_leg :: "firm_offer_terms \<Rightarrow> int" where
  "offer_lightning_leg offer = (if ot_direction offer = ''bit-to-lightning''
     then ot_lightningAmountSats offer + ot_maxRoutingFeeSats offer
     else ot_lightningAmountSats offer)"

definition offer_amount :: "firm_offer_terms \<Rightarrow> int" where
  "offer_amount offer = (if ot_direction offer = ''lightning-to-bit'' then offer_bit_leg offer
     else offer_lightning_leg offer)"

definition exposure_tier :: "int \<Rightarrow> int \<Rightarrow> string" where
  "exposure_tier successful threshold = (if successful \<ge> threshold then ''established'' else ''unknown'')"

text \<open>The reasons of \<open>assessFirmOffer\<close>, in the order the source collects them.\<close>

definition firm_offer_reasons ::
    "firm_offer_terms \<Rightarrow> solver_capacity \<Rightarrow> admission_policy \<Rightarrow> int \<Rightarrow> int \<Rightarrow> string \<Rightarrow> int \<Rightarrow> string list" where
  "firm_offer_reasons offer solver policy observedAt reliabilityBps tier exposureCap =
     addReason (\<not> is_bytes32_mixed (sv_capabilityDigest solver))
       ''solver capability is not cryptographically verified'' @
     addReason (\<not> is_bytes32_mixed (sv_snapshotDigest solver))
       ''solver capacity snapshot is not cryptographically bound'' @
     addReason (sv_suspended solver) ''solver is suspended'' @
     addReason (sv_capacityConflict solver) ''solver capacity conflicts with active commitments'' @
     addReason (\<not> ot_solverSigned offer) ''firm offer lacks solver commitment'' @
     addReason (offer_amount offer \<le> 0) ''firm offer amount must be positive'' @
     addReason (ot_direction offer = ''lightning-to-bit''
         \<and> (offer_bit_leg offer = 0 \<or> offer_lightning_leg offer = 0))
       ''Lightning-to-BIT firm offer requires BIT and inbound Lightning capacity'' @
     addReason (ot_direction offer = ''bit-to-lightning'' \<and> ot_bitAmountWei offer \<noteq> 0)
       ''BIT-to-Lightning firm offer cannot reserve solver BIT'' @
     addReason (ot_expiresAt offer \<le> observedAt) ''firm offer expired'' @
     addReason (ot_expiresAt offer > num_add observedAt (ap_maxFirmQuoteTtlSeconds policy))
       ''firm offer expiry exceeds limit'' @
     addReason (sv_capabilityExpiresAt solver \<le> observedAt) ''solver capability expired'' @
     addReason (ot_expiresAt offer > sv_capabilityExpiresAt solver) ''firm offer outlives solver capability'' @
     addReason (sv_capacityObservedAt solver > observedAt
         \<or> observedAt - sv_capacityObservedAt solver > ap_maxCapacityAgeSeconds policy)
       ''solver capacity is stale'' @
     addReason (ot_capacityEpoch offer \<noteq> sv_capacityEpoch solver) ''solver capacity epoch changed'' @
     addReason (sv_availableBitWei solver < sv_committedBitWei solver
         \<or> sv_availableBitWei solver - sv_committedBitWei solver < offer_bit_leg offer)
       ''firm offer exceeds uncommitted capacity (BIT)'' @
     addReason (sv_availableLightningSats solver < sv_committedLightningSats solver
         \<or> sv_availableLightningSats solver - sv_committedLightningSats solver < offer_lightning_leg offer)
       ''firm offer exceeds uncommitted capacity (Lightning)'' @
     addReason (sv_activeFirmQuotes solver \<ge> ap_maxActiveFirmQuotesPerSolver policy)
       ''solver firm-quote capacity exhausted'' @
     addReason (ot_direction offer = ''bit-to-lightning'' \<and> offer_amount offer > exposureCap)
       (tier @ '' solver BIT-to-Lightning cap exceeded'') @
     addReason (sv_consecutiveFailures solver \<ge> ap_maxConsecutiveFailures policy)
       ''solver failed consecutive firm quotes'' @
     addReason (sv_successfulFills solver + sv_attributableFailures solver \<ge> ap_minimumReliabilitySample policy
         \<and> reliabilityBps < ap_minimumReliabilityBps policy)
       ''solver reliability is below admission floor''"

text \<open>
  The range checks of \<open>assessFirmOffer\<close> in source order: the number or bigint, its name.  The
  capacity age is read only for a snapshot that is not ahead of the clock.
\<close>

definition head_checks :: "firm_offer_terms \<Rightarrow> solver_capacity \<Rightarrow> admission_policy \<Rightarrow> int \<Rightarrow> int result list" where
  "head_checks offer solver policy now =
    [integer (JInt now) ''now'',
     integer (JInt (ot_expiresAt offer)) ''offer.expiresAt'',
     integer (JInt (sv_capacityObservedAt solver)) ''solver.capacityObservedAt'',
     integer (JInt (sv_capabilityExpiresAt solver)) ''solver.capabilityExpiresAt'',
     bigint (JBigInt (ot_bitAmountWei offer)) ''offer.bitAmountWei'',
     bigint (JBigInt (ot_lightningAmountSats offer)) ''offer.lightningAmountSats'',
     bigint (JBigInt (ot_maxRoutingFeeSats offer)) ''offer.maxRoutingFeeSats'',
     bigint (JBigInt (sv_availableBitWei solver)) ''solver.availableBitWei'',
     bigint (JBigInt (sv_committedBitWei solver)) ''solver.committedBitWei'',
     bigint (JBigInt (sv_availableLightningSats solver)) ''solver.availableLightningSats'',
     bigint (JBigInt (sv_committedLightningSats solver)) ''solver.committedLightningSats'',
     bigint (JBigInt (sv_successfulFills solver)) ''solver.successfulFills'',
     bigint (JBigInt (sv_attributableFailures solver)) ''solver.attributableFailures'',
     solverReliabilityBps solver,
     bigint (JBigInt (ap_minimumCompletedFillsForEstablished policy))
       ''policy.minimumCompletedFillsForEstablished'',
     bigint (JBigInt (ap_unknownSolverMaxBitToLightningSats policy))
       ''policy.unknownSolverMaxBitToLightningSats'',
     bigint (JBigInt (ap_establishedSolverMaxBitToLightningSats policy))
       ''policy.establishedSolverMaxBitToLightningSats'']"

definition tail_checks :: "firm_offer_terms \<Rightarrow> solver_capacity \<Rightarrow> admission_policy \<Rightarrow> int \<Rightarrow> int result list" where
  "tail_checks offer solver policy now =
    [integer (JInt (ap_maxFirmQuoteTtlSeconds policy)) ''policy.maxFirmQuoteTtlSeconds'',
     (if sv_capacityObservedAt solver > now then Inr 0
      else integer (JInt (ap_maxCapacityAgeSeconds policy)) ''policy.maxCapacityAgeSeconds''),
     integer (JInt (ot_capacityEpoch offer)) ''offer.capacityEpoch'',
     integer (JInt (sv_capacityEpoch solver)) ''solver.capacityEpoch'',
     integer (JInt (sv_activeFirmQuotes solver)) ''solver.activeFirmQuotes'',
     integer (JInt (ap_maxActiveFirmQuotesPerSolver policy)) ''policy.maxActiveFirmQuotesPerSolver'',
     integer (JInt (sv_consecutiveFailures solver)) ''solver.consecutiveFailures'',
     integer (JInt (ap_maxConsecutiveFailures policy)) ''policy.maxConsecutiveFailures'',
     bigint (JBigInt (ap_minimumReliabilitySample policy)) ''policy.minimumReliabilitySample'']"

definition assessFirmOffer ::
    "firm_offer_terms \<Rightarrow> solver_capacity \<Rightarrow> admission_policy \<Rightarrow> int \<Rightarrow> firm_assessment result" where
  "assessFirmOffer offer solver policy now =
     bindE (mapE id (head_checks offer solver policy now)) (\<lambda>_.
     bindE (solverReliabilityBps solver) (\<lambda>reliabilityBps.
     if ap_minimumCompletedFillsForEstablished policy = 0
     then Inl (RangeError ''policy.minimumCompletedFillsForEstablished must be positive'')
     else if ap_unknownSolverMaxBitToLightningSats policy = 0
     then Inl (RangeError ''policy.unknownSolverMaxBitToLightningSats must be positive'')
     else if ap_establishedSolverMaxBitToLightningSats policy < ap_unknownSolverMaxBitToLightningSats policy
     then Inl (RangeError ''established solver exposure cap cannot be below unknown solver cap'')
     else let tier = exposure_tier (sv_successfulFills solver) (ap_minimumCompletedFillsForEstablished policy);
              exposureCap = (if tier = ''established'' then ap_establishedSolverMaxBitToLightningSats policy
                else ap_unknownSolverMaxBitToLightningSats policy) in
     bindE (mapE id (tail_checks offer solver policy now)) (\<lambda>_.
     bindE (if sv_successfulFills solver + sv_attributableFailures solver \<ge> ap_minimumReliabilitySample policy
            then bigint (JBigInt (ap_minimumReliabilityBps policy)) ''policy.minimumReliabilityBps''
            else Inr 0) (\<lambda>_.
     let reasons = firm_offer_reasons offer solver policy now reliabilityBps tier exposureCap in
     Inr \<lparr>fa_allowed = (reasons = []), fa_reasons = reasons, fa_reliabilityBps = reliabilityBps,
          fa_exposureTier = tier, fa_exposureCapSats = exposureCap,
          fa_commitment = (if reasons = [] then Some
            \<lparr>cm_direction = ot_direction offer, cm_amount = offer_amount offer,
             cm_bitAmountWei = offer_bit_leg offer, cm_lightningAmountSats = offer_lightning_leg offer,
             cm_capacityEpoch = ot_capacityEpoch offer, cm_expiresAt = ot_expiresAt offer\<rparr>
            else None)\<rparr>))))"

definition reserveFirmOfferCapacity :: "solver_capacity \<Rightarrow> firm_assessment \<Rightarrow> solver_capacity result" where
  "reserveFirmOfferCapacity solver assessment =
     (if \<not> fa_allowed assessment then Inl (Error ''only a verified firm offer can reserve capacity'')
      else case fa_commitment assessment of
        None \<Rightarrow> Inl (Error ''only a verified firm offer can reserve capacity'')
      | Some commitment \<Rightarrow>
          bindE (integer (JInt (sv_activeFirmQuotes solver)) ''solver.activeFirmQuotes'') (\<lambda>quotes.
          bindE (bigint (JBigInt (sv_committedBitWei solver)) ''solver.committedBitWei'') (\<lambda>bit.
          bindE (bigint (JBigInt (sv_committedLightningSats solver)) ''solver.committedLightningSats'') (\<lambda>sats.
          Inr (solver\<lparr>sv_activeFirmQuotes := num_add quotes 1,
                      sv_committedBitWei := bit + cm_bitAmountWei commitment,
                      sv_committedLightningSats := sats + cm_lightningAmountSats commitment\<rparr>)))))"

definition firm_outcomes :: "string list" where
  "firm_outcomes = [''filled'', ''solver-failed'', ''expired-unexercised'', ''user-abandoned'']"

text \<open>Of the policy an outcome reads one field, \<^verbatim>\<open>policy.maxConsecutiveFailures\<close>.\<close>

definition apply_reputation ::
    "solver_capacity \<Rightarrow> string \<Rightarrow> int \<Rightarrow> solver_capacity \<Rightarrow> solver_capacity result" where
  "apply_reputation solver outcome maxConsecutiveFailures next =
     (if outcome = ''filled'' then
        bindE (bigint (JBigInt (sv_successfulFills solver)) ''solver.successfulFills'') (\<lambda>fills.
        Inr (next\<lparr>sv_successfulFills := fills + 1, sv_consecutiveFailures := 0\<rparr>))
      else if outcome = ''solver-failed'' then
        bindE (bigint (JBigInt (sv_attributableFailures solver)) ''solver.attributableFailures'') (\<lambda>failures.
        bindE (integer (JInt (sv_consecutiveFailures solver)) ''solver.consecutiveFailures'') (\<lambda>consecutive.
        bindE (integer (JInt maxConsecutiveFailures) ''policy.maxConsecutiveFailures'') (\<lambda>limit.
        let failed = next\<lparr>sv_attributableFailures := failures + 1,
                          sv_consecutiveFailures := num_add consecutive 1\<rparr> in
        Inr (if num_add consecutive 1 \<ge> limit then failed\<lparr>sv_suspended := True\<rparr> else failed))))
      else Inr next)"

definition recordFirmOfferOutcome ::
    "solver_capacity \<Rightarrow> commitment \<Rightarrow> string \<Rightarrow> int \<Rightarrow> solver_capacity result" where
  "recordFirmOfferOutcome solver commitment outcome maxConsecutiveFailures =
     (if outcome \<notin> set firm_outcomes then Inl (RangeError ''unsupported firm-offer outcome'')
      else
      bindE (integer (JInt (sv_activeFirmQuotes solver)) ''solver.activeFirmQuotes'') (\<lambda>quotes.
      bindE (bigint (JBigInt (sv_committedBitWei solver)) ''solver.committedBitWei'') (\<lambda>committedBitWei.
      bindE (bigint (JBigInt (sv_committedLightningSats solver)) ''solver.committedLightningSats'')
        (\<lambda>committedLightningSats.
      bindE (bigint (JBigInt (cm_bitAmountWei commitment)) ''commitment.bitAmountWei'') (\<lambda>releasedBitWei.
      bindE (bigint (JBigInt (cm_lightningAmountSats commitment)) ''commitment.lightningAmountSats'')
        (\<lambda>releasedLightningSats.
      if committedBitWei < releasedBitWei then Inl (RangeError ''BIT commitment accounting underflow'')
      else if committedLightningSats < releasedLightningSats
      then Inl (RangeError ''Lightning commitment accounting underflow'')
      else apply_reputation solver outcome maxConsecutiveFailures
        (solver\<lparr>sv_activeFirmQuotes := max 0 (quotes - 1),
                sv_committedBitWei := committedBitWei - releasedBitWei,
                sv_committedLightningSats := committedLightningSats - releasedLightningSats\<rparr>)))))))"

section \<open>Correctness\<close>

text \<open>What an admitted request satisfies, as one predicate.\<close>

definition rfq_admissible :: "rfq_request \<Rightarrow> rfq_identity \<Rightarrow> rfq_usage \<Rightarrow> admission_policy \<Rightarrow> int \<Rightarrow> bool" where
  "rfq_admissible request identity usage policy now \<longleftrightarrow>
     ri_authenticated identity \<and> sameIdentity (ri_key identity) (rr_user request) \<and>
     is_bytes32_mixed (rr_requestId request) \<and>
     (rr_direction request = ''lightning-to-bit'' \<or> rr_direction request = ''bit-to-lightning'') \<and>
     ap_minimumNotionalSats policy \<le> rr_notionalSats request \<and>
     now < rr_expiresAt request \<and> rr_expiresAt request \<le> now + ap_maxRfqTtlSeconds policy \<and>
     us_activeRequests usage < ap_maxActiveRequestsPerIdentity policy \<and>
     us_acceptedInWindow usage < ap_maxRequestsPerWindow policy \<and>
     us_cancellationsInWindow usage < ap_maxCancellationsPerWindow policy \<and>
     us_cancellationSequence usage < rr_nonce request"

lemma num_add_ge_iff:
  "0 \<le> e \<Longrightarrow> e \<le> MAX_SAFE_INTEGER \<Longrightarrow> e \<le> num_add a b \<longleftrightarrow> e \<le> a + b"
  unfolding num_add_def MAX_SAFE_INTEGER_def by (rule js_round_ge_iff) auto

text \<open>
  The admission decision is exactly the admission predicate: whenever the assessment
  returns, it allows the request if and only if the request is authenticated, well formed, inside
  its lifetime and inside every quota, it never reserves inventory, and it counts the request
  exactly when it allows it.
\<close>

theorem rfq_admission_exact:
  assumes "assessRfqAdmission request identity usage policy now = Inr a"
  shows "(ra_allowed a \<longleftrightarrow> rfq_admissible request identity usage policy now) \<and>
         \<not> ra_inventoryReserved a \<and>
         (ra_nextUsage a \<noteq> None \<longleftrightarrow> ra_allowed a)"
proof -
  from assms have e: "0 \<le> rr_expiresAt request" "rr_expiresAt request \<le> MAX_SAFE_INTEGER"
    by (auto simp: assessRfqAdmission_def bindE_eq_Inr integer_Inr)
  from assms show ?thesis
    unfolding assessRfqAdmission_def Let_def bindE_eq_Inr
    by (elim exE conjE)
      (clarsimp simp: integer_Inr bigint_Inr rfq_admissible_def not_less not_le num_add_ge_iff [OF e])
qed

definition sample_policy :: admission_policy where
  "sample_policy = \<lparr>ap_minimumNotionalSats = 1000, ap_maxRfqTtlSeconds = 120,
     ap_maxActiveRequestsPerIdentity = 3, ap_maxRequestsPerWindow = 20, ap_maxCancellationsPerWindow = 5,
     ap_quotaWindowSeconds = 3600, ap_maxFirmQuoteTtlSeconds = 120, ap_maxCapacityAgeSeconds = 30,
     ap_maxActiveFirmQuotesPerSolver = 4, ap_maxConsecutiveFailures = 3, ap_minimumReliabilitySample = 10,
     ap_minimumReliabilityBps = 9000, ap_minimumCompletedFillsForEstablished = 5,
     ap_unknownSolverMaxBitToLightningSats = 100000, ap_establishedSolverMaxBitToLightningSats = 1000000,
     ap_maxGlobalBitToLightningInFlightSats = 2000000\<rparr>"

definition sample_id :: "char \<Rightarrow> string" where
  "sample_id c = ''0x'' @ replicate 64 c"

definition sample_request :: rfq_request where
  "sample_request = \<lparr>rr_requestId = sample_id (CHR ''1''), rr_user = ''Alice'',
     rr_direction = ''bit-to-lightning'', rr_notionalSats = 50000, rr_nonce = 7, rr_expiresAt = 1060\<rparr>"

theorem rfq_admission_exact_witness:
  "\<exists>a. assessRfqAdmission sample_request \<lparr>ri_authenticated = True, ri_key = ''alice''\<rparr>
         \<lparr>us_activeRequests = 1, us_acceptedInWindow = 4, us_cancellationsInWindow = 0,
          us_cancellationSequence = 6\<rparr> sample_policy 1000 = Inr a \<and>
       ra_allowed a \<and> ra_nextUsage a \<noteq> None"
proof -
  let ?i = "\<lparr>ri_authenticated = True, ri_key = ''alice''\<rparr>"
  let ?u = "\<lparr>us_activeRequests = 1, us_acceptedInWindow = 4, us_cancellationsInWindow = 0,
    us_cancellationSequence = 6\<rparr>"
  let ?a = "\<lparr>ra_allowed = True, ra_reasons = [], ra_inventoryReserved = False,
    ra_nextUsage = Some (?u\<lparr>us_activeRequests := 2, us_acceptedInWindow := 5\<rparr>)\<rparr>"
  have a: "assessRfqAdmission sample_request ?i ?u sample_policy 1000 = Inr ?a" by code_simp
  from rfq_admission_exact [OF a] a show ?thesis by auto
qed

lemma solverReliabilityBps_range:
  assumes "solverReliabilityBps solver = Inr r"
  shows "0 \<le> r \<and> r \<le> BPS"
proof -
  have "s * 10000 div (s + f) \<le> 10000" if "0 \<le> s" "0 \<le> f" "s + f \<noteq> 0" for s f :: int
  proof -
    from that have "s * 10000 div (s + f) \<le> 10000 * (s + f) div (s + f)"
      by (intro zdiv_mono1) auto
    also have "\<dots> = 10000" using that by (intro nonzero_mult_div_cancel_right)
    finally show ?thesis .
  qed
  with assms show ?thesis
    by (auto simp: solverReliabilityBps_def bindE_eq_Inr bigint_Inr BPS_def pos_imp_zdiv_nonneg_iff)
qed

text \<open>What is known of an offer the policy allows, for the store that reserves it.\<close>

definition offer_fits :: "firm_offer_terms \<Rightarrow> solver_capacity \<Rightarrow> admission_policy \<Rightarrow> int \<Rightarrow> bool" where
  "offer_fits offer solver policy now \<longleftrightarrow>
     ot_solverSigned offer \<and> 0 < offer_amount offer \<and>
     0 \<le> offer_bit_leg offer \<and> 0 \<le> offer_lightning_leg offer \<and>
     sv_committedBitWei solver + offer_bit_leg offer \<le> sv_availableBitWei solver \<and>
     sv_committedLightningSats solver + offer_lightning_leg offer \<le> sv_availableLightningSats solver \<and>
     sv_activeFirmQuotes solver < ap_maxActiveFirmQuotesPerSolver policy \<and>
     \<not> sv_suspended solver \<and> \<not> sv_capacityConflict solver \<and>
     ot_capacityEpoch offer = sv_capacityEpoch solver \<and>
     now < ot_expiresAt offer \<and> ot_expiresAt offer \<le> sv_capabilityExpiresAt solver \<and>
     (ot_direction offer = ''bit-to-lightning'' \<longrightarrow>
        offer_lightning_leg offer \<le> ap_establishedSolverMaxBitToLightningSats policy \<and>
        (sv_successfulFills solver < ap_minimumCompletedFillsForEstablished policy \<longrightarrow>
           offer_lightning_leg offer \<le> ap_unknownSolverMaxBitToLightningSats policy))"

definition offer_commitment :: "firm_offer_terms \<Rightarrow> commitment" where
  "offer_commitment offer = \<lparr>cm_direction = ot_direction offer, cm_amount = offer_amount offer,
     cm_bitAmountWei = offer_bit_leg offer, cm_lightningAmountSats = offer_lightning_leg offer,
     cm_capacityEpoch = ot_capacityEpoch offer, cm_expiresAt = ot_expiresAt offer\<rparr>"

lemma head_checks_Inr:
  assumes "mapE id (head_checks offer solver policy now) = Inr ys"
  shows "0 \<le> ot_bitAmountWei offer \<and> 0 \<le> ot_lightningAmountSats offer \<and> 0 \<le> ot_maxRoutingFeeSats offer"
  using assms unfolding head_checks_def mapE.simps id_apply bindE_eq_Inr bigint_Inr js_BigInt.simps
  by (elim exE conjE) simp

lemma firm_offer_reasons_Nil:
  assumes "firm_offer_reasons offer solver policy now r tier cap = []"
  shows "ot_solverSigned offer \<and> 0 < offer_amount offer \<and>
     sv_committedBitWei solver + offer_bit_leg offer \<le> sv_availableBitWei solver \<and>
     sv_committedLightningSats solver + offer_lightning_leg offer \<le> sv_availableLightningSats solver \<and>
     sv_activeFirmQuotes solver < ap_maxActiveFirmQuotesPerSolver policy \<and>
     \<not> sv_suspended solver \<and> \<not> sv_capacityConflict solver \<and>
     ot_capacityEpoch offer = sv_capacityEpoch solver \<and>
     now < ot_expiresAt offer \<and> ot_expiresAt offer \<le> sv_capabilityExpiresAt solver \<and>
     (ot_direction offer = ''bit-to-lightning'' \<longrightarrow> offer_amount offer \<le> cap)"
  using assms unfolding firm_offer_reasons_def append_is_Nil_conv addReason_Nil
  by (elim conjE, intro conjI impI) linarith+

lemma assessFirmOffer_allowed:
  assumes "assessFirmOffer offer solver policy now = Inr a" and "fa_allowed a"
  shows "offer_fits offer solver policy now \<and> fa_commitment a = Some (offer_commitment offer)"
proof -
  from assms obtain ys r tier cap where
    head: "mapE id (head_checks offer solver policy now) = Inr ys"
    and caps: "ap_unknownSolverMaxBitToLightningSats policy \<le> ap_establishedSolverMaxBitToLightningSats policy"
    and tier: "tier = exposure_tier (sv_successfulFills solver) (ap_minimumCompletedFillsForEstablished policy)"
    and cap: "cap = (if tier = ''established'' then ap_establishedSolverMaxBitToLightningSats policy
                else ap_unknownSolverMaxBitToLightningSats policy)"
    and rs: "firm_offer_reasons offer solver policy now r tier cap = []"
    and com: "fa_commitment a = Some (offer_commitment offer)"
    unfolding assessFirmOffer_def Let_def bindE_eq_Inr if_Inl_eq_Inr
    by (elim exE conjE) (auto simp: not_less offer_commitment_def)
  have "offer_fits offer solver policy now"
    using firm_offer_reasons_Nil [OF rs] head_checks_Inr [OF head] caps
    by (auto simp: offer_fits_def cap tier exposure_tier_def offer_bit_leg_def offer_lightning_leg_def
        offer_amount_def split: if_splits)
  with com show ?thesis by blast
qed

lemma reserveFirmOfferCapacity_Inr:
  assumes "reserveFirmOfferCapacity solver a = Inr next" and "fa_commitment a = Some c"
  shows "next = solver\<lparr>sv_activeFirmQuotes := num_add (sv_activeFirmQuotes solver) 1,
           sv_committedBitWei := sv_committedBitWei solver + cm_bitAmountWei c,
           sv_committedLightningSats := sv_committedLightningSats solver + cm_lightningAmountSats c\<rparr> \<and>
         0 \<le> sv_activeFirmQuotes solver \<and> 0 \<le> sv_committedBitWei solver \<and> 0 \<le> sv_committedLightningSats solver"
  using assms by (auto simp: reserveFirmOfferCapacity_def bindE_eq_Inr integer_Inr bigint_Inr split: if_splits)

text \<open>
  Capacity is never oversold: when an offer is allowed and reserved, the commitments
  of the solver grow by exactly the two legs of the offer, stay within the declared capacity of
  both legs, the number of active quotes stays within its limit, and a BIT-to-Lightning exposure is
  within the cap of the solver's tier.
\<close>

theorem firm_offer_reservation_within_capacity:
  assumes "assessFirmOffer offer solver policy now = Inr a"
    and "reserveFirmOfferCapacity solver a = Inr next"
    and "ap_maxActiveFirmQuotesPerSolver policy \<le> 100"
  shows "sv_committedBitWei next = sv_committedBitWei solver + offer_bit_leg offer \<and>
         sv_committedLightningSats next = sv_committedLightningSats solver + offer_lightning_leg offer \<and>
         sv_committedBitWei next \<le> sv_availableBitWei next \<and>
         sv_committedLightningSats next \<le> sv_availableLightningSats next \<and>
         sv_activeFirmQuotes next \<le> ap_maxActiveFirmQuotesPerSolver policy \<and>
         (ot_direction offer = ''bit-to-lightning'' \<longrightarrow>
            ot_lightningAmountSats offer + ot_maxRoutingFeeSats offer
              \<le> ap_establishedSolverMaxBitToLightningSats policy)"
proof -
  from assms(2) have "fa_allowed a" by (auto simp: reserveFirmOfferCapacity_def split: if_splits)
  from assessFirmOffer_allowed [OF assms(1) this]
  have fits: "offer_fits offer solver policy now"
    and com: "fa_commitment a = Some (offer_commitment offer)" by auto
  from reserveFirmOfferCapacity_Inr [OF assms(2) com] fits assms(3) show ?thesis
    by (auto simp: offer_fits_def offer_commitment_def num_add_def offer_lightning_leg_def)
qed

definition sample_solver :: solver_capacity where
  "sample_solver = \<lparr>sv_solverId = ''0x'' @ replicate 40 (CHR ''a''),
     sv_capabilityDigest = sample_id (CHR ''2''), sv_capabilityExpiresAt = 5000,
     sv_snapshotDigest = sample_id (CHR ''3''), sv_capacityEpoch = 1, sv_capacityObservedAt = 990,
     sv_availableBitWei = 1000000000000000000, sv_committedBitWei = 0,
     sv_availableLightningSats = 500000, sv_committedLightningSats = 0, sv_activeFirmQuotes = 0,
     sv_successfulFills = 0, sv_attributableFailures = 0, sv_consecutiveFailures = 0,
     sv_suspended = False, sv_capacityConflict = False, sv_version = 1, sv_createdAt = 990,
     sv_updatedAt = 990\<rparr>"

definition sample_offer :: firm_offer_terms where
  "sample_offer = \<lparr>ot_direction = ''bit-to-lightning'', ot_capabilityDigest = sample_id (CHR ''2''),
     ot_bitAmountWei = 0, ot_lightningAmountSats = 50000, ot_maxRoutingFeeSats = 500,
     ot_capacityEpoch = 1, ot_expiresAt = 1050, ot_solverSigned = True\<rparr>"

theorem firm_offer_reservation_within_capacity_witness:
  "\<exists>a next. assessFirmOffer sample_offer sample_solver sample_policy 1000 = Inr a \<and>
     reserveFirmOfferCapacity sample_solver a = Inr next \<and>
     sv_committedLightningSats next = 50500 \<and> sv_committedLightningSats next \<le> sv_availableLightningSats next"
proof -
  let ?a = "\<lparr>fa_allowed = True, fa_reasons = [], fa_reliabilityBps = 10000, fa_exposureTier = ''unknown'',
    fa_exposureCapSats = 100000, fa_commitment = Some (offer_commitment sample_offer)\<rparr>"
  let ?n = "sample_solver\<lparr>sv_activeFirmQuotes := 1, sv_committedLightningSats := 50500\<rparr>"
  have a: "assessFirmOffer sample_offer sample_solver sample_policy 1000 = Inr ?a" by code_simp
  have n: "reserveFirmOfferCapacity sample_solver ?a = Inr ?n" by code_simp
  have "ap_maxActiveFirmQuotesPerSolver sample_policy \<le> 100" by (simp add: sample_policy_def)
  from firm_offer_reservation_within_capacity [OF a n this] a n show ?thesis
    by (auto simp: sample_solver_def)
qed

lemma apply_reputation_cases:
  assumes "apply_reputation solver outcome limit next = Inr final"
  obtains (filled) "outcome = ''filled''"
      "final = next\<lparr>sv_successfulFills := sv_successfulFills solver + 1, sv_consecutiveFailures := 0\<rparr>"
  | (failed) c where "outcome = ''solver-failed''"
      "final = next\<lparr>sv_attributableFailures := sv_attributableFailures solver + 1, sv_consecutiveFailures := c\<rparr>"
  | (suspended) c where "outcome = ''solver-failed''"
      "final = next\<lparr>sv_attributableFailures := sv_attributableFailures solver + 1, sv_consecutiveFailures := c,
         sv_suspended := True\<rparr>"
  | (neutral) "outcome \<noteq> ''filled''" "outcome \<noteq> ''solver-failed''" "final = next"
  using assms unfolding apply_reputation_def Let_def
  by (simp only: bindE_eq_Inr Inr_inject bigint_Inr js_BigInt.simps option.inject split: if_split_asm) blast+

lemma apply_reputation_accounting:
  assumes "apply_reputation solver outcome limit next = Inr final"
  shows "sv_committedBitWei final = sv_committedBitWei next \<and>
         sv_committedLightningSats final = sv_committedLightningSats next \<and>
         sv_activeFirmQuotes final = sv_activeFirmQuotes next \<and>
         sv_availableBitWei final = sv_availableBitWei next \<and>
         sv_availableLightningSats final = sv_availableLightningSats next \<and>
         sv_solverId final = sv_solverId next"
  using assms by (cases rule: apply_reputation_cases) simp_all

lemma apply_reputation_counters:
  assumes "apply_reputation solver outcome limit next = Inr final"
    and "sv_successfulFills next = sv_successfulFills solver"
    and "sv_attributableFailures next = sv_attributableFailures solver"
  shows "sv_successfulFills final = sv_successfulFills solver + (if outcome = ''filled'' then 1 else 0) \<and>
    sv_attributableFailures final = sv_attributableFailures solver + (if outcome = ''solver-failed'' then 1 else 0)"
  using assms by (cases rule: apply_reputation_cases) simp_all

lemma recordFirmOfferOutcome_Inr:
  assumes "recordFirmOfferOutcome solver c outcome limit = Inr final"
  shows "outcome \<in> set firm_outcomes \<and>
         sv_committedBitWei final = sv_committedBitWei solver - cm_bitAmountWei c \<and>
         sv_committedLightningSats final = sv_committedLightningSats solver - cm_lightningAmountSats c \<and>
         cm_bitAmountWei c \<le> sv_committedBitWei solver \<and>
         cm_lightningAmountSats c \<le> sv_committedLightningSats solver \<and>
         sv_activeFirmQuotes final = max 0 (sv_activeFirmQuotes solver - 1) \<and>
         sv_availableBitWei final = sv_availableBitWei solver \<and>
         sv_availableLightningSats final = sv_availableLightningSats solver \<and>
         sv_solverId final = sv_solverId solver"
  using assms
  unfolding recordFirmOfferOutcome_def bindE_eq_Inr if_Inl_eq_Inr integer_Inr bigint_Inr not_less not_not
  by (elim exE conjE) (drule apply_reputation_accounting, simp)

text \<open>
  Reservation and outcome are inverse on the ledger: after an allowed offer is
  reserved and then resolved with any outcome, the commitments of both legs and the number of active
  quotes are what they were before; only the reputation counters move, and they move only for
  a fill and for an attributable failure.
\<close>

theorem reservation_outcome_round_trip:
  assumes "assessFirmOffer offer solver policy now = Inr a"
    and "reserveFirmOfferCapacity solver a = Inr next"
    and "recordFirmOfferOutcome next (offer_commitment offer) outcome limit = Inr final"
    and "ap_maxActiveFirmQuotesPerSolver policy \<le> 100"
  shows "sv_committedBitWei final = sv_committedBitWei solver \<and>
         sv_committedLightningSats final = sv_committedLightningSats solver \<and>
         sv_activeFirmQuotes final = sv_activeFirmQuotes solver \<and>
         sv_successfulFills final = sv_successfulFills solver + (if outcome = ''filled'' then 1 else 0) \<and>
         sv_attributableFailures final =
           sv_attributableFailures solver + (if outcome = ''solver-failed'' then 1 else 0)"
proof -
  from assms(2) have "fa_allowed a" by (auto simp: reserveFirmOfferCapacity_def split: if_splits)
  from assessFirmOffer_allowed [OF assms(1) this]
  have fits: "offer_fits offer solver policy now"
    and com: "fa_commitment a = Some (offer_commitment offer)" by auto
  note reserved = reserveFirmOfferCapacity_Inr [OF assms(2) com]
  have rep: "sv_successfulFills final = sv_successfulFills next + (if outcome = ''filled'' then 1 else 0) \<and>
      sv_attributableFailures final = sv_attributableFailures next + (if outcome = ''solver-failed'' then 1 else 0)"
    using assms(3) unfolding recordFirmOfferOutcome_def bindE_eq_Inr if_Inl_eq_Inr
    by (elim exE conjE) (drule apply_reputation_counters, simp_all)
  from recordFirmOfferOutcome_Inr [OF assms(3)] rep reserved fits assms(4) show ?thesis
    by (auto simp: offer_fits_def offer_commitment_def num_add_def)
qed

theorem reservation_outcome_round_trip_witness:
  "\<exists>a next final. assessFirmOffer sample_offer sample_solver sample_policy 1000 = Inr a \<and>
     reserveFirmOfferCapacity sample_solver a = Inr next \<and>
     recordFirmOfferOutcome next (offer_commitment sample_offer) ''solver-failed'' 1 = Inr final \<and>
     sv_committedLightningSats final = 0 \<and> sv_attributableFailures final = 1 \<and> sv_suspended final"
proof -
  let ?a = "\<lparr>fa_allowed = True, fa_reasons = [], fa_reliabilityBps = 10000, fa_exposureTier = ''unknown'',
    fa_exposureCapSats = 100000, fa_commitment = Some (offer_commitment sample_offer)\<rparr>"
  let ?n = "sample_solver\<lparr>sv_activeFirmQuotes := 1, sv_committedLightningSats := 50500\<rparr>"
  let ?f = "sample_solver\<lparr>sv_attributableFailures := 1, sv_consecutiveFailures := 1, sv_suspended := True\<rparr>"
  have a: "assessFirmOffer sample_offer sample_solver sample_policy 1000 = Inr ?a" by code_simp
  have n: "reserveFirmOfferCapacity sample_solver ?a = Inr ?n" by code_simp
  have f: "recordFirmOfferOutcome ?n (offer_commitment sample_offer) ''solver-failed'' 1 = Inr ?f"
    by code_simp
  have "ap_maxActiveFirmQuotesPerSolver sample_policy \<le> 100" by (simp add: sample_policy_def)
  from reservation_outcome_round_trip [OF a n f this] a n f show ?thesis
    by (auto simp: sample_solver_def)
qed

end
