(* ===== verification/Contract_Intent.thy ===== *)
theory Contract_Intent
  imports Canonical_Digest
begin

text \<open>
  The contract intent a settlement is bound to, \<^verbatim>\<open>src/lib/contract-intent-schema.mjs\<close>: the typed
  quote, its signatures, and the exact escrow transaction that carries it.  The Ethereum library
  (ethers) is a parameter, one field per function the source calls.
\<close>

section \<open>Definitions\<close>

record intent_domain =
  dm_name :: string
  dm_version :: string
  dm_chainId :: int
  dm_verifyingContract :: string

text \<open>
  The normalized quote message.  The beneficiary and nonce fields are named by direction in the
  source (\<^verbatim>\<open>beneficiary\<close>/\<^verbatim>\<open>solverBeneficiary\<close>, \<^verbatim>\<open>nonce\<close>/\<^verbatim>\<open>solverNonce\<close>).
\<close>

record intent_message =
  im_quoteId :: string
  im_user :: string
  im_solver :: string
  im_beneficiary :: string
  im_amount :: int
  im_fee :: int
  im_lightningAmountSats :: int
  im_paymentHash :: string
  im_invoiceDigest :: string
  im_nonce :: int
  im_quoteExpiresAt :: int
  im_lastSafeClaimAt :: int
  im_refundAfter :: int

text \<open>
  The library: address parsing to the checksummed form, signature parsing to the serialized form
  and its v, signer recovery and hash of typed data (by primary type), calldata encoding of
  \<^verbatim>\<open>reserve\<close> and \<^verbatim>\<open>open\<close>, and Keccak-256.  \<open>None\<close> stands for an exception.
\<close>

record ethers =
  getAddress :: "string \<Rightarrow> string option"
  signatureFrom :: "string \<Rightarrow> (string \<times> int) option"
  verifyTypedData :: "intent_domain \<Rightarrow> string \<Rightarrow> intent_message \<Rightarrow> string \<Rightarrow> string option"
  encodeReserve :: "intent_message \<Rightarrow> string \<Rightarrow> string \<Rightarrow> string"
  encodeOpen :: "intent_message \<Rightarrow> string \<Rightarrow> string"
  keccak256 :: "string \<Rightarrow> string"
  hashTypedData :: "intent_domain \<Rightarrow> string \<Rightarrow> intent_message \<Rightarrow> string"

definition UINT96_MAX :: int where
  "UINT96_MAX = 2 ^ 96 - 1"

definition integer_min :: "jsval \<Rightarrow> string \<Rightarrow> int \<Rightarrow> int result" where
  "integer_min v name minimum = (case v of
       JInt i \<Rightarrow> if isSafeInteger v \<and> minimum \<le> i then Inr i
         else Inl (TypeError (name @ '' must be a safe integer of at least '' @ int_str minimum))
     | _ \<Rightarrow> Inl (TypeError (name @ '' must be a safe integer of at least '' @ int_str minimum)))"

definition uint_bounded :: "jsval \<Rightarrow> string \<Rightarrow> int \<Rightarrow> int result" where
  "uint_bounded v name maximum =
     (let bad = Inl (TypeError (name @ '' must be a canonical bounded unsigned integer'')) in
      case (case v of JBigInt i \<Rightarrow> Some (int_str i) | JStr s \<Rightarrow> Some s | _ \<Rightarrow> None) of
        None \<Rightarrow> bad
      | Some raw \<Rightarrow>
          if \<not> is_uint raw \<or> length raw > length (dec_str maximum) then bad
          else if dec_val raw > maximum then bad else Inr (dec_val raw))"

definition nonzero_bytes32 :: "jsval \<Rightarrow> string \<Rightarrow> string result" where
  "nonzero_bytes32 v name = (case v of
       JStr s \<Rightarrow> if is_bytes32 s \<and> s \<noteq> zero_bytes32 then Inr s
         else Inl (TypeError (name @ '' must be non-zero lowercase bytes32''))
     | _ \<Rightarrow> Inl (TypeError (name @ '' must be non-zero lowercase bytes32'')))"

definition eth_address :: "ethers \<Rightarrow> jsval \<Rightarrow> string \<Rightarrow> string result" where
  "eth_address E v name = (case v of
       JStr s \<Rightarrow> (case getAddress E s of
           None \<Rightarrow> Inl (TypeError (name @ '' must be an Ethereum address''))
         | Some a \<Rightarrow> Inr (toLowerCase a))
     | _ \<Rightarrow> Inl (TypeError (name @ '' must be an Ethereum address'')))"

text \<open>The pattern \<^verbatim>\<open>/^0x[0-9a-fA-F]{130}$/\<close> and the library's own checks.\<close>

definition canonicalSignature :: "ethers \<Rightarrow> jsval \<Rightarrow> string \<Rightarrow> string result" where
  "canonicalSignature E v name =
     (let bad = Inl (TypeError (name @ '' must be a canonical 65-byte ECDSA signature'')) in
      case v of
        JStr s \<Rightarrow>
          if length s \<noteq> 132 \<or> take 2 s \<noteq> ''0x'' \<or> \<not> list_all is_hex (drop 2 s) then bad
          else (case signatureFrom E s of
              None \<Rightarrow> bad
            | Some (serialized, v) \<Rightarrow>
                if length serialized \<noteq> 132 \<or> (v \<noteq> 27 \<and> v \<noteq> 28) then bad
                else Inr (toLowerCase serialized))
      | _ \<Rightarrow> bad)"

definition sameAddress :: "ethers \<Rightarrow> string \<Rightarrow> string \<Rightarrow> bool" where
  "sameAddress E left right = (case (getAddress E left, getAddress E right) of
       (Some a, Some b) \<Rightarrow> a = b | _ \<Rightarrow> False)"

text \<open>The pattern \<^verbatim>\<open>/^0x[0-9a-f]+$/\<close>, whole bytes, at most 16 KiB.\<close>

definition calldata :: "jsval \<Rightarrow> string result" where
  "calldata v =
     (let bad = Inl (TypeError ''contract intent calldata must be bounded lowercase hex bytes'') in
      case v of
        JStr s \<Rightarrow> if take 2 s = ''0x'' \<and> drop 2 s \<noteq> [] \<and> list_all is_hex_lower (drop 2 s)
                    \<and> even (length s) \<and> length s \<le> 32770 then Inr s else bad
      | _ \<Rightarrow> bad)"

definition domain_name :: "string \<Rightarrow> string" where
  "domain_name direction =
     (if direction = ''lightning-to-bit'' then ''TreeSwap BIT Vault'' else ''TreeSwap User BIT Escrow'')"

definition primary_type :: "string \<Rightarrow> string" where
  "primary_type direction =
     (if direction = ''lightning-to-bit'' then ''SelectedQuote'' else ''BitToLightningQuote'')"

definition beneficiary_field :: "string \<Rightarrow> string" where
  "beneficiary_field direction =
     (if direction = ''lightning-to-bit'' then ''beneficiary'' else ''solverBeneficiary'')"

definition nonce_field :: "string \<Rightarrow> string" where
  "nonce_field direction = (if direction = ''lightning-to-bit'' then ''nonce'' else ''solverNonce'')"

definition normalizedDomain :: "ethers \<Rightarrow> jsval \<Rightarrow> string \<Rightarrow> intent_domain result" where
  "normalizedDomain E v direction =
     bindE (exactKeys v [''chainId'', ''name'', ''verifyingContract'', ''version''] ''contract intent domain'') (\<lambda>_.
     if js_get v ''name'' \<noteq> JStr (domain_name direction) \<or> js_get v ''version'' \<noteq> JStr ''1''
     then Inl (Error ''contract intent EIP-712 domain is unsupported'')
     else bindE (uint_bounded (js_get v ''chainId'') ''contract intent chainId'' UINT256_MAX) (\<lambda>chainId.
     bindE (eth_address E (js_get v ''verifyingContract'') ''contract intent verifying contract'') (\<lambda>target.
     Inr \<lparr>dm_name = domain_name direction, dm_version = ''1'', dm_chainId = chainId,
          dm_verifyingContract = target\<rparr>)))"

definition normalizedMessage :: "ethers \<Rightarrow> jsval \<Rightarrow> string \<Rightarrow> intent_message result" where
  "normalizedMessage E v direction =
     bindE (exactKeys v [''amount'', beneficiary_field direction, ''fee'', ''invoiceDigest'',
       ''lastSafeClaimAt'', ''lightningAmountSats'', nonce_field direction, ''paymentHash'',
       ''quoteExpiresAt'', ''quoteId'', ''refundAfter'', ''solver'', ''user''] ''contract intent message'') (\<lambda>_.
     bindE (uint_bounded (js_get v ''amount'') ''contract intent BIT amount'' UINT96_MAX) (\<lambda>amount.
     bindE (uint_bounded (js_get v ''fee'') ''contract intent BIT fee'' UINT96_MAX) (\<lambda>fee.
     bindE (uint_bounded (js_get v ''lightningAmountSats'') ''contract intent Lightning amount'' UINT64_MAX) (\<lambda>sats.
     bindE (integer_min (js_get v ''quoteExpiresAt'') ''contract intent quote expiry'' 1) (\<lambda>quoteExpiresAt.
     bindE (integer_min (js_get v ''lastSafeClaimAt'') ''contract intent last safe claim'' 1) (\<lambda>lastSafeClaimAt.
     bindE (integer_min (js_get v ''refundAfter'') ''contract intent refund time'' 1) (\<lambda>refundAfter.
     bindE (eth_address E (js_get v ''user'') ''contract intent user'') (\<lambda>user.
     bindE (eth_address E (js_get v ''solver'') ''contract intent solver'') (\<lambda>solver.
     bindE (eth_address E (js_get v (beneficiary_field direction))
       (''contract intent '' @ beneficiary_field direction)) (\<lambda>beneficiary.
     if amount = 0 \<or> fee \<ge> amount \<or> sats = 0
     then Inl (RangeError ''contract intent amount or fee is invalid'')
     else if \<not> (quoteExpiresAt < lastSafeClaimAt \<and> lastSafeClaimAt < refundAfter)
     then Inl (RangeError ''contract intent deadlines are not safely ordered'')
     else if direction \<noteq> ''lightning-to-bit'' \<and> beneficiary \<noteq> solver
     then Inl (Error ''BIT-to-Lightning solver beneficiary must be the authenticated solver EOA'')
     else bindE (nonzero_bytes32 (js_get v ''quoteId'') ''contract intent quote ID'') (\<lambda>quoteId.
     bindE (nonzero_bytes32 (js_get v ''paymentHash'') ''contract intent payment hash'') (\<lambda>paymentHash.
     bindE (nonzero_bytes32 (js_get v ''invoiceDigest'') ''contract intent invoice digest'') (\<lambda>invoiceDigest.
     bindE (uint_bounded (js_get v (nonce_field direction))
       (''contract intent '' @ nonce_field direction) UINT256_MAX) (\<lambda>nonce.
     Inr \<lparr>im_quoteId = quoteId, im_user = user, im_solver = solver, im_beneficiary = beneficiary,
          im_amount = amount, im_fee = fee, im_lightningAmountSats = sats, im_paymentHash = paymentHash,
          im_invoiceDigest = invoiceDigest, im_nonce = nonce, im_quoteExpiresAt = quoteExpiresAt,
          im_lastSafeClaimAt = lastSafeClaimAt, im_refundAfter = refundAfter\<rparr>))))))))))))))"

record signing_payload =
  sp_direction :: string
  sp_domain :: intent_domain
  sp_primaryType :: string
  sp_message :: intent_message
  sp_contractIntentDigest :: string

definition supported_direction :: "jsval \<Rightarrow> string option" where
  "supported_direction v = (case v of
       JStr d \<Rightarrow> if d = ''lightning-to-bit'' \<or> d = ''bit-to-lightning'' then Some d else None
     | _ \<Rightarrow> None)"

definition validateContractIntentSigningPayload :: "ethers \<Rightarrow> jsval \<Rightarrow> signing_payload result" where
  "validateContractIntentSigningPayload E v =
     bindE (exactKeys v [''direction'', ''domain'', ''message'', ''primaryType'']
       ''contract intent signing payload'') (\<lambda>_.
     case supported_direction (js_get v ''direction'') of
       None \<Rightarrow> Inl (RangeError ''contract intent direction is unsupported'')
     | Some direction \<Rightarrow>
         if js_get v ''primaryType'' \<noteq> JStr (primary_type direction)
         then Inl (Error ''contract intent primary type is invalid'')
         else bindE (normalizedDomain E (js_get v ''domain'') direction) (\<lambda>domain.
         bindE (normalizedMessage E (js_get v ''message'') direction) (\<lambda>message.
         Inr \<lparr>sp_direction = direction, sp_domain = domain, sp_primaryType = primary_type direction,
              sp_message = message,
              sp_contractIntentDigest = toLowerCase (hashTypedData E domain (primary_type direction) message)\<rparr>)))"

text \<open>The validated binding, with the message it was built from.\<close>

record contract_intent =
  ci_settlementId :: string
  ci_direction :: string
  ci_userAuthorizationDigest :: string
  ci_selectedOfferId :: string
  ci_message :: intent_message
  ci_contractIntentDigest :: string
  ci_settlementContractCodeHash :: string
  ci_chainId :: int
  ci_fromAddress :: string
  ci_toAddress :: string
  ci_calldata :: string
  ci_calldataDigest :: string
  ci_transactionValue :: string
  ci_solverSignature :: string
  ci_userSignature :: "string option"
  ci_authorizedAt :: int
  ci_expiresAt :: int

definition require_signer ::
    "ethers \<Rightarrow> intent_domain \<Rightarrow> string \<Rightarrow> intent_message \<Rightarrow> string \<Rightarrow> string \<Rightarrow> string \<Rightarrow> unit result" where
  "require_signer E domain direction message signature account who =
     (case verifyTypedData E domain (primary_type direction) message signature of
        None \<Rightarrow> Inl (Error ''invalid signature'')
      | Some signer \<Rightarrow> if sameAddress E signer account then Inr ()
          else Inl (Error (who @ '' contract intent signature belongs to another account'')))"

text \<open>The signatures and the calldata they must produce.\<close>

definition expected_call ::
    "ethers \<Rightarrow> intent_domain \<Rightarrow> string \<Rightarrow> intent_message \<Rightarrow> string \<Rightarrow> jsval \<Rightarrow> (string option \<times> string) result" where
  "expected_call E domain direction message solverSignature userSignature =
     (if direction = ''lightning-to-bit'' then
        bindE (canonicalSignature E userSignature ''user contract intent signature'') (\<lambda>sig.
        bindE (require_signer E domain direction message sig (im_user message) ''user'') (\<lambda>_.
        Inr (Some sig, toLowerCase (encodeReserve E message sig solverSignature))))
      else if userSignature \<noteq> JNull
      then Inl (TypeError ''BIT-to-Lightning contract intent must not carry a user contract signature'')
      else Inr (None, toLowerCase (encodeOpen E message solverSignature)))"

definition BINDING_FIELDS :: "string list" where
  "BINDING_FIELDS = [''authorizedAt'', ''direction'', ''domain'', ''expiresAt'', ''message'', ''primaryType'',
     ''selectedOfferId'', ''settlementContractCodeHash'', ''settlementId'', ''solverSignature'',
     ''transaction'', ''userAuthorizationDigest'', ''userSignature'']"

definition validateContractIntentBinding :: "ethers \<Rightarrow> jsval \<Rightarrow> contract_intent result" where
  "validateContractIntentBinding E v =
     bindE (exactKeys v BINDING_FIELDS ''contract intent binding'') (\<lambda>_.
     case supported_direction (js_get v ''direction'') of
       None \<Rightarrow> Inl (RangeError ''contract intent direction is unsupported'')
     | Some direction \<Rightarrow>
     if js_get v ''primaryType'' \<noteq> JStr (primary_type direction)
     then Inl (Error ''contract intent primary type is invalid'')
     else bindE (normalizedDomain E (js_get v ''domain'') direction) (\<lambda>domain.
     bindE (normalizedMessage E (js_get v ''message'') direction) (\<lambda>message.
     bindE (canonicalSignature E (js_get v ''solverSignature'') ''solver contract intent signature'')
       (\<lambda>solverSignature.
     bindE (require_signer E domain direction message solverSignature (im_solver message) ''solver'') (\<lambda>_.
     bindE (expected_call E domain direction message solverSignature (js_get v ''userSignature''))
       (\<lambda>(userSignature, expectedData).
     let tx = js_get v ''transaction'' in
     bindE (exactKeys tx [''chainId'', ''data'', ''dataDigest'', ''from'', ''to'', ''value'']
       ''contract intent transaction'') (\<lambda>_.
     bindE (calldata (js_get tx ''data'')) (\<lambda>data.
     if data \<noteq> expectedData
     then Inl (Error ''contract intent calldata does not encode the verified quote and signatures'')
     else bindE (nonzero_bytes32 (js_get tx ''dataDigest'') ''contract intent calldata digest'') (\<lambda>dataDigest.
     if dataDigest \<noteq> keccak256 E data then Inl (Error ''contract intent calldata digest is invalid'')
     else bindE (uint_bounded (js_get tx ''chainId'') ''contract intent transaction chainId'' UINT256_MAX)
       (\<lambda>chainId.
     bindE (eth_address E (js_get tx ''from'') ''contract intent transaction sender'') (\<lambda>fromAddress.
     bindE (eth_address E (js_get tx ''to'') ''contract intent transaction target'') (\<lambda>toAddress.
     if chainId \<noteq> dm_chainId domain \<or> fromAddress \<noteq> im_user message
        \<or> toAddress \<noteq> dm_verifyingContract domain \<or> js_get tx ''value'' \<noteq> JStr ''0x0''
     then Inl (Error ''contract intent transaction changed its exact chain, sender, target, or value'')
     else bindE (integer_min (js_get v ''authorizedAt'') ''contract intent authorization time'' 1) (\<lambda>authorizedAt.
     bindE (integer_min (js_get v ''expiresAt'') ''contract intent expiry'' 1) (\<lambda>expiresAt.
     if expiresAt \<noteq> im_quoteExpiresAt message \<or> authorizedAt \<ge> expiresAt
     then Inl (RangeError ''contract intent authorization window is invalid'')
     else bindE (nonzero_bytes32 (js_get v ''settlementId'') ''contract intent settlement ID'') (\<lambda>settlementId.
     bindE (nonzero_bytes32 (js_get v ''userAuthorizationDigest'')
       ''contract intent user authorization digest'') (\<lambda>userAuthorizationDigest.
     bindE (nonzero_bytes32 (js_get v ''selectedOfferId'') ''contract intent selected offer ID'')
       (\<lambda>selectedOfferId.
     bindE (nonzero_bytes32 (js_get v ''settlementContractCodeHash'')
       ''contract intent settlement contract code hash'') (\<lambda>codeHash.
     Inr \<lparr>ci_settlementId = settlementId, ci_direction = direction,
          ci_userAuthorizationDigest = userAuthorizationDigest, ci_selectedOfferId = selectedOfferId,
          ci_message = message,
          ci_contractIntentDigest = toLowerCase (hashTypedData E domain (primary_type direction) message),
          ci_settlementContractCodeHash = codeHash, ci_chainId = chainId, ci_fromAddress = fromAddress,
          ci_toAddress = toAddress, ci_calldata = data, ci_calldataDigest = dataDigest,
          ci_transactionValue = ''0x0'', ci_solverSignature = solverSignature,
          ci_userSignature = userSignature, ci_authorizedAt = authorizedAt,
          ci_expiresAt = expiresAt\<rparr>))))))))))))))))))"

text \<open>The binding as the object the source returns, which the store digests.\<close>

definition intent_json :: "contract_intent \<Rightarrow> jsval" where
  "intent_json b = (let m = ci_message b in JObj
     [(''schema'', JStr ''treeswap.contract-intent-binding.v1''),
      (''settlementId'', JStr (ci_settlementId b)), (''direction'', JStr (ci_direction b)),
      (''userAuthorizationDigest'', JStr (ci_userAuthorizationDigest b)),
      (''selectedOfferId'', JStr (ci_selectedOfferId b)), (''quoteId'', JStr (im_quoteId m)),
      (''contractIntentDigest'', JStr (ci_contractIntentDigest b)),
      (''settlementContractCodeHash'', JStr (ci_settlementContractCodeHash b)),
      (''chainId'', JStr (dec_str (ci_chainId b))), (''fromAddress'', JStr (ci_fromAddress b)),
      (''toAddress'', JStr (ci_toAddress b)), (''calldata'', JStr (ci_calldata b)),
      (''calldataDigest'', JStr (ci_calldataDigest b)),
      (''transactionValue'', JStr (ci_transactionValue b)), (''userAddress'', JStr (im_user m)),
      (''solverAddress'', JStr (im_solver m)), (''beneficiaryAddress'', JStr (im_beneficiary m)),
      (''bitAmount'', JStr (dec_str (im_amount m))), (''feeBitAmount'', JStr (dec_str (im_fee m))),
      (''lightningAmountSats'', JStr (dec_str (im_lightningAmountSats m))),
      (''paymentHash'', JStr (im_paymentHash m)), (''invoiceDigest'', JStr (im_invoiceDigest m)),
      (''nonce'', JStr (dec_str (im_nonce m))), (''quoteExpiresAt'', JInt (im_quoteExpiresAt m)),
      (''lastSafeClaimAt'', JInt (im_lastSafeClaimAt m)), (''refundAfter'', JInt (im_refundAfter m)),
      (''solverSignature'', JStr (ci_solverSignature b)),
      (''userSignature'', case ci_userSignature b of None \<Rightarrow> JNull | Some x \<Rightarrow> JStr x),
      (''authorizedAt'', JInt (ci_authorizedAt b)), (''expiresAt'', JInt (ci_expiresAt b))])"

text \<open>The message object the restart check rebuilds.\<close>

definition message_input :: "string \<Rightarrow> intent_message \<Rightarrow> jsval" where
  "message_input d m = JObj [(''quoteId'', JStr (im_quoteId m)), (''user'', JStr (im_user m)),
     (''solver'', JStr (im_solver m)), (beneficiary_field d, JStr (im_beneficiary m)),
     (''amount'', JStr (dec_str (im_amount m))), (''fee'', JStr (dec_str (im_fee m))),
     (''lightningAmountSats'', JStr (dec_str (im_lightningAmountSats m))),
     (''paymentHash'', JStr (im_paymentHash m)), (''invoiceDigest'', JStr (im_invoiceDigest m)),
     (nonce_field d, JStr (dec_str (im_nonce m))), (''quoteExpiresAt'', JInt (im_quoteExpiresAt m)),
     (''lastSafeClaimAt'', JInt (im_lastSafeClaimAt m)), (''refundAfter'', JInt (im_refundAfter m))]"

definition domain_input :: "contract_intent \<Rightarrow> jsval" where
  "domain_input b = JObj [(''name'', JStr (domain_name (ci_direction b))), (''version'', JStr ''1''),
     (''chainId'', JStr (dec_str (ci_chainId b))), (''verifyingContract'', JStr (ci_toAddress b))]"

definition transaction_input :: "contract_intent \<Rightarrow> jsval" where
  "transaction_input b = JObj [(''chainId'', JStr (dec_str (ci_chainId b))),
     (''from'', JStr (ci_fromAddress b)), (''to'', JStr (ci_toAddress b)),
     (''data'', JStr (ci_calldata b)), (''dataDigest'', JStr (ci_calldataDigest b)),
     (''value'', JStr (ci_transactionValue b))]"

text \<open>
  The input \<^verbatim>\<open>verifyPersistedContractIntents\<close> rebuilds from the columns of a row
  (\<^verbatim>\<open>src/lib/coordinator-store.mjs\<close>).  Its argument is the intent as the row reads it: the columns the
  query takes from the table of settlements are put in by \<open>persisted_intent\<close> (\<^theory_text>\<open>Store_Audit\<close>), to whose
  result \<open>verify_intent_row\<close> applies this function.
\<close>

definition persisted_binding_input :: "contract_intent \<Rightarrow> jsval" where
  "persisted_binding_input b = (let m = ci_message b; d = ci_direction b in JObj
     [(''settlementId'', JStr (ci_settlementId b)), (''direction'', JStr d),
      (''userAuthorizationDigest'', JStr (ci_userAuthorizationDigest b)),
      (''selectedOfferId'', JStr (ci_selectedOfferId b)),
      (''settlementContractCodeHash'', JStr (ci_settlementContractCodeHash b)),
      (''domain'', domain_input b),
      (''primaryType'', JStr (primary_type d)),
      (''message'', message_input d m),
      (''solverSignature'', JStr (ci_solverSignature b)),
      (''userSignature'', case ci_userSignature b of None \<Rightarrow> JNull | Some x \<Rightarrow> JStr x),
      (''transaction'', transaction_input b),
      (''authorizedAt'', JInt (ci_authorizedAt b)), (''expiresAt'', JInt (im_quoteExpiresAt m))])"

section \<open>Correctness\<close>

lemma uint_bounded_Inr:
  "uint_bounded v name mx = Inr n \<Longrightarrow> 0 \<le> n \<and> n \<le> mx"
  by (auto simp: uint_bounded_def Let_def is_uint_nonneg split: jsval.splits option.splits if_splits)

lemma integer_min_Inr:
  "integer_min v name k = Inr i \<longleftrightarrow> v = JInt i \<and> k \<le> i \<and> isSafeInteger (JInt i)"
  by (auto simp: integer_min_def split: jsval.splits)

lemma nonzero_bytes32_Inr:
  "nonzero_bytes32 v name = Inr x \<longleftrightarrow> v = JStr x \<and> is_bytes32 x \<and> x \<noteq> zero_bytes32"
  by (auto simp: nonzero_bytes32_def split: jsval.splits)

lemma calldata_Inr: "calldata v = Inr d \<Longrightarrow> v = JStr d"
  by (auto simp: calldata_def Let_def split: jsval.splits if_splits)

lemma supported_direction_Some:
  "supported_direction v = Some d \<longleftrightarrow> v = JStr d \<and> (d = ''lightning-to-bit'' \<or> d = ''bit-to-lightning'')"
  by (auto simp: supported_direction_def split: jsval.splits)

text \<open>What normalization guarantees of a quote message.\<close>

definition message_ok :: "string \<Rightarrow> intent_message \<Rightarrow> bool" where
  "message_ok direction m \<longleftrightarrow>
     0 < im_amount m \<and> im_amount m \<le> UINT96_MAX \<and> 0 \<le> im_fee m \<and> im_fee m < im_amount m \<and>
     0 < im_lightningAmountSats m \<and> im_lightningAmountSats m \<le> UINT64_MAX \<and>
     0 < im_quoteExpiresAt m \<and> im_quoteExpiresAt m < im_lastSafeClaimAt m \<and>
     im_lastSafeClaimAt m < im_refundAfter m \<and>
     (direction \<noteq> ''lightning-to-bit'' \<longrightarrow> im_beneficiary m = im_solver m)"

lemma normalizedMessage_ok:
  assumes "normalizedMessage E v direction = Inr m"
  shows "message_ok direction m"
  using assms unfolding normalizedMessage_def bindE_eq_Inr if_Inl_eq_Inr
  by (elim exE conjE) (force dest!: uint_bounded_Inr simp: message_ok_def integer_min_Inr)

definition intent_domain_of :: "contract_intent \<Rightarrow> intent_domain" where
  "intent_domain_of b = \<lparr>dm_name = domain_name (ci_direction b), dm_version = ''1'',
     dm_chainId = ci_chainId b, dm_verifyingContract = ci_toAddress b\<rparr>"

lemma normalizedDomain_form:
  assumes "normalizedDomain E v direction = Inr d"
  shows "\<exists>chainId target. d = \<lparr>dm_name = domain_name direction, dm_version = ''1'',
    dm_chainId = chainId, dm_verifyingContract = target\<rparr>"
  using assms by (auto simp: normalizedDomain_def bindE_eq_Inr if_Inl_eq_Inr)

text \<open>The signer of a signature over the typed quote of a binding.\<close>

definition signed_by :: "ethers \<Rightarrow> contract_intent \<Rightarrow> string \<Rightarrow> string \<Rightarrow> bool" where
  "signed_by E b signature account \<longleftrightarrow>
     (\<exists>signer. verifyTypedData E (intent_domain_of b) (primary_type (ci_direction b)) (ci_message b) signature
        = Some signer \<and> sameAddress E signer account)"

lemma require_signer_Inr:
  "require_signer E domain direction m sig account who = Inr u \<longleftrightarrow>
     (\<exists>signer. verifyTypedData E domain (primary_type direction) m sig = Some signer \<and>
        sameAddress E signer account)"
  by (auto simp: require_signer_def split: option.splits)

text \<open>The calldata a binding must carry, and who signed it.\<close>

definition call_sound :: "ethers \<Rightarrow> contract_intent \<Rightarrow> bool" where
  "call_sound E b \<longleftrightarrow>
     (if ci_direction b = ''lightning-to-bit''
      then \<exists>sig. ci_userSignature b = Some sig \<and> signed_by E b sig (im_user (ci_message b)) \<and>
             ci_calldata b = toLowerCase (encodeReserve E (ci_message b) sig (ci_solverSignature b))
      else ci_userSignature b = None \<and>
             ci_calldata b = toLowerCase (encodeOpen E (ci_message b) (ci_solverSignature b)))"

text \<open>Everything the validation established of its parts.\<close>

lemma binding_parts:
  assumes "validateContractIntentBinding E v = Inr b"
  obtains tx userSignature where
    "supported_direction (js_get v ''direction'') = Some (ci_direction b)"
    "normalizedDomain E (js_get v ''domain'') (ci_direction b) = Inr (intent_domain_of b)"
    "normalizedMessage E (js_get v ''message'') (ci_direction b) = Inr (ci_message b)"
    "canonicalSignature E (js_get v ''solverSignature'') ''solver contract intent signature''
       = Inr (ci_solverSignature b)"
    "require_signer E (intent_domain_of b) (ci_direction b) (ci_message b) (ci_solverSignature b)
       (im_solver (ci_message b)) ''solver'' = Inr ()"
    "expected_call E (intent_domain_of b) (ci_direction b) (ci_message b) (ci_solverSignature b)
       userSignature = Inr (ci_userSignature b, ci_calldata b)"
    "calldata (js_get tx ''data'') = Inr (ci_calldata b)"
    "is_bytes32 (ci_calldataDigest b)" "ci_calldataDigest b \<noteq> zero_bytes32"
    "ci_calldataDigest b = keccak256 E (ci_calldata b)"
    "ci_fromAddress b = im_user (ci_message b)" "ci_transactionValue b = ''0x0''"
    "0 < ci_authorizedAt b" "ci_authorizedAt b < ci_expiresAt b" "isSafeInteger (JInt (ci_authorizedAt b))"
    "ci_expiresAt b = im_quoteExpiresAt (ci_message b)"
    "is_bytes32 (ci_settlementId b)" "ci_settlementId b \<noteq> zero_bytes32"
    "is_bytes32 (ci_userAuthorizationDigest b)" "ci_userAuthorizationDigest b \<noteq> zero_bytes32"
    "is_bytes32 (ci_selectedOfferId b)" "ci_selectedOfferId b \<noteq> zero_bytes32"
    "is_bytes32 (ci_settlementContractCodeHash b)" "ci_settlementContractCodeHash b \<noteq> zero_bytes32"
    "ci_contractIntentDigest b =
       toLowerCase (hashTypedData E (intent_domain_of b) (primary_type (ci_direction b)) (ci_message b))"
proof -
  obtain direction where dir: "supported_direction (js_get v ''direction'') = Some direction"
    using assms by (cases "supported_direction (js_get v ''direction'')")
      (auto simp: validateContractIntentBinding_def bindE_eq_Inr)
  show thesis
    using assms dir unfolding validateContractIntentBinding_def Let_def
    apply (simp only: bindE_eq_Inr if_Inl_eq_Inr option.case split_paired_Ex prod.case sum.inject)
    apply (elim exE conjE)
    apply (frule normalizedDomain_form)
    apply (elim exE, drule sym [where t = b])
    apply (rule that [of "js_get v ''userSignature''" "js_get v ''transaction''"])
    apply (simp_all add: intent_domain_of_def nonzero_bytes32_Inr integer_min_Inr not_le)
    done
qed

text \<open>
  Property C16.  A validated contract intent is exactly what its parties signed: the quote is well
  formed with its deadlines in order, the solver's signature (and for Lightning-to-BIT the user's)
  recovers to the named account over this chain, this contract and this message, the calldata is the
  encoding of that message and those signatures, its digest is the hash of the calldata, and the
  transaction moves no ether and is sent by the user before the quote expires.
\<close>

theorem contract_intent_binding_sound:
  assumes "validateContractIntentBinding E v = Inr b"
  shows "message_ok (ci_direction b) (ci_message b) \<and>
         signed_by E b (ci_solverSignature b) (im_solver (ci_message b)) \<and>
         call_sound E b \<and>
         ci_calldataDigest b = keccak256 E (ci_calldata b) \<and>
         ci_fromAddress b = im_user (ci_message b) \<and> ci_transactionValue b = ''0x0'' \<and>
         ci_authorizedAt b < ci_expiresAt b \<and> ci_expiresAt b = im_quoteExpiresAt (ci_message b)"
proof -
  from binding_parts [OF assms] obtain tx userSignature where
    dir: "supported_direction (js_get v ''direction'') = Some (ci_direction b)"
    and msg: "normalizedMessage E (js_get v ''message'') (ci_direction b) = Inr (ci_message b)"
    and solver: "require_signer E (intent_domain_of b) (ci_direction b) (ci_message b) (ci_solverSignature b)
       (im_solver (ci_message b)) ''solver'' = Inr ()"
    and call: "expected_call E (intent_domain_of b) (ci_direction b) (ci_message b) (ci_solverSignature b)
       userSignature = Inr (ci_userSignature b, ci_calldata b)"
    and rest: "ci_calldataDigest b = keccak256 E (ci_calldata b)"
      "ci_fromAddress b = im_user (ci_message b)" "ci_transactionValue b = ''0x0''"
      "ci_authorizedAt b < ci_expiresAt b" "ci_expiresAt b = im_quoteExpiresAt (ci_message b)"
    by blast
  from call have "call_sound E b"
    by (auto simp: expected_call_def call_sound_def signed_by_def require_signer_Inr bindE_eq_Inr
        split: if_splits dest!: sym [where t = "ci_userSignature b"] sym [where t = "ci_calldata b"])
  with normalizedMessage_ok [OF msg] solver rest show ?thesis
    by (simp add: signed_by_def require_signer_Inr)
qed

text \<open>The length test only cuts parsing short: it never rejects a value within the maximum.\<close>

lemma uint_bounded_parse [code]:
  "uint_bounded v name maximum =
     (let bad = Inl (TypeError (name @ '' must be a canonical bounded unsigned integer'')) in
      case (case v of JBigInt i \<Rightarrow> Some (int_str i) | JStr s \<Rightarrow> Some s | _ \<Rightarrow> None) of
        None \<Rightarrow> bad
      | Some raw \<Rightarrow> if \<not> is_uint raw \<or> dec_val raw > maximum then bad else Inr (dec_val raw))"
proof -
  have "length raw \<le> length (dec_str maximum)" if "is_uint raw" "dec_val raw \<le> maximum" for raw
    using that dec_str_length_mono by (auto simp: is_uint_iff dec_val_dec_str)
  then show ?thesis
    by (fastforce simp: uint_bounded_def Let_def split: option.splits jsval.splits)
qed

text \<open>A library instance and a signed BIT-to-Lightning intent for the witnesses.\<close>

definition sample_account :: "char \<Rightarrow> string" where
  "sample_account c = ''0x'' @ replicate 40 c"

definition sample_hash :: "char \<Rightarrow> string" where
  "sample_hash c = ''0x'' @ replicate 64 c"

definition sample_ethers :: ethers where
  "sample_ethers = \<lparr>
     getAddress = (\<lambda>s. if is_address s then Some s else None),
     signatureFrom = (\<lambda>s. if length s = 132 \<and> take 2 s = ''0x'' \<and> list_all is_hex_lower (drop 2 s)
       then Some (s, 27) else None),
     verifyTypedData = (\<lambda>domain type message sig. Some (im_solver message)),
     encodeReserve = (\<lambda>message user solver. ''0xaa''),
     encodeOpen = (\<lambda>message solver. ''0xbb''),
     keccak256 = (\<lambda>data. sample_hash (CHR ''7'')),
     hashTypedData = (\<lambda>domain type message. sample_hash (CHR ''8''))\<rparr>"

definition sample_message :: intent_message where
  "sample_message = \<lparr>im_quoteId = sample_hash (CHR ''1''), im_user = sample_account (CHR ''a''),
     im_solver = sample_account (CHR ''b''), im_beneficiary = sample_account (CHR ''b''),
     im_amount = 1000, im_fee = 3, im_lightningAmountSats = 50000, im_paymentHash = sample_hash (CHR ''2''),
     im_invoiceDigest = sample_hash (CHR ''3''), im_nonce = 9, im_quoteExpiresAt = 1100,
     im_lastSafeClaimAt = 2000, im_refundAfter = 5000\<rparr>"

definition sample_intent :: contract_intent where
  "sample_intent = \<lparr>ci_settlementId = sample_hash (CHR ''4''), ci_direction = ''bit-to-lightning'',
     ci_userAuthorizationDigest = sample_hash (CHR ''5''), ci_selectedOfferId = sample_hash (CHR ''6''),
     ci_message = sample_message, ci_contractIntentDigest = sample_hash (CHR ''8''),
     ci_settlementContractCodeHash = sample_hash (CHR ''9''), ci_chainId = 1,
     ci_fromAddress = sample_account (CHR ''a''), ci_toAddress = sample_account (CHR ''c''),
     ci_calldata = ''0xbb'', ci_calldataDigest = sample_hash (CHR ''7''), ci_transactionValue = ''0x0'',
     ci_solverSignature = ''0x'' @ replicate 130 (CHR ''d''), ci_userSignature = None,
     ci_authorizedAt = 1000, ci_expiresAt = 1100\<rparr>"

lemma sample_intent_valid:
  "validateContractIntentBinding sample_ethers (persisted_binding_input sample_intent) = Inr sample_intent"
  by code_simp

theorem contract_intent_binding_sound_witness:
  "validateContractIntentBinding sample_ethers (persisted_binding_input sample_intent) = Inr sample_intent \<and>
   signed_by sample_ethers sample_intent (ci_solverSignature sample_intent)
     (im_solver (ci_message sample_intent))"
  using contract_intent_binding_sound [OF sample_intent_valid] sample_intent_valid by blast

section \<open>Restart verification\<close>

lemma uint_bounded_dec:
  "0 \<le> n \<Longrightarrow> n \<le> mx \<Longrightarrow> uint_bounded (JStr (dec_str n)) name mx = Inr n"
  using dec_str_length_mono [of n mx]
  by (simp add: uint_bounded_def Let_def is_uint_dec_str dec_val_dec_str)

text \<open>
  The documented behaviour of the library the restart check relies on: the lower-case form of an
  address parses to the same checksummed address, and the serialized form of a signature is a
  hexadecimal string that parses, in lower case too, to itself.
\<close>

definition ethers_canonical :: "ethers \<Rightarrow> bool" where
  "ethers_canonical E \<longleftrightarrow>
     (\<forall>x a. getAddress E x = Some a \<longrightarrow> getAddress E (toLowerCase a) = Some a) \<and>
     (\<forall>x ser v. signatureFrom E x = Some (ser, v) \<longrightarrow>
        signatureFrom E (toLowerCase ser) = Some (ser, v) \<and> take 2 ser = ''0x'' \<and>
        list_all is_hex (drop 2 ser))"

lemma is_hex_lower_char: "is_hex c \<Longrightarrow> is_hex (char_lower c)"
proof -
  have "list_all (\<lambda>c. is_hex (char_lower c)) ''0123456789abcdefABCDEF''" by code_simp
  then show "is_hex c \<Longrightarrow> is_hex (char_lower c)" by (simp only: list_all_iff is_hex_def)
qed

lemma length_toLowerCase [simp]: "length (toLowerCase s) = length s"
  by (simp add: toLowerCase_def)

lemma eth_address_again:
  assumes "eth_address E v name = Inr a" and "ethers_canonical E"
  shows "eth_address E (JStr a) name' = Inr a"
  using assms by (auto simp: eth_address_def ethers_canonical_def split: jsval.splits option.splits)

lemma lower_prefix: "take 2 s = ''0x'' \<Longrightarrow> take 2 (toLowerCase s) = ''0x''"
  by (simp add: toLowerCase_def take_map char_lower_def)

lemma lower_hex: "list_all is_hex (drop 2 s) \<Longrightarrow> list_all is_hex (drop 2 (toLowerCase s))"
  by (auto simp: toLowerCase_def drop_map list_all_iff is_hex_lower_char)

lemma canonicalSignature_again:
  assumes "canonicalSignature E v name = Inr sig" and "ethers_canonical E"
  shows "canonicalSignature E (JStr sig) name' = Inr sig"
proof -
  from assms(1) obtain x ser k where "signatureFrom E x = Some (ser, k)" "sig = toLowerCase ser"
    "length ser = 132" "k = 27 \<or> k = 28"
    by (auto simp: canonicalSignature_def Let_def split: jsval.splits option.splits if_splits)
  moreover with assms(2) have "signatureFrom E sig = Some (ser, k)" "take 2 ser = ''0x''"
    "list_all is_hex (drop 2 ser)"
    unfolding ethers_canonical_def by blast+
  ultimately show ?thesis
    by (auto simp: canonicalSignature_def Let_def lower_prefix lower_hex)
qed

lemma message_keys:
  assumes "d = ''lightning-to-bit'' \<or> d = ''bit-to-lightning''"
  shows "sort [''quoteId'', ''user'', ''solver'', beneficiary_field d, ''amount'', ''fee'',
      ''lightningAmountSats'', ''paymentHash'', ''invoiceDigest'', nonce_field d, ''quoteExpiresAt'',
      ''lastSafeClaimAt'', ''refundAfter''] =
    sort [''amount'', beneficiary_field d, ''fee'', ''invoiceDigest'', ''lastSafeClaimAt'',
      ''lightningAmountSats'', nonce_field d, ''paymentHash'', ''quoteExpiresAt'', ''quoteId'',
      ''refundAfter'', ''solver'', ''user'']"
  using assms by (elim disjE; hypsubst; code_simp)

lemma normalizedMessage_parts:
  assumes "normalizedMessage E v d = Inr m"
  shows "im_fee m \<le> UINT96_MAX \<and> 0 \<le> im_nonce m \<and> im_nonce m \<le> UINT256_MAX \<and>
    is_bytes32 (im_quoteId m) \<and> im_quoteId m \<noteq> zero_bytes32 \<and>
    is_bytes32 (im_paymentHash m) \<and> im_paymentHash m \<noteq> zero_bytes32 \<and>
    is_bytes32 (im_invoiceDigest m) \<and> im_invoiceDigest m \<noteq> zero_bytes32 \<and>
    isSafeInteger (JInt (im_quoteExpiresAt m)) \<and> isSafeInteger (JInt (im_lastSafeClaimAt m)) \<and>
    isSafeInteger (JInt (im_refundAfter m)) \<and>
    (\<exists>v n. eth_address E v n = Inr (im_user m)) \<and> (\<exists>v n. eth_address E v n = Inr (im_solver m)) \<and>
    (\<exists>v n. eth_address E v n = Inr (im_beneficiary m))"
  using assms unfolding normalizedMessage_def bindE_eq_Inr if_Inl_eq_Inr sum.inject
  by (elim exE conjE)
    (intro conjI; force dest!: uint_bounded_Inr simp: nonzero_bytes32_Inr integer_min_Inr)

lemma message_input_fields:
  "js_get (message_input d m) ''quoteId'' = JStr (im_quoteId m)"
  "js_get (message_input d m) ''user'' = JStr (im_user m)"
  "js_get (message_input d m) ''solver'' = JStr (im_solver m)"
  "js_get (message_input d m) (beneficiary_field d) = JStr (im_beneficiary m)"
  "js_get (message_input d m) ''amount'' = JStr (dec_str (im_amount m))"
  "js_get (message_input d m) ''fee'' = JStr (dec_str (im_fee m))"
  "js_get (message_input d m) ''lightningAmountSats'' = JStr (dec_str (im_lightningAmountSats m))"
  "js_get (message_input d m) ''paymentHash'' = JStr (im_paymentHash m)"
  "js_get (message_input d m) ''invoiceDigest'' = JStr (im_invoiceDigest m)"
  "js_get (message_input d m) (nonce_field d) = JStr (dec_str (im_nonce m))"
  "js_get (message_input d m) ''quoteExpiresAt'' = JInt (im_quoteExpiresAt m)"
  "js_get (message_input d m) ''lastSafeClaimAt'' = JInt (im_lastSafeClaimAt m)"
  "js_get (message_input d m) ''refundAfter'' = JInt (im_refundAfter m)"
  by (simp_all add: message_input_def beneficiary_field_def nonce_field_def)

lemma integer_min_JInt: "k \<le> i \<Longrightarrow> isSafeInteger (JInt i) \<Longrightarrow> integer_min (JInt i) name k = Inr i"
  by (simp only: integer_min_Inr simp_thms)

lemma nonzero_bytes32_JStr:
  "is_bytes32 x \<Longrightarrow> x \<noteq> zero_bytes32 \<Longrightarrow> nonzero_bytes32 (JStr x) name = Inr x"
  by (simp add: nonzero_bytes32_Inr)

lemma normalizedMessage_again:
  assumes "normalizedMessage E v d = Inr m" and "ethers_canonical E"
    and "d = ''lightning-to-bit'' \<or> d = ''bit-to-lightning''"
  shows "normalizedMessage E (message_input d m) d = Inr m"
proof -
  note parts = normalizedMessage_parts [OF assms(1)]
  note ok = normalizedMessage_ok [OF assms(1), unfolded message_ok_def]
  have addr: "eth_address E (JStr (im_user m)) n = Inr (im_user m)"
    "eth_address E (JStr (im_solver m)) n = Inr (im_solver m)"
    "eth_address E (JStr (im_beneficiary m)) n = Inr (im_beneficiary m)" for n
    using parts eth_address_again [OF _ assms(2)] by blast+
  have amounts: "uint_bounded (JStr (dec_str (im_amount m))) n UINT96_MAX = Inr (im_amount m)"
    "uint_bounded (JStr (dec_str (im_fee m))) n UINT96_MAX = Inr (im_fee m)"
    "uint_bounded (JStr (dec_str (im_lightningAmountSats m))) n UINT64_MAX = Inr (im_lightningAmountSats m)"
    "uint_bounded (JStr (dec_str (im_nonce m))) n UINT256_MAX = Inr (im_nonce m)" for n
    by (rule uint_bounded_dec; use ok parts in linarith)+
  have times: "integer_min (JInt (im_quoteExpiresAt m)) n 1 = Inr (im_quoteExpiresAt m)"
    "integer_min (JInt (im_lastSafeClaimAt m)) n 1 = Inr (im_lastSafeClaimAt m)"
    "integer_min (JInt (im_refundAfter m)) n 1 = Inr (im_refundAfter m)" for n
    by (rule integer_min_JInt; use ok parts in linarith)+
  have ids: "nonzero_bytes32 (JStr (im_quoteId m)) n = Inr (im_quoteId m)"
    "nonzero_bytes32 (JStr (im_paymentHash m)) n = Inr (im_paymentHash m)"
    "nonzero_bytes32 (JStr (im_invoiceDigest m)) n = Inr (im_invoiceDigest m)" for n
    by (rule nonzero_bytes32_JStr; use parts in blast)+
  have keys: "exactKeys (message_input d m) [''amount'', beneficiary_field d, ''fee'', ''invoiceDigest'',
       ''lastSafeClaimAt'', ''lightningAmountSats'', nonce_field d, ''paymentHash'',
       ''quoteExpiresAt'', ''quoteId'', ''refundAfter'', ''solver'', ''user''] ''contract intent message'' = Inr ()"
    using message_keys [OF assms(3)] by (simp add: exactKeys_def message_input_def)
  have guards: "\<not> (im_amount m = 0 \<or> im_amount m \<le> im_fee m \<or> im_lightningAmountSats m = 0)"
    "im_quoteExpiresAt m < im_lastSafeClaimAt m \<and> im_lastSafeClaimAt m < im_refundAfter m"
    "\<not> (d \<noteq> ''lightning-to-bit'' \<and> im_beneficiary m \<noteq> im_solver m)"
    using ok by auto
  show ?thesis
    unfolding normalizedMessage_def
    by (simp only: keys bindE_Inr message_input_fields addr amounts times ids guards if_False if_True simp_thms) simp
qed

lemma domain_again:
  assumes "normalizedDomain E v (ci_direction b) = Inr (intent_domain_of b)" and "ethers_canonical E"
  shows "normalizedDomain E (domain_input b) (ci_direction b) = Inr (intent_domain_of b)"
proof -
  from assms(1) have "0 \<le> ci_chainId b" "ci_chainId b \<le> UINT256_MAX"
    and ex: "\<exists>v n. eth_address E v n = Inr (ci_toAddress b)"
    unfolding normalizedDomain_def intent_domain_of_def bindE_eq_Inr if_Inl_eq_Inr
    by (auto dest!: uint_bounded_Inr)
  then have chain: "uint_bounded (JStr (dec_str (ci_chainId b))) n UINT256_MAX = Inr (ci_chainId b)" for n
    by (intro uint_bounded_dec)
  have addr: "eth_address E (JStr (ci_toAddress b)) n = Inr (ci_toAddress b)" for n
    using ex eth_address_again [OF _ assms(2)] by blast
  have keys: "exactKeys (domain_input b) [''chainId'', ''name'', ''verifyingContract'', ''version'']
      ''contract intent domain'' = Inr ()"
    unfolding domain_input_def exactKeys_def jsval.case list.map fst_conv
    by (rule if_P) code_simp
  show ?thesis
    unfolding normalizedDomain_def keys
    by (simp add: domain_input_def intent_domain_of_def chain addr)
qed

lemma binding_input_fields:
  "js_get (persisted_binding_input b) ''direction'' = JStr (ci_direction b)"
  "js_get (persisted_binding_input b) ''settlementId'' = JStr (ci_settlementId b)"
  "js_get (persisted_binding_input b) ''userAuthorizationDigest'' = JStr (ci_userAuthorizationDigest b)"
  "js_get (persisted_binding_input b) ''selectedOfferId'' = JStr (ci_selectedOfferId b)"
  "js_get (persisted_binding_input b) ''settlementContractCodeHash'' = JStr (ci_settlementContractCodeHash b)"
  "js_get (persisted_binding_input b) ''domain'' = domain_input b"
  "js_get (persisted_binding_input b) ''primaryType'' = JStr (primary_type (ci_direction b))"
  "js_get (persisted_binding_input b) ''message'' = message_input (ci_direction b) (ci_message b)"
  "js_get (persisted_binding_input b) ''solverSignature'' = JStr (ci_solverSignature b)"
  "js_get (persisted_binding_input b) ''userSignature'' =
     (case ci_userSignature b of None \<Rightarrow> JNull | Some x \<Rightarrow> JStr x)"
  "js_get (persisted_binding_input b) ''transaction'' = transaction_input b"
  "js_get (persisted_binding_input b) ''authorizedAt'' = JInt (ci_authorizedAt b)"
  "js_get (persisted_binding_input b) ''expiresAt'' = JInt (im_quoteExpiresAt (ci_message b))"
  by (simp_all add: persisted_binding_input_def Let_def)

lemma transaction_input_fields:
  "js_get (transaction_input b) ''chainId'' = JStr (dec_str (ci_chainId b))"
  "js_get (transaction_input b) ''from'' = JStr (ci_fromAddress b)"
  "js_get (transaction_input b) ''to'' = JStr (ci_toAddress b)"
  "js_get (transaction_input b) ''data'' = JStr (ci_calldata b)"
  "js_get (transaction_input b) ''dataDigest'' = JStr (ci_calldataDigest b)"
  "js_get (transaction_input b) ''value'' = JStr (ci_transactionValue b)"
  by (simp_all add: transaction_input_def)

lemma binding_input_keys:
  "exactKeys (persisted_binding_input b) BINDING_FIELDS ''contract intent binding'' = Inr ()"
  "exactKeys (transaction_input b) [''chainId'', ''data'', ''dataDigest'', ''from'', ''to'', ''value'']
     ''contract intent transaction'' = Inr ()"
  unfolding persisted_binding_input_def transaction_input_def BINDING_FIELDS_def exactKeys_def Let_def
    jsval.case list.map fst_conv
  by (rule if_P, code_simp)+

lemma expected_call_again:
  assumes "expected_call E domain d m sig v = Inr (u, c)" and "ethers_canonical E"
  shows "expected_call E domain d m sig (case u of None \<Rightarrow> JNull | Some x \<Rightarrow> JStr x) = Inr (u, c)"
  using assms canonicalSignature_again [OF _ assms(2)]
  by (auto simp: expected_call_def bindE_eq_Inr require_signer_Inr split: if_splits)

text \<open>What the persisted columns of a validated intent parse to again.\<close>

lemma persisted_columns_again:
  assumes "validateContractIntentBinding E v = Inr b" and can: "ethers_canonical E"
  shows "normalizedDomain E (js_get (persisted_binding_input b) ''domain'') (ci_direction b) = Inr (intent_domain_of b)"
    and "eth_address E (JStr (ci_toAddress b)) n = Inr (ci_toAddress b)"
    and "eth_address E (JStr (im_user (ci_message b))) n = Inr (im_user (ci_message b))"
    and "uint_bounded (JStr (dec_str (ci_chainId b))) n UINT256_MAX = Inr (ci_chainId b)"
    and "integer_min (JInt (ci_authorizedAt b)) n 1 = Inr (ci_authorizedAt b)"
    and "integer_min (JInt (im_quoteExpiresAt (ci_message b))) n 1 = Inr (im_quoteExpiresAt (ci_message b))"
proof -
  from binding_parts [OF assms(1)] obtain tx where
    dm: "normalizedDomain E (js_get v ''domain'') (ci_direction b) = Inr (intent_domain_of b)"
    and msg: "normalizedMessage E (js_get v ''message'') (ci_direction b) = Inr (ci_message b)"
    and at: "0 < ci_authorizedAt b" "ci_authorizedAt b < ci_expiresAt b"
      "isSafeInteger (JInt (ci_authorizedAt b))" "ci_expiresAt b = im_quoteExpiresAt (ci_message b)"
    by blast
  note parts = normalizedMessage_parts [OF msg]
  note ok = normalizedMessage_ok [OF msg, unfolded message_ok_def]
  show "normalizedDomain E (js_get (persisted_binding_input b) ''domain'') (ci_direction b) = Inr (intent_domain_of b)"
    unfolding binding_input_fields by (rule domain_again [OF dm can])
  show "eth_address E (JStr (im_user (ci_message b))) n = Inr (im_user (ci_message b))"
    using parts eth_address_again [OF _ can] by blast
  from dm obtain w n' where "eth_address E w n' = Inr (ci_toAddress b)" and range: "0 \<le> ci_chainId b"
      "ci_chainId b \<le> UINT256_MAX"
    unfolding normalizedDomain_def intent_domain_of_def bindE_eq_Inr if_Inl_eq_Inr
    by (auto dest!: uint_bounded_Inr)
  then show "eth_address E (JStr (ci_toAddress b)) n = Inr (ci_toAddress b)"
    using eth_address_again [OF _ can] by blast
  show "uint_bounded (JStr (dec_str (ci_chainId b))) n UINT256_MAX = Inr (ci_chainId b)"
    by (rule uint_bounded_dec [OF range])
  show "integer_min (JInt (ci_authorizedAt b)) n 1 = Inr (ci_authorizedAt b)"
    "integer_min (JInt (im_quoteExpiresAt (ci_message b))) n 1 = Inr (im_quoteExpiresAt (ci_message b))"
    by (rule integer_min_JInt; use at ok parts in linarith)+
qed

lemma intent_revalidates:
  assumes "validateContractIntentBinding E v = Inr b" and "ethers_canonical E"
  shows "validateContractIntentBinding E (persisted_binding_input b) = Inr b"
proof -
  from binding_parts [OF assms(1)] obtain tx userSignature where
    dir: "supported_direction (js_get v ''direction'') = Some (ci_direction b)"
    and msg: "normalizedMessage E (js_get v ''message'') (ci_direction b) = Inr (ci_message b)"
    and sig: "canonicalSignature E (js_get v ''solverSignature'') ''solver contract intent signature''
       = Inr (ci_solverSignature b)"
    and signer: "require_signer E (intent_domain_of b) (ci_direction b) (ci_message b)
       (ci_solverSignature b) (im_solver (ci_message b)) ''solver'' = Inr ()"
    and call: "expected_call E (intent_domain_of b) (ci_direction b) (ci_message b) (ci_solverSignature b)
       userSignature = Inr (ci_userSignature b, ci_calldata b)"
    and data: "calldata (js_get tx ''data'') = Inr (ci_calldata b)"
    and dd: "is_bytes32 (ci_calldataDigest b)" "ci_calldataDigest b \<noteq> zero_bytes32"
      "ci_calldataDigest b = keccak256 E (ci_calldata b)"
    and tx: "ci_fromAddress b = im_user (ci_message b)" "ci_transactionValue b = ''0x0''"
    and at: "ci_authorizedAt b < ci_expiresAt b" "ci_expiresAt b = im_quoteExpiresAt (ci_message b)"
    and ids: "is_bytes32 (ci_settlementId b)" "ci_settlementId b \<noteq> zero_bytes32"
      "is_bytes32 (ci_userAuthorizationDigest b)" "ci_userAuthorizationDigest b \<noteq> zero_bytes32"
      "is_bytes32 (ci_selectedOfferId b)" "ci_selectedOfferId b \<noteq> zero_bytes32"
      "is_bytes32 (ci_settlementContractCodeHash b)" "ci_settlementContractCodeHash b \<noteq> zero_bytes32"
    and hash: "ci_contractIntentDigest b =
       toLowerCase (hashTypedData E (intent_domain_of b) (primary_type (ci_direction b)) (ci_message b))"
    by blast
  have dir': "supported_direction (JStr (ci_direction b)) = Some (ci_direction b)"
    and known: "ci_direction b = ''lightning-to-bit'' \<or> ci_direction b = ''bit-to-lightning''"
    using dir by (auto simp: supported_direction_Some)
  note again = persisted_columns_again [OF assms, unfolded binding_input_fields]
    normalizedMessage_again [OF msg assms(2) known] canonicalSignature_again [OF sig assms(2)]
    expected_call_again [OF call assms(2)]
  have data': "calldata (JStr (ci_calldata b)) = Inr (ci_calldata b)"
    using data calldata_Inr [OF data] by simp
  have dom: "dm_chainId (intent_domain_of b) = ci_chainId b"
    "dm_verifyingContract (intent_domain_of b) = ci_toAddress b"
    by (simp_all add: intent_domain_of_def)
  have early: "(im_quoteExpiresAt (ci_message b) \<le> ci_authorizedAt b) = False" using at by simp
  show ?thesis
    unfolding validateContractIntentBinding_def
    by (simp only: binding_input_keys binding_input_fields transaction_input_fields bindE_Inr dir' again
        signer data' option.case prod.case Let_def dd(3) [symmetric]
        nonzero_bytes32_JStr [OF dd(1,2)] tx dom early simp_thms if_False if_True
        nonzero_bytes32_JStr [OF ids(1,2)] nonzero_bytes32_JStr [OF ids(3,4)]
        nonzero_bytes32_JStr [OF ids(5,6)] nonzero_bytes32_JStr [OF ids(7,8)] hash [symmetric])
      (simp add: tx [symmetric] at(2) [symmetric])
qed

text \<open>
  Property C22.  The restart check accepts what binding accepted: rebuilding the binding input from
  the persisted columns of a validated intent and validating it again succeeds and yields the same
  intent, given that the Ethereum library parses its own canonical output.
\<close>

theorem persisted_intent_revalidates:
  assumes "validateContractIntentBinding E v = Inr b" and "ethers_canonical E"
  shows "validateContractIntentBinding E (persisted_binding_input b) = Inr b"
  by (rule intent_revalidates [OF assms])

lemma char_lower_hex: "is_hex_lower c \<Longrightarrow> char_lower c = c"
proof -
  have "list_all (\<lambda>c. char_lower c = c) ''0123456789abcdef''" by code_simp
  then show "is_hex_lower c \<Longrightarrow> char_lower c = c" by (simp only: list_all_iff is_hex_lower_def)
qed

lemma toLowerCase_hex:
  assumes "take 2 s = ''0x''" and "list_all is_hex_lower (drop 2 s)"
  shows "toLowerCase s = s"
proof -
  have "toLowerCase s = map char_lower (take 2 s) @ map char_lower (drop 2 s)"
    by (metis append_take_drop_id map_append toLowerCase_def)
  also have "map char_lower (take 2 s) = take 2 s" using assms(1) by (simp add: char_lower_def)
  also have "map char_lower (drop 2 s) = drop 2 s"
    using assms(2) by (intro map_idI) (auto simp: list_all_iff char_lower_hex)
  finally show ?thesis by simp
qed

lemma is_hex_lower_hex: "is_hex_lower c \<Longrightarrow> is_hex c"
  by (auto simp: is_hex_lower_def is_hex_def)

lemma sample_ethers_canonical: "ethers_canonical sample_ethers"
  by (auto simp: ethers_canonical_def sample_ethers_def is_address_def toLowerCase_hex list_all_iff
      is_hex_lower_hex split: if_splits)

theorem persisted_intent_revalidates_witness:
  "ethers_canonical sample_ethers \<and>
   validateContractIntentBinding sample_ethers (persisted_binding_input sample_intent) = Inr sample_intent"
  using persisted_intent_revalidates [OF sample_intent_valid sample_ethers_canonical] sample_ethers_canonical
  by blast

end
