(* ===== verification/Store_Schema.thy ===== *)
theory Store_Schema
  imports Canonical_Digest Admission_Policy Contract_Intent "HOL-Library.Product_Lexorder"
begin

text \<open>
  The tables of the coordinator database (\<^verbatim>\<open>COORDINATOR_SCHEMA_SQL\<close> in
  \<^verbatim>\<open>src/lib/coordinator-store.mjs\<close>) and the reads every operation uses.  A row is a record; the
  columns that one operation writes together, and that a CHECK constraint makes null together, are
  one optional sub-record.  A table is the list of its rows in insertion order.
\<close>

section \<open>Rows\<close>

datatype terminal_state = COMPLETED | REFUNDED | T_FAILED | CANCELED

datatype settlement_state =
    INTENT_ACCEPTED | CONTRACT_INTENT_BOUND | EXECUTION_POLICY_BOUND | RESERVATION_OBSERVED
  | ACTION_PENDING | ACTION_DISPATCHING | ACTION_CONFIRMED | ACTION_FAILED
  | RECONCILIATION_REQUIRED | HALTED | TERMINAL terminal_state

datatype action_state = PENDING | DISPATCHING | CONFIRMED | FAILED | UNKNOWN

datatype evm_state =
    PREPARED | BROADCASTING | EVM_UNKNOWN | INCLUDED | FINALIZED | REVERTED | REORGED | MISMATCH

datatype rfq_state = RFQ_ACTIVE | RFQ_CANCELED | RFQ_EXPIRED | RFQ_EXERCISED | RFQ_ABANDONED

datatype offer_state =
    OFFER_ACTIVE | FILLED | SOLVER_FAILED | EXPIRED_UNEXERCISED | USER_ABANDONED

datatype event_kind = EV_ACCEPTED | EV_CANCELED

text \<open>The normalized settlement, whose fields are also the immutable columns of the row.\<close>

record settlement_terms =
  tm_settlementId :: string
  tm_pricingId :: string
  tm_direction :: string
  tm_nonceAuthorityDigest :: string
  tm_intentNonce :: int
  tm_intentDigest :: string
  tm_paymentHash :: string
  tm_invoiceDigest :: string
  tm_amountSats :: int
  tm_quoteReceiptDigest :: string
  tm_selectedSetDigest :: string
  tm_selectedOfferId :: string
  tm_capacityEpoch :: int
  tm_createdAt :: int

text \<open>
  The columns \<^verbatim>\<open>contract_...\<close>: the validated intent, its record digest, the time of binding.
\<close>

record bound_intent =
  bi_intent :: contract_intent
  bi_recordDigest :: string
  bi_boundAt :: int

record execution_policy =
  xp_releaseRecordDigest :: string
  xp_riskPolicyDigest :: string
  xp_evidencePolicyDigest :: string
  xp_solverCapabilityDigest :: string
  xp_bindingDigest :: string
  xp_boundAt :: int

record reservation =
  rv_reservationId :: string
  rv_txHash :: string
  rv_blockNumber :: int
  rv_blockHash :: string
  rv_digest :: string

record terminal =
  te_state :: terminal_state
  te_proofDigest :: string
  te_at :: int

record settlement =
  se_terms :: settlement_terms
  se_intent :: "bound_intent option"
  se_policy :: "execution_policy option"
  se_recordDigest :: string
  se_reservation :: "reservation option"
  se_lastActionId :: "string option"
  se_state :: settlement_state
  se_reconciliationRequired :: bool
  se_haltCode :: "string option"
  se_terminal :: "terminal option"
  se_version :: int
  se_updatedAt :: int

record action_terms =
  at_actionId :: string
  at_settlementId :: string
  at_method :: string
  at_requestId :: string
  at_payloadDigest :: string
  at_intentDigest :: string
  at_paymentHash :: string
  at_invoiceDigest :: string
  at_amountSats :: int
  at_capacityEpoch :: int
  at_plannedAt :: int

record action_result =
  re_digest :: string
  re_code :: string
  re_at :: int

record action =
  ac_terms :: action_terms
  ac_recordDigest :: string
  ac_state :: action_state
  ac_dispatchCount :: int
  ac_dispatchedAt :: "int option"
  ac_result :: "action_result option"

record evm_terms =
  et_actionId :: string
  et_chainId :: int
  et_fromAddress :: string
  et_toAddress :: string
  et_nonce :: int
  et_transactionHash :: string
  et_signedTransactionDigest :: string
  et_boundAt :: int

record evm_transaction =
  em_terms :: evm_terms
  em_state :: evm_state
  em_broadcastCount :: int
  em_inclusion :: "(int \<times> string) option"
  em_lastBroadcastAt :: "int option"
  em_lastObservedAt :: "int option"

record identity_row =
  id_commitment :: string
  id_keyBindingDigest :: string
  id_cancellationSequence :: int
  id_version :: int
  id_createdAt :: int
  id_updatedAt :: int
  id_lastObservedAt :: int

record request_row =
  rq_requestId :: string
  rq_identityCommitment :: string
  rq_direction :: string
  rq_notionalSats :: int
  rq_nonce :: int
  rq_expiresAt :: int
  rq_recordDigest :: string
  rq_state :: rfq_state
  rq_resolution :: "(string \<times> int) option"
  rq_acceptedAt :: int

record admission_event =
  ae_eventId :: string
  ae_identityCommitment :: string
  ae_requestId :: "string option"
  ae_kind :: event_kind
  ae_sequence :: int
  ae_recordDigest :: string
  ae_occurredAt :: int

text \<open>The record terms of a reserved firm offer, then the row.\<close>

record offer_terms =
  of_offerId :: string
  of_offerDigest :: string
  of_selectionAuthorizationDigest :: string
  of_selectionAuthorizationExpiresAt :: int
  of_marketRiskDigest :: string
  of_marketRiskPolicyDigest :: string
  of_marketRiskValidUntil :: int
  of_requestId :: string
  of_solverId :: string
  of_capabilityDigest :: string
  of_direction :: string
  of_amount :: int
  of_bitAmountWei :: int
  of_lightningAmountSats :: int
  of_capacityEpoch :: int
  of_expiresAt :: int

record execution_binding =
  xb_privateRequestDigest :: string
  xb_executableOfferDigest :: string
  xb_bindingDigest :: string
  xb_finalizedAt :: int

record user_authorization =
  ua_digest :: string
  ua_expiresAt :: int
  ua_authorizedAt :: int

record firm_offer =
  fo_terms :: offer_terms
  fo_recordDigest :: string
  fo_binding :: "execution_binding option"
  fo_authorization :: "user_authorization option"
  fo_state :: offer_state
  fo_outcome :: "(string \<times> int) option"
  fo_reservedAt :: int

record coordinator_event =
  ce_settlementId :: string
  ce_actionId :: "string option"
  ce_type :: string
  ce_code :: string
  ce_dataDigest :: string
  ce_occurredAt :: int

record store =
  meta :: "(string \<times> string) list"
  settlements :: "settlement list"
  actions :: "action list"
  evms :: "evm_transaction list"
  identities :: "identity_row list"
  requests :: "request_row list"
  admissionEvents :: "admission_event list"
  solvers :: "solver_capacity list"
  offers :: "firm_offer list"
  events :: "coordinator_event list"

definition empty_store :: store where
  "empty_store = \<lparr>meta = [], settlements = [], actions = [], evms = [], identities = [],
     requests = [], admissionEvents = [], solvers = [], offers = [], events = []\<rparr>"

section \<open>Key columns, lookups and updates\<close>

definition se_id :: "settlement \<Rightarrow> string" where "se_id r = tm_settlementId (se_terms r)"
definition se_offerId :: "settlement \<Rightarrow> string" where "se_offerId r = tm_selectedOfferId (se_terms r)"
definition ac_id :: "action \<Rightarrow> string" where "ac_id r = at_actionId (ac_terms r)"
definition ac_settlementId :: "action \<Rightarrow> string" where "ac_settlementId r = at_settlementId (ac_terms r)"
definition ac_method :: "action \<Rightarrow> string" where "ac_method r = at_method (ac_terms r)"
definition em_id :: "evm_transaction \<Rightarrow> string" where "em_id r = et_actionId (em_terms r)"
definition fo_id :: "firm_offer \<Rightarrow> string" where "fo_id r = of_offerId (fo_terms r)"
definition fo_solverId :: "firm_offer \<Rightarrow> string" where "fo_solverId r = of_solverId (fo_terms r)"
definition fo_requestId :: "firm_offer \<Rightarrow> string" where "fo_requestId r = of_requestId (fo_terms r)"

lemmas key_defs = se_id_def se_offerId_def ac_id_def ac_settlementId_def ac_method_def em_id_def
  fo_id_def fo_solverId_def fo_requestId_def

definition find_settlement :: "store \<Rightarrow> string \<Rightarrow> settlement option" where
  "find_settlement s k = row_find se_id k (settlements s)"

definition update_settlement :: "string \<Rightarrow> (settlement \<Rightarrow> settlement) \<Rightarrow> store \<Rightarrow> store" where
  "update_settlement k f s = s\<lparr>settlements := row_update se_id k f (settlements s)\<rparr>"

definition find_action :: "store \<Rightarrow> string \<Rightarrow> action option" where
  "find_action s k = row_find ac_id k (actions s)"

definition update_action :: "string \<Rightarrow> (action \<Rightarrow> action) \<Rightarrow> store \<Rightarrow> store" where
  "update_action k f s = s\<lparr>actions := row_update ac_id k f (actions s)\<rparr>"

definition find_evm :: "store \<Rightarrow> string \<Rightarrow> evm_transaction option" where
  "find_evm s k = row_find em_id k (evms s)"

definition update_evm :: "string \<Rightarrow> (evm_transaction \<Rightarrow> evm_transaction) \<Rightarrow> store \<Rightarrow> store" where
  "update_evm k f s = s\<lparr>evms := row_update em_id k f (evms s)\<rparr>"

definition find_identity :: "store \<Rightarrow> string \<Rightarrow> identity_row option" where
  "find_identity s k = row_find id_commitment k (identities s)"

definition update_identity :: "string \<Rightarrow> (identity_row \<Rightarrow> identity_row) \<Rightarrow> store \<Rightarrow> store" where
  "update_identity k f s = s\<lparr>identities := row_update id_commitment k f (identities s)\<rparr>"

definition find_request :: "store \<Rightarrow> string \<Rightarrow> request_row option" where
  "find_request s k = row_find rq_requestId k (requests s)"

definition update_request :: "string \<Rightarrow> (request_row \<Rightarrow> request_row) \<Rightarrow> store \<Rightarrow> store" where
  "update_request k f s = s\<lparr>requests := row_update rq_requestId k f (requests s)\<rparr>"

definition find_solver :: "store \<Rightarrow> string \<Rightarrow> solver_capacity option" where
  "find_solver s k = row_find sv_solverId k (solvers s)"

definition update_solver :: "string \<Rightarrow> (solver_capacity \<Rightarrow> solver_capacity) \<Rightarrow> store \<Rightarrow> store" where
  "update_solver k f s = s\<lparr>solvers := row_update sv_solverId k f (solvers s)\<rparr>"

definition find_offer :: "store \<Rightarrow> string \<Rightarrow> firm_offer option" where
  "find_offer s k = row_find fo_id k (offers s)"

definition update_offer :: "string \<Rightarrow> (firm_offer \<Rightarrow> firm_offer) \<Rightarrow> store \<Rightarrow> store" where
  "update_offer k f s = s\<lparr>offers := row_update fo_id k f (offers s)\<rparr>"

lemmas find_defs = find_settlement_def find_action_def find_evm_def find_identity_def
  find_request_def find_solver_def find_offer_def

lemmas update_defs = update_settlement_def update_action_def update_evm_def update_identity_def
  update_request_def update_solver_def update_offer_def

interpretation settlement_table: table settlements se_id find_settlement update_settlement
  by unfold_locales (simp_all add: find_settlement_def update_settlement_def)

interpretation action_table: table actions ac_id find_action update_action
  by unfold_locales (simp_all add: find_action_def update_action_def)

interpretation evm_table: table evms em_id find_evm update_evm
  by unfold_locales (simp_all add: find_evm_def update_evm_def)

interpretation identity_table: table identities id_commitment find_identity update_identity
  by unfold_locales (simp_all add: find_identity_def update_identity_def)

interpretation request_table: table requests rq_requestId find_request update_request
  by unfold_locales (simp_all add: find_request_def update_request_def)

interpretation solver_table: table solvers sv_solverId find_solver update_solver
  by unfold_locales (simp_all add: find_solver_def update_solver_def)

interpretation offer_table: table offers fo_id find_offer update_offer
  by unfold_locales (simp_all add: find_offer_def update_offer_def)

section \<open>Reads and journal writes\<close>

definition getSettlement :: "store \<Rightarrow> string \<Rightarrow> settlement option result" where
  "getSettlement s settlementId =
     bindE (bytes32 (JStr settlementId) ''settlementId'') (\<lambda>k. Inr (find_settlement s k))"

definition getAction :: "store \<Rightarrow> string \<Rightarrow> action option result" where
  "getAction s actionId = bindE (bytes32 (JStr actionId) ''actionId'') (\<lambda>k. Inr (find_action s k))"

definition getEvmTransaction :: "store \<Rightarrow> string \<Rightarrow> evm_transaction option result" where
  "getEvmTransaction s actionId = bindE (bytes32 (JStr actionId) ''actionId'') (\<lambda>k. Inr (find_evm s k))"

definition getRfqRequest :: "store \<Rightarrow> string \<Rightarrow> request_row option result" where
  "getRfqRequest s requestId =
     bindE (bytes32 (JStr requestId) ''requestId'') (\<lambda>k. Inr (find_request s k))"

definition getFirmOffer :: "store \<Rightarrow> string \<Rightarrow> firm_offer option result" where
  "getFirmOffer s offerId = bindE (bytes32 (JStr offerId) ''offerId'') (\<lambda>k. Inr (find_offer s k))"

definition listNonterminalSettlements :: "store \<Rightarrow> settlement list" where
  "listNonterminalSettlements s =
     sort_key se_id (filter (\<lambda>r. se_terminal r = None) (settlements s))"

definition listSettlementActions :: "store \<Rightarrow> string \<Rightarrow> action list result" where
  "listSettlementActions s settlementId =
     bindE (bytes32 (JStr settlementId) ''settlementId'') (\<lambda>k.
     Inr (sort_key (\<lambda>r. (at_plannedAt (ac_terms r), ac_id r))
       (filter (\<lambda>r. ac_settlementId r = k) (actions s))))"

text \<open>The active commitments of a solver, and the read that reconciles them with its counters.\<close>

definition active_of :: "string \<Rightarrow> firm_offer \<Rightarrow> bool" where
  "active_of solverId r \<longleftrightarrow> fo_solverId r = solverId \<and> fo_state r = OFFER_ACTIVE"

definition committed_bit :: "string \<Rightarrow> firm_offer list \<Rightarrow> int" where
  "committed_bit k rows = total (active_of k) (\<lambda>r. of_bitAmountWei (fo_terms r)) rows"

definition committed_sats :: "string \<Rightarrow> firm_offer list \<Rightarrow> int" where
  "committed_sats k rows = total (active_of k) (\<lambda>r. of_lightningAmountSats (fo_terms r)) rows"

definition active_count :: "string \<Rightarrow> firm_offer list \<Rightarrow> int" where
  "active_count k rows = total (active_of k) (\<lambda>_. 1) rows"

definition getSolverCapacity :: "store \<Rightarrow> string \<Rightarrow> solver_capacity option result" where
  "getSolverCapacity s solverId =
     bindE (address (JStr solverId) ''solverId'') (\<lambda>k.
     case find_solver s k of
       None \<Rightarrow> Inr None
     | Some capacity \<Rightarrow>
         if active_count k (offers s) \<noteq> sv_activeFirmQuotes capacity
            \<or> committed_bit k (offers s) \<noteq> sv_committedBitWei capacity
            \<or> committed_sats k (offers s) \<noteq> sv_committedLightningSats capacity
         then Inl (Error ''solver commitment accounting diverged from the active firm-offer ledger'')
         else Inr (Some capacity))"

text \<open>\<^verbatim>\<open>INSERT ... ON CONFLICT(key) DO UPDATE\<close> on the key-value table.\<close>

definition upsert :: "string \<Rightarrow> string \<Rightarrow> (string \<times> string) list \<Rightarrow> (string \<times> string) list" where
  "upsert k v m = (if k \<in> fst ` set m then map (\<lambda>(k', v'). (k', if k' = k then v else v')) m else m @ [(k, v)])"

text \<open>\<^verbatim>\<open>#event\<close>: append to the journal.\<close>

definition event :: "string \<Rightarrow> string option \<Rightarrow> string \<Rightarrow> string \<Rightarrow> string \<Rightarrow> int \<Rightarrow> store \<Rightarrow> store result" where
  "event settlementId actionId eventType eventCode dataDigest occurredAt s =
     bindE (code_text (JStr eventType) ''eventType'') (\<lambda>t.
     bindE (code_text (JStr eventCode) ''eventCode'') (\<lambda>c.
     bindE (bytes32 (JStr dataDigest) ''dataDigest'') (\<lambda>d.
     Inr (s\<lparr>events := events s @ [\<lparr>ce_settlementId = settlementId, ce_actionId = actionId, ce_type = t,
       ce_code = c, ce_dataDigest = d, ce_occurredAt = occurredAt\<rparr>]\<rparr>))))"

section \<open>Facts\<close>

lemma event_Inr:
  "event i a t c d at s = Inr s' \<Longrightarrow>
     s' = s\<lparr>events := events s @ [\<lparr>ce_settlementId = i, ce_actionId = a, ce_type = t,
       ce_code = c, ce_dataDigest = d, ce_occurredAt = at\<rparr>]\<rparr>"
  by (auto simp: event_def bindE_eq_Inr bytes32_Inr code_text_Inr)

lemmas get_defs = getSettlement_def getAction_def getEvmTransaction_def getRfqRequest_def getFirmOffer_def

lemma getSettlement_Inr [result_simps]:
  "getSettlement s k = Inr r \<longleftrightarrow> is_bytes32 k \<and> find_settlement s k = r"
  by (auto simp: getSettlement_def bindE_eq_Inr bytes32_Inr)

lemma getAction_Inr [result_simps]: "getAction s k = Inr r \<longleftrightarrow> is_bytes32 k \<and> find_action s k = r"
  by (auto simp: getAction_def bindE_eq_Inr bytes32_Inr)

lemma getEvmTransaction_Inr [result_simps]:
  "getEvmTransaction s k = Inr r \<longleftrightarrow> is_bytes32 k \<and> find_evm s k = r"
  by (auto simp: getEvmTransaction_def bindE_eq_Inr bytes32_Inr)

lemma getRfqRequest_Inr [result_simps]:
  "getRfqRequest s k = Inr r \<longleftrightarrow> is_bytes32 k \<and> find_request s k = r"
  by (auto simp: getRfqRequest_def bindE_eq_Inr bytes32_Inr)

lemma getFirmOffer_Inr [result_simps]: "getFirmOffer s k = Inr r \<longleftrightarrow> is_bytes32 k \<and> find_offer s k = r"
  by (auto simp: getFirmOffer_def bindE_eq_Inr bytes32_Inr)

lemma getSolverCapacity_Some:
  "getSolverCapacity s k = Inr (Some c) \<longleftrightarrow>
     is_address k \<and> find_solver s k = Some c \<and> sv_activeFirmQuotes c = active_count k (offers s) \<and>
     sv_committedBitWei c = committed_bit k (offers s) \<and>
     sv_committedLightningSats c = committed_sats k (offers s)"
  by (auto simp: getSolverCapacity_def bindE_eq_Inr address_Inr split: option.splits if_splits)

text \<open>What an update of one table leaves alone.\<close>

lemma update_frames [simp]:
  "settlements (update_action k f1 s) = settlements s" "settlements (update_evm k f2 s) = settlements s"
  "settlements (update_identity k f3 s) = settlements s" "settlements (update_request k f4 s) = settlements s"
  "settlements (update_solver k f5 s) = settlements s" "settlements (update_offer k f6 s) = settlements s"
  "actions (update_settlement k f7 s) = actions s" "actions (update_evm k f2 s) = actions s"
  "actions (update_identity k f3 s) = actions s" "actions (update_request k f4 s) = actions s"
  "actions (update_solver k f5 s) = actions s" "actions (update_offer k f6 s) = actions s"
  "evms (update_settlement k f7 s) = evms s" "evms (update_action k f1 s) = evms s"
  "evms (update_identity k f3 s) = evms s" "evms (update_request k f4 s) = evms s"
  "evms (update_solver k f5 s) = evms s" "evms (update_offer k f6 s) = evms s"
  "offers (update_settlement k f7 s) = offers s" "offers (update_action k f1 s) = offers s"
  "offers (update_evm k f2 s) = offers s" "offers (update_identity k f3 s) = offers s"
  "offers (update_request k f4 s) = offers s" "offers (update_solver k f5 s) = offers s"
  "solvers (update_settlement k f7 s) = solvers s" "solvers (update_action k f1 s) = solvers s"
  "solvers (update_evm k f2 s) = solvers s" "solvers (update_identity k f3 s) = solvers s"
  "solvers (update_request k f4 s) = solvers s" "solvers (update_offer k f6 s) = solvers s"
  "requests (update_settlement k f7 s) = requests s" "requests (update_action k f1 s) = requests s"
  "requests (update_evm k f2 s) = requests s" "requests (update_identity k f3 s) = requests s"
  "requests (update_solver k f5 s) = requests s" "requests (update_offer k f6 s) = requests s"
  by (simp_all add: update_defs)

lemma update_frames_journal [simp]:
  "identities (update_settlement k f7 s) = identities s" "identities (update_action k f1 s) = identities s"
  "identities (update_evm k f2 s) = identities s" "identities (update_request k f4 s) = identities s"
  "identities (update_solver k f5 s) = identities s" "identities (update_offer k f6 s) = identities s"
  "events (update_settlement k f7 s) = events s" "events (update_action k f1 s) = events s"
  "events (update_evm k f2 s) = events s" "events (update_identity k f3 s) = events s"
  "events (update_request k f4 s) = events s" "events (update_solver k f5 s) = events s"
  "events (update_offer k f6 s) = events s"
  "admissionEvents (update_settlement k f7 s) = admissionEvents s"
  "admissionEvents (update_identity k f3 s) = admissionEvents s"
  "admissionEvents (update_request k f4 s) = admissionEvents s"
  "admissionEvents (update_solver k f5 s) = admissionEvents s"
  "admissionEvents (update_offer k f6 s) = admissionEvents s"
  "meta (update_settlement k f7 s) = meta s" "meta (update_action k f1 s) = meta s"
  "meta (update_evm k f2 s) = meta s" "meta (update_identity k f3 s) = meta s"
  "meta (update_request k f4 s) = meta s" "meta (update_solver k f5 s) = meta s"
  "meta (update_offer k f6 s) = meta s"
  by (simp_all add: update_defs)

end
