(* ===== verification/Store_Normalize.thy ===== *)
theory Store_Normalize
  imports Store_Schema
begin

text \<open>
  The normalizers at the boundary of the coordinator store (\<^verbatim>\<open>src/lib/coordinator-store.mjs\<close>):
  untrusted input objects become the records the operations work on, or an exception.  The canonical
  JSON form of each record, which the store digests, stands beside it.
\<close>

section \<open>Definitions\<close>

definition DIRECTIONS :: "string list" where
  "DIRECTIONS = [''lightning-to-bit'', ''bit-to-lightning'']"

definition VALUE_METHODS :: "string list" where
  "VALUE_METHODS = [''/invoicesrpc.Invoices/AddHoldInvoice'', ''/invoicesrpc.Invoices/SettleInvoice'',
     ''/invoicesrpc.Invoices/CancelInvoice'', ''/routerrpc.Router/SendPaymentV2'', ''evm:claim'']"

definition METHODS_REQUIRING_RESERVATION :: "string list" where
  "METHODS_REQUIRING_RESERVATION = [''/invoicesrpc.Invoices/SettleInvoice'',
     ''/routerrpc.Router/SendPaymentV2'', ''evm:claim'']"

text \<open>\<^verbatim>\<open>DIRECTIONS.has(value)\<close>: the value as a string, when it is one of the two.\<close>

definition direction_of :: "jsval \<Rightarrow> string option" where
  "direction_of v = (case v of JStr d \<Rightarrow> if d \<in> set DIRECTIONS then Some d else None | _ \<Rightarrow> None)"

definition normalizeSettlement :: "jsval \<Rightarrow> settlement_terms result" where
  "normalizeSettlement input =
     bindE (exactKeys input [''amountSats'', ''capacityEpoch'', ''createdAt'', ''direction'', ''intentDigest'',
       ''intentNonce'', ''invoiceDigest'', ''nonceAuthorityDigest'', ''paymentHash'', ''pricingId'',
       ''quoteReceiptDigest'', ''selectedOfferId'', ''selectedSetDigest'', ''settlementId''] ''settlement'') (\<lambda>_.
     case direction_of (js_get input ''direction'') of
       None \<Rightarrow> Inl (RangeError ''settlement direction is unsupported'')
     | Some direction \<Rightarrow>
     bindE (bytes32 (js_get input ''settlementId'') ''settlementId'') (\<lambda>settlementId.
     bindE (bytes32 (js_get input ''pricingId'') ''pricingId'') (\<lambda>pricingId.
     bindE (bytes32 (js_get input ''nonceAuthorityDigest'') ''nonceAuthorityDigest'') (\<lambda>nonceAuthorityDigest.
     bindE (uint (js_get input ''intentNonce'') ''intentNonce'' False (Some UINT256_MAX)) (\<lambda>intentNonce.
     bindE (bytes32 (js_get input ''intentDigest'') ''intentDigest'') (\<lambda>intentDigest.
     bindE (bytes32 (js_get input ''paymentHash'') ''paymentHash'') (\<lambda>paymentHash.
     bindE (bytes32 (js_get input ''invoiceDigest'') ''invoiceDigest'') (\<lambda>invoiceDigest.
     bindE (uint (js_get input ''amountSats'') ''amountSats'' True (Some UINT64_MAX)) (\<lambda>amountSats.
     bindE (bytes32 (js_get input ''quoteReceiptDigest'') ''quoteReceiptDigest'') (\<lambda>quoteReceiptDigest.
     bindE (bytes32 (js_get input ''selectedSetDigest'') ''selectedSetDigest'') (\<lambda>selectedSetDigest.
     bindE (bytes32 (js_get input ''selectedOfferId'') ''selectedOfferId'') (\<lambda>selectedOfferId.
     bindE (integer (js_get input ''capacityEpoch'') ''capacityEpoch'') (\<lambda>capacityEpoch.
     bindE (integer (js_get input ''createdAt'') ''createdAt'') (\<lambda>createdAt.
     if pricingId = settlementId then Inl (Error ''public pricing and private settlement IDs must differ'')
     else Inr \<lparr>tm_settlementId = settlementId, tm_pricingId = pricingId, tm_direction = direction,
       tm_nonceAuthorityDigest = nonceAuthorityDigest, tm_intentNonce = intentNonce,
       tm_intentDigest = intentDigest, tm_paymentHash = paymentHash, tm_invoiceDigest = invoiceDigest,
       tm_amountSats = amountSats, tm_quoteReceiptDigest = quoteReceiptDigest,
       tm_selectedSetDigest = selectedSetDigest, tm_selectedOfferId = selectedOfferId,
       tm_capacityEpoch = capacityEpoch, tm_createdAt = createdAt\<rparr>))))))))))))))"

definition settlement_json :: "settlement_terms \<Rightarrow> jsval" where
  "settlement_json t = JObj [(''settlementId'', JStr (tm_settlementId t)), (''pricingId'', JStr (tm_pricingId t)),
     (''direction'', JStr (tm_direction t)), (''nonceAuthorityDigest'', JStr (tm_nonceAuthorityDigest t)),
     (''intentNonce'', JStr (dec_str (tm_intentNonce t))), (''intentDigest'', JStr (tm_intentDigest t)),
     (''paymentHash'', JStr (tm_paymentHash t)), (''invoiceDigest'', JStr (tm_invoiceDigest t)),
     (''amountSats'', JStr (dec_str (tm_amountSats t))), (''quoteReceiptDigest'', JStr (tm_quoteReceiptDigest t)),
     (''selectedSetDigest'', JStr (tm_selectedSetDigest t)), (''selectedOfferId'', JStr (tm_selectedOfferId t)),
     (''capacityEpoch'', JInt (tm_capacityEpoch t)), (''createdAt'', JInt (tm_createdAt t))]"

record policy_binding =
  pb_settlementId :: string
  pb_releaseRecordDigest :: string
  pb_riskPolicyDigest :: string
  pb_evidencePolicyDigest :: string
  pb_solverCapabilityDigest :: string
  pb_boundAt :: int

definition normalizeSettlementExecutionPolicy :: "jsval \<Rightarrow> policy_binding result" where
  "normalizeSettlementExecutionPolicy input =
     bindE (exactKeys input [''boundAt'', ''evidencePolicyDigest'', ''releaseRecordDigest'', ''riskPolicyDigest'',
       ''settlementId'', ''solverCapabilityDigest''] ''settlement execution policy binding'') (\<lambda>_.
     bindE (bytes32 (js_get input ''releaseRecordDigest'') ''releaseRecordDigest'') (\<lambda>releaseRecordDigest.
     bindE (bytes32 (js_get input ''riskPolicyDigest'') ''riskPolicyDigest'') (\<lambda>riskPolicyDigest.
     bindE (bytes32 (js_get input ''evidencePolicyDigest'') ''evidencePolicyDigest'') (\<lambda>evidencePolicyDigest.
     bindE (bytes32 (js_get input ''solverCapabilityDigest'') ''solverCapabilityDigest'') (\<lambda>solverCapabilityDigest.
     if zero_bytes32 \<in> set [releaseRecordDigest, riskPolicyDigest, evidencePolicyDigest, solverCapabilityDigest]
     then Inl (RangeError ''settlement execution-policy digests must be non-zero'')
     else bindE (bytes32 (js_get input ''settlementId'') ''settlementId'') (\<lambda>settlementId.
     bindE (integer (js_get input ''boundAt'') ''boundAt'') (\<lambda>boundAt.
     Inr \<lparr>pb_settlementId = settlementId, pb_releaseRecordDigest = releaseRecordDigest,
       pb_riskPolicyDigest = riskPolicyDigest, pb_evidencePolicyDigest = evidencePolicyDigest,
       pb_solverCapabilityDigest = solverCapabilityDigest, pb_boundAt = boundAt\<rparr>)))))))"

record reservation_input =
  ro_settlementId :: string
  ro_reservationId :: string
  ro_txHash :: string
  ro_blockNumber :: int
  ro_blockHash :: string
  ro_intentDigest :: string
  ro_observedAt :: int

definition normalizeReservation :: "jsval \<Rightarrow> reservation_input result" where
  "normalizeReservation input =
     bindE (exactKeys input [''observedAt'', ''reservationBlockHash'', ''reservationBlockNumber'',
       ''reservationId'', ''reservationIntentDigest'', ''reservationTxHash'', ''settlementId''] ''reservation'') (\<lambda>_.
     bindE (bytes32 (js_get input ''settlementId'') ''settlementId'') (\<lambda>settlementId.
     bindE (bytes32 (js_get input ''reservationId'') ''reservationId'') (\<lambda>reservationId.
     bindE (bytes32 (js_get input ''reservationTxHash'') ''reservationTxHash'') (\<lambda>txHash.
     bindE (integer (js_get input ''reservationBlockNumber'') ''reservationBlockNumber'') (\<lambda>blockNumber.
     bindE (bytes32 (js_get input ''reservationBlockHash'') ''reservationBlockHash'') (\<lambda>blockHash.
     bindE (bytes32 (js_get input ''reservationIntentDigest'') ''reservationIntentDigest'') (\<lambda>intentDigest.
     bindE (integer (js_get input ''observedAt'') ''observedAt'') (\<lambda>observedAt.
     Inr \<lparr>ro_settlementId = settlementId, ro_reservationId = reservationId, ro_txHash = txHash,
       ro_blockNumber = blockNumber, ro_blockHash = blockHash, ro_intentDigest = intentDigest,
       ro_observedAt = observedAt\<rparr>))))))))"

definition reservation_json :: "reservation_input \<Rightarrow> jsval" where
  "reservation_json r = JObj [(''settlementId'', JStr (ro_settlementId r)),
     (''reservationId'', JStr (ro_reservationId r)), (''reservationTxHash'', JStr (ro_txHash r)),
     (''reservationBlockNumber'', JInt (ro_blockNumber r)), (''reservationBlockHash'', JStr (ro_blockHash r)),
     (''reservationIntentDigest'', JStr (ro_intentDigest r)), (''observedAt'', JInt (ro_observedAt r))]"

definition normalizeAction :: "jsval \<Rightarrow> action_terms result" where
  "normalizeAction input =
     bindE (exactKeys input [''actionId'', ''amountSats'', ''capacityEpoch'', ''intentDigest'', ''invoiceDigest'',
       ''method'', ''paymentHash'', ''payloadDigest'', ''plannedAt'', ''requestId'', ''settlementId'']
       ''coordinator action'') (\<lambda>_.
     let method = js_text (js_get input ''method'') in
     if method \<notin> set VALUE_METHODS
     then Inl (RangeError ''coordinator action method is not value-moving or supported'')
     else bindE (bytes32 (js_get input ''actionId'') ''actionId'') (\<lambda>actionId.
     bindE (bytes32 (js_get input ''settlementId'') ''settlementId'') (\<lambda>settlementId.
     bindE (bytes32 (js_get input ''requestId'') ''requestId'') (\<lambda>requestId.
     bindE (bytes32 (js_get input ''payloadDigest'') ''payloadDigest'') (\<lambda>payloadDigest.
     bindE (bytes32 (js_get input ''intentDigest'') ''intentDigest'') (\<lambda>intentDigest.
     bindE (bytes32 (js_get input ''paymentHash'') ''paymentHash'') (\<lambda>paymentHash.
     bindE (bytes32 (js_get input ''invoiceDigest'') ''invoiceDigest'') (\<lambda>invoiceDigest.
     bindE (uint (js_get input ''amountSats'') ''amountSats'' True (Some UINT64_MAX)) (\<lambda>amountSats.
     bindE (integer (js_get input ''capacityEpoch'') ''capacityEpoch'') (\<lambda>capacityEpoch.
     bindE (integer (js_get input ''plannedAt'') ''plannedAt'') (\<lambda>plannedAt.
     Inr \<lparr>at_actionId = actionId, at_settlementId = settlementId, at_method = method, at_requestId = requestId,
       at_payloadDigest = payloadDigest, at_intentDigest = intentDigest, at_paymentHash = paymentHash,
       at_invoiceDigest = invoiceDigest, at_amountSats = amountSats, at_capacityEpoch = capacityEpoch,
       at_plannedAt = plannedAt\<rparr>)))))))))))"

definition action_json :: "action_terms \<Rightarrow> jsval" where
  "action_json a = JObj [(''actionId'', JStr (at_actionId a)), (''settlementId'', JStr (at_settlementId a)),
     (''method'', JStr (at_method a)), (''requestId'', JStr (at_requestId a)),
     (''payloadDigest'', JStr (at_payloadDigest a)), (''intentDigest'', JStr (at_intentDigest a)),
     (''paymentHash'', JStr (at_paymentHash a)), (''invoiceDigest'', JStr (at_invoiceDigest a)),
     (''amountSats'', JStr (dec_str (at_amountSats a))), (''capacityEpoch'', JInt (at_capacityEpoch a)),
     (''plannedAt'', JInt (at_plannedAt a))]"

text \<open>
  The policy's own bounds, checked after its fields are read: lifetimes of at most five minutes,
  bounded windows and counters, and caps in increasing order.
\<close>

definition policy_bounds :: "admission_policy \<Rightarrow> unit result" where
  "policy_bounds p =
     (let within = (\<lambda>v m text. if v = 0 \<or> v > m then Inl (RangeError text) else Inr ()) in
      bindE (within (ap_maxRfqTtlSeconds p) (300::int) ''RFQ lifetime is outside policy'') (\<lambda>_.
      bindE (within (ap_maxFirmQuoteTtlSeconds p) 300 ''firm quote lifetime is outside policy'') (\<lambda>_.
      bindE (within (ap_maxCapacityAgeSeconds p) 300 ''capacity age is outside policy'') (\<lambda>_.
      bindE (within (ap_quotaWindowSeconds p) 86400 ''quota window is outside policy'') (\<lambda>_.
      bindE (within (ap_maxActiveRequestsPerIdentity p) 100 ''active RFQ limit is outside policy'') (\<lambda>_.
      bindE (within (ap_maxRequestsPerWindow p) 10000 ''RFQ window limit is outside policy'') (\<lambda>_.
      bindE (within (ap_maxCancellationsPerWindow p) 1000 ''cancellation window limit is outside policy'') (\<lambda>_.
      bindE (within (ap_maxActiveFirmQuotesPerSolver p) 100 ''active firm quote limit is outside policy'') (\<lambda>_.
      bindE (within (ap_maxConsecutiveFailures p) 100 ''consecutive failure limit is outside policy'') (\<lambda>_.
      if ap_establishedSolverMaxBitToLightningSats p < ap_unknownSolverMaxBitToLightningSats p
      then Inl (RangeError ''established solver cap cannot be below the unknown-solver cap'')
      else if ap_maxGlobalBitToLightningInFlightSats p < ap_establishedSolverMaxBitToLightningSats p
      then Inl (RangeError ''global BIT-to-Lightning cap cannot be below the established per-solver cap'')
      else Inr ()))))))))))"

definition normalizeAdmissionPolicy :: "jsval \<Rightarrow> admission_policy result" where
  "normalizeAdmissionPolicy input =
     bindE (exactKeys input [''establishedSolverMaxBitToLightningSats'', ''maxActiveFirmQuotesPerSolver'',
       ''maxActiveRequestsPerIdentity'', ''maxCancellationsPerWindow'', ''maxCapacityAgeSeconds'',
       ''maxConsecutiveFailures'', ''maxFirmQuoteTtlSeconds'', ''maxGlobalBitToLightningInFlightSats'',
       ''maxRequestsPerWindow'', ''maxRfqTtlSeconds'', ''minimumCompletedFillsForEstablished'',
       ''minimumNotionalSats'', ''minimumReliabilityBps'', ''minimumReliabilitySample'', ''quotaWindowSeconds'',
       ''unknownSolverMaxBitToLightningSats''] ''admission policy'') (\<lambda>_.
     let field = (\<lambda>name. js_get input name);
         int_field = (\<lambda>name. integer (js_get input name) (''policy.'' @ name));
         sats = (\<lambda>name. uint (js_get input name) (''policy.'' @ name) True (Some UINT64_MAX)) in
     bindE (sats ''minimumNotionalSats'') (\<lambda>minimumNotionalSats.
     bindE (int_field ''maxRfqTtlSeconds'') (\<lambda>maxRfqTtlSeconds.
     bindE (int_field ''maxActiveRequestsPerIdentity'') (\<lambda>maxActiveRequestsPerIdentity.
     bindE (int_field ''maxRequestsPerWindow'') (\<lambda>maxRequestsPerWindow.
     bindE (int_field ''maxCancellationsPerWindow'') (\<lambda>maxCancellationsPerWindow.
     bindE (int_field ''quotaWindowSeconds'') (\<lambda>quotaWindowSeconds.
     bindE (int_field ''maxFirmQuoteTtlSeconds'') (\<lambda>maxFirmQuoteTtlSeconds.
     bindE (int_field ''maxCapacityAgeSeconds'') (\<lambda>maxCapacityAgeSeconds.
     bindE (int_field ''maxActiveFirmQuotesPerSolver'') (\<lambda>maxActiveFirmQuotesPerSolver.
     bindE (int_field ''maxConsecutiveFailures'') (\<lambda>maxConsecutiveFailures.
     bindE (uint (field ''minimumReliabilitySample'') ''policy.minimumReliabilitySample'' False (Some UINT64_MAX))
       (\<lambda>minimumReliabilitySample.
     bindE (uint (field ''minimumReliabilityBps'') ''policy.minimumReliabilityBps'' False (Some 10000))
       (\<lambda>minimumReliabilityBps.
     bindE (sats ''minimumCompletedFillsForEstablished'') (\<lambda>minimumCompletedFillsForEstablished.
     bindE (sats ''unknownSolverMaxBitToLightningSats'') (\<lambda>unknownCap.
     bindE (sats ''establishedSolverMaxBitToLightningSats'') (\<lambda>establishedCap.
     bindE (sats ''maxGlobalBitToLightningInFlightSats'') (\<lambda>globalCap.
     let policy = \<lparr>ap_minimumNotionalSats = minimumNotionalSats, ap_maxRfqTtlSeconds = maxRfqTtlSeconds,
       ap_maxActiveRequestsPerIdentity = maxActiveRequestsPerIdentity,
       ap_maxRequestsPerWindow = maxRequestsPerWindow,
       ap_maxCancellationsPerWindow = maxCancellationsPerWindow, ap_quotaWindowSeconds = quotaWindowSeconds,
       ap_maxFirmQuoteTtlSeconds = maxFirmQuoteTtlSeconds, ap_maxCapacityAgeSeconds = maxCapacityAgeSeconds,
       ap_maxActiveFirmQuotesPerSolver = maxActiveFirmQuotesPerSolver,
       ap_maxConsecutiveFailures = maxConsecutiveFailures,
       ap_minimumReliabilitySample = minimumReliabilitySample, ap_minimumReliabilityBps = minimumReliabilityBps,
       ap_minimumCompletedFillsForEstablished = minimumCompletedFillsForEstablished,
       ap_unknownSolverMaxBitToLightningSats = unknownCap,
       ap_establishedSolverMaxBitToLightningSats = establishedCap,
       ap_maxGlobalBitToLightningInFlightSats = globalCap\<rparr> in
     bindE (policy_bounds policy) (\<lambda>_. Inr policy))))))))))))))))))"

definition policy_json :: "admission_policy \<Rightarrow> jsval" where
  "policy_json p = JObj [(''minimumNotionalSats'', JStr (dec_str (ap_minimumNotionalSats p))),
     (''maxRfqTtlSeconds'', JInt (ap_maxRfqTtlSeconds p)),
     (''maxActiveRequestsPerIdentity'', JInt (ap_maxActiveRequestsPerIdentity p)),
     (''maxRequestsPerWindow'', JInt (ap_maxRequestsPerWindow p)),
     (''maxCancellationsPerWindow'', JInt (ap_maxCancellationsPerWindow p)),
     (''quotaWindowSeconds'', JInt (ap_quotaWindowSeconds p)),
     (''maxFirmQuoteTtlSeconds'', JInt (ap_maxFirmQuoteTtlSeconds p)),
     (''maxCapacityAgeSeconds'', JInt (ap_maxCapacityAgeSeconds p)),
     (''maxActiveFirmQuotesPerSolver'', JInt (ap_maxActiveFirmQuotesPerSolver p)),
     (''maxConsecutiveFailures'', JInt (ap_maxConsecutiveFailures p)),
     (''minimumReliabilitySample'', JStr (dec_str (ap_minimumReliabilitySample p))),
     (''minimumReliabilityBps'', JStr (dec_str (ap_minimumReliabilityBps p))),
     (''minimumCompletedFillsForEstablished'', JStr (dec_str (ap_minimumCompletedFillsForEstablished p))),
     (''unknownSolverMaxBitToLightningSats'', JStr (dec_str (ap_unknownSolverMaxBitToLightningSats p))),
     (''establishedSolverMaxBitToLightningSats'', JStr (dec_str (ap_establishedSolverMaxBitToLightningSats p))),
     (''maxGlobalBitToLightningInFlightSats'', JStr (dec_str (ap_maxGlobalBitToLightningInFlightSats p)))]"

record identity_input =
  ii_commitment :: string
  ii_key :: string
  ii_keyBindingDigest :: string

definition identity_text_ok :: "string \<Rightarrow> bool" where
  "identity_text_ok s \<longleftrightarrow> s \<noteq> [] \<and> length s \<le> 256
     \<and> list_all (\<lambda>c. of_char c \<noteq> (13::nat) \<and> of_char c \<noteq> (10::nat)) s"

definition normalizeAuthenticatedIdentity :: "(string \<Rightarrow> string) \<Rightarrow> jsval \<Rightarrow> identity_input result" where
  "normalizeAuthenticatedIdentity H input =
     bindE (exactKeys input [''authenticated'', ''commitment'', ''key''] ''authenticated RFQ identity'') (\<lambda>_.
     if js_get input ''authenticated'' \<noteq> JBool True then Inl (Error ''authenticated identity required'')
     else let key = js_text (js_get input ''key'') in
     if \<not> identity_text_ok key then Inl (TypeError ''identity key is invalid'')
     else bindE (bytes32 (js_get input ''commitment'') ''identity.commitment'') (\<lambda>commitment.
     if commitment = zero_bytes32 then Inl (RangeError ''identity commitment must be non-zero'')
     else bindE (digest H (JObj [(''scope'', JStr ''treeswap-rfq-identity-v1''),
       (''commitment'', JStr commitment), (''key'', JStr (toLowerCase key))])) (\<lambda>keyBindingDigest.
     Inr \<lparr>ii_commitment = commitment, ii_key = key, ii_keyBindingDigest = keyBindingDigest\<rparr>)))"

definition normalizeRfqRequest :: "jsval \<Rightarrow> rfq_request result" where
  "normalizeRfqRequest input =
     bindE (exactKeys input [''direction'', ''expiresAt'', ''nonce'', ''notionalSats'', ''requestId'', ''user'']
       ''RFQ request'') (\<lambda>_.
     case direction_of (js_get input ''direction'') of
       None \<Rightarrow> Inl (RangeError ''RFQ direction is unsupported'')
     | Some direction \<Rightarrow>
     let user = js_text (js_get input ''user'') in
     if \<not> identity_text_ok user then Inl (TypeError ''RFQ user is invalid'')
     else bindE (bytes32 (js_get input ''requestId'') ''request.requestId'') (\<lambda>requestId.
     bindE (uint (js_get input ''notionalSats'') ''request.notionalSats'' True (Some UINT64_MAX)) (\<lambda>notionalSats.
     bindE (uint (js_get input ''nonce'') ''request.nonce'' False (Some UINT256_MAX)) (\<lambda>nonce.
     bindE (integer (js_get input ''expiresAt'') ''request.expiresAt'') (\<lambda>expiresAt.
     Inr \<lparr>rr_requestId = requestId, rr_user = user, rr_direction = direction, rr_notionalSats = notionalSats,
       rr_nonce = nonce, rr_expiresAt = expiresAt\<rparr>)))))"

record solver_snapshot =
  ss_solverId :: string
  ss_capabilityDigest :: string
  ss_capabilityExpiresAt :: int
  ss_capacityEpoch :: int
  ss_capacityObservedAt :: int
  ss_availableBitWei :: int
  ss_availableLightningSats :: int

definition normalizeSolverSnapshot :: "jsval \<Rightarrow> solver_snapshot result" where
  "normalizeSolverSnapshot input =
     bindE (exactKeys input [''availableBitWei'', ''availableLightningSats'', ''capabilityDigest'',
       ''capabilityExpiresAt'', ''capabilityVerified'', ''capacityEpoch'', ''observedAt'', ''solverId'']
       ''solver capacity snapshot'') (\<lambda>_.
     if js_get input ''capabilityVerified'' \<noteq> JBool True
     then Inl (Error ''solver capability signature must be verified before admission'')
     else bindE (bytes32 (js_get input ''capabilityDigest'') ''capabilityDigest'') (\<lambda>capabilityDigest.
     if capabilityDigest = zero_bytes32 then Inl (RangeError ''capability digest must be non-zero'')
     else bindE (integer (js_get input ''observedAt'') ''observedAt'') (\<lambda>capacityObservedAt.
     bindE (integer (js_get input ''capabilityExpiresAt'') ''capabilityExpiresAt'') (\<lambda>capabilityExpiresAt.
     if capabilityExpiresAt \<le> capacityObservedAt
     then Inl (RangeError ''solver capability must expire after its capacity observation'')
     else bindE (address (js_get input ''solverId'') ''solverId'') (\<lambda>solverId.
     bindE (integer (js_get input ''capacityEpoch'') ''capacityEpoch'') (\<lambda>capacityEpoch.
     bindE (uint (js_get input ''availableBitWei'') ''availableBitWei'' False (Some UINT256_MAX)) (\<lambda>availableBitWei.
     bindE (uint (js_get input ''availableLightningSats'') ''availableLightningSats'' False (Some UINT64_MAX))
       (\<lambda>availableLightningSats.
     Inr \<lparr>ss_solverId = solverId, ss_capabilityDigest = capabilityDigest,
       ss_capabilityExpiresAt = capabilityExpiresAt, ss_capacityEpoch = capacityEpoch,
       ss_capacityObservedAt = capacityObservedAt, ss_availableBitWei = availableBitWei,
       ss_availableLightningSats = availableLightningSats\<rparr>))))))))"

definition snapshot_json :: "solver_snapshot \<Rightarrow> jsval" where
  "snapshot_json v = JObj [(''solverId'', JStr (ss_solverId v)), (''capabilityDigest'', JStr (ss_capabilityDigest v)),
     (''capabilityExpiresAt'', JInt (ss_capabilityExpiresAt v)), (''capacityEpoch'', JInt (ss_capacityEpoch v)),
     (''capacityObservedAt'', JInt (ss_capacityObservedAt v)),
     (''availableBitWei'', JStr (dec_str (ss_availableBitWei v))),
     (''availableLightningSats'', JStr (dec_str (ss_availableLightningSats v)))]"

record offer_reservation =
  rs_offerId :: string
  rs_offerDigest :: string
  rs_selectionAuthorizationDigest :: string
  rs_selectionAuthorizationExpiresAt :: int
  rs_marketRiskDigest :: string
  rs_marketRiskPolicyDigest :: string
  rs_marketRiskValidUntil :: int
  rs_requestId :: string
  rs_solverId :: string
  rs_offer :: firm_offer_terms
  rs_policy :: admission_policy
  rs_now :: int

text \<open>A digest that must not be the zero word.\<close>

definition nonzero_digest :: "jsval \<Rightarrow> string \<Rightarrow> string \<Rightarrow> string result" where
  "nonzero_digest v name text = bindE (bytes32 v name) (\<lambda>d.
     if d = zero_bytes32 then Inl (RangeError text) else Inr d)"

definition normalizeFirmOfferReservation :: "jsval \<Rightarrow> offer_reservation result" where
  "normalizeFirmOfferReservation input =
     bindE (exactKeys input [''now'', ''offer'', ''offerDigest'', ''offerId'', ''policy'', ''requestId'',
       ''marketRiskDigest'', ''marketRiskPolicyDigest'', ''marketRiskValidUntil'',
       ''selectionAuthorizationDigest'', ''selectionAuthorizationExpiresAt'', ''solverId'']
       ''firm offer reservation'') (\<lambda>_.
     let offer = js_get input ''offer'' in
     bindE (exactKeys offer [''bitAmountWei'', ''capabilityDigest'', ''capacityEpoch'', ''direction'',
       ''expiresAt'', ''lightningAmountSats'', ''maxRoutingFeeSats'', ''signatureVerified'']
       ''verified firm offer'') (\<lambda>_.
     case direction_of (js_get offer ''direction'') of
       None \<Rightarrow> Inl (RangeError ''firm offer direction is unsupported'')
     | Some direction \<Rightarrow>
     if js_get offer ''signatureVerified'' \<noteq> JBool True
     then Inl (Error ''firm offer signature must be verified before reservation'')
     else bindE (uint (js_get offer ''lightningAmountSats'') ''offer.lightningAmountSats'' False (Some UINT64_MAX))
       (\<lambda>lightningAmountSats.
     bindE (uint (js_get offer ''maxRoutingFeeSats'') ''offer.maxRoutingFeeSats'' False (Some UINT64_MAX))
       (\<lambda>maxRoutingFeeSats.
     if lightningAmountSats + maxRoutingFeeSats > UINT64_MAX
     then Inl (RangeError ''firm offer Lightning amount plus routing headroom exceeds uint64'')
     else bindE (nonzero_digest (js_get input ''selectionAuthorizationDigest'') ''selectionAuthorizationDigest''
       ''selection authorization digest must be non-zero'') (\<lambda>selectionDigest.
     bindE (integer (js_get input ''selectionAuthorizationExpiresAt'') ''selectionAuthorizationExpiresAt'')
       (\<lambda>selectionExpiresAt.
     bindE (integer (js_get input ''now'') ''now'') (\<lambda>now.
     bindE (integer (js_get offer ''expiresAt'') ''offer.expiresAt'') (\<lambda>offerExpiresAt.
     bindE (nonzero_digest (js_get input ''marketRiskDigest'') ''marketRiskDigest''
       ''market risk digest must be non-zero'') (\<lambda>marketRiskDigest.
     bindE (nonzero_digest (js_get input ''marketRiskPolicyDigest'') ''marketRiskPolicyDigest''
       ''market risk policy digest must be non-zero'') (\<lambda>marketRiskPolicyDigest.
     bindE (integer (js_get input ''marketRiskValidUntil'') ''marketRiskValidUntil'') (\<lambda>marketRiskValidUntil.
     bindE (nonzero_digest (js_get offer ''capabilityDigest'') ''offer.capabilityDigest''
       ''firm offer capability digest must be non-zero'') (\<lambda>capabilityDigest.
     if selectionExpiresAt \<le> now \<or> selectionExpiresAt > offerExpiresAt
     then Inl (RangeError ''selection authorization must be active and cannot outlive the firm offer'')
     else if marketRiskValidUntil < offerExpiresAt \<or> marketRiskValidUntil \<le> now
     then Inl (RangeError ''market risk authorization must remain active through the firm offer'')
     else bindE (bytes32 (js_get input ''offerId'') ''offerId'') (\<lambda>offerId.
     bindE (bytes32 (js_get input ''offerDigest'') ''offerDigest'') (\<lambda>offerDigest.
     bindE (bytes32 (js_get input ''requestId'') ''requestId'') (\<lambda>requestId.
     bindE (address (js_get input ''solverId'') ''solverId'') (\<lambda>solverId.
     bindE (uint (js_get offer ''bitAmountWei'') ''offer.bitAmountWei'' False (Some UINT256_MAX)) (\<lambda>bitAmountWei.
     bindE (integer (js_get offer ''capacityEpoch'') ''offer.capacityEpoch'') (\<lambda>capacityEpoch.
     bindE (normalizeAdmissionPolicy (js_get input ''policy'')) (\<lambda>policy.
     Inr \<lparr>rs_offerId = offerId, rs_offerDigest = offerDigest, rs_selectionAuthorizationDigest = selectionDigest,
       rs_selectionAuthorizationExpiresAt = selectionExpiresAt, rs_marketRiskDigest = marketRiskDigest,
       rs_marketRiskPolicyDigest = marketRiskPolicyDigest, rs_marketRiskValidUntil = marketRiskValidUntil,
       rs_requestId = requestId, rs_solverId = solverId,
       rs_offer = \<lparr>ot_direction = direction, ot_capabilityDigest = capabilityDigest,
         ot_bitAmountWei = bitAmountWei, ot_lightningAmountSats = lightningAmountSats,
         ot_maxRoutingFeeSats = maxRoutingFeeSats, ot_capacityEpoch = capacityEpoch,
         ot_expiresAt = offerExpiresAt, ot_solverSigned = True\<rparr>,
       rs_policy = policy, rs_now = now\<rparr>)))))))))))))))))))"

record execution_input =
  xi_offerId :: string
  xi_privateRequestDigest :: string
  xi_executableOfferDigest :: string
  xi_finalizedAt :: int

definition normalizeFirmOfferExecution :: "jsval \<Rightarrow> execution_input result" where
  "normalizeFirmOfferExecution input =
     bindE (exactKeys input [''executableOfferDigest'', ''finalizedAt'', ''offerId'', ''privateRequestDigest'']
       ''firm offer execution binding'') (\<lambda>_.
     bindE (bytes32 (js_get input ''privateRequestDigest'') ''privateRequestDigest'') (\<lambda>privateDigest.
     bindE (bytes32 (js_get input ''executableOfferDigest'') ''executableOfferDigest'') (\<lambda>offerDigest.
     if privateDigest = zero_bytes32 \<or> offerDigest = zero_bytes32
     then Inl (RangeError ''firm offer execution digests must be non-zero'')
     else bindE (bytes32 (js_get input ''offerId'') ''offerId'') (\<lambda>offerId.
     bindE (integer (js_get input ''finalizedAt'') ''finalizedAt'') (\<lambda>finalizedAt.
     Inr \<lparr>xi_offerId = offerId, xi_privateRequestDigest = privateDigest,
       xi_executableOfferDigest = offerDigest, xi_finalizedAt = finalizedAt\<rparr>)))))"

record authorization_input =
  ui_offerId :: string
  ui_executionBindingDigest :: string
  ui_executionAuthorizationDigest :: string
  ui_authorizationExpiresAt :: int
  ui_authorizedAt :: int

definition normalizeFirmOfferUserAuthorization :: "jsval \<Rightarrow> authorization_input result" where
  "normalizeFirmOfferUserAuthorization input =
     bindE (exactKeys input [''authorizationExpiresAt'', ''authorizedAt'', ''executionAuthorizationDigest'',
       ''executionBindingDigest'', ''offerId''] ''firm offer user authorization'') (\<lambda>_.
     bindE (bytes32 (js_get input ''executionBindingDigest'') ''executionBindingDigest'') (\<lambda>bindingDigest.
     bindE (bytes32 (js_get input ''executionAuthorizationDigest'') ''executionAuthorizationDigest'')
       (\<lambda>authorizationDigest.
     if bindingDigest = zero_bytes32 \<or> authorizationDigest = zero_bytes32
     then Inl (RangeError ''firm offer user-authorization digests must be non-zero'')
     else bindE (bytes32 (js_get input ''offerId'') ''offerId'') (\<lambda>offerId.
     bindE (integer (js_get input ''authorizationExpiresAt'') ''authorizationExpiresAt'') (\<lambda>expiresAt.
     bindE (integer (js_get input ''authorizedAt'') ''authorizedAt'') (\<lambda>authorizedAt.
     Inr \<lparr>ui_offerId = offerId, ui_executionBindingDigest = bindingDigest,
       ui_executionAuthorizationDigest = authorizationDigest, ui_authorizationExpiresAt = expiresAt,
       ui_authorizedAt = authorizedAt\<rparr>))))))"

definition normalizeAuthorizedFirmOfferSettlement :: "jsval \<Rightarrow> (authorization_input \<times> settlement_terms) result" where
  "normalizeAuthorizedFirmOfferSettlement input =
     bindE (exactKeys input [''authorizationExpiresAt'', ''authorizedAt'', ''executionAuthorizationDigest'',
       ''executionBindingDigest'', ''offerId'', ''settlement''] ''authorized firm offer settlement'') (\<lambda>_.
     bindE (normalizeFirmOfferUserAuthorization (JObj [(''offerId'', js_get input ''offerId''),
       (''executionBindingDigest'', js_get input ''executionBindingDigest''),
       (''executionAuthorizationDigest'', js_get input ''executionAuthorizationDigest''),
       (''authorizationExpiresAt'', js_get input ''authorizationExpiresAt''),
       (''authorizedAt'', js_get input ''authorizedAt'')])) (\<lambda>authorization.
     bindE (normalizeSettlement (js_get input ''settlement'')) (\<lambda>settlement.
     Inr (authorization, settlement))))"

text \<open>The record terms a reservation is digested and stored under.\<close>

definition reservation_terms :: "offer_reservation \<Rightarrow> offer_terms" where
  "reservation_terms v = (let quote = rs_offer v in
     \<lparr>of_offerId = rs_offerId v, of_offerDigest = rs_offerDigest v,
      of_selectionAuthorizationDigest = rs_selectionAuthorizationDigest v,
      of_selectionAuthorizationExpiresAt = rs_selectionAuthorizationExpiresAt v,
      of_marketRiskDigest = rs_marketRiskDigest v, of_marketRiskPolicyDigest = rs_marketRiskPolicyDigest v,
      of_marketRiskValidUntil = rs_marketRiskValidUntil v, of_requestId = rs_requestId v,
      of_solverId = rs_solverId v, of_capabilityDigest = ot_capabilityDigest quote,
      of_direction = ot_direction quote, of_amount = offer_amount quote, of_bitAmountWei = offer_bit_leg quote,
      of_lightningAmountSats = offer_lightning_leg quote, of_capacityEpoch = ot_capacityEpoch quote,
      of_expiresAt = ot_expiresAt quote\<rparr>)"

definition offer_terms_json :: "offer_terms \<Rightarrow> jsval" where
  "offer_terms_json t = JObj [(''offerId'', JStr (of_offerId t)), (''offerDigest'', JStr (of_offerDigest t)),
     (''selectionAuthorizationDigest'', JStr (of_selectionAuthorizationDigest t)),
     (''selectionAuthorizationExpiresAt'', JInt (of_selectionAuthorizationExpiresAt t)),
     (''marketRiskDigest'', JStr (of_marketRiskDigest t)),
     (''marketRiskPolicyDigest'', JStr (of_marketRiskPolicyDigest t)),
     (''marketRiskValidUntil'', JInt (of_marketRiskValidUntil t)), (''requestId'', JStr (of_requestId t)),
     (''solverId'', JStr (of_solverId t)), (''capabilityDigest'', JStr (of_capabilityDigest t)),
     (''direction'', JStr (of_direction t)), (''amount'', JStr (dec_str (of_amount t))),
     (''bitAmountWei'', JStr (dec_str (of_bitAmountWei t))),
     (''lightningAmountSats'', JStr (dec_str (of_lightningAmountSats t))),
     (''capacityEpoch'', JInt (of_capacityEpoch t)), (''expiresAt'', JInt (of_expiresAt t))]"

section \<open>What normalization guarantees\<close>

lemma normalizeSettlement_Inr:
  assumes "normalizeSettlement input = Inr t"
  shows "is_bytes32 (tm_settlementId t) \<and> is_bytes32 (tm_pricingId t) \<and> tm_pricingId t \<noteq> tm_settlementId t \<and>
    tm_direction t \<in> set DIRECTIONS \<and> is_bytes32 (tm_paymentHash t) \<and> is_bytes32 (tm_selectedOfferId t) \<and>
    0 < tm_amountSats t \<and> tm_amountSats t \<le> UINT64_MAX \<and> 0 \<le> tm_createdAt t"
  using assms unfolding normalizeSettlement_def bindE_eq_Inr
  by (elim exE conjE, cases "direction_of (js_get input ''direction'')")
    (auto simp: bindE_eq_Inr if_Inl_eq_Inr bytes32_Inr integer_Inr direction_of_def
      dest!: uint_positive split: jsval.splits if_splits)

lemma policy_bounds_Inr:
  assumes "policy_bounds p = Inr u"
  shows "ap_maxActiveFirmQuotesPerSolver p \<le> 100 \<and> ap_maxConsecutiveFailures p \<le> 100 \<and>
    ap_maxRfqTtlSeconds p \<le> 300 \<and> ap_maxFirmQuoteTtlSeconds p \<le> 300 \<and>
    ap_unknownSolverMaxBitToLightningSats p \<le> ap_establishedSolverMaxBitToLightningSats p \<and>
    ap_establishedSolverMaxBitToLightningSats p \<le> ap_maxGlobalBitToLightningInFlightSats p"
  using assms unfolding policy_bounds_def Let_def
  by (simp only: bindE_eq_Inr if_Inl_eq_Inr de_Morgan_disj not_less) (elim exE conjE, intro conjI)

lemma normalizeAdmissionPolicy_bounds:
  "normalizeAdmissionPolicy input = Inr p \<Longrightarrow> policy_bounds p = Inr ()"
  unfolding normalizeAdmissionPolicy_def Let_def bindE_eq_Inr sum.inject
  by (elim exE conjE) (drule sym [where t = p], simp)

lemma normalizeFirmOfferReservation_Inr:
  assumes "normalizeFirmOfferReservation input = Inr v"
  shows "policy_bounds (rs_policy v) = Inr () \<and> is_bytes32 (rs_offerId v) \<and> is_address (rs_solverId v) \<and>
    is_bytes32 (rs_requestId v) \<and> ot_direction (rs_offer v) \<in> set DIRECTIONS \<and>
    rs_now v < rs_selectionAuthorizationExpiresAt v \<and>
    rs_selectionAuthorizationExpiresAt v \<le> ot_expiresAt (rs_offer v) \<and>
    ot_expiresAt (rs_offer v) \<le> rs_marketRiskValidUntil v \<and>
    ot_lightningAmountSats (rs_offer v) + ot_maxRoutingFeeSats (rs_offer v) \<le> UINT64_MAX"
proof -
  obtain d where d: "direction_of (js_get (js_get input ''offer'') ''direction'') = Some d"
    using assms by (cases "direction_of (js_get (js_get input ''offer'') ''direction'')")
      (auto simp: normalizeFirmOfferReservation_def Let_def bindE_eq_Inr)
  then have "d \<in> set DIRECTIONS" by (auto simp: direction_of_def split: jsval.splits if_splits)
  with assms d show ?thesis
    unfolding normalizeFirmOfferReservation_def Let_def
    by (simp only: bindE_eq_Inr if_Inl_eq_Inr option.case sum.inject bytes32_Inr address_Inr)
      (elim exE conjE, drule sym [where t = v], drule normalizeAdmissionPolicy_bounds, simp)
qed

end
