(* ===== verification/Store_Admission.thy ===== *)
theory Store_Admission
  imports Store_Normalize
begin

text \<open>
  The admission half of the coordinator store (\<^verbatim>\<open>src/lib/coordinator-store.mjs\<close>): requests for
  quote, solver capacity and the ledger of firm offers.  Each method of the class is one definition
  on \<open>store\<close>; the hash of the runtime is the parameter \<open>H\<close>.  A public method runs its body
  in \<open>transaction\<close>, so an exception leaves the store unchanged.  A violated UNIQUE constraint is the
  exception the source turns it into, or the database's own.
\<close>

section \<open>Policy and identity\<close>

definition bindAdmissionPolicy :: "(string \<Rightarrow> string) \<Rightarrow> admission_policy \<Rightarrow> store \<Rightarrow> store result" where
  "bindAdmissionPolicy H policy s =
     bindE (digest H (policy_json policy)) (\<lambda>policyDigest.
     case map_of (meta s) ''admission_policy_digest'' of
       None \<Rightarrow> Inr (s\<lparr>meta := meta s @ [(''admission_policy_digest'', policyDigest)]\<rparr>)
     | Some existing \<Rightarrow>
         if existing \<noteq> policyDigest
         then Inl (Error ''admission policy changed after the coordinator policy was bound'')
         else Inr s)"

definition ensureRfqIdentity :: "identity_input \<Rightarrow> int \<Rightarrow> store \<Rightarrow> (store \<times> identity_row) result" where
  "ensureRfqIdentity identity observedAt s =
     (case find_identity s (ii_commitment identity) of
        None \<Rightarrow>
          let row = \<lparr>id_commitment = ii_commitment identity, id_keyBindingDigest = ii_keyBindingDigest identity,
            id_cancellationSequence = 0, id_version = 1, id_createdAt = observedAt, id_updatedAt = observedAt,
            id_lastObservedAt = observedAt\<rparr> in
          Inr (s\<lparr>identities := identities s @ [row]\<rparr>, row)
      | Some existing \<Rightarrow>
          if id_keyBindingDigest existing \<noteq> ii_keyBindingDigest identity
          then Inl (Error ''RFQ identity commitment is bound to another authenticated key'')
          else if observedAt < id_lastObservedAt existing
          then Inl (Error ''RFQ admission clock moved backward'')
          else Inr (s, existing))"

definition touchRfqIdentity :: "string \<Rightarrow> int \<Rightarrow> store \<Rightarrow> store" where
  "touchRfqIdentity commitment observedAt s = update_identity commitment
     (\<lambda>r. r\<lparr>id_version := id_version r + 1, id_updatedAt := observedAt, id_lastObservedAt := observedAt\<rparr>) s"

definition events_in_window :: "string \<Rightarrow> event_kind \<Rightarrow> int \<Rightarrow> store \<Rightarrow> int" where
  "events_in_window commitment kind threshold s = int (length (filter
     (\<lambda>e. ae_identityCommitment e = commitment \<and> ae_kind e = kind \<and> threshold < ae_occurredAt e)
     (admissionEvents s)))"

definition rfqUsage :: "string \<Rightarrow> int \<Rightarrow> int \<Rightarrow> store \<Rightarrow> rfq_usage result" where
  "rfqUsage commitment observedAt quotaWindowSeconds s =
     (case find_identity s commitment of
        None \<Rightarrow> Inl (Error ''RFQ identity does not exist'')
      | Some identity \<Rightarrow>
          let threshold = observedAt - quotaWindowSeconds in
          Inr \<lparr>us_activeRequests = int (length (filter
                 (\<lambda>r. rq_identityCommitment r = commitment \<and> rq_state r = RFQ_ACTIVE) (requests s))),
               us_acceptedInWindow = events_in_window commitment EV_ACCEPTED threshold s,
               us_cancellationsInWindow = events_in_window commitment EV_CANCELED threshold s,
               us_cancellationSequence = id_cancellationSequence identity\<rparr>)"

section \<open>Accounting of firm offers\<close>

definition capacity_conflict :: "solver_capacity \<Rightarrow> bool" where
  "capacity_conflict v \<longleftrightarrow> sv_availableBitWei v < sv_committedBitWei v
     \<or> sv_availableLightningSats v < sv_committedLightningSats v"

definition writeSolverAccounting :: "solver_capacity \<Rightarrow> int \<Rightarrow> store \<Rightarrow> store" where
  "writeSolverAccounting solver updatedAt s = update_solver (sv_solverId solver) (\<lambda>r.
     r\<lparr>sv_committedBitWei := sv_committedBitWei solver,
       sv_committedLightningSats := sv_committedLightningSats solver,
       sv_activeFirmQuotes := sv_activeFirmQuotes solver, sv_successfulFills := sv_successfulFills solver,
       sv_attributableFailures := sv_attributableFailures solver,
       sv_consecutiveFailures := sv_consecutiveFailures solver, sv_suspended := sv_suspended solver,
       sv_capacityConflict := capacity_conflict solver, sv_version := sv_version r + 1,
       sv_updatedAt := updatedAt\<rparr>) s"

definition FIRM_OFFER_OUTCOMES :: "(string \<times> offer_state) list" where
  "FIRM_OFFER_OUTCOMES = [(''filled'', FILLED), (''solver-failed'', SOLVER_FAILED),
     (''expired-unexercised'', EXPIRED_UNEXERCISED), (''user-abandoned'', USER_ABANDONED)]"

text \<open>The columns of a row that make up the commitment handed to the policy.\<close>

definition row_commitment :: "firm_offer \<Rightarrow> commitment" where
  "row_commitment row = (let t = fo_terms row in
     \<lparr>cm_direction = of_direction t, cm_amount = of_amount t, cm_bitAmountWei = of_bitAmountWei t,
      cm_lightningAmountSats = of_lightningAmountSats t, cm_capacityEpoch = of_capacityEpoch t,
      cm_expiresAt = of_expiresAt t\<rparr>)"

definition completeFirmOffer ::
    "firm_offer \<Rightarrow> string \<Rightarrow> string \<Rightarrow> int \<Rightarrow> int \<Rightarrow> store \<Rightarrow> (store \<times> firm_offer option) result" where
  "completeFirmOffer row outcome outcomeDigest recordedAt maxConsecutiveFailures s =
     (if fo_state row \<noteq> OFFER_ACTIVE then Inl (Error ''firm offer is not active'')
      else if recordedAt < fo_reservedAt row then Inl (Error ''firm offer outcome predates reservation'')
      else if outcome = ''expired-unexercised'' \<and> recordedAt < of_expiresAt (fo_terms row)
      then Inl (Error ''firm offer cannot expire before its signed deadline'')
      else bindE (getSolverCapacity s (fo_solverId row)) (\<lambda>capacity.
      case capacity of
        None \<Rightarrow> Inl (Error ''firm offer solver does not exist'')
      | Some solver \<Rightarrow>
          bindE (recordFirmOfferOutcome solver (row_commitment row) outcome maxConsecutiveFailures) (\<lambda>next.
          case map_of FIRM_OFFER_OUTCOMES outcome of
            None \<Rightarrow> Inl (RangeError ''unsupported firm-offer outcome'')
          | Some state \<Rightarrow>
              let s1 = writeSolverAccounting (next\<lparr>sv_solverId := sv_solverId solver\<rparr>) recordedAt s;
                  s2 = update_offer (fo_id row)
                    (\<lambda>r. r\<lparr>fo_state := state, fo_outcome := Some (outcomeDigest, recordedAt)\<rparr>) s1 in
              bindE (getFirmOffer s2 (fo_id row)) (\<lambda>completed. Inr (s2, completed)))))"

text \<open>An offer is settlement-owned when a settlement selected it.\<close>

definition owned :: "store \<Rightarrow> firm_offer \<Rightarrow> bool" where
  "owned s offer \<longleftrightarrow> list_ex (\<lambda>r. se_offerId r = fo_id offer) (settlements s)"

definition active_offers :: "store \<Rightarrow> string \<Rightarrow> firm_offer list" where
  "active_offers s requestId =
     filter (\<lambda>r. fo_requestId r = requestId \<and> fo_state r = OFFER_ACTIVE) (offers s)"

definition release_json :: "string \<Rightarrow> string \<Rightarrow> int \<Rightarrow> string \<Rightarrow> jsval" where
  "release_json outcome offerId recordedAt requestId = JObj [(''code'', JStr outcome),
     (''offerId'', JStr offerId), (''recordedAt'', JInt recordedAt), (''requestId'', JStr requestId)]"

text \<open>One round of the release loops: the default policy suspends after one failure.\<close>

definition release_offer ::
    "(string \<Rightarrow> string) \<Rightarrow> string \<Rightarrow> int \<Rightarrow> string \<Rightarrow> firm_offer \<Rightarrow> store \<Rightarrow> store result" where
  "release_offer H outcome recordedAt requestId row s =
     bindE (digest H (release_json outcome (fo_id row) recordedAt requestId)) (\<lambda>d.
     bindE (completeFirmOffer row outcome d recordedAt 1 s) (\<lambda>(s', _). Inr s'))"

definition releaseActiveFirmOffers ::
    "(string \<Rightarrow> string) \<Rightarrow> string \<Rightarrow> string \<Rightarrow> int \<Rightarrow> store \<Rightarrow> store result" where
  "releaseActiveFirmOffers H requestId outcome recordedAt s =
     (if list_ex (owned s) (active_offers s requestId)
      then Inl (Error ''settlement-owned firm offer requires settlement reconciliation'')
      else foldE (release_offer H outcome recordedAt requestId) (sort_key fo_id (active_offers s requestId)) s)"

definition resolve_request :: "string \<Rightarrow> rfq_state \<Rightarrow> string \<Rightarrow> int \<Rightarrow> store \<Rightarrow> store" where
  "resolve_request requestId state resolutionDigest recordedAt s = update_request requestId
     (\<lambda>r. r\<lparr>rq_state := state, rq_resolution := Some (resolutionDigest, recordedAt)\<rparr>) s"

definition expiry_json :: "int \<Rightarrow> string \<Rightarrow> jsval" where
  "expiry_json observedAt requestId = JObj [(''code'', JStr ''RFQ_EXPIRED''),
     (''observedAt'', JInt observedAt), (''requestId'', JStr requestId)]"

text \<open>One round of the expiry loop; the state carries the number of requests expired so far.\<close>

definition expire_request ::
    "(string \<Rightarrow> string) \<Rightarrow> int \<Rightarrow> request_row \<Rightarrow> store \<times> int \<Rightarrow> (store \<times> int) result" where
  "expire_request H observedAt row = (\<lambda>(s, expired).
     bindE (foldE (release_offer H ''expired-unexercised'' observedAt (rq_requestId row))
       (sort_key fo_id (filter (\<lambda>r. \<not> owned s r) (active_offers s (rq_requestId row)))) s) (\<lambda>s1.
     if list_ex (\<lambda>r. fo_requestId r = rq_requestId row \<and> owned s1 r) (offers s1) then Inr (s1, expired)
     else bindE (digest H (expiry_json observedAt (rq_requestId row))) (\<lambda>proof.
     Inr (resolve_request (rq_requestId row) RFQ_EXPIRED proof observedAt s1, expired + 1))))"

definition due_requests :: "int \<Rightarrow> string option \<Rightarrow> int \<Rightarrow> store \<Rightarrow> request_row list" where
  "due_requests observedAt identityCommitment limit s =
     take (nat limit) (sort_key (\<lambda>r. (rq_expiresAt r, rq_requestId r)) (filter
       (\<lambda>r. (case identityCommitment of None \<Rightarrow> True | Some c \<Rightarrow> rq_identityCommitment r = c)
          \<and> rq_state r = RFQ_ACTIVE \<and> rq_expiresAt r \<le> observedAt) (requests s)))"

definition expireRfqRequests ::
    "(string \<Rightarrow> string) \<Rightarrow> int \<Rightarrow> string option \<Rightarrow> int \<Rightarrow> store \<Rightarrow> (store \<times> int) result" where
  "expireRfqRequests H observedAt identityCommitment limit s =
     foldE (expire_request H observedAt) (due_requests observedAt identityCommitment limit s) (s, 0)"

definition empty_due_requests :: "int \<Rightarrow> int \<Rightarrow> store \<Rightarrow> request_row list" where
  "empty_due_requests observedAt limit s =
     take (nat limit) (sort_key (\<lambda>r. (rq_expiresAt r, rq_requestId r)) (filter
       (\<lambda>r. rq_state r = RFQ_ACTIVE \<and> rq_expiresAt r \<le> observedAt
          \<and> active_offers s (rq_requestId r) = []
          \<and> \<not> list_ex (\<lambda>f. fo_requestId f = rq_requestId r \<and> owned s f) (offers s)) (requests s)))"

definition close_request :: "(string \<Rightarrow> string) \<Rightarrow> int \<Rightarrow> request_row \<Rightarrow> store \<Rightarrow> store result" where
  "close_request H observedAt row s =
     bindE (digest H (expiry_json observedAt (rq_requestId row))) (\<lambda>proof.
     Inr (update_request (rq_requestId row) (\<lambda>r. if rq_state r = RFQ_ACTIVE
       then r\<lparr>rq_state := RFQ_EXPIRED, rq_resolution := Some (proof, observedAt)\<rparr> else r) s))"

definition closeExpiredEmptyRfqRequests ::
    "(string \<Rightarrow> string) \<Rightarrow> int \<Rightarrow> int \<Rightarrow> store \<Rightarrow> (store \<times> int) result" where
  "closeExpiredEmptyRfqRequests H observedAt limit s =
     (let rows = empty_due_requests observedAt limit s in
      bindE (foldE (close_request H observedAt) rows s) (\<lambda>s'. Inr (s', int (length rows))))"

section \<open>Requests for quote\<close>

definition request_terms_json :: "rfq_request \<Rightarrow> string \<Rightarrow> jsval" where
  "request_terms_json request commitment = JObj [(''requestId'', JStr (rr_requestId request)),
     (''identityCommitment'', JStr commitment), (''direction'', JStr (rr_direction request)),
     (''notionalSats'', JStr (dec_str (rr_notionalSats request))), (''nonce'', JStr (dec_str (rr_nonce request))),
     (''expiresAt'', JInt (rr_expiresAt request))]"

text \<open>\<^verbatim>\<open>INSERT INTO rfq_requests\<close> and \<^verbatim>\<open>INSERT INTO rfq_admission_events\<close>.\<close>

definition insert_request :: "request_row \<Rightarrow> store \<Rightarrow> store result" where
  "insert_request row s =
     (if list_ex (\<lambda>r. rq_requestId r = rq_requestId row
         \<or> rq_identityCommitment r = rq_identityCommitment row \<and> rq_nonce r = rq_nonce row) (requests s)
      then Inl (Error ''RFQ nonce or request identifier was already used'')
      else Inr (s\<lparr>requests := requests s @ [row]\<rparr>))"

definition insert_admission_event :: "admission_event \<Rightarrow> store \<Rightarrow> store result" where
  "insert_admission_event row s =
     (if list_ex (\<lambda>r. ae_eventId r = ae_eventId row) (admissionEvents s)
      then Inl (Error ''UNIQUE constraint failed: rfq_admission_events.event_id'')
      else Inr (s\<lparr>admissionEvents := admissionEvents s @ [row]\<rparr>))"

record admit_input =
  ai_identity :: identity_input
  ai_request :: rfq_request
  ai_policy :: admission_policy
  ai_now :: int
  ai_recordDigest :: string

definition normalizeAdmitInput :: "(string \<Rightarrow> string) \<Rightarrow> jsval \<Rightarrow> admit_input result" where
  "normalizeAdmitInput H input =
     bindE (exactKeys input [''identity'', ''now'', ''policy'', ''request''] ''RFQ admission'') (\<lambda>_.
     bindE (normalizeAuthenticatedIdentity H (js_get input ''identity'')) (\<lambda>identity.
     bindE (normalizeRfqRequest (js_get input ''request'')) (\<lambda>request.
     bindE (normalizeAdmissionPolicy (js_get input ''policy'')) (\<lambda>policy.
     bindE (integer (js_get input ''now'') ''now'') (\<lambda>observedAt.
     bindE (digest H (request_terms_json request (ii_commitment identity))) (\<lambda>recordDigest.
     Inr \<lparr>ai_identity = identity, ai_request = request, ai_policy = policy, ai_now = observedAt,
       ai_recordDigest = recordDigest\<rparr>))))))"

text \<open>The part of \<open>admitRfq\<close> after the policy, the identity and the expiry sweep.\<close>

definition admit_new ::
    "admit_input \<Rightarrow> store \<Rightarrow> (store \<times> request_row option \<times> rfq_usage) result" where
  "admit_new v s =
     (let request = ai_request v; commitment = ii_commitment (ai_identity v); observedAt = ai_now v;
          window = ap_quotaWindowSeconds (ai_policy v) in
      bindE (rfqUsage commitment observedAt window s) (\<lambda>usage.
      bindE (assessRfqAdmission request \<lparr>ri_authenticated = True, ri_key = ii_key (ai_identity v)\<rparr> usage
        (ai_policy v) observedAt) (\<lambda>assessment.
      if \<not> ra_allowed assessment
      then Inl (Error (''RFQ admission rejected: '' @ join_reasons (ra_reasons assessment)))
      else bindE (insert_request \<lparr>rq_requestId = rr_requestId request, rq_identityCommitment = commitment,
        rq_direction = rr_direction request, rq_notionalSats = rr_notionalSats request,
        rq_nonce = rr_nonce request, rq_expiresAt = rr_expiresAt request, rq_recordDigest = ai_recordDigest v,
        rq_state = RFQ_ACTIVE, rq_resolution = None, rq_acceptedAt = observedAt\<rparr> s) (\<lambda>s1.
      bindE (insert_admission_event \<lparr>ae_eventId = rr_requestId request, ae_identityCommitment = commitment,
        ae_requestId = Some (rr_requestId request), ae_kind = EV_ACCEPTED, ae_sequence = rr_nonce request,
        ae_recordDigest = ai_recordDigest v, ae_occurredAt = observedAt\<rparr> s1) (\<lambda>s2.
      let s3 = touchRfqIdentity commitment observedAt s2 in
      bindE (getRfqRequest s3 (rr_requestId request)) (\<lambda>row.
      bindE (rfqUsage commitment observedAt window s3) (\<lambda>usage'.
      Inr (s3, row, usage'))))))))"

definition admit_body ::
    "(string \<Rightarrow> string) \<Rightarrow> admit_input \<Rightarrow> store \<Rightarrow> (store \<times> request_row option \<times> rfq_usage) result" where
  "admit_body H v s =
     (let commitment = ii_commitment (ai_identity v); observedAt = ai_now v in
      bindE (bindAdmissionPolicy H (ai_policy v) s) (\<lambda>s1.
      bindE (ensureRfqIdentity (ai_identity v) observedAt s1) (\<lambda>(s2, _).
      bindE (expireRfqRequests H observedAt (Some commitment) 1000 s2) (\<lambda>(s3, _).
      bindE (getRfqRequest s3 (rr_requestId (ai_request v))) (\<lambda>existing.
      case existing of
        Some row \<Rightarrow>
          if rq_recordDigest row \<noteq> ai_recordDigest v
          then Inl (Error ''RFQ request identifier was already bound to different terms'')
          else let s4 = touchRfqIdentity commitment observedAt s3 in
            bindE (rfqUsage commitment observedAt (ap_quotaWindowSeconds (ai_policy v)) s4) (\<lambda>usage.
            Inr (s4, Some row, usage))
      | None \<Rightarrow> admit_new v s3)))))"

definition admitRfq ::
    "(string \<Rightarrow> string) \<Rightarrow> jsval \<Rightarrow> store \<Rightarrow> store \<times> (request_row option \<times> rfq_usage) result" where
  "admitRfq H input = withInput (normalizeAdmitInput H input) (\<lambda>v. transaction (admit_body H v))"

record cancel_input =
  ci_identity :: identity_input
  ci_cancellationId :: string
  ci_cancellationSequence :: int
  ci_recordedAt :: int
  ci_digest :: string

definition cancellation_json :: "string \<Rightarrow> int \<Rightarrow> string \<Rightarrow> int \<Rightarrow> jsval" where
  "cancellation_json cancellationId sequence commitment recordedAt = JObj [
     (''cancellationId'', JStr cancellationId), (''cancellationSequence'', JStr (dec_str sequence)),
     (''identityCommitment'', JStr commitment), (''recordedAt'', JInt recordedAt)]"

definition normalizeCancelInput :: "(string \<Rightarrow> string) \<Rightarrow> jsval \<Rightarrow> cancel_input result" where
  "normalizeCancelInput H input =
     bindE (exactKeys input [''cancellationId'', ''cancellationSequence'', ''identity'', ''recordedAt'']
       ''RFQ cancellation'') (\<lambda>_.
     bindE (normalizeAuthenticatedIdentity H (js_get input ''identity'')) (\<lambda>identity.
     bindE (bytes32 (js_get input ''cancellationId'') ''cancellationId'') (\<lambda>cancellationId.
     bindE (uint (js_get input ''cancellationSequence'') ''cancellationSequence'' False (Some UINT256_MAX)) (\<lambda>sequence.
     bindE (integer (js_get input ''recordedAt'') ''recordedAt'') (\<lambda>recordedAt.
     bindE (digest H (cancellation_json cancellationId sequence (ii_commitment identity) recordedAt)) (\<lambda>d.
     Inr \<lparr>ci_identity = identity, ci_cancellationId = cancellationId, ci_cancellationSequence = sequence,
       ci_recordedAt = recordedAt, ci_digest = d\<rparr>))))))"

definition cancel_request :: "(string \<Rightarrow> string) \<Rightarrow> cancel_input \<Rightarrow> request_row \<Rightarrow> store \<Rightarrow> store result" where
  "cancel_request H v row s =
     bindE (releaseActiveFirmOffers H (rq_requestId row) ''user-abandoned'' (ci_recordedAt v) s) (\<lambda>s'.
     Inr (resolve_request (rq_requestId row) RFQ_CANCELED (ci_digest v) (ci_recordedAt v) s'))"

definition superseded_requests :: "string \<Rightarrow> int \<Rightarrow> store \<Rightarrow> request_row list" where
  "superseded_requests commitment sequence s =
     filter (\<lambda>r. rq_nonce r \<le> sequence) (sort_key (\<lambda>r. (rq_acceptedAt r, rq_requestId r))
       (filter (\<lambda>r. rq_identityCommitment r = commitment \<and> rq_state r = RFQ_ACTIVE) (requests s)))"

text \<open>The result is the sequence, the number of canceled requests and whether the call was a replay.\<close>

definition cancel_body :: "(string \<Rightarrow> string) \<Rightarrow> cancel_input \<Rightarrow> store \<Rightarrow> (store \<times> int \<times> int \<times> bool) result" where
  "cancel_body H v s =
     (let commitment = ii_commitment (ci_identity v); sequence = ci_cancellationSequence v; at = ci_recordedAt v in
      bindE (ensureRfqIdentity (ci_identity v) at s) (\<lambda>(s1, identityRow).
      case row_find ae_eventId (ci_cancellationId v) (admissionEvents s1) of
        Some existing \<Rightarrow>
          if ae_recordDigest existing \<noteq> ci_digest v
          then Inl (Error ''cancellation identifier was already bound to different terms'')
          else Inr (touchRfqIdentity commitment at s1, sequence, 0, True)
      | None \<Rightarrow>
          if sequence \<le> id_cancellationSequence identityRow
          then Inl (Error ''cancellation sequence must advance permanently'')
          else bindE (expireRfqRequests H at (Some commitment) 1000 s1) (\<lambda>(s2, _).
          let active = superseded_requests commitment sequence s2 in
          bindE (foldE (cancel_request H v) active s2) (\<lambda>s3.
          let s4 = update_identity commitment (\<lambda>r. r\<lparr>id_cancellationSequence := sequence,
            id_version := id_version r + 1, id_updatedAt := at, id_lastObservedAt := at\<rparr>) s3 in
          bindE (insert_admission_event \<lparr>ae_eventId = ci_cancellationId v, ae_identityCommitment = commitment,
            ae_requestId = None, ae_kind = EV_CANCELED, ae_sequence = sequence,
            ae_recordDigest = ci_digest v, ae_occurredAt = at\<rparr> s4) (\<lambda>s5.
          Inr (s5, sequence, int (length active), False))))))"

definition cancelRfqs :: "(string \<Rightarrow> string) \<Rightarrow> jsval \<Rightarrow> store \<Rightarrow> store \<times> (int \<times> int \<times> bool) result" where
  "cancelRfqs H input = withInput (normalizeCancelInput H input) (\<lambda>v. transaction (cancel_body H v))"

definition expireRfqs :: "(string \<Rightarrow> string) \<Rightarrow> jsval \<Rightarrow> jsval \<Rightarrow> store \<Rightarrow> store \<times> int result" where
  "expireRfqs H observedAt limit =
     withInput (bindE (integer observedAt ''observedAt'') (\<lambda>at.
       bindE (integer limit ''limit'') (\<lambda>bounded.
       if bounded = 0 \<or> bounded > 1000 then Inl (RangeError ''RFQ expiry limit is outside policy'')
       else Inr (at, bounded))))
     (\<lambda>(at, bounded). transaction (expireRfqRequests H at None bounded))"

section \<open>Restart reconciliation\<close>

definition RFQ_FINALIZATION_RESTART_SCHEMA :: string where
  "RFQ_FINALIZATION_RESTART_SCHEMA = ''treeswap.rfq-finalization-restart.v1''"

definition RFQ_FINALIZATION_RESTART_CLOCK_KEY :: string where
  "RFQ_FINALIZATION_RESTART_CLOCK_KEY = ''rfq_finalization_restart_observed_at''"

text \<open>
  \<^verbatim>\<open>COALESCE(resolved_at, authorized_at, finalized_at, reserved_at)\<close>, and the latest time the
  liability tables carry.
\<close>

definition offer_clock :: "firm_offer \<Rightarrow> int" where
  "offer_clock r = (case fo_outcome r of Some (_, t) \<Rightarrow> t | None \<Rightarrow>
     (case fo_authorization r of Some a \<Rightarrow> ua_authorizedAt a | None \<Rightarrow>
       (case fo_binding r of Some b \<Rightarrow> xb_finalizedAt b | None \<Rightarrow> fo_reservedAt r)))"

definition liability_times :: "store \<Rightarrow> int list" where
  "liability_times s = map id_lastObservedAt (identities s) @ map sv_updatedAt (solvers s) @
     map offer_clock (offers s) @ map se_updatedAt (settlements s)"

definition max_time :: "int list \<Rightarrow> int option" where
  "max_time ts = (if ts = [] then None else Some (fold max ts (hd ts)))"

definition min_time :: "int list \<Rightarrow> int option" where
  "min_time ts = (if ts = [] then None else Some (fold min ts (hd ts)))"

definition check_restart_clock :: "int \<Rightarrow> store \<Rightarrow> unit result" where
  "check_restart_clock observedAt s =
     bindE (case map_of (meta s) RFQ_FINALIZATION_RESTART_CLOCK_KEY of
         None \<Rightarrow> Inr ()
       | Some prior \<Rightarrow>
           if \<not> is_uint prior \<or> dec_val prior > MAX_SAFE_INTEGER
           then Inl (Error ''RFQ finalization restart clock record is invalid'')
           else if observedAt < dec_val prior
           then Inl (Error ''RFQ finalization restart clock moved backward'')
           else Inr ()) (\<lambda>_.
     case max_time (liability_times s) of
       None \<Rightarrow> Inr ()
     | Some clock \<Rightarrow>
         if clock > MAX_SAFE_INTEGER \<or> clock < 0
         then Inl (Error ''RFQ finalization restart liability clock is invalid'')
         else if observedAt < clock
         then Inl (Error ''RFQ finalization restart clock moved backward behind its durable liability ledger'')
         else Inr ())"

text \<open>
  The active offers joined with their requests, and the three malformed cases.  The columns a CHECK
  constraint makes null together are one optional sub-record, so of the binding cases only an
  authorization without a binding remains.
\<close>

definition malformed :: "firm_offer \<Rightarrow> request_row \<Rightarrow> bool" where
  "malformed offer request \<longleftrightarrow> rq_state request \<noteq> RFQ_ACTIVE
     \<or> of_expiresAt (fo_terms offer) > rq_expiresAt request
     \<or> fo_authorization offer \<noteq> None \<and> fo_binding offer = None"

definition unsafe_ownership :: "firm_offer \<Rightarrow> settlement \<Rightarrow> request_row \<Rightarrow> bool" where
  "unsafe_ownership offer settlement request =
     (let t = fo_terms offer; m = se_terms settlement in
      fo_binding offer = None
      \<or> (case fo_authorization offer of
           None \<Rightarrow> True
         | Some a \<Rightarrow>
             tm_createdAt m < ua_authorizedAt a \<or> tm_createdAt m \<ge> ua_expiresAt a)
      \<or> tm_pricingId m \<noteq> of_requestId t
      \<or> tm_direction m \<noteq> of_direction t
      \<or> tm_amountSats m \<noteq> of_lightningAmountSats t
      \<or> tm_capacityEpoch m \<noteq> of_capacityEpoch t
      \<or> tm_createdAt m \<ge> of_expiresAt t
      \<or> rq_state request \<noteq> RFQ_ACTIVE
      \<or> rq_direction request \<noteq> tm_direction m
      \<or> rq_notionalSats request \<noteq> tm_amountSats m)"

definition active_ledger :: "store \<Rightarrow> firm_offer list" where
  "active_ledger s = filter (\<lambda>r. fo_state r = OFFER_ACTIVE) (offers s)"

definition owners :: "store \<Rightarrow> firm_offer \<Rightarrow> settlement list" where
  "owners s offer = filter (\<lambda>r. se_offerId r = fo_id offer) (settlements s)"

definition request_of :: "store \<Rightarrow> firm_offer \<Rightarrow> request_row list" where
  "request_of s offer = filter (\<lambda>r. rq_requestId r = fo_requestId offer) (requests s)"

text \<open>The join of all offers with their settlements, by request: no request may occur twice.\<close>

definition owned_requests :: "store \<Rightarrow> string list" where
  "owned_requests s = concat (map (\<lambda>f. map (\<lambda>_. fo_requestId f) (owners s f)) (offers s))"

definition check_restart_liability :: "store \<Rightarrow> unit result" where
  "check_restart_liability s =
     (if list_ex (\<lambda>f. list_ex (malformed f) (request_of s f)) (active_ledger s)
      then Inl (Error ''RFQ finalization restart found inconsistent active liability state'')
      else if list_ex (\<lambda>f. list_ex (\<lambda>m. list_ex (unsafe_ownership f m) (request_of s f)) (owners s f)) (active_ledger s)
      then Inl (Error ''settlement-owned firm offer lacks complete user authorization'')
      else if \<not> distinct (owned_requests s)
      then Inl (Error ''RFQ finalization restart found multiple settlements for one RFQ'')
      else Inr ())"

definition unowned_ledger :: "store \<Rightarrow> firm_offer list" where
  "unowned_ledger s = filter (\<lambda>f. \<not> owned s f) (active_ledger s)"

definition due_offers :: "int \<Rightarrow> store \<Rightarrow> firm_offer list" where
  "due_offers observedAt s = filter (\<lambda>f. of_expiresAt (fo_terms f) \<le> observedAt) (unowned_ledger s)"

definition restart_release_json :: "string \<Rightarrow> int \<Rightarrow> string \<Rightarrow> jsval" where
  "restart_release_json offerId observedAt requestId = JObj [
     (''code'', JStr ''RFQ_FINALIZATION_RESTART_EXPIRED''), (''offerId'', JStr offerId),
     (''observedAt'', JInt observedAt), (''requestId'', JStr requestId)]"

definition restart_release :: "(string \<Rightarrow> string) \<Rightarrow> int \<Rightarrow> firm_offer \<Rightarrow> store \<Rightarrow> store result" where
  "restart_release H observedAt row s =
     bindE (digest H (restart_release_json (fo_id row) observedAt (fo_requestId row))) (\<lambda>d.
     bindE (completeFirmOffer row ''expired-unexercised'' d observedAt 1 s) (\<lambda>(s', _). Inr s'))"

record restart_report =
  rp_state :: string
  rp_observedAt :: int
  rp_releasedExpiredCommitments :: int
  rp_expiredRequestsClosed :: int
  rp_pendingReservedCommitments :: int
  rp_pendingFinalizedCommitments :: int
  rp_pendingAuthorizedCommitments :: int
  rp_earliestPendingExpiry :: "int option"
  rp_expiredReleaseBacklog :: int
  rp_settlementOwnedCommitments :: int
  rp_nonterminalSettlementOwnedCommitments :: int
  rp_terminalSettlementOwnedCommitments :: int

definition restart_json :: "restart_report \<Rightarrow> jsval" where
  "restart_json r = JObj [(''schema'', JStr RFQ_FINALIZATION_RESTART_SCHEMA), (''state'', JStr (rp_state r)),
     (''observedAt'', JInt (rp_observedAt r)),
     (''releasedExpiredCommitments'', JInt (rp_releasedExpiredCommitments r)),
     (''expiredRequestsClosed'', JInt (rp_expiredRequestsClosed r)),
     (''pendingReservedCommitments'', JInt (rp_pendingReservedCommitments r)),
     (''pendingFinalizedCommitments'', JInt (rp_pendingFinalizedCommitments r)),
     (''pendingAuthorizedCommitments'', JInt (rp_pendingAuthorizedCommitments r)),
     (''earliestPendingExpiry'', (case rp_earliestPendingExpiry r of None \<Rightarrow> JNull | Some t \<Rightarrow> JInt t)),
     (''expiredReleaseBacklog'', JInt (rp_expiredReleaseBacklog r)),
     (''settlementOwnedCommitments'', JInt (rp_settlementOwnedCommitments r)),
     (''nonterminalSettlementOwnedCommitments'', JInt (rp_nonterminalSettlementOwnedCommitments r)),
     (''terminalSettlementOwnedCommitments'', JInt (rp_terminalSettlementOwnedCommitments r)),
     (''browserAuthorityRestored'', JBool False), (''privateRequestRecovered'', JBool False),
     (''invoiceCreationRequests'', JInt 0), (''externalCalls'', JInt 0), (''fundingAuthorization'', JBool False),
     (''newExposureAuthorization'', JBool False), (''settlementDispatchAuthority'', JBool False)]"

definition restart_summary :: "int \<Rightarrow> int \<Rightarrow> int \<Rightarrow> store \<Rightarrow> restart_report" where
  "restart_summary observedAt released closed s =
     (let rows = unowned_ledger s;
          count = (\<lambda>P. int (length (filter P rows)));
          reserved = count (\<lambda>f. fo_binding f = None);
          finalized = count (\<lambda>f. fo_binding f \<noteq> None \<and> fo_authorization f = None);
          authorized = count (\<lambda>f. fo_authorization f \<noteq> None);
          joined = concat (map (owners s) (active_ledger s));
          backlog = int (length (due_offers observedAt s)) in
      \<lparr>rp_state = (if joined \<noteq> [] then ''settlement-recovery-required''
         else if backlog \<noteq> 0 then ''cleanup-incomplete''
         else if reserved + finalized + authorized \<noteq> 0 then ''waiting-for-expiry'' else ''ready''),
       rp_observedAt = observedAt, rp_releasedExpiredCommitments = released, rp_expiredRequestsClosed = closed,
       rp_pendingReservedCommitments = reserved, rp_pendingFinalizedCommitments = finalized,
       rp_pendingAuthorizedCommitments = authorized,
       rp_earliestPendingExpiry = min_time (map (\<lambda>f. of_expiresAt (fo_terms f)) rows),
       rp_expiredReleaseBacklog = backlog, rp_settlementOwnedCommitments = int (length joined),
       rp_nonterminalSettlementOwnedCommitments = int (length (filter (\<lambda>m. se_terminal m = None) joined)),
       rp_terminalSettlementOwnedCommitments = int (length (filter (\<lambda>m. se_terminal m \<noteq> None) joined))\<rparr>)"

definition restart_body ::
    "(string \<Rightarrow> string) \<Rightarrow> int \<Rightarrow> int \<Rightarrow> store \<Rightarrow> (store \<times> restart_report \<times> string) result" where
  "restart_body H observedAt limit s =
     bindE (check_restart_clock observedAt s) (\<lambda>_.
     bindE (check_restart_liability s) (\<lambda>_.
     let s1 = s\<lparr>meta := upsert RFQ_FINALIZATION_RESTART_CLOCK_KEY (dec_str observedAt) (meta s)\<rparr>;
         due = take (nat limit) (sort_key (\<lambda>f. (of_expiresAt (fo_terms f), fo_id f)) (due_offers observedAt s1)) in
     bindE (foldE (restart_release H observedAt) due s1) (\<lambda>s2.
     bindE (closeExpiredEmptyRfqRequests H observedAt limit s2) (\<lambda>(s3, closed).
     let report = restart_summary observedAt (int (length due)) closed s3 in
     bindE (digest H (restart_json report)) (\<lambda>snapshot. Inr (s3, report, snapshot))))))"

definition reconcileRfqFinalizationRestart ::
    "(string \<Rightarrow> string) \<Rightarrow> jsval \<Rightarrow> store \<Rightarrow> store \<times> (restart_report \<times> string) result" where
  "reconcileRfqFinalizationRestart H input =
     withInput (bindE (exactKeys input [''limit'', ''observedAt''] ''RFQ finalization restart reconciliation'') (\<lambda>_.
       bindE (integer (js_get input ''observedAt'') ''observedAt'') (\<lambda>observedAt.
       bindE (integer (js_get input ''limit'') ''limit'') (\<lambda>limit.
       if limit = 0 \<or> limit > 1000 then Inl (RangeError ''RFQ finalization restart limit is outside policy'')
       else Inr (observedAt, limit)))))
     (\<lambda>(observedAt, limit). transaction (restart_body H observedAt limit))"

definition rfq_outcome :: "jsval \<Rightarrow> rfq_state option" where
  "rfq_outcome v = (let key = js_String v in
     if key = ''exercised'' then Some RFQ_EXERCISED
     else if key = ''user-abandoned'' then Some RFQ_ABANDONED else None)"

definition resolve_body ::
    "(string \<Rightarrow> string) \<Rightarrow> string \<Rightarrow> string \<Rightarrow> int \<Rightarrow> rfq_state \<Rightarrow> store \<Rightarrow> (store \<times> request_row option) result" where
  "resolve_body H requestId evidenceDigest recordedAt state s =
     bindE (getRfqRequest s requestId) (\<lambda>found.
     case found of
       None \<Rightarrow> Inl (Error ''RFQ request does not exist'')
     | Some request \<Rightarrow>
         if rq_state request \<noteq> RFQ_ACTIVE then
           (if rq_state request = state \<and> map_option fst (rq_resolution request) = Some evidenceDigest
            then Inr (s, Some request) else Inl (Error ''RFQ request is already resolved''))
         else if recordedAt < rq_acceptedAt request then Inl (Error ''RFQ resolution predates admission'')
         else if state = RFQ_EXERCISED
             \<and> \<not> list_ex (\<lambda>f. fo_requestId f = requestId \<and> fo_state f = FILLED) (offers s)
         then Inl (Error ''RFQ cannot be exercised without a filled firm offer'')
         else bindE (releaseActiveFirmOffers H requestId ''user-abandoned'' recordedAt s) (\<lambda>s1.
         let s2 = resolve_request requestId state evidenceDigest recordedAt s1 in
         bindE (getRfqRequest s2 requestId) (\<lambda>row. Inr (s2, row))))"

definition resolveRfq :: "(string \<Rightarrow> string) \<Rightarrow> jsval \<Rightarrow> store \<Rightarrow> store \<times> request_row option result" where
  "resolveRfq H input =
     withInput (bindE (exactKeys input [''evidenceDigest'', ''outcome'', ''recordedAt'', ''requestId''] ''RFQ resolution'') (\<lambda>_.
       bindE (bytes32 (js_get input ''requestId'') ''requestId'') (\<lambda>requestId.
       bindE (bytes32 (js_get input ''evidenceDigest'') ''evidenceDigest'') (\<lambda>evidenceDigest.
       bindE (integer (js_get input ''recordedAt'') ''recordedAt'') (\<lambda>recordedAt.
       case rfq_outcome (js_get input ''outcome'') of
         None \<Rightarrow> Inl (RangeError ''RFQ outcome is unsupported'')
       | Some state \<Rightarrow> Inr (requestId, evidenceDigest, recordedAt, state))))))
     (\<lambda>(requestId, evidenceDigest, recordedAt, state).
       transaction (resolve_body H requestId evidenceDigest recordedAt state))"

section \<open>Solver capacity and firm offers\<close>

definition record_capacity_body ::
    "solver_snapshot \<Rightarrow> string \<Rightarrow> store \<Rightarrow> (store \<times> solver_capacity option) result" where
  "record_capacity_body v snapshotDigest s =
     bindE (getSolverCapacity s (ss_solverId v)) (\<lambda>found.
     case found of
       None \<Rightarrow>
         let s1 = s\<lparr>solvers := solvers s @ [
           \<lparr>sv_solverId = ss_solverId v, sv_capabilityDigest = ss_capabilityDigest v,
            sv_capabilityExpiresAt = ss_capabilityExpiresAt v, sv_snapshotDigest = snapshotDigest,
            sv_capacityEpoch = ss_capacityEpoch v, sv_capacityObservedAt = ss_capacityObservedAt v,
            sv_availableBitWei = ss_availableBitWei v, sv_committedBitWei = 0,
            sv_availableLightningSats = ss_availableLightningSats v, sv_committedLightningSats = 0,
            sv_activeFirmQuotes = 0, sv_successfulFills = 0, sv_attributableFailures = 0,
            sv_consecutiveFailures = 0, sv_suspended = False, sv_capacityConflict = False, sv_version = 1,
            sv_createdAt = ss_capacityObservedAt v, sv_updatedAt = ss_capacityObservedAt v\<rparr>]\<rparr> in
         bindE (getSolverCapacity s1 (ss_solverId v)) (\<lambda>row. Inr (s1, row))
     | Some existing \<Rightarrow>
         if ss_capacityEpoch v = sv_capacityEpoch existing then
           (if sv_snapshotDigest existing \<noteq> snapshotDigest
            then Inl (Error ''capacity epoch was already bound to another snapshot'')
            else Inr (s, Some existing))
         else if ss_capacityEpoch v < sv_capacityEpoch existing then Inl (Error ''capacity epoch moved backward'')
         else if ss_capacityObservedAt v \<le> sv_capacityObservedAt existing
         then Inl (Error ''capacity observation time must advance'')
         else let conflict = (ss_availableBitWei v < sv_committedBitWei existing
                \<or> ss_availableLightningSats v < sv_committedLightningSats existing);
              s1 = update_solver (ss_solverId v) (\<lambda>r. r\<lparr>sv_capabilityDigest := ss_capabilityDigest v,
                sv_capabilityExpiresAt := ss_capabilityExpiresAt v, sv_snapshotDigest := snapshotDigest,
                sv_capacityEpoch := ss_capacityEpoch v, sv_capacityObservedAt := ss_capacityObservedAt v,
                sv_availableBitWei := ss_availableBitWei v,
                sv_availableLightningSats := ss_availableLightningSats v, sv_capacityConflict := conflict,
                sv_version := sv_version r + 1, sv_updatedAt := ss_capacityObservedAt v\<rparr>) s in
         bindE (getSolverCapacity s1 (ss_solverId v)) (\<lambda>row. Inr (s1, row)))"

definition recordSolverCapacity ::
    "(string \<Rightarrow> string) \<Rightarrow> jsval \<Rightarrow> store \<Rightarrow> store \<times> solver_capacity option result" where
  "recordSolverCapacity H input =
     withInput (bindE (normalizeSolverSnapshot input) (\<lambda>v.
       bindE (digest H (snapshot_json v)) (\<lambda>d. Inr (v, d))))
     (\<lambda>(v, d). transaction (record_capacity_body v d))"

text \<open>The solver's record in one direction of trade replaces its overall counters in the assessment.\<close>

definition solverDirectionHistory :: "string \<Rightarrow> string \<Rightarrow> store \<Rightarrow> int \<times> int \<times> int" where
  "solverDirectionHistory solverId direction s =
     (let rows = filter (\<lambda>f. fo_solverId f = solverId \<and> of_direction (fo_terms f) = direction) (offers s);
          filled = filter (\<lambda>f. fo_state f = FILLED) rows;
          failed = filter (\<lambda>f. fo_state f = SOLVER_FAILED) rows;
          resolved = (\<lambda>f. case fo_outcome f of Some (_, t) \<Rightarrow> [t] | None \<Rightarrow> []);
          latest = max_time (concat (map resolved filled)) in
      (int (length filled), int (length failed),
       int (length (filter (\<lambda>f. case latest of None \<Rightarrow> True
         | Some t \<Rightarrow> (case fo_outcome f of Some (_, u) \<Rightarrow> u \<ge> t | None \<Rightarrow> False)) failed))))"

definition with_history :: "int \<times> int \<times> int \<Rightarrow> solver_capacity \<Rightarrow> solver_capacity" where
  "with_history = (\<lambda>(fills, failures, consecutive) v. v\<lparr>sv_successfulFills := fills,
     sv_attributableFailures := failures, sv_consecutiveFailures := consecutive\<rparr>)"

definition global_committed :: "firm_offer list \<Rightarrow> int" where
  "global_committed rows = total
     (\<lambda>f. of_direction (fo_terms f) = ''bit-to-lightning'' \<and> fo_state f = OFFER_ACTIVE)
     (\<lambda>f. of_lightningAmountSats (fo_terms f)) rows"

text \<open>\<^verbatim>\<open>INSERT INTO firm_offer_commitments\<close> with its three uniqueness constraints.\<close>

definition insert_offer :: "firm_offer \<Rightarrow> store \<Rightarrow> store result" where
  "insert_offer row s =
     (if list_ex (\<lambda>f. fo_id f = fo_id row \<or> of_offerDigest (fo_terms f) = of_offerDigest (fo_terms row)
         \<or> fo_requestId f = fo_requestId row \<and> fo_solverId f = fo_solverId row) (offers s)
      then Inl (Error ''solver already has a firm offer for this RFQ or offer digest'')
      else Inr (s\<lparr>offers := offers s @ [row]\<rparr>))"

text \<open>The checks of a reservation against the request it answers.\<close>

definition check_offer_request :: "offer_reservation \<Rightarrow> request_row option \<Rightarrow> unit result" where
  "check_offer_request v found =
     (case found of
        None \<Rightarrow> Inl (Error ''firm offer requires an active RFQ'')
      | Some request \<Rightarrow>
          if rq_state request \<noteq> RFQ_ACTIVE then Inl (Error ''firm offer requires an active RFQ'')
          else if rq_direction request \<noteq> ot_direction (rs_offer v)
          then Inl (Error ''firm offer direction does not match the RFQ'')
          else if ot_expiresAt (rs_offer v) > rq_expiresAt request then Inl (Error ''firm offer outlives its RFQ'')
          else if ot_lightningAmountSats (rs_offer v) \<noteq> rq_notionalSats request
          then Inl (Error ''firm offer notional does not match the RFQ'')
          else Inr ())"

definition reserve_new ::
    "offer_reservation \<Rightarrow> string \<Rightarrow> store \<Rightarrow> (store \<times> firm_offer option) result" where
  "reserve_new v recordDigest s =
     bindE (getRfqRequest s (rs_requestId v)) (\<lambda>request.
     bindE (check_offer_request v request) (\<lambda>_.
     bindE (getSolverCapacity s (rs_solverId v)) (\<lambda>found.
     case found of
       None \<Rightarrow> Inl (Error ''solver has no verified capacity declaration'')
     | Some solver \<Rightarrow>
         if sv_capabilityDigest solver \<noteq> ot_capabilityDigest (rs_offer v)
         then Inl (Error ''firm offer capability does not match the current verified solver capability'')
         else bindE (assessFirmOffer (rs_offer v)
           (with_history (solverDirectionHistory (rs_solverId v) (ot_direction (rs_offer v)) s) solver)
           (rs_policy v) (rs_now v)) (\<lambda>assessment.
         if \<not> fa_allowed assessment
         then Inl (Error (''firm offer admission rejected: '' @ join_reasons (fa_reasons assessment)))
         else if ot_direction (rs_offer v) = ''bit-to-lightning''
             \<and> global_committed (offers s) + offer_lightning_leg (rs_offer v)
               > ap_maxGlobalBitToLightningInFlightSats (rs_policy v)
         then Inl (Error ''global BIT-to-Lightning in-flight cap exceeded'')
         else bindE (reserveFirmOfferCapacity solver assessment) (\<lambda>next.
         bindE (insert_offer \<lparr>fo_terms = reservation_terms v, fo_recordDigest = recordDigest, fo_binding = None,
           fo_authorization = None, fo_state = OFFER_ACTIVE, fo_outcome = None, fo_reservedAt = rs_now v\<rparr> s) (\<lambda>s1.
         let s2 = writeSolverAccounting (next\<lparr>sv_solverId := sv_solverId solver\<rparr>) (rs_now v) s1 in
         bindE (getFirmOffer s2 (rs_offerId v)) (\<lambda>row. Inr (s2, row))))))))"

definition reserve_body ::
    "(string \<Rightarrow> string) \<Rightarrow> offer_reservation \<Rightarrow> string \<Rightarrow> store \<Rightarrow> (store \<times> firm_offer option) result" where
  "reserve_body H v recordDigest s =
     bindE (bindAdmissionPolicy H (rs_policy v) s) (\<lambda>s1.
     bindE (getFirmOffer s1 (rs_offerId v)) (\<lambda>found.
     case found of
       Some existing \<Rightarrow>
         if fo_recordDigest existing \<noteq> recordDigest
         then Inl (Error ''firm offer identifier was already bound to different terms'')
         else Inr (s1, Some existing)
     | None \<Rightarrow>
         if list_ex (\<lambda>m. se_offerId m = rs_offerId v \<or> tm_pricingId (se_terms m) = rs_requestId v) (settlements s1)
         then Inl (Error ''firm offer identifier was already claimed by a settlement'')
         else bindE (expireRfqRequests H (rs_now v) None 1000 s1) (\<lambda>(s2, _).
         reserve_new v recordDigest s2)))"

definition reserveVerifiedFirmOffer ::
    "(string \<Rightarrow> string) \<Rightarrow> jsval \<Rightarrow> store \<Rightarrow> store \<times> firm_offer option result" where
  "reserveVerifiedFirmOffer H input =
     withInput (bindE (normalizeFirmOfferReservation input) (\<lambda>v.
       bindE (digest H (offer_terms_json (reservation_terms v))) (\<lambda>d. Inr (v, d))))
     (\<lambda>(v, d). transaction (reserve_body H v d))"

definition execution_json :: "execution_input \<Rightarrow> jsval" where
  "execution_json v = JObj [(''offerId'', JStr (xi_offerId v)),
     (''privateRequestDigest'', JStr (xi_privateRequestDigest v)),
     (''executableOfferDigest'', JStr (xi_executableOfferDigest v))]"

definition execution_body ::
    "execution_input \<Rightarrow> string \<Rightarrow> store \<Rightarrow> (store \<times> firm_offer option) result" where
  "execution_body v bindingDigest s =
     bindE (getFirmOffer s (xi_offerId v)) (\<lambda>found.
     case found of
       None \<Rightarrow> Inl (Error ''firm offer does not exist'')
     | Some current \<Rightarrow>
         if fo_state current \<noteq> OFFER_ACTIVE \<or> of_expiresAt (fo_terms current) \<le> xi_finalizedAt v
         then Inl (Error ''only an active unexpired firm offer can bind an executable quote'')
         else if xi_finalizedAt v < fo_reservedAt current
         then Inl (Error ''executable quote binding predates the firm reservation'')
         else bindE (getRfqRequest s (fo_requestId current)) (\<lambda>request.
         if (case request of None \<Rightarrow> True
             | Some r \<Rightarrow> rq_state r \<noteq> RFQ_ACTIVE \<or> rq_expiresAt r \<le> xi_finalizedAt v)
         then Inl (Error ''executable quote requires an active unexpired RFQ'')
         else case fo_binding current of
           Some b \<Rightarrow>
             if xb_bindingDigest b \<noteq> bindingDigest \<or> xb_privateRequestDigest b \<noteq> xi_privateRequestDigest v
                \<or> xb_executableOfferDigest b \<noteq> xi_executableOfferDigest v
             then Inl (Error ''firm offer is already bound to another executable quote'')
             else Inr (s, Some current)
         | None \<Rightarrow>
             let s1 = update_offer (xi_offerId v) (\<lambda>r. if fo_state r = OFFER_ACTIVE \<and> fo_binding r = None
               then r\<lparr>fo_binding := Some \<lparr>xb_privateRequestDigest = xi_privateRequestDigest v,
                 xb_executableOfferDigest = xi_executableOfferDigest v, xb_bindingDigest = bindingDigest,
                 xb_finalizedAt = xi_finalizedAt v\<rparr>\<rparr> else r) s in
             bindE (getFirmOffer s1 (xi_offerId v)) (\<lambda>bound.
             if (case bound of None \<Rightarrow> True
                 | Some r \<Rightarrow> map_option xb_bindingDigest (fo_binding r) \<noteq> Some bindingDigest)
             then Inl (Error ''firm offer executable binding was not persisted atomically'')
             else Inr (s1, bound))))"

definition bindFirmOfferExecution ::
    "(string \<Rightarrow> string) \<Rightarrow> jsval \<Rightarrow> store \<Rightarrow> store \<times> firm_offer option result" where
  "bindFirmOfferExecution H input =
     withInput (bindE (normalizeFirmOfferExecution input) (\<lambda>v.
       bindE (digest H (execution_json v)) (\<lambda>d. Inr (v, d))))
     (\<lambda>(v, d). transaction (execution_body v d))"

definition authorization_body ::
    "authorization_input \<Rightarrow> store \<Rightarrow> (store \<times> firm_offer option) result" where
  "authorization_body v s =
     bindE (getFirmOffer s (ui_offerId v)) (\<lambda>found.
     case found of
       None \<Rightarrow> Inl (Error ''firm offer does not exist'')
     | Some current \<Rightarrow>
         if fo_state current \<noteq> OFFER_ACTIVE \<or> of_expiresAt (fo_terms current) \<le> ui_authorizedAt v
         then Inl (Error ''only an active unexpired firm offer can bind user authorization'')
         else case fo_binding current of
           None \<Rightarrow> Inl (Error ''user authorization does not match the executable quote binding'')
         | Some b \<Rightarrow>
         if xb_bindingDigest b \<noteq> ui_executionBindingDigest v
         then Inl (Error ''user authorization does not match the executable quote binding'')
         else if xb_finalizedAt b > ui_authorizedAt v
         then Inl (Error ''user authorization predates executable quote finalization'')
         else if ui_authorizationExpiresAt v \<le> ui_authorizedAt v
             \<or> ui_authorizationExpiresAt v > of_selectionAuthorizationExpiresAt (fo_terms current)
         then Inl (Error ''user authorization is expired or outlives the selected quote authorization'')
         else case fo_authorization current of
           Some a \<Rightarrow>
             if ua_digest a \<noteq> ui_executionAuthorizationDigest v \<or> ua_expiresAt a \<noteq> ui_authorizationExpiresAt v
                \<or> ua_authorizedAt a \<noteq> ui_authorizedAt v
             then Inl (Error ''firm offer is already bound to another user authorization'')
             else Inr (s, Some current)
         | None \<Rightarrow>
             let s1 = update_offer (ui_offerId v) (\<lambda>r. if fo_state r = OFFER_ACTIVE \<and> fo_authorization r = None
               then r\<lparr>fo_authorization := Some \<lparr>ua_digest = ui_executionAuthorizationDigest v,
                 ua_expiresAt = ui_authorizationExpiresAt v, ua_authorizedAt = ui_authorizedAt v\<rparr>\<rparr> else r) s in
             bindE (getFirmOffer s1 (ui_offerId v)) (\<lambda>bound.
             if (case bound of None \<Rightarrow> True
                 | Some r \<Rightarrow> (case fo_authorization r of None \<Rightarrow> True
                     | Some a \<Rightarrow> ua_digest a \<noteq> ui_executionAuthorizationDigest v
                         \<or> ua_expiresAt a \<noteq> ui_authorizationExpiresAt v))
             then Inl (Error ''firm offer user authorization was not persisted atomically'')
             else Inr (s1, bound)))"

definition bindFirmOfferUserAuthorization :: "jsval \<Rightarrow> store \<Rightarrow> store \<times> firm_offer option result" where
  "bindFirmOfferUserAuthorization input =
     withInput (normalizeFirmOfferUserAuthorization input) (\<lambda>v. transaction (authorization_body v))"

section \<open>Outcomes\<close>

record outcome_input =
  oi_offerId :: string
  oi_evidenceDigest :: string
  oi_outcome :: string
  oi_recordedAt :: int
  oi_policy :: admission_policy
  oi_state :: offer_state

definition normalizeOutcomeInput :: "jsval \<Rightarrow> outcome_input result" where
  "normalizeOutcomeInput input =
     bindE (exactKeys input [''evidenceDigest'', ''offerId'', ''outcome'', ''policy'', ''recordedAt'']
       ''firm offer outcome'') (\<lambda>_.
     bindE (bytes32 (js_get input ''offerId'') ''offerId'') (\<lambda>offerId.
     bindE (bytes32 (js_get input ''evidenceDigest'') ''evidenceDigest'') (\<lambda>evidenceDigest.
     bindE (integer (js_get input ''recordedAt'') ''recordedAt'') (\<lambda>recordedAt.
     bindE (normalizeAdmissionPolicy (js_get input ''policy'')) (\<lambda>policy.
     case js_get input ''outcome'' of
       JStr outcome \<Rightarrow>
         (case map_of FIRM_OFFER_OUTCOMES outcome of
            None \<Rightarrow> Inl (RangeError ''firm offer outcome is unsupported'')
          | Some state \<Rightarrow> Inr \<lparr>oi_offerId = offerId, oi_evidenceDigest = evidenceDigest, oi_outcome = outcome,
              oi_recordedAt = recordedAt, oi_policy = policy, oi_state = state\<rparr>)
     | _ \<Rightarrow> Inl (RangeError ''firm offer outcome is unsupported''))))))"

text \<open>
  A selected settlement that ended without a fill, whose terminal proof is the evidence of this
  outcome.
\<close>

definition reconciled_without_fill :: "outcome_input \<Rightarrow> settlement option \<Rightarrow> bool" where
  "reconciled_without_fill v selected = (case selected of
       None \<Rightarrow> False
     | Some m \<Rightarrow> oi_outcome v = ''user-abandoned'' \<and>
         (case se_terminal m of None \<Rightarrow> False
          | Some t \<Rightarrow> te_state t \<in> {REFUNDED, T_FAILED, CANCELED} \<and> te_proofDigest t = oi_evidenceDigest v
              \<and> te_at t \<le> oi_recordedAt v))"

definition completed_proof :: "store \<Rightarrow> string \<Rightarrow> string option" where
  "completed_proof s offerId =
     (case find (\<lambda>m. se_offerId m = offerId \<and> map_option te_state (se_terminal m) = Some COMPLETED) (settlements s)
      of None \<Rightarrow> None | Some m \<Rightarrow> map_option te_proofDigest (se_terminal m))"

text \<open>Close the request of a completed offer: the other offers are released first.\<close>

definition close_offer_request ::
    "(string \<Rightarrow> string) \<Rightarrow> outcome_input \<Rightarrow> string \<Rightarrow> rfq_state \<Rightarrow> string \<Rightarrow> store \<Rightarrow> store result" where
  "close_offer_request H v requestId state message s =
     bindE (getRfqRequest s requestId) (\<lambda>request.
     if (case request of None \<Rightarrow> True | Some r \<Rightarrow> rq_state r \<noteq> RFQ_ACTIVE) then Inl (Error message)
     else bindE (releaseActiveFirmOffers H requestId ''user-abandoned'' (oi_recordedAt v) s) (\<lambda>s'.
     Inr (resolve_request requestId state (oi_evidenceDigest v) (oi_recordedAt v) s')))"

definition outcome_body ::
    "(string \<Rightarrow> string) \<Rightarrow> outcome_input \<Rightarrow> store \<Rightarrow> (store \<times> firm_offer option) result" where
  "outcome_body H v s =
     bindE (bindAdmissionPolicy H (oi_policy v) s) (\<lambda>s1.
     bindE (getFirmOffer s1 (oi_offerId v)) (\<lambda>found.
     case found of
       None \<Rightarrow> Inl (Error ''firm offer does not exist'')
     | Some current \<Rightarrow>
         if fo_state current \<noteq> OFFER_ACTIVE then
           (if fo_state current = oi_state v \<and> map_option fst (fo_outcome current) = Some (oi_evidenceDigest v)
            then Inr (s1, Some current) else Inl (Error ''firm offer already has another outcome''))
         else let selected = row_find se_offerId (oi_offerId v) (settlements s1);
                  reconciled = reconciled_without_fill v selected in
         if selected \<noteq> None \<and> oi_outcome v \<noteq> ''filled'' \<and> \<not> reconciled
         then Inl (Error ''settlement-owned firm offer requires exact terminal settlement reconciliation'')
         else if oi_outcome v = ''filled'' \<and> completed_proof s1 (oi_offerId v) \<noteq> Some (oi_evidenceDigest v)
         then Inl (Error ''filled offer requires the exact reconciled completed-settlement proof'')
         else bindE (completeFirmOffer current (oi_outcome v) (oi_evidenceDigest v) (oi_recordedAt v)
           (ap_maxConsecutiveFailures (oi_policy v)) s1) (\<lambda>(s2, _).
         bindE (if oi_outcome v = ''filled''
             then close_offer_request H v (fo_requestId current) RFQ_EXERCISED
               ''filled firm offer requires an active RFQ'' s2
             else if reconciled
             then close_offer_request H v (fo_requestId current) RFQ_ABANDONED
               ''terminally reconciled firm offer requires an active RFQ'' s2
             else Inr s2) (\<lambda>s3.
         bindE (getFirmOffer s3 (oi_offerId v)) (\<lambda>row. Inr (s3, row))))))"

text \<open>The store's \<^verbatim>\<open>recordFirmOfferOutcome\<close>; the policy has a function of the same name.\<close>

definition recordFirmOfferOutcome_store ::
    "(string \<Rightarrow> string) \<Rightarrow> jsval \<Rightarrow> store \<Rightarrow> store \<times> firm_offer option result" where
  "recordFirmOfferOutcome_store H input =
     withInput (normalizeOutcomeInput input) (\<lambda>v. transaction (outcome_body H v))"

section \<open>The ledger invariant\<close>

text \<open>
  Keys are unique; the counters of every solver are the totals over its active offers and the
  conflict flag says what it should; an offer names a solver and a request that exist, an active
  offer answers an active request it does not outlive, an offer has an outcome exactly when it is no
  longer active, and an authorization only beside a binding.
\<close>

definition keys_ok :: "store \<Rightarrow> bool" where
  "keys_ok s \<longleftrightarrow> distinct (map fo_id (offers s)) \<and> distinct (map sv_solverId (solvers s))
     \<and> distinct (map rq_requestId (requests s))"

definition balanced :: "firm_offer list \<Rightarrow> solver_capacity \<Rightarrow> bool" where
  "balanced rows v \<longleftrightarrow> sv_activeFirmQuotes v = active_count (sv_solverId v) rows
     \<and> sv_committedBitWei v = committed_bit (sv_solverId v) rows
     \<and> sv_committedLightningSats v = committed_sats (sv_solverId v) rows
     \<and> sv_capacityConflict v = capacity_conflict v"

definition offer_ok :: "store \<Rightarrow> firm_offer \<Rightarrow> bool" where
  "offer_ok s f \<longleftrightarrow> fo_solverId f \<in> sv_solverId ` set (solvers s)
     \<and> (\<exists>r\<in>set (requests s). rq_requestId r = fo_requestId f \<and> of_expiresAt (fo_terms f) \<le> rq_expiresAt r
          \<and> (fo_state f = OFFER_ACTIVE \<longrightarrow> rq_state r = RFQ_ACTIVE))
     \<and> (fo_state f = OFFER_ACTIVE \<longleftrightarrow> fo_outcome f = None)
     \<and> (fo_authorization f \<noteq> None \<longrightarrow> fo_binding f \<noteq> None)"

definition ledger_ok :: "store \<Rightarrow> bool" where
  "ledger_ok s \<longleftrightarrow> keys_ok s \<and> (\<forall>v\<in>set (solvers s). balanced (offers s) v) \<and> (\<forall>f\<in>set (offers s). offer_ok s f)"

lemma ledger_ok_cong:
  "offers s = offers t \<Longrightarrow> solvers s = solvers t \<Longrightarrow> requests s = requests t \<Longrightarrow> ledger_ok s = ledger_ok t"
  by (simp add: ledger_ok_def keys_ok_def offer_ok_def)

lemma ledger_ok_updates [simp]:
  "ledger_ok (s\<lparr>meta := m\<rparr>) = ledger_ok s" "ledger_ok (s\<lparr>identities := i\<rparr>) = ledger_ok s"
  "ledger_ok (s\<lparr>admissionEvents := e\<rparr>) = ledger_ok s" "ledger_ok (s\<lparr>events := c\<rparr>) = ledger_ok s"
  "ledger_ok (s\<lparr>settlements := se\<rparr>) = ledger_ok s" "ledger_ok (s\<lparr>actions := ac\<rparr>) = ledger_ok s"
  "ledger_ok (s\<lparr>evms := em\<rparr>) = ledger_ok s" "ledger_ok (update_identity k f s) = ledger_ok s"
  "ledger_ok (update_settlement k g s) = ledger_ok s" "ledger_ok (update_action k h s) = ledger_ok s"
  "ledger_ok (update_evm k j s) = ledger_ok s"
  by (rule ledger_ok_cong; simp)+

text \<open>What releasing the offers of a set of identifiers does to the ledger.\<close>

definition offer_after :: "string set \<Rightarrow> firm_offer \<Rightarrow> firm_offer \<Rightarrow> bool" where
  "offer_after ids f f' \<longleftrightarrow> (if fo_id f \<in> ids
     then \<exists>st oc. st \<noteq> OFFER_ACTIVE \<and> f' = f\<lparr>fo_state := st, fo_outcome := Some oc\<rparr>
     else f' = f)"

definition released :: "string set \<Rightarrow> store \<Rightarrow> store \<Rightarrow> bool" where
  "released ids s t \<longleftrightarrow> list_all2 (offer_after ids) (offers s) (offers t)
     \<and> map sv_solverId (solvers t) = map sv_solverId (solvers s)
     \<and> t = s\<lparr>offers := offers t, solvers := solvers t\<rparr>"

lemma released_frame:
  assumes "released ids s t"
  shows "settlements t = settlements s \<and> requests t = requests s \<and> identities t = identities s \<and>
    admissionEvents t = admissionEvents s \<and> meta t = meta s \<and> actions t = actions s \<and> evms t = evms s \<and>
    events t = events s"
proof -
  from assms have eq: "t = s\<lparr>offers := offers t, solvers := solvers t\<rparr>" by (simp add: released_def)
  show ?thesis by (subst eq, simp)+
qed

lemma offer_after_terms:
  "offer_after ids f f' \<Longrightarrow> fo_terms f' = fo_terms f \<and> fo_binding f' = fo_binding f
     \<and> fo_authorization f' = fo_authorization f \<and> fo_reservedAt f' = fo_reservedAt f"
  by (auto simp: offer_after_def split: if_splits)

lemma offer_after_id: "offer_after ids f f' \<Longrightarrow> fo_id f' = fo_id f"
  by (simp add: key_defs offer_after_terms)

lemma released_offers:
  assumes "released ids s t"
  shows "map fo_terms (offers t) = map fo_terms (offers s) \<and> map fo_id (offers t) = map fo_id (offers s)"
proof -
  from assms have "list_all2 (offer_after ids) (offers s) (offers t)" by (simp add: released_def)
  then show ?thesis
    by (induction rule: list_all2_induct) (auto dest: offer_after_terms offer_after_id)
qed

lemma released_memberD:
  assumes "released ids s t" and "f' \<in> set (offers t)"
  obtains f where "f \<in> set (offers s)" "offer_after ids f f'"
proof -
  from assms obtain i where "i < length (offers t)" "f' = offers t ! i"
    by (auto simp: in_set_conv_nth)
  with assms(1) show ?thesis
    by (intro that [of "offers s ! i"]) (auto simp: released_def list_all2_conv_all_nth)
qed

lemma released_member:
  assumes "released ids s t" and "f \<in> set (offers s)"
  obtains f' where "f' \<in> set (offers t)" "offer_after ids f f'"
proof -
  from assms obtain i where "i < length (offers s)" "f = offers s ! i"
    by (auto simp: in_set_conv_nth)
  with assms(1) show ?thesis
    by (intro that [of "offers t ! i"]) (auto simp: released_def list_all2_conv_all_nth)
qed

lemma released_refl: "released {} s s"
  by (simp add: released_def list_all2_conv_all_nth offer_after_def)

lemma offer_after_trans:
  "offer_after A f g \<Longrightarrow> offer_after B g h \<Longrightarrow> offer_after (A \<union> B) f h"
proof -
  assume a: "offer_after A f g" and b: "offer_after B g h"
  have "fo_id g = fo_id f" using a by (rule offer_after_id)
  with a b show ?thesis unfolding offer_after_def by (auto split: if_splits)
qed

lemma released_trans:
  assumes st: "released A s t" and tu: "released B t u"
  shows "released (A \<union> B) s u"
proof -
  have "list_all2 (offer_after (A \<union> B)) (offers s) (offers u)"
    using st tu unfolding released_def by (blast intro: list_all2_trans [rotated] offer_after_trans)
  moreover have "u = s\<lparr>offers := offers u, solvers := solvers u\<rparr>"
    using st tu by (cases s; cases t; cases u) (simp add: released_def)
  ultimately show ?thesis using st tu by (simp add: released_def)
qed

section \<open>Every operation keeps the ledger\<close>

lemma outcome_state_inactive: "map_of FIRM_OFFER_OUTCOMES outcome = Some st \<Longrightarrow> st \<noteq> OFFER_ACTIVE"
  by (auto simp: FIRM_OFFER_OUTCOMES_def split: if_splits)

lemma completeFirmOffer_Inr:
  assumes "completeFirmOffer row outcome d at limit s = Inr (s', out)"
  obtains solver nxt st where "fo_state row = OFFER_ACTIVE" "st \<noteq> OFFER_ACTIVE"
    "map_of FIRM_OFFER_OUTCOMES outcome = Some st"
    "find_solver s (fo_solverId row) = Some solver" "sv_solverId solver = fo_solverId row"
    "sv_activeFirmQuotes solver = active_count (fo_solverId row) (offers s)"
    "sv_committedBitWei solver = committed_bit (fo_solverId row) (offers s)"
    "sv_committedLightningSats solver = committed_sats (fo_solverId row) (offers s)"
    "recordFirmOfferOutcome solver (row_commitment row) outcome limit = Inr nxt"
    "s' = update_offer (fo_id row) (\<lambda>r. r\<lparr>fo_state := st, fo_outcome := Some (d, at)\<rparr>)
       (writeSolverAccounting (nxt\<lparr>sv_solverId := sv_solverId solver\<rparr>) at s)"
    "out = find_offer s' (fo_id row)"
proof -
  from assms obtain solver where g: "getSolverCapacity s (fo_solverId row) = Inr (Some solver)"
    unfolding completeFirmOffer_def by (auto simp: bindE_eq_Inr if_Inl_eq_Inr split: option.splits)
  then have "sv_solverId solver = fo_solverId row"
    using solver_table.lookup_SomeD by (fastforce simp: getSolverCapacity_Some)
  moreover from assms g obtain nxt st where
    "recordFirmOfferOutcome solver (row_commitment row) outcome limit = Inr nxt"
    "map_of FIRM_OFFER_OUTCOMES outcome = Some st"
    "s' = update_offer (fo_id row) (\<lambda>r. r\<lparr>fo_state := st, fo_outcome := Some (d, at)\<rparr>)
       (writeSolverAccounting (nxt\<lparr>sv_solverId := sv_solverId solver\<rparr>) at s)"
    "out = find_offer s' (fo_id row)" "fo_state row = OFFER_ACTIVE"
    unfolding completeFirmOffer_def Let_def
    by (simp only: if_Inl_eq_Inr bindE_eq_Inr sum.inject)
      (elim exE conjE, auto simp: bindE_eq_Inr getFirmOffer_Inr split: option.splits)
  ultimately show ?thesis
    using that g outcome_state_inactive by (auto simp: getSolverCapacity_Some)
qed

text \<open>The totals of a solver after one of the rows leaves the active state.\<close>

lemma totals_after_release:
  fixes oc :: "(string \<times> int) option"
  assumes "distinct (map fo_id rows)" and "row_find fo_id (fo_id row) rows = Some row"
    and "fo_state row = OFFER_ACTIVE" and "st \<noteq> OFFER_ACTIVE"
  defines "rows' \<equiv> row_update fo_id (fo_id row) (\<lambda>r. r\<lparr>fo_state := st, fo_outcome := oc\<rparr>) rows"
  shows "active_count k rows' = active_count k rows - (if fo_solverId row = k then 1 else 0)"
    and "committed_bit k rows' = committed_bit k rows
           - (if fo_solverId row = k then of_bitAmountWei (fo_terms row) else 0)"
    and "committed_sats k rows' = committed_sats k rows
           - (if fo_solverId row = k then of_lightningAmountSats (fo_terms row) else 0)"
  using assms(3,4) unfolding rows'_def active_count_def committed_bit_def committed_sats_def
  by (simp_all add: total_row_update [OF assms(1,2)] active_of_def fo_solverId_def)

lemma balanced_after_release:
  assumes ok: "distinct (map fo_id rows)" "row_find fo_id (fo_id row) rows = Some row"
      "fo_state row = OFFER_ACTIVE" "st \<noteq> OFFER_ACTIVE"
    and v: "sv_solverId v \<noteq> fo_solverId row \<Longrightarrow> balanced rows v"
      "sv_solverId v = fo_solverId row \<Longrightarrow>
         sv_activeFirmQuotes v = max 0 (active_count (sv_solverId v) rows - 1) \<and>
         sv_committedBitWei v = committed_bit (sv_solverId v) rows - of_bitAmountWei (fo_terms row) \<and>
         sv_committedLightningSats v = committed_sats (sv_solverId v) rows - of_lightningAmountSats (fo_terms row) \<and>
         sv_capacityConflict v = capacity_conflict v"
  shows "balanced (row_update fo_id (fo_id row) (\<lambda>r. r\<lparr>fo_state := st, fo_outcome := oc\<rparr>) rows) v"
proof -
  have "0 \<le> active_count (sv_solverId v)
      (row_update fo_id (fo_id row) (\<lambda>r. r\<lparr>fo_state := st, fo_outcome := oc\<rparr>) rows)"
    unfolding active_count_def by (rule total_nonneg) simp
  with v show ?thesis
    by (cases "sv_solverId v = fo_solverId row")
      (auto simp: balanced_def totals_after_release [OF ok])
qed

lemma released_offer_ok:
  assumes rel: "released ids s t" and ok: "\<forall>f\<in>set (offers s). offer_ok s f"
  shows "\<forall>f\<in>set (offers t). offer_ok t f"
proof
  fix f' assume "f' \<in> set (offers t)"
  with rel obtain f where f: "f \<in> set (offers s)" "offer_after ids f f'" by (rule released_memberD)
  have ids: "sv_solverId ` set (solvers t) = sv_solverId ` set (solvers s)"
    using rel by (metis released_def list.set_map)
  have req: "requests t = requests s" using released_frame [OF rel] by simp
  from f(1) ok have "offer_ok s f" by blast
  with f(2) ids req show "offer_ok t f'"
    by (auto simp: offer_ok_def offer_after_def key_defs split: if_splits)
qed

lemma completeFirmOffer_ledger:
  assumes c: "completeFirmOffer row outcome d at limit s = Inr (s', out)"
    and ok: "ledger_ok s" and row: "row \<in> set (offers s)"
  shows "ledger_ok s' \<and> released {fo_id row} s s'"
proof -
  from c obtain solver nxt st where e: "fo_state row = OFFER_ACTIVE" "st \<noteq> OFFER_ACTIVE"
    "sv_solverId solver = fo_solverId row"
    "sv_activeFirmQuotes solver = active_count (fo_solverId row) (offers s)"
    "sv_committedBitWei solver = committed_bit (fo_solverId row) (offers s)"
    "sv_committedLightningSats solver = committed_sats (fo_solverId row) (offers s)"
    "recordFirmOfferOutcome solver (row_commitment row) outcome limit = Inr nxt"
    "find_solver s (fo_solverId row) = Some solver"
    and s': "s' = update_offer (fo_id row) (\<lambda>r. r\<lparr>fo_state := st, fo_outcome := Some (d, at)\<rparr>)
       (writeSolverAccounting (nxt\<lparr>sv_solverId := sv_solverId solver\<rparr>) at s)"
    by (rule completeFirmOffer_Inr)
  note n = recordFirmOfferOutcome_Inr [OF e(7)]
  from ok have dist: "distinct (map fo_id (offers s))" by (simp add: ledger_ok_def keys_ok_def)
  note found = row_find_distinct [OF dist row]
  have rows: "offers s' = row_update fo_id (fo_id row)
      (\<lambda>r. r\<lparr>fo_state := st, fo_outcome := Some (d, at)\<rparr>) (offers s)"
    by (simp add: s' offer_table.rows_modify writeSolverAccounting_def)
  have rel: "released {fo_id row} s s'"
    unfolding released_def rows
    using e(2) by (auto simp: row_update_def list_all2_map2 list_all2_same offer_after_def s'
        update_offer_def update_solver_def writeSolverAccounting_def)
  have "\<forall>v\<in>set (solvers s'). balanced (offers s') v"
  proof
    fix v' assume "v' \<in> set (solvers s')"
    then obtain v where v: "v \<in> set (solvers s)"
      and v': "v' = (if sv_solverId v = fo_solverId row then v\<lparr>sv_committedBitWei := sv_committedBitWei nxt,
        sv_committedLightningSats := sv_committedLightningSats nxt,
        sv_activeFirmQuotes := sv_activeFirmQuotes nxt, sv_successfulFills := sv_successfulFills nxt,
        sv_attributableFailures := sv_attributableFailures nxt,
        sv_consecutiveFailures := sv_consecutiveFailures nxt, sv_suspended := sv_suspended nxt,
        sv_capacityConflict := capacity_conflict nxt, sv_version := sv_version v + 1,
        sv_updatedAt := at\<rparr> else v)"
      by (auto simp: s' writeSolverAccounting_def solver_table.rows_modify set_row_update e(3)
          capacity_conflict_def)
    show "balanced (offers s') v'"
      unfolding rows
    proof (rule balanced_after_release [OF dist found e(1,2)])
      assume "sv_solverId v' \<noteq> fo_solverId row"
      with v ok v' show "balanced (offers s) v'" by (auto simp: ledger_ok_def split: if_splits)
    next
      assume "sv_solverId v' = fo_solverId row"
      with v' have id: "sv_solverId v = fo_solverId row" by (auto split: if_splits)
      with v e(8) ok have "v = solver"
        using solver_table.lookup_member [of s v] by (auto simp: ledger_ok_def keys_ok_def)
      with id v' n e(3-6) show "sv_activeFirmQuotes v' = max 0 (active_count (sv_solverId v') (offers s) - 1) \<and>
         sv_committedBitWei v' = committed_bit (sv_solverId v') (offers s) - of_bitAmountWei (fo_terms row) \<and>
         sv_committedLightningSats v' = committed_sats (sv_solverId v') (offers s) - of_lightningAmountSats (fo_terms row) \<and>
         sv_capacityConflict v' = capacity_conflict v'"
        by (auto simp: row_commitment_def Let_def capacity_conflict_def)
    qed
  qed
  moreover have "keys_ok s'"
    using ok rel released_offers [OF rel] released_frame [OF rel]
    by (simp add: ledger_ok_def keys_ok_def released_def)
  ultimately show ?thesis
    using rel released_offer_ok [OF rel] ok by (simp add: ledger_ok_def)
qed

text \<open>A loop that completes offers, one row at a time, each row as it was read before the loop.\<close>

lemma release_loop:
  assumes "foldE g rows s = Inr s'" and "ledger_ok s" and "distinct (map fo_id rows)"
    and "set rows \<subseteq> set (offers s)"
    and step: "\<And>row t t'. g row t = Inr t' \<Longrightarrow>
      \<exists>outcome d at limit out. completeFirmOffer row outcome d at limit t = Inr (t', out)"
  shows "ledger_ok s' \<and> released (fo_id ` set rows) s s'"
  using assms(1-4)
proof (induction rows arbitrary: s)
  case Nil
  then show ?case by (simp add: released_refl)
next
  case (Cons row rows)
  from Cons.prems(1) obtain t where t: "g row s = Inr t" and rest: "foldE g rows t = Inr s'"
    by (auto simp: bindE_eq_Inr)
  from step [OF t] Cons.prems(2,4) have one: "ledger_ok t" "released {fo_id row} s t"
    using completeFirmOffer_ledger by auto
  have sub: "set rows \<subseteq> set (offers t)"
  proof
    fix f assume f: "f \<in> set rows"
    with Cons.prems(3,4) have "fo_id f \<noteq> fo_id row" and "f \<in> set (offers s)" by (auto simp: image_iff)
    moreover from one(2) this(2) obtain f' where "f' \<in> set (offers t)" "offer_after {fo_id row} f f'"
      by (rule released_member)
    ultimately show "f \<in> set (offers t)" by (simp add: offer_after_def)
  qed
  have "ledger_ok s' \<and> released (fo_id ` set rows) t s'"
    using Cons.IH [OF rest one(1) _ sub] Cons.prems(3) by simp
  with released_trans [OF one(2)] show ?case by fastforce
qed

lemma release_offer_step:
  "release_offer H outcome at requestId row t = Inr t' \<Longrightarrow>
     \<exists>outcome d at limit out. completeFirmOffer row outcome d at limit t = Inr (t', out)"
  unfolding release_offer_def bindE_eq_Inr by (elim exE conjE) (auto, blast)

lemma restart_release_step:
  "restart_release H at row t = Inr t' \<Longrightarrow>
     \<exists>outcome d at limit out. completeFirmOffer row outcome d at limit t = Inr (t', out)"
  unfolding restart_release_def bindE_eq_Inr by (elim exE conjE) (auto, blast)

lemma owned_released: "released ids s t \<Longrightarrow> owned t f = owned s f"
  using released_frame [of ids s t] by (simp add: owned_def)

lemma owned_id: "fo_id f = fo_id g \<Longrightarrow> owned s f = owned s g"
  by (simp add: owned_def)

lemma distinct_sorted_filter:
  "ledger_ok s \<Longrightarrow> distinct (map fo_id (sort_key k (filter P (offers s))))"
  by (simp add: ledger_ok_def keys_ok_def distinct_map inj_on_def)

text \<open>
  A sweep leaves the settlements and every settlement-owned offer exactly as they were.
\<close>

definition same_rows :: "store \<Rightarrow> store \<Rightarrow> bool" where
  "same_rows s t \<longleftrightarrow> settlements t = settlements s \<and> actions t = actions s \<and> evms t = evms s"

definition spares :: "store \<Rightarrow> store \<Rightarrow> bool" where
  "spares s t \<longleftrightarrow> same_rows s t \<and> (\<forall>f\<in>set (offers s). owned s f \<longrightarrow> f \<in> set (offers t))"

lemma spares_refl [simp]: "spares s s"
  by (simp add: spares_def same_rows_def)

lemma spares_trans: "spares s t \<Longrightarrow> spares t u \<Longrightarrow> spares s u"
  by (auto simp: spares_def same_rows_def owned_def)

lemma released_spares:
  assumes "released ids s t" and "\<And>f. f \<in> set (offers s) \<Longrightarrow> fo_id f \<in> ids \<Longrightarrow> \<not> owned s f"
  shows "spares s t"
proof -
  have "f \<in> set (offers t)" if "f \<in> set (offers s)" "owned s f" for f
  proof -
    from assms(1) that(1) obtain f' where "f' \<in> set (offers t)" "offer_after ids f f'"
      by (rule released_member)
    with assms(2) that show ?thesis by (auto simp: offer_after_def split: if_splits)
  qed
  with released_frame [OF assms(1)] show ?thesis by (simp add: spares_def same_rows_def)
qed

text \<open>The loops of the store: the rows they complete are active and not owned by a settlement.\<close>

lemma unowned_loop:
  assumes "foldE g (sort_key k (filter P (offers s))) s = Inr s'" and ok: "ledger_ok s"
    and P: "\<And>f. P f \<Longrightarrow> \<not> owned s f"
    and step: "\<And>row t t'. g row t = Inr t' \<Longrightarrow>
      \<exists>outcome d at limit out. completeFirmOffer row outcome d at limit t = Inr (t', out)"
  shows "ledger_ok s'" and "released (fo_id ` set (filter P (offers s))) s s'" and "spares s s'"
proof -
  have *: "ledger_ok s' \<and> released (fo_id ` set (sort_key k (filter P (offers s)))) s s'"
    by (rule release_loop [OF assms(1) ok distinct_sorted_filter [OF ok]]) (use step in auto)
  then show "ledger_ok s'" by simp
  from * show rel: "released (fo_id ` set (filter P (offers s))) s s'" by simp
  show "spares s s'"
  proof (rule released_spares [OF rel])
    fix f assume "fo_id f \<in> fo_id ` set (filter P (offers s))"
    with P show "\<not> owned s f" by (auto simp: owned_def)
  qed
qed

lemma released_inactive:
  assumes "released (fo_id ` set (filter P (offers s))) s t"
    and "\<And>f. f \<in> set (offers s) \<Longrightarrow> fo_requestId f = k \<Longrightarrow> fo_state f = OFFER_ACTIVE \<Longrightarrow> P f"
  shows "active_offers t k = []"
proof -
  have "fo_state f' \<noteq> OFFER_ACTIVE" if f': "f' \<in> set (offers t)" "fo_requestId f' = k" for f'
  proof -
    from assms(1) f'(1) obtain f where f: "f \<in> set (offers s)"
        "offer_after (fo_id ` set (filter P (offers s))) f f'"
      by (rule released_memberD)
    with f'(2) have "fo_requestId f = k" by (simp add: key_defs offer_after_terms)
    with f assms(2) show ?thesis by (auto simp: offer_after_def split: if_splits)
  qed
  then show ?thesis by (auto simp: active_offers_def filter_empty_conv)
qed

lemma update_request_ledger:
  assumes ok: "ledger_ok s" and none: "active_offers s k = []"
    and g: "\<And>r. rq_requestId (g r) = rq_requestId r" "\<And>r. rq_expiresAt (g r) = rq_expiresAt r"
  shows "ledger_ok (update_request k g s)"
proof -
  have "offer_ok (update_request k g s) f" if f: "f \<in> set (offers s)" for f
  proof -
    from none f have inactive: "fo_requestId f = k \<Longrightarrow> fo_state f \<noteq> OFFER_ACTIVE"
      by (auto simp: active_offers_def filter_empty_conv)
    from ok f obtain r where r: "r \<in> set (requests s)" "rq_requestId r = fo_requestId f"
        "of_expiresAt (fo_terms f) \<le> rq_expiresAt r" "fo_state f = OFFER_ACTIVE \<longrightarrow> rq_state r = RFQ_ACTIVE"
      by (auto simp: ledger_ok_def offer_ok_def)
    let ?r = "if rq_requestId r = k then g r else r"
    have "?r \<in> set (requests (update_request k g s))"
      using r(1) by (simp add: request_table.rows_modify set_row_update)
    with r inactive g have "\<exists>r\<in>set (requests (update_request k g s)). rq_requestId r = fo_requestId f \<and>
        of_expiresAt (fo_terms f) \<le> rq_expiresAt r \<and> (fo_state f = OFFER_ACTIVE \<longrightarrow> rq_state r = RFQ_ACTIVE)"
      by (intro bexI [of _ ?r]) auto
    with ok f show ?thesis by (simp add: ledger_ok_def offer_ok_def)
  qed
  moreover have "keys_ok (update_request k g s)"
    using ok g(1) by (simp add: ledger_ok_def keys_ok_def request_table.keys_modify)
  ultimately show ?thesis using ok by (simp add: ledger_ok_def)
qed

lemma resolve_request_ledger:
  "ledger_ok s \<Longrightarrow> active_offers s k = [] \<Longrightarrow> ledger_ok (resolve_request k st d at s)"
  unfolding resolve_request_def by (rule update_request_ledger) simp_all

lemma spares_resolve [simp]: "spares s (resolve_request k st d at t) = spares s t"
  by (simp add: spares_def same_rows_def resolve_request_def)

lemma releaseActive_ledger:
  assumes r: "releaseActiveFirmOffers H k outcome at s = Inr s'" and ok: "ledger_ok s"
  shows "ledger_ok s'" and "spares s s'" and "active_offers s' k = []"
    and "released (fo_id ` set (active_offers s k)) s s'"
proof -
  from r have un: "\<And>f. f \<in> set (active_offers s k) \<Longrightarrow> \<not> owned s f"
    and loop: "foldE (release_offer H outcome at k) (sort_key fo_id (active_offers s k)) s = Inr s'"
    by (auto simp: releaseActiveFirmOffers_def list_ex_iff split: if_splits)
  let ?P = "\<lambda>f. fo_requestId f = k \<and> fo_state f = OFFER_ACTIVE"
  have *: "ledger_ok s' \<and> released (fo_id ` set (sort_key fo_id (active_offers s k))) s s'"
    unfolding active_offers_def
    by (rule release_loop [OF loop [unfolded active_offers_def] ok distinct_sorted_filter [OF ok]
          _ release_offer_step]) auto
  then show "ledger_ok s'" and rel: "released (fo_id ` set (active_offers s k)) s s'" by simp_all
  show "spares s s'"
    by (rule released_spares [OF rel]) (use un in \<open>auto simp: owned_def\<close>)
  show "active_offers s' k = []"
    by (rule released_inactive [of ?P, OF rel [unfolded active_offers_def]]) simp
qed

lemma expire_request_ledger:
  assumes e: "expire_request H at row (s, n) = Inr (s', n')" and ok: "ledger_ok s"
  shows "ledger_ok s' \<and> spares s s'"
proof -
  let ?k = "rq_requestId row"
  let ?P = "\<lambda>f. fo_requestId f = ?k \<and> fo_state f = OFFER_ACTIVE \<and> \<not> owned s f"
  from e obtain s1 where loop: "foldE (release_offer H ''expired-unexercised'' at ?k)
      (sort_key fo_id (filter ?P (offers s))) s = Inr s1"
    and rest: "(s' = s1) \<or> (\<not> list_ex (\<lambda>r. fo_requestId r = ?k \<and> owned s1 r) (offers s1) \<and>
       (\<exists>d. s' = resolve_request ?k RFQ_EXPIRED d at s1))"
    unfolding expire_request_def active_offers_def prod.case bindE_eq_Inr filter_filter conj_assoc
    by (elim exE conjE) (auto simp: bindE_eq_Inr split: if_splits)
  note l = unowned_loop [OF loop ok _ release_offer_step]
  have ok1: "ledger_ok s1" and rel: "released (fo_id ` set (filter ?P (offers s))) s s1" and sp: "spares s s1"
    by (rule l; simp)+
  from rest show ?thesis
  proof (elim disjE conjE exE)
    assume none: "\<not> list_ex (\<lambda>r. fo_requestId r = ?k \<and> owned s1 r) (offers s1)"
    fix d assume s': "s' = resolve_request ?k RFQ_EXPIRED d at s1"
    have "\<not> owned s f" if "f \<in> set (offers s)" "fo_requestId f = ?k" for f
    proof -
      from rel that(1) obtain f' where f': "f' \<in> set (offers s1)" "offer_after (fo_id ` set (filter ?P (offers s))) f f'"
        by (rule released_member)
      with none that(2) have "\<not> owned s1 f'"
        by (auto simp: list_ex_iff key_defs offer_after_terms)
      with owned_released [OF rel] owned_id [OF offer_after_id [OF f'(2)]] show ?thesis by simp
    qed
    then have "active_offers s1 ?k = []" by (intro released_inactive [OF rel]) auto
    with ok1 sp show ?thesis by (simp add: s' resolve_request_ledger)
  qed (use ok1 sp in simp)
qed

lemma expireRfqRequests_ledger:
  assumes "expireRfqRequests H at c limit s = Inr (s', n)" and "ledger_ok s"
  shows "ledger_ok s' \<and> spares s s'"
proof -
  have "ledger_ok (fst (s', n)) \<and> spares s (fst (s', n))"
    using assms(1) unfolding expireRfqRequests_def
  proof (rule foldE_invariant [where P = "\<lambda>p. ledger_ok (fst p) \<and> spares s (fst p)"])
    fix row p p' assume "ledger_ok (fst p) \<and> spares s (fst p)" "expire_request H at row p = Inr p'"
    then show "ledger_ok (fst p') \<and> spares s (fst p')"
      by (cases p; cases p') (auto dest: expire_request_ledger intro: spares_trans)
  qed (use assms(2) in simp)
  then show ?thesis by simp
qed

lemma close_requests_ledger:
  assumes "closeExpiredEmptyRfqRequests H at limit s = Inr (s', n)" and ok: "ledger_ok s"
  shows "ledger_ok s' \<and> spares s s'"
proof -
  let ?rows = "empty_due_requests at limit s"
  have none: "active_offers s (rq_requestId r) = []" if "r \<in> set ?rows" for r
    using set_take_subset [of "nat limit"] that by (fastforce simp: empty_due_requests_def)
  from assms(1) have "foldE (close_request H at) ?rows s = Inr s'"
    by (auto simp: closeExpiredEmptyRfqRequests_def Let_def bindE_eq_Inr)
  then have "ledger_ok s' \<and> offers s' = offers s \<and> same_rows s s'"
  proof (rule foldE_invariant)
    fix r t t' assume r: "r \<in> set ?rows"
      and t: "ledger_ok t \<and> offers t = offers s \<and> same_rows s t"
      and c: "close_request H at r t = Inr t'"
    from none [OF r] t have "active_offers t (rq_requestId r) = []" by (simp add: active_offers_def)
    with t c show "ledger_ok t' \<and> offers t' = offers s \<and> same_rows s t'"
      by (auto simp: close_request_def bindE_eq_Inr same_rows_def intro!: update_request_ledger)
  qed (use ok in \<open>simp add: same_rows_def\<close>)
  then show ?thesis by (simp add: spares_def)
qed

lemma bindAdmissionPolicy_frame:
  "bindAdmissionPolicy H p s = Inr s' \<Longrightarrow> \<exists>m. s' = s\<lparr>meta := m\<rparr>"
  by (auto simp: bindAdmissionPolicy_def bindE_eq_Inr split: option.splits if_splits)
    (metis (mono_tags, lifting) store.surjective store.update_convs(1))

lemma ensureRfqIdentity_frame:
  "ensureRfqIdentity i at s = Inr (s', row) \<Longrightarrow> \<exists>m. s' = s\<lparr>identities := m\<rparr>"
  by (auto simp: ensureRfqIdentity_def Let_def split: option.splits if_splits)
    (metis (mono_tags, lifting) store.surjective store.update_convs(5))

lemma spares_frame [simp]:
  "spares s (t\<lparr>meta := m\<rparr>) = spares s t" "spares s (t\<lparr>identities := i\<rparr>) = spares s t"
  "spares s (t\<lparr>admissionEvents := e\<rparr>) = spares s t" "spares s (update_identity k f t) = spares s t"
  "spares (s\<lparr>meta := m\<rparr>) t = spares s t" "spares (s\<lparr>identities := i\<rparr>) t = spares s t"
  by (simp_all add: spares_def same_rows_def owned_def)

lemma offer_ok_mono:
  "offer_ok s f \<Longrightarrow> set (requests s) \<subseteq> set (requests t) \<Longrightarrow>
     sv_solverId ` set (solvers s) \<subseteq> sv_solverId ` set (solvers t) \<Longrightarrow> offer_ok t f"
  unfolding offer_ok_def by blast

lemma insert_request_ledger:
  assumes "insert_request row s = Inr s'" and ok: "ledger_ok s"
  shows "ledger_ok s' \<and> spares s s'"
proof -
  from assms(1) have s': "s' = s\<lparr>requests := requests s @ [row]\<rparr>"
    and new: "rq_requestId row \<notin> rq_requestId ` set (requests s)"
    by (auto simp: insert_request_def list_ex_iff split: if_splits)
  have "offer_ok s' f" if "f \<in> set (offers s)" for f
    by (rule offer_ok_mono [of s]) (use ok that in \<open>auto simp: ledger_ok_def s'\<close>)
  with ok new show ?thesis by (simp add: ledger_ok_def keys_ok_def s' spares_def same_rows_def)
qed

lemma insert_admission_event_frame:
  "insert_admission_event row s = Inr s' \<Longrightarrow> \<exists>e. s' = s\<lparr>admissionEvents := e\<rparr>"
  by (auto simp: insert_admission_event_def split: if_splits)

lemma touch_frame [simp]:
  "ledger_ok (touchRfqIdentity c at s) = ledger_ok s" "spares s (touchRfqIdentity c at t) = spares s t"
  by (simp_all add: touchRfqIdentity_def)

lemma admit_new_ledger:
  assumes "admit_new v s = Inr (s', out)" and "ledger_ok s"
  shows "ledger_ok s' \<and> spares s s'"
  using assms(1) unfolding admit_new_def Let_def bindE_eq_Inr if_Inl_eq_Inr sum.inject prod.inject
  by (elim exE conjE)
    (drule insert_request_ledger [OF _ assms(2)], drule insert_admission_event_frame, auto)

lemma admit_body_ledger:
  assumes a: "admit_body H v s = Inr (s', out)" and ok: "ledger_ok s"
  shows "ledger_ok s' \<and> spares s s'"
proof -
  from a obtain s1 s2 row s3 n where 1: "bindAdmissionPolicy H (ai_policy v) s = Inr s1"
      "ensureRfqIdentity (ai_identity v) (ai_now v) s1 = Inr (s2, row)"
    and 2: "expireRfqRequests H (ai_now v) (Some (ii_commitment (ai_identity v))) 1000 s2 = Inr (s3, n)"
    and 3: "admit_new v s3 = Inr (s', out) \<or> s' = touchRfqIdentity (ii_commitment (ai_identity v)) (ai_now v) s3"
    unfolding admit_body_def Let_def
    by (auto simp: bindE_eq_Inr split: option.splits if_splits)
  from 1 ok have "ledger_ok s2 \<and> spares s s2"
    by (auto dest!: bindAdmissionPolicy_frame ensureRfqIdentity_frame)
  with expireRfqRequests_ledger [OF 2] have "ledger_ok s3 \<and> spares s s3" by (blast intro: spares_trans)
  with 3 show ?thesis by (auto dest: admit_new_ledger intro: spares_trans)
qed

lemma cancel_request_ledger:
  assumes "cancel_request H v row s = Inr s'" and "ledger_ok s"
  shows "ledger_ok s' \<and> spares s s'"
  using assms(1) releaseActive_ledger [OF _ assms(2)] unfolding cancel_request_def bindE_eq_Inr
  by (auto intro!: resolve_request_ledger)

lemma cancel_body_ledger:
  assumes c: "cancel_body H v s = Inr (s', out)" and ok: "ledger_ok s"
  shows "ledger_ok s' \<and> spares s s'"
proof -
  let ?c = "ii_commitment (ci_identity v)"
  from c obtain s1 row where 1: "ensureRfqIdentity (ci_identity v) (ci_recordedAt v) s = Inr (s1, row)"
    and rest: "s' = touchRfqIdentity ?c (ci_recordedAt v) s1 \<or>
      (\<exists>s2 n s3 e f. expireRfqRequests H (ci_recordedAt v) (Some ?c) 1000 s1 = Inr (s2, n) \<and>
         foldE (cancel_request H v) (superseded_requests ?c (ci_cancellationSequence v) s2) s2 = Inr s3 \<and>
         s' = (update_identity ?c f s3)\<lparr>admissionEvents := e\<rparr>)"
    unfolding cancel_body_def Let_def
    by (auto simp: bindE_eq_Inr split: option.splits if_splits dest!: insert_admission_event_frame) blast
  from 1 ok have ok1: "ledger_ok s1 \<and> spares s s1" by (auto dest!: ensureRfqIdentity_frame)
  from rest show ?thesis
  proof (elim disjE exE conjE)
    fix s2 n s3 e f
    assume x: "expireRfqRequests H (ci_recordedAt v) (Some ?c) 1000 s1 = Inr (s2, n)"
      and l: "foldE (cancel_request H v) (superseded_requests ?c (ci_cancellationSequence v) s2) s2 = Inr s3"
      and s': "s' = (update_identity ?c f s3)\<lparr>admissionEvents := e\<rparr>"
    from expireRfqRequests_ledger [OF x] ok1 have "ledger_ok s2 \<and> spares s s2" by (blast intro: spares_trans)
    from l this have "ledger_ok s3 \<and> spares s s3"
      by (rule foldE_invariant) (auto dest: cancel_request_ledger intro: spares_trans)
    then show ?thesis by (simp add: s')
  qed (use ok1 in simp)
qed

lemma restart_body_ledger:
  assumes r: "restart_body H at limit s = Inr (s', out)" and ok: "ledger_ok s"
  shows "ledger_ok s' \<and> spares s s'"
proof -
  let ?s1 = "s\<lparr>meta := upsert RFQ_FINALIZATION_RESTART_CLOCK_KEY (dec_str at) (meta s)\<rparr>"
  let ?due = "take (nat limit) (sort_key (\<lambda>f. (of_expiresAt (fo_terms f), fo_id f)) (due_offers at ?s1))"
  from r obtain s2 n where loop: "foldE (restart_release H at) ?due ?s1 = Inr s2"
    and close: "closeExpiredEmptyRfqRequests H at limit s2 = Inr (s', n)"
    unfolding restart_body_def Let_def by (auto simp: bindE_eq_Inr)
  have ok1: "ledger_ok ?s1" using ok by simp
  have sub: "set ?due \<subseteq> set (due_offers at ?s1)" using set_take_subset by fastforce
  have dist: "distinct (map fo_id ?due)"
    unfolding due_offers_def unowned_ledger_def active_ledger_def filter_filter take_map [symmetric]
    by (rule distinct_take) (rule distinct_sorted_filter [OF ok1])
  have "ledger_ok s2 \<and> released (fo_id ` set ?due) ?s1 s2"
    by (rule release_loop [OF loop ok1 dist _ restart_release_step])
      (use sub in \<open>auto simp: due_offers_def unowned_ledger_def active_ledger_def\<close>)
  moreover from this have "spares ?s1 s2"
    by (intro released_spares [of "fo_id ` set ?due"])
      (use sub in \<open>auto simp: due_offers_def unowned_ledger_def owned_def\<close>)
  ultimately have "ledger_ok s2 \<and> spares s s2" by simp
  with close_requests_ledger [OF close] show ?thesis by (blast intro: spares_trans)
qed

lemma resolve_body_ledger:
  assumes "resolve_body H k d at st s = Inr (s', out)" and "ledger_ok s"
  shows "ledger_ok s' \<and> spares s s'"
  using assms(1) releaseActive_ledger [OF _ assms(2)] assms(2) unfolding resolve_body_def Let_def
  by (auto simp: bindE_eq_Inr split: option.splits if_splits intro!: resolve_request_ledger)

lemma getSolverCapacity_find: "getSolverCapacity s k = Inr r \<Longrightarrow> r = find_solver s k"
  by (auto simp: getSolverCapacity_def bindE_eq_Inr address_Inr split: option.splits if_splits)

lemma fresh_totals:
  assumes "\<And>f. f \<in> set rows \<Longrightarrow> fo_solverId f \<noteq> k"
  shows "active_count k rows = 0" and "committed_bit k rows = 0" and "committed_sats k rows = 0"
  using assms unfolding active_count_def committed_bit_def committed_sats_def
  by (induction rows) (auto simp: active_of_def)

lemma record_capacity_ledger:
  assumes r: "record_capacity_body v d s = Inr (s', out)" and ok: "ledger_ok s"
    and pos: "0 \<le> ss_availableBitWei v" "0 \<le> ss_availableLightningSats v"
  shows "ledger_ok s' \<and> spares s s'"
proof (cases "find_solver s (ss_solverId v)")
  case None
  then have new: "ss_solverId v \<notin> sv_solverId ` set (solvers s)"
    by (simp add: find_solver_def row_find_None)
  from r None obtain row where s': "s' = s\<lparr>solvers := solvers s @ [row]\<rparr>" and row: "sv_solverId row = ss_solverId v"
      "sv_activeFirmQuotes row = 0" "sv_committedBitWei row = 0" "sv_committedLightningSats row = 0"
      "\<not> sv_capacityConflict row" "sv_availableBitWei row = ss_availableBitWei v"
      "sv_availableLightningSats row = ss_availableLightningSats v"
    unfolding record_capacity_body_def Let_def bindE_eq_Inr
    by (elim exE conjE) (drule getSolverCapacity_find, auto simp: bindE_eq_Inr)
  have fresh: "fo_solverId f \<noteq> ss_solverId v" if "f \<in> set (offers s)" for f
  proof -
    from ok that have "fo_solverId f \<in> sv_solverId ` set (solvers s)" by (simp add: ledger_ok_def offer_ok_def)
    with new show ?thesis by metis
  qed
  have "balanced (offers s) row"
    using pos row by (simp add: balanced_def capacity_conflict_def fresh_totals [OF fresh])
  moreover have "offer_ok s' f" if "f \<in> set (offers s)" for f
    by (rule offer_ok_mono [of s]) (use ok that in \<open>auto simp: ledger_ok_def s'\<close>)
  ultimately show ?thesis using ok new row by (simp add: ledger_ok_def keys_ok_def s' spares_def same_rows_def)
next
  case (Some c)
  show ?thesis
  proof (cases "s' = s")
    case False
    with r Some obtain g where s': "s' = update_solver (ss_solverId v) g s"
      and g: "\<And>r. sv_solverId (g r) = sv_solverId r \<and> sv_activeFirmQuotes (g r) = sv_activeFirmQuotes r \<and>
         sv_committedBitWei (g r) = sv_committedBitWei r \<and>
         sv_committedLightningSats (g r) = sv_committedLightningSats r"
      and conflict: "sv_capacityConflict (g c) = capacity_conflict (g c)"
      unfolding record_capacity_body_def Let_def bindE_eq_Inr
      by (elim exE conjE) (drule getSolverCapacity_find,
        auto simp: bindE_eq_Inr capacity_conflict_def split: if_splits)
    from ok have dist: "distinct (map sv_solverId (solvers s))" by (simp add: ledger_ok_def keys_ok_def)
    have "balanced (offers s) r'" if r': "r' \<in> set (solvers s')" for r'
    proof -
      from r' obtain r where r: "r \<in> set (solvers s)"
        and eq: "r' = (if sv_solverId r = ss_solverId v then g r else r)"
        by (auto simp: s' solver_table.rows_modify set_row_update)
      have "r = c" if "sv_solverId r = ss_solverId v"
        using solver_table.lookup_member [OF dist r] Some that by simp
      with ok r g conflict eq show ?thesis by (auto simp: ledger_ok_def balanced_def)
    qed
    moreover have keys: "map sv_solverId (solvers s') = map sv_solverId (solvers s)"
      using g by (simp add: s' solver_table.keys_modify)
    moreover have "offer_ok s' f" if "f \<in> set (offers s)" for f
      by (rule offer_ok_mono [of s]) (use ok that arg_cong [OF keys, of set] in \<open>auto simp: ledger_ok_def s'\<close>)
    ultimately show ?thesis using ok by (simp add: ledger_ok_def keys_ok_def s' spares_def same_rows_def)
  qed (use ok in simp)
qed

lemma normalizeSolverSnapshot_nonneg:
  assumes "normalizeSolverSnapshot input = Inr v"
  shows "0 \<le> ss_availableBitWei v \<and> 0 \<le> ss_availableLightningSats v"
  using assms unfolding normalizeSolverSnapshot_def bindE_eq_Inr if_Inl_eq_Inr Let_def sum.inject
  by (elim exE conjE) (drule sym [where t = v], drule uint_nonneg, drule uint_nonneg, simp)

text \<open>The totals of a solver after a new active offer.\<close>

lemma totals_after_insert:
  assumes "fo_state f = OFFER_ACTIVE"
  shows "active_count k (rows @ [f]) = active_count k rows + (if fo_solverId f = k then 1 else 0)"
    and "committed_bit k (rows @ [f]) = committed_bit k rows
           + (if fo_solverId f = k then of_bitAmountWei (fo_terms f) else 0)"
    and "committed_sats k (rows @ [f]) = committed_sats k rows
           + (if fo_solverId f = k then of_lightningAmountSats (fo_terms f) else 0)"
  using assms by (auto simp: active_count_def committed_bit_def committed_sats_def active_of_def)

lemma with_history_fields [simp]:
  "sv_committedBitWei (with_history h v) = sv_committedBitWei v"
  "sv_committedLightningSats (with_history h v) = sv_committedLightningSats v"
  "sv_availableBitWei (with_history h v) = sv_availableBitWei v"
  "sv_availableLightningSats (with_history h v) = sv_availableLightningSats v"
  "sv_activeFirmQuotes (with_history h v) = sv_activeFirmQuotes v"
  "sv_suspended (with_history h v) = sv_suspended v"
  "sv_capacityConflict (with_history h v) = sv_capacityConflict v"
  "sv_capacityEpoch (with_history h v) = sv_capacityEpoch v"
  by (auto simp: with_history_def split: prod.splits)

text \<open>What a new reservation found, checked and wrote.\<close>

definition new_offer :: "offer_reservation \<Rightarrow> string \<Rightarrow> firm_offer" where
  "new_offer v d = \<lparr>fo_terms = reservation_terms v, fo_recordDigest = d, fo_binding = None,
     fo_authorization = None, fo_state = OFFER_ACTIVE, fo_outcome = None, fo_reservedAt = rs_now v\<rparr>"

lemma new_offer_fields [simp]:
  "fo_state (new_offer v d) = OFFER_ACTIVE" "fo_binding (new_offer v d) = None"
  "fo_authorization (new_offer v d) = None" "fo_outcome (new_offer v d) = None"
  "fo_id (new_offer v d) = rs_offerId v" "fo_solverId (new_offer v d) = rs_solverId v"
  "fo_requestId (new_offer v d) = rs_requestId v" "fo_terms (new_offer v d) = reservation_terms v"
  by (simp_all add: new_offer_def reservation_terms_def Let_def key_defs)

lemma reservation_terms_fields [simp]:
  "of_offerId (reservation_terms v) = rs_offerId v" "of_requestId (reservation_terms v) = rs_requestId v"
  "of_bitAmountWei (reservation_terms v) = offer_bit_leg (rs_offer v)"
  "of_lightningAmountSats (reservation_terms v) = offer_lightning_leg (rs_offer v)"
  "of_expiresAt (reservation_terms v) = ot_expiresAt (rs_offer v)"
  "of_direction (reservation_terms v) = ot_direction (rs_offer v)"
  by (simp_all add: reservation_terms_def Let_def)

lemma reserve_new_Inr:
  assumes r: "reserve_new v d s = Inr (s', out)"
    and bounds: "policy_bounds (rs_policy v) = Inr ()"
  obtains solver request nxt where "find_solver s (rs_solverId v) = Some solver"
    "find_request s (rs_requestId v) = Some request"
    "rq_state request = RFQ_ACTIVE" "rq_direction request = ot_direction (rs_offer v)"
    "ot_expiresAt (rs_offer v) \<le> rq_expiresAt request"
    "ot_lightningAmountSats (rs_offer v) = rq_notionalSats request"
    "sv_activeFirmQuotes solver = active_count (rs_solverId v) (offers s)"
    "sv_committedBitWei solver = committed_bit (rs_solverId v) (offers s)"
    "sv_committedLightningSats solver = committed_sats (rs_solverId v) (offers s)"
    "committed_bit (rs_solverId v) (offers s) + offer_bit_leg (rs_offer v) \<le> sv_availableBitWei solver"
    "committed_sats (rs_solverId v) (offers s) + offer_lightning_leg (rs_offer v) \<le> sv_availableLightningSats solver"
    "ot_direction (rs_offer v) = ''bit-to-lightning'' \<longrightarrow>
       global_committed (offers s) + offer_lightning_leg (rs_offer v) \<le> ap_maxGlobalBitToLightningInFlightSats (rs_policy v)"
    "nxt = solver\<lparr>sv_activeFirmQuotes := active_count (rs_solverId v) (offers s) + 1,
       sv_committedBitWei := committed_bit (rs_solverId v) (offers s) + offer_bit_leg (rs_offer v),
       sv_committedLightningSats := committed_sats (rs_solverId v) (offers s) + offer_lightning_leg (rs_offer v)\<rparr>"
    "\<forall>f\<in>set (offers s). fo_id f \<noteq> rs_offerId v"
    "s' = writeSolverAccounting nxt (rs_now v) (s\<lparr>offers := offers s @ [new_offer v d]\<rparr>)"
    "out = find_offer s' (rs_offerId v)"
proof -
  from r obtain found where req: "getRfqRequest s (rs_requestId v) = Inr found"
    and check: "check_offer_request v found = Inr ()"
    unfolding reserve_new_def by (auto simp: bindE_eq_Inr)
  from r obtain solver a nxt s1 where cap: "getSolverCapacity s (rs_solverId v) = Inr (Some solver)"
    and a: "assessFirmOffer (rs_offer v) (with_history (solverDirectionHistory (rs_solverId v)
        (ot_direction (rs_offer v)) s) solver) (rs_policy v) (rs_now v) = Inr a" "fa_allowed a"
    and global: "\<not> (ot_direction (rs_offer v) = ''bit-to-lightning'' \<and>
       ap_maxGlobalBitToLightningInFlightSats (rs_policy v) < global_committed (offers s) + offer_lightning_leg (rs_offer v))"
    and nxt: "reserveFirmOfferCapacity solver a = Inr nxt"
    and s1: "insert_offer (new_offer v d) s = Inr s1"
    and s': "s' = writeSolverAccounting (nxt\<lparr>sv_solverId := sv_solverId solver\<rparr>) (rs_now v) s1"
      "out = find_offer s' (rs_offerId v)"
    unfolding reserve_new_def Let_def new_offer_def
    by (simp only: bindE_eq_Inr if_Inl_eq_Inr split_paired_Ex prod.case sum.inject prod.inject)
      (elim exE conjE, auto simp: bindE_eq_Inr getFirmOffer_Inr split: option.splits if_splits)
  from assessFirmOffer_allowed [OF a]
  have fits: "offer_fits (rs_offer v) (with_history (solverDirectionHistory (rs_solverId v)
        (ot_direction (rs_offer v)) s) solver) (rs_policy v) (rs_now v)"
    and com: "fa_commitment a = Some (offer_commitment (rs_offer v))" by auto
  note n = reserveFirmOfferCapacity_Inr [OF nxt com]
  from cap have c: "find_solver s (rs_solverId v) = Some solver"
      "sv_activeFirmQuotes solver = active_count (rs_solverId v) (offers s)"
      "sv_committedBitWei solver = committed_bit (rs_solverId v) (offers s)"
      "sv_committedLightningSats solver = committed_sats (rs_solverId v) (offers s)"
    by (simp_all add: getSolverCapacity_Some)
  from check req obtain request where q: "find_request s (rs_requestId v) = Some request"
      "rq_state request = RFQ_ACTIVE" "rq_direction request = ot_direction (rs_offer v)"
      "ot_expiresAt (rs_offer v) \<le> rq_expiresAt request"
      "ot_lightningAmountSats (rs_offer v) = rq_notionalSats request"
    by (auto simp: check_offer_request_def getRfqRequest_Inr split: option.splits if_splits)
  from s1 have ins: "s1 = s\<lparr>offers := offers s @ [new_offer v d]\<rparr>"
      "\<forall>f\<in>set (offers s). fo_id f \<noteq> rs_offerId v"
    by (auto simp: insert_offer_def list_ex_iff new_offer_def reservation_terms_def Let_def key_defs split: if_splits)
  from fits c policy_bounds_Inr [OF bounds] n
  have add: "num_add (sv_activeFirmQuotes solver) 1 = active_count (rs_solverId v) (offers s) + 1"
    by (simp add: num_add_def offer_fits_def)
  show thesis
    by (rule that [OF c(1) q c(2-4) _ _ _ _ ins(2)])
      (use fits global n add c s' ins(1) in \<open>auto simp: offer_fits_def offer_commitment_def\<close>)
qed

lemma reserve_new_ledger:
  assumes r: "reserve_new v d s = Inr (s', out)" and bounds: "policy_bounds (rs_policy v) = Inr ()"
    and ok: "ledger_ok s"
  shows "ledger_ok s' \<and> spares s s'"
proof -
  from r bounds obtain solver request nxt where c: "find_solver s (rs_solverId v) = Some solver"
      "find_request s (rs_requestId v) = Some request" "rq_state request = RFQ_ACTIVE"
      "ot_expiresAt (rs_offer v) \<le> rq_expiresAt request"
      "\<forall>f\<in>set (offers s). fo_id f \<noteq> rs_offerId v"
    and nxt: "nxt = solver\<lparr>sv_activeFirmQuotes := active_count (rs_solverId v) (offers s) + 1,
       sv_committedBitWei := committed_bit (rs_solverId v) (offers s) + offer_bit_leg (rs_offer v),
       sv_committedLightningSats := committed_sats (rs_solverId v) (offers s) + offer_lightning_leg (rs_offer v)\<rparr>"
    and s': "s' = writeSolverAccounting nxt (rs_now v) (s\<lparr>offers := offers s @ [new_offer v d]\<rparr>)"
    by (rule reserve_new_Inr)
  note tot = totals_after_insert [of "new_offer v d", simplified]
  note id = solver_table.lookup_SomeD [OF c(1)] and rid = request_table.lookup_SomeD [OF c(2)]
  from ok have dist: "distinct (map sv_solverId (solvers s))" by (simp add: ledger_ok_def keys_ok_def)
  have rows: "offers s' = offers s @ [new_offer v d]" "requests s' = requests s" "settlements s' = settlements s"
      "actions s' = actions s" "evms s' = evms s"
    and keys: "map sv_solverId (solvers s') = map sv_solverId (solvers s)"
    by (simp_all add: s' writeSolverAccounting_def solver_table.rows_modify map_row_update)
  have "balanced (offers s') w" if "w \<in> set (solvers s')" for w
  proof -
    from that obtain u where u: "u \<in> set (solvers s)" and w: "w = (if sv_solverId u = rs_solverId v
        then u\<lparr>sv_committedBitWei := sv_committedBitWei nxt,
          sv_committedLightningSats := sv_committedLightningSats nxt,
          sv_activeFirmQuotes := sv_activeFirmQuotes nxt, sv_successfulFills := sv_successfulFills nxt,
          sv_attributableFailures := sv_attributableFailures nxt,
          sv_consecutiveFailures := sv_consecutiveFailures nxt, sv_suspended := sv_suspended nxt,
          sv_capacityConflict := capacity_conflict nxt, sv_version := sv_version u + 1,
          sv_updatedAt := rs_now v\<rparr> else u)"
      using id by (auto simp: s' writeSolverAccounting_def solver_table.rows_modify set_row_update nxt)
    have "u = solver" if "sv_solverId u = rs_solverId v"
      using solver_table.lookup_member [OF dist u] c(1) that by simp
    with ok u show ?thesis unfolding w rows(1)
      by (auto simp: balanced_def tot nxt capacity_conflict_def ledger_ok_def)
  qed
  moreover have "rs_solverId v \<in> sv_solverId ` set (solvers s)" using id by (metis imageI)
  then have "offer_ok s' (new_offer v d)"
    using rid c(3,4) arg_cong [OF keys, of set] by (auto simp: offer_ok_def rows)
  moreover have "offer_ok s' f" if "f \<in> set (offers s)" for f
    by (rule offer_ok_mono [of s])
      (use ok that rows arg_cong [OF keys, of set] in \<open>auto simp: ledger_ok_def\<close>)
  ultimately show ?thesis
    using ok c(5) keys rows by (auto simp: ledger_ok_def keys_ok_def spares_def same_rows_def)
qed

lemma reserve_body_ledger:
  assumes r: "reserve_body H v d s = Inr (s', out)" and bounds: "policy_bounds (rs_policy v) = Inr ()"
    and ok: "ledger_ok s"
  shows "ledger_ok s' \<and> spares s s'"
proof -
  from r obtain s1 where 1: "bindAdmissionPolicy H (rs_policy v) s = Inr s1"
    and 2: "s' = s1 \<or> (\<exists>s2 n. expireRfqRequests H (rs_now v) None 1000 s1 = Inr (s2, n) \<and>
      reserve_new v d s2 = Inr (s', out))"
    unfolding reserve_body_def
    by (auto simp: bindE_eq_Inr split: option.splits if_splits)
  from 1 ok have ok1: "ledger_ok s1 \<and> spares s s1" by (auto dest!: bindAdmissionPolicy_frame)
  from 2 show ?thesis
  proof (elim disjE exE conjE)
    fix s2 n assume x: "expireRfqRequests H (rs_now v) None 1000 s1 = Inr (s2, n)"
      and n: "reserve_new v d s2 = Inr (s', out)"
    from expireRfqRequests_ledger [OF x] ok1 have "ledger_ok s2 \<and> spares s s2" by (blast intro: spares_trans)
    with reserve_new_ledger [OF n bounds] show ?thesis by (blast intro: spares_trans)
  qed (use ok1 in simp)
qed

text \<open>An update of an offer that leaves its terms, state and outcome alone keeps the ledger.\<close>

lemma balanced_cong:
  assumes "map (\<lambda>f. (fo_terms f, fo_state f)) rows = map (\<lambda>f. (fo_terms f, fo_state f)) rows'"
  shows "balanced rows v = balanced rows' v"
proof -
  have t: "total (active_of k) (\<lambda>f. g (fo_terms f)) rows = total (active_of k) (\<lambda>f. g (fo_terms f)) rows'" for k g
    using assms
  proof (induction rows arbitrary: rows')
    case (Cons f rows)
    then obtain f' rest where "rows' = f' # rest" by (cases rows') auto
    with Cons show ?case by (auto simp: active_of_def key_defs)
  qed simp
  show ?thesis
    using t [of _ of_bitAmountWei] t [of _ of_lightningAmountSats] t [of _ "\<lambda>_. 1"]
    by (simp add: balanced_def active_count_def committed_bit_def committed_sats_def)
qed

lemma update_offer_ledger:
  assumes ok: "ledger_ok s"
    and g: "\<And>f. fo_terms (g f) = fo_terms f" "\<And>f. fo_state (g f) = fo_state f" "\<And>f. fo_outcome (g f) = fo_outcome f"
    and auth: "\<And>f. f \<in> set (offers s) \<Longrightarrow> fo_id f = k \<Longrightarrow> fo_authorization (g f) \<noteq> None \<Longrightarrow> fo_binding (g f) \<noteq> None"
  shows "ledger_ok (update_offer k g s)"
proof -
  have keys: "map fo_id (offers (update_offer k g s)) = map fo_id (offers s)"
    using g(1) by (simp add: offer_table.keys_modify key_defs)
  have "offer_ok (update_offer k g s) f'" if "f' \<in> set (offers (update_offer k g s))" for f'
  proof -
    from that obtain f where f: "f \<in> set (offers s)" "f' = (if fo_id f = k then g f else f)"
      by (auto simp: offer_table.rows_modify set_row_update)
    with ok have "offer_ok s f" by (simp add: ledger_ok_def)
    with f g auth [OF f(1)] show ?thesis by (auto simp: offer_ok_def key_defs)
  qed
  moreover have "balanced (offers (update_offer k g s)) v = balanced (offers s) v" for v
    by (rule balanced_cong) (simp add: offer_table.rows_modify map_row_update g)
  ultimately show ?thesis using ok keys by (simp add: ledger_ok_def keys_ok_def)
qed

lemma execution_body_Inr:
  assumes "execution_body v d s = Inr (s', out)"
  shows "s' = s \<or> s' = update_offer (xi_offerId v) (\<lambda>r. if fo_state r = OFFER_ACTIVE \<and> fo_binding r = None
    then r\<lparr>fo_binding := Some \<lparr>xb_privateRequestDigest = xi_privateRequestDigest v,
      xb_executableOfferDigest = xi_executableOfferDigest v, xb_bindingDigest = d,
      xb_finalizedAt = xi_finalizedAt v\<rparr>\<rparr> else r) s"
  using assms unfolding execution_body_def Let_def
  by (simp only: returned) (elim exE conjE disjE, simp_all)

lemma ledger_authorization:
  "ledger_ok s \<Longrightarrow> f \<in> set (offers s) \<Longrightarrow> fo_authorization f \<noteq> None \<Longrightarrow> fo_binding f \<noteq> None"
  by (auto simp: ledger_ok_def offer_ok_def)

lemma execution_body_ledger:
  "execution_body v d s = Inr (s', out) \<Longrightarrow> ledger_ok s \<Longrightarrow> ledger_ok s' \<and> same_rows s s'"
  by (drule execution_body_Inr)
    (auto simp: same_rows_def split: if_splits dest: ledger_authorization intro!: update_offer_ledger)

lemma authorization_body_Inr:
  assumes "authorization_body v s = Inr (s', out)"
  shows "\<exists>f b. find_offer s (ui_offerId v) = Some f \<and> fo_binding f = Some b \<and> fo_state f = OFFER_ACTIVE \<and>
    ui_authorizedAt v < of_expiresAt (fo_terms f) \<and> xb_bindingDigest b = ui_executionBindingDigest v \<and>
    xb_finalizedAt b \<le> ui_authorizedAt v \<and> ui_authorizedAt v < ui_authorizationExpiresAt v \<and>
    ui_authorizationExpiresAt v \<le> of_selectionAuthorizationExpiresAt (fo_terms f) \<and>
    (s' = s \<or> s' = update_offer (ui_offerId v) (\<lambda>r. if fo_state r = OFFER_ACTIVE \<and> fo_authorization r = None
       then r\<lparr>fo_authorization := Some \<lparr>ua_digest = ui_executionAuthorizationDigest v,
         ua_expiresAt = ui_authorizationExpiresAt v, ua_authorizedAt = ui_authorizedAt v\<rparr>\<rparr> else r) s)"
  using assms unfolding authorization_body_def Let_def
  by (simp only: returned getFirmOffer_Inr) (elim exE conjE disjE; force)

lemma authorization_body_ledger:
  assumes a: "authorization_body v s = Inr (s', out)" and ok: "ledger_ok s"
  shows "ledger_ok s' \<and> same_rows s s'"
proof -
  from a obtain f b where f: "find_offer s (ui_offerId v) = Some f" "fo_binding f = Some b"
    and s': "s' = s \<or> s' = update_offer (ui_offerId v) (\<lambda>r. if fo_state r = OFFER_ACTIVE \<and> fo_authorization r = None
       then r\<lparr>fo_authorization := Some \<lparr>ua_digest = ui_executionAuthorizationDigest v,
         ua_expiresAt = ui_authorizationExpiresAt v, ua_authorizedAt = ui_authorizedAt v\<rparr>\<rparr> else r) s"
    using authorization_body_Inr by blast
  from ok have dist: "distinct (map fo_id (offers s))" by (simp add: ledger_ok_def keys_ok_def)
  have "r = f" if "r \<in> set (offers s)" "fo_id r = ui_offerId v" for r
    using offer_table.lookup_member [OF dist that(1)] f(1) that(2) by simp
  with f(2) s' ok show ?thesis by (auto simp: same_rows_def intro!: update_offer_ledger)
qed

lemma close_offer_request_ledger:
  assumes "close_offer_request H v k st msg s = Inr s'" and "ledger_ok s"
  shows "ledger_ok s' \<and> same_rows s s'"
proof -
  from assms(1) obtain t where t: "releaseActiveFirmOffers H k ''user-abandoned'' (oi_recordedAt v) s = Inr t"
      "s' = resolve_request k st (oi_evidenceDigest v) (oi_recordedAt v) t"
    by (auto simp: close_offer_request_def bindE_eq_Inr split: option.splits if_splits)
  note r = releaseActive_ledger [OF t(1) assms(2)]
  from r(2) have "spares s s'" unfolding t(2) by simp
  then show ?thesis using resolve_request_ledger [OF r(1,3)] by (simp add: t(2) spares_def)
qed

lemma outcome_body_ledger:
  assumes b: "outcome_body H v s = Inr (s', out)" and ok: "ledger_ok s"
  shows "ledger_ok s' \<and> same_rows s s'"
proof -
  from b obtain s1 where 1: "bindAdmissionPolicy H (oi_policy v) s = Inr s1"
    and 2: "s' = s1 \<or> (\<exists>current o1 d at limit s2 x. find_offer s1 (oi_offerId v) = Some current \<and>
      completeFirmOffer current o1 d at limit s1 = Inr (s2, x) \<and>
      (s' = s2 \<or> (\<exists>k st msg. close_offer_request H v k st msg s2 = Inr s')))"
    unfolding outcome_body_def Let_def
    by (simp only: returned getFirmOffer_Inr) (elim exE conjE disjE, blast+)
  from 1 ok have ok1: "ledger_ok s1" "same_rows s s1" by (auto dest!: bindAdmissionPolicy_frame simp: same_rows_def)
  from 2 show ?thesis
  proof (elim disjE exE conjE)
    fix current o1 d at limit s2 x k st msg
    assume "find_offer s1 (oi_offerId v) = Some current" "completeFirmOffer current o1 d at limit s1 = Inr (s2, x)"
    then have c: "ledger_ok s2 \<and> released {fo_id current} s1 s2"
      by (intro completeFirmOffer_ledger [OF _ ok1(1)]) (auto dest: offer_table.lookup_SomeD)
    then have ok2: "ledger_ok s2" "same_rows s s2"
      using ok1(2) released_frame [of _ s1 s2] by (auto simp: same_rows_def)
    { assume "s' = s2" with ok2 show ?thesis by simp }
    { assume "close_offer_request H v k st msg s2 = Inr s'"
      with ok2 show ?thesis by (auto dest!: close_offer_request_ledger simp: same_rows_def) }
  qed (use ok1 in simp)
qed

end
