(* ===== verification/Store_Settlement.thy ===== *)
theory Store_Settlement
  imports Store_Admission
begin

text \<open>
  The settlement half of the coordinator store (\<^verbatim>\<open>src/lib/coordinator-store.mjs\<close>): acceptance of a
  settlement, the bindings that precede value movement, the actions with their dispatch, result,
  recovery and reconciliation, and terminal outcomes.  The Ethereum library is the parameter \<open>E\<close>,
  the hash of the runtime the parameter \<open>H\<close>.
\<close>

section \<open>Acceptance\<close>

definition live_authorization :: "firm_offer \<Rightarrow> int \<Rightarrow> bool" where
  "live_authorization f at \<longleftrightarrow> fo_state f = OFFER_ACTIVE \<and> of_expiresAt (fo_terms f) > at
     \<and> of_selectionAuthorizationExpiresAt (fo_terms f) > at \<and> fo_reservedAt f \<le> at
     \<and> (case fo_binding f of None \<Rightarrow> False | Some b \<Rightarrow> xb_finalizedAt b \<le> at)
     \<and> (case fo_authorization f of None \<Rightarrow> False | Some a \<Rightarrow> ua_expiresAt a > at \<and> ua_authorizedAt a \<le> at)"

definition settlement_matches :: "settlement_terms \<Rightarrow> firm_offer \<Rightarrow> request_row option \<Rightarrow> bool" where
  "settlement_matches v f found = (case found of None \<Rightarrow> False | Some r \<Rightarrow>
     rq_state r = RFQ_ACTIVE \<and> rq_expiresAt r > tm_createdAt v \<and> rq_requestId r = tm_pricingId v
     \<and> rq_direction r = tm_direction v \<and> rq_notionalSats r = tm_amountSats v
     \<and> of_direction (fo_terms f) = tm_direction v
     \<and> (of_direction (fo_terms f) = ''lightning-to-bit'' \<longrightarrow> of_lightningAmountSats (fo_terms f) = tm_amountSats v)
     \<and> of_capacityEpoch (fo_terms f) = tm_capacityEpoch v)"

text \<open>\<^verbatim>\<open>INSERT INTO settlements\<close> with its uniqueness constraints.\<close>

definition settlement_conflicts :: "settlement_terms \<Rightarrow> settlement_terms \<Rightarrow> bool" where
  "settlement_conflicts v t \<longleftrightarrow> tm_settlementId t = tm_settlementId v \<or> tm_intentDigest t = tm_intentDigest v
     \<or> tm_paymentHash t = tm_paymentHash v \<or> tm_selectedOfferId t = tm_selectedOfferId v
     \<or> tm_direction t = tm_direction v \<and> tm_nonceAuthorityDigest t = tm_nonceAuthorityDigest v
       \<and> tm_intentNonce t = tm_intentNonce v"

definition new_settlement :: "settlement_terms \<Rightarrow> string \<Rightarrow> settlement" where
  "new_settlement v recordDigest = \<lparr>se_terms = v, se_intent = None, se_policy = None,
     se_recordDigest = recordDigest, se_reservation = None, se_lastActionId = None, se_state = INTENT_ACCEPTED,
     se_reconciliationRequired = False, se_haltCode = None, se_terminal = None, se_version = 1,
     se_updatedAt = tm_createdAt v\<rparr>"

definition insert_settlement :: "settlement_terms \<Rightarrow> string \<Rightarrow> store \<Rightarrow> store result" where
  "insert_settlement v recordDigest s =
     (if list_ex (\<lambda>r. settlement_conflicts v (se_terms r)) (settlements s) \<or> tm_pricingId v = tm_settlementId v
      then Inl (Error ''settlement conflicts with an existing nonce, intent, or payment hash'')
      else Inr (s\<lparr>settlements := settlements s @ [new_settlement v recordDigest]\<rparr>))"

definition check_settlement_offer :: "settlement_terms \<Rightarrow> firm_offer option \<Rightarrow> store \<Rightarrow> unit result" where
  "check_settlement_offer v found s =
     (case found of
        None \<Rightarrow> bindE (getRfqRequest s (tm_pricingId v)) (\<lambda>request.
          if request \<noteq> None then Inl (Error ''settlement selected firm offer does not exist'') else Inr ())
      | Some f \<Rightarrow> bindE (getRfqRequest s (fo_requestId f)) (\<lambda>request.
          if list_ex (\<lambda>g. fo_requestId g = fo_requestId f \<and> owned s g) (offers s)
          then Inl (Error ''RFQ already has a settlement'')
          else if \<not> live_authorization f (tm_createdAt v)
          then Inl (Error ''settlement requires an active fully authorized firm offer'')
          else if \<not> settlement_matches v f request
          then Inl (Error ''settlement does not match its active RFQ, firm offer, amount, or capacity epoch'')
          else Inr ()))"

definition accept_body ::
    "(string \<Rightarrow> string) \<Rightarrow> settlement_terms \<Rightarrow> store \<Rightarrow> (store \<times> settlement option) result" where
  "accept_body H v s =
     bindE (digest H (settlement_json v)) (\<lambda>recordDigest.
     bindE (getSettlement s (tm_settlementId v)) (\<lambda>existing.
     case existing of
       Some r \<Rightarrow>
         if se_recordDigest r \<noteq> recordDigest
         then Inl (Error ''settlement identifier was already bound to different terms'') else Inr (s, Some r)
     | None \<Rightarrow>
         bindE (getFirmOffer s (tm_selectedOfferId v)) (\<lambda>offer.
         bindE (check_settlement_offer v offer s) (\<lambda>_.
         bindE (insert_settlement v recordDigest s) (\<lambda>s1.
         bindE (event (tm_settlementId v) None ''SETTLEMENT'' ''INTENT_ACCEPTED'' recordDigest (tm_createdAt v) s1) (\<lambda>s2.
         bindE (getSettlement s2 (tm_settlementId v)) (\<lambda>row. Inr (s2, row))))))))"

definition acceptSettlement ::
    "(string \<Rightarrow> string) \<Rightarrow> jsval \<Rightarrow> store \<Rightarrow> store \<times> settlement option result" where
  "acceptSettlement H input = withInput (normalizeSettlement input) (\<lambda>v. transaction (accept_body H v))"

definition handoff_matches :: "authorization_input \<Rightarrow> settlement_terms \<Rightarrow> firm_offer \<Rightarrow> request_row option \<Rightarrow> bool" where
  "handoff_matches a v f found \<longleftrightarrow> tm_selectedOfferId v = fo_id f \<and> tm_pricingId v = fo_requestId f
     \<and> tm_direction v = of_direction (fo_terms f)
     \<and> (case found of None \<Rightarrow> False | Some r \<Rightarrow> rq_state r = RFQ_ACTIVE \<and> tm_amountSats v = rq_notionalSats r)
     \<and> (of_direction (fo_terms f) = ''lightning-to-bit'' \<longrightarrow> tm_amountSats v = of_lightningAmountSats (fo_terms f))
     \<and> tm_capacityEpoch v = of_capacityEpoch (fo_terms f)
     \<and> tm_nonceAuthorityDigest v = of_selectionAuthorizationDigest (fo_terms f)
     \<and> tm_intentDigest v = ui_executionAuthorizationDigest a
     \<and> tm_selectedSetDigest v = of_offerDigest (fo_terms f) \<and> tm_createdAt v = ui_authorizedAt a"

definition handoff_body ::
    "(string \<Rightarrow> string) \<Rightarrow> authorization_input \<Rightarrow> settlement_terms \<Rightarrow> store
       \<Rightarrow> (store \<times> firm_offer option \<times> settlement option) result" where
  "handoff_body H a v s =
     bindE (getFirmOffer s (ui_offerId a)) (\<lambda>found.
     case found of
       None \<Rightarrow> Inl (Error ''firm offer does not exist'')
     | Some before \<Rightarrow>
         bindE (getRfqRequest s (fo_requestId before)) (\<lambda>request.
         if \<not> handoff_matches a v before request
         then Inl (Error ''authorized settlement does not match its exact firm-offer commitments'')
         else bindE (authorization_body a s) (\<lambda>(s1, offer).
         bindE (accept_body H v s1) (\<lambda>(s2, settlement).
         if (case (offer, settlement) of
               (Some f, Some r) \<Rightarrow> se_offerId r \<noteq> fo_id f
                 \<or> map_option ua_digest (fo_authorization f) \<noteq> Some (tm_intentDigest (se_terms r))
             | _ \<Rightarrow> True)
         then Inl (Error ''authorized settlement handoff was not persisted atomically'')
         else Inr (s2, offer, settlement)))))"

definition acceptAuthorizedFirmOfferSettlement ::
    "(string \<Rightarrow> string) \<Rightarrow> jsval \<Rightarrow> store \<Rightarrow> store \<times> (firm_offer option \<times> settlement option) result" where
  "acceptAuthorizedFirmOfferSettlement H input =
     withInput (normalizeAuthorizedFirmOfferSettlement input) (\<lambda>(a, v). transaction (handoff_body H a v))"

section \<open>Bindings\<close>

text \<open>A settlement row that no binding, action, halt or closure has touched.\<close>

definition untouched :: "settlement \<Rightarrow> bool" where
  "untouched r \<longleftrightarrow> se_reservation r = None \<and> se_lastActionId r = None \<and> se_terminal r = None
     \<and> se_haltCode r = None \<and> \<not> se_reconciliationRequired r"

definition intent_matches :: "contract_intent \<Rightarrow> settlement_terms \<Rightarrow> bool" where
  "intent_matches b t \<longleftrightarrow> ci_direction b = tm_direction t \<and> ci_userAuthorizationDigest b = tm_intentDigest t
     \<and> ci_selectedOfferId b = tm_selectedOfferId t \<and> im_paymentHash (ci_message b) = tm_paymentHash t
     \<and> im_invoiceDigest (ci_message b) = tm_invoiceDigest t
     \<and> im_lightningAmountSats (ci_message b) = tm_amountSats t"

text \<open>The mismatches of an intent with its firm offer; a null column compares as zero.\<close>

definition intent_offer_mismatches :: "contract_intent \<Rightarrow> settlement_terms \<Rightarrow> firm_offer \<Rightarrow> string list" where
  "intent_offer_mismatches b t f =
     (let o' = fo_terms f; m = ci_message b;
          authorizedAt = (case fo_authorization f of None \<Rightarrow> 0 | Some a \<Rightarrow> ua_authorizedAt a);
          authorizationExpiresAt = (case fo_authorization f of None \<Rightarrow> 0 | Some a \<Rightarrow> ua_expiresAt a) in
      addReason (fo_state f \<noteq> OFFER_ACTIVE) ''inactive-offer'' @
      addReason (toLowerCase (of_solverId o') \<noteq> im_solver m) ''solver'' @
      addReason ((of_direction o' = ''lightning-to-bit'' \<or> of_bitAmountWei o' \<noteq> 0)
        \<and> of_bitAmountWei o' \<noteq> im_amount m) ''bit-amount'' @
      addReason (of_direction o' = ''lightning-to-bit'' \<and> of_lightningAmountSats o' \<noteq> im_lightningAmountSats m
        \<or> of_direction o' = ''bit-to-lightning'' \<and> of_lightningAmountSats o' < im_lightningAmountSats m)
        ''lightning-amount'' @
      addReason (map_option ua_digest (fo_authorization f) \<noteq> Some (tm_intentDigest t)) ''user-authorization'' @
      addReason (authorizedAt > ci_authorizedAt b) ''authorization-time'' @
      addReason (of_expiresAt o' < ci_expiresAt b) ''offer-expiry'' @
      addReason (of_selectionAuthorizationExpiresAt o' < ci_expiresAt b) ''selection-expiry'' @
      addReason (authorizationExpiresAt < ci_expiresAt b) ''execution-expiry'')"

definition intent_conflicts :: "contract_intent \<Rightarrow> settlement \<Rightarrow> bool" where
  "intent_conflicts b r = (case se_intent r of None \<Rightarrow> False | Some i \<Rightarrow>
     im_quoteId (ci_message (bi_intent i)) = im_quoteId (ci_message b)
     \<or> ci_contractIntentDigest (bi_intent i) = ci_contractIntentDigest b
     \<or> ci_calldataDigest (bi_intent i) = ci_calldataDigest b)"

text \<open>The CHECK constraints on the columns of an intent.\<close>

definition intent_columns_ok :: "contract_intent \<Rightarrow> int \<Rightarrow> bool" where
  "intent_columns_ok b boundAt \<longleftrightarrow> ci_transactionValue b = ''0x0''
     \<and> im_quoteExpiresAt (ci_message b) < im_lastSafeClaimAt (ci_message b)
     \<and> im_lastSafeClaimAt (ci_message b) < im_refundAfter (ci_message b)
     \<and> ci_authorizedAt b \<le> boundAt \<and> boundAt < im_quoteExpiresAt (ci_message b)"

definition bind_intent_body ::
    "contract_intent \<Rightarrow> int \<Rightarrow> string \<Rightarrow> store \<Rightarrow> (store \<times> settlement option) result" where
  "bind_intent_body b boundAt recordDigest s =
     bindE (getSettlement s (ci_settlementId b)) (\<lambda>found.
     case found of
       None \<Rightarrow> Inl (Error ''contract intent settlement does not exist'')
     | Some r \<Rightarrow>
         (case se_intent r of
            Some i \<Rightarrow>
              if bi_recordDigest i \<noteq> recordDigest
              then Inl (Error ''settlement is already bound to a different contract intent'') else Inr (s, Some r)
          | None \<Rightarrow>
              if se_state r \<noteq> INTENT_ACCEPTED \<or> se_policy r \<noteq> None \<or> \<not> untouched r
              then Inl (Error ''contract intent must bind before execution policy, reservation, actions, or closure'')
              else if \<not> intent_matches b (se_terms r)
              then Inl (Error ''contract intent does not match the durable authorized settlement'')
              else if ci_direction b = ''lightning-to-bit'' \<and> im_nonce (ci_message b) \<noteq> tm_intentNonce (se_terms r)
              then Inl (Error ''Lightning-to-BIT contract intent changed the user nonce'')
              else if ci_authorizedAt b < tm_createdAt (se_terms r) \<or> boundAt < ci_authorizedAt b
                  \<or> boundAt \<ge> ci_expiresAt b
              then Inl (Error ''contract intent persistence time is outside its authorization window'')
              else bindE (getFirmOffer s (se_offerId r)) (\<lambda>offer.
              let mismatches = (case offer of None \<Rightarrow> [] | Some f \<Rightarrow> intent_offer_mismatches b (se_terms r) f) in
              if mismatches \<noteq> []
              then Inl (Error (''contract intent does not match the selected durable firm offer: ''
                @ js_join mismatches))
              else if list_ex (intent_conflicts b) (settlements s) \<or> \<not> intent_columns_ok b boundAt
              then Inl (Error ''contract intent conflicts with an existing quote or calldata commitment'')
              else let s1 = update_settlement (ci_settlementId b) (\<lambda>r. r\<lparr>
                  se_intent := Some \<lparr>bi_intent = b, bi_recordDigest = recordDigest, bi_boundAt = boundAt\<rparr>,
                  se_state := CONTRACT_INTENT_BOUND, se_version := se_version r + 1, se_updatedAt := boundAt\<rparr>) s in
              bindE (event (ci_settlementId b) None ''SETTLEMENT'' ''CONTRACT_INTENT_BOUND'' recordDigest boundAt s1) (\<lambda>s2.
              bindE (getSettlement s2 (ci_settlementId b)) (\<lambda>row. Inr (s2, row))))))"

definition bindContractIntent ::
    "(string \<Rightarrow> string) \<Rightarrow> ethers \<Rightarrow> jsval \<Rightarrow> store \<Rightarrow> store \<times> settlement option result" where
  "bindContractIntent H E input =
     withInput (bindE (exactKeys input [''binding'', ''boundAt''] ''contract intent persistence'') (\<lambda>_.
       bindE (validateContractIntentBinding E (js_get input ''binding'')) (\<lambda>b.
       bindE (integer (js_get input ''boundAt'') ''contract intent boundAt'') (\<lambda>boundAt.
       bindE (digest H (intent_json b)) (\<lambda>d. Inr (b, boundAt, d))))))
     (\<lambda>(b, boundAt, d). transaction (bind_intent_body b boundAt d))"

definition policy_binding_json :: "policy_binding \<Rightarrow> settlement_terms \<Rightarrow> offer_terms \<Rightarrow> jsval" where
  "policy_binding_json v t f = JObj [(''schema'', JStr ''treeswap.settlement-execution-policy.v3''),
     (''settlementId'', JStr (tm_settlementId t)), (''selectedOfferId'', JStr (tm_selectedOfferId t)),
     (''marketRiskDigest'', JStr (of_marketRiskDigest f)), (''riskPolicyDigest'', JStr (pb_riskPolicyDigest v)),
     (''marketRiskValidUntil'', JInt (of_marketRiskValidUntil f)),
     (''releaseRecordDigest'', JStr (pb_releaseRecordDigest v)),
     (''evidencePolicyDigest'', JStr (pb_evidencePolicyDigest v)),
     (''solverCapabilityDigest'', JStr (pb_solverCapabilityDigest v)), (''boundAt'', JInt (pb_boundAt v))]"

definition policy_unchanged :: "policy_binding \<Rightarrow> string \<Rightarrow> execution_policy \<Rightarrow> bool" where
  "policy_unchanged v expected x \<longleftrightarrow> xp_releaseRecordDigest x = pb_releaseRecordDigest v
     \<and> xp_riskPolicyDigest x = pb_riskPolicyDigest v \<and> xp_evidencePolicyDigest x = pb_evidencePolicyDigest v
     \<and> xp_solverCapabilityDigest x = pb_solverCapabilityDigest v \<and> xp_bindingDigest x = expected
     \<and> xp_boundAt x = pb_boundAt v"

definition policy_offer_ready :: "policy_binding \<Rightarrow> firm_offer option \<Rightarrow> bool" where
  "policy_offer_ready v found = (case found of None \<Rightarrow> False | Some f \<Rightarrow>
     live_authorization f (pb_boundAt v)
     \<and> of_marketRiskValidUntil (fo_terms f) \<ge> of_expiresAt (fo_terms f)
     \<and> of_marketRiskValidUntil (fo_terms f) > pb_boundAt v
     \<and> of_marketRiskDigest (fo_terms f) \<noteq> [] \<and> of_marketRiskDigest (fo_terms f) \<noteq> zero_bytes32
     \<and> of_marketRiskPolicyDigest (fo_terms f) = pb_riskPolicyDigest v)"

definition policy_matches :: "policy_binding \<Rightarrow> settlement_terms \<Rightarrow> firm_offer \<Rightarrow> request_row option \<Rightarrow> bool" where
  "policy_matches v t f found = (case found of None \<Rightarrow> False | Some r \<Rightarrow>
     rq_state r = RFQ_ACTIVE \<and> rq_expiresAt r > pb_boundAt v \<and> rq_requestId r = tm_pricingId t
     \<and> rq_direction r = tm_direction t \<and> rq_notionalSats r = tm_amountSats t
     \<and> of_direction (fo_terms f) = tm_direction t \<and> of_capacityEpoch (fo_terms f) = tm_capacityEpoch t
     \<and> of_capabilityDigest (fo_terms f) = pb_solverCapabilityDigest v)"

definition bind_policy_body ::
    "(string \<Rightarrow> string) \<Rightarrow> policy_binding \<Rightarrow> store \<Rightarrow> (store \<times> settlement option) result" where
  "bind_policy_body H v s =
     bindE (getSettlement s (pb_settlementId v)) (\<lambda>found.
     case found of
       None \<Rightarrow> Inl (Error ''settlement does not exist'')
     | Some r \<Rightarrow>
         bindE (getFirmOffer s (se_offerId r)) (\<lambda>offer.
         bindE (case offer of None \<Rightarrow> Inr None | Some f \<Rightarrow> getRfqRequest s (fo_requestId f)) (\<lambda>request.
         case se_policy r of
           Some x \<Rightarrow>
             (case offer of
                None \<Rightarrow> Inl (Error ''settlement execution policy lost its firm offer'')
              | Some f \<Rightarrow>
                  bindE (digest H (policy_binding_json v (se_terms r) (fo_terms f))) (\<lambda>expected.
                  if \<not> policy_unchanged v expected x
                  then Inl (Error ''settlement execution policy is already bound to different authority'')
                  else Inr (s, Some r)))
         | None \<Rightarrow>
             if se_state r \<noteq> CONTRACT_INTENT_BOUND \<or> se_intent r = None \<or> \<not> untouched r
             then Inl (Error ''settlement execution policy requires the contract intent before reservation, actions, or closure'')
             else if pb_boundAt v < tm_createdAt (se_terms r)
             then Inl (Error ''settlement execution policy binding predates settlement acceptance'')
             else if \<not> policy_offer_ready v offer
             then Inl (Error ''settlement execution policy requires an active fully authorized firm offer'')
             else (case offer of
                None \<Rightarrow> Inl (Error ''settlement execution policy requires an active fully authorized firm offer'')
              | Some f \<Rightarrow>
                  if \<not> policy_matches v (se_terms r) f request
                  then Inl (Error ''settlement execution policy does not match its durable RFQ, offer, capability, or amount'')
                  else bindE (digest H (policy_binding_json v (se_terms r) (fo_terms f))) (\<lambda>d.
                  let s1 = update_settlement (pb_settlementId v) (\<lambda>r. r\<lparr>
                      se_policy := Some \<lparr>xp_releaseRecordDigest = pb_releaseRecordDigest v,
                        xp_riskPolicyDigest = pb_riskPolicyDigest v,
                        xp_evidencePolicyDigest = pb_evidencePolicyDigest v,
                        xp_solverCapabilityDigest = pb_solverCapabilityDigest v, xp_bindingDigest = d,
                        xp_boundAt = pb_boundAt v\<rparr>,
                      se_state := EXECUTION_POLICY_BOUND, se_version := se_version r + 1,
                      se_updatedAt := pb_boundAt v\<rparr>) s in
                  bindE (event (pb_settlementId v) None ''SETTLEMENT'' ''EXECUTION_POLICY_BOUND'' d (pb_boundAt v) s1) (\<lambda>s2.
                  bindE (getSettlement s2 (pb_settlementId v)) (\<lambda>row. Inr (s2, row))))))))"

definition bindSettlementExecutionPolicy ::
    "(string \<Rightarrow> string) \<Rightarrow> jsval \<Rightarrow> store \<Rightarrow> store \<times> settlement option result" where
  "bindSettlementExecutionPolicy H input =
     withInput (normalizeSettlementExecutionPolicy input) (\<lambda>v. transaction (bind_policy_body H v))"

text \<open>\<^verbatim>\<open>UPDATE settlements SET reservation_...\<close>: the reservation identifier is unique.\<close>

definition reservation_body ::
    "reservation_input \<Rightarrow> string \<Rightarrow> store \<Rightarrow> (store \<times> settlement option) result" where
  "reservation_body v d s =
     bindE (getSettlement s (ro_settlementId v)) (\<lambda>found.
     case found of
       None \<Rightarrow> Inl (Error ''settlement does not exist'')
     | Some r \<Rightarrow>
         if se_terminal r \<noteq> None \<or> se_haltCode r \<noteq> None then Inl (Error ''settlement cannot accept a reservation'')
         else (case se_intent r of
           None \<Rightarrow> Inl (Error ''reservation requires the durable contract intent'')
         | Some i \<Rightarrow>
             if ci_contractIntentDigest (bi_intent i) \<noteq> ro_intentDigest v
             then Inl (Error ''reservation contract intent digest does not match'')
             else if im_quoteId (ci_message (bi_intent i)) \<noteq> ro_reservationId v
             then Inl (Error ''reservation quote ID does not match the durable contract intent'')
             else (case se_reservation r of
               Some q \<Rightarrow>
                 if rv_digest q \<noteq> d
                 then Inl (Error ''settlement was already bound to a different reservation'') else Inr (s, Some r)
             | None \<Rightarrow>
                 if se_state r \<noteq> CONTRACT_INTENT_BOUND \<and> se_state r \<noteq> EXECUTION_POLICY_BOUND
                 then Inl (Error ''reservation requires a contract-bound settlement state'')
                 else if list_ex (\<lambda>r'. map_option rv_reservationId (se_reservation r') = Some (ro_reservationId v))
                   (settlements s)
                 then Inl (Error ''UNIQUE constraint failed: settlements.reservation_id'')
                 else let s1 = update_settlement (ro_settlementId v) (\<lambda>r. r\<lparr>
                     se_reservation := Some \<lparr>rv_reservationId = ro_reservationId v, rv_txHash = ro_txHash v,
                       rv_blockNumber = ro_blockNumber v, rv_blockHash = ro_blockHash v, rv_digest = d\<rparr>,
                     se_state := RESERVATION_OBSERVED, se_version := se_version r + 1,
                     se_updatedAt := ro_observedAt v\<rparr>) s in
                 bindE (event (ro_settlementId v) None ''RESERVATION'' ''OBSERVED'' d (ro_observedAt v) s1) (\<lambda>s2.
                 bindE (getSettlement s2 (ro_settlementId v)) (\<lambda>row. Inr (s2, row))))))"

definition recordReservation ::
    "(string \<Rightarrow> string) \<Rightarrow> jsval \<Rightarrow> store \<Rightarrow> store \<times> settlement option result" where
  "recordReservation H input =
     withInput (bindE (normalizeReservation input) (\<lambda>v.
       bindE (digest H (reservation_json v)) (\<lambda>d. Inr (v, d))))
     (\<lambda>(v, d). transaction (reservation_body v d))"

section \<open>Actions\<close>

definition unresolved :: "action \<Rightarrow> bool" where
  "unresolved a \<longleftrightarrow> ac_state a = PENDING \<or> ac_state a = DISPATCHING \<or> ac_state a = UNKNOWN"

definition has_unresolved :: "store \<Rightarrow> string \<Rightarrow> bool" where
  "has_unresolved s settlementId \<longleftrightarrow>
     list_ex (\<lambda>a. ac_settlementId a = settlementId \<and> unresolved a) (actions s)"

definition action_matches :: "action_terms \<Rightarrow> settlement \<Rightarrow> bool" where
  "action_matches v r = (case se_intent r of None \<Rightarrow> False | Some i \<Rightarrow>
     ci_contractIntentDigest (bi_intent i) = at_intentDigest v \<and> tm_paymentHash (se_terms r) = at_paymentHash v
     \<and> tm_invoiceDigest (se_terms r) = at_invoiceDigest v \<and> tm_amountSats (se_terms r) = at_amountSats v
     \<and> tm_capacityEpoch (se_terms r) = at_capacityEpoch v)"

definition insert_action :: "action_terms \<Rightarrow> string \<Rightarrow> store \<Rightarrow> store result" where
  "insert_action v recordDigest s =
     (if list_ex (\<lambda>a. ac_id a = at_actionId v \<or> at_requestId (ac_terms a) = at_requestId v
         \<or> ac_settlementId a = at_settlementId v \<and> ac_method a = at_method v) (actions s)
      then Inl (Error ''action conflicts with an existing method or request identifier'')
      else Inr (s\<lparr>actions := actions s @ [\<lparr>ac_terms = v, ac_recordDigest = recordDigest, ac_state = PENDING,
        ac_dispatchCount = 0, ac_dispatchedAt = None, ac_result = None\<rparr>]\<rparr>))"

definition plan_body :: "action_terms \<Rightarrow> string \<Rightarrow> store \<Rightarrow> (store \<times> action option) result" where
  "plan_body v recordDigest s =
     bindE (getAction s (at_actionId v)) (\<lambda>existing.
     case existing of
       Some a \<Rightarrow>
         if ac_recordDigest a \<noteq> recordDigest
         then Inl (Error ''action identifier was already bound to different terms'') else Inr (s, Some a)
     | None \<Rightarrow>
         bindE (getSettlement s (at_settlementId v)) (\<lambda>found.
         case found of
           None \<Rightarrow> Inl (Error ''settlement does not exist'')
         | Some r \<Rightarrow>
             if se_terminal r \<noteq> None \<or> se_haltCode r \<noteq> None then Inl (Error ''settlement is closed to new actions'')
             else if se_reconciliationRequired r
             then Inl (Error ''settlement requires reconciliation before another action'')
             else if se_intent r = None then Inl (Error ''action requires the durable contract intent'')
             else if at_method v \<in> set METHODS_REQUIRING_RESERVATION \<and> se_reservation r = None
             then Inl (Error ''action requires an observed reservation'')
             else if \<not> action_matches v r then Inl (Error ''action terms do not match the persisted settlement'')
             else if has_unresolved s (at_settlementId v)
             then Inl (Error ''settlement already has an unresolved action'')
             else bindE (insert_action v recordDigest s) (\<lambda>s1.
             let s2 = update_settlement (at_settlementId v) (\<lambda>r. r\<lparr>se_lastActionId := Some (at_actionId v),
                 se_state := ACTION_PENDING, se_version := se_version r + 1, se_updatedAt := at_plannedAt v\<rparr>) s1 in
             bindE (event (at_settlementId v) (Some (at_actionId v)) ''ACTION'' ''PLANNED'' recordDigest (at_plannedAt v) s2)
               (\<lambda>s3.
             bindE (getAction s3 (at_actionId v)) (\<lambda>row. Inr (s3, row))))))"

definition planAction :: "(string \<Rightarrow> string) \<Rightarrow> jsval \<Rightarrow> store \<Rightarrow> store \<times> action option result" where
  "planAction H input =
     withInput (bindE (normalizeAction input) (\<lambda>v. bindE (digest H (action_json v)) (\<lambda>d. Inr (v, d))))
     (\<lambda>(v, d). transaction (plan_body v d))"

section \<open>EVM transactions\<close>

definition evm_json :: "evm_terms \<Rightarrow> jsval" where
  "evm_json v = JObj [(''actionId'', JStr (et_actionId v)), (''chainId'', JStr (dec_str (et_chainId v))),
     (''fromAddress'', JStr (et_fromAddress v)), (''toAddress'', JStr (et_toAddress v)),
     (''nonce'', JStr (dec_str (et_nonce v))), (''transactionHash'', JStr (et_transactionHash v)),
     (''signedTransactionDigest'', JStr (et_signedTransactionDigest v)), (''boundAt'', JInt (et_boundAt v))]"

definition normalizeEvmBinding :: "jsval \<Rightarrow> evm_terms result" where
  "normalizeEvmBinding input =
     bindE (exactKeys input [''actionId'', ''boundAt'', ''chainId'', ''fromAddress'', ''nonce'',
       ''signedTransactionDigest'', ''toAddress'', ''transactionHash''] ''EVM transaction binding'') (\<lambda>_.
     bindE (bytes32 (js_get input ''actionId'') ''actionId'') (\<lambda>actionId.
     bindE (uint (js_get input ''chainId'') ''chainId'' True (Some UINT256_MAX)) (\<lambda>chainId.
     bindE (address (js_get input ''fromAddress'') ''fromAddress'') (\<lambda>fromAddress.
     bindE (address (js_get input ''toAddress'') ''toAddress'') (\<lambda>toAddress.
     bindE (uint (js_get input ''nonce'') ''nonce'' False (Some UINT256_MAX)) (\<lambda>nonce.
     bindE (bytes32 (js_get input ''transactionHash'') ''transactionHash'') (\<lambda>transactionHash.
     bindE (bytes32 (js_get input ''signedTransactionDigest'') ''signedTransactionDigest'') (\<lambda>signedDigest.
     bindE (integer (js_get input ''boundAt'') ''boundAt'') (\<lambda>boundAt.
     Inr \<lparr>et_actionId = actionId, et_chainId = chainId, et_fromAddress = fromAddress, et_toAddress = toAddress,
       et_nonce = nonce, et_transactionHash = transactionHash, et_signedTransactionDigest = signedDigest,
       et_boundAt = boundAt\<rparr>)))))))))"

definition insert_evm :: "evm_terms \<Rightarrow> store \<Rightarrow> store result" where
  "insert_evm v s =
     (if list_ex (\<lambda>t. em_id t = et_actionId v) (evms s)
      then Inl (Error ''UNIQUE constraint failed: coordinator_evm_transactions.action_id'')
      else if list_ex (\<lambda>t. et_transactionHash (em_terms t) = et_transactionHash v) (evms s)
      then Inl (Error ''UNIQUE constraint failed: coordinator_evm_transactions.transaction_hash'')
      else Inr (s\<lparr>evms := evms s @ [\<lparr>em_terms = v, em_state = PREPARED, em_broadcastCount = 0,
        em_inclusion = None, em_lastBroadcastAt = None, em_lastObservedAt = None\<rparr>]\<rparr>))"

definition bind_evm_body ::
    "(string \<Rightarrow> string) \<Rightarrow> evm_terms \<Rightarrow> string \<Rightarrow> store \<Rightarrow> (store \<times> evm_transaction option) result" where
  "bind_evm_body H v bindingDigest s =
     bindE (getAction s (et_actionId v)) (\<lambda>found.
     case found of
       None \<Rightarrow> Inl (Error ''action does not exist'')
     | Some a \<Rightarrow>
         if ac_method a \<noteq> ''evm:claim'' then Inl (Error ''only an EVM claim can bind a transaction'')
         else if ac_state a \<noteq> PENDING \<or> ac_dispatchCount a \<noteq> 0 then Inl (Error ''EVM action is no longer bindable'')
         else bindE (getEvmTransaction s (et_actionId v)) (\<lambda>existing.
         case existing of
           Some t \<Rightarrow>
             bindE (digest H (evm_json (em_terms t))) (\<lambda>existingDigest.
             if existingDigest \<noteq> bindingDigest
             then Inl (Error ''EVM action was already bound to another signed transaction'') else Inr (s, Some t))
         | None \<Rightarrow>
             bindE (insert_evm v s) (\<lambda>s1.
             bindE (event (ac_settlementId a) (Some (ac_id a)) ''EVM'' ''TRANSACTION_BOUND'' bindingDigest (et_boundAt v) s1)
               (\<lambda>s2.
             bindE (getEvmTransaction s2 (et_actionId v)) (\<lambda>row. Inr (s2, row))))))"

definition bindEvmTransaction ::
    "(string \<Rightarrow> string) \<Rightarrow> jsval \<Rightarrow> store \<Rightarrow> store \<times> evm_transaction option result" where
  "bindEvmTransaction H input =
     withInput (bindE (normalizeEvmBinding input) (\<lambda>v. bindE (digest H (evm_json v)) (\<lambda>d. Inr (v, d))))
     (\<lambda>(v, d). transaction (bind_evm_body H v d))"

text \<open>The columns an update of an action, a transaction or a settlement writes in one statement.\<close>

definition dispatch_action :: "string \<Rightarrow> int \<Rightarrow> store \<Rightarrow> store" where
  "dispatch_action k at s = update_action k
     (\<lambda>a. a\<lparr>ac_state := DISPATCHING, ac_dispatchCount := 1, ac_dispatchedAt := Some at\<rparr>) s"

definition set_settlement_state :: "string \<Rightarrow> settlement_state \<Rightarrow> int \<Rightarrow> store \<Rightarrow> store" where
  "set_settlement_state k st at s = update_settlement k
     (\<lambda>r. r\<lparr>se_state := st, se_version := se_version r + 1, se_updatedAt := at\<rparr>) s"

definition set_reconciliation :: "string \<Rightarrow> settlement_state \<Rightarrow> bool \<Rightarrow> int \<Rightarrow> store \<Rightarrow> store" where
  "set_reconciliation k st required at s = update_settlement k (\<lambda>r. r\<lparr>se_state := st,
     se_reconciliationRequired := required, se_version := se_version r + 1, se_updatedAt := at\<rparr>) s"

definition halt_row :: "string \<Rightarrow> string \<Rightarrow> int \<Rightarrow> store \<Rightarrow> store" where
  "halt_row k code at s = update_settlement k (\<lambda>r. r\<lparr>se_state := HALTED, se_reconciliationRequired := True,
     se_haltCode := Some code, se_version := se_version r + 1, se_updatedAt := at\<rparr>) s"

definition set_action_result :: "string \<Rightarrow> action_state \<Rightarrow> string \<Rightarrow> string \<Rightarrow> int \<Rightarrow> store \<Rightarrow> store" where
  "set_action_result k st proof code at s = update_action k
     (\<lambda>a. a\<lparr>ac_state := st, ac_result := Some \<lparr>re_digest = proof, re_code = code, re_at = at\<rparr>\<rparr>) s"

definition set_evm_state :: "string \<Rightarrow> evm_state \<Rightarrow> int \<Rightarrow> store \<Rightarrow> store" where
  "set_evm_state k st at s = update_evm k (\<lambda>t. t\<lparr>em_state := st, em_lastObservedAt := Some at\<rparr>) s"

text \<open>
  The broadcast of a bound transaction: the first one dispatches the action, later ones replay it
  while the outcome is unknown.
\<close>

definition initial_broadcast :: "action \<Rightarrow> evm_transaction \<Rightarrow> bool" where
  "initial_broadcast a t \<longleftrightarrow> ac_state a = PENDING \<and> ac_dispatchCount a = 0 \<and> em_state t = PREPARED"

definition replay_broadcast :: "action \<Rightarrow> evm_transaction \<Rightarrow> bool" where
  "replay_broadcast a t \<longleftrightarrow> ac_state a = UNKNOWN \<and> (em_state t = EVM_UNKNOWN \<or> em_state t = BROADCASTING)"

definition broadcast_body ::
    "string \<Rightarrow> int \<Rightarrow> store \<Rightarrow> (store \<times> action option \<times> evm_transaction option) result" where
  "broadcast_body k at s =
     bindE (getAction s k) (\<lambda>foundAction.
     bindE (getEvmTransaction s k) (\<lambda>foundTransaction.
     case (foundAction, foundTransaction) of
       (Some a, Some t) \<Rightarrow>
         if ac_method a \<noteq> ''evm:claim'' then Inl (Error ''bound EVM action does not exist'')
         else if em_inclusion t \<noteq> None then Inl (Error ''an included EVM transaction cannot be rebroadcast'')
         else if em_broadcastCount t \<ge> 16 then Inl (Error ''EVM rebroadcast limit reached'')
         else if \<not> initial_broadcast a t \<and> \<not> replay_broadcast a t
         then Inl (Error ''EVM transaction is not broadcastable'')
         else bindE (getSettlement s (ac_settlementId a)) (\<lambda>found.
         case found of
           None \<Rightarrow> Inl (TypeError ''Cannot read properties of null (reading terminalState)'')
         | Some r \<Rightarrow>
             if se_terminal r \<noteq> None \<or> se_haltCode r \<noteq> None then Inl (Error ''settlement is not broadcastable'')
             else let s1 = (if initial_broadcast a t
                 then set_settlement_state (ac_settlementId a) ACTION_DISPATCHING at (dispatch_action k at s) else s);
               s2 = update_evm k (\<lambda>t. t\<lparr>em_state := BROADCASTING, em_broadcastCount := em_broadcastCount t + 1,
                 em_lastBroadcastAt := Some at\<rparr>) s1 in
             bindE (event (ac_settlementId a) (Some k) ''EVM''
               (if initial_broadcast a t then ''BROADCASTING'' else ''REBROADCASTING'')
               (et_signedTransactionDigest (em_terms t)) at s2) (\<lambda>s3.
             bindE (getAction s3 k) (\<lambda>action.
             bindE (getEvmTransaction s3 k) (\<lambda>tx. Inr (s3, action, tx)))))
     | _ \<Rightarrow> Inl (Error ''bound EVM action does not exist'')))"

definition claimEvmBroadcast ::
    "jsval \<Rightarrow> jsval \<Rightarrow> store \<Rightarrow> store \<times> (action option \<times> evm_transaction option) result" where
  "claimEvmBroadcast actionId broadcastAt =
     withInput (bindE (bytes32 actionId ''actionId'') (\<lambda>k.
       bindE (integer broadcastAt ''broadcastAt'') (\<lambda>at. Inr (k, at))))
     (\<lambda>(k, at). transaction (broadcast_body k at))"

record inclusion_input =
  ni_actionId :: string
  ni_transactionHash :: string
  ni_blockHash :: string
  ni_blockNumber :: int
  ni_proof :: string
  ni_observedAt :: int

definition normalizeInclusion :: "jsval \<Rightarrow> inclusion_input result" where
  "normalizeInclusion input =
     bindE (exactKeys input [''actionId'', ''blockHash'', ''blockNumber'', ''observationDigest'', ''observedAt'',
       ''transactionHash''] ''EVM inclusion'') (\<lambda>_.
     bindE (bytes32 (js_get input ''actionId'') ''actionId'') (\<lambda>k.
     bindE (bytes32 (js_get input ''transactionHash'') ''transactionHash'') (\<lambda>txHash.
     bindE (bytes32 (js_get input ''blockHash'') ''blockHash'') (\<lambda>blockHash.
     bindE (integer (js_get input ''blockNumber'') ''blockNumber'') (\<lambda>blockNumber.
     bindE (bytes32 (js_get input ''observationDigest'') ''observationDigest'') (\<lambda>proof.
     bindE (integer (js_get input ''observedAt'') ''observedAt'') (\<lambda>at.
     Inr \<lparr>ni_actionId = k, ni_transactionHash = txHash, ni_blockHash = blockHash, ni_blockNumber = blockNumber,
       ni_proof = proof, ni_observedAt = at\<rparr>)))))))"

definition inclusion_body :: "inclusion_input \<Rightarrow> store \<Rightarrow> (store \<times> evm_transaction option) result" where
  "inclusion_body v s =
     bindE (getAction s (ni_actionId v)) (\<lambda>foundAction.
     bindE (getEvmTransaction s (ni_actionId v)) (\<lambda>foundTransaction.
     case (foundAction, foundTransaction) of
       (Some a, Some t) \<Rightarrow>
         if ac_state a \<noteq> UNKNOWN then Inl (Error ''unknown EVM action does not exist'')
         else if et_transactionHash (em_terms t) \<noteq> ni_transactionHash v
         then Inl (Error ''EVM inclusion transaction hash changed'')
         else if (case em_inclusion t of None \<Rightarrow> False
             | Some (n, h) \<Rightarrow> h \<noteq> ni_blockHash v \<or> n \<noteq> ni_blockNumber v)
         then Inl (Error ''EVM transaction inclusion changed'')
         else let s1 = update_evm (ni_actionId v) (\<lambda>t. t\<lparr>em_state := INCLUDED,
             em_inclusion := Some (ni_blockNumber v, ni_blockHash v),
             em_lastObservedAt := Some (ni_observedAt v)\<rparr>) s in
         bindE (event (ac_settlementId a) (Some (ni_actionId v)) ''EVM'' ''INCLUDED'' (ni_proof v) (ni_observedAt v) s1)
           (\<lambda>s2.
         bindE (getEvmTransaction s2 (ni_actionId v)) (\<lambda>row. Inr (s2, row)))
     | _ \<Rightarrow> Inl (Error ''unknown EVM action does not exist'')))"

definition recordEvmInclusion :: "jsval \<Rightarrow> store \<Rightarrow> store \<times> evm_transaction option result" where
  "recordEvmInclusion input = withInput (normalizeInclusion input) (\<lambda>v. transaction (inclusion_body v))"

section \<open>Dispatch, result and recovery\<close>

definition claim_body :: "string \<Rightarrow> int \<Rightarrow> store \<Rightarrow> (store \<times> action option) result" where
  "claim_body k at s =
     bindE (getAction s k) (\<lambda>found.
     case found of
       None \<Rightarrow> Inl (Error ''action does not exist'')
     | Some a \<Rightarrow>
         if ac_method a = ''evm:claim''
         then Inl (Error ''EVM actions require the signed-transaction broadcast path'')
         else if ac_state a \<noteq> PENDING \<or> ac_dispatchCount a \<noteq> 0 then Inl (Error ''action is not dispatchable'')
         else bindE (getSettlement s (ac_settlementId a)) (\<lambda>owner.
         case owner of
           None \<Rightarrow> Inl (TypeError ''Cannot read properties of null (reading reconciliationRequired)'')
         | Some r \<Rightarrow>
             if se_reconciliationRequired r \<or> se_terminal r \<noteq> None \<or> se_haltCode r \<noteq> None
             then Inl (Error ''settlement is not dispatchable'')
             else let s1 = set_settlement_state (ac_settlementId a) ACTION_DISPATCHING at (dispatch_action k at s) in
             bindE (event (ac_settlementId a) (Some k) ''ACTION'' ''DISPATCHING'' (at_payloadDigest (ac_terms a)) at s1)
               (\<lambda>s2.
             bindE (getAction s2 k) (\<lambda>row. Inr (s2, row)))))"

definition claimAction :: "jsval \<Rightarrow> jsval \<Rightarrow> store \<Rightarrow> store \<times> action option result" where
  "claimAction actionId dispatchedAt =
     withInput (bindE (bytes32 actionId ''actionId'') (\<lambda>k.
       bindE (integer dispatchedAt ''dispatchedAt'') (\<lambda>at. Inr (k, at))))
     (\<lambda>(k, at). transaction (claim_body k at))"

text \<open>
  \<^verbatim>\<open>states[outcome]\<close>: the two outcomes a dispatch reports.  Any other outcome is an exception (the
  names an object inherits reach the database binding before they fail; the store is unchanged).
\<close>

definition result_outcome :: "jsval \<Rightarrow> action_state option" where
  "result_outcome v = (let key = js_String v in
     if key = ''confirmed'' then Some CONFIRMED else if key = ''ambiguous'' then Some UNKNOWN else None)"

record result_input =
  ri_actionId :: string
  ri_recordedAt :: int
  ri_proof :: string
  ri_code :: string
  ri_next :: action_state

definition normalizeResultInput :: "jsval \<Rightarrow> result_input result" where
  "normalizeResultInput input =
     bindE (exactKeys input [''actionId'', ''outcome'', ''recordedAt'', ''resultCode'', ''resultDigest'']
       ''action result'') (\<lambda>_.
     bindE (bytes32 (js_get input ''actionId'') ''actionId'') (\<lambda>k.
     bindE (integer (js_get input ''recordedAt'') ''recordedAt'') (\<lambda>at.
     bindE (bytes32 (js_get input ''resultDigest'') ''resultDigest'') (\<lambda>proof.
     bindE (code_text (js_get input ''resultCode'') ''resultCode'') (\<lambda>c.
     case result_outcome (js_get input ''outcome'') of
       None \<Rightarrow> Inl (RangeError ''action outcome is unsupported'')
     | Some st \<Rightarrow> Inr \<lparr>ri_actionId = k, ri_recordedAt = at, ri_proof = proof, ri_code = c, ri_next = st\<rparr>)))))"

definition result_body :: "result_input \<Rightarrow> store \<Rightarrow> (store \<times> action option) result" where
  "result_body v s =
     (let k = ri_actionId v; at = ri_recordedAt v; proof = ri_proof v; next = ri_next v in
      bindE (getAction s k) (\<lambda>found.
      case found of
        None \<Rightarrow> Inl (Error ''action does not exist'')
      | Some a \<Rightarrow>
          if ac_method a = ''evm:claim'' \<and> next = CONFIRMED
          then Inl (Error ''EVM actions require finalized receipt reconciliation'')
          else if ac_method a = ''evm:claim'' \<and> ac_state a = UNKNOWN \<and> next = UNKNOWN
          then bindE (getEvmTransaction s k) (\<lambda>tx.
            if map_option em_state tx \<noteq> Some BROADCASTING
            then Inl (Error ''EVM rebroadcast is not awaiting a result'')
            else let s1 = set_evm_state k EVM_UNKNOWN at (set_action_result k UNKNOWN proof (ri_code v) at s) in
            bindE (event (ac_settlementId a) (Some k) ''EVM'' ''REBROADCAST_UNKNOWN'' proof at s1) (\<lambda>s2.
            bindE (getAction s2 k) (\<lambda>row. Inr (s2, row))))
          else if ac_state a \<noteq> DISPATCHING then
            (if ac_state a = next \<and> map_option re_digest (ac_result a) = Some proof
                \<and> map_option re_code (ac_result a) = Some (ri_code v)
             then Inr (s, Some a) else Inl (Error ''action is not awaiting a dispatch result''))
          else let s1 = set_action_result k next proof (ri_code v) at s;
                   s2 = (if ac_method a = ''evm:claim'' then set_evm_state k EVM_UNKNOWN at s1 else s1);
                   s3 = set_reconciliation (ac_settlementId a)
                     (if next = UNKNOWN then RECONCILIATION_REQUIRED else ACTION_CONFIRMED) (next = UNKNOWN) at s2 in
          bindE (event (ac_settlementId a) (Some k) ''ACTION''
            (if next = UNKNOWN then ''UNKNOWN'' else ''CONFIRMED'') proof at s3) (\<lambda>s4.
          bindE (getAction s4 k) (\<lambda>row. Inr (s4, row)))))"

definition recordActionResult :: "jsval \<Rightarrow> store \<Rightarrow> store \<times> action option result" where
  "recordActionResult input = withInput (normalizeResultInput input) (\<lambda>v. transaction (result_body v))"

definition recovery_json :: "string \<Rightarrow> int \<Rightarrow> jsval" where
  "recovery_json actionId recordedAt = JObj [(''actionId'', JStr actionId), (''code'', JStr ''PROCESS_RESTART''),
     (''recordedAt'', JInt recordedAt)]"

text \<open>The loop body of \<open>recoverInterruptedActions\<close>, and the body of its variant for one action.\<close>

definition recover_action :: "(string \<Rightarrow> string) \<Rightarrow> int \<Rightarrow> action \<Rightarrow> store \<Rightarrow> store result" where
  "recover_action H at a s =
     bindE (digest H (recovery_json (ac_id a) at)) (\<lambda>d.
     let s1 = set_action_result (ac_id a) UNKNOWN d ''PROCESS_RESTART'' at s;
         s2 = (if ac_method a = ''evm:claim'' then set_evm_state (ac_id a) EVM_UNKNOWN at s1 else s1);
         s3 = set_reconciliation (ac_settlementId a) RECONCILIATION_REQUIRED True at s2 in
     event (ac_settlementId a) (Some (ac_id a)) ''RECOVERY'' ''PROCESS_RESTART'' d at s3)"

definition interrupted :: "store \<Rightarrow> action list" where
  "interrupted s = sort_key (\<lambda>a. at_plannedAt (ac_terms a)) (filter (\<lambda>a. ac_state a = DISPATCHING) (actions s))"

definition recover_all_body :: "(string \<Rightarrow> string) \<Rightarrow> int \<Rightarrow> store \<Rightarrow> (store \<times> int) result" where
  "recover_all_body H at s =
     bindE (foldE (recover_action H at) (interrupted s) s) (\<lambda>s'. Inr (s', int (length (interrupted s))))"

definition recoverInterruptedActions :: "(string \<Rightarrow> string) \<Rightarrow> jsval \<Rightarrow> store \<Rightarrow> store \<times> int result" where
  "recoverInterruptedActions H recordedAt =
     withInput (integer recordedAt ''recordedAt'') (\<lambda>at. transaction (recover_all_body H at))"

definition recover_one_body ::
    "(string \<Rightarrow> string) \<Rightarrow> string \<Rightarrow> int \<Rightarrow> store \<Rightarrow> (store \<times> action option \<times> settlement option) result" where
  "recover_one_body H k at s =
     (case find_action s k of
        None \<Rightarrow> Inl (Error ''action does not exist'')
      | Some a \<Rightarrow>
          if ac_state a \<noteq> DISPATCHING then Inl (Error ''action is not interrupted'')
          else bindE (recover_action H at a s) (\<lambda>s1.
          bindE (getAction s1 k) (\<lambda>action.
          bindE (getSettlement s1 (ac_settlementId a)) (\<lambda>settlement. Inr (s1, action, settlement)))))"

definition recoverInterruptedAction ::
    "(string \<Rightarrow> string) \<Rightarrow> jsval \<Rightarrow> jsval \<Rightarrow> store \<Rightarrow> store \<times> (action option \<times> settlement option) result" where
  "recoverInterruptedAction H actionId recordedAt =
     withInput (bindE (bytes32 actionId ''actionId'') (\<lambda>k.
       bindE (integer recordedAt ''recordedAt'') (\<lambda>at. Inr (k, at))))
     (\<lambda>(k, at). transaction (recover_one_body H k at))"

section \<open>Reconciliation\<close>

datatype disposition = D_CONFIRMED | D_FAILED | D_UNRESOLVED | D_MISMATCH

definition RECONCILIATION_DECISIONS :: "(string \<times> (string \<times> disposition) list) list" where
  "RECONCILIATION_DECISIONS =
    [(''/invoicesrpc.Invoices/AddHoldInvoice'',
       [(''OPEN'', D_CONFIRMED), (''ACCEPTED'', D_CONFIRMED), (''SETTLED'', D_CONFIRMED), (''CANCELED'', D_FAILED),
        (''NOT_FOUND'', D_UNRESOLVED)]),
     (''/routerrpc.Router/SendPaymentV2'',
       [(''SUCCEEDED'', D_CONFIRMED), (''FAILED'', D_FAILED), (''IN_FLIGHT'', D_UNRESOLVED),
        (''INITIATED'', D_UNRESOLVED), (''NOT_FOUND'', D_UNRESOLVED)]),
     (''/invoicesrpc.Invoices/SettleInvoice'',
       [(''SETTLED'', D_CONFIRMED), (''ACCEPTED'', D_UNRESOLVED), (''OPEN'', D_UNRESOLVED), (''CANCELED'', D_FAILED),
        (''NOT_FOUND'', D_UNRESOLVED)]),
     (''/invoicesrpc.Invoices/CancelInvoice'',
       [(''CANCELED'', D_CONFIRMED), (''OPEN'', D_UNRESOLVED), (''ACCEPTED'', D_UNRESOLVED), (''SETTLED'', D_MISMATCH),
        (''NOT_FOUND'', D_UNRESOLVED)]),
     (''evm:claim'',
       [(''CLAIMED'', D_CONFIRMED), (''INCLUDED'', D_UNRESOLVED), (''LOCKED'', D_UNRESOLVED),
        (''NOT_FOUND'', D_UNRESOLVED), (''REVERTED'', D_FAILED), (''REFUNDED'', D_MISMATCH),
        (''REORGED'', D_MISMATCH), (''MISMATCH'', D_MISMATCH)])]"

definition reconciliationDisposition :: "string \<Rightarrow> jsval \<Rightarrow> (string \<times> disposition) result" where
  "reconciliationDisposition method observedState =
     bindE (code_text observedState ''observedState'') (\<lambda>status.
     Inr (status, case map_of RECONCILIATION_DECISIONS method of None \<Rightarrow> D_MISMATCH
       | Some row \<Rightarrow> (case map_of row status of None \<Rightarrow> D_MISMATCH | Some d \<Rightarrow> d)))"

text \<open>What each disposition writes: the store and the code of the journal entry.\<close>

definition reconcile_effect ::
    "action \<Rightarrow> string \<Rightarrow> disposition \<Rightarrow> string \<Rightarrow> int \<Rightarrow> store \<Rightarrow> store \<times> string" where
  "reconcile_effect a status d proof at s =
     (let k = ac_id a; on_evm = (\<lambda>st s. if ac_method a = ''evm:claim'' then set_evm_state k st at s else s) in
      case d of
        D_UNRESOLVED \<Rightarrow>
          (on_evm (if status = ''INCLUDED'' then INCLUDED else EVM_UNKNOWN)
             (set_action_result k UNKNOWN proof status at s), ''UNRESOLVED'')
      | D_MISMATCH \<Rightarrow>
          (on_evm (if status = ''REORGED'' then REORGED else MISMATCH)
             (set_action_result k UNKNOWN proof status at
               (halt_row (ac_settlementId a) ''RECONCILIATION_MISMATCH'' at s)), ''MISMATCH'')
      | D_CONFIRMED \<Rightarrow>
          (set_reconciliation (ac_settlementId a) ACTION_CONFIRMED False at
             (on_evm FINALIZED (set_action_result k CONFIRMED proof status at s)), ''CONFIRMED'')
      | D_FAILED \<Rightarrow>
          (set_reconciliation (ac_settlementId a) ACTION_FAILED False at
             (on_evm REVERTED (set_action_result k FAILED proof status at s)), ''FAILED''))"

definition reconcile_body ::
    "string \<Rightarrow> jsval \<Rightarrow> string \<Rightarrow> int \<Rightarrow> store
       \<Rightarrow> (store \<times> disposition \<times> action option \<times> settlement option) result" where
  "reconcile_body k observedState proof at s =
     bindE (getAction s k) (\<lambda>found.
     case found of
       None \<Rightarrow> Inl (Error ''action does not exist'')
     | Some a \<Rightarrow>
         if ac_state a \<noteq> UNKNOWN then Inl (Error ''only an unknown action can be reconciled'')
         else bindE (reconciliationDisposition (ac_method a) observedState) (\<lambda>(status, d).
         let (s1, code) = reconcile_effect a status d proof at s in
         bindE (event (ac_settlementId a) (Some k) ''RECONCILIATION'' code proof at s1) (\<lambda>s2.
         bindE (getAction s2 k) (\<lambda>action.
         bindE (getSettlement s2 (ac_settlementId a)) (\<lambda>settlement. Inr (s2, d, action, settlement))))))"

definition reconcileAction ::
    "jsval \<Rightarrow> store \<Rightarrow> store \<times> (disposition \<times> action option \<times> settlement option) result" where
  "reconcileAction input =
     withInput (bindE (exactKeys input [''actionId'', ''observationDigest'', ''observedAt'', ''observedState'']
         ''action reconciliation'') (\<lambda>_.
       bindE (bytes32 (js_get input ''actionId'') ''actionId'') (\<lambda>k.
       bindE (bytes32 (js_get input ''observationDigest'') ''observationDigest'') (\<lambda>proof.
       bindE (integer (js_get input ''observedAt'') ''observedAt'') (\<lambda>at. Inr (k, proof, at))))))
     (\<lambda>(k, proof, at). transaction (reconcile_body k (js_get input ''observedState'') proof at))"

section \<open>Halt and terminal outcome\<close>

definition halt_body :: "string \<Rightarrow> string \<Rightarrow> string \<Rightarrow> int \<Rightarrow> store \<Rightarrow> (store \<times> settlement option) result" where
  "halt_body k reason evidence at s =
     bindE (getSettlement s k) (\<lambda>found.
     case found of
       None \<Rightarrow> Inl (Error ''settlement does not exist'')
     | Some r \<Rightarrow>
         if se_terminal r \<noteq> None then Inl (Error ''terminal settlement cannot be halted'')
         else if se_haltCode r \<noteq> None \<and> se_haltCode r \<noteq> Some reason
         then Inl (Error ''settlement is already halted for another reason'')
         else bindE (event k None ''RISK'' reason evidence at (halt_row k reason at s)) (\<lambda>s1.
         bindE (getSettlement s1 k) (\<lambda>row. Inr (s1, row))))"

definition haltSettlement :: "jsval \<Rightarrow> store \<Rightarrow> store \<times> settlement option result" where
  "haltSettlement input =
     withInput (bindE (exactKeys input [''evidenceDigest'', ''haltCode'', ''recordedAt'', ''settlementId'']
         ''settlement halt'') (\<lambda>_.
       bindE (bytes32 (js_get input ''settlementId'') ''settlementId'') (\<lambda>k.
       bindE (code_text (js_get input ''haltCode'') ''haltCode'') (\<lambda>reason.
       bindE (bytes32 (js_get input ''evidenceDigest'') ''evidenceDigest'') (\<lambda>evidence.
       bindE (integer (js_get input ''recordedAt'') ''recordedAt'') (\<lambda>at. Inr (k, reason, evidence, at)))))))
     (\<lambda>(k, reason, evidence, at). transaction (halt_body k reason evidence at))"

definition TERMINAL_STATES :: "(string \<times> terminal_state) list" where
  "TERMINAL_STATES = [(''COMPLETED'', COMPLETED), (''REFUNDED'', REFUNDED), (''FAILED'', T_FAILED),
     (''CANCELED'', CANCELED)]"

text \<open>The Lightning leg of a settlement, and whether it is confirmed.\<close>

definition lightning_method :: "string \<Rightarrow> string" where
  "lightning_method direction = (if direction = ''bit-to-lightning'' then ''/routerrpc.Router/SendPaymentV2''
     else ''/invoicesrpc.Invoices/SettleInvoice'')"

definition lightning_confirmed :: "store \<Rightarrow> settlement \<Rightarrow> bool" where
  "lightning_confirmed s r \<longleftrightarrow> list_ex (\<lambda>a. ac_settlementId a = se_id r
     \<and> ac_method a = lightning_method (tm_direction (se_terms r)) \<and> ac_state a = CONFIRMED) (actions s)"

definition terminal_body ::
    "string \<Rightarrow> string \<Rightarrow> terminal_state \<Rightarrow> string \<Rightarrow> int \<Rightarrow> store \<Rightarrow> (store \<times> settlement option) result" where
  "terminal_body k code terminal proof at s =
     bindE (getSettlement s k) (\<lambda>found.
     case found of
       None \<Rightarrow> Inl (Error ''settlement does not exist'')
     | Some r \<Rightarrow>
         (case se_terminal r of
            Some t \<Rightarrow>
              if te_state t = terminal \<and> te_proofDigest t = proof then Inr (s, Some r)
              else Inl (Error ''settlement already has a different terminal outcome'')
          | None \<Rightarrow>
              if se_reconciliationRequired r \<or> se_haltCode r \<noteq> None
              then Inl (Error ''unresolved settlement cannot become terminal'')
              else if has_unresolved s k then Inl (Error ''settlement has an unresolved action'')
              else if terminal = COMPLETED \<and> \<not> lightning_confirmed s r
              then Inl (Error ''completed settlement lacks its confirmed Lightning action'')
              else if terminal = REFUNDED \<and> lightning_confirmed s r
              then Inl (Error ''a confirmed Lightning leg cannot be recorded as refunded'')
              else let s1 = update_settlement k (\<lambda>r. r\<lparr>se_state := TERMINAL terminal,
                  se_terminal := Some \<lparr>te_state = terminal, te_proofDigest = proof, te_at = at\<rparr>,
                  se_version := se_version r + 1, se_updatedAt := at\<rparr>) s in
              bindE (event k None ''TERMINAL'' code proof at s1) (\<lambda>s2.
              bindE (getSettlement s2 k) (\<lambda>row. Inr (s2, row)))))"

definition recordTerminal :: "jsval \<Rightarrow> store \<Rightarrow> store \<times> settlement option result" where
  "recordTerminal input =
     withInput (bindE (exactKeys input [''assetsReconciled'', ''proofDigest'', ''recordedAt'', ''settlementId'',
         ''terminalState''] ''terminal settlement'') (\<lambda>_.
       bindE (bytes32 (js_get input ''settlementId'') ''settlementId'') (\<lambda>k.
       let code = js_text (js_get input ''terminalState'') in
       case map_of TERMINAL_STATES code of
         None \<Rightarrow> Inl (RangeError ''terminal state is unsupported'')
       | Some terminal \<Rightarrow>
           if js_get input ''assetsReconciled'' \<noteq> JBool True
           then Inl (Error ''both assets must reconcile before a terminal transition'')
           else bindE (bytes32 (js_get input ''proofDigest'') ''proofDigest'') (\<lambda>proof.
           bindE (integer (js_get input ''recordedAt'') ''recordedAt'') (\<lambda>at. Inr (k, code, terminal, proof, at))))))
     (\<lambda>(k, code, terminal, proof, at). transaction (terminal_body k code terminal proof at))"

end
