(* ===== verification/Settlement_Invariant.thy ===== *)
theory Settlement_Invariant
  imports Store_Settlement
begin

text \<open>
  The invariant of the settlement half of the coordinator store and its preservation by every
  settlement operation.  Two generic steps carry the proofs: a step of one open action with its
  settlement and its transaction, and a change of one settlement row.
\<close>

section \<open>The settlement invariant\<close>

text \<open>
  A settlement row on its own: its columns have their types; without an intent there is no policy and no reservation; an intent
  was validated, agrees with the settlement's terms and was bound inside its window; a reservation
  carries the intent's quote identifier; a terminal row is in its terminal state with nothing open.
\<close>

definition intent_ok :: "(string \<Rightarrow> string) \<Rightarrow> ethers \<Rightarrow> settlement \<Rightarrow> bound_intent \<Rightarrow> bool" where
  "intent_ok H E r i \<longleftrightarrow> intent_matches (bi_intent i) (se_terms r) \<and> ci_settlementId (bi_intent i) = se_id r
     \<and> (\<exists>v. validateContractIntentBinding E v = Inr (bi_intent i))
     \<and> digest H (intent_json (bi_intent i)) = Inr (bi_recordDigest i)
     \<and> ci_authorizedAt (bi_intent i) \<le> bi_boundAt i \<and> bi_boundAt i < ci_expiresAt (bi_intent i)
     \<and> (case se_reservation r of None \<Rightarrow> True
        | Some q \<Rightarrow> rv_reservationId q = im_quoteId (ci_message (bi_intent i)))"

definition closed_ok :: "settlement \<Rightarrow> bool" where
  "closed_ok r = (case se_terminal r of
       None \<Rightarrow> (\<forall>t. se_state r \<noteq> TERMINAL t)
     | Some t \<Rightarrow> se_state r = TERMINAL (te_state t) \<and> \<not> se_reconciliationRequired r \<and> se_haltCode r = None)"

definition terms_typed :: "settlement_terms \<Rightarrow> bool" where
  "terms_typed t \<longleftrightarrow> is_bytes32 (tm_settlementId t) \<and> is_bytes32 (tm_pricingId t)
     \<and> tm_pricingId t \<noteq> tm_settlementId t \<and> tm_direction t \<in> set DIRECTIONS
     \<and> is_bytes32 (tm_paymentHash t) \<and> is_bytes32 (tm_selectedOfferId t)
     \<and> 0 < tm_amountSats t \<and> tm_amountSats t \<le> UINT64_MAX"

definition policy_typed :: "execution_policy \<Rightarrow> bool" where
  "policy_typed x \<longleftrightarrow> is_bytes32 (xp_releaseRecordDigest x) \<and> is_bytes32 (xp_riskPolicyDigest x)
     \<and> is_bytes32 (xp_evidencePolicyDigest x) \<and> is_bytes32 (xp_solverCapabilityDigest x)"

definition row_ok :: "(string \<Rightarrow> string) \<Rightarrow> ethers \<Rightarrow> settlement \<Rightarrow> bool" where
  "row_ok H E r \<longleftrightarrow> (case se_intent r of None \<Rightarrow> se_policy r = None \<and> se_reservation r = None
       | Some i \<Rightarrow> intent_ok H E r i) \<and> closed_ok r \<and> terms_typed (se_terms r)
     \<and> (\<forall>x. se_policy r = Some x \<longrightarrow> policy_typed x)"

text \<open>
  An action has the types of its columns and belongs to a settlement whose bound intent and terms it repeats; a method that needs the
  reservation has it; it was dispatched once unless it is still pending; while its outcome is
  unknown the settlement waits for reconciliation; while it is unresolved the settlement is open.
\<close>

definition action_typed :: "action_terms \<Rightarrow> bool" where
  "action_typed t \<longleftrightarrow> is_bytes32 (at_actionId t) \<and> is_bytes32 (at_settlementId t) \<and> is_bytes32 (at_payloadDigest t)
     \<and> at_method t \<in> set VALUE_METHODS \<and> 0 < at_amountSats t \<and> at_amountSats t \<le> UINT64_MAX"

definition action_ok :: "settlement list \<Rightarrow> action \<Rightarrow> bool" where
  "action_ok rows a \<longleftrightarrow> ac_dispatchCount a = (if ac_state a = PENDING then 0 else 1) \<and> action_typed (ac_terms a)
     \<and> (\<exists>r\<in>set rows. se_id r = ac_settlementId a \<and> action_matches (ac_terms a) r
          \<and> (ac_method a \<in> set METHODS_REQUIRING_RESERVATION \<longrightarrow> se_reservation r \<noteq> None)
          \<and> (ac_state a = UNKNOWN \<longrightarrow> se_reconciliationRequired r)
          \<and> (unresolved a \<longrightarrow> se_terminal r = None))"

definition one_unresolved :: "action list \<Rightarrow> bool" where
  "one_unresolved as \<longleftrightarrow> (\<forall>a\<in>set as. \<forall>b\<in>set as. unresolved a \<longrightarrow> unresolved b
     \<longrightarrow> ac_settlementId a = ac_settlementId b \<longrightarrow> ac_id a = ac_id b)"

text \<open>
  A settlement that waits for reconciliation and is not halted has an action to reconcile.
\<close>

definition waiting_ok :: "store \<Rightarrow> settlement \<Rightarrow> bool" where
  "waiting_ok s r \<longleftrightarrow> (se_reconciliationRequired r \<and> se_haltCode r = None \<longrightarrow>
     (\<exists>a\<in>set (actions s). ac_settlementId a = se_id r \<and> ac_state a = UNKNOWN))"

definition terminal_ok :: "store \<Rightarrow> settlement \<Rightarrow> bool" where
  "terminal_ok s r \<longleftrightarrow> (\<forall>t. se_terminal r = Some t \<longrightarrow> (te_state t = COMPLETED \<longrightarrow> lightning_confirmed s r)
     \<and> (te_state t = REFUNDED \<longrightarrow> \<not> lightning_confirmed s r))"

definition evm_count_ok :: "evm_transaction \<Rightarrow> bool" where
  "evm_count_ok t \<longleftrightarrow> 0 \<le> em_broadcastCount t \<and> em_broadcastCount t \<le> 16"

definition evm_ok :: "action list \<Rightarrow> evm_transaction \<Rightarrow> bool" where
  "evm_ok as t \<longleftrightarrow> evm_count_ok t
     \<and> (\<exists>a\<in>set as. ac_id a = em_id t \<and> ac_method a = ''evm:claim'')"

definition ids_ok :: "store \<Rightarrow> bool" where
  "ids_ok s \<longleftrightarrow> distinct (map se_id (settlements s)) \<and> distinct (map ac_id (actions s))
     \<and> distinct (map em_id (evms s))
     \<and> distinct (map (\<lambda>a. (ac_settlementId a, ac_method a)) (actions s))
     \<and> distinct (map (\<lambda>r. tm_paymentHash (se_terms r)) (settlements s))
     \<and> distinct (map se_offerId (settlements s))"

text \<open>
  What the operations leave behind of an earlier state \<open>z\<close>: every settlement with its terms, its
  bindings once made, its whole row once terminal; every action with its terms, its whole row once
  resolved; every signed transaction, with a broadcast count that only grows.
\<close>

definition row_later :: "settlement \<Rightarrow> settlement \<Rightarrow> bool" where
  "row_later r r' \<longleftrightarrow> se_terms r' = se_terms r \<and> (se_intent r \<noteq> None \<longrightarrow> se_intent r' = se_intent r)
     \<and> (se_policy r \<noteq> None \<longrightarrow> se_policy r' = se_policy r)
     \<and> (se_reservation r \<noteq> None \<longrightarrow> se_reservation r' = se_reservation r) \<and> (se_terminal r \<noteq> None \<longrightarrow> r' = r)
     \<and> (se_haltCode r \<noteq> None \<longrightarrow> se_haltCode r' \<noteq> None)"

text \<open>The life of an action: planned, dispatched once, then confirmed or unknown, and resolved by reconciliation.\<close>

inductive lifecycle :: "action_state \<Rightarrow> action_state \<Rightarrow> bool" where
  "lifecycle PENDING DISPATCHING"
| "lifecycle DISPATCHING CONFIRMED"
| "lifecycle DISPATCHING UNKNOWN"
| "lifecycle UNKNOWN CONFIRMED"
| "lifecycle UNKNOWN FAILED"

inductive_cases lifecycle_cases: "lifecycle x y"

definition action_later :: "action \<Rightarrow> action \<Rightarrow> bool" where
  "action_later a a' \<longleftrightarrow> ac_terms a' = ac_terms a \<and> lifecycle\<^sup>*\<^sup>* (ac_state a) (ac_state a') \<and> ac_dispatchCount a \<le> ac_dispatchCount a'
     \<and> (\<not> unresolved a \<longrightarrow> a' = a)"

definition evm_later :: "evm_transaction \<Rightarrow> evm_transaction \<Rightarrow> bool" where
  "evm_later t t' \<longleftrightarrow> em_terms t' = em_terms t \<and> em_broadcastCount t \<le> em_broadcastCount t'"

text \<open>
  After a halt nothing is planned or dispatched for the settlement: each of its actions was there before,
  and was dispatched as often.
\<close>

definition halt_kept :: "store \<Rightarrow> store \<Rightarrow> bool" where
  "halt_kept z s \<longleftrightarrow> (\<forall>r\<in>set (settlements z). \<forall>a\<in>set (actions s). se_haltCode r \<noteq> None
     \<longrightarrow> ac_settlementId a = se_id r
     \<longrightarrow> (\<exists>b\<in>set (actions z). ac_terms b = ac_terms a \<and> ac_dispatchCount b = ac_dispatchCount a))"

definition history :: "store \<Rightarrow> store \<Rightarrow> bool" where
  "history z s \<longleftrightarrow> (\<forall>r\<in>set (settlements z). \<exists>r'\<in>set (settlements s). row_later r r')
     \<and> (\<forall>a\<in>set (actions z). \<exists>a'\<in>set (actions s). action_later a a')
     \<and> (\<forall>t\<in>set (evms z). \<exists>t'\<in>set (evms s). evm_later t t') \<and> halt_kept z s"

lemma later_refl [simp]: "row_later r r" "action_later a a" "evm_later t t"
  by (simp_all add: row_later_def action_later_def evm_later_def)

lemma later_self:
  "a \<in> A \<Longrightarrow> \<exists>a'\<in>A. action_later a a'" "t \<in> T \<Longrightarrow> \<exists>t'\<in>T. evm_later t t'"
  using later_refl by blast+

lemma later_trans:
  "row_later r1 r2 \<Longrightarrow> row_later r2 r3 \<Longrightarrow> row_later r1 r3"
  "action_later a1 a2 \<Longrightarrow> action_later a2 a3 \<Longrightarrow> action_later a1 a3"
  "evm_later t1 t2 \<Longrightarrow> evm_later t2 t3 \<Longrightarrow> evm_later t1 t3"
  by (auto simp: row_later_def action_later_def evm_later_def intro: rtranclp_trans)

lemma history_refl: "history s s"
  unfolding history_def halt_kept_def using later_refl by blast

lemma halt_kept_trans:
  assumes "\<forall>r\<in>set (settlements z). \<exists>r'\<in>set (settlements s). row_later r r'" and "halt_kept z s" and "halt_kept s t"
  shows "halt_kept z t"
  unfolding halt_kept_def
proof (intro ballI impI)
  fix r a assume *: "r \<in> set (settlements z)" "a \<in> set (actions t)" "se_haltCode r \<noteq> None" "ac_settlementId a = se_id r"
  with assms(1) obtain r' where r': "r' \<in> set (settlements s)" "se_haltCode r' \<noteq> None" "se_id r' = se_id r"
    by (auto simp: row_later_def se_id_def)
  with * assms(3) obtain b where b: "b \<in> set (actions s)" "ac_terms b = ac_terms a"
      "ac_dispatchCount b = ac_dispatchCount a" unfolding halt_kept_def by metis
  moreover have "ac_settlementId b = se_id r" using * b(2) by (simp add: ac_settlementId_def)
  ultimately show "\<exists>b\<in>set (actions z). ac_terms b = ac_terms a \<and> ac_dispatchCount b = ac_dispatchCount a"
    using * assms(2) unfolding halt_kept_def by metis
qed

lemma history_trans: "history z s \<Longrightarrow> history s t \<Longrightarrow> history z t"
  unfolding history_def using later_trans halt_kept_trans [of z s t] by meson

text \<open>The invariant of a state that comes after \<open>z\<close>.  The first half is the ledger of firm offers.\<close>

definition store_ok :: "(string \<Rightarrow> string) \<Rightarrow> ethers \<Rightarrow> store \<Rightarrow> store \<Rightarrow> bool" where
  "store_ok H E z s \<longleftrightarrow> ledger_ok s \<and> ids_ok s \<and> (\<forall>r\<in>set (settlements s). row_ok H E r \<and> terminal_ok s r)
     \<and> (\<forall>r\<in>set (settlements s). waiting_ok s r)
     \<and> (\<forall>a\<in>set (actions s). action_ok (settlements s) a) \<and> one_unresolved (actions s)
     \<and> (\<forall>t\<in>set (evms s). evm_ok (actions s) t) \<and> history z s"

lemma lightning_confirmed_cong: "actions s = actions t \<Longrightarrow> lightning_confirmed s = lightning_confirmed t"
  by (simp add: lightning_confirmed_def fun_eq_iff)

lemma terminal_ok_cong: "actions s = actions t \<Longrightarrow> terminal_ok s = terminal_ok t"
  by (simp add: terminal_ok_def fun_eq_iff lightning_confirmed_cong [of s t])

lemma waiting_ok_cong: "actions s = actions t \<Longrightarrow> waiting_ok s = waiting_ok t"
  by (simp add: waiting_ok_def fun_eq_iff)

text \<open>The invariant depends on the settlement tables and the ledger only.\<close>

lemma store_ok_same_rows:
  assumes "store_ok H E z s" and "same_rows s t" and "ledger_ok t"
  shows "store_ok H E z t"
  using assms terminal_ok_cong [of s t] waiting_ok_cong [of s t] by (auto simp: store_ok_def ids_ok_def history_def halt_kept_def same_rows_def)

lemma store_ok_events [simp]: "store_ok H E z (s\<lparr>events := e\<rparr>) = store_ok H E z s"
  by (simp add: store_ok_def ids_ok_def history_def halt_kept_def terminal_ok_cong [of "s\<lparr>events := e\<rparr>" s]
      waiting_ok_cong [of "s\<lparr>events := e\<rparr>" s])

lemma settle_unique:
  assumes "store_ok H E z s"
  shows "find_settlement s k = Some r \<Longrightarrow> r' \<in> set (settlements s) \<Longrightarrow> se_id r' = k \<Longrightarrow> r' = r"
    and "find_action s k = Some a \<Longrightarrow> a' \<in> set (actions s) \<Longrightarrow> ac_id a' = k \<Longrightarrow> a' = a"
  using assms settlement_table.lookup_member [of s r'] action_table.lookup_member [of s a']
  by (auto simp: store_ok_def ids_ok_def)

text \<open>An action that is still open: its settlement, which is not terminal, and no other open action.\<close>

lemma open_action:
  assumes ok: "store_ok H E z s" and a: "find_action s k = Some a" and u: "unresolved a"
  obtains r where "find_settlement s (ac_settlementId a) = Some r" "se_terminal r = None" "row_ok H E r"
    "action_matches (ac_terms a) r"
    "ac_method a \<in> set METHODS_REQUIRING_RESERVATION \<longrightarrow> se_reservation r \<noteq> None"
proof -
  note m = action_table.lookup_SomeD [OF a]
  with ok have "action_ok (settlements s) a" by (simp add: store_ok_def)
  then obtain r where r: "r \<in> set (settlements s)" "se_id r = ac_settlementId a" "action_matches (ac_terms a) r"
      "ac_method a \<in> set METHODS_REQUIRING_RESERVATION \<longrightarrow> se_reservation r \<noteq> None" "se_terminal r = None"
    using u by (auto simp: action_ok_def)
  moreover have "find_settlement s (se_id r) = Some r"
    using ok r(1) by (intro settlement_table.lookup_member) (simp_all add: store_ok_def ids_ok_def)
  ultimately show thesis using ok that by (auto simp: store_ok_def)
qed


text \<open>A write to the settlement tables leaves the ledger tables alone.\<close>

definition same_ledger :: "store \<Rightarrow> store \<Rightarrow> bool" where
  "same_ledger s t \<longleftrightarrow> offers t = offers s \<and> solvers t = solvers s \<and> requests t = requests s"

lemma same_ledger_simps [simp]:
  "same_ledger s s" "same_ledger s (t\<lparr>events := e\<rparr>) = same_ledger s t"
  "same_ledger s (update_settlement k h t) = same_ledger s t" "same_ledger s (update_action k g t) = same_ledger s t"
  "same_ledger s (update_evm k f t) = same_ledger s t"
  by (simp_all add: same_ledger_def)

lemma same_ledger_ok: "same_ledger s t \<Longrightarrow> ledger_ok t = ledger_ok s"
  by (rule ledger_ok_cong) (simp_all add: same_ledger_def)

text \<open>
  The columns of a settlement row that carry its bindings and its closure, and a change of the row
  that leaves them alone.
\<close>

definition same_bindings :: "settlement \<Rightarrow> settlement \<Rightarrow> bool" where
  "same_bindings r r' \<longleftrightarrow> se_terms r' = se_terms r \<and> se_intent r' = se_intent r \<and> se_policy r' = se_policy r
     \<and> se_reservation r' = se_reservation r \<and> se_terminal r' = se_terminal r
     \<and> (\<forall>t. se_state r' = TERMINAL t \<longrightarrow> se_state r = TERMINAL t)
     \<and> (se_haltCode r \<noteq> None \<longrightarrow> se_haltCode r' \<noteq> None)"

lemma same_bindings_refl [simp]: "same_bindings r r"
  by (simp add: same_bindings_def)

lemma same_bindings_keys:
  "same_bindings r r' \<Longrightarrow> se_id r' = se_id r \<and> se_offerId r' = se_offerId r \<and> se_terms r' = se_terms r
     \<and> se_terminal r' = se_terminal r \<and> se_reservation r' = se_reservation r"
  by (simp add: same_bindings_def se_id_def se_offerId_def)

lemma action_matches_cong:
  "se_intent r' = se_intent r \<Longrightarrow> se_terms r' = se_terms r \<Longrightarrow> action_matches v r' = action_matches v r"
  by (simp add: action_matches_def split: option.splits)

lemma same_bindings_action: "same_bindings r r' \<Longrightarrow> action_matches v r' = action_matches v r"
  by (rule action_matches_cong) (simp_all add: same_bindings_def)

lemma same_bindings_row:
  "same_bindings r r' \<Longrightarrow> se_terminal r = None \<Longrightarrow> row_ok H E r \<Longrightarrow> row_ok H E r'"
  by (auto simp: same_bindings_def row_ok_def closed_ok_def intent_ok_def se_id_def split: option.splits)

text \<open>
  A step of one open action: the action row changes inside its terms, its settlement row changes
  inside its bindings, and the dispatch and reconciliation marks fit the new state.
\<close>

definition action_update ::
    "string \<Rightarrow> action \<Rightarrow> (action \<Rightarrow> action) \<Rightarrow> (settlement \<Rightarrow> settlement) \<Rightarrow> (evm_transaction \<Rightarrow> evm_transaction)
       \<Rightarrow> store \<Rightarrow> store \<Rightarrow> bool" where
  "action_update k a g h f s s' \<longleftrightarrow> same_ledger s s' \<and> find_action s k = Some a \<and> unresolved a
     \<and> actions s' = row_update ac_id k g (actions s)
     \<and> settlements s' = row_update se_id (ac_settlementId a) h (settlements s)
     \<and> evms s' = row_update em_id k f (evms s)
     \<and> (\<forall>t. evm_later t (f t)) \<and> (\<forall>t. find_evm s k = Some t \<longrightarrow> evm_count_ok t \<longrightarrow> evm_count_ok (f t))
     \<and> (\<forall>b. ac_terms (g b) = ac_terms b) \<and> ac_dispatchCount (g a) = (if ac_state (g a) = PENDING then 0 else 1)
     \<and> ac_dispatchCount a \<le> ac_dispatchCount (g a) \<and> lifecycle\<^sup>=\<^sup>= (ac_state a) (ac_state (g a))
     \<and> (\<forall>r. find_settlement s (ac_settlementId a) = Some r \<longrightarrow> se_haltCode r \<noteq> None
          \<longrightarrow> ac_dispatchCount (g a) = ac_dispatchCount a)
     \<and> (\<forall>r. same_bindings r (h r))
     \<and> (\<forall>r. se_reconciliationRequired (h r) \<longrightarrow> se_haltCode (h r) = None
          \<longrightarrow> ac_state (g a) = UNKNOWN \<or> se_reconciliationRequired r \<and> ac_state a \<noteq> UNKNOWN)
     \<and> (\<forall>r. ac_state (g a) = UNKNOWN \<longrightarrow> (ac_state a = UNKNOWN \<longrightarrow> se_reconciliationRequired r)
          \<longrightarrow> se_reconciliationRequired (h r))"

lemma action_update_keys:
  assumes "action_update k a g h f s s'"
  shows "se_id (h r) = se_id r" "se_offerId (h r) = se_offerId r" "se_terms (h r) = se_terms r"
    "se_terminal (h r) = se_terminal r" "se_reservation (h r) = se_reservation r"
    "ac_id (g b) = ac_id b" "ac_settlementId (g b) = ac_settlementId b" "ac_method (g b) = ac_method b"
    "em_id (f t) = em_id t"
  using assms same_bindings_keys [of r "h r"] by (simp_all add: action_update_def key_defs evm_later_def)

lemma action_update_ids: "action_update k a g h f s s' \<Longrightarrow> ids_ok s \<Longrightarrow> ids_ok s'"
  using action_update_keys [of k a g h f s s']
  by (simp add: ids_ok_def map_row_update) (simp add: action_update_def map_row_update)

lemma action_update_waiting:
  assumes ok: "store_ok H E z s" and u: "action_update k a g h f s s'" and r: "r \<in> set (settlements s)"
  shows "waiting_ok s' (if se_id r = ac_settlementId a then h r else r)"
proof -
  from u have a: "find_action s k = Some a" and acts: "actions s' = row_update ac_id k g (actions s)"
    by (simp_all add: action_update_def)
  note ain = action_table.lookup_SomeD [OF a]
  have keep: "\<exists>b'\<in>set (actions s'). ac_settlementId b' = se_id r \<and> ac_state b' = UNKNOWN"
    if open_row: "se_reconciliationRequired r" "se_haltCode r = None"
      "ac_state a \<noteq> UNKNOWN \<or> se_id r \<noteq> ac_settlementId a"
  proof -
    have "waiting_ok s r" using ok r by (simp add: store_ok_def)
    then obtain b where b: "b \<in> set (actions s)" "ac_settlementId b = se_id r" "ac_state b = UNKNOWN"
      using open_row unfolding waiting_ok_def by blast
    then have "ac_id b \<noteq> k" using open_row(3) settle_unique(2) [OF ok a b(1)] by auto
    with b show ?thesis unfolding acts by (intro bexI [of _ b]) (simp_all add: row_update_miss)
  qed
  show ?thesis
  proof (cases "se_id r = ac_settlementId a")
    case True
    have "ac_state (g a) = UNKNOWN \<Longrightarrow> \<exists>b'\<in>set (actions s'). ac_settlementId b' = se_id r \<and> ac_state b' = UNKNOWN"
      using True ain unfolding acts
      by (intro bexI [of _ "g a"]) (simp_all add: row_update_hit action_update_keys [OF u])
    moreover have "same_bindings r (h r)" using u by (simp add: action_update_def)
    moreover have "se_reconciliationRequired (h r) \<longrightarrow> se_haltCode (h r) = None
      \<longrightarrow> ac_state (g a) = UNKNOWN \<or> se_reconciliationRequired r \<and> ac_state a \<noteq> UNKNOWN"
      using u by (simp add: action_update_def)
    ultimately show ?thesis using True keep
      by (auto simp: waiting_ok_def same_bindings_def action_update_keys [OF u])
  qed (use keep in \<open>auto simp: waiting_ok_def\<close>)
qed

lemma action_update_settlements:
  assumes ok: "store_ok H E z s" and u: "action_update k a g h f s s'" and r': "r' \<in> set (settlements s')"
  shows "row_ok H E r' \<and> terminal_ok s' r'"
proof (cases "se_id r' = ac_settlementId a")
  case True
  from u have "find_action s k = Some a" "unresolved a" by (simp_all add: action_update_def)
  then obtain r where r: "find_settlement s (ac_settlementId a) = Some r" "se_terminal r = None" "row_ok H E r"
    using open_action [OF ok] by metis
  from True r' settle_unique(1) [OF ok r(1)] have "r' = h r"
    using u action_update_keys [OF u] by (auto simp: action_update_def set_row_update)
  then show ?thesis using r same_bindings_row [of r "h r"] u action_update_keys [OF u]
    by (simp add: terminal_ok_def action_update_def)
next
  case False
  with r' have "r' \<in> set (settlements s)"
    using u action_update_keys [OF u] by (auto simp: action_update_def set_row_update split: if_splits)
  moreover have "find_action s k = Some a" using u by (simp add: action_update_def)
  then have "\<forall>b\<in>set (actions s). ac_id b = k \<longrightarrow> ac_settlementId b = ac_settlementId a"
    using settle_unique(2) [OF ok] by blast
  then have "lightning_confirmed s' r' = lightning_confirmed s r'"
    using False u unfolding lightning_confirmed_def action_update_def
    by (auto simp: action_update_keys [OF u] intro!: list_ex_row_update)
  ultimately show ?thesis using ok by (auto simp: store_ok_def terminal_ok_def)
qed

lemma action_update_self:
  assumes ok: "store_ok H E z s" and u: "action_update k a g h f s s'"
  shows "action_ok (settlements s') (g a)"
proof -
  from u have a: "find_action s k = Some a" by (simp add: action_update_def)
  then have ain: "a \<in> set (actions s)" by (auto dest: action_table.lookup_SomeD)
  then have "action_ok (settlements s) a" using ok by (simp add: store_ok_def)
  then obtain r where r: "r \<in> set (settlements s)" "se_id r = ac_settlementId a" "action_matches (ac_terms a) r"
      "ac_method a \<in> set METHODS_REQUIRING_RESERVATION \<longrightarrow> se_reservation r \<noteq> None"
      "ac_state a = UNKNOWN \<longrightarrow> se_reconciliationRequired r" "unresolved a \<longrightarrow> se_terminal r = None"
      and typed: "action_typed (ac_terms a)"
    by (auto simp: action_ok_def)
  then have "h r \<in> set (settlements s')" using u by (simp add: action_update_def row_update_hit)
  moreover have "same_bindings r (h r)" "unresolved a" using u by (simp_all add: action_update_def)
  moreover have "ac_terms (g a) = ac_terms a" "ac_dispatchCount (g a) = (if ac_state (g a) = PENDING then 0 else 1)"
    "ac_state (g a) = UNKNOWN \<longrightarrow> se_reconciliationRequired (h r)" using u r(5) by (simp_all add: action_update_def)
  ultimately show ?thesis
    using r typed unfolding action_ok_def
    by (intro conjI bexI [of _ "h r"]) (simp_all add: action_update_keys [OF u] same_bindings_action)
qed

lemma action_update_other:
  assumes ok: "store_ok H E z s" and u: "action_update k a g h f s s'"
    and b: "b \<in> set (actions s)" "ac_id b \<noteq> k"
  shows "action_ok (settlements s') b"
proof -
  from u have a: "find_action s k = Some a" "unresolved a" by (simp_all add: action_update_def)
  then have ain: "a \<in> set (actions s)" "ac_id a = k" by (auto dest: action_table.lookup_SomeD)
  have "action_ok (settlements s) b" using ok b by (simp add: store_ok_def)
  then obtain q where q: "q \<in> set (settlements s)" "se_id q = ac_settlementId b" "action_matches (ac_terms b) q"
      "ac_method b \<in> set METHODS_REQUIRING_RESERVATION \<longrightarrow> se_reservation q \<noteq> None"
      "ac_state b = UNKNOWN \<longrightarrow> se_reconciliationRequired q" "unresolved b \<longrightarrow> se_terminal q = None"
      and d: "ac_dispatchCount b = (if ac_state b = PENDING then 0 else 1)" "action_typed (ac_terms b)"
    by (auto simp: action_ok_def)
  show ?thesis
  proof (cases "ac_settlementId b = ac_settlementId a")
    case True
    then have "h q \<in> set (settlements s')" using q u by (simp add: action_update_def row_update_hit)
    moreover have "\<not> unresolved b" using ok a(2) ain b True unfolding store_ok_def one_unresolved_def by metis
    moreover have "same_bindings q (h q)" using u by (simp add: action_update_def)
    ultimately show ?thesis using q d unfolding action_ok_def
      by (intro conjI bexI [of _ "h q"]) (simp_all add: unresolved_def action_update_keys [OF u] same_bindings_action)
  next
    case False
    with q u have "q \<in> set (settlements s')" by (simp add: action_update_def row_update_miss)
    with q d show ?thesis by (auto simp: action_ok_def)
  qed
qed

lemma action_update_actions:
  assumes ok: "store_ok H E z s" and u: "action_update k a g h f s s'"
  shows "(\<forall>b\<in>set (actions s'). action_ok (settlements s') b) \<and> one_unresolved (actions s')"
proof -
  from u have a: "find_action s k = Some a" "unresolved a"
    and acts: "actions s' = row_update ac_id k g (actions s)" by (simp_all add: action_update_def)
  then have ain: "a \<in> set (actions s)" "ac_id a = k" by (auto dest: action_table.lookup_SomeD)
  have "\<forall>b\<in>set (actions s'). action_ok (settlements s') b"
    using settle_unique(2) [OF ok a(1)] action_update_self [OF ok u] action_update_other [OF ok u]
    by (auto simp: acts set_row_update)
  moreover have "one_unresolved (actions s')"
  proof -
    have "\<exists>b\<in>set (actions s). ac_id b = ac_id b' \<and> ac_settlementId b = ac_settlementId b'
        \<and> (unresolved b' \<longrightarrow> unresolved b)" if b': "b' \<in> set (actions s')" for b'
      using b' [unfolded acts] ain a(2)
      by (elim row_update_cases) (metis settle_unique(2) [OF ok a(1)] action_update_keys(6,7) [OF u], blast)
    with ok show ?thesis unfolding store_ok_def one_unresolved_def by metis
  qed
  ultimately show ?thesis ..
qed

lemma action_update_evms:
  assumes ok: "store_ok H E z s" and u: "action_update k a g h f s s'" and t: "t \<in> set (evms s')"
  shows "evm_ok (actions s') t"
proof -
  from t u obtain t0 where t0: "t0 \<in> set (evms s)" "t = (if em_id t0 = k then f t0 else t0)"
    by (auto simp: action_update_def set_row_update)
  then have "evm_ok (actions s) t0" using ok by (simp add: store_ok_def)
  then obtain b where b: "b \<in> set (actions s)" "ac_id b = em_id t0" "ac_method b = ''evm:claim''"
    and c: "evm_count_ok t0" by (auto simp: evm_ok_def)
  have "find_evm s (em_id t0) = Some t0"
    using ok t0(1) by (intro evm_table.lookup_member) (simp_all add: store_ok_def ids_ok_def)
  then have "evm_count_ok t" "em_id t = em_id t0"
    using t0(2) c u by (auto simp: action_update_def em_id_def evm_later_def)
  moreover have "(if ac_id b = k then g b else b) \<in> set (actions s')"
    using b(1) u by (simp add: action_update_def row_update_hit row_update_miss)
  ultimately show ?thesis using b
    by (auto simp: evm_ok_def action_update_keys [OF u] intro!: bexI [of _ "if ac_id b = k then g b else b"])
qed

lemma row_update_later:
  assumes "x \<in> set rows" and "\<And>y. P y y" and "key x = k \<Longrightarrow> P x (f x)"
  shows "\<exists>y\<in>set (row_update key k f rows). P x y"
proof (cases "key x = k")
  case True
  with assms show ?thesis by (blast intro: row_update_hit)
next
  case False
  with assms show ?thesis by (blast intro: row_update_miss)
qed

lemma action_update_halt:
  assumes ok: "store_ok H E z s" and u: "action_update k a g h f s s'"
  shows "halt_kept s s'"
  unfolding halt_kept_def
proof (intro ballI impI)
  fix r b' assume *: "r \<in> set (settlements s)" "b' \<in> set (actions s')" "se_haltCode r \<noteq> None" "ac_settlementId b' = se_id r"
  have find: "find_settlement s (se_id r) = Some r"
    using ok *(1) by (intro settlement_table.lookup_member) (simp_all add: store_ok_def ids_ok_def)
  from u have a: "find_action s k = Some a" and acts: "actions s' = row_update ac_id k g (actions s)"
    by (simp_all add: action_update_def)
  note ain = action_table.lookup_SomeD [OF a]
  from *(2) acts obtain b where b: "b \<in> set (actions s)" "b' = (if ac_id b = k then g b else b)"
    by (auto simp: set_row_update)
  show "\<exists>b\<in>set (actions s). ac_terms b = ac_terms b' \<and> ac_dispatchCount b = ac_dispatchCount b'"
  proof (cases "ac_id b = k")
    case True
    then have "b = a" using settle_unique(2) [OF ok a b(1)] by simp
    moreover have "ac_settlementId a = se_id r" using * b True \<open>b = a\<close> action_update_keys(7) [OF u] by simp
    ultimately show ?thesis using b True u find *(3) by (intro bexI [of _ b]) (auto simp: action_update_def)
  qed (use b in auto)
qed

lemma action_update_history:
  assumes ok: "store_ok H E z s" and u: "action_update k a g h f s s'"
  shows "history s s'"
proof -
  from u have a: "find_action s k = Some a" "unresolved a" by (simp_all add: action_update_def)
  then obtain r where r: "find_settlement s (ac_settlementId a) = Some r" "se_terminal r = None"
    using open_action [OF ok] by metis
  have "row_later q (h q)" if "q \<in> set (settlements s)" "se_id q = ac_settlementId a" for q
    using settle_unique(1) [OF ok r(1) that] r(2) u by (simp add: action_update_def same_bindings_def row_later_def)
  moreover have "action_later b (g b)" if "b \<in> set (actions s)" "ac_id b = k" for b
    using settle_unique(2) [OF ok a(1) that] a(2) u by (auto simp: action_update_def action_later_def)
  moreover have "evm_later t (f t)" for t using u by (simp add: action_update_def)
  moreover have "halt_kept s s'" by (rule action_update_halt [OF ok u])
  ultimately show ?thesis
    using u unfolding history_def action_update_def
    by (auto intro!: row_update_later [where P = row_later] row_update_later [where P = action_later]
        row_update_later [where P = evm_later])
qed

lemma action_step:
  assumes ok: "store_ok H E z s" and u: "action_update k a g h f s s'"
  shows "store_ok H E z s'"
proof -
  have "history z s'" using ok history_trans [OF _ action_update_history [OF ok u]] by (simp add: store_ok_def)
  moreover have "ids_ok s'" "ledger_ok s'"
    using ok u action_update_ids [OF u] same_ledger_ok [of s s'] by (simp_all add: store_ok_def action_update_def)
  moreover have "waiting_ok s' q" if q: "q \<in> set (settlements s')" for q
  proof -
    have "settlements s' = row_update se_id (ac_settlementId a) h (settlements s)"
      using u by (simp add: action_update_def)
    with q obtain r where "r \<in> set (settlements s)" "q = (if se_id r = ac_settlementId a then h r else r)"
      by (auto simp: set_row_update)
    then show ?thesis using action_update_waiting [OF ok u] by simp
  qed
  ultimately show ?thesis
    using action_update_settlements [OF ok u] action_update_actions [OF ok u] action_update_evms [OF ok u]
    by (simp add: store_ok_def)
qed

section \<open>Steps of a settlement row and new rows\<close>

text \<open>A change of one settlement row that keeps what its actions rest on.\<close>

definition settlement_update :: "settlement \<Rightarrow> (settlement \<Rightarrow> settlement) \<Rightarrow> store \<Rightarrow> store \<Rightarrow> bool" where
  "settlement_update r h s s' \<longleftrightarrow> same_ledger s s' \<and> find_settlement s (se_id r) = Some r
     \<and> settlements s' = row_update se_id (se_id r) h (settlements s) \<and> actions s' = actions s \<and> evms s' = evms s
     \<and> (\<forall>q. se_terms (h q) = se_terms q)
     \<and> row_later r (h r) \<and> (se_reconciliationRequired r \<longrightarrow> se_reconciliationRequired (h r))
     \<and> (se_reconciliationRequired (h r) \<longrightarrow> se_haltCode (h r) = None \<longrightarrow> se_reconciliationRequired r)
     \<and> (se_terminal (h r) \<noteq> None \<longrightarrow> \<not> has_unresolved s (se_id r))"

lemma settlement_update_action:
  assumes ok: "store_ok H E z s" and u: "settlement_update r h s s'" and b: "b \<in> set (actions s)"
  shows "action_ok (settlements s') b"
proof -
  from u have r: "find_settlement s (se_id r) = Some r" by (simp add: settlement_update_def)
  have "action_ok (settlements s) b" using ok b by (simp add: store_ok_def)
  then obtain q where q: "q \<in> set (settlements s)" "se_id q = ac_settlementId b" "action_matches (ac_terms b) q"
      "ac_method b \<in> set METHODS_REQUIRING_RESERVATION \<longrightarrow> se_reservation q \<noteq> None"
      "ac_state b = UNKNOWN \<longrightarrow> se_reconciliationRequired q" "unresolved b \<longrightarrow> se_terminal q = None"
      and d: "ac_dispatchCount b = (if ac_state b = PENDING then 0 else 1)" "action_typed (ac_terms b)"
    by (auto simp: action_ok_def)
  show ?thesis
  proof (cases "se_id q = se_id r")
    case True
    then have "q = r" using settle_unique(1) [OF ok r] q by simp
    moreover have "h r \<in> set (settlements s')"
      using u q \<open>q = r\<close> by (simp add: settlement_update_def row_update_hit)
    moreover have "unresolved b \<longrightarrow> se_terminal (h r) = None"
      using u b q(2) \<open>q = r\<close> by (auto simp: settlement_update_def has_unresolved_def list_ex_iff)
    moreover have "se_intent (h r) = se_intent r" "se_terms (h r) = se_terms r" "se_id (h r) = se_id r"
      using u q(3) \<open>q = r\<close> by (auto simp: settlement_update_def row_later_def action_matches_def se_id_def split: option.splits)
    moreover from this have "action_matches v (h r) = action_matches v r" for v by (intro action_matches_cong)
    moreover have "se_reservation r \<noteq> None \<longrightarrow> se_reservation (h r) \<noteq> None"
      "se_reconciliationRequired r \<longrightarrow> se_reconciliationRequired (h r)" using u by (auto simp: settlement_update_def row_later_def)
    ultimately show ?thesis using q d unfolding action_ok_def
      by (intro conjI bexI [of _ "h r"]) simp_all
  next
    case False
    with q u have "q \<in> set (settlements s')" by (simp add: settlement_update_def row_update_miss)
    with q d show ?thesis unfolding action_ok_def by blast
  qed
qed

lemma settlement_update_waiting:
  assumes ok: "store_ok H E z s" and u: "settlement_update r h s s'" and q: "q \<in> set (settlements s')"
  shows "waiting_ok s' q"
proof -
  from u have r: "find_settlement s (se_id r) = Some r" and acts: "actions s' = actions s"
    and sets: "settlements s' = row_update se_id (se_id r) h (settlements s)" by (simp_all add: settlement_update_def)
  have old: "waiting_ok s' p" if "p \<in> set (settlements s)" for p
    using ok that waiting_ok_cong [OF acts] by (simp add: store_ok_def)
  moreover have "r \<in> set (settlements s)" using settlement_table.lookup_SomeD [OF r] by simp
  then have "waiting_ok s' (h r)"
    using old [of r] u by (auto simp: waiting_ok_def settlement_update_def row_later_def se_id_def)
  ultimately show ?thesis using q [unfolded sets] settle_unique(1) [OF ok r] by (elim row_update_cases) auto
qed

lemma settlement_step:
  assumes ok: "store_ok H E z s" and u: "settlement_update r h s s'"
    and new: "row_ok H E (h r)" "terminal_ok s (h r)"
  shows "store_ok H E z s'"
proof -
  from u have r: "find_settlement s (se_id r) = Some r" and same: "actions s' = actions s" "evms s' = evms s"
    and sets: "settlements s' = row_update se_id (se_id r) h (settlements s)"
    by (simp_all add: settlement_update_def)
  have "\<forall>q. se_id (h q) = se_id q \<and> se_offerId (h q) = se_offerId q \<and> se_terms (h q) = se_terms q"
    using u by (simp add: settlement_update_def se_id_def se_offerId_def)
  then have "ids_ok s'" using ok by (simp add: store_ok_def ids_ok_def same sets map_row_update)
  moreover have "row_ok H E q \<and> terminal_ok s' q" if "q \<in> set (settlements s')" for q
    using that [unfolded sets] settle_unique(1) [OF ok r] ok new
    by (elim row_update_cases) (auto simp: store_ok_def terminal_ok_cong [OF same(1)])
  moreover have "history s s'"
    using u settle_unique(1) [OF ok r] unfolding history_def same sets settlement_update_def halt_kept_def
    by (auto intro!: row_update_later [where P = row_later] later_self)
  then have "history z s'" using ok history_trans by (auto simp: store_ok_def)
  moreover have "ledger_ok s'" using ok u same_ledger_ok [of s s'] by (simp add: store_ok_def settlement_update_def)
  ultimately show ?thesis
    using ok settlement_update_action [OF ok u] settlement_update_waiting [OF ok u] by (simp add: store_ok_def same)
qed

text \<open>A new settlement, a new pending action, a new signed transaction.\<close>

lemma history_append:
  "settlements s' = settlements s @ x \<Longrightarrow> actions s' = actions s \<Longrightarrow> evms s' = evms s \<Longrightarrow> history z s \<Longrightarrow> history z s'"
  "evms s' = evms s @ t \<Longrightarrow> settlements s' = settlements s \<Longrightarrow> actions s' = actions s \<Longrightarrow> history z s \<Longrightarrow> history z s'"
  unfolding history_def halt_kept_def by auto

lemma history_plan:
  assumes ok: "store_ok H E z s" and r: "find_settlement s (ac_settlementId a) = Some r" "se_haltCode r = None"
    and s': "actions s' = actions s @ [a]" "settlements s' = settlements s" "evms s' = evms s"
  shows "history z s'"
proof -
  have "q = r" if "q \<in> set (settlements s)" "se_id q = ac_settlementId a" for q
    using settle_unique(1) [OF ok r(1)] that by simp
  then have "halt_kept s s'" using r(2) unfolding halt_kept_def s' by auto
  then have "history s s'" unfolding history_def s' using later_refl by fastforce
  then show ?thesis using ok history_trans by (auto simp: store_ok_def)
qed

lemma insert_settlement_settle:
  assumes ok: "store_ok H E z s" and i: "insert_settlement v d s = Inr s'" and t: "terms_typed v"
  shows "store_ok H E z s'"
proof -
  from i have s': "settlements s' = settlements s @ [new_settlement v d]" "actions s' = actions s" "evms s' = evms s"
      "same_ledger s s'"
    and free: "\<forall>r\<in>set (settlements s). \<not> settlement_conflicts v (se_terms r)"
    by (auto simp: insert_settlement_def list_ex_iff same_ledger_def split: if_splits)
  have "ids_ok s'" using ok free
    by (fastforce simp: store_ok_def ids_ok_def s' settlement_conflicts_def new_settlement_def se_id_def se_offerId_def)
  moreover have "row_ok H E (new_settlement v d)" "terminal_ok s' (new_settlement v d)"
    using t by (simp_all add: row_ok_def closed_ok_def terminal_ok_def new_settlement_def)
  moreover have "action_ok (settlements s) a \<Longrightarrow> action_ok (settlements s') a" for a
    unfolding action_ok_def s' set_append by blast
  moreover have "history z s'" "ledger_ok s'" using ok s'(4) same_ledger_ok [of s s'] history_append(1) [OF s'(1-3)] by (auto simp: store_ok_def)
  moreover have "waiting_ok s' (new_settlement v d)" by (simp add: waiting_ok_def new_settlement_def)
  ultimately show ?thesis
    using ok by (auto simp: store_ok_def s' terminal_ok_cong [OF s'(2)] waiting_ok_cong [OF s'(2)])
qed

lemma one_unresolved_append:
  assumes "one_unresolved as" and "\<forall>b\<in>set as. unresolved b \<longrightarrow> ac_settlementId b \<noteq> ac_settlementId a"
  shows "one_unresolved (as @ [a])"
  unfolding one_unresolved_def
proof (intro ballI impI)
  fix x y assume *: "x \<in> set (as @ [a])" "y \<in> set (as @ [a])" "unresolved x" "unresolved y"
    "ac_settlementId x = ac_settlementId y"
  then consider "x \<in> set as" "y \<in> set as" | "x = a" "y = a" | "x \<in> set as" "y = a" | "x = a" "y \<in> set as" by auto
  then show "ac_id x = ac_id y" by cases (use * assms in \<open>metis one_unresolved_def\<close>)+
qed

lemma insert_action_settle:
  assumes ok: "store_ok H E z s" and i: "insert_action v d s = Inr s'"
    and r: "find_settlement s (at_settlementId v) = Some r" "se_terminal r = None" "action_matches v r"
      "at_method v \<in> set METHODS_REQUIRING_RESERVATION \<longrightarrow> se_reservation r \<noteq> None"
    and none: "\<not> has_unresolved s (at_settlementId v)" and halt: "se_haltCode r = None"
    and typed: "action_typed v"
  shows "store_ok H E z s'"
proof -
  let ?a = "\<lparr>ac_terms = v, ac_recordDigest = d, ac_state = PENDING, ac_dispatchCount = 0,
    ac_dispatchedAt = None, ac_result = None\<rparr>"
  from i have s': "actions s' = actions s @ [?a]" "settlements s' = settlements s" "evms s' = evms s"
      "same_ledger s s'"
    and free: "\<forall>a\<in>set (actions s). ac_id a \<noteq> at_actionId v
      \<and> \<not> (ac_settlementId a = at_settlementId v \<and> ac_method a = at_method v)"
    by (auto simp: insert_action_def list_ex_iff same_ledger_def split: if_splits)
  have key: "ac_id ?a = at_actionId v" "ac_settlementId ?a = at_settlementId v" "ac_method ?a = at_method v"
    by (simp_all add: key_defs)
  have "ids_ok s'" using ok free by (auto simp: store_ok_def ids_ok_def s' key)
  moreover have "terminal_ok s' q" if q: "q \<in> set (settlements s)" for q
    using ok q by (auto simp: store_ok_def terminal_ok_def lightning_confirmed_def s' list_ex_iff)
  moreover have "waiting_ok s q \<Longrightarrow> waiting_ok s' q" for q by (auto simp: waiting_ok_def s')
  moreover have "action_ok (settlements s') ?a"
    using r typed settlement_table.lookup_SomeD [OF r(1)] unfolding action_ok_def s' key
    by (intro conjI bexI [of _ r]) simp_all
  moreover have "one_unresolved (actions s')"
  proof -
    have "\<forall>b\<in>set (actions s). unresolved b \<longrightarrow> ac_settlementId b \<noteq> ac_settlementId ?a"
      using none unfolding has_unresolved_def list_ex_iff key by blast
    with ok show ?thesis unfolding s' by (intro one_unresolved_append) (simp_all add: store_ok_def)
  qed
  moreover have "evm_ok (actions s) t \<Longrightarrow> evm_ok (actions s') t" for t by (auto simp: evm_ok_def s')
  moreover have "history z s'" by (rule history_plan [OF ok _ halt s'(1-3)]) (simp add: key r(1))
  moreover have "ledger_ok s'" using ok s'(4) same_ledger_ok [of s s'] by (simp add: store_ok_def)
  ultimately show ?thesis using ok by (auto simp: store_ok_def s')
qed

lemma insert_evm_settle:
  assumes ok: "store_ok H E z s" and i: "insert_evm v s = Inr s'"
    and a: "find_action s (et_actionId v) = Some a" "ac_method a = ''evm:claim''"
  shows "store_ok H E z s'"
proof -
  let ?t = "\<lparr>em_terms = v, em_state = PREPARED, em_broadcastCount = 0, em_inclusion = None,
    em_lastBroadcastAt = None, em_lastObservedAt = None\<rparr>"
  from i have s': "evms s' = evms s @ [?t]" "settlements s' = settlements s" "actions s' = actions s"
      "same_ledger s s'"
    and free: "\<forall>t\<in>set (evms s). em_id t \<noteq> et_actionId v"
    by (auto simp: insert_evm_def list_ex_iff same_ledger_def split: if_splits)
  have "evm_ok (actions s) ?t"
    using a action_table.lookup_SomeD [OF a(1)] by (auto simp: evm_ok_def evm_count_ok_def em_id_def)
  moreover have "em_id ?t = et_actionId v" by (simp add: em_id_def)
  moreover have "history z s'" "ledger_ok s'" using ok s'(4) same_ledger_ok [of s s'] history_append(2) [OF s'(1-3)] by (auto simp: store_ok_def)
  ultimately show ?thesis using ok free
    by (auto simp: store_ok_def ids_ok_def s' terminal_ok_cong [OF s'(3)] waiting_ok_cong [OF s'(3)])
qed


section \<open>Every settlement operation keeps the invariant\<close>

declare settlement_table.rows_modify [simp] action_table.rows_modify [simp] evm_table.rows_modify [simp]

lemma event_settle: "event i a t c d at s = Inr s' \<Longrightarrow> store_ok H E z s' = store_ok H E z s"
  by (drule event_Inr) simp

lemmas write_defs = dispatch_action_def set_settlement_state_def set_reconciliation_def halt_row_def
  set_action_result_def set_evm_state_def

text \<open>The columns an operation writes, table by table, in the forms the step lemmas take.\<close>

lemma write_rows [simp]:
  "actions (dispatch_action k at s) = row_update ac_id k
     (\<lambda>a. a\<lparr>ac_state := DISPATCHING, ac_dispatchCount := 1, ac_dispatchedAt := Some at\<rparr>) (actions s)"
  "settlements (dispatch_action k at s) = settlements s" "evms (dispatch_action k at s) = evms s"
  "settlements (set_settlement_state k st at s) = row_update se_id k
     (\<lambda>r. r\<lparr>se_state := st, se_version := se_version r + 1, se_updatedAt := at\<rparr>) (settlements s)"
  "actions (set_settlement_state k st at s) = actions s" "evms (set_settlement_state k st at s) = evms s"
  "settlements (set_reconciliation k st q at s) = row_update se_id k (\<lambda>r. r\<lparr>se_state := st,
     se_reconciliationRequired := q, se_version := se_version r + 1, se_updatedAt := at\<rparr>) (settlements s)"
  "actions (set_reconciliation k st q at s) = actions s" "evms (set_reconciliation k st q at s) = evms s"
  "settlements (halt_row k code at s) = row_update se_id k (\<lambda>r. r\<lparr>se_state := HALTED,
     se_reconciliationRequired := True, se_haltCode := Some code, se_version := se_version r + 1,
     se_updatedAt := at\<rparr>) (settlements s)"
  "actions (halt_row k code at s) = actions s" "evms (halt_row k code at s) = evms s"
  "actions (set_action_result k ast proof code at s) = row_update ac_id k
     (\<lambda>a. a\<lparr>ac_state := ast, ac_result := Some \<lparr>re_digest = proof, re_code = code, re_at = at\<rparr>\<rparr>) (actions s)"
  "settlements (set_action_result k ast proof code at s) = settlements s"
  "evms (set_action_result k ast proof code at s) = evms s"
  "evms (set_evm_state k est at s) = row_update em_id k (\<lambda>t. t\<lparr>em_state := est, em_lastObservedAt := Some at\<rparr>) (evms s)"
  "settlements (set_evm_state k est at s) = settlements s" "actions (set_evm_state k est at s) = actions s"
  "same_ledger z (dispatch_action k at s) = same_ledger z s"
  "same_ledger z (set_settlement_state k st at s) = same_ledger z s"
  "same_ledger z (set_reconciliation k st q at s) = same_ledger z s"
  "same_ledger z (halt_row k code at s) = same_ledger z s"
  "same_ledger z (set_action_result k ast proof code at s) = same_ledger z s"
  "same_ledger z (set_evm_state k est at s) = same_ledger z s"
  by (simp_all add: write_defs)

text \<open>An open action has been dispatched exactly when it is not pending.\<close>

lemma open_dispatched:
  assumes "store_ok H E z s" "find_action s k = Some a"
  shows "ac_dispatchCount a = (if ac_state a = PENDING then 0 else 1)"
  using assms action_table.lookup_SomeD [OF assms(2)] by (auto simp: store_ok_def action_ok_def)

lemma dispatch_settle:
  assumes ok: "store_ok H E z s" and a: "find_action s k = Some a" "ac_state a = PENDING"
    and r: "find_settlement s (ac_settlementId a) = Some r" "se_haltCode r = None"
    and s': "s' = (set_settlement_state (ac_settlementId a) ACTION_DISPATCHING at (dispatch_action k at s))"
  shows "store_ok H E z s'"
  by (rule action_step [OF ok, of k a
        "\<lambda>a. a\<lparr>ac_state := DISPATCHING, ac_dispatchCount := 1, ac_dispatchedAt := Some at\<rparr>"
        "\<lambda>r. r\<lparr>se_state := ACTION_DISPATCHING, se_version := se_version r + 1, se_updatedAt := at\<rparr>" "\<lambda>t. t"])
    (use a r open_dispatched [OF ok a(1)] in \<open>simp add: action_update_def evm_later_def s' unresolved_def lifecycle.simps same_bindings_def\<close>)

lemma claim_settle:
  assumes ok: "store_ok H E z s" and c: "claim_body k at s = Inr (s', x)"
  shows "store_ok H E z s'"
  using c dispatch_settle [OF ok] unfolding claim_body_def Let_def
  by (simp only: returned getAction_Inr getSettlement_Inr) (auto dest!: event_Inr)

lemma broadcast_evm_settle:
  assumes ok: "store_ok H E z s" and a: "find_action s k = Some a" "unresolved a"
    and t: "find_evm s k = Some t" "em_broadcastCount t < 16"
  shows "store_ok H E z (update_evm k (\<lambda>t. t\<lparr>em_state := BROADCASTING,
    em_broadcastCount := em_broadcastCount t + 1, em_lastBroadcastAt := Some at\<rparr>) s)"
  by (rule action_step [OF ok, of k a "\<lambda>a. a" "\<lambda>r. r" "\<lambda>t. t\<lparr>em_state := BROADCASTING,
    em_broadcastCount := em_broadcastCount t + 1, em_lastBroadcastAt := Some at\<rparr>"])
    (use a t open_dispatched [OF ok a(1)] in \<open>simp add: action_update_def evm_later_def evm_count_ok_def\<close>)

lemma broadcast_write:
  assumes ok: "store_ok H E z s" and a: "find_action s k = Some a" and t: "find_evm s k = Some t" "\<not> 16 \<le> em_broadcastCount t"
    and q: "\<not> (\<not> initial_broadcast a t \<and> \<not> replay_broadcast a t)"
    and r: "find_settlement s (ac_settlementId a) = Some r" "se_haltCode r = None"
  shows "store_ok H E z (update_evm k (\<lambda>t. t\<lparr>em_state := BROADCASTING, em_broadcastCount := em_broadcastCount t + 1,
       em_lastBroadcastAt := Some at\<rparr>) (if initial_broadcast a t
         then set_settlement_state (ac_settlementId a) ACTION_DISPATCHING at (dispatch_action k at s) else s))"
proof (cases "initial_broadcast a t")
  case True
  then have p: "ac_state a = PENDING" by (simp add: initial_broadcast_def)
  let ?s = "set_settlement_state (ac_settlementId a) ACTION_DISPATCHING at (dispatch_action k at s)"
  have "find_action ?s k = Some (a\<lparr>ac_state := DISPATCHING, ac_dispatchCount := 1, ac_dispatchedAt := Some at\<rparr>)"
    using a by (simp add: action_table.lookup_rows row_find_update ac_id_def)
  moreover have "find_evm ?s k = Some t" using t by (simp add: evm_table.lookup_rows)
  ultimately show ?thesis
    using broadcast_evm_settle [OF dispatch_settle [OF ok a p r refl]] t(2) True by (simp add: unresolved_def)
next
  case False
  with q have "unresolved a" by (simp add: replay_broadcast_def unresolved_def)
  with False show ?thesis using broadcast_evm_settle [OF ok a _ t(1)] t(2) by simp
qed

lemma broadcast_settle:
  assumes ok: "store_ok H E z s" and b: "broadcast_body k at s = Inr (s', x)"
  shows "store_ok H E z s'"
  using b unfolding broadcast_body_def Let_def
  by (simp only: returned getAction_Inr getEvmTransaction_Inr getSettlement_Inr, elim exE conjE disjE)
    (drule event_settle [where H = H and E = E and z = z], simp add: broadcast_write [OF ok])+

lemma inclusion_settle:
  assumes ok: "store_ok H E z s" and b: "inclusion_body v s = Inr (s', x)"
  shows "store_ok H E z s'"
proof -
  have "store_ok H E z (update_evm k (\<lambda>t. t\<lparr>em_state := INCLUDED, em_inclusion := i, em_lastObservedAt := j\<rparr>) s)"
    if a: "find_action s k = Some a" "ac_state a = UNKNOWN" for a k i j
    by (rule action_step [OF ok, of k a "\<lambda>a. a" "\<lambda>r. r"
          "\<lambda>t. t\<lparr>em_state := INCLUDED, em_inclusion := i, em_lastObservedAt := j\<rparr>"])
      (use a open_dispatched [OF ok a(1)] in \<open>simp add: action_update_def evm_later_def evm_count_ok_def unresolved_def\<close>)
  then show ?thesis
    using b unfolding inclusion_body_def Let_def
    by (simp only: returned getAction_Inr getEvmTransaction_Inr, elim exE conjE disjE)
      (drule event_settle [where H = H and E = E and z = z], simp)+
qed

lemma bind_evm_settle:
  assumes ok: "store_ok H E z s" and b: "bind_evm_body H' v d s = Inr (s', x)"
  shows "store_ok H E z s'"
  using b unfolding bind_evm_body_def Let_def
  by (simp only: returned getAction_Inr getEvmTransaction_Inr, elim exE conjE disjE)
    (drule event_settle [where H = H and E = E and z = z], use ok insert_evm_settle [OF ok] in auto)+


text \<open>
  A result write: the action takes a resolved or unknown state, the transaction of an EVM action a
  state of its own, and the settlement is marked for reconciliation when the outcome is unknown.
\<close>

definition on_evm :: "action \<Rightarrow> string \<Rightarrow> evm_state \<Rightarrow> int \<Rightarrow> store \<Rightarrow> store" where
  "on_evm a k st at s = (if ac_method a = ''evm:claim'' then set_evm_state k st at s else s)"

lemma on_evm_rows:
  "same_ledger z (on_evm a k est at s) = same_ledger z s"
  "settlements (on_evm a k est at s) = settlements s" "actions (on_evm a k est at s) = actions s"
  "evms (on_evm a k est at s) = row_update em_id k
     (if ac_method a = ''evm:claim'' then (\<lambda>t. t\<lparr>em_state := est, em_lastObservedAt := Some at\<rparr>) else (\<lambda>t. t)) (evms s)"
  by (simp_all add: on_evm_def)

lemma result_write:
  assumes ok: "store_ok H E z s" and a: "find_action s k = Some a" "unresolved a" "ac_state a \<noteq> PENDING"
    and st: "st \<noteq> PENDING" "lifecycle\<^sup>=\<^sup>= (ac_state a) st"
    and s': "same_ledger s s'" "actions s' = row_update ac_id k
       (\<lambda>a. a\<lparr>ac_state := st, ac_result := Some \<lparr>re_digest = pf, re_code = code, re_at = at\<rparr>\<rparr>) (actions s)"
      "settlements s' = row_update se_id (ac_settlementId a) h (settlements s)"
      "evms s' = row_update em_id k (if ac_method a = ''evm:claim''
         then (\<lambda>t. t\<lparr>em_state := est, em_lastObservedAt := Some at\<rparr>) else (\<lambda>t. t)) (evms s)"
    and h: "\<forall>r. same_bindings r (h r)"
      "\<forall>r. st = UNKNOWN \<longrightarrow> (ac_state a = UNKNOWN \<longrightarrow> se_reconciliationRequired r) \<longrightarrow> se_reconciliationRequired (h r)"
      "\<forall>r. st = UNKNOWN \<or> \<not> se_reconciliationRequired (h r)"
  shows "store_ok H E z s'"
  by (rule action_step [OF ok, of k a
        "\<lambda>a. a\<lparr>ac_state := st, ac_result := Some \<lparr>re_digest = pf, re_code = code, re_at = at\<rparr>\<rparr>" h
        "if ac_method a = ''evm:claim'' then (\<lambda>t. t\<lparr>em_state := est, em_lastObservedAt := Some at\<rparr>) else (\<lambda>t. t)"])
    (use a st h open_dispatched [OF ok a(1)] in
      \<open>cases "st = UNKNOWN"; simp add: action_update_def evm_later_def s' evm_count_ok_def\<close>)

lemma rebroadcast_write:
  assumes ok: "store_ok H E z s" and a: "find_action s k = Some a" "ac_state a = UNKNOWN"
    and m: "ac_method a = ''evm:claim''"
  shows "store_ok H E z (set_evm_state k EVM_UNKNOWN at (set_action_result k UNKNOWN proof code at s))"
  by (rule result_write [OF ok a(1), where h = "\<lambda>r. r" and st = UNKNOWN]) (use a m in \<open>simp_all add: unresolved_def\<close>)

lemma dispatched_write:
  assumes ok: "store_ok H E z s" and a: "find_action s k = Some a" "ac_state a = DISPATCHING"
    and st: "st = UNKNOWN \<or> st = CONFIRMED" and t: "\<And>t. sst \<noteq> TERMINAL t"
  shows "store_ok H E z (set_reconciliation (ac_settlementId a) sst (st = UNKNOWN) at
     (on_evm a k EVM_UNKNOWN at (set_action_result k st proof code at s)))"
  by (rule result_write [OF ok a(1), where h = "\<lambda>r. r\<lparr>se_state := sst,
     se_reconciliationRequired := (st = UNKNOWN), se_version := se_version r + 1, se_updatedAt := at\<rparr>"])
    (use a st t in \<open>auto simp: unresolved_def lifecycle.simps on_evm_rows same_bindings_def\<close>)

lemma result_settle:
  assumes ok: "store_ok H E z s" and b: "result_body v s = Inr (s', x)" and v: "ri_next v = UNKNOWN \<or> ri_next v = CONFIRMED"
  shows "store_ok H E z s'"
proof -
  have w: "store_ok H E z (set_reconciliation (ac_settlementId a)
      (if ri_next v = UNKNOWN then RECONCILIATION_REQUIRED else ACTION_CONFIRMED) (ri_next v = UNKNOWN) at
      (on_evm a k EVM_UNKNOWN at (set_action_result k (ri_next v) p c at s)))"
    if "find_action s k = Some a" "ac_state a = DISPATCHING" for a k at p c
    by (rule dispatched_write [OF ok that v]) simp
  show ?thesis
    using b unfolding result_body_def Let_def on_evm_def [symmetric]
    by (simp only: returned getAction_Inr getEvmTransaction_Inr, elim exE conjE disjE)
      ((drule event_settle [where H = H and E = E and z = z], simp add: rebroadcast_write [OF ok]), use ok in simp,
       (drule event_settle [where H = H and E = E and z = z], simp add: w))
qed

lemma normalizeResultInput_next:
  "normalizeResultInput input = Inr v \<Longrightarrow> ri_next v = UNKNOWN \<or> ri_next v = CONFIRMED"
  by (auto simp: normalizeResultInput_def result_outcome_def Let_def result_simps split: option.splits if_splits)

lemma recover_settle:
  assumes ok: "store_ok H E z s" and b: "recover_action H' at a s = Inr s'"
    and a: "find_action s (ac_id a) = Some a" "ac_state a = DISPATCHING"
  shows "store_ok H E z s'"
proof -
  from b obtain d where "event (ac_settlementId a) (Some (ac_id a)) ''RECOVERY'' ''PROCESS_RESTART'' d at
      (set_reconciliation (ac_settlementId a) RECONCILIATION_REQUIRED True at
        (on_evm a (ac_id a) EVM_UNKNOWN at (set_action_result (ac_id a) UNKNOWN d ''PROCESS_RESTART'' at s))) = Inr s'"
    by (auto simp: recover_action_def Let_def on_evm_def bindE_eq_Inr)
  then show ?thesis using dispatched_write [OF ok a, of UNKNOWN RECONCILIATION_REQUIRED]
    by (drule_tac event_settle [where H = H and E = E and z = z]) simp
qed

lemma recover_other:
  assumes r: "recover_action H' at a s = Inr s'" and n: "ac_id b \<noteq> ac_id a"
  shows "find_action s' (ac_id b) = find_action s (ac_id b)"
proof -
  from r obtain d i e where "event i e ''RECOVERY'' ''PROCESS_RESTART'' d at
      (set_reconciliation (ac_settlementId a) RECONCILIATION_REQUIRED True at
        (on_evm a (ac_id a) EVM_UNKNOWN at (set_action_result (ac_id a) UNKNOWN d ''PROCESS_RESTART'' at s))) = Inr s'"
    by (auto simp: recover_action_def Let_def on_evm_def bindE_eq_Inr)
  then show ?thesis
    using n by (auto dest!: event_Inr simp: action_table.lookup_rows on_evm_rows row_find_update ac_id_def)
qed

lemma recover_loop_settle:
  assumes "store_ok H E z s" "foldE (recover_action H' at) as s = Inr s'" "distinct (map ac_id as)"
    "\<forall>a\<in>set as. find_action s (ac_id a) = Some a \<and> ac_state a = DISPATCHING"
  shows "store_ok H E z s'"
  using assms
proof (induction as arbitrary: s)
  case Nil
  then show ?case by simp
next
  case (Cons a as)
  from Cons.prems(2) obtain t where t: "recover_action H' at a s = Inr t" "foldE (recover_action H' at) as t = Inr s'"
    by (auto simp: bindE_eq_Inr)
  have "store_ok H E z t" using recover_settle [OF Cons.prems(1) t(1)] Cons.prems(4) by simp
  moreover have "\<forall>b\<in>set as. find_action t (ac_id b) = Some b \<and> ac_state b = DISPATCHING"
  proof
    fix b assume b: "b \<in> set as"
    with Cons.prems(3) have "ac_id b \<noteq> ac_id a" by (auto simp: image_iff)
    then show "find_action t (ac_id b) = Some b \<and> ac_state b = DISPATCHING"
      using recover_other [OF t(1)] Cons.prems(4) b by simp
  qed
  ultimately show ?case using Cons.IH t(2) Cons.prems(3) by simp
qed

lemma recover_all_settle:
  assumes ok: "store_ok H E z s" and b: "recover_all_body H' at s = Inr (s', n)"
  shows "store_ok H E z s'"
proof -
  have keys: "distinct (map ac_id (actions s))" using ok by (simp add: store_ok_def ids_ok_def)
  then have "distinct (map ac_id (interrupted s))"
    by (simp add: interrupted_def distinct_map distinct_filter inj_on_def)
  moreover have "\<forall>a\<in>set (interrupted s). find_action s (ac_id a) = Some a \<and> ac_state a = DISPATCHING"
    using action_table.lookup_member [OF keys] by (simp add: interrupted_def)
  ultimately show ?thesis
    using b recover_loop_settle [OF ok] by (auto simp: recover_all_body_def bindE_eq_Inr)
qed

lemma recover_one_settle:
  assumes ok: "store_ok H E z s" and b: "recover_one_body H' k at s = Inr (s', x)"
  shows "store_ok H E z s'"
proof -
  from b obtain a where a: "find_action s k = Some a" "ac_state a = DISPATCHING" "recover_action H' at a s = Inr s'"
    by (auto simp: recover_one_body_def bindE_eq_Inr split: option.splits if_splits)
  then have "find_action s (ac_id a) = Some a" using action_table.lookup_SomeD [OF a(1)] by simp
  then show ?thesis using recover_settle [OF ok a(3)] a(2) by simp
qed

lemma reconcile_write:
  assumes ok: "store_ok H E z s" and a: "find_action s (ac_id a) = Some a" "ac_state a = UNKNOWN"
  shows "store_ok H E z (fst (reconcile_effect a status d p at s))"
proof (cases d)
  case D_CONFIRMED
  show ?thesis
    by (rule result_write [OF ok a(1), where st = CONFIRMED and est = FINALIZED and pf = p and code = status
         and at = at and h = "\<lambda>r. r\<lparr>se_state := ACTION_CONFIRMED,
         se_reconciliationRequired := False, se_version := se_version r + 1, se_updatedAt := at\<rparr>"])
      (use a in \<open>simp_all add: unresolved_def lifecycle.simps same_bindings_def reconcile_effect_def Let_def D_CONFIRMED\<close>)
next
  case D_FAILED
  show ?thesis
    by (rule result_write [OF ok a(1), where st = FAILED and est = REVERTED and pf = p and code = status
         and at = at and h = "\<lambda>r. r\<lparr>se_state := ACTION_FAILED,
         se_reconciliationRequired := False, se_version := se_version r + 1, se_updatedAt := at\<rparr>"])
      (use a in \<open>simp_all add: unresolved_def lifecycle.simps same_bindings_def reconcile_effect_def Let_def D_FAILED\<close>)
next
  case D_UNRESOLVED
  show ?thesis
    by (rule result_write [OF ok a(1), where st = UNKNOWN and pf = p and code = status and at = at
         and est = "if status = ''INCLUDED'' then INCLUDED else EVM_UNKNOWN" and h = "\<lambda>r. r"])
      (use a in \<open>simp_all add: unresolved_def lifecycle.simps reconcile_effect_def Let_def D_UNRESOLVED\<close>)
next
  case D_MISMATCH
  show ?thesis
    by (rule result_write [OF ok a(1), where st = UNKNOWN and pf = p and code = status and at = at
         and est = "if status = ''REORGED'' then REORGED else MISMATCH"
         and h = "\<lambda>r. r\<lparr>se_state := HALTED, se_reconciliationRequired := True,
         se_haltCode := Some ''RECONCILIATION_MISMATCH'', se_version := se_version r + 1, se_updatedAt := at\<rparr>"])
      (use a in \<open>simp_all add: unresolved_def lifecycle.simps same_bindings_def reconcile_effect_def Let_def D_MISMATCH\<close>)
qed

lemma reconcile_settle:
  assumes ok: "store_ok H E z s" and b: "reconcile_body k observed p at s = Inr (s', x)"
  shows "store_ok H E z s'"
proof -
  have "\<exists>a status d c. find_action s k = Some a \<and> ac_state a = UNKNOWN
    \<and> event (ac_settlementId a) (Some k) ''RECONCILIATION'' c p at (fst (reconcile_effect a status d p at s)) = Inr s'"
    using b unfolding reconcile_body_def Let_def
    by (simp only: returned getAction_Inr getSettlement_Inr) (elim exE conjE disjE, metis fst_conv)
  then obtain a status d c where a: "find_action s k = Some a" "ac_state a = UNKNOWN"
    and e: "event (ac_settlementId a) (Some k) ''RECONCILIATION'' c p at
      (fst (reconcile_effect a status d p at s)) = Inr s'"
    by blast
  moreover have "k = ac_id a" using action_table.lookup_SomeD [OF a(1)] by simp
  ultimately show ?thesis using event_settle [OF e] reconcile_write [OF ok] by simp
qed


text \<open>Acceptance and the bindings.\<close>

lemma accept_settle:
  assumes ok: "store_ok H E z s" and b: "accept_body H' v s = Inr (s', x)" and t: "terms_typed v"
  shows "store_ok H E z s'"
  using b unfolding accept_body_def Let_def
  by (simp only: returned getSettlement_Inr getFirmOffer_Inr, elim exE conjE disjE)
    ((drule event_settle [where H = H and E = E and z = z], simp add: insert_settlement_settle [OF ok _ t]), use ok in simp)

lemma handoff_settle:
  assumes ok: "store_ok H E z s" and b: "handoff_body H' a v s = Inr (s', x)" and t: "terms_typed v"
  shows "store_ok H E z s'"
proof -
  from b have "\<exists>s1 o1 o2. authorization_body a s = Inr (s1, o1) \<and> accept_body H' v s1 = Inr (s', o2)"
    unfolding handoff_body_def Let_def
    by (simp only: returned getFirmOffer_Inr getRfqRequest_Inr) (elim exE conjE disjE, blast+)
  then obtain s1 o1 o2 where 1: "authorization_body a s = Inr (s1, o1)" "accept_body H' v s1 = Inr (s', o2)" by blast
  have "ledger_ok s1 \<and> same_rows s s1" using ok authorization_body_ledger [OF 1(1)] by (simp add: store_ok_def)
  then have "store_ok H E z s1" using store_ok_same_rows [OF ok] by simp
  then show ?thesis by (rule accept_settle [OF _ 1(2) t])
qed

lemma untouched_open: "untouched r \<Longrightarrow> se_terminal r = None \<and> se_haltCode r = None \<and> se_reservation r = None"
  by (simp add: untouched_def)

lemma settle_row:
  assumes "store_ok H E z s" "find_settlement s k = Some r"
  shows "row_ok H E r" "terminal_ok s r" "se_id r = k"
  using assms settlement_table.lookup_SomeD [OF assms(2)] by (auto simp: store_ok_def)

lemma bind_intent_write:
  assumes ok: "store_ok H E z s" and r: "find_settlement s (ci_settlementId b) = Some r"
    and new: "se_intent r = None" "untouched r" "intent_matches b (se_terms r)"
      "ci_authorizedAt b \<le> at" "at < ci_expiresAt b"
    and v: "validateContractIntentBinding E input = Inr b" "digest H (intent_json b) = Inr d"
  shows "store_ok H E z (update_settlement (ci_settlementId b) (\<lambda>r. r\<lparr>
     se_intent := Some \<lparr>bi_intent = b, bi_recordDigest = d, bi_boundAt = at\<rparr>,
     se_state := CONTRACT_INTENT_BOUND, se_version := se_version r + 1, se_updatedAt := at\<rparr>) s)"
proof (rule settlement_step [OF ok, of r])
  note row = settle_row [OF ok r]
  let ?h = "\<lambda>r. r\<lparr>se_intent := Some \<lparr>bi_intent = b, bi_recordDigest = d, bi_boundAt = at\<rparr>,
     se_state := CONTRACT_INTENT_BOUND, se_version := se_version r + 1, se_updatedAt := at\<rparr>"
  show "settlement_update r ?h s (update_settlement (ci_settlementId b) ?h s)"
    using r row new untouched_open [OF new(2)] by (auto simp: settlement_update_def row_later_def row_ok_def)
  show "row_ok H E (?h r)"
    using v new row(1,3) untouched_open [OF new(2)]
    by (auto simp: row_ok_def intent_ok_def closed_ok_def se_id_def)
  show "terminal_ok s (?h r)" using untouched_open [OF new(2)] by (simp add: terminal_ok_def)
qed

lemma bind_intent_settle:
  assumes ok: "store_ok H E z s" and b: "bind_intent_body b at d s = Inr (s', x)"
    and v: "validateContractIntentBinding E input = Inr b" "digest H (intent_json b) = Inr d"
  shows "store_ok H E z s'"
  using b unfolding bind_intent_body_def Let_def
  by (simp only: returned getSettlement_Inr getFirmOffer_Inr, elim exE conjE disjE)
    ((drule event_settle [where H = H and E = E and z = z], simp add: bind_intent_write [OF ok _ _ _ _ _ _ v]), use ok in simp)

lemma open_row_write:
  assumes ok: "store_ok H E z s" and r: "find_settlement s k = Some r" "se_terminal r = None"
    and h: "\<And>q. se_terms (h q) = se_terms q" "se_intent (h r) = se_intent r"
      "se_intent r = None \<Longrightarrow> se_policy (h r) = None \<and> se_reservation (h r) = None"
      "\<And>i. se_intent r = Some i \<Longrightarrow> se_reservation (h r) = se_reservation r \<or> (\<exists>q. se_reservation (h r) = Some q
         \<and> rv_reservationId q = im_quoteId (ci_message (bi_intent i)))"
      "se_terminal (h r) = None" "\<And>t. se_state (h r) \<noteq> TERMINAL t"
      "se_reservation r \<noteq> None \<Longrightarrow> se_reservation (h r) = se_reservation r"
      "se_policy r \<noteq> None \<Longrightarrow> se_policy (h r) = se_policy r"
      "\<And>x. se_policy (h r) = Some x \<Longrightarrow> se_policy r = Some x \<or> policy_typed x"
      "se_reconciliationRequired r \<Longrightarrow> se_reconciliationRequired (h r)"
      "se_haltCode r \<noteq> None \<Longrightarrow> se_haltCode (h r) \<noteq> None"
      "se_reconciliationRequired (h r) \<Longrightarrow> se_haltCode (h r) = None \<Longrightarrow> se_reconciliationRequired r"
  shows "store_ok H E z (update_settlement k h s)"
proof (rule settlement_step [OF ok, of r])
  note row = settle_row [OF ok r(1)]
  show "settlement_update r h s (update_settlement k h s)"
    using r h row(3) by (simp add: settlement_update_def row_later_def)
  have "intent_ok H E r i \<Longrightarrow> intent_ok H E (h r) i" if "se_intent r = Some i" for i
    using h(1) h(4) [OF that] by (auto simp: intent_ok_def se_id_def)
  then show "row_ok H E (h r)" using row(1) h
    by (auto simp: row_ok_def closed_ok_def split: option.splits)
  show "terminal_ok s (h r)" using h(5) by (simp add: terminal_ok_def)
qed

lemma bind_policy_settle:
  assumes ok: "store_ok H E z s" and b: "bind_policy_body H' v s = Inr (s', x)"
    and t: "is_bytes32 (pb_releaseRecordDigest v)" "is_bytes32 (pb_riskPolicyDigest v)"
      "is_bytes32 (pb_evidencePolicyDigest v)" "is_bytes32 (pb_solverCapabilityDigest v)"
  shows "store_ok H E z s'"
proof -
  have w: "store_ok H E z (update_settlement k (\<lambda>r. r\<lparr>se_policy := Some q, se_state := EXECUTION_POLICY_BOUND,
      se_version := se_version r + 1, se_updatedAt := at\<rparr>) s)"
    if "find_settlement s k = Some r" "untouched r" "se_intent r \<noteq> None" "se_policy r = None" "policy_typed q" for k r q at
    by (rule open_row_write [OF ok that(1)]) (use that in \<open>simp_all add: untouched_def\<close>)
  show ?thesis
    using b unfolding bind_policy_body_def Let_def
    by (simp only: returned getSettlement_Inr getFirmOffer_Inr getRfqRequest_Inr, elim exE conjE disjE)
      ((drule event_settle [where H = H and E = E and z = z], simp add: w policy_typed_def t) | (use ok in simp))+
qed

lemma reservation_settle:
  assumes ok: "store_ok H E z s" and b: "reservation_body v d s = Inr (s', x)"
  shows "store_ok H E z s'"
proof -
  have w: "store_ok H E z (update_settlement k (\<lambda>r. r\<lparr>se_reservation := Some q, se_state := RESERVATION_OBSERVED,
      se_version := se_version r + 1, se_updatedAt := at\<rparr>) s)"
    if "find_settlement s k = Some r" "se_terminal r = None" "se_intent r = Some i"
      "rv_reservationId q = im_quoteId (ci_message (bi_intent i))" "se_reservation r = None" for k r i q at
    by (rule open_row_write [OF ok that(1,2)]) (use that in simp_all)
  show ?thesis
    using b unfolding reservation_body_def Let_def
    by (simp only: returned getSettlement_Inr, elim exE conjE disjE)
      ((drule event_settle [where H = H and E = E and z = z], simp add: w)+, use ok in simp)
qed

lemma halt_settle:
  assumes ok: "store_ok H E z s" and b: "halt_body k reason evidence at s = Inr (s', x)"
  shows "store_ok H E z s'"
proof -
  have w: "store_ok H E z (halt_row k reason at s)" if r: "find_settlement s k = Some r" "se_terminal r = None" for r
    unfolding halt_row_def
    by (rule open_row_write [OF ok r]) (use r settle_row(1) [OF ok r(1)] in \<open>auto simp: row_ok_def\<close>)
  show ?thesis
    using b unfolding halt_body_def Let_def
    by (simp only: returned getSettlement_Inr, elim exE conjE disjE)
      (drule event_settle [where H = H and E = E and z = z], use w in simp)+
qed

lemma terminal_write:
  assumes ok: "store_ok H E z s" and r: "find_settlement s k = Some r" "se_terminal r = None"
    and open_row: "\<not> se_reconciliationRequired r" "se_haltCode r = None" "\<not> has_unresolved s k"
    and leg: "t = COMPLETED \<longrightarrow> lightning_confirmed s r" "t = REFUNDED \<longrightarrow> \<not> lightning_confirmed s r"
  shows "store_ok H E z (update_settlement k (\<lambda>r. r\<lparr>se_state := TERMINAL t,
     se_terminal := Some \<lparr>te_state = t, te_proofDigest = p, te_at = at\<rparr>,
     se_version := se_version r + 1, se_updatedAt := at\<rparr>) s)"
proof (rule settlement_step [OF ok, of r])
  note row = settle_row [OF ok r(1)]
  let ?h = "\<lambda>r. r\<lparr>se_state := TERMINAL t, se_terminal := Some \<lparr>te_state = t, te_proofDigest = p, te_at = at\<rparr>,
     se_version := se_version r + 1, se_updatedAt := at\<rparr>"
  show "settlement_update r ?h s (update_settlement k ?h s)"
    using r row(3) open_row by (simp add: settlement_update_def row_later_def)
  show "row_ok H E (?h r)" using row(1) open_row
    by (auto simp: row_ok_def closed_ok_def intent_ok_def se_id_def split: option.splits)
  show "terminal_ok s (?h r)" using leg by (simp add: terminal_ok_def lightning_confirmed_def se_id_def)
qed

lemma terminal_settle:
  assumes ok: "store_ok H E z s" and b: "terminal_body k c t p at s = Inr (s', x)"
  shows "store_ok H E z s'"
  using b unfolding terminal_body_def Let_def
  by (simp only: returned getSettlement_Inr, elim exE conjE disjE)
    ((drule event_settle [where H = H and E = E and z = z])?, use ok in \<open>auto intro!: terminal_write [OF ok]\<close>)+

lemma plan_write:
  assumes ok: "store_ok H E z s" and i: "insert_action v d s = Inr s1"
    and r: "find_settlement s (at_settlementId v) = Some r" "se_terminal r = None" "action_matches v r"
      "\<not> (at_method v \<in> set METHODS_REQUIRING_RESERVATION \<and> se_reservation r = None)"
    and none: "\<not> has_unresolved s (at_settlementId v)" and halt: "se_haltCode r = None"
    and typed: "action_typed v"
  shows "store_ok H E z (update_settlement (at_settlementId v) (\<lambda>r. r\<lparr>se_lastActionId := Some (at_actionId v),
     se_state := ACTION_PENDING, se_version := se_version r + 1, se_updatedAt := at_plannedAt v\<rparr>) s1)"
proof (rule open_row_write)
  show ok1: "store_ok H E z s1"
    by (rule insert_action_settle [OF ok i r(1,2,3)]) (use r(4) none halt typed in auto)
  show "find_settlement s1 (at_settlementId v) = Some r"
    using i r(1) by (auto simp: insert_action_def find_settlement_def split: if_splits)
  then show "se_intent r = None \<Longrightarrow> se_policy (r\<lparr>se_lastActionId := Some (at_actionId v), se_state := ACTION_PENDING,
      se_version := se_version r + 1, se_updatedAt := at_plannedAt v\<rparr>) = None \<and>
      se_reservation (r\<lparr>se_lastActionId := Some (at_actionId v), se_state := ACTION_PENDING,
      se_version := se_version r + 1, se_updatedAt := at_plannedAt v\<rparr>) = None"
    using settle_row(1) [OF ok1] by (fastforce simp: row_ok_def)
qed (use r(2) in simp_all)

lemma plan_settle:
  assumes ok: "store_ok H E z s" and b: "plan_body v d s = Inr (s', x)" and t: "action_typed v"
  shows "store_ok H E z s'"
  using b unfolding plan_body_def Let_def
  by (simp only: returned getSettlement_Inr getAction_Inr, elim exE conjE disjE)
    ((drule event_settle [where H = H and E = E and z = z])?, use ok t in \<open>auto intro!: plan_write [OF ok]\<close>)+

end
