(* ===== verification/Store_Service_Run.thy ===== *)
theory Store_Service_Run
  imports Store_Schema
begin

text \<open>
  The service-run journal of \<^verbatim>\<open>src/lib/coordinator-store.mjs\<close>: one active execution service per
  process, its heartbeat, and the crash-loop breaker that survives restarts.  The journal lives as
  text in \<^verbatim>\<open>coordinator_meta\<close>; the handles live in the process and are lost in a crash.
\<close>

section \<open>Time stamps\<close>

text \<open>
  \<^verbatim>\<open>wholeSecondIso\<close>: the ISO form of a second.  Days are converted by the proleptic Gregorian
  calendar; a time beyond the range of \<^verbatim>\<open>Date\<close> is an exception.
\<close>

definition pad :: "nat \<Rightarrow> int \<Rightarrow> string" where
  "pad n i = (let d = dec_str i in replicate (n - length d) (CHR ''0'') @ d)"

definition civil_from_days :: "int \<Rightarrow> int \<times> int \<times> int" where
  "civil_from_days days =
     (let z = days + 719468; era = z div 146097; doe = z mod 146097;
          yoe = (doe - doe div 1460 + doe div 36524 - doe div 146096) div 365;
          doy = doe - (365 * yoe + yoe div 4 - yoe div 100);
          mp = (5 * doy + 2) div 153;
          d = doy - (153 * mp + 2) div 5 + 1;
          m = (if mp < 10 then mp + 3 else mp - 9) in
      (yoe + era * 400 + (if m \<le> 2 then 1 else 0), m, d))"

definition wholeSecondIso :: "int \<Rightarrow> string result" where
  "wholeSecondIso seconds = bindE (integer (JInt seconds) ''service run time'') (\<lambda>s.
     if s > 8640000000000 then Inl (RangeError ''Invalid time value'')
     else let (y, m, d) = civil_from_days (s div 86400); r = s mod 86400 in
     Inr ((if y \<le> 9999 then pad 4 y else ''+'' @ pad 6 y) @ ''-'' @ pad 2 m @ ''-'' @ pad 2 d @ ''T'' @
       pad 2 (r div 3600) @ '':'' @ pad 2 (r div 60 mod 60) @ '':'' @ pad 2 (r mod 60) @ ''.000Z''))"

section \<open>The journal\<close>

definition ACTIVE_SERVICE_MODE :: string where
  "ACTIVE_SERVICE_MODE = ''active-execution-only''"

definition SERVICE_RUN_SCHEMA :: string where
  "SERVICE_RUN_SCHEMA = ''treeswap.coordinator-service-run.v1''"

definition SERVICE_RUN_HANDLE_SCHEMA :: string where
  "SERVICE_RUN_HANDLE_SCHEMA = ''treeswap.coordinator-service-run-handle.v1''"

definition SERVICE_RUN_REASONS :: "string list" where
  "SERVICE_RUN_REASONS = [''requested'', ''aborted'', ''startup-failure'', ''background-failure'']"

definition FAILURE_REASONS :: "string list" where
  "FAILURE_REASONS = [''startup-failure'', ''background-failure'', ''abrupt-exit'']"

record service_run =
  sr_runDigest :: string
  sr_mode :: string
  sr_state :: string
  sr_startedAt :: int
  sr_updatedAt :: int
  sr_outcome :: "string option"
  sr_lastStatusAt :: "int option"
  sr_lastStatusDigest :: "string option"
  sr_lastStatusPhase :: "string option"
  sr_lastStatusHealthy :: "bool option"
  sr_failureWindowSeconds :: int
  sr_maximumFailures :: int
  sr_failureWindowStartedAt :: "int option"
  sr_failureCount :: int
  sr_lastFailureAt :: "int option"
  sr_lastFailureReason :: "string option"

definition SERVICE_RUN_META_KEYS :: "string list" where
  "SERVICE_RUN_META_KEYS = [''service_run_schema'', ''service_run_digest'', ''service_run_mode'',
     ''service_run_state'', ''service_run_started_at'', ''service_run_updated_at'', ''service_run_outcome'',
     ''service_run_last_status_at'', ''service_run_last_status_digest'', ''service_run_last_status_phase'',
     ''service_run_last_status_healthy'', ''service_run_failure_window_seconds'',
     ''service_run_maximum_failures'', ''service_run_failure_window_started_at'',
     ''service_run_failure_count'', ''service_run_last_failure_at'', ''service_run_last_failure_reason'']"

text \<open>
  \<^verbatim>\<open>key LIKE 'service_run_%'\<close>: in SQLite the underscore matches any character and letters match
  in either case.
\<close>

definition like_service_run :: "string \<Rightarrow> bool" where
  "like_service_run k \<longleftrightarrow> length k \<ge> 12 \<and>
     list_all2 (\<lambda>p c. p = CHR ''_'' \<or> p = char_lower c) ''service_run_'' (take 12 k)"

definition parseStoredInteger :: "string \<Rightarrow> string \<Rightarrow> int result" where
  "parseStoredInteger v name =
     (if \<not> is_uint v then Inl (Error (name @ '' is corrupt''))
      else if dec_val v > MAX_SAFE_INTEGER then Inl (Error (name @ '' is corrupt''))
      else Inr (dec_val v))"

definition nullable :: "(string \<Rightarrow> string \<Rightarrow> 'a result) \<Rightarrow> string \<Rightarrow> string \<Rightarrow> 'a option result" where
  "nullable parse v name = (if v = [] then Inr None else bindE (parse v name) (\<lambda>x. Inr (Some x)))"

definition parseStoredBoolean :: "string \<Rightarrow> string \<Rightarrow> bool result" where
  "parseStoredBoolean v name =
     (if v \<noteq> ''0'' \<and> v \<noteq> ''1'' then Inl (Error (name @ '' is corrupt'')) else Inr (v = ''1''))"

text \<open>\<^verbatim>\<open>value || null\<close> on a text column.\<close>

definition or_null :: "string \<Rightarrow> string option" where
  "or_null v = (if v = [] then None else Some v)"

text \<open>The pattern \<^verbatim>\<open>/^[a-z][a-z0-9-]{0,79}$/\<close>.\<close>

definition is_lower :: "char \<Rightarrow> bool" where
  "is_lower c \<longleftrightarrow> c \<in> set ''abcdefghijklmnopqrstuvwxyz''"

definition is_phase :: "string \<Rightarrow> bool" where
  "is_phase s \<longleftrightarrow> s \<noteq> [] \<and> length s \<le> 80 \<and> is_lower (hd s)
     \<and> list_all (\<lambda>c. is_lower c \<or> is_digit c \<or> c = CHR ''-'') (tl s)"

text \<open>The consistency checks of the journal, in source order.\<close>

definition outcome_ok :: "string option \<Rightarrow> bool" where
  "outcome_ok outcome = (case outcome of None \<Rightarrow> True
     | Some x \<Rightarrow> x \<in> set SERVICE_RUN_REASONS \<or> x = ''abrupt-exit'' \<or> x = ''crash-loop-open'')"

definition status_consistent :: "service_run \<Rightarrow> bool" where
  "status_consistent r \<longleftrightarrow>
     (sr_lastStatusAt r = None) = (sr_lastStatusDigest r = None) \<and>
     (sr_lastStatusAt r = None) = (sr_lastStatusPhase r = None) \<and>
     (sr_lastStatusAt r = None) = (sr_lastStatusHealthy r = None)"

definition failures_consistent :: "service_run \<Rightarrow> bool" where
  "failures_consistent r \<longleftrightarrow>
     (sr_failureCount r = 0) = (sr_failureWindowStartedAt r = None) \<and>
     (sr_failureCount r = 0) = (sr_lastFailureAt r = None) \<and>
     (sr_failureCount r = 0) = (sr_lastFailureReason r = None) \<and>
     sr_failureCount r \<le> sr_maximumFailures r"

definition times_consistent :: "service_run \<Rightarrow> bool" where
  "times_consistent r \<longleftrightarrow>
     sr_startedAt r \<le> sr_updatedAt r \<and>
     (case sr_lastStatusAt r of None \<Rightarrow> True | Some t \<Rightarrow> sr_startedAt r \<le> t \<and> t \<le> sr_updatedAt r) \<and>
     (case sr_failureWindowStartedAt r of None \<Rightarrow> True
      | Some w \<Rightarrow> (case sr_lastFailureAt r of None \<Rightarrow> w \<le> 0
          | Some l \<Rightarrow> w \<le> l \<and> l \<le> sr_updatedAt r))"

definition lifecycle_consistent :: "service_run \<Rightarrow> bool" where
  "lifecycle_consistent r \<longleftrightarrow>
     (sr_state r = ''RUNNING'' \<longrightarrow> sr_outcome r = None \<and> sr_failureCount r < sr_maximumFailures r) \<and>
     (sr_state r = ''STOPPED'' \<longrightarrow> sr_outcome r \<in> {Some ''requested'', Some ''aborted''}) \<and>
     (sr_state r = ''FAILED'' \<longrightarrow>
        sr_outcome r \<in> {Some ''startup-failure'', Some ''background-failure''} \<and>
        sr_failureCount r \<noteq> 0 \<and> sr_lastFailureReason r = sr_outcome r) \<and>
     (sr_state r = ''BLOCKED'' \<longrightarrow>
        sr_outcome r = Some ''crash-loop-open'' \<and> sr_maximumFailures r \<le> sr_failureCount r \<and>
        sr_lastStatusAt r = None)"

definition readServiceRunState :: "(string \<times> string) list \<Rightarrow> service_run option result" where
  "readServiceRunState m =
     (let rows = filter (\<lambda>(k, v). like_service_run k) m;
          val = (\<lambda>k. case map_of rows k of None \<Rightarrow> [] | Some v \<Rightarrow> v) in
      if rows = [] then Inr None
      else if length rows \<noteq> length SERVICE_RUN_META_KEYS
           \<or> \<not> list_all (\<lambda>k. k \<in> fst ` set rows) SERVICE_RUN_META_KEYS
      then Inl (Error ''coordinator service run journal is incomplete'')
      else if val ''service_run_schema'' \<noteq> SERVICE_RUN_SCHEMA
      then Inl (Error ''coordinator service run journal schema is unsupported'')
      else bindE (bytes32 (JStr (val ''service_run_digest'')) ''service run digest'') (\<lambda>runDigest.
      let mode = val ''service_run_mode''; state = val ''service_run_state'';
          outcome = or_null (val ''service_run_outcome'') in
      if mode \<noteq> ACTIVE_SERVICE_MODE \<or> state \<notin> set [''RUNNING'', ''STOPPED'', ''FAILED'', ''BLOCKED'']
      then Inl (Error ''coordinator service run journal identity is invalid'')
      else if \<not> outcome_ok outcome then Inl (Error ''coordinator service run outcome is invalid'')
      else bindE (parseStoredInteger (val ''service_run_started_at'') ''coordinator service run start'') (\<lambda>startedAt.
      bindE (parseStoredInteger (val ''service_run_updated_at'') ''coordinator service run update'') (\<lambda>updatedAt.
      bindE (nullable parseStoredInteger (val ''service_run_last_status_at'')
        ''coordinator service run last status time'') (\<lambda>lastStatusAt.
      let lastStatusDigest = or_null (val ''service_run_last_status_digest'') in
      bindE (case lastStatusDigest of None \<Rightarrow> Inr ''''
        | Some d \<Rightarrow> bytes32 (JStr d) ''coordinator service run last status digest'') (\<lambda>_.
      let lastStatusPhase = or_null (val ''service_run_last_status_phase'') in
      if (case lastStatusPhase of None \<Rightarrow> False | Some p \<Rightarrow> \<not> is_phase p)
      then Inl (Error ''coordinator service run last status phase is invalid'')
      else bindE (nullable parseStoredBoolean (val ''service_run_last_status_healthy'')
        ''coordinator service run last status health'') (\<lambda>lastStatusHealthy.
      if (lastStatusAt = None) \<noteq> (lastStatusDigest = None) \<or> (lastStatusAt = None) \<noteq> (lastStatusPhase = None)
         \<or> (lastStatusAt = None) \<noteq> (lastStatusHealthy = None)
      then Inl (Error ''coordinator service run status journal is inconsistent'')
      else bindE (parseStoredInteger (val ''service_run_failure_window_seconds'')
        ''coordinator service run failure window'') (\<lambda>failureWindowSeconds.
      bindE (parseStoredInteger (val ''service_run_maximum_failures'')
        ''coordinator service run maximum failures'') (\<lambda>maximumFailures.
      bindE (boundedInteger (JInt failureWindowSeconds) 60 3600 ''coordinator service run failure window'') (\<lambda>_.
      bindE (boundedInteger (JInt maximumFailures) 1 10 ''coordinator service run maximum failures'') (\<lambda>_.
      bindE (nullable parseStoredInteger (val ''service_run_failure_window_started_at'')
        ''coordinator service run failure-window start'') (\<lambda>failureWindowStartedAt.
      bindE (parseStoredInteger (val ''service_run_failure_count'')
        ''coordinator service run failure count'') (\<lambda>failureCount.
      bindE (nullable parseStoredInteger (val ''service_run_last_failure_at'')
        ''coordinator service run last failure time'') (\<lambda>lastFailureAt.
      let lastFailureReason = or_null (val ''service_run_last_failure_reason'') in
      if (case lastFailureReason of None \<Rightarrow> False | Some x \<Rightarrow> x \<notin> set FAILURE_REASONS)
      then Inl (Error ''coordinator service run last failure reason is invalid'')
      else let r = \<lparr>sr_runDigest = runDigest, sr_mode = mode, sr_state = state, sr_startedAt = startedAt,
        sr_updatedAt = updatedAt, sr_outcome = outcome, sr_lastStatusAt = lastStatusAt,
        sr_lastStatusDigest = lastStatusDigest, sr_lastStatusPhase = lastStatusPhase,
        sr_lastStatusHealthy = lastStatusHealthy, sr_failureWindowSeconds = failureWindowSeconds,
        sr_maximumFailures = maximumFailures, sr_failureWindowStartedAt = failureWindowStartedAt,
        sr_failureCount = failureCount, sr_lastFailureAt = lastFailureAt,
        sr_lastFailureReason = lastFailureReason\<rparr> in
      if \<not> failures_consistent r
      then Inl (Error ''coordinator service run failure journal is inconsistent'')
      else if \<not> times_consistent r
      then Inl (Error ''coordinator service run journal time ordering is invalid'')
      else if \<not> lifecycle_consistent r
      then Inl (Error ''coordinator service run lifecycle journal is inconsistent'')
      else Inr (Some r)))))))))))))))"

definition opt_text :: "('a \<Rightarrow> string) \<Rightarrow> 'a option \<Rightarrow> string" where
  "opt_text f v = (case v of None \<Rightarrow> '''' | Some x \<Rightarrow> f x)"

definition service_run_values :: "service_run \<Rightarrow> string list" where
  "service_run_values r = [SERVICE_RUN_SCHEMA, sr_runDigest r, sr_mode r, sr_state r,
     dec_str (sr_startedAt r), dec_str (sr_updatedAt r), opt_text id (sr_outcome r),
     opt_text dec_str (sr_lastStatusAt r), opt_text id (sr_lastStatusDigest r),
     opt_text id (sr_lastStatusPhase r), opt_text (\<lambda>b. if b then ''1'' else ''0'') (sr_lastStatusHealthy r),
     dec_str (sr_failureWindowSeconds r), dec_str (sr_maximumFailures r),
     opt_text dec_str (sr_failureWindowStartedAt r), dec_str (sr_failureCount r),
     opt_text dec_str (sr_lastFailureAt r), opt_text id (sr_lastFailureReason r)]"

definition writeServiceRunState :: "service_run \<Rightarrow> (string \<times> string) list \<Rightarrow> (string \<times> string) list" where
  "writeServiceRunState r m =
     fold (\<lambda>(k, v). upsert k v) (zip SERVICE_RUN_META_KEYS (service_run_values r)) m"

section \<open>Operations\<close>

text \<open>
  A handle is an object reference; the two weak maps of the source are the list of contexts
  (a reference is a position in it) and the handle that is live for this store.
\<close>

record run_context =
  rc_active :: bool
  rc_runDigest :: string

record process =
  handles :: "run_context list"
  activeHandle :: "nat option"

record run_summary =
  sm_state :: string
  sm_run :: "service_run option"
  sm_startedAt :: "string option"
  sm_updatedAt :: "string option"
  sm_lastStatusAt :: "string option"
  sm_failureWindowStartedAt :: "string option"
  sm_failureCount :: int
  sm_lastFailureAt :: "string option"
  sm_crashLoopOpen :: bool
  sm_fundingAuthorization :: bool

definition iso_option :: "int option \<Rightarrow> string option result" where
  "iso_option t = (case t of None \<Rightarrow> Inr None | Some x \<Rightarrow> bindE (wholeSecondIso x) (\<lambda>i. Inr (Some i)))"

definition serviceRunSummary :: "service_run option \<Rightarrow> run_summary result" where
  "serviceRunSummary state = (case state of
     None \<Rightarrow> Inr \<lparr>sm_state = ''NEVER_STARTED'', sm_run = None, sm_startedAt = None, sm_updatedAt = None,
       sm_lastStatusAt = None, sm_failureWindowStartedAt = None, sm_failureCount = 0, sm_lastFailureAt = None,
       sm_crashLoopOpen = False, sm_fundingAuthorization = False\<rparr>
   | Some r \<Rightarrow>
       bindE (wholeSecondIso (sr_startedAt r)) (\<lambda>startedAt.
       bindE (wholeSecondIso (sr_updatedAt r)) (\<lambda>updatedAt.
       bindE (iso_option (sr_lastStatusAt r)) (\<lambda>lastStatusAt.
       bindE (iso_option (sr_failureWindowStartedAt r)) (\<lambda>failureWindowStartedAt.
       bindE (iso_option (sr_lastFailureAt r)) (\<lambda>lastFailureAt.
       Inr \<lparr>sm_state = sr_state r, sm_run = Some r, sm_startedAt = Some startedAt,
         sm_updatedAt = Some updatedAt, sm_lastStatusAt = lastStatusAt,
         sm_failureWindowStartedAt = failureWindowStartedAt, sm_failureCount = sr_failureCount r,
         sm_lastFailureAt = lastFailureAt,
         sm_crashLoopOpen = (sr_state r = ''BLOCKED'' \<or> sr_failureCount r \<ge> sr_maximumFailures r),
         sm_fundingAuthorization = False\<rparr>))))))"

definition serviceRunStatus :: "store \<Rightarrow> run_summary result" where
  "serviceRunStatus s = bindE (readServiceRunState (meta s)) serviceRunSummary"

text \<open>The four failure fields carried from one run to the next.\<close>

record failure_window =
  fw_count :: int
  fw_startedAt :: "int option"
  fw_lastAt :: "int option"
  fw_reason :: "string option"

definition no_failures :: failure_window where
  "no_failures = \<lparr>fw_count = 0, fw_startedAt = None, fw_lastAt = None, fw_reason = None\<rparr>"

definition failures_of :: "service_run option \<Rightarrow> failure_window" where
  "failures_of previous = (case previous of None \<Rightarrow> no_failures
     | Some r \<Rightarrow> \<lparr>fw_count = sr_failureCount r, fw_startedAt = sr_failureWindowStartedAt r,
         fw_lastAt = sr_lastFailureAt r, fw_reason = sr_lastFailureReason r\<rparr>)"

text \<open>The failures a new run starts with: an expired window is forgotten, an abandoned run counts.\<close>

definition begin_failures ::
    "service_run option \<Rightarrow> int \<Rightarrow> int \<Rightarrow> int \<Rightarrow> failure_window result" where
  "begin_failures previous startedAt failureWindowSeconds maximumFailures =
     (let f = failures_of previous;
          window = (case previous of None \<Rightarrow> failureWindowSeconds | Some r \<Rightarrow> sr_failureWindowSeconds r);
          expired = (case fw_startedAt f of None \<Rightarrow> False | Some w \<Rightarrow> startedAt - w \<ge> window) in
      bindE (if expired then Inr no_failures
        else (case previous of None \<Rightarrow> Inr f
          | Some r \<Rightarrow>
              if (fw_count f > 0 \<or> sr_state r = ''RUNNING'')
                 \<and> (sr_failureWindowSeconds r \<noteq> failureWindowSeconds \<or> sr_maximumFailures r \<noteq> maximumFailures)
              then Inl (Error ''coordinator service crash policy changed while failures are retained'')
              else Inr f)) (\<lambda>g.
      Inr (if (case previous of None \<Rightarrow> False | Some r \<Rightarrow> sr_state r = ''RUNNING'')
        then \<lparr>fw_count = fw_count g + 1,
              fw_startedAt = (case fw_startedAt g of None \<Rightarrow> Some startedAt | Some w \<Rightarrow> Some w),
              fw_lastAt = Some startedAt, fw_reason = Some ''abrupt-exit''\<rparr>
        else g)))"

definition new_run :: "string \<Rightarrow> string \<Rightarrow> int \<Rightarrow> int \<Rightarrow> int \<Rightarrow> failure_window \<Rightarrow> service_run" where
  "new_run runDigest mode startedAt failureWindowSeconds maximumFailures f =
     (let blocked = fw_count f \<ge> maximumFailures in
      \<lparr>sr_runDigest = runDigest, sr_mode = mode, sr_state = (if blocked then ''BLOCKED'' else ''RUNNING''),
       sr_startedAt = startedAt, sr_updatedAt = startedAt,
       sr_outcome = (if blocked then Some ''crash-loop-open'' else None),
       sr_lastStatusAt = None, sr_lastStatusDigest = None, sr_lastStatusPhase = None,
       sr_lastStatusHealthy = None, sr_failureWindowSeconds = failureWindowSeconds,
       sr_maximumFailures = maximumFailures, sr_failureWindowStartedAt = fw_startedAt f,
       sr_failureCount = fw_count f, sr_lastFailureAt = fw_lastAt f, sr_lastFailureReason = fw_reason f\<rparr>)"

record run_start =
  rn_startedAt :: int
  rn_failureWindowSeconds :: int
  rn_maximumFailures :: int
  rn_runDigest :: string

text \<open>The checks of \<open>beginServiceRun\<close> before its transaction; \<open>uuid\<close> is the random nonce.\<close>

definition normalizeRunStart :: "(string \<Rightarrow> string) \<Rightarrow> string \<Rightarrow> jsval \<Rightarrow> process \<Rightarrow> run_start result" where
  "normalizeRunStart H uuid input proc =
     bindE (exactKeys input [''failureWindowSeconds'', ''maximumFailures'', ''mode'', ''startedAt'']
       ''coordinator service run start'') (\<lambda>_.
     if js_get input ''mode'' \<noteq> JStr ACTIVE_SERVICE_MODE
     then Inl (Error ''coordinator service run mode is unsupported'')
     else if activeHandle proc \<noteq> None
     then Inl (Error ''coordinator store already has a live service run'')
     else bindE (integer (js_get input ''startedAt'') ''coordinator service run startedAt'') (\<lambda>startedAt.
     bindE (boundedInteger (js_get input ''failureWindowSeconds'') 60 3600 ''coordinator service failure window'')
       (\<lambda>window.
     bindE (boundedInteger (js_get input ''maximumFailures'') 1 10 ''coordinator service maximum failures'')
       (\<lambda>maximum.
     bindE (digest H (JObj [(''schema'', JStr SERVICE_RUN_HANDLE_SCHEMA), (''mode'', JStr ACTIVE_SERVICE_MODE),
       (''startedAt'', JInt startedAt), (''nonce'', JStr uuid)])) (\<lambda>runDigest.
     Inr \<lparr>rn_startedAt = startedAt, rn_failureWindowSeconds = window, rn_maximumFailures = maximum,
       rn_runDigest = runDigest\<rparr>)))))"

definition begin_run :: "run_start \<Rightarrow> store \<Rightarrow> (store \<times> service_run) result" where
  "begin_run v s =
     bindE (readServiceRunState (meta s)) (\<lambda>previous.
     if (case previous of None \<Rightarrow> False
         | Some r \<Rightarrow> sr_updatedAt r > rn_startedAt v \<or> sr_startedAt r > rn_startedAt v)
     then Inl (Error ''coordinator service run clock moved backwards'')
     else bindE (begin_failures previous (rn_startedAt v) (rn_failureWindowSeconds v) (rn_maximumFailures v)) (\<lambda>f.
     let run = new_run (rn_runDigest v) ACTIVE_SERVICE_MODE (rn_startedAt v) (rn_failureWindowSeconds v)
                 (rn_maximumFailures v) f in
     Inr (s\<lparr>meta := writeServiceRunState run (meta s)\<rparr>, run)))"

definition beginServiceRun ::
    "(string \<Rightarrow> string) \<Rightarrow> string \<Rightarrow> jsval \<Rightarrow> store \<times> process \<Rightarrow> (store \<times> process) \<times> (nat \<times> run_summary) result" where
  "beginServiceRun H uuid input sp = (case sp of (s, proc) \<Rightarrow>
     (case normalizeRunStart H uuid input proc of
        Inl e \<Rightarrow> ((s, proc), Inl e)
      | Inr v \<Rightarrow> (case transaction (begin_run v) s of
          (s', Inl e) \<Rightarrow> ((s', proc), Inl e)
        | (s', Inr run) \<Rightarrow>
            if sr_state run = ''BLOCKED''
            then ((s', proc), Inl (Error ''coordinator active service crash-loop breaker is open''))
            else let h = length (handles proc);
                     proc' = \<lparr>handles = handles proc @ [\<lparr>rc_active = True, rc_runDigest = rn_runDigest v\<rparr>],
                              activeHandle = Some h\<rparr> in
              ((s', proc'), bindE (serviceRunSummary (Some run)) (\<lambda>summary. Inr (h, summary))))))"

text \<open>Provenance of a handle: registered in this process, active, and the live one.\<close>

definition live_context :: "nat \<Rightarrow> process \<Rightarrow> run_context option" where
  "live_context h proc =
     (if h < length (handles proc) \<and> rc_active (handles proc ! h) \<and> activeHandle proc = Some h
      then Some (handles proc ! h) else None)"

text \<open>
  The status validators of \<^verbatim>\<open>coordinator-service-state.mjs\<close> are parameters: the phase a bootstrap
  status reports, and the state an active-execution status reports.
\<close>

record status_validators =
  validateBootstrap :: "jsval \<Rightarrow> string result"
  validateActive :: "jsval \<Rightarrow> string result"

definition serviceStatusSummary ::
    "(string \<Rightarrow> string) \<Rightarrow> status_validators \<Rightarrow> jsval \<Rightarrow> int \<Rightarrow> int \<Rightarrow> (string \<times> string \<times> bool) result" where
  "serviceStatusSummary H V status observedAt startedAt = (case status of
     JObj kvs \<Rightarrow>
       if js_get status ''mode'' \<noteq> JStr ACTIVE_SERVICE_MODE
       then Inl (Error ''coordinator service run status belongs to another mode'')
       else bindE (wholeSecondIso startedAt) (\<lambda>expectedStartedAt.
       bindE (if js_get status ''serviceStartedAt'' \<noteq> JStr expectedStartedAt then Inr True
              else bindE (wholeSecondIso observedAt) (\<lambda>at. Inr (js_get status ''heartbeatAt'' \<noteq> JStr at))) (\<lambda>changed.
       if changed then Inl (Error ''coordinator service run status time changed'')
       else bindE (
         if js_get status ''schema'' = JStr ''treeswap.coordinator-active-execution-bootstrap-status.v1''
         then bindE (validateBootstrap V status) (\<lambda>phase. Inr (phase, False))
         else if js_get status ''schema'' = JStr ''treeswap.coordinator-active-execution-service-status.v1''
         then bindE (validateActive V status) (\<lambda>phase. Inr (phase, phase = ''active''))
         else Inl (Error ''coordinator service run status schema is unsupported'')) (\<lambda>(phase, healthy).
       bindE (digest H status) (\<lambda>statusDigest. Inr (statusDigest, phase, healthy)))))
   | _ \<Rightarrow> Inl (TypeError ''coordinator service run status must be an object''))"

definition record_status ::
    "(string \<Rightarrow> string) \<Rightarrow> status_validators \<Rightarrow> string \<Rightarrow> int \<Rightarrow> jsval \<Rightarrow> store \<Rightarrow> (store \<times> service_run) result" where
  "record_status H V runDigest observedAt status s =
     bindE (readServiceRunState (meta s)) (\<lambda>current. case current of
       None \<Rightarrow> Inl (Error ''coordinator service run is no longer current'')
     | Some r \<Rightarrow>
         if sr_state r \<noteq> ''RUNNING'' \<or> sr_runDigest r \<noteq> runDigest
         then Inl (Error ''coordinator service run is no longer current'')
         else if observedAt < sr_startedAt r
           \<or> (case sr_lastStatusAt r of None \<Rightarrow> False | Some t \<Rightarrow> observedAt < t)
         then Inl (Error ''coordinator service run status clock moved backwards'')
         else bindE (serviceStatusSummary H V status observedAt (sr_startedAt r)) (\<lambda>(statusDigest, phase, healthy).
         let updated = r\<lparr>sr_updatedAt := observedAt, sr_lastStatusAt := Some observedAt,
               sr_lastStatusDigest := Some statusDigest, sr_lastStatusPhase := Some phase,
               sr_lastStatusHealthy := Some healthy\<rparr> in
         Inr (s\<lparr>meta := writeServiceRunState updated (meta s)\<rparr>, updated)))"

definition recordServiceRunStatus ::
    "(string \<Rightarrow> string) \<Rightarrow> status_validators \<Rightarrow> nat \<Rightarrow> jsval \<Rightarrow> jsval \<Rightarrow> store \<times> process
       \<Rightarrow> (store \<times> process) \<times> run_summary result" where
  "recordServiceRunStatus H V handle observedAt status sp = (case sp of (s, proc) \<Rightarrow>
     (case live_context handle proc of
        None \<Rightarrow> ((s, proc), Inl (TypeError ''coordinator service run handle lacks same-process provenance''))
      | Some context \<Rightarrow>
          (case integer observedAt ''coordinator service run status observedAt'' of
             Inl e \<Rightarrow> ((s, proc), Inl e)
           | Inr at \<Rightarrow> (case transaction (record_status H V (rc_runDigest context) at status) s of
               (s', Inl e) \<Rightarrow> ((s', proc), Inl e)
             | (s', Inr run) \<Rightarrow> ((s', proc), serviceRunSummary (Some run))))))"

text \<open>The failures a finished run leaves.\<close>

definition finish_failures :: "service_run \<Rightarrow> string \<Rightarrow> int \<Rightarrow> failure_window" where
  "finish_failures r reason finishedAt =
     (let f = failures_of (Some r);
          expired = (case fw_startedAt f of None \<Rightarrow> False
            | Some w \<Rightarrow> finishedAt - w \<ge> sr_failureWindowSeconds r) in
      if reason \<in> set FAILURE_REASONS
      then let fresh = fw_startedAt f = None \<or> expired in
        \<lparr>fw_count = (if fresh then 0 else fw_count f) + 1,
         fw_startedAt = (if fresh then Some finishedAt else fw_startedAt f),
         fw_lastAt = Some finishedAt, fw_reason = Some reason\<rparr>
      else if expired then no_failures else f)"

definition finish_run :: "string \<Rightarrow> int \<Rightarrow> string \<Rightarrow> store \<Rightarrow> (store \<times> service_run) result" where
  "finish_run runDigest finishedAt reason s =
     bindE (readServiceRunState (meta s)) (\<lambda>current. case current of
       None \<Rightarrow> Inl (Error ''coordinator service run is no longer current'')
     | Some r \<Rightarrow>
         if sr_state r \<noteq> ''RUNNING'' \<or> sr_runDigest r \<noteq> runDigest
         then Inl (Error ''coordinator service run is no longer current'')
         else if finishedAt < sr_updatedAt r \<or> finishedAt < sr_startedAt r
         then Inl (Error ''coordinator service run finish clock moved backwards'')
         else let f = finish_failures r reason finishedAt;
                  finished = r\<lparr>sr_state := (if reason \<in> set FAILURE_REASONS then ''FAILED'' else ''STOPPED''),
                    sr_updatedAt := finishedAt, sr_outcome := Some reason, sr_failureCount := fw_count f,
                    sr_failureWindowStartedAt := fw_startedAt f, sr_lastFailureAt := fw_lastAt f,
                    sr_lastFailureReason := fw_reason f\<rparr> in
         Inr (s\<lparr>meta := writeServiceRunState finished (meta s)\<rparr>, finished))"

definition finishServiceRun ::
    "nat \<Rightarrow> jsval \<Rightarrow> jsval \<Rightarrow> store \<times> process \<Rightarrow> (store \<times> process) \<times> run_summary result" where
  "finishServiceRun handle finishedAt reason sp = (case sp of (s, proc) \<Rightarrow>
     (case live_context handle proc of
        None \<Rightarrow> ((s, proc), Inl (TypeError ''coordinator service run handle lacks same-process provenance''))
      | Some context \<Rightarrow>
          (case bindE (integer finishedAt ''coordinator service run finishedAt'') (\<lambda>at.
             let text = js_text reason in
             if text \<notin> set SERVICE_RUN_REASONS
             then Inl (TypeError ''coordinator service run reason is invalid'') else Inr (at, text)) of
             Inl e \<Rightarrow> ((s, proc), Inl e)
           | Inr (at, text) \<Rightarrow> (case transaction (finish_run (rc_runDigest context) at text) s of
               (s', Inl e) \<Rightarrow> ((s', proc), Inl e)
             | (s', Inr run) \<Rightarrow>
                 ((s', \<lparr>handles = (handles proc)[handle := context\<lparr>rc_active := False\<rparr>], activeHandle = None\<rparr>),
                  serviceRunSummary (Some run))))))"

text \<open>A crash: the process and its handles are gone, the journal stays.\<close>

definition fresh_process :: process where
  "fresh_process = \<lparr>handles = [], activeHandle = None\<rparr>"

definition restart_process :: "store \<times> process \<Rightarrow> store \<times> process" where
  "restart_process sp = (fst sp, fresh_process)"

section \<open>The journal round trip\<close>

lemma map_of_replace:
  "map_of (map (\<lambda>(k', v'). (k', if k' = k then v else v')) m) k' =
     map_option (\<lambda>v'. if k' = k then v else v') (map_of m k')"
  by (induction m) auto

lemma map_of_upsert: "map_of (upsert k v m) k' = (if k' = k then Some v else map_of m k')"
proof (cases "map_of m k")
  case None
  then have "k \<notin> fst ` set m" by (simp add: map_of_eq_None_iff)
  with None show ?thesis by (auto simp: upsert_def map_add_def split: option.splits)
next
  case (Some w)
  then have "k \<in> fst ` set m" using map_of_eq_None_iff [of m k] by auto
  with Some show ?thesis by (cases "map_of m k'") (auto simp: upsert_def map_of_replace)
qed

lemma keys_upsert: "fst ` set (upsert k v m) = insert k (fst ` set m)"
  by (force simp: upsert_def)

lemma map_fst_replace: "map fst (map (\<lambda>(k', v'). (k', if k' = k then v else v')) m) = map fst m"
  by (induction m) auto

lemma distinct_upsert:
  assumes "distinct (map fst m)"
  shows "distinct (map fst (upsert k v m))"
proof (cases "k \<in> fst ` set m")
  case True
  with assms show ?thesis by (simp only: upsert_def if_True map_fst_replace)
next
  case False
  with assms show ?thesis by (simp add: upsert_def)
qed

lemma map_of_upserts:
  assumes "distinct (map fst kvs)"
  shows "map_of (fold (\<lambda>(k, v). upsert k v) kvs m) k =
    (case map_of kvs k of None \<Rightarrow> map_of m k | Some v \<Rightarrow> Some v)"
  using assms
proof (induction kvs arbitrary: m)
  case (Cons kv kvs)
  obtain k0 v0 where kv: "kv = (k0, v0)" by (cases kv)
  from Cons.prems have "map_of kvs k0 = None" by (simp add: kv map_of_eq_None_iff)
  with Cons show ?case by (cases "map_of kvs k") (auto simp: kv map_of_upsert)
qed simp

lemma keys_upserts: "fst ` set (fold (\<lambda>(k, v). upsert k v) kvs m) = fst ` set kvs \<union> fst ` set m"
  by (induction kvs arbitrary: m) (simp_all add: keys_upsert split_def)

lemma distinct_upserts:
  "distinct (map fst m) \<Longrightarrow> distinct (map fst (fold (\<lambda>(k, v). upsert k v) kvs m))"
  by (induction kvs arbitrary: m) (auto simp: distinct_upsert)

lemma distinct_keys: "distinct SERVICE_RUN_META_KEYS"
  by code_simp

lemma keys_like: "list_all like_service_run SERVICE_RUN_META_KEYS"
  by code_simp

lemma length_values: "length (service_run_values r) = length SERVICE_RUN_META_KEYS"
  by (simp add: service_run_values_def SERVICE_RUN_META_KEYS_def)

text \<open>
  The service keys of the metadata table are exactly the journal keys, and keys are unique; the
  other writers of the table (schema, admission policy, restart clock) keep this.
\<close>

definition meta_ok :: "(string \<times> string) list \<Rightarrow> bool" where
  "meta_ok m \<longleftrightarrow> distinct (map fst m) \<and>
     (\<forall>k \<in> fst ` set m. like_service_run k \<longrightarrow> k \<in> set SERVICE_RUN_META_KEYS)"

lemma keys_write:
  "fst ` set (writeServiceRunState r m) = set SERVICE_RUN_META_KEYS \<union> fst ` set m"
  unfolding writeServiceRunState_def keys_upserts
  by (simp add: length_values set_zip_leftD flip: set_map)

lemma meta_ok_write: "meta_ok m \<Longrightarrow> meta_ok (writeServiceRunState r m)"
  using keys_write [of r m]
  by (auto simp: meta_ok_def writeServiceRunState_def distinct_upserts)

lemma map_of_write:
  "k \<in> set SERVICE_RUN_META_KEYS \<Longrightarrow>
     map_of (writeServiceRunState r m) k = map_of (zip SERVICE_RUN_META_KEYS (service_run_values r)) k"
  unfolding writeServiceRunState_def
  by (subst map_of_upserts)
    (auto simp: length_values distinct_keys map_of_eq_None_iff set_zip_leftD split: option.splits
      dest!: arg_cong [of _ _ "\<lambda>x. x = None"] simp flip: set_map)

lemma map_of_filter_like:
  "like_service_run k \<Longrightarrow> map_of (filter (\<lambda>(k, v). like_service_run k) m) k = map_of m k"
  by (induction m) auto

lemma rows_after_write:
  fixes r :: service_run and m :: "(string \<times> string) list"
  assumes "meta_ok m"
  defines "rows \<equiv> filter (\<lambda>(k, v). like_service_run k) (writeServiceRunState r m)"
  shows "fst ` set rows = set SERVICE_RUN_META_KEYS" and "length rows = length SERVICE_RUN_META_KEYS"
proof -
  note ok = meta_ok_write [OF assms(1), of r]
  show keys: "fst ` set rows = set SERVICE_RUN_META_KEYS"
  proof
    show "fst ` set rows \<subseteq> set SERVICE_RUN_META_KEYS"
      using ok by (auto simp: rows_def meta_ok_def)
    show "set SERVICE_RUN_META_KEYS \<subseteq> fst ` set rows"
    proof
      fix k assume k: "k \<in> set SERVICE_RUN_META_KEYS"
      then obtain v where "(k, v) \<in> set (writeServiceRunState r m)" using keys_write [of r m] by force
      moreover have "like_service_run k" using keys_like k by (auto simp: list_all_iff)
      ultimately show "k \<in> fst ` set rows" by (force simp: rows_def)
    qed
  qed
  have "distinct (map fst rows)"
    using ok unfolding rows_def meta_ok_def by (induction "writeServiceRunState r m") (auto simp: distinct_map_filter)
  then have "length rows = card (fst ` set rows)" by (metis distinct_card length_map set_map)
  also have "\<dots> = length SERVICE_RUN_META_KEYS" using keys distinct_keys by (simp add: distinct_card)
  finally show "length rows = length SERVICE_RUN_META_KEYS" .
qed

definition safe_time :: "int \<Rightarrow> bool" where
  "safe_time t \<longleftrightarrow> 0 \<le> t \<and> t \<le> MAX_SAFE_INTEGER"

definition opt_all :: "('a \<Rightarrow> bool) \<Rightarrow> 'a option \<Rightarrow> bool" where
  "opt_all P v = (case v of None \<Rightarrow> True | Some x \<Rightarrow> P x)"

text \<open>
  The well-formed journal entries: what the reader checks, and that a running service was last
  updated by its start or by its last status.
\<close>

definition run_ok :: "service_run \<Rightarrow> bool" where
  "run_ok r \<longleftrightarrow>
     is_bytes32 (sr_runDigest r) \<and> sr_mode r = ACTIVE_SERVICE_MODE \<and>
     sr_state r \<in> set [''RUNNING'', ''STOPPED'', ''FAILED'', ''BLOCKED''] \<and> outcome_ok (sr_outcome r) \<and>
     safe_time (sr_startedAt r) \<and> safe_time (sr_updatedAt r) \<and> opt_all safe_time (sr_lastStatusAt r) \<and>
     opt_all is_bytes32 (sr_lastStatusDigest r) \<and> opt_all is_phase (sr_lastStatusPhase r) \<and>
     60 \<le> sr_failureWindowSeconds r \<and> sr_failureWindowSeconds r \<le> 3600 \<and>
     1 \<le> sr_maximumFailures r \<and> sr_maximumFailures r \<le> 10 \<and>
     opt_all safe_time (sr_failureWindowStartedAt r) \<and> 0 \<le> sr_failureCount r \<and>
     opt_all safe_time (sr_lastFailureAt r) \<and>
     opt_all (\<lambda>x. x \<in> set FAILURE_REASONS) (sr_lastFailureReason r) \<and>
     status_consistent r \<and> failures_consistent r \<and> times_consistent r \<and> lifecycle_consistent r \<and>
     (sr_state r = ''RUNNING'' \<longrightarrow>
        sr_updatedAt r = (case sr_lastStatusAt r of None \<Rightarrow> sr_startedAt r | Some t \<Rightarrow> t))"

lemma parse_dec: "safe_time t \<Longrightarrow> parseStoredInteger (dec_str t) name = Inr t"
  by (simp add: parseStoredInteger_def safe_time_def is_uint_dec_str dec_val_dec_str)

lemma parse_opt_dec:
  "opt_all safe_time t \<Longrightarrow> nullable parseStoredInteger (opt_text dec_str t) name = Inr t"
  by (auto simp: nullable_def opt_all_def opt_text_def parse_dec dec_str_nonempty split: option.splits)

lemma parse_opt_bool:
  "nullable parseStoredBoolean (opt_text (\<lambda>b. if b then ''1'' else ''0'') t) name = Inr t"
  by (auto simp: nullable_def opt_text_def parseStoredBoolean_def split: option.splits)

lemma or_null_text: "opt_all (\<lambda>x. x \<noteq> []) t \<Longrightarrow> or_null (opt_text id t) = t"
  by (auto simp: or_null_def opt_text_def opt_all_def split: option.splits)

lemma opt_all_mono: "opt_all P t \<Longrightarrow> (\<And>x. P x \<Longrightarrow> Q x) \<Longrightarrow> opt_all Q t"
  by (auto simp: opt_all_def split: option.splits)

lemma journal_values:
  "map_of (zip SERVICE_RUN_META_KEYS (service_run_values r)) ''service_run_schema'' = Some SERVICE_RUN_SCHEMA"
  "map_of (zip SERVICE_RUN_META_KEYS (service_run_values r)) ''service_run_digest'' = Some (sr_runDigest r)"
  "map_of (zip SERVICE_RUN_META_KEYS (service_run_values r)) ''service_run_mode'' = Some (sr_mode r)"
  "map_of (zip SERVICE_RUN_META_KEYS (service_run_values r)) ''service_run_state'' = Some (sr_state r)"
  "map_of (zip SERVICE_RUN_META_KEYS (service_run_values r)) ''service_run_started_at'' = Some (dec_str (sr_startedAt r))"
  "map_of (zip SERVICE_RUN_META_KEYS (service_run_values r)) ''service_run_updated_at'' = Some (dec_str (sr_updatedAt r))"
  "map_of (zip SERVICE_RUN_META_KEYS (service_run_values r)) ''service_run_outcome'' = Some (opt_text id (sr_outcome r))"
  "map_of (zip SERVICE_RUN_META_KEYS (service_run_values r)) ''service_run_last_status_at'' =
     Some (opt_text dec_str (sr_lastStatusAt r))"
  "map_of (zip SERVICE_RUN_META_KEYS (service_run_values r)) ''service_run_last_status_digest'' =
     Some (opt_text id (sr_lastStatusDigest r))"
  "map_of (zip SERVICE_RUN_META_KEYS (service_run_values r)) ''service_run_last_status_phase'' =
     Some (opt_text id (sr_lastStatusPhase r))"
  "map_of (zip SERVICE_RUN_META_KEYS (service_run_values r)) ''service_run_last_status_healthy'' =
     Some (opt_text (\<lambda>b. if b then ''1'' else ''0'') (sr_lastStatusHealthy r))"
  "map_of (zip SERVICE_RUN_META_KEYS (service_run_values r)) ''service_run_failure_window_seconds'' =
     Some (dec_str (sr_failureWindowSeconds r))"
  "map_of (zip SERVICE_RUN_META_KEYS (service_run_values r)) ''service_run_maximum_failures'' =
     Some (dec_str (sr_maximumFailures r))"
  "map_of (zip SERVICE_RUN_META_KEYS (service_run_values r)) ''service_run_failure_window_started_at'' =
     Some (opt_text dec_str (sr_failureWindowStartedAt r))"
  "map_of (zip SERVICE_RUN_META_KEYS (service_run_values r)) ''service_run_failure_count'' =
     Some (dec_str (sr_failureCount r))"
  "map_of (zip SERVICE_RUN_META_KEYS (service_run_values r)) ''service_run_last_failure_at'' =
     Some (opt_text dec_str (sr_lastFailureAt r))"
  "map_of (zip SERVICE_RUN_META_KEYS (service_run_values r)) ''service_run_last_failure_reason'' =
     Some (opt_text id (sr_lastFailureReason r))"
  unfolding SERVICE_RUN_META_KEYS_def service_run_values_def by simp_all

lemma journal_read:
  assumes "map_of (zip SERVICE_RUN_META_KEYS (service_run_values r)) k = Some v"
  shows "map_of (filter (\<lambda>(k, v). like_service_run k) (writeServiceRunState r m)) k = Some v"
proof -
  from assms have k: "k \<in> set SERVICE_RUN_META_KEYS" by (auto dest!: map_of_SomeD set_zip_leftD)
  then have "like_service_run k" using keys_like by (auto simp: list_all_iff)
  with assms k show ?thesis by (simp add: map_of_filter_like map_of_write)
qed

lemma run_ok_texts:
  assumes "run_ok r"
  shows "or_null (opt_text id (sr_outcome r)) = sr_outcome r"
    and "or_null (opt_text id (sr_lastStatusDigest r)) = sr_lastStatusDigest r"
    and "or_null (opt_text id (sr_lastStatusPhase r)) = sr_lastStatusPhase r"
    and "or_null (opt_text id (sr_lastFailureReason r)) = sr_lastFailureReason r"
proof -
  from assms have "opt_all (\<lambda>x. x \<noteq> []) (sr_outcome r)"
    by (auto simp: run_ok_def outcome_ok_def opt_all_def SERVICE_RUN_REASONS_def split: option.splits)
  then show "or_null (opt_text id (sr_outcome r)) = sr_outcome r" by (rule or_null_text)
  from assms have "opt_all is_bytes32 (sr_lastStatusDigest r)" "opt_all is_phase (sr_lastStatusPhase r)"
    "opt_all (\<lambda>x. x \<in> set FAILURE_REASONS) (sr_lastFailureReason r)"
    by (simp_all only: run_ok_def)
  then show "or_null (opt_text id (sr_lastStatusDigest r)) = sr_lastStatusDigest r"
    and "or_null (opt_text id (sr_lastStatusPhase r)) = sr_lastStatusPhase r"
    and "or_null (opt_text id (sr_lastFailureReason r)) = sr_lastFailureReason r"
    by (auto intro!: or_null_text elim!: opt_all_mono simp: is_bytes32_def is_phase_def FAILURE_REASONS_def)
qed

lemma some_keys: "SERVICE_RUN_META_KEYS \<noteq> []"
  by (simp add: SERVICE_RUN_META_KEYS_def)

lemma read_write:
  assumes ok: "run_ok r" and m: "meta_ok m"
  shows "readServiceRunState (writeServiceRunState r m) = Inr (Some r)"
proof -
  define rows where "rows = filter (\<lambda>(k, v). like_service_run k) (writeServiceRunState r m)"
  note rows = rows_after_write [OF m, of r, folded rows_def]
  have guards: "(rows = []) = False" "(length rows \<noteq> length SERVICE_RUN_META_KEYS) = False"
    "list_all (\<lambda>k. k \<in> fst ` set rows) SERVICE_RUN_META_KEYS = True"
    using rows some_keys by (force, simp, simp add: list_all_iff)
  note vals = journal_values [of r, THEN journal_read, of m, folded rows_def]
  note texts = run_ok_texts [OF ok]
  have parts: "is_bytes32 (sr_runDigest r)" "outcome_ok (sr_outcome r)"
    "safe_time (sr_startedAt r)" "safe_time (sr_updatedAt r)" "opt_all safe_time (sr_lastStatusAt r)"
    "opt_all is_bytes32 (sr_lastStatusDigest r)" "opt_all is_phase (sr_lastStatusPhase r)"
    "opt_all safe_time (sr_failureWindowStartedAt r)" "opt_all safe_time (sr_lastFailureAt r)"
    "opt_all (\<lambda>x. x \<in> set FAILURE_REASONS) (sr_lastFailureReason r)"
    "failures_consistent r" "times_consistent r" "lifecycle_consistent r"
    using ok by (simp_all only: run_ok_def)
  have safe: "safe_time (sr_failureWindowSeconds r)" "safe_time (sr_maximumFailures r)"
    "safe_time (sr_failureCount r)"
    using ok by (auto simp: run_ok_def safe_time_def MAX_SAFE_INTEGER_def failures_consistent_def)
  have identity: "(sr_mode r \<noteq> ACTIVE_SERVICE_MODE
      \<or> sr_state r \<notin> set [''RUNNING'', ''STOPPED'', ''FAILED'', ''BLOCKED'']) = False"
    using ok by (simp only: run_ok_def simp_thms)
  have digest: "bytes32 (JStr (sr_runDigest r)) n = Inr (sr_runDigest r)" for n
    using parts by (simp add: bytes32_def)
  have status: "(case sr_lastStatusDigest r of None \<Rightarrow> Inr ''''
        | Some d \<Rightarrow> bytes32 (JStr d) ''coordinator service run last status digest'') =
      Inr (case sr_lastStatusDigest r of None \<Rightarrow> '''' | Some d \<Rightarrow> d)"
    "(case sr_lastStatusPhase r of None \<Rightarrow> False | Some p \<Rightarrow> \<not> is_phase p) = False"
    "(case sr_lastFailureReason r of None \<Rightarrow> False | Some x \<Rightarrow> x \<notin> set FAILURE_REASONS) = False"
    using parts by (auto simp: opt_all_def bytes32_def split: option.splits)
  have "status_consistent r" using ok by (simp only: run_ok_def)
  then have joint: "((sr_lastStatusAt r = None) = (sr_lastStatusDigest r \<noteq> None)) = False"
    "((sr_lastStatusAt r = None) = (sr_lastStatusPhase r \<noteq> None)) = False"
    "((sr_lastStatusAt r = None) = (sr_lastStatusHealthy r \<noteq> None)) = False"
    by (auto simp: status_consistent_def)
  have bounds: "boundedInteger (JInt (sr_failureWindowSeconds r)) 60 3600 n = Inr (sr_failureWindowSeconds r)"
    "boundedInteger (JInt (sr_maximumFailures r)) 1 10 n = Inr (sr_maximumFailures r)" for n
    using ok by (auto simp: boundedInteger_Inr run_ok_def MAX_SAFE_INTEGER_def)
  have eta: "\<lparr>sr_runDigest = sr_runDigest r, sr_mode = sr_mode r, sr_state = sr_state r,
      sr_startedAt = sr_startedAt r, sr_updatedAt = sr_updatedAt r, sr_outcome = sr_outcome r,
      sr_lastStatusAt = sr_lastStatusAt r, sr_lastStatusDigest = sr_lastStatusDigest r,
      sr_lastStatusPhase = sr_lastStatusPhase r, sr_lastStatusHealthy = sr_lastStatusHealthy r,
      sr_failureWindowSeconds = sr_failureWindowSeconds r, sr_maximumFailures = sr_maximumFailures r,
      sr_failureWindowStartedAt = sr_failureWindowStartedAt r, sr_failureCount = sr_failureCount r,
      sr_lastFailureAt = sr_lastFailureAt r, sr_lastFailureReason = sr_lastFailureReason r\<rparr> = r"
    by simp
  show ?thesis
    unfolding readServiceRunState_def Let_def rows_def [symmetric]
    by (simp only: guards vals option.case texts digest identity parts safe parse_dec parse_opt_dec
        parse_opt_bool status joint bounds eta bindE_Inr if_True if_False simp_thms)
qed

section \<open>Every operation keeps the journal readable\<close>

definition journal_ok :: "store \<Rightarrow> bool" where
  "journal_ok s \<longleftrightarrow> meta_ok (meta s) \<and>
     (\<exists>r. readServiceRunState (meta s) = Inr r \<and> opt_all run_ok r)"

lemma journal_write:
  assumes "meta_ok (meta s)" and "run_ok r" and "s' = s\<lparr>meta := writeServiceRunState r (meta s)\<rparr>"
  shows "journal_ok s' \<and> readServiceRunState (meta s') = Inr (Some r)"
  using assms read_write [OF assms(2,1)] by (simp add: journal_ok_def meta_ok_write opt_all_def)

text \<open>A failure window as of a time, within a maximum.\<close>

definition window_ok :: "int \<Rightarrow> int \<Rightarrow> failure_window \<Rightarrow> bool" where
  "window_ok now maximum f \<longleftrightarrow> 0 \<le> fw_count f \<and> fw_count f \<le> maximum \<and>
     (if fw_count f = 0 then fw_startedAt f = None \<and> fw_lastAt f = None \<and> fw_reason f = None
      else \<exists>w l x. fw_startedAt f = Some w \<and> fw_lastAt f = Some l \<and> fw_reason f = Some x \<and>
        0 \<le> w \<and> w \<le> l \<and> l \<le> now \<and> x \<in> set FAILURE_REASONS)"

lemma window_ok_none: "0 \<le> maximum \<Longrightarrow> window_ok now maximum no_failures"
  by (simp add: window_ok_def no_failures_def)

lemma window_ok_of_run:
  assumes "run_ok r" and "sr_updatedAt r \<le> now"
  shows "window_ok now (sr_maximumFailures r) (failures_of (Some r))"
proof (cases "sr_failureCount r = 0")
  case True
  with assms show ?thesis
    by (auto simp: run_ok_def failures_consistent_def window_ok_def failures_of_def)
next
  case False
  with assms(1) obtain w l x where some: "sr_failureWindowStartedAt r = Some w" "sr_lastFailureAt r = Some l"
    "sr_lastFailureReason r = Some x"
    unfolding run_ok_def failures_consistent_def by auto
  from assms some have "0 \<le> w" "w \<le> l" "l \<le> sr_updatedAt r" "x \<in> set FAILURE_REASONS"
    "0 \<le> sr_failureCount r" "sr_failureCount r \<le> sr_maximumFailures r"
    unfolding run_ok_def failures_consistent_def times_consistent_def opt_all_def safe_time_def by auto
  with False some assms(2) show ?thesis by (simp add: window_ok_def failures_of_def)
qed

lemma abrupt_exit_reason: "''abrupt-exit'' \<in> set FAILURE_REASONS"
  by (simp add: FAILURE_REASONS_def)

text \<open>One more failure at a time.\<close>

lemma window_ok_add:
  assumes "window_ok now maximum f" and "fw_count f < maximum" and "0 \<le> now" and "x \<in> set FAILURE_REASONS"
  shows "window_ok now maximum \<lparr>fw_count = fw_count f + 1,
    fw_startedAt = (case fw_startedAt f of None \<Rightarrow> Some now | Some w \<Rightarrow> Some w),
    fw_lastAt = Some now, fw_reason = Some x\<rparr>"
  using assms by (auto simp: window_ok_def split: option.splits if_splits)

lemma begin_failures_ok:
  assumes prev: "opt_all run_ok previous" and "1 \<le> maximum" and "0 \<le> now"
    and before: "opt_all (\<lambda>r. sr_updatedAt r \<le> now) previous"
    and b: "begin_failures previous now window maximum = Inr f"
  shows "window_ok now maximum f"
proof (cases previous)
  case None
  with b have "f = no_failures"
    by (simp add: begin_failures_def Let_def failures_of_def no_failures_def)
  with assms(2) show ?thesis by (simp add: window_ok_none)
next
  case (Some r)
  with prev before have ok: "run_ok r" and upd: "sr_updatedAt r \<le> now" by (simp_all add: opt_all_def)
  note w = window_ok_of_run [OF ok upd]
  have running: "fw_count (failures_of (Some r)) < sr_maximumFailures r" if "sr_state r = ''RUNNING''"
    using ok that by (simp add: run_ok_def lifecycle_consistent_def failures_of_def)
  define g where "g = (if (case fw_startedAt (failures_of previous) of None \<Rightarrow> False
      | Some w \<Rightarrow> now - w \<ge> sr_failureWindowSeconds r) then no_failures else failures_of (Some r))"
  have g: "window_ok now maximum g \<and> (sr_state r = ''RUNNING'' \<longrightarrow> fw_count g < maximum)"
  proof (cases "g = no_failures")
    case True
    with assms(2) show ?thesis by (simp add: window_ok_none no_failures_def window_ok_def)
  next
    case False
    with b Some have "fw_count (failures_of (Some r)) > 0 \<or> sr_state r = ''RUNNING'' \<Longrightarrow>
        sr_maximumFailures r = maximum" and "g = failures_of (Some r)"
      by (auto simp: begin_failures_def Let_def g_def bindE_eq_Inr split: if_splits option.splits)
    with w running assms(2) show ?thesis
      by (cases "fw_count (failures_of (Some r)) > 0 \<or> sr_state r = ''RUNNING''")
        (auto simp: window_ok_def)
  qed
  have "f = (if sr_state r = ''RUNNING'' then \<lparr>fw_count = fw_count g + 1,
      fw_startedAt = (case fw_startedAt g of None \<Rightarrow> Some now | Some w \<Rightarrow> Some w),
      fw_lastAt = Some now, fw_reason = Some ''abrupt-exit''\<rparr> else g)"
    using b Some by (auto simp: begin_failures_def Let_def g_def bindE_eq_Inr split: if_splits option.splits)
  with g window_ok_add [OF _ _ assms(3) abrupt_exit_reason] show ?thesis by auto
qed

lemma new_run_ok:
  assumes "window_ok now maximum f" and "safe_time now" and "is_bytes32 d"
    and "60 \<le> window" "window \<le> 3600" "1 \<le> maximum" "maximum \<le> 10"
  shows "run_ok (new_run d ACTIVE_SERVICE_MODE now window maximum f)"
  using assms
  by (auto simp: run_ok_def new_run_def Let_def window_ok_def outcome_ok_def opt_all_def safe_time_def
      status_consistent_def failures_consistent_def times_consistent_def lifecycle_consistent_def
      split: if_splits)

text \<open>A start request that passed its checks.\<close>

definition start_ok :: "run_start \<Rightarrow> bool" where
  "start_ok v \<longleftrightarrow> safe_time (rn_startedAt v) \<and> is_bytes32 (rn_runDigest v) \<and>
     60 \<le> rn_failureWindowSeconds v \<and> rn_failureWindowSeconds v \<le> 3600 \<and>
     1 \<le> rn_maximumFailures v \<and> rn_maximumFailures v \<le> 10"

lemma normalizeRunStart_ok:
  assumes "normalizeRunStart H uuid input proc = Inr v" and "hex_digest H"
  shows "start_ok v"
  using assms digest_bytes32 [OF assms(2)]
  by (auto simp: normalizeRunStart_def bindE_eq_Inr if_Inl_eq_Inr integer_Inr boundedInteger_Inr start_ok_def
      safe_time_def)

lemma begin_run_ok:
  assumes "journal_ok s" and v: "start_ok v" and "begin_run v s = Inr (s', run)"
  shows "journal_ok s' \<and> readServiceRunState (meta s') = Inr (Some run) \<and> run_ok run \<and>
    sr_runDigest run = rn_runDigest v"
proof -
  from assms(1) obtain previous where m: "meta_ok (meta s)"
    and read: "readServiceRunState (meta s) = Inr previous" and prev: "opt_all run_ok previous"
    by (auto simp: journal_ok_def)
  from assms(3) read obtain f where
    clock: "opt_all (\<lambda>r. sr_updatedAt r \<le> rn_startedAt v) previous"
    and f: "begin_failures previous (rn_startedAt v) (rn_failureWindowSeconds v) (rn_maximumFailures v) = Inr f"
    and run: "run = new_run (rn_runDigest v) ACTIVE_SERVICE_MODE (rn_startedAt v) (rn_failureWindowSeconds v)
      (rn_maximumFailures v) f"
    and s': "s' = s\<lparr>meta := writeServiceRunState run (meta s)\<rparr>"
    by (auto simp: begin_run_def bindE_eq_Inr if_Inl_eq_Inr Let_def opt_all_def split: option.splits)
  have "window_ok (rn_startedAt v) (rn_maximumFailures v) f"
    by (rule begin_failures_ok [OF prev _ _ clock f]) (use v in \<open>auto simp: start_ok_def safe_time_def\<close>)
  with v have "run_ok run" unfolding run by (intro new_run_ok) (auto simp: start_ok_def)
  with journal_write [OF m this s'] show ?thesis by (simp add: run new_run_def Let_def)
qed

text \<open>The phases the validators report fit the journal.\<close>

definition phases_ok :: "status_validators \<Rightarrow> bool" where
  "phases_ok V \<longleftrightarrow> (\<forall>v p. validateBootstrap V v = Inr p \<or> validateActive V v = Inr p \<longrightarrow> is_phase p)"

lemma serviceStatusSummary_Inr:
  assumes "serviceStatusSummary H V status at started = Inr (d, phase, healthy)"
    and "hex_digest H" and "phases_ok V"
  shows "is_bytes32 d \<and> is_phase phase"
  using assms digest_bytes32 [OF assms(2), of status]
  by (auto simp: serviceStatusSummary_def bindE_eq_Inr phases_ok_def split: jsval.splits if_splits)

lemma journal_cases:
  assumes "journal_ok s"
  obtains (never) "meta_ok (meta s)" "readServiceRunState (meta s) = Inr None"
  | (run) r where "meta_ok (meta s)" "readServiceRunState (meta s) = Inr (Some r)" "run_ok r"
proof -
  from assms obtain o1 where o1: "meta_ok (meta s)" "readServiceRunState (meta s) = Inr o1" "opt_all run_ok o1"
    by (auto simp: journal_ok_def)
  then show thesis by (cases o1) (auto simp: opt_all_def intro: never run)
qed

lemma status_run_ok:
  assumes "run_ok r" and "sr_state r = ''RUNNING''" and "sr_startedAt r \<le> at"
    and "opt_all (\<lambda>t. t \<le> at) (sr_lastStatusAt r)" and "safe_time at" and "is_bytes32 d" and "is_phase p"
  shows "run_ok (r\<lparr>sr_updatedAt := at, sr_lastStatusAt := Some at, sr_lastStatusDigest := Some d,
    sr_lastStatusPhase := Some p, sr_lastStatusHealthy := Some h\<rparr>)"
proof -
  have "sr_updatedAt r \<le> at"
    using assms by (auto simp: run_ok_def opt_all_def split: option.splits)
  with assms show ?thesis
    unfolding run_ok_def status_consistent_def failures_consistent_def times_consistent_def lifecycle_consistent_def
    by (auto simp: opt_all_def split: option.splits)
qed

lemma record_status_ok:
  assumes "journal_ok s" and "hex_digest H" and "phases_ok V" and "safe_time at"
    and "record_status H V d at status s = Inr (s', run)"
  shows "journal_ok s' \<and> readServiceRunState (meta s') = Inr (Some run) \<and>
    sr_state run = ''RUNNING'' \<and> sr_runDigest run = d"
  using assms(1)
proof (cases rule: journal_cases)
  case never
  with assms(5) show ?thesis by (simp add: record_status_def)
next
  case (run r)
  from assms(5) run(2) have guards: "sr_state r = ''RUNNING''" "sr_runDigest r = d" "sr_startedAt r \<le> at"
    "opt_all (\<lambda>t. t \<le> at) (sr_lastStatusAt r)"
    by (auto simp: record_status_def opt_all_def split: if_splits option.splits)
  with assms(5) run(2) obtain sd phase healthy where
    st: "serviceStatusSummary H V status at (sr_startedAt r) = Inr (sd, phase, healthy)"
    and upd: "run = r\<lparr>sr_updatedAt := at, sr_lastStatusAt := Some at, sr_lastStatusDigest := Some sd,
       sr_lastStatusPhase := Some phase, sr_lastStatusHealthy := Some healthy\<rparr>"
    and s': "s' = s\<lparr>meta := writeServiceRunState run (meta s)\<rparr>"
    by (auto simp: record_status_def bindE_eq_Inr Let_def split: if_splits)
  from serviceStatusSummary_Inr [OF st assms(2,3)]
  have "run_ok run" unfolding upd by (intro status_run_ok [OF run(3) guards(1,3,4) assms(4)]) auto
  from journal_write [OF run(1) this s'] guards show ?thesis by (simp add: upd)
qed

lemma finish_failures_ok:
  assumes "run_ok r" and "sr_state r = ''RUNNING''" and "sr_updatedAt r \<le> at" and "0 \<le> at"
  shows "window_ok at (sr_maximumFailures r) (finish_failures r reason at) \<and>
    (reason \<in> set FAILURE_REASONS \<longrightarrow>
       fw_count (finish_failures r reason at) \<noteq> 0 \<and> fw_reason (finish_failures r reason at) = Some reason)"
proof -
  have w: "window_ok at (sr_maximumFailures r) (failures_of (Some r))"
    by (rule window_ok_of_run [OF assms(1,3)])
  have lt: "fw_count (failures_of (Some r)) < sr_maximumFailures r" and max: "1 \<le> sr_maximumFailures r"
    using assms(1,2) by (auto simp: run_ok_def lifecycle_consistent_def failures_of_def)
  show ?thesis
    using w lt max assms(4)
    by (auto simp: finish_failures_def Let_def window_ok_none)
      (auto simp: window_ok_def split: if_splits option.splits)
qed

lemma finish_record_ok:
  assumes "run_ok r" and "sr_state r = ''RUNNING''" and "sr_updatedAt r \<le> at" and "safe_time at"
    and "reason \<in> set SERVICE_RUN_REASONS" and "f = finish_failures r reason at"
  shows "run_ok (r\<lparr>sr_state := (if reason \<in> set FAILURE_REASONS then ''FAILED'' else ''STOPPED''),
     sr_updatedAt := at, sr_outcome := Some reason, sr_failureCount := fw_count f,
     sr_failureWindowStartedAt := fw_startedAt f, sr_lastFailureAt := fw_lastAt f,
     sr_lastFailureReason := fw_reason f\<rparr>)" (is "run_ok ?r")
proof -
  have at0: "0 \<le> at" using assms(4) by (simp add: safe_time_def)
  note w = finish_failures_ok [OF assms(1-3) at0, of reason, folded assms(6)]
  have win: "failures_consistent ?r" "opt_all safe_time (fw_startedAt f)" "opt_all safe_time (fw_lastAt f)"
    "0 \<le> fw_count f" "opt_all (\<lambda>x. x \<in> set FAILURE_REASONS) (fw_reason f)"
    using w assms(4) by (auto simp: failures_consistent_def window_ok_def opt_all_def safe_time_def split: if_splits)
  have times: "times_consistent ?r"
    using w assms(1,3) by (auto simp: times_consistent_def run_ok_def window_ok_def split: if_splits option.splits)
  have life: "lifecycle_consistent ?r" "outcome_ok (Some reason)"
    using w assms(5) by (auto simp: lifecycle_consistent_def outcome_ok_def SERVICE_RUN_REASONS_def FAILURE_REASONS_def)
  have status: "status_consistent ?r"
    using assms(1) by (auto simp: run_ok_def status_consistent_def)
  show ?thesis
    using win times life status assms(1,4) unfolding run_ok_def by simp
qed

lemma finish_run_ok:
  assumes "journal_ok s" and "safe_time at" and "reason \<in> set SERVICE_RUN_REASONS"
    and "finish_run d at reason s = Inr (s', run)"
  shows "journal_ok s' \<and> readServiceRunState (meta s') = Inr (Some run)"
  using assms(1)
proof (cases rule: journal_cases)
  case never
  with assms(4) show ?thesis by (simp add: finish_run_def)
next
  case (run r)
  from assms(4) run(2) have guards: "sr_state r = ''RUNNING''" "sr_updatedAt r \<le> at"
    by (auto simp: finish_run_def split: if_splits)
  from assms(4) run(2) have upd: "run = r\<lparr>sr_state := (if reason \<in> set FAILURE_REASONS then ''FAILED'' else ''STOPPED''),
     sr_updatedAt := at, sr_outcome := Some reason,
     sr_failureCount := fw_count (finish_failures r reason at),
     sr_failureWindowStartedAt := fw_startedAt (finish_failures r reason at),
     sr_lastFailureAt := fw_lastAt (finish_failures r reason at),
     sr_lastFailureReason := fw_reason (finish_failures r reason at)\<rparr>"
    and s': "s' = s\<lparr>meta := writeServiceRunState run (meta s)\<rparr>"
    by (auto simp: finish_run_def Let_def split: if_splits)
  have "run_ok run" unfolding upd by (rule finish_record_ok [OF run(3) guards assms(2,3) refl])
  from journal_write [OF run(1) this s'] show ?thesis .
qed

section \<open>The service machine\<close>

text \<open>
  The live handle of a process belongs to the run the journal records as running.
\<close>

definition service_inv :: "store \<times> process \<Rightarrow> bool" where
  "service_inv sp \<longleftrightarrow> journal_ok (fst sp) \<and>
     (case activeHandle (snd sp) of None \<Rightarrow> True
      | Some h \<Rightarrow> h < length (handles (snd sp)) \<and>
          (\<exists>r. readServiceRunState (meta (fst sp)) = Inr (Some r) \<and> sr_state r = ''RUNNING'' \<and>
             sr_runDigest r = rc_runDigest (handles (snd sp) ! h)))"

lemma inv_no_handle: "journal_ok s \<Longrightarrow> activeHandle proc = None \<Longrightarrow> service_inv (s, proc)"
  by (simp add: service_inv_def)

lemma begin_service_inv:
  assumes "service_inv (s, proc)" and "hex_digest H"
  shows "service_inv (fst (beginServiceRun H uuid input (s, proc)))"
proof (cases "normalizeRunStart H uuid input proc")
  case (Inl e)
  with assms show ?thesis by (simp add: beginServiceRun_def)
next
  case (Inr v)
  note v = normalizeRunStart_ok [OF Inr assms(2)]
  have idle: "activeHandle proc = None"
    using Inr by (auto simp: normalizeRunStart_def bindE_eq_Inr if_Inl_eq_Inr)
  have ok: "journal_ok s" using assms(1) by (simp add: service_inv_def)
  show ?thesis
  proof (cases "begin_run v s")
    case (Inl e)
    with Inr assms(1) show ?thesis by (simp add: beginServiceRun_def transaction_def)
  next
    case (Inr r)
    obtain s' run where r: "r = (s', run)" by (cases r)
    note b = begin_run_ok [OF ok v Inr [unfolded r]]
    show ?thesis
    proof (cases "sr_state run = ''BLOCKED''")
      case True
      with \<open>normalizeRunStart H uuid input proc = Inr v\<close> Inr r b idle show ?thesis
        by (simp add: beginServiceRun_def transaction_def inv_no_handle)
    next
      case False
      with b have "sr_state run = ''RUNNING''"
        using Inr r by (auto simp: begin_run_def bindE_eq_Inr if_Inl_eq_Inr Let_def new_run_def)
      with \<open>normalizeRunStart H uuid input proc = Inr v\<close> Inr r b False show ?thesis
        by (simp add: beginServiceRun_def transaction_def Let_def service_inv_def)
    qed
  qed
qed

lemma live_context_Some:
  "live_context h proc = Some c \<Longrightarrow>
     h < length (handles proc) \<and> activeHandle proc = Some h \<and> c = handles proc ! h"
  by (auto simp: live_context_def split: if_splits)

lemma record_service_inv:
  assumes "service_inv (s, proc)" and "hex_digest H" and "phases_ok V"
  shows "service_inv (fst (recordServiceRunStatus H V h observedAt status (s, proc)))"
proof (cases "live_context h proc")
  case (Some c)
  note live = live_context_Some [OF Some]
  show ?thesis
  proof (cases "integer observedAt ''coordinator service run status observedAt''")
    case (Inr at)
    then have t: "safe_time at" by (simp add: integer_Inr safe_time_def)
    show ?thesis
    proof (cases "record_status H V (rc_runDigest c) at status s")
      case (Inl e)
      with Some Inr assms(1) show ?thesis by (simp add: recordServiceRunStatus_def transaction_def)
    next
      case r: (Inr r)
      obtain s' run where p: "r = (s', run)" by (cases r)
      have "journal_ok s" using assms(1) by (simp add: service_inv_def)
      from record_status_ok [OF this assms(2,3) t r [unfolded p]] Some Inr r p live show ?thesis
        by (simp add: recordServiceRunStatus_def transaction_def service_inv_def)
    qed
  qed (use Some assms(1) in \<open>simp add: recordServiceRunStatus_def\<close>)
qed (use assms(1) in \<open>simp add: recordServiceRunStatus_def\<close>)

lemma finish_service_inv:
  assumes "service_inv (s, proc)"
  shows "service_inv (fst (finishServiceRun h finishedAt reason (s, proc)))"
proof (cases "live_context h proc")
  case (Some c)
  show ?thesis
  proof (cases "bindE (integer finishedAt ''coordinator service run finishedAt'') (\<lambda>at.
      let text = js_text reason in
      if text \<notin> set SERVICE_RUN_REASONS
      then Inl (TypeError ''coordinator service run reason is invalid'') else Inr (at, text))")
    case (Inr v)
    obtain at why where v: "v = (at, why)" by (cases v)
    with Inr have t: "safe_time at" "why \<in> set SERVICE_RUN_REASONS"
      by (auto simp: bindE_eq_Inr Let_def integer_Inr safe_time_def split: if_splits)
    show ?thesis
    proof (cases "finish_run (rc_runDigest c) at why s")
      case (Inl e)
      with Some Inr v assms(1) show ?thesis by (simp add: finishServiceRun_def transaction_def)
    next
      case r: (Inr r)
      obtain s' run where p: "r = (s', run)" by (cases r)
      have "journal_ok s" using assms(1) by (simp add: service_inv_def)
      from finish_run_ok [OF this t r [unfolded p]] Some Inr v r p show ?thesis
        by (simp add: finishServiceRun_def transaction_def inv_no_handle)
    qed
  qed (use Some assms(1) in \<open>simp add: finishServiceRun_def\<close>)
qed (use assms(1) in \<open>simp add: finishServiceRun_def\<close>)

text \<open>
  The machine: service operations with any input, a crash at any point, and writes of the other
  metadata keys by the rest of the store.
\<close>

inductive service_step ::
    "(string \<Rightarrow> string) \<Rightarrow> status_validators \<Rightarrow> store \<times> process \<Rightarrow> store \<times> process \<Rightarrow> bool"
  for H :: "string \<Rightarrow> string" and V :: status_validators where
  step_begin: "service_step H V sp (fst (beginServiceRun H uuid input sp))"
| step_record: "service_step H V sp (fst (recordServiceRunStatus H V h observedAt status sp))"
| step_finish: "service_step H V sp (fst (finishServiceRun h finishedAt reason sp))"
| step_restart: "service_step H V sp (restart_process sp)"
| step_meta: "\<not> like_service_run k \<Longrightarrow>
    service_step H V (s, proc) (s\<lparr>meta := upsert k v (meta s)\<rparr>, proc)"

inductive_cases service_step_cases: "service_step H V sp sp'"

lemma filter_upsert_other:
  "\<not> like_service_run k \<Longrightarrow>
     filter (\<lambda>(k, v). like_service_run k) (upsert k v m) = filter (\<lambda>(k, v). like_service_run k) m"
proof -
  assume k: "\<not> like_service_run k"
  have "filter (\<lambda>(k, v). like_service_run k) (map (\<lambda>(k', v'). (k', if k' = k then v else v')) m) =
      filter (\<lambda>(k, v). like_service_run k) m"
    using k by (induction m) auto
  with k show ?thesis by (simp add: upsert_def)
qed

lemma meta_service_inv:
  assumes "service_inv (s, proc)" and "\<not> like_service_run k"
  shows "service_inv (s\<lparr>meta := upsert k v (meta s)\<rparr>, proc)"
proof -
  have "meta_ok (meta s)" using assms(1) by (simp add: service_inv_def journal_ok_def)
  then have "meta_ok (upsert k v (meta s))"
    using assms(2) by (simp add: meta_ok_def distinct_upsert keys_upsert)
  moreover have "readServiceRunState (upsert k v (meta s)) = readServiceRunState (meta s)"
    by (simp add: readServiceRunState_def filter_upsert_other [OF assms(2)])
  ultimately show ?thesis using assms(1) unfolding service_inv_def journal_ok_def by (simp split: option.splits)
qed

definition service_init :: "store \<times> process \<Rightarrow> bool" where
  "service_init sp \<longleftrightarrow> sp = (empty_store, fresh_process)"

lemma service_inv_init: "service_init sp \<Longrightarrow> service_inv sp"
  by (simp add: service_init_def service_inv_def journal_ok_def empty_store_def fresh_process_def meta_ok_def
      readServiceRunState_def opt_all_def)

lemma service_inv_step:
  assumes "service_inv sp" and "service_step H V sp sp'" and "hex_digest H" and "phases_ok V"
  shows "service_inv sp'"
  using assms(2,1)
proof (cases rule: service_step.cases)
  case (step_begin uuid input)
  with assms begin_service_inv show ?thesis by (cases sp) auto
next
  case (step_record h observedAt status)
  with assms record_service_inv show ?thesis by (cases sp) auto
next
  case (step_finish h finishedAt reason)
  with assms finish_service_inv show ?thesis by (cases sp) auto
next
  case step_restart
  with assms show ?thesis by (simp add: restart_process_def service_inv_def fresh_process_def)
next
  case (step_meta k s proc v)
  with assms meta_service_inv show ?thesis by auto
qed

interpretation service: machine service_init "service_step H V"
  "\<lambda>sp. hex_digest H \<and> phases_ok V \<longrightarrow> service_inv sp"
  by unfold_locales (auto intro: service_inv_init service_inv_step)

text \<open>
  Property C23.  In every state the service operations, crashes and other metadata writes can reach,
  the run journal reads back without error as a well-formed entry, and a live handle always denotes
  the run the journal records as running, so a running service is never locked out of its own record.
\<close>

theorem service_journal_always_readable:
  assumes "reachable service_init (service_step H V) (s, proc)" and "hex_digest H" and "phases_ok V"
  shows "\<exists>r. readServiceRunState (meta s) = Inr r \<and> opt_all run_ok r \<and>
     (\<forall>h c. live_context h proc = Some c \<longrightarrow>
        (\<exists>run. r = Some run \<and> sr_state run = ''RUNNING'' \<and> sr_runDigest run = rc_runDigest c))"
proof -
  have inv: "service_inv (s, proc)" using service.inv_reachable [OF assms(1)] assms(2,3) by simp
  then obtain r where r: "readServiceRunState (meta s) = Inr r" "opt_all run_ok r"
    by (auto simp: service_inv_def journal_ok_def)
  have "\<exists>run. r = Some run \<and> sr_state run = ''RUNNING'' \<and> sr_runDigest run = rc_runDigest c"
    if "live_context h proc = Some c" for h c
    using inv live_context_Some [OF that] r by (auto simp: service_inv_def)
  with r show ?thesis by blast
qed

definition sample_hex :: "string \<Rightarrow> string" where
  "sample_hex t = replicate 64 (CHR ''5'')"

definition sample_validators :: status_validators where
  "sample_validators = \<lparr>validateBootstrap = (\<lambda>v. Inr ''preparing''), validateActive = (\<lambda>v. Inr ''active'')\<rparr>"

definition sample_start :: "int \<Rightarrow> int \<Rightarrow> jsval" where
  "sample_start at maximum = JObj [(''failureWindowSeconds'', JInt 600), (''maximumFailures'', JInt maximum),
     (''mode'', JStr ACTIVE_SERVICE_MODE), (''startedAt'', JInt at)]"

lemma sample_hex_digest: "hex_digest sample_hex"
  by (simp add: hex_digest_def sample_hex_def is_hex_lower_def list_all_iff)

lemma sample_phases: "phases_ok sample_validators"
proof -
  have "is_phase ''preparing''" "is_phase ''active''" by code_simp+
  then show ?thesis by (auto simp: phases_ok_def sample_validators_def)
qed

theorem service_journal_always_readable_witness:
  "\<exists>sp r. sp = fst (beginServiceRun sample_hex ''u'' (sample_start 1000 2) (empty_store, fresh_process)) \<and>
     live_context 0 (snd sp) \<noteq> None \<and> readServiceRunState (meta (fst sp)) = Inr r \<and> opt_all run_ok r"
proof -
  let ?sp = "fst (beginServiceRun sample_hex ''u'' (sample_start 1000 2) (empty_store, fresh_process))"
  have "live_context 0 (snd ?sp) \<noteq> None" by code_simp
  have "reachable service_init (service_step sample_hex sample_validators) (fst ?sp, snd ?sp)"
    unfolding prod.collapse
    by (rule reach_step, rule reach_init, unfold service_init_def, rule refl, rule step_begin)
  from service_journal_always_readable [OF this sample_hex_digest sample_phases]
  obtain r where "readServiceRunState (meta (fst ?sp)) = Inr r" "opt_all run_ok r"
    by (elim exE conjE) (rule that)
  with \<open>live_context 0 (snd ?sp) \<noteq> None\<close> show ?thesis
    by (intro exI [of _ ?sp] exI [of _ r] conjI refl)
qed

text \<open>
  The crash-loop breaker opens.  When a service starts over an abandoned run, inside
  the failure window and under the same policy, and the abandoned run is the last failure allowed,
  the start is refused, no handle is issued, and the refusal is durable: the journal records the
  blocked state with the counted failure, although the operation throws.
\<close>

theorem crash_loop_breaker_opens:
  assumes "journal_ok s" and "hex_digest H" and "normalizeRunStart H uuid input proc = Inr v"
    and "readServiceRunState (meta s) = Inr (Some r)" and "sr_state r = ''RUNNING''"
    and "sr_updatedAt r \<le> rn_startedAt v"
    and "sr_failureWindowSeconds r = rn_failureWindowSeconds v" "sr_maximumFailures r = rn_maximumFailures v"
    and "\<And>w. sr_failureWindowStartedAt r = Some w \<Longrightarrow> rn_startedAt v - w < sr_failureWindowSeconds r"
    and "sr_maximumFailures r = sr_failureCount r + 1"
  shows "\<exists>s' blocked. beginServiceRun H uuid input (s, proc) =
      ((s', proc), Inl (Error ''coordinator active service crash-loop breaker is open'')) \<and>
     readServiceRunState (meta s') = Inr (Some blocked) \<and> sr_state blocked = ''BLOCKED'' \<and>
     sr_failureCount blocked = sr_maximumFailures r \<and> sr_lastFailureReason blocked = Some ''abrupt-exit''"
proof -
  from assms(1,4) have ok: "run_ok r" by (auto simp: journal_ok_def opt_all_def)
  then have started: "sr_startedAt r \<le> rn_startedAt v"
    using assms(6) by (auto simp: run_ok_def times_consistent_def)
  define f where "f = \<lparr>fw_count = sr_failureCount r + 1,
    fw_startedAt = (case sr_failureWindowStartedAt r of None \<Rightarrow> Some (rn_startedAt v) | Some w \<Rightarrow> Some w),
    fw_lastAt = Some (rn_startedAt v), fw_reason = Some ''abrupt-exit''\<rparr>"
  have "\<not> (case sr_failureWindowStartedAt r of None \<Rightarrow> False
      | Some w \<Rightarrow> rn_startedAt v - w \<ge> rn_failureWindowSeconds v)"
    using assms(7,9) by (force split: option.splits)
  then have f: "begin_failures (Some r) (rn_startedAt v) (rn_failureWindowSeconds v) (rn_maximumFailures v) = Inr f"
    using assms(5,7,8) by (simp add: begin_failures_def Let_def failures_of_def f_def)
  define run where "run = new_run (rn_runDigest v) ACTIVE_SERVICE_MODE (rn_startedAt v)
    (rn_failureWindowSeconds v) (rn_maximumFailures v) f"
  have b: "begin_run v s = Inr (s\<lparr>meta := writeServiceRunState run (meta s)\<rparr>, run)"
    using assms(4,6) f started by (simp add: begin_run_def Let_def run_def not_less)
  from begin_run_ok [OF assms(1) normalizeRunStart_ok [OF assms(3,2)] b]
  have "readServiceRunState (meta (s\<lparr>meta := writeServiceRunState run (meta s)\<rparr>)) = Inr (Some run)" by blast
  moreover have "sr_state run = ''BLOCKED''" "sr_failureCount run = sr_maximumFailures r"
    "sr_lastFailureReason run = Some ''abrupt-exit''"
    using assms(8,10) by (simp_all add: run_def new_run_def Let_def f_def)
  ultimately show ?thesis
    using assms(3) b by (simp add: beginServiceRun_def transaction_def)
qed

theorem crash_loop_breaker_opens_witness:
  "\<exists>s s' blocked. s = fst (fst (beginServiceRun sample_hex ''u'' (sample_start 1000 1)
       (empty_store, fresh_process))) \<and>
     beginServiceRun sample_hex ''w'' (sample_start 1060 1) (s, fresh_process) =
       ((s', fresh_process), Inl (Error ''coordinator active service crash-loop breaker is open'')) \<and>
     readServiceRunState (meta s') = Inr (Some blocked) \<and> sr_state blocked = ''BLOCKED''"
proof -
  let ?sp = "fst (beginServiceRun sample_hex ''u'' (sample_start 1000 1) (empty_store, fresh_process))"
  let ?r = "new_run (''0x'' @ replicate 64 (CHR ''5'')) ACTIVE_SERVICE_MODE 1000 600 1 no_failures"
  let ?v = "\<lparr>rn_startedAt = 1060, rn_failureWindowSeconds = 600, rn_maximumFailures = 1,
    rn_runDigest = ''0x'' @ replicate 64 (CHR ''5'')\<rparr>"
  have "service_inv ?sp"
    by (rule begin_service_inv [OF service_inv_init sample_hex_digest]) (simp add: service_init_def)
  then have "journal_ok (fst ?sp)" by (simp add: service_inv_def)
  moreover have "normalizeRunStart sample_hex ''w'' (sample_start 1060 1) fresh_process = Inr ?v" by code_simp
  moreover have "readServiceRunState (meta (fst ?sp)) = Inr (Some ?r)" by code_simp
  ultimately show ?thesis
    using crash_loop_breaker_opens [where s = "fst ?sp" and H = sample_hex and uuid = "''w''"
        and input = "sample_start 1060 1" and proc = fresh_process and v = ?v and r = ?r] sample_hex_digest
    by (auto simp: new_run_def no_failures_def Let_def)
qed

end
