(* ===== verification/Coordinator_Machine.thy ===== *)
theory Coordinator_Machine
  imports Settlement_Invariant Store_Service_Run
begin

text \<open>
  The coordinator as a machine: every public operation of the store with any input, interleaved in any
  order with the service-run operations and with crashes.  The invariant of the ledger and of the
  settlements holds in every reachable state, and what an operation writes is never taken back.
\<close>

section \<open>The calls a coordinator serves\<close>

text \<open>One constructor per public method that writes, with its arguments.\<close>

datatype store_call =
    AdmitRfq jsval | CancelRfqs jsval | ExpireRfqs jsval jsval | ReconcileRfqFinalizationRestart jsval
  | ResolveRfq jsval | RecordSolverCapacity jsval | ReserveVerifiedFirmOffer jsval | BindFirmOfferExecution jsval
  | BindFirmOfferUserAuthorization jsval | RecordFirmOfferOutcome jsval
  | AcceptSettlement jsval | AcceptAuthorizedFirmOfferSettlement jsval | BindContractIntent jsval
  | BindSettlementExecutionPolicy jsval | RecordReservation jsval | PlanAction jsval
  | BindEvmTransaction jsval | ClaimEvmBroadcast jsval jsval | RecordEvmInclusion jsval
  | ClaimAction jsval jsval | RecordActionResult jsval | RecoverInterruptedActions jsval
  | RecoverInterruptedAction jsval jsval | ReconcileAction jsval | HaltSettlement jsval | RecordTerminal jsval

fun perform :: "(string \<Rightarrow> string) \<Rightarrow> ethers \<Rightarrow> store_call \<Rightarrow> store \<Rightarrow> store" where
  "perform H E (AdmitRfq i) s = fst (admitRfq H i s)"
| "perform H E (CancelRfqs i) s = fst (cancelRfqs H i s)"
| "perform H E (ExpireRfqs at limit) s = fst (expireRfqs H at limit s)"
| "perform H E (ReconcileRfqFinalizationRestart i) s = fst (reconcileRfqFinalizationRestart H i s)"
| "perform H E (ResolveRfq i) s = fst (resolveRfq H i s)"
| "perform H E (RecordSolverCapacity i) s = fst (recordSolverCapacity H i s)"
| "perform H E (ReserveVerifiedFirmOffer i) s = fst (reserveVerifiedFirmOffer H i s)"
| "perform H E (BindFirmOfferExecution i) s = fst (bindFirmOfferExecution H i s)"
| "perform H E (BindFirmOfferUserAuthorization i) s = fst (bindFirmOfferUserAuthorization i s)"
| "perform H E (RecordFirmOfferOutcome i) s = fst (recordFirmOfferOutcome_store H i s)"
| "perform H E (AcceptSettlement i) s = fst (acceptSettlement H i s)"
| "perform H E (AcceptAuthorizedFirmOfferSettlement i) s = fst (acceptAuthorizedFirmOfferSettlement H i s)"
| "perform H E (BindContractIntent i) s = fst (bindContractIntent H E i s)"
| "perform H E (BindSettlementExecutionPolicy i) s = fst (bindSettlementExecutionPolicy H i s)"
| "perform H E (RecordReservation i) s = fst (recordReservation H i s)"
| "perform H E (PlanAction i) s = fst (planAction H i s)"
| "perform H E (BindEvmTransaction i) s = fst (bindEvmTransaction H i s)"
| "perform H E (ClaimEvmBroadcast k at) s = fst (claimEvmBroadcast k at s)"
| "perform H E (RecordEvmInclusion i) s = fst (recordEvmInclusion i s)"
| "perform H E (ClaimAction k at) s = fst (claimAction k at s)"
| "perform H E (RecordActionResult i) s = fst (recordActionResult i s)"
| "perform H E (RecoverInterruptedActions at) s = fst (recoverInterruptedActions H at s)"
| "perform H E (RecoverInterruptedAction k at) s = fst (recoverInterruptedAction H k at s)"
| "perform H E (ReconcileAction i) s = fst (reconcileAction i s)"
| "perform H E (HaltSettlement i) s = fst (haltSettlement i s)"
| "perform H E (RecordTerminal i) s = fst (recordTerminal i s)"

lemma public_invariant:
  assumes "P s" and "\<And>v s' r. m = Inr v \<Longrightarrow> body v s = Inr (s', r) \<Longrightarrow> P s'"
  shows "P (fst (withInput m (\<lambda>v. transaction (body v)) s))"
  by (rule withInput_invariant [where P = P, OF assms(1)], rule transaction_invariant [where P = P, OF assms(1)])
    (rule assms(2))

lemma admission_ok:
  assumes ok: "store_ok H E z s"
  shows "store_ok H E z (perform H E (AdmitRfq i) s)" "store_ok H E z (perform H E (CancelRfqs i) s)"
    "store_ok H E z (perform H E (ExpireRfqs i j) s)"
    "store_ok H E z (perform H E (ReconcileRfqFinalizationRestart i) s)"
    "store_ok H E z (perform H E (ResolveRfq i) s)" "store_ok H E z (perform H E (RecordSolverCapacity i) s)"
    "store_ok H E z (perform H E (ReserveVerifiedFirmOffer i) s)"
    "store_ok H E z (perform H E (BindFirmOfferExecution i) s)"
    "store_ok H E z (perform H E (BindFirmOfferUserAuthorization i) s)"
    "store_ok H E z (perform H E (RecordFirmOfferOutcome i) s)"
proof -
  have ledger: "ledger_ok s" using ok by (simp add: store_ok_def)
  have keep: "store_ok H E z s'" if "ledger_ok s' \<and> spares s s' \<or> ledger_ok s' \<and> same_rows s s'" for s'
    using that store_ok_same_rows [OF ok] by (auto simp: spares_def)
  note p = public_invariant [where P = "store_ok H E z", OF ok]
  show "store_ok H E z (perform H E (AdmitRfq i) s)"
    unfolding perform.simps admitRfq_def by (rule p) (blast intro: keep dest: admit_body_ledger [OF _ ledger])
  show "store_ok H E z (perform H E (CancelRfqs i) s)"
    unfolding perform.simps cancelRfqs_def by (rule p) (blast intro: keep dest: cancel_body_ledger [OF _ ledger])
  show "store_ok H E z (perform H E (ExpireRfqs i j) s)"
    unfolding perform.simps expireRfqs_def case_prod_beta
    by (rule p) (blast intro: keep dest: expireRfqRequests_ledger [OF _ ledger])
  show "store_ok H E z (perform H E (ReconcileRfqFinalizationRestart i) s)"
    unfolding perform.simps reconcileRfqFinalizationRestart_def case_prod_beta
    by (rule p) (blast intro: keep dest: restart_body_ledger [OF _ ledger])
  show "store_ok H E z (perform H E (ResolveRfq i) s)"
    unfolding perform.simps resolveRfq_def case_prod_beta
    by (rule p) (blast intro: keep dest: resolve_body_ledger [OF _ ledger])
  show "store_ok H E z (perform H E (RecordSolverCapacity i) s)"
    unfolding perform.simps recordSolverCapacity_def case_prod_beta
    by (rule p) (auto simp: bindE_eq_Inr intro!: keep dest!: normalizeSolverSnapshot_nonneg
        record_capacity_ledger [OF _ ledger])
  show "store_ok H E z (perform H E (ReserveVerifiedFirmOffer i) s)"
    unfolding perform.simps reserveVerifiedFirmOffer_def case_prod_beta
    by (rule p) (auto simp: bindE_eq_Inr intro!: keep dest!: normalizeFirmOfferReservation_Inr
        reserve_body_ledger [OF _ _ ledger])
  show "store_ok H E z (perform H E (BindFirmOfferExecution i) s)"
    unfolding perform.simps bindFirmOfferExecution_def case_prod_beta
    by (rule p) (blast intro: keep dest: execution_body_ledger [OF _ ledger])
  show "store_ok H E z (perform H E (BindFirmOfferUserAuthorization i) s)"
    unfolding perform.simps bindFirmOfferUserAuthorization_def
    by (rule p) (blast intro: keep dest: authorization_body_ledger [OF _ ledger])
  show "store_ok H E z (perform H E (RecordFirmOfferOutcome i) s)"
    unfolding perform.simps recordFirmOfferOutcome_store_def
    by (rule p) (blast intro: keep dest: outcome_body_ledger [OF _ ledger])
qed

lemma normalizeSettlement_typed: "normalizeSettlement input = Inr v \<Longrightarrow> terms_typed v"
  by (drule normalizeSettlement_Inr) (simp add: terms_typed_def)

lemma normalizeHandoff_typed: "normalizeAuthorizedFirmOfferSettlement input = Inr p \<Longrightarrow> terms_typed (snd p)"
  by (auto simp: normalizeAuthorizedFirmOfferSettlement_def bindE_eq_Inr intro: normalizeSettlement_typed)

lemma normalizePolicy_typed:
  "normalizeSettlementExecutionPolicy input = Inr v \<Longrightarrow> is_bytes32 (pb_releaseRecordDigest v)
     \<and> is_bytes32 (pb_riskPolicyDigest v) \<and> is_bytes32 (pb_evidencePolicyDigest v)
     \<and> is_bytes32 (pb_solverCapabilityDigest v)"
  unfolding normalizeSettlementExecutionPolicy_def bindE_eq_Inr if_Inl_eq_Inr bytes32_Inr sum.inject
  by (elim exE conjE) (drule sym [where t = v], simp)

lemma normalizeAction_typed: "normalizeAction input = Inr v \<Longrightarrow> action_typed v"
  unfolding normalizeAction_def Let_def bindE_eq_Inr if_Inl_eq_Inr bytes32_Inr sum.inject
  by (elim exE conjE) (drule uint_positive, drule sym [where t = v], simp add: action_typed_def)

lemma settlement_ok:
  assumes ok: "store_ok H E z s"
  shows "store_ok H E z (perform H E (AcceptSettlement i) s)"
    "store_ok H E z (perform H E (AcceptAuthorizedFirmOfferSettlement i) s)"
    "store_ok H E z (perform H E (BindContractIntent i) s)"
    "store_ok H E z (perform H E (BindSettlementExecutionPolicy i) s)"
    "store_ok H E z (perform H E (RecordReservation i) s)" "store_ok H E z (perform H E (PlanAction i) s)"
    "store_ok H E z (perform H E (BindEvmTransaction i) s)" "store_ok H E z (perform H E (ClaimEvmBroadcast i j) s)"
    "store_ok H E z (perform H E (RecordEvmInclusion i) s)" "store_ok H E z (perform H E (ClaimAction i j) s)"
  unfolding perform.simps acceptSettlement_def acceptAuthorizedFirmOfferSettlement_def bindContractIntent_def
    bindSettlementExecutionPolicy_def recordReservation_def planAction_def bindEvmTransaction_def
    claimEvmBroadcast_def recordEvmInclusion_def claimAction_def case_prod_beta
  by (rule public_invariant [where P = "store_ok H E z", OF ok],
      auto simp: bindE_eq_Inr dest: normalizeSettlement_typed normalizeHandoff_typed normalizePolicy_typed normalizeAction_typed
        intro: accept_settle [OF ok] handoff_settle [OF ok] bind_intent_settle [OF ok]
        bind_policy_settle [OF ok] reservation_settle [OF ok] plan_settle [OF ok] bind_evm_settle [OF ok]
        broadcast_settle [OF ok] inclusion_settle [OF ok] claim_settle [OF ok])+

lemma result_ok:
  assumes ok: "store_ok H E z s"
  shows "store_ok H E z (perform H E (RecordActionResult i) s)"
    "store_ok H E z (perform H E (RecoverInterruptedActions i) s)"
    "store_ok H E z (perform H E (RecoverInterruptedAction i j) s)"
    "store_ok H E z (perform H E (ReconcileAction i) s)" "store_ok H E z (perform H E (HaltSettlement i) s)"
    "store_ok H E z (perform H E (RecordTerminal i) s)"
  unfolding perform.simps recordActionResult_def recoverInterruptedActions_def recoverInterruptedAction_def
    reconcileAction_def haltSettlement_def recordTerminal_def case_prod_beta
  by (rule public_invariant [where P = "store_ok H E z", OF ok],
      (erule result_settle [OF ok] recover_all_settle [OF ok] recover_one_settle [OF ok] reconcile_settle [OF ok]
        halt_settle [OF ok] terminal_settle [OF ok], (erule normalizeResultInput_next)?))+

theorem perform_ok: "store_ok H E z s \<Longrightarrow> store_ok H E z (perform H E c s)"
  by (cases c) (simp_all only: admission_ok settlement_ok result_ok)

end
