(* ===== verification/Coordinator_Sample.thy ===== *)
theory Coordinator_Sample
  imports Coordinator_Machine
begin

text \<open>
  A run of the coordinator on concrete inputs: a BIT-to-Lightning settlement from acceptance to
  completion.  The intent is bound, the reservation observed, the payment planned and dispatched once,
  its outcome unknown after a crash until reconciliation confirms it.  Each state is written out and
  each call is evaluated from one state to the next; the witnesses of the properties use these states.
\<close>

section \<open>The inputs and what they normalize to\<close>

definition h4 :: string where "h4 = sample_hash (CHR ''4'')"
definition h0 :: string where "h0 = sample_hash (CHR ''0'')"
definition digest5 :: string where "digest5 = sample_hash (CHR ''5'')"

definition sample_settlement :: jsval where
  "sample_settlement = JObj [(''amountSats'', JStr ''50000''), (''capacityEpoch'', JInt 1), (''createdAt'', JInt 900),
     (''direction'', JStr ''bit-to-lightning''), (''intentDigest'', JStr (sample_hash (CHR ''5''))),
     (''intentNonce'', JStr ''7''), (''invoiceDigest'', JStr (im_invoiceDigest sample_message)),
     (''nonceAuthorityDigest'', JStr (sample_hash (CHR ''a''))), (''paymentHash'', JStr (im_paymentHash sample_message)),
     (''pricingId'', JStr (sample_hash (CHR ''b''))), (''quoteReceiptDigest'', JStr (sample_hash (CHR ''c''))),
     (''selectedOfferId'', JStr (sample_hash (CHR ''6''))), (''selectedSetDigest'', JStr (sample_hash (CHR ''d''))),
     (''settlementId'', JStr h4)]"

definition sample_terms :: settlement_terms where
  "sample_terms = \<lparr>tm_settlementId = h4, tm_pricingId = sample_hash (CHR ''b''),
     tm_direction = ''bit-to-lightning'', tm_nonceAuthorityDigest = sample_hash (CHR ''a''), tm_intentNonce = 7,
     tm_intentDigest = sample_hash (CHR ''5''), tm_paymentHash = im_paymentHash sample_message,
     tm_invoiceDigest = im_invoiceDigest sample_message, tm_amountSats = 50000,
     tm_quoteReceiptDigest = sample_hash (CHR ''c''), tm_selectedSetDigest = sample_hash (CHR ''d''),
     tm_selectedOfferId = sample_hash (CHR ''6''), tm_capacityEpoch = 1, tm_createdAt = 900\<rparr>"

definition sample_binding :: jsval where
  "sample_binding = JObj [(''binding'', persisted_binding_input sample_intent), (''boundAt'', JInt 1010)]"

definition sample_reservation :: jsval where
  "sample_reservation = JObj [(''observedAt'', JInt 1020), (''reservationBlockHash'', JStr (sample_hash (CHR ''e''))),
     (''reservationBlockNumber'', JInt 12), (''reservationId'', JStr (im_quoteId sample_message)),
     (''reservationIntentDigest'', JStr (sample_hash (CHR ''8''))),
     (''reservationTxHash'', JStr (sample_hash (CHR ''f''))), (''settlementId'', JStr h4)]"

definition sample_observed :: reservation_input where
  "sample_observed = \<lparr>ro_settlementId = h4, ro_reservationId = im_quoteId sample_message,
     ro_txHash = sample_hash (CHR ''f''), ro_blockNumber = 12, ro_blockHash = sample_hash (CHR ''e''),
     ro_intentDigest = sample_hash (CHR ''8''), ro_observedAt = 1020\<rparr>"

definition sample_action :: jsval where
  "sample_action = JObj [(''actionId'', JStr h0), (''amountSats'', JStr ''50000''),
     (''capacityEpoch'', JInt 1), (''intentDigest'', JStr (sample_hash (CHR ''8''))),
     (''invoiceDigest'', JStr (im_invoiceDigest sample_message)), (''method'', JStr ''/routerrpc.Router/SendPaymentV2''),
     (''paymentHash'', JStr (im_paymentHash sample_message)), (''payloadDigest'', JStr digest5),
     (''plannedAt'', JInt 1030), (''requestId'', JStr (sample_hash (CHR ''c''))), (''settlementId'', JStr h4)]"

definition sample_action_terms :: action_terms where
  "sample_action_terms = \<lparr>at_actionId = h0, at_settlementId = h4, at_method = ''/routerrpc.Router/SendPaymentV2'',
     at_requestId = sample_hash (CHR ''c''), at_payloadDigest = digest5,
     at_intentDigest = sample_hash (CHR ''8''), at_paymentHash = im_paymentHash sample_message,
     at_invoiceDigest = im_invoiceDigest sample_message, at_amountSats = 50000, at_capacityEpoch = 1,
     at_plannedAt = 1030\<rparr>"

definition sample_reconciliation :: jsval where
  "sample_reconciliation = JObj [(''actionId'', JStr h0), (''observationDigest'', JStr (sample_hash (CHR ''d''))),
     (''observedAt'', JInt 1060), (''observedState'', JStr ''SUCCEEDED'')]"

definition sample_terminal :: jsval where
  "sample_terminal = JObj [(''assetsReconciled'', JBool True), (''proofDigest'', JStr (sample_hash (CHR ''e''))),
     (''recordedAt'', JInt 1070), (''settlementId'', JStr h4), (''terminalState'', JStr ''COMPLETED'')]"

section \<open>The states\<close>

definition sample_event :: "string option \<Rightarrow> string \<Rightarrow> string \<Rightarrow> string \<Rightarrow> int \<Rightarrow> coordinator_event" where
  "sample_event a t c d at = \<lparr>ce_settlementId = h4, ce_actionId = a, ce_type = t, ce_code = c,
     ce_dataDigest = d, ce_occurredAt = at\<rparr>"

definition row_0 :: settlement where
  "row_0 = new_settlement sample_terms digest5"

definition row_1 :: settlement where
  "row_1 = row_0\<lparr>se_intent := Some \<lparr>bi_intent = sample_intent, bi_recordDigest = digest5, bi_boundAt = 1010\<rparr>,
     se_state := CONTRACT_INTENT_BOUND, se_version := 2, se_updatedAt := 1010\<rparr>"

definition row_2 :: settlement where
  "row_2 = row_1\<lparr>se_reservation := Some \<lparr>rv_reservationId = im_quoteId sample_message,
     rv_txHash = sample_hash (CHR ''f''), rv_blockNumber = 12, rv_blockHash = sample_hash (CHR ''e''),
     rv_digest = digest5\<rparr>, se_state := RESERVATION_OBSERVED, se_version := 3, se_updatedAt := 1020\<rparr>"

definition row_3 :: settlement where
  "row_3 = row_2\<lparr>se_lastActionId := Some h0, se_state := ACTION_PENDING, se_version := 4, se_updatedAt := 1030\<rparr>"

definition action_0 :: action where
  "action_0 = \<lparr>ac_terms = sample_action_terms, ac_recordDigest = digest5, ac_state = PENDING, ac_dispatchCount = 0,
     ac_dispatchedAt = None, ac_result = None\<rparr>"

definition action_1 :: action where
  "action_1 = action_0\<lparr>ac_state := DISPATCHING, ac_dispatchCount := 1, ac_dispatchedAt := Some 1040\<rparr>"

definition accepted_store :: store where
  "accepted_store = empty_store\<lparr>settlements := [row_0],
     events := [sample_event None ''SETTLEMENT'' ''INTENT_ACCEPTED'' digest5 900]\<rparr>"

definition bound_store :: store where
  "bound_store = accepted_store\<lparr>settlements := [row_1], events := events accepted_store @
     [sample_event None ''SETTLEMENT'' ''CONTRACT_INTENT_BOUND'' digest5 1010]\<rparr>"

definition reserved_store :: store where
  "reserved_store = bound_store\<lparr>settlements := [row_2], events := events bound_store @
     [sample_event None ''RESERVATION'' ''OBSERVED'' digest5 1020]\<rparr>"

definition planned_store :: store where
  "planned_store = reserved_store\<lparr>settlements := [row_3], actions := [action_0], events := events reserved_store @
     [sample_event (Some h0) ''ACTION'' ''PLANNED'' digest5 1030]\<rparr>"

definition dispatched_store :: store where
  "dispatched_store = planned_store\<lparr>settlements := [row_3\<lparr>se_state := ACTION_DISPATCHING, se_version := 5,
     se_updatedAt := 1040\<rparr>], actions := [action_1], events := events planned_store @
     [sample_event (Some h0) ''ACTION'' ''DISPATCHING'' digest5 1040]\<rparr>"

definition recovered_store :: store where
  "recovered_store = dispatched_store\<lparr>settlements := [row_3\<lparr>se_state := RECONCILIATION_REQUIRED,
     se_reconciliationRequired := True, se_version := 6, se_updatedAt := 1050\<rparr>],
     actions := [action_1\<lparr>ac_state := UNKNOWN, ac_result := Some \<lparr>re_digest = digest5,
       re_code = ''PROCESS_RESTART'', re_at = 1050\<rparr>\<rparr>], events := events dispatched_store @
     [sample_event (Some h0) ''RECOVERY'' ''PROCESS_RESTART'' digest5 1050]\<rparr>"

definition confirmed_store :: store where
  "confirmed_store = recovered_store\<lparr>settlements := [row_3\<lparr>se_state := ACTION_CONFIRMED, se_version := 7,
     se_updatedAt := 1060\<rparr>], actions := [action_1\<lparr>ac_state := CONFIRMED, ac_result := Some \<lparr>
       re_digest = sample_hash (CHR ''d''), re_code = ''SUCCEEDED'', re_at = 1060\<rparr>\<rparr>],
     events := events recovered_store @
     [sample_event (Some h0) ''RECONCILIATION'' ''CONFIRMED'' (sample_hash (CHR ''d'')) 1060]\<rparr>"

definition completed_row :: settlement where
  "completed_row = row_3\<lparr>se_state := TERMINAL COMPLETED, se_terminal := Some \<lparr>te_state = COMPLETED,
     te_proofDigest = sample_hash (CHR ''e''), te_at = 1070\<rparr>, se_version := 8, se_updatedAt := 1070\<rparr>"

definition completed_store :: store where
  "completed_store = confirmed_store\<lparr>settlements := [completed_row], events := events confirmed_store @
     [sample_event None ''TERMINAL'' ''COMPLETED'' (sample_hash (CHR ''e'')) 1070]\<rparr>"

section \<open>The calls\<close>

lemma sample_accept:
  "perform sample_hex sample_ethers (AcceptSettlement sample_settlement) empty_store = accepted_store"
proof -
  have "normalizeSettlement sample_settlement = Inr sample_terms" by code_simp
  moreover have "accept_body sample_hex sample_terms empty_store = Inr (accepted_store, Some row_0)" by code_simp
  ultimately show ?thesis by (simp add: acceptSettlement_def transaction_def)
qed

lemma sample_bind:
  "perform sample_hex sample_ethers (BindContractIntent sample_binding) accepted_store = bound_store"
proof -
  have "exactKeys sample_binding [''binding'', ''boundAt''] ''contract intent persistence'' = Inr ()" by code_simp
  moreover have "js_get sample_binding ''binding'' = persisted_binding_input sample_intent"
      "js_get sample_binding ''boundAt'' = JInt 1010" by (simp_all add: sample_binding_def)
  moreover have "integer (JInt 1010) ''contract intent boundAt'' = Inr 1010" by code_simp
  moreover have "digest sample_hex (intent_json sample_intent) = Inr digest5" by code_simp
  moreover have "bind_intent_body sample_intent 1010 digest5 accepted_store = Inr (bound_store, Some row_1)" by code_simp
  ultimately show ?thesis by (simp add: bindContractIntent_def transaction_def sample_intent_valid)
qed

lemma sample_reserve:
  "perform sample_hex sample_ethers (RecordReservation sample_reservation) bound_store = reserved_store"
proof -
  have "normalizeReservation sample_reservation = Inr sample_observed" by code_simp
  moreover have "digest sample_hex (reservation_json sample_observed) = Inr digest5" by code_simp
  moreover have "reservation_body sample_observed digest5 bound_store = Inr (reserved_store, Some row_2)" by code_simp
  ultimately show ?thesis by (simp add: recordReservation_def transaction_def)
qed

lemma sample_plan: "perform sample_hex sample_ethers (PlanAction sample_action) reserved_store = planned_store"
proof -
  have "normalizeAction sample_action = Inr sample_action_terms" by code_simp
  moreover have "digest sample_hex (action_json sample_action_terms) = Inr digest5" by code_simp
  moreover have "plan_body sample_action_terms digest5 reserved_store = Inr (planned_store, Some action_0)" by code_simp
  ultimately show ?thesis by (simp add: planAction_def transaction_def)
qed

lemma sample_claim:
  "perform sample_hex sample_ethers (ClaimAction (JStr h0) (JInt 1040)) planned_store = dispatched_store"
proof -
  have "claimAction (JStr h0) (JInt 1040) planned_store = (dispatched_store, Inr (Some action_1))" by code_simp
  then show ?thesis by simp
qed

lemma sample_recover:
  "perform sample_hex sample_ethers (RecoverInterruptedActions (JInt 1050)) dispatched_store = recovered_store"
proof -
  have "recoverInterruptedActions sample_hex (JInt 1050) dispatched_store = (recovered_store, Inr 1)" by code_simp
  then show ?thesis by simp
qed

lemma sample_reconcile:
  "perform sample_hex sample_ethers (ReconcileAction sample_reconciliation) recovered_store = confirmed_store"
proof -
  have "fst (reconcileAction sample_reconciliation recovered_store) = confirmed_store" by code_simp
  then show ?thesis by simp
qed

lemma sample_complete:
  "perform sample_hex sample_ethers (RecordTerminal sample_terminal) confirmed_store = completed_store"
proof -
  have "recordTerminal sample_terminal confirmed_store = (completed_store, Inr (Some completed_row))" by code_simp
  then show ?thesis by simp
qed

end
