(* ===== verification/Store_Audit.thy ===== *)
theory Store_Audit
  imports Settlement_Invariant
begin

text \<open>
  The reads that audit a coordinator database (\<^verbatim>\<open>src/lib/coordinator-store.mjs\<close>): the check of the
  persisted contract intents when a database is opened, the snapshot of the liabilities each release
  still carries, the metrics and the secret-free journal.
\<close>

section \<open>The check of the persisted contract intents\<close>

text \<open>
  The intent as the columns of a row spell it: what the settlement itself records is read from its
  own columns, the rest from the columns of the intent; the expiry is the quote's.
\<close>

definition persisted_intent :: "settlement \<Rightarrow> contract_intent \<Rightarrow> contract_intent" where
  "persisted_intent r b = (let t = se_terms r in
     b\<lparr>ci_settlementId := tm_settlementId t, ci_direction := tm_direction t,
       ci_userAuthorizationDigest := tm_intentDigest t, ci_selectedOfferId := tm_selectedOfferId t,
       ci_message := (ci_message b)\<lparr>im_lightningAmountSats := tm_amountSats t,
         im_paymentHash := tm_paymentHash t, im_invoiceDigest := tm_invoiceDigest t\<rparr>\<rparr>)"

text \<open>The table \<^verbatim>\<open>expected\<close>, column by column.\<close>

definition intent_columns_match :: "contract_intent \<Rightarrow> contract_intent \<Rightarrow> bool" where
  "intent_columns_match b v \<longleftrightarrow> im_quoteId (ci_message b) = im_quoteId (ci_message v)
     \<and> ci_contractIntentDigest b = ci_contractIntentDigest v
     \<and> ci_settlementContractCodeHash b = ci_settlementContractCodeHash v \<and> ci_chainId b = ci_chainId v
     \<and> ci_fromAddress b = ci_fromAddress v \<and> ci_toAddress b = ci_toAddress v \<and> ci_calldata b = ci_calldata v
     \<and> ci_calldataDigest b = ci_calldataDigest v \<and> ci_transactionValue b = ci_transactionValue v
     \<and> im_user (ci_message b) = im_user (ci_message v) \<and> im_solver (ci_message b) = im_solver (ci_message v)
     \<and> im_beneficiary (ci_message b) = im_beneficiary (ci_message v)
     \<and> im_amount (ci_message b) = im_amount (ci_message v) \<and> im_fee (ci_message b) = im_fee (ci_message v)
     \<and> im_nonce (ci_message b) = im_nonce (ci_message v)
     \<and> im_quoteExpiresAt (ci_message b) = im_quoteExpiresAt (ci_message v)
     \<and> im_lastSafeClaimAt (ci_message b) = im_lastSafeClaimAt (ci_message v)
     \<and> im_refundAfter (ci_message b) = im_refundAfter (ci_message v)
     \<and> ci_solverSignature b = ci_solverSignature v \<and> ci_userSignature b = ci_userSignature v
     \<and> ci_authorizedAt b = ci_authorizedAt v"

definition verify_intent_row :: "(string \<Rightarrow> string) \<Rightarrow> ethers \<Rightarrow> settlement \<Rightarrow> unit result" where
  "verify_intent_row H E r =
     (case se_intent r of
        None \<Rightarrow> Inr ()
      | Some i \<Rightarrow>
          let b = persisted_intent r (bi_intent i); lightningToBit = (tm_direction (se_terms r) = ''lightning-to-bit'') in
          if lightningToBit \<and> ci_userSignature b = None \<or> \<not> lightningToBit \<and> ci_userSignature b \<noteq> None
          then Inl (Error ''coordinator contract intent signature set is inconsistent'')
          else (case validateContractIntentBinding E (persisted_binding_input b) of
              Inl e \<Rightarrow> Inl (Error ''coordinator contract intent record failed cryptographic verification'')
            | Inr validated \<Rightarrow>
                bindE (digest H (intent_json validated)) (\<lambda>recordDigest.
                if \<not> intent_columns_match b validated \<or> bi_recordDigest i \<noteq> recordDigest
                  \<or> bi_boundAt i < ci_authorizedAt validated \<or> bi_boundAt i \<ge> ci_expiresAt validated
                then Inl (Error ''coordinator contract intent record does not match its signed escrow transaction'')
                else Inr ())))"

definition verifyPersistedContractIntents :: "(string \<Rightarrow> string) \<Rightarrow> ethers \<Rightarrow> store \<Rightarrow> unit result" where
  "verifyPersistedContractIntents H E s =
     foldE (\<lambda>r _. verify_intent_row H E r) (sort_key se_id (settlements s)) ()"

section \<open>Release liabilities\<close>

definition settlement_state_text :: "settlement_state \<Rightarrow> string" where
  "settlement_state_text st = (case st of
      INTENT_ACCEPTED \<Rightarrow> ''INTENT_ACCEPTED'' | CONTRACT_INTENT_BOUND \<Rightarrow> ''CONTRACT_INTENT_BOUND''
    | EXECUTION_POLICY_BOUND \<Rightarrow> ''EXECUTION_POLICY_BOUND'' | RESERVATION_OBSERVED \<Rightarrow> ''RESERVATION_OBSERVED''
    | ACTION_PENDING \<Rightarrow> ''ACTION_PENDING'' | ACTION_DISPATCHING \<Rightarrow> ''ACTION_DISPATCHING''
    | ACTION_CONFIRMED \<Rightarrow> ''ACTION_CONFIRMED'' | ACTION_FAILED \<Rightarrow> ''ACTION_FAILED''
    | RECONCILIATION_REQUIRED \<Rightarrow> ''RECONCILIATION_REQUIRED'' | HALTED \<Rightarrow> ''HALTED''
    | TERMINAL t \<Rightarrow> (case t of COMPLETED \<Rightarrow> ''COMPLETED'' | REFUNDED \<Rightarrow> ''REFUNDED''
        | T_FAILED \<Rightarrow> ''FAILED'' | CANCELED \<Rightarrow> ''CANCELED''))"

record liability =
  lb_settlementId :: string
  lb_direction :: string
  lb_contractIntentDigest :: "string option"
  lb_contractIntentRecordDigest :: "string option"
  lb_releaseRecordDigest :: "string option"
  lb_riskPolicyDigest :: "string option"
  lb_evidencePolicyDigest :: "string option"
  lb_solverCapabilityDigest :: "string option"
  lb_executionPolicyBindingDigest :: "string option"
  lb_state :: string
  lb_reconciliationRequired :: bool
  lb_haltCode :: "string option"
  lb_lastActionId :: "string option"

definition liability_of :: "settlement \<Rightarrow> liability" where
  "liability_of r = \<lparr>lb_settlementId = se_id r, lb_direction = tm_direction (se_terms r),
     lb_contractIntentDigest = map_option (\<lambda>i. ci_contractIntentDigest (bi_intent i)) (se_intent r),
     lb_contractIntentRecordDigest = map_option bi_recordDigest (se_intent r),
     lb_releaseRecordDigest = map_option xp_releaseRecordDigest (se_policy r),
     lb_riskPolicyDigest = map_option xp_riskPolicyDigest (se_policy r),
     lb_evidencePolicyDigest = map_option xp_evidencePolicyDigest (se_policy r),
     lb_solverCapabilityDigest = map_option xp_solverCapabilityDigest (se_policy r),
     lb_executionPolicyBindingDigest = map_option xp_bindingDigest (se_policy r),
     lb_state = settlement_state_text (se_state r), lb_reconciliationRequired = se_reconciliationRequired r,
     lb_haltCode = se_haltCode r, lb_lastActionId = se_lastActionId r\<rparr>"

definition null_or :: "string option \<Rightarrow> jsval" where
  "null_or v = (case v of None \<Rightarrow> JNull | Some x \<Rightarrow> JStr x)"

definition liability_json :: "liability \<Rightarrow> jsval" where
  "liability_json l = JObj [(''settlementId'', JStr (lb_settlementId l)), (''direction'', JStr (lb_direction l)),
     (''contractIntentDigest'', null_or (lb_contractIntentDigest l)),
     (''contractIntentRecordDigest'', null_or (lb_contractIntentRecordDigest l)),
     (''releaseRecordDigest'', null_or (lb_releaseRecordDigest l)),
     (''riskPolicyDigest'', null_or (lb_riskPolicyDigest l)),
     (''evidencePolicyDigest'', null_or (lb_evidencePolicyDigest l)),
     (''solverCapabilityDigest'', null_or (lb_solverCapabilityDigest l)),
     (''executionPolicyBindingDigest'', null_or (lb_executionPolicyBindingDigest l)),
     (''state'', JStr (lb_state l)), (''reconciliationRequired'', JBool (lb_reconciliationRequired l)),
     (''haltCode'', null_or (lb_haltCode l)), (''lastActionId'', null_or (lb_lastActionId l))]"

text \<open>\<^verbatim>\<open>[...new Set(values)].sort()\<close>, the template literal of a null, and \<^verbatim>\<open>split(":")\<close>.\<close>

definition sorted_set :: "string list \<Rightarrow> string list" where
  "sorted_set xs = sort (remdups xs)"

definition null_text :: "string option \<Rightarrow> string" where
  "null_text v = (case v of None \<Rightarrow> ''null'' | Some x \<Rightarrow> x)"

fun split_colon :: "string \<Rightarrow> string list" where
  "split_colon [] = [[]]"
| "split_colon (c # cs) = (if c = CHR '':'' then [] # split_colon cs
     else case split_colon cs of [] \<Rightarrow> [[c]] | w # ws \<Rightarrow> (c # w) # ws)"

definition policy_key :: "liability \<Rightarrow> string" where
  "policy_key l = lb_direction l @ '':'' @ null_text (lb_riskPolicyDigest l) @ '':''
     @ null_text (lb_evidencePolicyDigest l)"

record policy_liability =
  pl_direction :: string
  pl_riskPolicyDigest :: string
  pl_evidencePolicyDigest :: string
  pl_capabilities :: "string list"
  pl_count :: int

record release_liability =
  rl_releaseRecordDigest :: string
  rl_count :: int
  rl_policies :: "policy_liability list"
  rl_liabilitySetDigest :: string

record liability_snapshot =
  sn_total :: int
  sn_unbound :: int
  sn_unboundActiveFirmOffers :: int
  sn_unboundDigest :: string
  sn_releases :: "release_liability list"
  sn_snapshotDigest :: string

definition policy_rows :: "string \<Rightarrow> liability list \<Rightarrow> liability list" where
  "policy_rows key rows = (case split_colon key of
     direction # risk # evidence # _ \<Rightarrow> filter (\<lambda>l. lb_direction l = direction
       \<and> lb_riskPolicyDigest l = Some risk \<and> lb_evidencePolicyDigest l = Some evidence) rows
   | _ \<Rightarrow> [])"

definition policy_liability_of :: "liability list \<Rightarrow> string \<Rightarrow> policy_liability" where
  "policy_liability_of rows key =
     (let parts = split_colon key; selected = policy_rows key rows in
      \<lparr>pl_direction = parts ! 0, pl_riskPolicyDigest = parts ! 1, pl_evidencePolicyDigest = parts ! 2,
       pl_capabilities = sorted_set (map (\<lambda>l. null_text (lb_solverCapabilityDigest l)) selected),
       pl_count = int (length selected)\<rparr>)"

definition release_rows :: "string \<Rightarrow> liability list \<Rightarrow> liability list" where
  "release_rows release rows = filter (\<lambda>l. lb_releaseRecordDigest l = Some release) rows"

definition release_liability_of :: "(string \<Rightarrow> string) \<Rightarrow> liability list \<Rightarrow> string \<Rightarrow> release_liability result" where
  "release_liability_of H rows release =
     (let mine = release_rows release rows in
      bindE (digest H (JObj [(''schema'', JStr ''treeswap.coordinator-release-liability-set.v2''),
        (''releaseRecordDigest'', JStr release), (''settlements'', JArr (map liability_json mine))])) (\<lambda>d.
      Inr \<lparr>rl_releaseRecordDigest = release, rl_count = int (length mine),
        rl_policies = map (policy_liability_of mine) (sorted_set (map policy_key mine)),
        rl_liabilitySetDigest = d\<rparr>))"

definition liability_rows :: "store \<Rightarrow> liability list" where
  "liability_rows s = map liability_of (listNonterminalSettlements s)"

definition unbound_liability :: "liability \<Rightarrow> bool" where
  "unbound_liability l \<longleftrightarrow> lb_contractIntentDigest l = None \<or> lb_contractIntentRecordDigest l = None
     \<or> lb_releaseRecordDigest l = None"

definition unbound_active_offers :: "store \<Rightarrow> int" where
  "unbound_active_offers s = int (length (filter (\<lambda>f. fo_state f = OFFER_ACTIVE
     \<and> \<not> list_ex (\<lambda>r. se_offerId r = fo_id f \<and> se_terminal r = None) (settlements s)) (offers s)))"

definition release_digests :: "liability list \<Rightarrow> string list" where
  "release_digests rows = sorted_set (List.map_filter lb_releaseRecordDigest rows)"

definition policy_liability_json :: "policy_liability \<Rightarrow> jsval" where
  "policy_liability_json p = JObj [(''direction'', JStr (pl_direction p)),
     (''riskPolicyDigest'', JStr (pl_riskPolicyDigest p)), (''evidencePolicyDigest'', JStr (pl_evidencePolicyDigest p)),
     (''historicalSolverCapabilityDigests'', JArr (map JStr (pl_capabilities p))),
     (''nonterminalSettlementCount'', JInt (pl_count p))]"

definition release_liability_json :: "release_liability \<Rightarrow> jsval" where
  "release_liability_json r = JObj [(''releaseRecordDigest'', JStr (rl_releaseRecordDigest r)),
     (''nonterminalSettlementCount'', JInt (rl_count r)),
     (''executionPolicyCount'', JInt (int (length (rl_policies r)))),
     (''executionPolicies'', JArr (map policy_liability_json (rl_policies r))),
     (''liabilitySetDigest'', JStr (rl_liabilitySetDigest r))]"

definition COORDINATOR_SCHEMA :: string where
  "COORDINATOR_SCHEMA = ''treeswap.coordinator.v10''"

definition releaseLiabilitySnapshot :: "(string \<Rightarrow> string) \<Rightarrow> store \<Rightarrow> liability_snapshot result" where
  "releaseLiabilitySnapshot H s =
     (let rows = liability_rows s; unbound = filter unbound_liability rows in
      bindE (mapE (release_liability_of H rows) (release_digests rows)) (\<lambda>releases.
      bindE (digest H (JObj [(''schema'', JStr ''treeswap.coordinator-unbound-liability-set.v2''),
        (''settlements'', JArr (map liability_json unbound))])) (\<lambda>unboundDigest.
      bindE (digest H (JObj [(''schema'', JStr ''treeswap.coordinator-release-liabilities.v2''),
        (''coordinatorSchema'', JStr COORDINATOR_SCHEMA),
        (''totalNonterminalSettlementCount'', JInt (int (length rows))),
        (''unboundNonterminalSettlementCount'', JInt (int (length unbound))),
        (''unboundActiveFirmOfferCount'', JInt (unbound_active_offers s)),
        (''unboundLiabilitySetDigest'', JStr unboundDigest),
        (''releases'', JArr (map release_liability_json releases))])) (\<lambda>snapshotDigest.
      Inr \<lparr>sn_total = int (length rows), sn_unbound = int (length unbound),
        sn_unboundActiveFirmOffers = unbound_active_offers s, sn_unboundDigest = unboundDigest,
        sn_releases = releases, sn_snapshotDigest = snapshotDigest\<rparr>))))"


section \<open>Metrics and the journal\<close>

text \<open>\<^verbatim>\<open>SELECT state, COUNT(*) ... GROUP BY state ORDER BY state\<close>: the states that occur, in order, with their counts.\<close>

definition state_counts :: "('r \<Rightarrow> string) \<Rightarrow> 'r list \<Rightarrow> (string \<times> int) list" where
  "state_counts st rows = map (\<lambda>k. (k, int (length (filter (\<lambda>r. st r = k) rows)))) (sorted_set (map st rows))"

definition rfq_state_text :: "rfq_state \<Rightarrow> string" where
  "rfq_state_text st = (case st of RFQ_ACTIVE \<Rightarrow> ''ACTIVE'' | RFQ_CANCELED \<Rightarrow> ''CANCELED'' | RFQ_EXPIRED \<Rightarrow> ''EXPIRED''
     | RFQ_EXERCISED \<Rightarrow> ''EXERCISED'' | RFQ_ABANDONED \<Rightarrow> ''ABANDONED'')"

definition offer_state_text :: "offer_state \<Rightarrow> string" where
  "offer_state_text st = (case st of OFFER_ACTIVE \<Rightarrow> ''ACTIVE'' | FILLED \<Rightarrow> ''FILLED'' | SOLVER_FAILED \<Rightarrow> ''SOLVER_FAILED''
     | EXPIRED_UNEXERCISED \<Rightarrow> ''EXPIRED_UNEXERCISED'' | USER_ABANDONED \<Rightarrow> ''USER_ABANDONED'')"

definition action_state_text :: "action_state \<Rightarrow> string" where
  "action_state_text st = (case st of PENDING \<Rightarrow> ''PENDING'' | DISPATCHING \<Rightarrow> ''DISPATCHING'' | CONFIRMED \<Rightarrow> ''CONFIRMED''
     | FAILED \<Rightarrow> ''FAILED'' | UNKNOWN \<Rightarrow> ''UNKNOWN'')"

definition evm_state_text :: "evm_state \<Rightarrow> string" where
  "evm_state_text st = (case st of PREPARED \<Rightarrow> ''PREPARED'' | BROADCASTING \<Rightarrow> ''BROADCASTING'' | EVM_UNKNOWN \<Rightarrow> ''UNKNOWN''
     | INCLUDED \<Rightarrow> ''INCLUDED'' | FINALIZED \<Rightarrow> ''FINALIZED'' | REVERTED \<Rightarrow> ''REVERTED'' | REORGED \<Rightarrow> ''REORGED''
     | MISMATCH \<Rightarrow> ''MISMATCH'')"

record admission_metrics =
  am_rfqStates :: "(string \<times> int) list"
  am_firmOfferStates :: "(string \<times> int) list"
  am_solvers :: int
  am_failureSuspended :: int
  am_capacityConflicted :: int
  am_activeCommitments :: int
  am_activeBitToLightningInFlightSats :: int

definition admissionMetrics :: "store \<Rightarrow> admission_metrics" where
  "admissionMetrics s =
     \<lparr>am_rfqStates = state_counts (\<lambda>r. rfq_state_text (rq_state r)) (requests s),
      am_firmOfferStates = state_counts (\<lambda>f. offer_state_text (fo_state f)) (offers s),
      am_solvers = int (length (solvers s)),
      am_failureSuspended = int (length (filter sv_suspended (solvers s))),
      am_capacityConflicted = int (length (filter sv_capacityConflict (solvers s))),
      am_activeCommitments = int (length (filter (\<lambda>f. fo_state f = OFFER_ACTIVE) (offers s))),
      am_activeBitToLightningInFlightSats = fold (\<lambda>f total. total + of_amount (fo_terms f))
        (filter (\<lambda>f. of_direction (fo_terms f) = ''bit-to-lightning'' \<and> fo_state f = OFFER_ACTIVE) (offers s)) 0\<rparr>"

record store_metrics =
  mt_settlementStates :: "(string \<times> int) list"
  mt_actionStates :: "(string \<times> int) list"
  mt_evmTransactionStates :: "(string \<times> int) list"
  mt_reconciliationRequired :: int

definition metrics :: "store \<Rightarrow> store_metrics" where
  "metrics s =
     \<lparr>mt_settlementStates = state_counts (\<lambda>r. settlement_state_text (se_state r)) (settlements s),
      mt_actionStates = state_counts (\<lambda>a. action_state_text (ac_state a)) (actions s),
      mt_evmTransactionStates = state_counts (\<lambda>t. evm_state_text (em_state t)) (evms s),
      mt_reconciliationRequired = int (length (filter se_reconciliationRequired (settlements s)))\<rparr>"

text \<open>
  The journal without its identifiers and digests; the sequence of an entry is its position in the
  append-only table.
\<close>

definition secretFreeEvents :: "jsval \<Rightarrow> store \<Rightarrow> (int \<times> string \<times> string \<times> int) list result" where
  "secretFreeEvents limit s =
     bindE (integer limit ''limit'') (\<lambda>bounded.
     if bounded = 0 \<or> bounded > 1000 then Inl (RangeError ''event limit is outside policy'')
     else Inr (take (nat bounded) (rev (map (\<lambda>(n, e). (int n + 1, ce_type e, ce_code e, ce_occurredAt e))
       (enumerate 0 (events s))))))"

end
