(* ===== verification/Coordinator_Properties.thy ===== *)
theory Coordinator_Properties
  imports Coordinator_Sample Store_Audit
begin

text \<open>
  What holds of a coordinator database in every state its operations can reach, and across every
  further operation.
\<close>

section \<open>Reachable states\<close>

text \<open>The service-run operations write the metadata table only.\<close>

definition meta_write :: "store \<Rightarrow> store \<Rightarrow> bool" where
  "meta_write s t \<longleftrightarrow> (\<exists>m. t = s\<lparr>meta := m\<rparr>)"

lemma meta_write_refl [simp]: "meta_write s s"
  unfolding meta_write_def by (rule exI [of _ "meta s"]) simp

lemma meta_write_same: "meta_write s t \<Longrightarrow> same_rows s t \<and> ledger_ok t = ledger_ok s"
  by (auto simp: meta_write_def same_rows_def)

lemma run_writes:
  "begin_run v s = Inr (s', r) \<Longrightarrow> meta_write s s'"
  "record_status H V d at st s = Inr (s', r) \<Longrightarrow> meta_write s s'"
  "finish_run d at reason s = Inr (s', r) \<Longrightarrow> meta_write s s'"
  unfolding begin_run_def record_status_def finish_run_def Let_def meta_write_def
  by (simp_all only: returned) (elim exE conjE disjE; blast)+

lemma service_frame:
  assumes "service_step H V (s, p) (s', p')"
  shows "meta_write s s'"
  using assms
proof cases
  case (step_begin uuid input)
  then show ?thesis using run_writes(1)
    by (auto simp: beginServiceRun_def transaction_def Let_def split: sum.splits prod.splits if_splits)
next
  case (step_record h observedAt status)
  then show ?thesis using run_writes(2)
    by (auto simp: recordServiceRunStatus_def transaction_def split: sum.splits prod.splits option.splits)
next
  case (step_finish h finishedAt reason)
  then show ?thesis using run_writes(3)
    by (auto simp: finishServiceRun_def transaction_def split: sum.splits prod.splits option.splits)
next
  case step_restart
  then show ?thesis by (simp add: restart_process_def)
next
  case (step_meta k v)
  then show ?thesis by (auto simp: meta_write_def)
qed

text \<open>The machine: a call with any arguments, or a step of the service run.\<close>

inductive coordinator_step ::
    "(string \<Rightarrow> string) \<Rightarrow> ethers \<Rightarrow> status_validators \<Rightarrow> store \<times> process \<Rightarrow> store \<times> process \<Rightarrow> bool"
  for H :: "string \<Rightarrow> string" and E :: ethers and V :: status_validators where
  step_call: "coordinator_step H E V (s, p) (perform H E c s, p)"
| step_service: "service_step H V sp sp' \<Longrightarrow> coordinator_step H E V sp sp'"

inductive_cases coordinator_step_cases: "coordinator_step H E V sp sp'"

lemma store_ok_empty: "store_ok H E empty_store empty_store"
  by (simp add: store_ok_def ledger_ok_def keys_ok_def ids_ok_def one_unresolved_def history_def halt_kept_def empty_store_def)

lemma coordinator_step_ok:
  assumes "store_ok H E z (fst sp)" and "coordinator_step H E V sp sp'"
  shows "store_ok H E z (fst sp')"
  using assms(2)
proof cases
  case (step_call s p c)
  with assms(1) show ?thesis by (simp add: perform_ok)
next
  case step_service
  then have "meta_write (fst sp) (fst sp')" using service_frame [of H V "fst sp" "snd sp" "fst sp'" "snd sp'"] by simp
  moreover have "ledger_ok (fst sp)" using assms(1) by (simp add: store_ok_def)
  ultimately show ?thesis
    using meta_write_same [of "fst sp" "fst sp'"] by (intro store_ok_same_rows [OF assms(1)]) simp_all
qed

interpretation coordinator: machine service_init "coordinator_step H E V" "\<lambda>sp. store_ok H E empty_store (fst sp)"
  by unfold_locales (auto simp: service_init_def store_ok_empty intro: coordinator_step_ok)

definition coordinator_state :: "(string \<Rightarrow> string) \<Rightarrow> ethers \<Rightarrow> status_validators \<Rightarrow> store \<Rightarrow> bool" where
  "coordinator_state H E V s \<longleftrightarrow> (\<exists>p. reachable service_init (coordinator_step H E V) (s, p))"

lemma coordinator_state_empty: "coordinator_state H E V empty_store"
  unfolding coordinator_state_def by (auto intro!: reach_init simp: service_init_def)

lemma coordinator_state_perform: "coordinator_state H E V s \<Longrightarrow> coordinator_state H E V (perform H E c s)"
  unfolding coordinator_state_def by (meson reach_step step_call)

lemma coordinator_state_run: "coordinator_state H E V s \<Longrightarrow> coordinator_state H E V (fold (perform H E) cs s)"
  by (induction cs arbitrary: s) (simp_all add: coordinator_state_perform)

lemma coordinator_state_ok:
  assumes "coordinator_state H E V s"
  shows "store_ok H E s s"
proof -
  from assms have "store_ok H E empty_store s"
    using coordinator.inv_reachable by (auto simp: coordinator_state_def)
  then show ?thesis by (simp add: store_ok_def history_refl)
qed

lemma coordinator_history:
  "coordinator_state H E V s \<Longrightarrow> history s (perform H E c s)"
  using perform_ok [OF coordinator_state_ok] by (auto simp: store_ok_def)

text \<open>Rows of a reachable store, and the row a dispatch leaves.\<close>

lemma coordinator_action:
  assumes "coordinator_state H E V s" and "a \<in> set (actions s)"
  shows "action_typed (ac_terms a)" and "is_bytes32 (ac_id a)"
    and "ac_dispatchCount a = (if ac_state a = PENDING then 0 else 1)"
  using coordinator_state_ok [OF assms(1)] assms(2)
  by (auto simp: store_ok_def action_ok_def action_typed_def ac_id_def)

lemma coordinator_find_action:
  assumes "coordinator_state H E V s" and "a \<in> set (actions s)"
  shows "find_action s (ac_id a) = Some a"
  using coordinator_state_ok [OF assms(1)] assms(2)
  by (intro action_table.lookup_member) (simp_all add: store_ok_def ids_ok_def)

lemma coordinator_settlement:
  assumes "coordinator_state H E V s" and "find_settlement s k = Some r"
  shows "se_id r = k" and "is_bytes32 k" and "tm_direction (se_terms r) \<in> set DIRECTIONS" and "waiting_ok s r"
  using coordinator_state_ok [OF assms(1)] settlement_table.lookup_SomeD [OF assms(2)]
  by (auto simp: store_ok_def row_ok_def terms_typed_def se_id_def)

lemma dispatched_row:
  "find_action ((update_settlement k h (dispatch_action i at s))\<lparr>events := e\<rparr>) i =
     map_option (\<lambda>a. a\<lparr>ac_state := DISPATCHING, ac_dispatchCount := 1, ac_dispatchedAt := Some at\<rparr>) (find_action s i)"
  by (simp add: dispatch_action_def action_table.lookup_rows action_table.rows_modify row_find_update ac_id_def)

section \<open>Dispatches\<close>

lemma claim_success:
  assumes "claimAction (JStr k) (JInt at) s = (s', Inr x)"
  shows "\<exists>a. find_action s k = Some a \<and> ac_state a = PENDING \<and> ac_method a \<noteq> ''evm:claim''
    \<and> find_action s' k = Some (a\<lparr>ac_state := DISPATCHING, ac_dispatchCount := 1, ac_dispatchedAt := Some at\<rparr>)"
proof -
  from assms have "claim_body k at s = Inr (s', x)"
    by (auto simp: claimAction_def withInput_def transaction_Inr result_simps split: sum.splits)
  then show ?thesis
    unfolding claim_body_def Let_def set_settlement_state_def
    by (simp only: returned getAction_Inr getSettlement_Inr) (elim exE conjE, drule event_Inr, clarsimp simp: dispatched_row)
qed

lemma claim_time:
  assumes "claimAction i t s = (s', Inr x)"
  shows "\<exists>at. t = JInt at"
  using assms by (auto simp: claimAction_def withInput_def integer_Inr result_simps split: sum.splits)

text \<open>The first broadcast of an EVM claim, which is its dispatch; a later one repeats the same signed transaction.\<close>

definition first_broadcast :: "string \<Rightarrow> store \<Rightarrow> bool" where
  "first_broadcast k s = (case (find_action s k, find_evm s k) of (Some a, Some t) \<Rightarrow> initial_broadcast a t | _ \<Rightarrow> False)"

lemma broadcast_success:
  assumes "claimEvmBroadcast (JStr k) t s = (s', Inr x)" and "first_broadcast k s"
  shows "\<exists>a at. find_action s k = Some a \<and> ac_state a = PENDING
    \<and> find_action s' k = Some (a\<lparr>ac_state := DISPATCHING, ac_dispatchCount := 1, ac_dispatchedAt := Some at\<rparr>)"
proof -
  from assms(1) obtain at where "broadcast_body k at s = Inr (s', x)"
    by (auto simp: claimEvmBroadcast_def withInput_def transaction_Inr result_simps split: sum.splits)
  moreover from assms(2) obtain a tx where a: "find_action s k = Some a" "find_evm s k = Some tx" "initial_broadcast a tx"
    by (auto simp: first_broadcast_def split: option.splits)
  ultimately have "find_action s' k = Some (a\<lparr>ac_state := DISPATCHING, ac_dispatchCount := 1, ac_dispatchedAt := Some at\<rparr>)"
    unfolding broadcast_body_def Let_def set_settlement_state_def
    by (simp only: returned getAction_Inr getEvmTransaction_Inr getSettlement_Inr)
      (elim exE conjE disjE; drule event_Inr; clarsimp simp: dispatch_action_def action_table.lookup_rows row_find_update ac_id_def)
  with a show ?thesis by (auto simp: initial_broadcast_def)
qed

text \<open>
  A call dispatches an action when it returns from claiming it, or from its first broadcast; and how often
  a sequence of calls dispatches an action.
\<close>

fun dispatches :: "string \<Rightarrow> store_call \<Rightarrow> store \<Rightarrow> bool" where
  "dispatches k (ClaimAction i t) s = (i = JStr k \<and> \<not> isl (snd (claimAction i t s)))"
| "dispatches k (ClaimEvmBroadcast i t) s = (i = JStr k \<and> first_broadcast k s \<and> \<not> isl (snd (claimEvmBroadcast i t s)))"
| "dispatches k _ s = False"

fun dispatch_count :: "(string \<Rightarrow> string) \<Rightarrow> ethers \<Rightarrow> string \<Rightarrow> store_call list \<Rightarrow> store \<Rightarrow> int" where
  "dispatch_count H E k [] s = 0"
| "dispatch_count H E k (c # cs) s = (if dispatches k c s then 1 else 0) + dispatch_count H E k cs (perform H E c s)"

lemma dispatch_count_nonneg: "0 \<le> dispatch_count H E k cs s"
  by (induction cs arbitrary: s) auto

lemma dispatches_pending:
  assumes "dispatches k c s"
  shows "\<exists>a a'. find_action s k = Some a \<and> ac_state a = PENDING \<and> find_action (perform H E c s) k = Some a' \<and> ac_dispatchCount a' = 1"
proof -
  from assms consider t s' x where "c = ClaimAction (JStr k) t" "claimAction (JStr k) t s = (s', Inr x)"
    | t s' x where "c = ClaimEvmBroadcast (JStr k) t" "claimEvmBroadcast (JStr k) t s = (s', Inr x)" "first_broadcast k s"
  proof (cases c)
    case (ClaimAction i t)
    then show ?thesis using assms that(1) by (cases "claimAction i t s"; cases "snd (claimAction i t s)") auto
  next
    case (ClaimEvmBroadcast i t)
    then show ?thesis using assms that(2) by (cases "claimEvmBroadcast i t s"; cases "snd (claimEvmBroadcast i t s)") auto
  qed (use assms in simp_all)
  then show ?thesis
  proof cases
    case 1
    with claim_time [OF 1(2)] claim_success show ?thesis by fastforce
  next
    case 2
    with broadcast_success [OF 2(2,3)] show ?thesis by auto
  qed
qed

lemma coordinator_count_step:
  assumes "coordinator_state H E V s" and "find_action s k = Some a"
  shows "\<exists>a'. find_action (perform H E c s) k = Some a'
    \<and> ac_dispatchCount a + (if dispatches k c s then 1 else 0) \<le> ac_dispatchCount a' \<and> action_later a a'"
proof -
  have a: "a \<in> set (actions s)" "ac_id a = k" using action_table.lookup_SomeD [OF assms(2)] by simp_all
  from coordinator_history [OF assms(1)] a(1) obtain a' where a': "a' \<in> set (actions (perform H E c s))" "action_later a a'"
    unfolding history_def by blast
  then have "ac_id a' = k" using a(2) by (simp add: action_later_def ac_id_def)
  then have found: "find_action (perform H E c s) k = Some a'"
    using coordinator_find_action [OF coordinator_state_perform [OF assms(1)] a'(1)] by simp
  have "ac_dispatchCount a + 1 \<le> ac_dispatchCount a'" if "dispatches k c s"
    using dispatches_pending [OF that, of H E] found assms(2) coordinator_action(3) [OF assms(1) a(1)] by auto
  then show ?thesis using found a'(2) by (auto simp: action_later_def)
qed

lemma action_later_trans: "action_later a b \<Longrightarrow> action_later b c \<Longrightarrow> action_later a c"
  unfolding action_later_def by (auto dest: rtranclp_trans)

lemma coordinator_count:
  assumes "coordinator_state H E V s" and "find_action s k = Some a"
  shows "\<exists>a'. find_action (fold (perform H E) cs s) k = Some a'
    \<and> ac_dispatchCount a + dispatch_count H E k cs s \<le> ac_dispatchCount a' \<and> action_later a a'"
  using assms
proof (induction cs arbitrary: s a)
  case Nil
  then show ?case by (simp add: action_later_def)
next
  case (Cons c cs)
  from coordinator_count_step [OF Cons.prems, of c] obtain b where b: "find_action (perform H E c s) k = Some b"
      "ac_dispatchCount a + (if dispatches k c s then 1 else 0) \<le> ac_dispatchCount b" "action_later a b" by blast
  from Cons.IH [OF coordinator_state_perform [OF Cons.prems(1)] b(1)] obtain a' where
      "find_action (fold (perform H E) cs (perform H E c s)) k = Some a'"
      "ac_dispatchCount b + dispatch_count H E k cs (perform H E c s) \<le> ac_dispatchCount a'" "action_later b a'" by blast
  then show ?case using b(2) action_later_trans [OF b(3)] by (intro exI [of _ a']) simp
qed

section \<open>The states of the sample run are reachable\<close>

abbreviation sample_state :: "store \<Rightarrow> bool" where
  "sample_state \<equiv> coordinator_state sample_hex sample_ethers sample_validators"

lemma sample_states:
  "sample_state accepted_store" "sample_state bound_store" "sample_state reserved_store" "sample_state planned_store"
  "sample_state dispatched_store" "sample_state recovered_store" "sample_state confirmed_store"
  "sample_state completed_store"
proof -
  note go = coordinator_state_perform [of sample_hex sample_ethers sample_validators]
  show 1: "sample_state accepted_store" using go [OF coordinator_state_empty] sample_accept by metis
  show 2: "sample_state bound_store" using go [OF 1] sample_bind by metis
  show 3: "sample_state reserved_store" using go [OF 2] sample_reserve by metis
  show 4: "sample_state planned_store" using go [OF 3] sample_plan by metis
  show 5: "sample_state dispatched_store" using go [OF 4] sample_claim by metis
  show 6: "sample_state recovered_store" using go [OF 5] sample_recover by metis
  show 7: "sample_state confirmed_store" using go [OF 6] sample_reconcile by metis
  show "sample_state completed_store" using go [OF 7] sample_complete by metis
qed

lemma sample_rows [simp]:
  "settlements bound_store = [row_1]" "settlements reserved_store = [row_2]" "settlements completed_store = [completed_row]"
  "actions dispatched_store = [action_1]"
  by (simp_all add: bound_store_def reserved_store_def completed_store_def dispatched_store_def)

section \<open>Properties of every reachable state\<close>

text \<open>
  Property C14.  What a settlement has bound stays bound.  Across any call, every settlement keeps its
  terms, and its contract intent, execution policy and reservation once it has them; a terminal
  settlement keeps its whole row.
\<close>

theorem settlement_bindings_permanent:
  assumes "coordinator_state H E V s" and "r \<in> set (settlements s)"
  shows "\<exists>r'\<in>set (settlements (perform H E c s)). se_terms r' = se_terms r
    \<and> (se_intent r \<noteq> None \<longrightarrow> se_intent r' = se_intent r) \<and> (se_policy r \<noteq> None \<longrightarrow> se_policy r' = se_policy r)
    \<and> (se_reservation r \<noteq> None \<longrightarrow> se_reservation r' = se_reservation r) \<and> (se_terminal r \<noteq> None \<longrightarrow> r' = r)"
  using coordinator_history [OF assms(1)] assms(2) unfolding history_def row_later_def by blast

theorem settlement_bindings_permanent_witness:
  "completed_row \<in> set (settlements (perform sample_hex sample_ethers
     (ReconcileAction sample_reconciliation) completed_store))"
proof -
  have "se_terminal completed_row \<noteq> None" by (simp add: completed_row_def)
  then show ?thesis
    using settlement_bindings_permanent [OF sample_states(8), of completed_row]
    by (auto simp del: perform.simps)
qed

text \<open>
  Property C8.  The action table refines the life cycle of a payment: planned, dispatched, then
  confirmed or unknown, and resolved only by reconciliation.  Across any sequence of calls an action keeps
  its terms and moves only forward along that life cycle; the calls that dispatch it (claims of a Lightning
  action, first broadcasts of an EVM claim) succeed at most once, and not at all for an action that was
  dispatched before; and once it is confirmed or failed its row never changes again.
\<close>

theorem action_lifecycle_refined:
  assumes "coordinator_state H E V s" and "a \<in> set (actions s)"
  shows "\<exists>a'\<in>set (actions (fold (perform H E) cs s)). ac_terms a' = ac_terms a
    \<and> lifecycle\<^sup>*\<^sup>* (ac_state a) (ac_state a')
    \<and> ac_dispatchCount a + dispatch_count H E (ac_id a) cs s \<le> ac_dispatchCount a' \<and> ac_dispatchCount a' \<le> 1
    \<and> (ac_state a \<noteq> PENDING \<longrightarrow> dispatch_count H E (ac_id a) cs s = 0)
    \<and> (ac_state a = CONFIRMED \<or> ac_state a = FAILED \<longrightarrow> a' = a)"
proof -
  from coordinator_count [OF assms(1) coordinator_find_action [OF assms], of cs] obtain a' where
      a': "find_action (fold (perform H E) cs s) (ac_id a) = Some a'"
      "ac_dispatchCount a + dispatch_count H E (ac_id a) cs s \<le> ac_dispatchCount a'" "action_later a a'" by blast
  have mem: "a' \<in> set (actions (fold (perform H E) cs s))" using action_table.lookup_SomeD [OF a'(1)] by simp
  have "ac_dispatchCount a' \<le> 1" "ac_dispatchCount a = (if ac_state a = PENDING then 0 else 1)"
    using coordinator_action(3) [OF coordinator_state_run [OF assms(1)] mem] coordinator_action(3) [OF assms] by simp_all
  then show ?thesis using mem a'(2,3) dispatch_count_nonneg [of H E "ac_id a" cs s]
    by (intro bexI [of _ a']) (auto simp: action_later_def unresolved_def)
qed

theorem action_lifecycle_refined_witness:
  "\<exists>a'\<in>set (actions (fold (perform sample_hex sample_ethers)
      [ClaimAction (JStr h0) (JInt 1040), RecoverInterruptedActions (JInt 1050), ClaimAction (JStr h0) (JInt 1060)] planned_store)).
     ac_terms a' = sample_action_terms \<and> ac_dispatchCount a' = 1
     \<and> dispatch_count sample_hex sample_ethers h0
         [ClaimAction (JStr h0) (JInt 1040), RecoverInterruptedActions (JInt 1050), ClaimAction (JStr h0) (JInt 1060)] planned_store = 1"
proof -
  let ?cs = "[ClaimAction (JStr h0) (JInt 1040), RecoverInterruptedActions (JInt 1050), ClaimAction (JStr h0) (JInt 1060)]"
  have n: "dispatch_count sample_hex sample_ethers h0 ?cs planned_store = 1" by code_simp
  have "action_0 \<in> set (actions planned_store)" "ac_id action_0 = h0" "ac_terms action_0 = sample_action_terms" "ac_dispatchCount action_0 = 0"
    by code_simp+
  with action_lifecycle_refined [OF sample_states(4), of action_0 ?cs] n show ?thesis by auto
qed

text \<open>
  Property C6.  At most one value-moving action of a settlement is open at any time, an action was
  dispatched exactly once unless it is still pending, and no method is used twice for a settlement.
\<close>

theorem one_open_action:
  assumes "coordinator_state H E V s" and "a \<in> set (actions s)" and "b \<in> set (actions s)"
    and "ac_settlementId a = ac_settlementId b"
  shows "ac_dispatchCount a = (if ac_state a = PENDING then 0 else 1)
    \<and> (unresolved a \<and> unresolved b \<longrightarrow> a = b) \<and> (ac_method a = ac_method b \<longrightarrow> a = b)"
proof -
  have ok: "store_ok H E s s" by (rule coordinator_state_ok [OF assms(1)])
  then have keys: "distinct (map ac_id (actions s))"
      "distinct (map (\<lambda>a. (ac_settlementId a, ac_method a)) (actions s))" "one_unresolved (actions s)"
    by (simp_all add: store_ok_def ids_ok_def)
  have "a = b" if "unresolved a" "unresolved b"
  proof -
    have "ac_id a = ac_id b" using keys(3) assms(2-4) that unfolding one_unresolved_def by blast
    then show ?thesis using keys(1) assms(2,3) by (simp add: distinct_map inj_on_def)
  qed
  moreover have "a = b" if "ac_method a = ac_method b"
    using keys(2) assms(2-4) that by (simp add: distinct_map inj_on_def)
  moreover have "ac_dispatchCount a = (if ac_state a = PENDING then 0 else 1)"
    using ok assms(2) by (simp add: store_ok_def action_ok_def)
  ultimately show ?thesis by blast
qed

theorem one_open_action_witness:
  "action_1 \<in> set (actions dispatched_store) \<and> unresolved action_1 \<and> ac_dispatchCount action_1 = 1"
  using one_open_action [OF sample_states(5), of action_1 action_1]
  by (simp add: action_1_def action_0_def unresolved_def)

text \<open>
  Property C1.  No value moves without its agreement: every action belongs to a settlement with a bound
  contract intent that was validated, and repeats the intent's digest, payment hash, invoice and
  Lightning amount; the methods that spend need an observed reservation, which is the one of the
  intent's quote.
\<close>

theorem action_covered_by_intent:
  assumes "coordinator_state H E V s" and "a \<in> set (actions s)"
  shows "\<exists>r\<in>set (settlements s). \<exists>i input. se_id r = ac_settlementId a \<and> se_intent r = Some i
    \<and> validateContractIntentBinding E input = Inr (bi_intent i)
    \<and> at_intentDigest (ac_terms a) = ci_contractIntentDigest (bi_intent i)
    \<and> at_paymentHash (ac_terms a) = im_paymentHash (ci_message (bi_intent i))
    \<and> at_invoiceDigest (ac_terms a) = im_invoiceDigest (ci_message (bi_intent i))
    \<and> at_amountSats (ac_terms a) = im_lightningAmountSats (ci_message (bi_intent i))
    \<and> (ac_method a \<in> set METHODS_REQUIRING_RESERVATION \<longrightarrow>
         map_option rv_reservationId (se_reservation r) = Some (im_quoteId (ci_message (bi_intent i))))"
proof -
  have ok: "store_ok H E s s" by (rule coordinator_state_ok [OF assms(1)])
  then have "action_ok (settlements s) a" using assms(2) by (simp add: store_ok_def)
  then obtain r where r: "r \<in> set (settlements s)" "se_id r = ac_settlementId a" "action_matches (ac_terms a) r"
      "ac_method a \<in> set METHODS_REQUIRING_RESERVATION \<longrightarrow> se_reservation r \<noteq> None"
    by (auto simp: action_ok_def)
  from r(3) obtain i where i: "se_intent r = Some i" by (auto simp: action_matches_def split: option.splits)
  have "row_ok H E r" using ok r(1) by (simp add: store_ok_def)
  then have "intent_ok H E r i" using i by (simp add: row_ok_def)
  then show ?thesis
    using r i by (intro bexI [of _ r] exI [of _ i])
      (auto simp: intent_ok_def intent_matches_def action_matches_def split: option.splits)
qed

theorem action_covered_by_intent_witness:
  "\<exists>r\<in>set (settlements dispatched_store). map_option rv_reservationId (se_reservation r) =
     Some (im_quoteId sample_message)"
proof -
  have "ac_method action_1 \<in> set METHODS_REQUIRING_RESERVATION" by code_simp
  moreover have "settlements dispatched_store = [row_3\<lparr>se_state := ACTION_DISPATCHING, se_version := 5,
     se_updatedAt := 1040\<rparr>]" by (simp add: dispatched_store_def)
  ultimately show ?thesis
    using action_covered_by_intent [OF sample_states(5), of action_1]
    by (auto simp: row_3_def row_2_def row_1_def sample_intent_def)
qed

text \<open>
  Property C5.  A terminal outcome is sound in every later state: a completed settlement has its
  Lightning leg confirmed, a refunded one never has, no action of a closed settlement is open, and
  nothing about it still waits for reconciliation.
\<close>

theorem terminal_outcome_sound:
  assumes "coordinator_state H E V s" and "r \<in> set (settlements s)" and "se_terminal r = Some t"
  shows "(te_state t = COMPLETED \<longrightarrow> lightning_confirmed s r) \<and> (te_state t = REFUNDED \<longrightarrow> \<not> lightning_confirmed s r)
    \<and> \<not> has_unresolved s (se_id r) \<and> \<not> se_reconciliationRequired r \<and> se_haltCode r = None
    \<and> se_state r = TERMINAL (te_state t)"
proof -
  have ok: "store_ok H E s s" by (rule coordinator_state_ok [OF assms(1)])
  then have "row_ok H E r" "terminal_ok s r" using assms(2) by (simp_all add: store_ok_def)
  moreover have "\<not> has_unresolved s (se_id r)"
  proof
    assume "has_unresolved s (se_id r)"
    then obtain a where a: "a \<in> set (actions s)" "ac_settlementId a = se_id r" "unresolved a"
      by (auto simp: has_unresolved_def list_ex_iff)
    then have "action_ok (settlements s) a" using ok by (simp add: store_ok_def)
    then obtain q where "q \<in> set (settlements s)" "se_id q = se_id r" "se_terminal q = None"
      using a by (auto simp: action_ok_def)
    moreover have "distinct (map se_id (settlements s))" using ok by (simp add: store_ok_def ids_ok_def)
    ultimately show False using assms(2,3) by (auto simp: distinct_map inj_on_def)
  qed
  ultimately show ?thesis using assms(3) by (auto simp: row_ok_def closed_ok_def terminal_ok_def)
qed

theorem terminal_outcome_sound_witness:
  "lightning_confirmed completed_store completed_row"
  using terminal_outcome_sound [OF sample_states(8), of completed_row]
  by (simp add: completed_row_def)

text \<open>The claim of an action, on every branch.\<close>

lemma claim_total:
  assumes state: "coordinator_state H E V s" "a \<in> set (actions s)" and r: "find_settlement s (ac_settlementId a) = Some r"
    and "ac_state a = PENDING" "ac_method a \<noteq> ''evm:claim''" "\<not> se_reconciliationRequired r" "se_terminal r = None" "se_haltCode r = None"
    and "isSafeInteger (JInt at)" "0 \<le> at"
  shows "\<exists>s'. claimAction (JStr (ac_id a)) (JInt at) s = (s', Inr (find_action s' (ac_id a)))
    \<and> find_action s' (ac_id a) = Some (a\<lparr>ac_state := DISPATCHING, ac_dispatchCount := 1, ac_dispatchedAt := Some at\<rparr>)"
proof -
  note row = coordinator_action [OF state]
  have "is_bytes32 (ac_settlementId a)" "is_bytes32 (at_payloadDigest (ac_terms a))"
    using coordinator_settlement(2) [OF state(1) r] row(1) by (simp_all add: action_typed_def)
  moreover have "code_text (JStr ''ACTION'') ''eventType'' = Inr ''ACTION''"
      "code_text (JStr ''DISPATCHING'') ''eventCode'' = Inr ''DISPATCHING''" by code_simp+
  ultimately have "\<exists>s'. claim_body (ac_id a) at s = Inr (s', find_action s' (ac_id a)) \<and>
      find_action s' (ac_id a) = Some (a\<lparr>ac_state := DISPATCHING, ac_dispatchCount := 1, ac_dispatchedAt := Some at\<rparr>)"
    using assms coordinator_find_action [OF state] row
    by (simp add: claim_body_def get_defs bytes32_def event_def set_settlement_state_def dispatched_row Let_def)
  moreover have "integer (JInt at) ''dispatchedAt'' = Inr at" using assms(9,10) by (simp add: integer_def)
  ultimately show ?thesis using row(2) by (auto simp: claimAction_def transaction_def bytes32_def)
qed

text \<open>
  Property C26.  A claim is refused for exactly three reasons.  In a reachable state, the claim of a stored
  action at a valid time succeeds, and dispatches it, if and only if it is a Lightning action, still pending,
  and its settlement is open, not halted and not waiting for reconciliation; otherwise it throws the error of
  the first of these checks that fails and leaves the store as it was.  The other errors of the code (an
  unknown settlement, an event that cannot be written) never occur.
\<close>

theorem claim_refused_exactly:
  assumes "coordinator_state H E V s" and "a \<in> set (actions s)" and "isSafeInteger (JInt at)" and "0 \<le> at"
  shows "\<exists>r\<in>set (settlements s). se_id r = ac_settlementId a \<and>
    (let answer = claimAction (JStr (ac_id a)) (JInt at) s in
     if ac_method a = ''evm:claim'' then answer = (s, Inl (Error ''EVM actions require the signed-transaction broadcast path''))
     else if ac_state a \<noteq> PENDING then answer = (s, Inl (Error ''action is not dispatchable''))
     else if se_reconciliationRequired r \<or> se_terminal r \<noteq> None \<or> se_haltCode r \<noteq> None
     then answer = (s, Inl (Error ''settlement is not dispatchable''))
     else \<exists>s' a'. answer = (s', Inr (Some a')) \<and> a' \<in> set (actions s')
       \<and> a' = a\<lparr>ac_state := DISPATCHING, ac_dispatchCount := 1, ac_dispatchedAt := Some at\<rparr>)"
proof -
  have ok: "store_ok H E s s" by (rule coordinator_state_ok [OF assms(1)])
  then obtain r where r: "r \<in> set (settlements s)" "se_id r = ac_settlementId a"
    using assms(2) unfolding store_ok_def action_ok_def by blast
  then have found: "find_settlement s (ac_settlementId a) = Some r"
    using ok settlement_table.lookup_member [of s r] by (simp add: store_ok_def ids_ok_def)
  note row = coordinator_action [OF assms(1,2)] coordinator_settlement(2) [OF assms(1) found]
  have "claimAction (JStr (ac_id a)) (JInt at) s = transaction (claim_body (ac_id a) at) s"
    using assms(3,4) row(2) by (simp add: claimAction_def integer_def bytes32_def)
  moreover have "claim_body (ac_id a) at s = Inl (Error ''EVM actions require the signed-transaction broadcast path'')"
    if "ac_method a = ''evm:claim''"
    using that coordinator_find_action [OF assms(1,2)] row by (simp add: claim_body_def get_defs bytes32_def)
  moreover have "claim_body (ac_id a) at s = Inl (Error ''action is not dispatchable'')"
    if "ac_method a \<noteq> ''evm:claim''" "ac_state a \<noteq> PENDING"
    using that coordinator_find_action [OF assms(1,2)] row by (simp add: claim_body_def get_defs bytes32_def)
  moreover have "claim_body (ac_id a) at s = Inl (Error ''settlement is not dispatchable'')"
    if "ac_method a \<noteq> ''evm:claim''" "ac_state a = PENDING" "se_reconciliationRequired r \<or> se_terminal r \<noteq> None \<or> se_haltCode r \<noteq> None"
    using that coordinator_find_action [OF assms(1,2)] row found by (auto simp: claim_body_def get_defs bytes32_def)
  moreover have "\<exists>s' a'. claimAction (JStr (ac_id a)) (JInt at) s = (s', Inr (Some a')) \<and> a' \<in> set (actions s')
      \<and> a' = a\<lparr>ac_state := DISPATCHING, ac_dispatchCount := 1, ac_dispatchedAt := Some at\<rparr>"
    if "ac_method a \<noteq> ''evm:claim''" "ac_state a = PENDING" "\<not> se_reconciliationRequired r" "se_terminal r = None" "se_haltCode r = None"
    using claim_total [OF assms(1,2) found that(2,1,3-5) assms(3,4)] action_table.lookup_SomeD by fastforce
  ultimately show ?thesis using r by (intro bexI [of _ r]) (auto simp: transaction_def Let_def)
qed

theorem claim_refused_exactly_witness:
  "claimAction (JStr h0) (JInt 1045) dispatched_store = (dispatched_store, Inl (Error ''action is not dispatchable''))
   \<and> (\<exists>s' a'. claimAction (JStr h0) (JInt 1045) planned_store = (s', Inr (Some a')) \<and> ac_dispatchedAt a' = Some 1045)"
proof -
  have a: "action_1 \<in> set (actions dispatched_store)" "ac_method action_1 \<noteq> ''evm:claim''" "ac_state action_1 \<noteq> PENDING" "ac_id action_1 = h0"
      "action_0 \<in> set (actions planned_store)" "ac_method action_0 \<noteq> ''evm:claim''" "ac_state action_0 = PENDING" "ac_id action_0 = h0"
      "\<forall>r\<in>set (settlements planned_store). \<not> se_reconciliationRequired r \<and> se_terminal r = None \<and> se_haltCode r = None"
    by code_simp+
  have at: "isSafeInteger (JInt 1045)" by code_simp
  show ?thesis
    using claim_refused_exactly [OF sample_states(5) a(1) at] claim_refused_exactly [OF sample_states(4) a(5) at] a(2-4,6-9)
    by (auto simp: Let_def)
qed

lemma persisted_intent_same:
  "intent_ok H E r i \<Longrightarrow> persisted_intent r (bi_intent i) = bi_intent i"
  by (cases "ci_message (bi_intent i)", cases "bi_intent i")
    (auto simp: intent_ok_def intent_matches_def persisted_intent_def se_id_def Let_def)

lemma user_signature_set:
  assumes "validateContractIntentBinding E v = Inr b"
  shows "(ci_userSignature b = None) = (ci_direction b \<noteq> ''lightning-to-bit'')"
proof -
  from binding_parts [OF assms] obtain u where "expected_call E (intent_domain_of b) (ci_direction b) (ci_message b)
      (ci_solverSignature b) u = Inr (ci_userSignature b, ci_calldata b)"
    by blast
  then show ?thesis by (cases "ci_userSignature b") (auto simp: expected_call_def bindE_eq_Inr split: if_splits)
qed

lemma verify_intent_row_ok:
  assumes "row_ok H E r" and "ethers_canonical E"
  shows "verify_intent_row H E r = Inr ()"
proof (cases "se_intent r")
  case (Some i)
  with assms(1) have i: "intent_ok H E r i" by (simp add: row_ok_def)
  then obtain v where v: "validateContractIntentBinding E v = Inr (bi_intent i)" by (auto simp: intent_ok_def)
  have "ci_direction (bi_intent i) = tm_direction (se_terms r)" using i by (simp add: intent_ok_def intent_matches_def)
  with Some i show ?thesis
    using intent_revalidates [OF v assms(2)] user_signature_set [OF v]
    by (auto simp: verify_intent_row_def persisted_intent_same [OF i] intent_columns_match_def intent_ok_def Let_def)
qed (simp add: verify_intent_row_def)

lemma foldE_unit: "\<forall>x\<in>set xs. f x = Inr () \<Longrightarrow> foldE (\<lambda>x _. f x) xs () = Inr ()"
  by (induction xs) auto

text \<open>
  Reopening the database always succeeds: in every reachable state the restart check
  rebuilds each bound contract intent from its columns, validates it again and finds it unchanged,
  given that the Ethereum library parses its own canonical output.
\<close>

theorem persisted_intents_always_verify:
  assumes "coordinator_state H E V s" and "ethers_canonical E"
  shows "verifyPersistedContractIntents H E s = Inr ()"
proof -
  have "\<forall>r\<in>set (sort_key se_id (settlements s)). verify_intent_row H E r = Inr ()"
    using coordinator_state_ok [OF assms(1)] verify_intent_row_ok [OF _ assms(2)] by (auto simp: store_ok_def)
  then show ?thesis unfolding verifyPersistedContractIntents_def by (rule foldE_unit)
qed

theorem persisted_intents_always_verify_witness:
  "se_intent completed_row \<noteq> None \<and> verifyPersistedContractIntents sample_hex sample_ethers completed_store = Inr ()"
  using persisted_intents_always_verify [OF sample_states(8) sample_ethers_canonical]
  by (simp add: completed_row_def row_3_def row_2_def row_1_def)

end
