(* ===== verification/Ledger_Sample.thy ===== *)
theory Ledger_Sample
  imports Coordinator_Sample
begin

text \<open>
  A second run on concrete inputs: a solver declares its capacity, a request for quote is admitted, a
  firm BIT-to-Lightning offer with routing headroom is reserved against that capacity, its executable
  quote is bound, and the authorized settlement takes it over.
\<close>

section \<open>The inputs and what they normalize to\<close>

definition solver_1 :: string where "solver_1 = sample_account (CHR ''c'')"
definition request_1 :: string where "request_1 = sample_hash (CHR ''b'')"
definition offer_1 :: string where "offer_1 = sample_hash (CHR ''6'')"
definition capability_1 :: string where "capability_1 = sample_hash (CHR ''9'')"
definition identity_1 :: string where "identity_1 = sample_hash (CHR ''1'')"

definition sample_capacity :: jsval where
  "sample_capacity = JObj [(''availableBitWei'', JStr ''1000''), (''availableLightningSats'', JStr ''90000''),
     (''capabilityDigest'', JStr capability_1), (''capabilityExpiresAt'', JInt 2000),
     (''capabilityVerified'', JBool True), (''capacityEpoch'', JInt 1), (''observedAt'', JInt 900),
     (''solverId'', JStr solver_1)]"

definition sample_snapshot :: solver_snapshot where
  "sample_snapshot = \<lparr>ss_solverId = solver_1, ss_capabilityDigest = capability_1, ss_capabilityExpiresAt = 2000,
     ss_capacityEpoch = 1, ss_capacityObservedAt = 900, ss_availableBitWei = 1000, ss_availableLightningSats = 90000\<rparr>"

definition sample_policy_input :: jsval where
  "sample_policy_input = JObj [(''establishedSolverMaxBitToLightningSats'', JStr ''80000''),
     (''maxActiveFirmQuotesPerSolver'', JInt 3), (''maxActiveRequestsPerIdentity'', JInt 2),
     (''maxCancellationsPerWindow'', JInt 4), (''maxCapacityAgeSeconds'', JInt 120),
     (''maxConsecutiveFailures'', JInt 2), (''maxFirmQuoteTtlSeconds'', JInt 120),
     (''maxGlobalBitToLightningInFlightSats'', JStr ''80000''), (''maxRequestsPerWindow'', JInt 5),
     (''maxRfqTtlSeconds'', JInt 300), (''minimumCompletedFillsForEstablished'', JStr ''3''),
     (''minimumNotionalSats'', JStr ''1000''), (''minimumReliabilityBps'', JStr ''9000''),
     (''minimumReliabilitySample'', JStr ''10''), (''quotaWindowSeconds'', JInt 3600),
     (''unknownSolverMaxBitToLightningSats'', JStr ''60000'')]"

definition sample_policy :: admission_policy where
  "sample_policy = \<lparr>ap_minimumNotionalSats = 1000, ap_maxRfqTtlSeconds = 300,
     ap_maxActiveRequestsPerIdentity = 2, ap_maxRequestsPerWindow = 5, ap_maxCancellationsPerWindow = 4,
     ap_quotaWindowSeconds = 3600, ap_maxFirmQuoteTtlSeconds = 120, ap_maxCapacityAgeSeconds = 120,
     ap_maxActiveFirmQuotesPerSolver = 3, ap_maxConsecutiveFailures = 2, ap_minimumReliabilitySample = 10,
     ap_minimumReliabilityBps = 9000, ap_minimumCompletedFillsForEstablished = 3,
     ap_unknownSolverMaxBitToLightningSats = 60000, ap_establishedSolverMaxBitToLightningSats = 80000,
     ap_maxGlobalBitToLightningInFlightSats = 80000\<rparr>"

definition sample_identity_input :: jsval where
  "sample_identity_input = JObj [(''authenticated'', JBool True), (''commitment'', JStr identity_1),
     (''key'', JStr ''user-key'')]"

definition sample_request_input :: jsval where
  "sample_request_input = JObj [(''direction'', JStr ''bit-to-lightning''), (''expiresAt'', JInt 1100),
     (''nonce'', JStr ''7''), (''notionalSats'', JStr ''50000''), (''requestId'', JStr request_1),
     (''user'', JStr ''user-key'')]"

definition sample_admission :: jsval where
  "sample_admission = JObj [(''identity'', sample_identity_input), (''now'', JInt 910),
     (''policy'', sample_policy_input), (''request'', sample_request_input)]"

definition sample_admit :: admit_input where
  "sample_admit = \<lparr>ai_identity = \<lparr>ii_commitment = identity_1, ii_key = ''user-key'', ii_keyBindingDigest = digest5\<rparr>,
     ai_request = \<lparr>rr_requestId = request_1, rr_user = ''user-key'', rr_direction = ''bit-to-lightning'',
       rr_notionalSats = 50000, rr_nonce = 7, rr_expiresAt = 1100\<rparr>,
     ai_policy = sample_policy, ai_now = 910, ai_recordDigest = digest5\<rparr>"

definition sample_offer_input :: jsval where
  "sample_offer_input = JObj [(''bitAmountWei'', JStr ''0''), (''capabilityDigest'', JStr capability_1),
     (''capacityEpoch'', JInt 1), (''direction'', JStr ''bit-to-lightning''), (''expiresAt'', JInt 1000),
     (''lightningAmountSats'', JStr ''50000''), (''maxRoutingFeeSats'', JStr ''500''),
     (''signatureVerified'', JBool True)]"

definition sample_offer_reservation :: jsval where
  "sample_offer_reservation = JObj [(''now'', JInt 920), (''offer'', sample_offer_input),
     (''offerDigest'', JStr (sample_hash (CHR ''d''))), (''offerId'', JStr offer_1),
     (''policy'', sample_policy_input), (''requestId'', JStr request_1),
     (''marketRiskDigest'', JStr (sample_hash (CHR ''e''))),
     (''marketRiskPolicyDigest'', JStr (sample_hash (CHR ''f''))), (''marketRiskValidUntil'', JInt 1000),
     (''selectionAuthorizationDigest'', JStr (sample_hash (CHR ''a''))),
     (''selectionAuthorizationExpiresAt'', JInt 990), (''solverId'', JStr solver_1)]"

definition sample_reserve_input :: offer_reservation where
  "sample_reserve_input = \<lparr>rs_offerId = offer_1, rs_offerDigest = sample_hash (CHR ''d''),
     rs_selectionAuthorizationDigest = sample_hash (CHR ''a''), rs_selectionAuthorizationExpiresAt = 990,
     rs_marketRiskDigest = sample_hash (CHR ''e''), rs_marketRiskPolicyDigest = sample_hash (CHR ''f''),
     rs_marketRiskValidUntil = 1000, rs_requestId = request_1, rs_solverId = solver_1,
     rs_offer = \<lparr>ot_direction = ''bit-to-lightning'', ot_capabilityDigest = capability_1, ot_bitAmountWei = 0,
       ot_lightningAmountSats = 50000, ot_maxRoutingFeeSats = 500, ot_capacityEpoch = 1, ot_expiresAt = 1000,
       ot_solverSigned = True\<rparr>,
     rs_policy = sample_policy, rs_now = 920\<rparr>"

definition sample_execution :: jsval where
  "sample_execution = JObj [(''executableOfferDigest'', JStr (sample_hash (CHR ''8''))), (''finalizedAt'', JInt 930),
     (''offerId'', JStr offer_1), (''privateRequestDigest'', JStr (sample_hash (CHR ''7'')))]"

definition sample_execution_input :: execution_input where
  "sample_execution_input = \<lparr>xi_offerId = offer_1, xi_privateRequestDigest = sample_hash (CHR ''7''),
     xi_executableOfferDigest = sample_hash (CHR ''8''), xi_finalizedAt = 930\<rparr>"

definition sample_handoff_settlement :: jsval where
  "sample_handoff_settlement = JObj [(''amountSats'', JStr ''50000''), (''capacityEpoch'', JInt 1),
     (''createdAt'', JInt 940), (''direction'', JStr ''bit-to-lightning''), (''intentDigest'', JStr digest5),
     (''intentNonce'', JStr ''7''), (''invoiceDigest'', JStr (im_invoiceDigest sample_message)),
     (''nonceAuthorityDigest'', JStr (sample_hash (CHR ''a''))), (''paymentHash'', JStr (im_paymentHash sample_message)),
     (''pricingId'', JStr request_1), (''quoteReceiptDigest'', JStr (sample_hash (CHR ''c''))),
     (''selectedOfferId'', JStr offer_1), (''selectedSetDigest'', JStr (sample_hash (CHR ''d''))),
     (''settlementId'', JStr h4)]"

definition sample_handoff :: jsval where
  "sample_handoff = JObj [(''authorizationExpiresAt'', JInt 980), (''authorizedAt'', JInt 940),
     (''executionAuthorizationDigest'', JStr digest5), (''executionBindingDigest'', JStr digest5),
     (''offerId'', JStr offer_1), (''settlement'', sample_handoff_settlement)]"

definition sample_user_authorization :: authorization_input where
  "sample_user_authorization = \<lparr>ui_offerId = offer_1, ui_executionBindingDigest = digest5,
     ui_executionAuthorizationDigest = digest5, ui_authorizationExpiresAt = 980, ui_authorizedAt = 940\<rparr>"

definition handoff_terms :: settlement_terms where
  "handoff_terms = sample_terms\<lparr>tm_createdAt := 940\<rparr>"

section \<open>The states\<close>

definition solver_row :: solver_capacity where
  "solver_row = \<lparr>sv_solverId = solver_1, sv_capabilityDigest = capability_1, sv_capabilityExpiresAt = 2000,
     sv_snapshotDigest = digest5, sv_capacityEpoch = 1, sv_capacityObservedAt = 900, sv_availableBitWei = 1000,
     sv_committedBitWei = 0, sv_availableLightningSats = 90000, sv_committedLightningSats = 0,
     sv_activeFirmQuotes = 0, sv_successfulFills = 0, sv_attributableFailures = 0, sv_consecutiveFailures = 0,
     sv_suspended = False, sv_capacityConflict = False, sv_version = 1, sv_createdAt = 900, sv_updatedAt = 900\<rparr>"

definition identity_0 :: identity_row where
  "identity_0 = \<lparr>id_commitment = identity_1, id_keyBindingDigest = digest5, id_cancellationSequence = 0,
     id_version = 2, id_createdAt = 910, id_updatedAt = 910, id_lastObservedAt = 910\<rparr>"

definition request_0 :: request_row where
  "request_0 = \<lparr>rq_requestId = request_1, rq_identityCommitment = identity_1, rq_direction = ''bit-to-lightning'',
     rq_notionalSats = 50000, rq_nonce = 7, rq_expiresAt = 1100, rq_recordDigest = digest5,
     rq_state = RFQ_ACTIVE, rq_resolution = None, rq_acceptedAt = 910\<rparr>"

definition offer_0 :: firm_offer where
  "offer_0 = \<lparr>fo_terms = \<lparr>of_offerId = offer_1, of_offerDigest = sample_hash (CHR ''d''),
       of_selectionAuthorizationDigest = sample_hash (CHR ''a''), of_selectionAuthorizationExpiresAt = 990,
       of_marketRiskDigest = sample_hash (CHR ''e''), of_marketRiskPolicyDigest = sample_hash (CHR ''f''),
       of_marketRiskValidUntil = 1000, of_requestId = request_1, of_solverId = solver_1,
       of_capabilityDigest = capability_1, of_direction = ''bit-to-lightning'', of_amount = 50500,
       of_bitAmountWei = 0, of_lightningAmountSats = 50500, of_capacityEpoch = 1, of_expiresAt = 1000\<rparr>,
     fo_recordDigest = digest5, fo_binding = None, fo_authorization = None, fo_state = OFFER_ACTIVE,
     fo_outcome = None, fo_reservedAt = 920\<rparr>"

definition finalized_offer :: firm_offer where
  "finalized_offer = offer_0\<lparr>fo_binding := Some \<lparr>xb_privateRequestDigest = sample_hash (CHR ''7''),
     xb_executableOfferDigest = sample_hash (CHR ''8''), xb_bindingDigest = digest5, xb_finalizedAt = 930\<rparr>\<rparr>"

definition authorized_offer :: firm_offer where
  "authorized_offer = finalized_offer\<lparr>fo_authorization := Some \<lparr>ua_digest = digest5, ua_expiresAt = 980,
     ua_authorizedAt = 940\<rparr>\<rparr>"

definition declared_store :: store where
  "declared_store = empty_store\<lparr>solvers := [solver_row]\<rparr>"

definition admitted_store :: store where
  "admitted_store = declared_store\<lparr>meta := [(''admission_policy_digest'', digest5)], identities := [identity_0],
     requests := [request_0], admissionEvents := [\<lparr>ae_eventId = request_1, ae_identityCommitment = identity_1,
       ae_requestId = Some request_1, ae_kind = EV_ACCEPTED, ae_sequence = 7, ae_recordDigest = digest5,
       ae_occurredAt = 910\<rparr>]\<rparr>"

definition offered_store :: store where
  "offered_store = admitted_store\<lparr>offers := [offer_0], solvers := [solver_row\<lparr>sv_committedLightningSats := 50500,
     sv_activeFirmQuotes := 1, sv_version := 2, sv_updatedAt := 920\<rparr>]\<rparr>"

definition finalized_store :: store where
  "finalized_store = offered_store\<lparr>offers := [finalized_offer]\<rparr>"

definition handed_store :: store where
  "handed_store = finalized_store\<lparr>offers := [authorized_offer],
     settlements := [new_settlement handoff_terms digest5],
     events := [sample_event None ''SETTLEMENT'' ''INTENT_ACCEPTED'' digest5 940]\<rparr>"

section \<open>The calls\<close>

lemma sample_declare:
  "perform sample_hex sample_ethers (RecordSolverCapacity sample_capacity) empty_store = declared_store"
proof -
  have "normalizeSolverSnapshot sample_capacity = Inr sample_snapshot" by code_simp
  moreover have "digest sample_hex (snapshot_json sample_snapshot) = Inr digest5" by code_simp
  moreover have "record_capacity_body sample_snapshot digest5 empty_store = Inr (declared_store, Some solver_row)"
    by code_simp
  ultimately show ?thesis by (simp add: recordSolverCapacity_def transaction_def)
qed

lemma sample_policy_normal: "normalizeAdmissionPolicy sample_policy_input = Inr sample_policy"
  by code_simp

lemma sample_policy_digest: "digest sample_hex (policy_json sample_policy) = Inr digest5"
  by code_simp

lemma sample_admission_normal: "normalizeAdmitInput sample_hex sample_admission = Inr sample_admit"
proof -
  have "exactKeys sample_admission [''identity'', ''now'', ''policy'', ''request''] ''RFQ admission'' = Inr ()"
    by code_simp
  moreover have "normalizeAuthenticatedIdentity sample_hex sample_identity_input = Inr (ai_identity sample_admit)"
    by code_simp
  moreover have "normalizeRfqRequest sample_request_input = Inr (ai_request sample_admit)" by code_simp
  moreover have "integer (JInt 910) ''now'' = Inr 910" by code_simp
  moreover have "digest sample_hex (request_terms_json (ai_request sample_admit) identity_1) = Inr digest5" by code_simp
  ultimately show ?thesis
    using sample_policy_normal by (simp add: normalizeAdmitInput_def sample_admission_def sample_admit_def)
qed

lemma sample_admits:
  "perform sample_hex sample_ethers (AdmitRfq sample_admission) declared_store = admitted_store"
proof -
  have "map_option fst (case admit_body sample_hex sample_admit declared_store of Inl _ \<Rightarrow> None | Inr x \<Rightarrow> Some x) =
    Some admitted_store" by code_simp
  then show ?thesis
    using sample_admission_normal by (auto simp: admitRfq_def transaction_def split: sum.splits)
qed

lemma sample_offers:
  "perform sample_hex sample_ethers (ReserveVerifiedFirmOffer sample_offer_reservation) admitted_store = offered_store"
proof -
  have "normalizeFirmOfferReservation sample_offer_reservation = Inr sample_reserve_input" by code_simp
  moreover have "digest sample_hex (offer_terms_json (reservation_terms sample_reserve_input)) = Inr digest5" by code_simp
  moreover have "reserve_body sample_hex sample_reserve_input digest5 admitted_store = Inr (offered_store, Some offer_0)"
    by code_simp
  ultimately show ?thesis by (simp add: reserveVerifiedFirmOffer_def transaction_def)
qed

lemma sample_finalizes:
  "perform sample_hex sample_ethers (BindFirmOfferExecution sample_execution) offered_store = finalized_store"
proof -
  have "normalizeFirmOfferExecution sample_execution = Inr sample_execution_input" by code_simp
  moreover have "digest sample_hex (execution_json sample_execution_input) = Inr digest5" by code_simp
  moreover have "execution_body sample_execution_input digest5 offered_store = Inr (finalized_store, Some finalized_offer)"
    by code_simp
  ultimately show ?thesis by (simp add: bindFirmOfferExecution_def transaction_def)
qed

lemma sample_hands_over:
  "perform sample_hex sample_ethers (AcceptAuthorizedFirmOfferSettlement sample_handoff) finalized_store = handed_store"
proof -
  have "normalizeAuthorizedFirmOfferSettlement sample_handoff = Inr (sample_user_authorization, handoff_terms)"
    by code_simp
  moreover have "handoff_body sample_hex sample_user_authorization handoff_terms finalized_store =
    Inr (handed_store, Some authorized_offer, Some (new_settlement handoff_terms digest5))" by code_simp
  ultimately show ?thesis by (simp add: acceptAuthorizedFirmOfferSettlement_def transaction_def)
qed

end
