(* ===== verification/Store_Properties.thy ===== *)
theory Store_Properties
  imports Coordinator_Properties Ledger_Sample
begin

text \<open>
  What the calls of a coordinator do to a halted settlement and to the ledger of requests, solver capacity and
  firm offers, what a recovery leaves behind and what a repeated call does.
\<close>

section \<open>The states of the ledger run are reachable\<close>

lemma ledger_states:
  "sample_state declared_store" "sample_state admitted_store" "sample_state offered_store"
  "sample_state finalized_store" "sample_state handed_store"
proof -
  note go = coordinator_state_perform [of sample_hex sample_ethers sample_validators]
  show 1: "sample_state declared_store" using go [OF coordinator_state_empty] sample_declare by metis
  show 2: "sample_state admitted_store" using go [OF 1] sample_admits by metis
  show 3: "sample_state offered_store" using go [OF 2] sample_offers by metis
  show 4: "sample_state finalized_store" using go [OF 3] sample_finalizes by metis
  show "sample_state handed_store" using go [OF 4] sample_hands_over by metis
qed

lemma coordinator_ledger: "coordinator_state H E V s \<Longrightarrow> ledger_ok s"
  using coordinator_state_ok by (simp add: store_ok_def)

section \<open>Capacity accounting\<close>

text \<open>
  Property C9.  The capacity counters never diverge from the firm-offer ledger: in every reachable
  state the read that recomputes the commitments of a solver from its active offers succeeds and
  returns the stored row, so its fail-closed branch is never taken.
\<close>

theorem ledger_always_balanced:
  assumes "coordinator_state H E V s" and "is_address k"
  shows "getSolverCapacity s k = Inr (find_solver s k)"
proof -
  have "balanced (offers s) v" if "find_solver s k = Some v" for v
    using coordinator_ledger [OF assms(1)] solver_table.lookup_SomeD [OF that] by (simp add: ledger_ok_def)
  moreover have "sv_solverId v = k" if "find_solver s k = Some v" for v
    using solver_table.lookup_SomeD [OF that] by simp
  ultimately show ?thesis
    using assms(2) by (auto simp: getSolverCapacity_def bindE_eq_Inr address_Inr balanced_def split: option.splits)
qed

theorem ledger_always_balanced_witness:
  "getSolverCapacity offered_store solver_1 = Inr (Some (solver_row\<lparr>sv_committedLightningSats := 50500,
     sv_activeFirmQuotes := 1, sv_version := 2, sv_updatedAt := 920\<rparr>))"
proof -
  have "is_address solver_1" by code_simp
  moreover have "find_solver offered_store solver_1 = Some (solver_row\<lparr>sv_committedLightningSats := 50500,
     sv_activeFirmQuotes := 1, sv_version := 2, sv_updatedAt := 920\<rparr>)" by code_simp
  ultimately show ?thesis using ledger_always_balanced [OF ledger_states(3)] by simp
qed

lemma global_committed_append:
  "global_committed (rows @ [f]) = global_committed rows +
     (if of_direction (fo_terms f) = ''bit-to-lightning'' \<and> fo_state f = OFFER_ACTIVE
      then of_lightningAmountSats (fo_terms f) else 0)"
  by (simp add: global_committed_def total_def)

lemma committed_after_insert:
  assumes "reserve_new v d s = Inr (s', out)" and "policy_bounds (rs_policy v) = Inr ()"
  shows "\<exists>c. find_solver s' (rs_solverId v) = Some c
    \<and> committed_bit (rs_solverId v) (offers s') \<le> sv_availableBitWei c
    \<and> committed_sats (rs_solverId v) (offers s') \<le> sv_availableLightningSats c
    \<and> (ot_direction (rs_offer v) = ''bit-to-lightning''
        \<longrightarrow> global_committed (offers s') \<le> ap_maxGlobalBitToLightningInFlightSats (rs_policy v))"
proof -
  from assms obtain solver nxt where c: "find_solver s (rs_solverId v) = Some solver"
    "committed_bit (rs_solverId v) (offers s) + offer_bit_leg (rs_offer v) \<le> sv_availableBitWei solver"
    "committed_sats (rs_solverId v) (offers s) + offer_lightning_leg (rs_offer v) \<le> sv_availableLightningSats solver"
    "ot_direction (rs_offer v) = ''bit-to-lightning'' \<longrightarrow>
       global_committed (offers s) + offer_lightning_leg (rs_offer v) \<le> ap_maxGlobalBitToLightningInFlightSats (rs_policy v)"
    "nxt = solver\<lparr>sv_activeFirmQuotes := active_count (rs_solverId v) (offers s) + 1,
       sv_committedBitWei := committed_bit (rs_solverId v) (offers s) + offer_bit_leg (rs_offer v),
       sv_committedLightningSats := committed_sats (rs_solverId v) (offers s) + offer_lightning_leg (rs_offer v)\<rparr>"
    "s' = writeSolverAccounting nxt (rs_now v) (s\<lparr>offers := offers s @ [new_offer v d]\<rparr>)"
    by (rule reserve_new_Inr)
  have rows: "offers s' = offers s @ [new_offer v d]" by (simp add: c(6) writeSolverAccounting_def)
  have id: "sv_solverId solver = rs_solverId v" using solver_table.lookup_SomeD [OF c(1)] by simp
  have "\<exists>n. find_solver s' (rs_solverId v) = Some n \<and> sv_availableBitWei n = sv_availableBitWei solver
    \<and> sv_availableLightningSats n = sv_availableLightningSats solver"
    using c(1) id by (simp add: c(5,6) writeSolverAccounting_def solver_table.lookup_modify solver_table.lookup_rows
        solver_table.rows_modify row_find_update)
  then show ?thesis
    using c(2,3,4) by (auto simp: rows totals_after_insert global_committed_append)
qed

text \<open>
  Property C15.  A new reservation stays inside the capacity it was checked against: when a firm offer is
  reserved that was not there before, the commitments of its solver in the resulting ledger are at most
  its declared BIT and Lightning capacity, and the Lightning amount in flight over all solvers is at
  most the global cap of the policy when the offer pays out on Lightning.
\<close>

theorem reservation_within_capacity:
  assumes "normalizeFirmOfferReservation input = Inr v"
    and "reserveVerifiedFirmOffer H input s = (s', Inr out)" and "find_offer s (rs_offerId v) = None"
  shows "\<exists>c. find_solver s' (rs_solverId v) = Some c
    \<and> committed_bit (rs_solverId v) (offers s') \<le> sv_availableBitWei c
    \<and> committed_sats (rs_solverId v) (offers s') \<le> sv_availableLightningSats c
    \<and> (ot_direction (rs_offer v) = ''bit-to-lightning''
        \<longrightarrow> global_committed (offers s') \<le> ap_maxGlobalBitToLightningInFlightSats (rs_policy v))"
proof -
  from assms(1,2) obtain d where "reserve_body H v d s = Inr (s', out)"
    by (auto simp: reserveVerifiedFirmOffer_def withInput_def transaction_Inr split: sum.splits prod.splits
        simp: bindE_eq_Inr bindE_eq_Inl)
  then obtain s1 s2 n where p: "bindAdmissionPolicy H (rs_policy v) s = Inr s1"
    and new: "find_offer s1 (rs_offerId v) \<noteq> None \<or> reserve_new v d s2 = Inr (s', out)"
    unfolding reserve_body_def by (auto simp: bindE_eq_Inr getFirmOffer_Inr split: option.splits if_splits)
  have "offers s1 = offers s" using bindAdmissionPolicy_frame [OF p] by auto
  with assms(3) have "find_offer s1 (rs_offerId v) = None" by (simp add: offer_table.lookup_rows)
  with new have "reserve_new v d s2 = Inr (s', out)" by simp
  moreover have "policy_bounds (rs_policy v) = Inr ()" using normalizeFirmOfferReservation_Inr [OF assms(1)] by simp
  ultimately show ?thesis by (rule committed_after_insert)
qed

theorem reservation_within_capacity_witness:
  "\<exists>c. find_solver offered_store solver_1 = Some c \<and> committed_sats solver_1 (offers offered_store) \<le> 90000
     \<and> global_committed (offers offered_store) \<le> 80000"
proof -
  have n: "normalizeFirmOfferReservation sample_offer_reservation = Inr sample_reserve_input" by code_simp
  moreover have "digest sample_hex (offer_terms_json (reservation_terms sample_reserve_input)) = Inr digest5" by code_simp
  moreover have "reserve_body sample_hex sample_reserve_input digest5 admitted_store = Inr (offered_store, Some offer_0)"
    by code_simp
  ultimately have "reserveVerifiedFirmOffer sample_hex sample_offer_reservation admitted_store = (offered_store, Inr (Some offer_0))"
    by (simp add: reserveVerifiedFirmOffer_def transaction_def)
  moreover have "find_offer admitted_store (rs_offerId sample_reserve_input) = None" by code_simp
  ultimately show ?thesis
    using reservation_within_capacity [OF n] by (fastforce simp: sample_reserve_input_def sample_policy_def
        offered_store_def solver_table.lookup_rows row_find_def solver_row_def)
qed

section \<open>Sweeps and restarts\<close>

fun ledger_call :: "store_call \<Rightarrow> bool" where
  "ledger_call (AdmitRfq i) = True" | "ledger_call (CancelRfqs i) = True" | "ledger_call (ExpireRfqs i j) = True"
| "ledger_call (ReconcileRfqFinalizationRestart i) = True" | "ledger_call (ResolveRfq i) = True"
| "ledger_call (RecordSolverCapacity i) = True" | "ledger_call (ReserveVerifiedFirmOffer i) = True"
| "ledger_call c = False"

lemma ledger_call_spares:
  assumes ledger: "ledger_ok s" and "ledger_call c"
  shows "spares s (perform H E c s)"
proof -
  note p = public_invariant [where P = "spares s", OF spares_refl]
  show ?thesis
  proof (cases c)
    case (AdmitRfq i)
    then show ?thesis unfolding AdmitRfq perform.simps admitRfq_def
      by (intro p) (blast dest: admit_body_ledger [OF _ ledger])
  next
    case (CancelRfqs i)
    show ?thesis unfolding CancelRfqs perform.simps cancelRfqs_def
      by (intro p) (blast dest: cancel_body_ledger [OF _ ledger])
  next
    case (ExpireRfqs i j)
    show ?thesis unfolding ExpireRfqs perform.simps expireRfqs_def case_prod_beta
      by (intro p) (blast dest: expireRfqRequests_ledger [OF _ ledger])
  next
    case (ReconcileRfqFinalizationRestart i)
    show ?thesis unfolding ReconcileRfqFinalizationRestart perform.simps reconcileRfqFinalizationRestart_def case_prod_beta
      by (intro p) (blast dest: restart_body_ledger [OF _ ledger])
  next
    case (ResolveRfq i)
    show ?thesis unfolding ResolveRfq perform.simps resolveRfq_def case_prod_beta
      by (intro p) (blast dest: resolve_body_ledger [OF _ ledger])
  next
    case (RecordSolverCapacity i)
    show ?thesis unfolding RecordSolverCapacity perform.simps recordSolverCapacity_def case_prod_beta
      by (intro p) (auto simp: bindE_eq_Inr dest!: normalizeSolverSnapshot_nonneg record_capacity_ledger [OF _ ledger])
  next
    case (ReserveVerifiedFirmOffer i)
    show ?thesis unfolding ReserveVerifiedFirmOffer perform.simps reserveVerifiedFirmOffer_def case_prod_beta
      by (intro p) (auto simp: bindE_eq_Inr dest!: normalizeFirmOfferReservation_Inr reserve_body_ledger [OF _ _ ledger])
  qed (use assms(2) in simp_all)
qed

text \<open>
  Property C21.  Once a settlement has taken over a firm offer, no admission, cancellation, expiry sweep,
  restart cleanup, request resolution, capacity update or new reservation touches that offer or any
  settlement, action or transaction: the committed capacity stays reserved until the settlement itself
  is reconciled.
\<close>

theorem settlement_owned_offer_spared:
  assumes "coordinator_state H E V s" and "ledger_call c" and "f \<in> set (offers s)"
    and "r \<in> set (settlements s)" and "se_offerId r = fo_id f"
  shows "f \<in> set (offers (perform H E c s)) \<and> settlements (perform H E c s) = settlements s
    \<and> actions (perform H E c s) = actions s \<and> evms (perform H E c s) = evms s"
  using ledger_call_spares [OF coordinator_ledger [OF assms(1)] assms(2), of H E] assms(3-5)
  by (auto simp: spares_def same_rows_def owned_def list_ex_iff)

theorem settlement_owned_offer_spared_witness:
  "authorized_offer \<in> set (offers (perform sample_hex sample_ethers (ExpireRfqs (JInt 5000) (JInt 1000)) handed_store))"
  using settlement_owned_offer_spared [OF ledger_states(5), of "ExpireRfqs (JInt 5000) (JInt 1000)" authorized_offer
      "new_settlement handoff_terms digest5"]
  by (simp add: handed_store_def new_settlement_def handoff_terms_def sample_terms_def authorized_offer_def
      finalized_offer_def offer_0_def key_defs offer_1_def del: perform.simps)

text \<open>
  Property C25.  The restart reconciliation refuses every state in which a settlement owns an active offer
  whose reserved Lightning amount is not the settlement's amount, whatever its input, and changes
  nothing.  A BIT-to-Lightning offer reserves the payment plus its routing ceiling while the settlement
  carries the payment alone, so a settlement of such an offer with a nonzero ceiling blocks the restart
  reconciliation until the offer is closed.
\<close>

theorem restart_refuses_routing_headroom:
  assumes "coordinator_state H E V s" and f: "f \<in> set (offers s)" "fo_state f = OFFER_ACTIVE"
    and r: "r \<in> set (settlements s)" "se_offerId r = fo_id f"
    and "tm_amountSats (se_terms r) \<noteq> of_lightningAmountSats (fo_terms f)"
  shows "\<exists>e. reconcileRfqFinalizationRestart H input s = (s, Inl e)"
proof -
  have "offer_ok s f" using coordinator_ledger [OF assms(1)] f(1) by (simp add: ledger_ok_def)
  then obtain q where q: "q \<in> set (requests s)" "rq_requestId q = fo_requestId f" by (auto simp: offer_ok_def)
  then have "list_ex (unsafe_ownership f r) (request_of s f)"
    using assms(6) by (auto simp: request_of_def list_ex_iff unsafe_ownership_def Let_def)
  then have "list_ex (\<lambda>f. list_ex (\<lambda>m. list_ex (unsafe_ownership f m) (request_of s f)) (owners s f)) (active_ledger s)"
    using f r by (auto simp: list_ex_iff active_ledger_def owners_def)
  then have "\<exists>e. check_restart_liability s = Inl e" by (simp add: check_restart_liability_def)
  then have "\<exists>e. restart_body H at limit s = Inl e" for at limit
    by (cases "check_restart_clock at s") (auto simp: restart_body_def)
  then show ?thesis
    unfolding reconcileRfqFinalizationRestart_def withInput_def
    by (auto simp: transaction_def split: sum.splits prod.splits) (metis Inr_not_Inl old.sum.exhaust)+
qed

theorem restart_refuses_routing_headroom_witness:
  "\<exists>e. reconcileRfqFinalizationRestart sample_hex (JObj [(''limit'', JInt 10), (''observedAt'', JInt 950)]) handed_store
     = (handed_store, Inl e)"
proof -
  have "authorized_offer \<in> set (offers handed_store)" "fo_state authorized_offer = OFFER_ACTIVE"
    "new_settlement handoff_terms digest5 \<in> set (settlements handed_store)"
    "se_offerId (new_settlement handoff_terms digest5) = fo_id authorized_offer"
    "tm_amountSats (se_terms (new_settlement handoff_terms digest5)) \<noteq> of_lightningAmountSats (fo_terms authorized_offer)"
    by (simp_all add: handed_store_def new_settlement_def handoff_terms_def sample_terms_def authorized_offer_def
      finalized_offer_def offer_0_def key_defs offer_1_def)
  then show ?thesis using restart_refuses_routing_headroom [OF ledger_states(5)] by blast
qed

section \<open>Halts\<close>

text \<open>
  Property C13.  A halt is final: across any call a halted settlement stays halted and is never closed, and
  nothing is planned or dispatched for it; each of its actions was there before and has been
  dispatched as often as before.
\<close>

theorem halt_is_final:
  assumes "coordinator_state H E V s" and "r \<in> set (settlements s)" and "se_haltCode r \<noteq> None"
  shows "(\<exists>r'\<in>set (settlements (perform H E c s)). se_id r' = se_id r \<and> se_haltCode r' \<noteq> None \<and> se_terminal r' = None)
    \<and> (\<forall>a\<in>set (actions (perform H E c s)). ac_settlementId a = se_id r \<longrightarrow>
        (\<exists>b\<in>set (actions s). ac_terms b = ac_terms a \<and> ac_dispatchCount b = ac_dispatchCount a))"
proof -
  have h: "history s (perform H E c s)" by (rule coordinator_history [OF assms(1)])
  then obtain r' where r': "r' \<in> set (settlements (perform H E c s))" "row_later r r'"
    using assms(2) unfolding history_def by blast
  moreover have "store_ok H E s (perform H E c s)" by (rule perform_ok [OF coordinator_state_ok [OF assms(1)]])
  then have "closed_ok r'" using r'(1) by (simp add: store_ok_def row_ok_def)
  ultimately have "\<exists>r'\<in>set (settlements (perform H E c s)). se_id r' = se_id r \<and> se_haltCode r' \<noteq> None
      \<and> se_terminal r' = None"
    using assms(3) by (intro bexI [of _ r']) (auto simp: row_later_def se_id_def closed_ok_def split: option.splits)
  then show ?thesis using h assms(2,3) unfolding history_def halt_kept_def by blast
qed

definition sample_halt :: jsval where
  "sample_halt = JObj [(''evidenceDigest'', JStr (sample_hash (CHR ''d''))), (''haltCode'', JStr ''RISK_LIMIT''),
     (''recordedAt'', JInt 1035), (''settlementId'', JStr h4)]"

definition halted_row :: settlement where
  "halted_row = row_3\<lparr>se_state := HALTED, se_reconciliationRequired := True, se_haltCode := Some ''RISK_LIMIT'',
     se_version := 5, se_updatedAt := 1035\<rparr>"

definition halted_store :: store where
  "halted_store = planned_store\<lparr>settlements := [halted_row], events := events planned_store @
     [sample_event None ''RISK'' ''RISK_LIMIT'' (sample_hash (CHR ''d'')) 1035]\<rparr>"

lemma sample_halts: "perform sample_hex sample_ethers (HaltSettlement sample_halt) planned_store = halted_store"
proof -
  have "haltSettlement sample_halt planned_store = (halted_store, Inr (Some halted_row))" by code_simp
  then show ?thesis by simp
qed

theorem halt_is_final_witness:
  "{a \<in> set (actions (perform sample_hex sample_ethers (ClaimAction (JStr h0) (JInt 1040)) halted_store)).
     ac_settlementId a = h4 \<and> ac_dispatchCount a \<noteq> 0} = {}"
proof -
  have "sample_state halted_store" using coordinator_state_perform [OF sample_states(4)] sample_halts by metis
  moreover have "halted_row \<in> set (settlements halted_store)" "se_haltCode halted_row \<noteq> None" "se_id halted_row = h4"
    by (simp_all add: halted_store_def halted_row_def row_3_def row_2_def row_1_def row_0_def new_settlement_def se_id_def
        sample_terms_def)
  moreover have "\<forall>b\<in>set (actions halted_store). ac_dispatchCount b = 0"
    by (simp add: halted_store_def planned_store_def action_0_def)
  ultimately show ?thesis using halt_is_final [of _ _ _ halted_store halted_row] by fastforce
qed

section \<open>Recovery\<close>

text \<open>Plain data has a digest: texts, safe integers, flags and null, in objects and arrays.\<close>

lemma digest_object:
  assumes "\<And>k v. (k, v) \<in> set kvs \<Longrightarrow> \<exists>t. canonicalize v = Inr t"
  shows "\<exists>d. digest H (JObj kvs) = Inr d"
proof -
  have "\<exists>ts. mapE (\<lambda>(k, v). bindE (canonicalize v) (\<lambda>t. Inr (json_string k @ '':'' @ t))) (sort_key fst kvs) = Inr ts"
    by (rule mapE_total) (use assms in fastforce)
  then show ?thesis by (auto simp: digest_def)
qed

lemma recovery_digest:
  assumes "0 \<le> at" "at \<le> MAX_SAFE_INTEGER"
  shows "\<exists>d. digest H (recovery_json k at) = Inr d"
  unfolding recovery_json_def by (rule digest_object) (use assms in auto)

definition recovers :: "action list \<Rightarrow> action \<Rightarrow> action \<Rightarrow> bool" where
  "recovers xs b b' \<longleftrightarrow> ac_terms b' = ac_terms b
     \<and> (if ac_id b \<in> ac_id ` set xs then ac_state b' = UNKNOWN else b' = b)"

lemma recover_action_total:
  assumes "hex_digest H" "0 \<le> at" "at \<le> MAX_SAFE_INTEGER"
  shows "\<exists>s'. recover_action H at a s = Inr s' \<and> list_all2 (recovers [a]) (actions s) (actions s')"
proof -
  obtain d where d: "digest H (recovery_json (ac_id a) at) = Inr d" using recovery_digest assms by blast
  have "is_code ''RECOVERY''" "is_code ''PROCESS_RESTART''" by code_simp+
  then have "event i j ''RECOVERY'' ''PROCESS_RESTART'' d at t = Inr (t\<lparr>events := events t @ [\<lparr>ce_settlementId = i,
      ce_actionId = j, ce_type = ''RECOVERY'', ce_code = ''PROCESS_RESTART'', ce_dataDigest = d, ce_occurredAt = at\<rparr>]\<rparr>)"
    for i j t using digest_bytes32 [OF assms(1) d] by (simp add: event_def code_text_def bytes32_def Let_def)
  then show ?thesis
    unfolding recover_action_def d Let_def
    by (auto simp: list_all2_conv_all_nth recovers_def row_update_def)
qed

lemma recovers_trans:
  assumes "recovers xs b c" and "recovers ys c d"
  shows "recovers (xs @ ys) b d"
proof -
  have "ac_id c = ac_id b" using assms(1) by (simp add: recovers_def ac_id_def)
  then show ?thesis using assms by (auto simp: recovers_def split: if_splits)
qed

lemma recover_loop_total:
  assumes "hex_digest H" "0 \<le> at" "at \<le> MAX_SAFE_INTEGER"
  shows "\<exists>s'. foldE (recover_action H at) xs s = Inr s' \<and> list_all2 (recovers xs) (actions s) (actions s')"
proof (induction xs arbitrary: s)
  case Nil
  then show ?case by (simp add: list_all2_same recovers_def)
next
  case (Cons a xs)
  obtain s1 where s1: "recover_action H at a s = Inr s1" "list_all2 (recovers [a]) (actions s) (actions s1)"
    using recover_action_total [OF assms] by blast
  obtain s2 where s2: "foldE (recover_action H at) xs s1 = Inr s2" "list_all2 (recovers xs) (actions s1) (actions s2)"
    using Cons.IH by blast
  have "list_all2 (recovers ([a] @ xs)) (actions s) (actions s2)"
    by (rule list_all2_trans [OF _ s1(2) s2(2)]) (rule recovers_trans)
  with s1 s2 show ?case by simp
qed

text \<open>
  Property C20.  Recovery after a crash always completes: with a hash that yields hexadecimal digests and a
  safe clock value, the recovery call returns in every reachable state, reports how many actions it found
  in dispatch, and leaves none in dispatch: each of them is unknown, to be resolved by reconciliation,
  and every other action is unchanged.
\<close>

theorem recovery_always_completes:
  assumes "coordinator_state H E V s" and "hex_digest H" and "0 \<le> at" and "at \<le> MAX_SAFE_INTEGER"
  shows "\<exists>s'. recoverInterruptedActions H (JInt at) s =
        (s', Inr (int (length (filter (\<lambda>a. ac_state a = DISPATCHING) (actions s)))))
    \<and> list_all2 (\<lambda>a a'. ac_terms a' = ac_terms a
         \<and> (if ac_state a = DISPATCHING then ac_state a' = UNKNOWN else a' = a)) (actions s) (actions s')"
proof -
  from recover_loop_total [OF assms(2-4)] obtain s' where
    f: "foldE (recover_action H at) (interrupted s) s = Inr s'"
    and a: "list_all2 (recovers (interrupted s)) (actions s) (actions s')" by blast
  have "recoverInterruptedActions H (JInt at) s = (s', Inr (int (length (interrupted s))))"
    using assms f by (simp add: recoverInterruptedActions_def integer_def transaction_def recover_all_body_def)
  moreover have "distinct (map ac_id (actions s))"
    using coordinator_state_ok [OF assms(1)] by (simp add: store_ok_def ids_ok_def)
  then have "ac_id b \<in> ac_id ` set (interrupted s) \<longleftrightarrow> ac_state b = DISPATCHING" if "b \<in> set (actions s)" for b
    using that by (auto simp: interrupted_def distinct_map inj_on_def)
  then have "list_all2 (\<lambda>a a'. ac_terms a' = ac_terms a
         \<and> (if ac_state a = DISPATCHING then ac_state a' = UNKNOWN else a' = a)) (actions s) (actions s')"
    using a by (auto simp: list_all2_conv_all_nth recovers_def)
  ultimately show ?thesis by (auto simp: interrupted_def)
qed

theorem recovery_always_completes_witness:
  "\<exists>s'. recoverInterruptedActions sample_hex (JInt 1050) dispatched_store = (s', Inr 1)
     \<and> map ac_state (actions s') = [UNKNOWN]"
proof -
  have "is_hex_lower (CHR ''5'')" by code_simp
  then have "hex_digest sample_hex" by (simp add: hex_digest_def sample_hex_def list_all_iff)
  then show ?thesis
    using recovery_always_completes [OF sample_states(5), of 1050]
    by (auto simp: action_1_def list_all2_Cons1 MAX_SAFE_INTEGER_def)
qed

section \<open>Retries\<close>

text \<open>The exception a call ends with, if it does.\<close>

definition thrown :: "'s \<times> 'a result \<Rightarrow> js_error option" where
  "thrown x = (case snd x of Inl e \<Rightarrow> Some e | Inr _ \<Rightarrow> None)"

fun refusal :: "(string \<Rightarrow> string) \<Rightarrow> ethers \<Rightarrow> store_call \<Rightarrow> store \<Rightarrow> js_error option" where
  "refusal H E (AdmitRfq i) s = thrown (admitRfq H i s)"
| "refusal H E (CancelRfqs i) s = thrown (cancelRfqs H i s)"
| "refusal H E (ExpireRfqs at limit) s = thrown (expireRfqs H at limit s)"
| "refusal H E (ReconcileRfqFinalizationRestart i) s = thrown (reconcileRfqFinalizationRestart H i s)"
| "refusal H E (ResolveRfq i) s = thrown (resolveRfq H i s)"
| "refusal H E (RecordSolverCapacity i) s = thrown (recordSolverCapacity H i s)"
| "refusal H E (ReserveVerifiedFirmOffer i) s = thrown (reserveVerifiedFirmOffer H i s)"
| "refusal H E (BindFirmOfferExecution i) s = thrown (bindFirmOfferExecution H i s)"
| "refusal H E (BindFirmOfferUserAuthorization i) s = thrown (bindFirmOfferUserAuthorization i s)"
| "refusal H E (RecordFirmOfferOutcome i) s = thrown (recordFirmOfferOutcome_store H i s)"
| "refusal H E (AcceptSettlement i) s = thrown (acceptSettlement H i s)"
| "refusal H E (AcceptAuthorizedFirmOfferSettlement i) s = thrown (acceptAuthorizedFirmOfferSettlement H i s)"
| "refusal H E (BindContractIntent i) s = thrown (bindContractIntent H E i s)"
| "refusal H E (BindSettlementExecutionPolicy i) s = thrown (bindSettlementExecutionPolicy H i s)"
| "refusal H E (RecordReservation i) s = thrown (recordReservation H i s)"
| "refusal H E (PlanAction i) s = thrown (planAction H i s)"
| "refusal H E (BindEvmTransaction i) s = thrown (bindEvmTransaction H i s)"
| "refusal H E (ClaimEvmBroadcast k at) s = thrown (claimEvmBroadcast k at s)"
| "refusal H E (RecordEvmInclusion i) s = thrown (recordEvmInclusion i s)"
| "refusal H E (ClaimAction k at) s = thrown (claimAction k at s)"
| "refusal H E (RecordActionResult i) s = thrown (recordActionResult i s)"
| "refusal H E (RecoverInterruptedActions at) s = thrown (recoverInterruptedActions H at s)"
| "refusal H E (RecoverInterruptedAction k at) s = thrown (recoverInterruptedAction H k at s)"
| "refusal H E (ReconcileAction i) s = thrown (reconcileAction i s)"
| "refusal H E (HaltSettlement i) s = thrown (haltSettlement i s)"
| "refusal H E (RecordTerminal i) s = thrown (recordTerminal i s)"

text \<open>A body that returned, run again on the state it left: the row it wrote is found and its digest agrees.\<close>

lemma event_rows:
  "event i a t c d at s = Inr s' \<Longrightarrow> settlements s' = settlements s \<and> actions s' = actions s \<and> evms s' = evms s
     \<and> offers s' = offers s \<and> requests s' = requests s"
  by (drule event_Inr) simp

lemma row_find_new: "row_find key k rows = None \<Longrightarrow> key r = k \<Longrightarrow> row_find key k (rows @ [r]) = Some r"
  by (induction rows) (auto simp: row_find_def)

lemma accept_retry:
  assumes "accept_body H v s = Inr (s', x)"
  shows "accept_body H v s' = Inr (s', x)"
proof -
  from assms obtain d where d: "digest H (settlement_json v) = Inr d" "is_bytes32 (tm_settlementId v)"
    by (auto simp: accept_body_def bindE_eq_Inr getSettlement_Inr)
  show ?thesis
  proof (cases "find_settlement s (tm_settlementId v)")
    case None
    from assms d None obtain s1 s2 where i: "insert_settlement v d s = Inr s1"
      and e: "event (tm_settlementId v) None ''SETTLEMENT'' ''INTENT_ACCEPTED'' d (tm_createdAt v) s1 = Inr s'"
      and x: "x = find_settlement s' (tm_settlementId v)"
      by (auto simp: accept_body_def bindE_eq_Inr getSettlement_Inr)
    have "settlements s' = settlements s @ [new_settlement v d]"
      using i event_rows [OF e] by (auto simp: insert_settlement_def split: if_splits)
    then have "find_settlement s' (tm_settlementId v) = Some (new_settlement v d)"
      using None by (simp add: settlement_table.lookup_rows row_find_new se_id_def new_settlement_def)
    then show ?thesis using d x by (simp add: accept_body_def get_defs bytes32_def new_settlement_def)
  next
    case (Some r)
    with assms have "s' = s" by (auto simp: accept_body_def bindE_eq_Inr getSettlement_Inr split: if_splits)
    with assms show ?thesis by simp
  qed
qed

lemma plan_retry:
  assumes "plan_body v d s = Inr (s', x)"
  shows "plan_body v d s' = Inr (s', x)"
proof (cases "find_action s (at_actionId v)")
  case None
  let ?a = "\<lparr>ac_terms = v, ac_recordDigest = d, ac_state = PENDING, ac_dispatchCount = 0, ac_dispatchedAt = None,
    ac_result = None\<rparr>"
  from assms None have "is_bytes32 (at_actionId v) \<and> x = find_action s' (at_actionId v) \<and> actions s' = actions s @ [?a]"
    unfolding plan_body_def Let_def
    by (simp only: returned getSettlement_Inr getAction_Inr)
      (elim exE conjE disjE; auto simp: insert_action_def dest!: event_Inr split: if_splits)
  then have b: "is_bytes32 (at_actionId v)" and x: "x = find_action s' (at_actionId v)"
    and "actions s' = actions s @ [?a]" by blast+
  then have "find_action s' (at_actionId v) = Some ?a"
    using None by (simp add: action_table.lookup_rows row_find_new ac_id_def)
  then show ?thesis using b x by (simp add: plan_body_def get_defs bytes32_def)
next
  case (Some r)
  with assms have "s' = s" by (auto simp: plan_body_def bindE_eq_Inr getAction_Inr split: if_splits)
  with assms show ?thesis by simp
qed

lemma found_after_update:
  assumes "find_settlement s k = Some r" and "settlements s' = row_update se_id k h (settlements s)"
    and "\<And>q. se_terms (h q) = se_terms q"
  shows "find_settlement s' k = Some (h r)"
  using assms by (simp add: settlement_table.lookup_rows row_find_update se_id_def)

lemma bind_intent_retry:
  assumes "bind_intent_body b at d s = Inr (s', x)"
  shows "bind_intent_body b at d s' = Inr (s', x)"
proof -
  let ?h = "\<lambda>r. r\<lparr>se_intent := Some \<lparr>bi_intent = b, bi_recordDigest = d, bi_boundAt = at\<rparr>,
    se_state := CONTRACT_INTENT_BOUND, se_version := se_version r + 1, se_updatedAt := at\<rparr>"
  have "is_bytes32 (ci_settlementId b) \<and> (\<exists>r. find_settlement s (ci_settlementId b) = Some r) \<and> (s' = s
      \<or> settlements s' = row_update se_id (ci_settlementId b) ?h (settlements s) \<and> x = find_settlement s' (ci_settlementId b))"
    using assms unfolding bind_intent_body_def Let_def
    by (simp only: returned getSettlement_Inr getFirmOffer_Inr) (elim exE conjE disjE; ((drule event_rows)?, simp only: settlement_table.rows_modify, blast))
  then obtain r where k: "is_bytes32 (ci_settlementId b)" and r: "find_settlement s (ci_settlementId b) = Some r"
    and new: "s' = s \<or> settlements s' = row_update se_id (ci_settlementId b) ?h (settlements s)
      \<and> x = find_settlement s' (ci_settlementId b)" by blast
  from new show ?thesis
  proof
    assume *: "settlements s' = row_update se_id (ci_settlementId b) ?h (settlements s) \<and> x = find_settlement s' (ci_settlementId b)"
    then have "find_settlement s' (ci_settlementId b) = Some (?h r)" by (intro found_after_update [OF r]) simp_all
    with * k show ?thesis by (simp add: bind_intent_body_def get_defs bytes32_def)
  qed (use assms in simp)
qed

lemma reservation_retry:
  assumes "reservation_body v d s = Inr (s', x)"
  shows "reservation_body v d s' = Inr (s', x)"
proof -
  let ?h = "\<lambda>r. r\<lparr>se_reservation := Some \<lparr>rv_reservationId = ro_reservationId v, rv_txHash = ro_txHash v,
    rv_blockNumber = ro_blockNumber v, rv_blockHash = ro_blockHash v, rv_digest = d\<rparr>,
    se_state := RESERVATION_OBSERVED, se_version := se_version r + 1, se_updatedAt := ro_observedAt v\<rparr>"
  from assms obtain r i where k: "is_bytes32 (ro_settlementId v)" and r: "find_settlement s (ro_settlementId v) = Some r"
    and i: "se_intent r = Some i" "se_terminal r = None" "se_haltCode r = None"
      "ci_contractIntentDigest (bi_intent i) = ro_intentDigest v" "im_quoteId (ci_message (bi_intent i)) = ro_reservationId v"
    and new: "s' = s \<or> settlements s' = row_update se_id (ro_settlementId v) ?h (settlements s)
      \<and> x = find_settlement s' (ro_settlementId v)"
    unfolding reservation_body_def Let_def
    by (simp only: returned getSettlement_Inr) (elim exE conjE disjE; auto dest!: event_Inr)
  from new show ?thesis
  proof
    assume *: "settlements s' = row_update se_id (ro_settlementId v) ?h (settlements s) \<and> x = find_settlement s' (ro_settlementId v)"
    then have "find_settlement s' (ro_settlementId v) = Some (?h r)" by (intro found_after_update [OF r]) simp_all
    with * k i show ?thesis by (simp add: reservation_body_def get_defs bytes32_def)
  qed (use assms in simp)
qed

lemma terminal_retry:
  assumes "terminal_body k c t p at s = Inr (s', x)"
  shows "terminal_body k c t p at s' = Inr (s', x)"
proof -
  let ?h = "\<lambda>r. r\<lparr>se_state := TERMINAL t, se_terminal := Some \<lparr>te_state = t, te_proofDigest = p, te_at = at\<rparr>,
    se_version := se_version r + 1, se_updatedAt := at\<rparr>"
  from assms obtain r where k: "is_bytes32 k" and r: "find_settlement s k = Some r"
    and new: "s' = s \<or> settlements s' = row_update se_id k ?h (settlements s) \<and> x = find_settlement s' k"
    unfolding terminal_body_def Let_def
    by (simp only: returned getSettlement_Inr) (elim exE conjE disjE; auto dest!: event_Inr)
  from new show ?thesis
  proof
    assume *: "settlements s' = row_update se_id k ?h (settlements s) \<and> x = find_settlement s' k"
    then have "find_settlement s' k = Some (?h r)" by (intro found_after_update [OF r]) simp_all
    with * k show ?thesis by (simp add: terminal_body_def get_defs bytes32_def)
  qed (use assms in simp)
qed

lemma bind_policy_found:
  assumes "bind_policy_body H v s = Inr (s', x)"
  obtains r f where "is_bytes32 (pb_settlementId v)" "find_settlement s (pb_settlementId v) = Some r"
    "is_bytes32 (se_offerId r)" "find_offer s (se_offerId r) = Some f" "is_bytes32 (fo_requestId f)"
proof -
  from assms obtain r where r: "is_bytes32 (pb_settlementId v)" "find_settlement s (pb_settlementId v) = Some r"
    by (cases "find_settlement s (pb_settlementId v)") (auto simp: bind_policy_body_def bindE_eq_Inr getSettlement_Inr)
  moreover from this assms have o: "is_bytes32 (se_offerId r)"
    by (cases "is_bytes32 (se_offerId r)") (simp_all add: bind_policy_body_def get_defs bytes32_def Let_def)
  moreover have "find_offer s (se_offerId r) \<noteq> None"
    using assms r o by (auto simp: bind_policy_body_def get_defs bytes32_def Let_def policy_offer_ready_def split: option.splits if_splits)
  then obtain f where f: "find_offer s (se_offerId r) = Some f" by blast
  moreover have "is_bytes32 (fo_requestId f)"
    using assms r o f by (cases "is_bytes32 (fo_requestId f)") (simp_all add: bind_policy_body_def get_defs bytes32_def Let_def)
  ultimately show thesis by (rule that)
qed

lemma bind_policy_retry:
  assumes "bind_policy_body H v s = Inr (s', x)"
  shows "bind_policy_body H v s' = Inr (s', x)"
proof -
  let ?h = "\<lambda>d r. r\<lparr>se_policy := Some \<lparr>xp_releaseRecordDigest = pb_releaseRecordDigest v,
      xp_riskPolicyDigest = pb_riskPolicyDigest v, xp_evidencePolicyDigest = pb_evidencePolicyDigest v,
      xp_solverCapabilityDigest = pb_solverCapabilityDigest v, xp_bindingDigest = d, xp_boundAt = pb_boundAt v\<rparr>,
    se_state := EXECUTION_POLICY_BOUND, se_version := se_version r + 1, se_updatedAt := pb_boundAt v\<rparr>"
  let ?k = "pb_settlementId v"
  from assms obtain r f where r: "is_bytes32 ?k" "find_settlement s ?k = Some r"
    "is_bytes32 (se_offerId r)" "find_offer s (se_offerId r) = Some f" "is_bytes32 (fo_requestId f)"
    by (rule bind_policy_found)
  show ?thesis
  proof (cases "se_policy r")
    case None
    have "\<exists>d. digest H (policy_binding_json v (se_terms r) (fo_terms f)) = Inr d
      \<and> event ?k None ''SETTLEMENT'' ''EXECUTION_POLICY_BOUND'' d (pb_boundAt v) (update_settlement ?k (?h d) s) = Inr s'
      \<and> x = find_settlement s' ?k"
      using assms r None by (auto simp: bind_policy_body_def get_defs bytes32_def Let_def bindE_eq_Inr split: if_splits)
    then obtain d where d: "digest H (policy_binding_json v (se_terms r) (fo_terms f)) = Inr d"
      "event ?k None ''SETTLEMENT'' ''EXECUTION_POLICY_BOUND'' d (pb_boundAt v) (update_settlement ?k (?h d) s) = Inr s'"
      "x = find_settlement s' ?k" by (elim exE conjE)
    note rows = event_rows [OF d(2)]
    have "find_settlement s' ?k = Some (?h d r)"
      by (rule found_after_update [OF r(2)]) (use rows in simp_all)
    moreover have "find_offer s' (se_offerId r) = Some f" using rows r(4) by (simp add: offer_table.lookup_rows)
    ultimately show ?thesis using d r
      by (simp add: bind_policy_body_def get_defs bytes32_def Let_def policy_unchanged_def se_offerId_def)
  next
    case (Some p)
    then have "s' = s"
      using assms r by (auto simp: bind_policy_body_def get_defs bytes32_def Let_def bindE_eq_Inr split: if_splits)
    with assms show ?thesis by simp
  qed
qed

lemma bind_evm_retry:
  assumes "bind_evm_body H v d s = Inr (s', x)" and "digest H (evm_json v) = Inr d"
  shows "bind_evm_body H v d s' = Inr (s', x)"
proof -
  let ?t = "\<lparr>em_terms = v, em_state = PREPARED, em_broadcastCount = 0, em_inclusion = None, em_lastBroadcastAt = None,
    em_lastObservedAt = None\<rparr>"
  from assms(1) obtain a where k: "is_bytes32 (et_actionId v)" and a: "find_action s (et_actionId v) = Some a"
      "ac_method a = ''evm:claim''" "ac_state a = PENDING" "ac_dispatchCount a = 0"
    and new: "s' = s \<or> find_evm s (et_actionId v) = None \<and> evms s' = evms s @ [?t] \<and> actions s' = actions s
      \<and> x = find_evm s' (et_actionId v)"
    unfolding bind_evm_body_def Let_def
    by (simp only: returned getAction_Inr getEvmTransaction_Inr)
      (elim exE conjE disjE; auto simp: insert_evm_def dest!: event_Inr split: if_splits)
  from new show ?thesis
  proof (elim disjE conjE)
    assume *: "find_evm s (et_actionId v) = None" "evms s' = evms s @ [?t]" "actions s' = actions s"
      "x = find_evm s' (et_actionId v)"
    have "find_evm s' (et_actionId v) = Some ?t"
      using *(1,2) by (simp add: evm_table.lookup_rows row_find_new em_id_def)
    moreover have "find_action s' (et_actionId v) = Some a" using a(1) *(3) by (simp add: action_table.lookup_rows)
    ultimately show ?thesis using k a(2-4) *(4) assms(2) by (simp add: bind_evm_body_def get_defs bytes32_def)
  qed (use assms in simp)
qed

lemma retry_public:
  assumes "\<And>v s' x. m = Inr v \<Longrightarrow> body v s = Inr (s', x) \<Longrightarrow> body v s' = Inr (s', x)"
    and "thrown (withInput m (\<lambda>v. transaction (body v)) s) = None"
  shows "withInput m (\<lambda>v. transaction (body v)) (fst (withInput m (\<lambda>v. transaction (body v)) s))
    = withInput m (\<lambda>v. transaction (body v)) s"
proof (cases m)
  case (Inr v)
  with assms(2) obtain s' x where "body v s = Inr (s', x)"
    by (auto simp: thrown_def transaction_def split: sum.splits)
  with Inr assms(1) [OF Inr this] show ?thesis by (simp add: transaction_def)
qed simp

fun retryable :: "store_call \<Rightarrow> bool" where
  "retryable (AcceptSettlement i) = True" | "retryable (BindContractIntent i) = True"
| "retryable (BindSettlementExecutionPolicy i) = True" | "retryable (RecordReservation i) = True"
| "retryable (PlanAction i) = True" | "retryable (BindEvmTransaction i) = True" | "retryable (RecordTerminal i) = True"
| "retryable c = False"

text \<open>
  Property C27.  A client that lost the answer may repeat the call: when accepting a settlement, binding its
  intent, its execution policy or a signed transaction, recording its reservation or its terminal
  outcome, or planning an action has succeeded, the same call again succeeds and changes nothing.
\<close>

theorem retry_is_idempotent:
  assumes "retryable c" and "refusal H E c s = None"
  shows "refusal H E c (perform H E c s) = None \<and> perform H E c (perform H E c s) = perform H E c s"
proof -
  note r = retry_public
  show ?thesis
  proof (cases c)
    case (AcceptSettlement i)
    then show ?thesis using assms(2) r [of "normalizeSettlement i" "accept_body H" s, OF accept_retry]
      by (simp add: acceptSettlement_def)
  next
    case (PlanAction i)
    then show ?thesis using assms(2) r [of _ "\<lambda>(v, d). plan_body v d" s]
      by (simp add: planAction_def case_prod_unfold plan_retry)
  next
    case (BindContractIntent i)
    then show ?thesis using assms(2) r [of _ "\<lambda>(b, at, d). bind_intent_body b at d" s]
      by (simp add: bindContractIntent_def case_prod_unfold bind_intent_retry)
  next
    case (BindSettlementExecutionPolicy i)
    then show ?thesis using assms(2) r [of _ "bind_policy_body H" s]
      by (simp add: bindSettlementExecutionPolicy_def bind_policy_retry)
  next
    case (RecordReservation i)
    then show ?thesis using assms(2) r [of _ "\<lambda>(v, d). reservation_body v d" s]
      by (simp add: recordReservation_def case_prod_unfold reservation_retry)
  next
    case (BindEvmTransaction i)
    then show ?thesis using assms(2) r [of "bindE (normalizeEvmBinding i) (\<lambda>v. bindE (digest H (evm_json v)) (\<lambda>d. Inr (v, d)))"
          "\<lambda>(v, d). bind_evm_body H v d" s] bind_evm_retry
      by (auto simp: bindEvmTransaction_def case_prod_unfold bindE_eq_Inr)
  next
    case (RecordTerminal i)
    then show ?thesis using assms(2) r [of _ "\<lambda>(k, code, t, p, at). terminal_body k code t p at" s]
      by (simp add: recordTerminal_def case_prod_unfold terminal_retry)
  qed (use assms(1) in simp_all)
qed

theorem retry_is_idempotent_witness:
  "perform sample_hex sample_ethers (RecordTerminal sample_terminal) completed_store = completed_store"
proof -
  have "recordTerminal sample_terminal confirmed_store = (completed_store, Inr (Some completed_row))" by code_simp
  then have "refusal sample_hex sample_ethers (RecordTerminal sample_terminal) confirmed_store = None"
    by (simp add: thrown_def)
  then show ?thesis using retry_is_idempotent [of "RecordTerminal sample_terminal"] sample_complete
    by (metis retryable.simps(7))
qed

end
