(* ===== verification/Daemon_Planner.thy ===== *)
theory Daemon_Planner
  imports Store_Settlement
begin

text \<open>
  The planner of the solver daemon (\<^verbatim>\<open>src/lib/solver-daemon-planner.mjs\<close>): from a settlement and its
  actions, the next step the daemon may take.  The actions carry whether a signed transaction is bound
  to them, which the planner reads from the store for an EVM claim.
\<close>

section \<open>Steps\<close>

definition SEND_PAYMENT :: string where "SEND_PAYMENT = ''/routerrpc.Router/SendPaymentV2''"
definition SETTLE_INVOICE :: string where "SETTLE_INVOICE = ''/invoicesrpc.Invoices/SettleInvoice''"
definition EVM_CLAIM :: string where "EVM_CLAIM = ''evm:claim''"

text \<open>One constructor per kind of step, with the details the source computes for it.\<close>

datatype step_kind =
    DONE terminal_state
  | RECOVER_INTERRUPTED_ACTION string string
  | HALT_REQUIRED string
  | RECONCILE_ACTION string string
  | HALTED_STEP string
  | WAIT_FOR_RESERVATION
  | PLAN_LIGHTNING_ACTION string
  | AUTHORIZE_AND_DISPATCH_LIGHTNING string string
  | VERIFY_REFUND_AND_RECONCILE string string
  | RECOVER_PAYMENT_PROOF_AND_PREPARE_EVM_CLAIM string
  | PREPARE_EVM_CLAIM_TRANSACTION string
  | DISPATCH_EVM_CLAIM string
  | VERIFY_BOTH_ASSETS_AND_COMPLETE string
  | WAIT_FOR_BIT_CLAIM_AND_RECONCILE string

text \<open>The details of the returned object: what the source spreads into a step of each kind.\<close>

definition terminal_name :: "terminal_state \<Rightarrow> string" where
  "terminal_name t = (case t of COMPLETED \<Rightarrow> ''COMPLETED'' | REFUNDED \<Rightarrow> ''REFUNDED'' | T_FAILED \<Rightarrow> ''FAILED'' | CANCELED \<Rightarrow> ''CANCELED'')"

fun step_details :: "step_kind \<Rightarrow> (string \<times> string) list" where
  "step_details (DONE t) = [(''terminalState'', terminal_name t)]"
| "step_details (RECOVER_INTERRUPTED_ACTION k m) =
     [(''actionId'', k), (''method'', m), (''reason'', ''a claimed action has no durable result'')]"
| "step_details (HALT_REQUIRED reason) = [(''reason'', reason)]"
| "step_details (RECONCILE_ACTION k m) =
     [(''actionId'', k), (''method'', m), (''reason'', ''an ambiguous side effect must be observed before any next action'')]"
| "step_details (HALTED_STEP haltCode) = [(''haltCode'', haltCode)]"
| "step_details WAIT_FOR_RESERVATION = []"
| "step_details (PLAN_LIGHTNING_ACTION m) = [(''method'', m)]"
| "step_details (AUTHORIZE_AND_DISPATCH_LIGHTNING k m) = [(''actionId'', k), (''method'', m)]"
| "step_details (VERIFY_REFUND_AND_RECONCILE k reason) = [(''actionId'', k), (''reason'', reason)]"
| "step_details (RECOVER_PAYMENT_PROOF_AND_PREPARE_EVM_CLAIM k) = [(''paymentActionId'', k), (''method'', EVM_CLAIM)]"
| "step_details (PREPARE_EVM_CLAIM_TRANSACTION k) = [(''actionId'', k), (''method'', EVM_CLAIM),
     (''reason'', ''the EVM claim action was persisted before its signed transaction binding'')]"
| "step_details (DISPATCH_EVM_CLAIM k) = [(''actionId'', k), (''method'', EVM_CLAIM)]"
| "step_details (VERIFY_BOTH_ASSETS_AND_COMPLETE k) = [(''actionId'', k)]"
| "step_details (WAIT_FOR_BIT_CLAIM_AND_RECONCILE k) =
     [(''actionId'', k), (''reason'', ''the beneficiary or any relayer must reveal the bound preimage to the EVM escrow'')]"

record daemon_step =
  ds_kind :: step_kind
  ds_settlementId :: string
  ds_direction :: string
  ds_details :: "(string \<times> string) list"

definition step :: "step_kind \<Rightarrow> settlement \<Rightarrow> daemon_step" where
  "step kind r = \<lparr>ds_kind = kind, ds_settlementId = se_id r, ds_direction = tm_direction (se_terms r),
     ds_details = step_details kind\<rparr>"

text \<open>An action as the planner sees it; \<open>evmTransactionBound\<close> is set for an EVM claim only.\<close>

record planner_action =
  pa_action :: action
  pa_evmTransactionBound :: "bool option"

abbreviation pa_id :: "planner_action \<Rightarrow> string" where "pa_id a \<equiv> ac_id (pa_action a)"
abbreviation pa_method :: "planner_action \<Rightarrow> string" where "pa_method a \<equiv> ac_method (pa_action a)"
abbreviation pa_state :: "planner_action \<Rightarrow> action_state" where "pa_state a \<equiv> ac_state (pa_action a)"

section \<open>Classification\<close>

text \<open>
  The loop of \<^verbatim>\<open>normalizeActions\<close>: the accumulator is the insertion-ordered map by method.  The state of
  an action is one of the five states by its type.
\<close>

definition normalize_action ::
    "string \<Rightarrow> planner_action \<Rightarrow> (string \<times> planner_action) list \<Rightarrow> (string \<times> planner_action) list result" where
  "normalize_action settlementId a byMethod =
     bindE (bytes32 (JStr (ac_settlementId (pa_action a))) ''action settlementId'') (\<lambda>k.
     if k \<noteq> settlementId then Inl (Error ''settlement action belongs to another settlement'')
     else bindE (bytes32 (JStr (pa_id a)) ''actionId'') (\<lambda>_.
     if map_of byMethod (pa_method a) \<noteq> None then Inl (Error ''settlement has duplicate action methods'')
     else Inr (byMethod @ [(pa_method a, a)])))"

definition normalizeActions ::
    "settlement \<Rightarrow> planner_action list \<Rightarrow> (string \<times> planner_action) list result" where
  "normalizeActions r acts = foldE (normalize_action (se_id r)) acts []"

definition unresolvedStep :: "settlement \<Rightarrow> planner_action list \<Rightarrow> daemon_step option" where
  "unresolvedStep r acts =
     (case find (\<lambda>a. pa_state a = DISPATCHING) acts of
        Some a \<Rightarrow> Some (step (RECOVER_INTERRUPTED_ACTION (pa_id a) (pa_method a)) r)
      | None \<Rightarrow>
          (case find (\<lambda>a. pa_state a = UNKNOWN) acts of
             Some a \<Rightarrow> Some (step (RECONCILE_ACTION (pa_id a) (pa_method a)) r)
           | None \<Rightarrow>
               if se_reconciliationRequired r
               then (if se_haltCode r \<noteq> None then None
                     else Some (step (HALT_REQUIRED ''reconciliation is required without an unknown action'') r))
               else None))"

definition directionMismatch :: "settlement \<Rightarrow> (string \<times> planner_action) list \<Rightarrow> bool" where
  "directionMismatch r byMethod =
     (let allowed = (if tm_direction (se_terms r) = ''bit-to-lightning'' then [SEND_PAYMENT, EVM_CLAIM]
        else [SETTLE_INVOICE]) in
      list_ex (\<lambda>(method, _). method \<notin> set allowed) byMethod)"

definition paymentDirectionStep :: "settlement \<Rightarrow> (string \<times> planner_action) list \<Rightarrow> daemon_step" where
  "paymentDirectionStep r byMethod =
     (let payment = map_of byMethod SEND_PAYMENT; claim = map_of byMethod EVM_CLAIM in
      if claim \<noteq> None \<and> map_option pa_state payment \<noteq> Some CONFIRMED
      then step (HALT_REQUIRED ''EVM claim was planned before confirmed Lightning payment'') r
      else case payment of
        None \<Rightarrow> step (PLAN_LIGHTNING_ACTION SEND_PAYMENT) r
      | Some p \<Rightarrow>
          if pa_state p = PENDING then step (AUTHORIZE_AND_DISPATCH_LIGHTNING (pa_id p) SEND_PAYMENT) r
          else if pa_state p = FAILED
          then step (VERIFY_REFUND_AND_RECONCILE (pa_id p) ''Lightning payment failed before an EVM claim'') r
          else if pa_state p \<noteq> CONFIRMED then step (HALT_REQUIRED ''Lightning payment state cannot advance'') r
          else (case claim of
            None \<Rightarrow> step (RECOVER_PAYMENT_PROOF_AND_PREPARE_EVM_CLAIM (pa_id p)) r
          | Some c \<Rightarrow>
              if pa_state c = PENDING \<and> pa_evmTransactionBound c = Some False
              then step (PREPARE_EVM_CLAIM_TRANSACTION (pa_id c)) r
              else if pa_state c = PENDING then step (DISPATCH_EVM_CLAIM (pa_id c)) r
              else if pa_state c = CONFIRMED then step (VERIFY_BOTH_ASSETS_AND_COMPLETE (pa_id c)) r
              else if pa_state c = FAILED
              then step (HALT_REQUIRED ''Lightning paid but the bound EVM claim failed'') r
              else step (HALT_REQUIRED ''EVM claim state cannot advance'') r))"

definition invoiceDirectionStep :: "settlement \<Rightarrow> (string \<times> planner_action) list \<Rightarrow> daemon_step" where
  "invoiceDirectionStep r byMethod =
     (case map_of byMethod SETTLE_INVOICE of
        None \<Rightarrow> step (PLAN_LIGHTNING_ACTION SETTLE_INVOICE) r
      | Some a \<Rightarrow>
          if pa_state a = PENDING then step (AUTHORIZE_AND_DISPATCH_LIGHTNING (pa_id a) SETTLE_INVOICE) r
          else if pa_state a = CONFIRMED then step (WAIT_FOR_BIT_CLAIM_AND_RECONCILE (pa_id a)) r
          else if pa_state a = FAILED
          then step (VERIFY_REFUND_AND_RECONCILE (pa_id a) ''hold-invoice settlement did not complete'') r
          else step (HALT_REQUIRED ''hold-invoice action state cannot advance'') r)"

definition classifySolverDaemonStep :: "settlement \<Rightarrow> planner_action list \<Rightarrow> daemon_step result" where
  "classifySolverDaemonStep r acts =
     bindE (bytes32 (JStr (se_id r)) ''settlementId'') (\<lambda>_.
     if tm_direction (se_terms r) \<notin> set DIRECTIONS then Inl (Error ''settlement direction is unsupported'')
     else bindE (normalizeActions r acts) (\<lambda>byMethod.
     case se_terminal r of
       Some t \<Rightarrow> Inr (step (DONE (te_state t)) r)
     | None \<Rightarrow>
         (case unresolvedStep r (map snd byMethod) of
            Some s \<Rightarrow> Inr s
          | None \<Rightarrow>
              (case se_haltCode r of
                 Some haltCode \<Rightarrow> Inr (step (HALTED_STEP haltCode) r)
               | None \<Rightarrow>
                   if directionMismatch r byMethod
                   then Inr (step (HALT_REQUIRED (tm_direction (se_terms r)
                     @ '' contains a direction-incompatible action'')) r)
                   else if se_reservation r = None then Inr (step WAIT_FOR_RESERVATION r)
                   else Inr (if tm_direction (se_terms r) = ''bit-to-lightning''
                     then paymentDirectionStep r byMethod else invoiceDirectionStep r byMethod)))))"

text \<open>The actions as \<^verbatim>\<open>nextSolverDaemonStep\<close> reads them from the store.\<close>

definition planner_action_of :: "store \<Rightarrow> action \<Rightarrow> planner_action result" where
  "planner_action_of s a =
     (if ac_method a = EVM_CLAIM
      then bindE (getEvmTransaction s (ac_id a)) (\<lambda>t.
        Inr \<lparr>pa_action = a, pa_evmTransactionBound = Some (t \<noteq> None)\<rparr>)
      else Inr \<lparr>pa_action = a, pa_evmTransactionBound = None\<rparr>)"

definition nextSolverDaemonStep :: "store \<Rightarrow> jsval \<Rightarrow> daemon_step result" where
  "nextSolverDaemonStep s settlementId =
     bindE (bytes32 settlementId ''settlementId'') (\<lambda>k.
     bindE (getSettlement s k) (\<lambda>found.
     case found of
       None \<Rightarrow> Inl (Error ''settlement does not exist'')
     | Some r \<Rightarrow>
         bindE (listSettlementActions s k) (\<lambda>rows.
         bindE (mapE (planner_action_of s) rows) (\<lambda>acts.
         classifySolverDaemonStep r acts))))"

section \<open>Facts\<close>

lemma normalizeActions_total:
  assumes "\<And>a. a \<in> set xs \<Longrightarrow> ac_settlementId (pa_action a) = k \<and> is_bytes32 (pa_id a)" and "is_bytes32 k"
    and "distinct (map pa_method xs)" and "\<And>a. a \<in> set xs \<Longrightarrow> pa_method a \<notin> fst ` set acc"
  shows "foldE (normalize_action k) xs acc = Inr (acc @ map (\<lambda>a. (pa_method a, a)) xs)"
  using assms
proof (induction xs arbitrary: acc)
  case (Cons a xs)
  have "map_of acc (pa_method a) = None" using Cons.prems(4) by (simp add: map_of_eq_None_iff)
  then have "normalize_action k a acc = Inr (acc @ [(pa_method a, a)])"
    using Cons.prems(1,2) by (simp add: normalize_action_def bytes32_def)
  moreover have "\<forall>b\<in>set xs. pa_method b \<noteq> pa_method a" using Cons.prems(3) by (auto simp: image_iff)
  then have "foldE (normalize_action k) xs (acc @ [(pa_method a, a)]) =
    Inr ((acc @ [(pa_method a, a)]) @ map (\<lambda>a. (pa_method a, a)) xs)"
    by (intro Cons.IH) (use Cons.prems in auto)
  ultimately show ?case by simp
qed simp

text \<open>What the planner's advice rests on.\<close>

lemma find_SomeD: "find P xs = Some x \<Longrightarrow> x \<in> set xs \<and> P x"
  by (induction xs) (auto split: if_splits)

lemma unresolvedStep_None:
  "unresolvedStep r acts = None \<longleftrightarrow> (\<forall>a\<in>set acts. pa_state a \<noteq> DISPATCHING \<and> pa_state a \<noteq> UNKNOWN)
     \<and> (se_reconciliationRequired r \<longrightarrow> se_haltCode r \<noteq> None)"
proof (cases "find (\<lambda>a. pa_state a = DISPATCHING) acts")
  case None
  show ?thesis
  proof (cases "find (\<lambda>a. pa_state a = UNKNOWN) acts")
    case none: None
    from None none have "\<forall>a\<in>set acts. pa_state a \<noteq> DISPATCHING \<and> pa_state a \<noteq> UNKNOWN"
      by (auto simp: find_None_iff)
    with None none show ?thesis by (simp add: unresolvedStep_def)
  next
    case (Some a)
    with None find_SomeD [OF Some] show ?thesis by (auto simp: unresolvedStep_def)
  qed
next
  case (Some a)
  with find_SomeD [OF Some] show ?thesis by (auto simp: unresolvedStep_def)
qed

end
