(* ===== verification/Daemon_Properties.thy ===== *)
theory Daemon_Properties
  imports Coordinator_Properties Daemon_Planner
begin

text \<open>
  The solver daemon's planner on top of the coordinator store: what its advice is worth in a reachable
  state of the store.
\<close>

section \<open>The planner on reachable states\<close>

definition planner_view :: "store \<Rightarrow> action \<Rightarrow> planner_action" where
  "planner_view s a = \<lparr>pa_action = a, pa_evmTransactionBound =
     (if ac_method a = EVM_CLAIM then Some (find_evm s (ac_id a) \<noteq> None) else None)\<rparr>"

definition settlement_views :: "store \<Rightarrow> string \<Rightarrow> (string \<times> planner_action) list" where
  "settlement_views s k = map (\<lambda>a. (ac_method a, planner_view s a))
     (sort_key (\<lambda>r. (at_plannedAt (ac_terms r), ac_id r)) (filter (\<lambda>r. ac_settlementId r = k) (actions s)))"

lemma planner_view_fields [simp]: "pa_action (planner_view s a) = a"
  by (simp add: planner_view_def)

lemma settlement_views_iff:
  "(m, v) \<in> set (settlement_views s k) \<longleftrightarrow> (\<exists>a\<in>set (actions s). ac_settlementId a = k \<and> m = ac_method a \<and> v = planner_view s a)"
  by (auto simp: settlement_views_def)

lemma views_distinct:
  assumes "coordinator_state H E V s"
  shows "distinct (map fst (settlement_views s k))"
proof -
  have "distinct (map (\<lambda>a. (ac_settlementId a, ac_method a)) (actions s))"
    using coordinator_state_ok [OF assms] by (simp add: store_ok_def ids_ok_def)
  then have "distinct (map ac_method (filter (\<lambda>a. ac_settlementId a = k) (actions s)))"
    by (auto simp: distinct_map inj_on_def)
  then show ?thesis by (simp add: settlement_views_def comp_def distinct_map)
qed

lemma mapE_views:
  assumes "\<And>a. a \<in> set xs \<Longrightarrow> is_bytes32 (ac_id a)"
  shows "mapE (planner_action_of s) xs = Inr (map (planner_view s) xs)"
  using assms by (induction xs)
    (auto simp: planner_action_of_def planner_view_def getEvmTransaction_def bytes32_def)

text \<open>In a reachable state the planner is a total function of the settlement and its actions.\<close>

lemma next_step_eq:
  assumes c: "coordinator_state H E V s" and r: "find_settlement s k = Some r"
  shows "nextSolverDaemonStep s (JStr k) = classifySolverDaemonStep r (map snd (settlement_views s k))"
    and "normalizeActions r (map snd (settlement_views s k)) = Inr (settlement_views s k)"
proof -
  note k = coordinator_settlement [OF c r]
  let ?rows = "sort_key (\<lambda>r. (at_plannedAt (ac_terms r), ac_id r)) (filter (\<lambda>r. ac_settlementId r = k) (actions s))"
  have "mapE (planner_action_of s) ?rows = Inr (map (planner_view s) ?rows)"
    by (rule mapE_views) (use coordinator_action(2) [OF c] in auto)
  moreover have "map snd (settlement_views s k) = map (planner_view s) ?rows" by (simp add: settlement_views_def)
  ultimately show "nextSolverDaemonStep s (JStr k) = classifySolverDaemonStep r (map snd (settlement_views s k))"
    using k(2) r by (simp add: nextSolverDaemonStep_def get_defs bytes32_def listSettlementActions_def)
  have "foldE (normalize_action k) (map snd (settlement_views s k)) [] =
    Inr ([] @ map (\<lambda>a. (pa_method a, a)) (map snd (settlement_views s k)))"
    by (rule normalizeActions_total)
      (use k(2) coordinator_action(2) [OF c] views_distinct [OF c, of k] in \<open>auto simp: settlement_views_def comp_def\<close>)
  then show "normalizeActions r (map snd (settlement_views s k)) = Inr (settlement_views s k)"
    using k(1) by (simp add: normalizeActions_def settlement_views_def comp_def)
qed

text \<open>The classification of an open settlement with nothing in flight.\<close>

definition open_step :: "settlement \<Rightarrow> (string \<times> planner_action) list \<Rightarrow> daemon_step" where
  "open_step r views = (if directionMismatch r views
     then step (HALT_REQUIRED (tm_direction (se_terms r) @ '' contains a direction-incompatible action'')) r
     else if se_reservation r = None then step WAIT_FOR_RESERVATION r
     else if tm_direction (se_terms r) = ''bit-to-lightning'' then paymentDirectionStep r views
     else invoiceDirectionStep r views)"

lemma next_step_cases:
  assumes c: "coordinator_state H E V s" and r: "find_settlement s k = Some r"
    and n: "nextSolverDaemonStep s (JStr k) = Inr d"
  obtains (closed) t where "se_terminal r = Some t" "d = step (DONE (te_state t)) r"
    | (unresolved) "se_terminal r = None" "unresolvedStep r (map snd (settlement_views s k)) = Some d"
    | (halted) h where "se_terminal r = None" "se_haltCode r = Some h" "d = step (HALTED_STEP h) r"
    | (opened) "se_terminal r = None" "se_haltCode r = None"
        "unresolvedStep r (map snd (settlement_views s k)) = None" "d = open_step r (settlement_views s k)"
  using n coordinator_settlement [OF c r]
  by (auto simp: next_step_eq [OF c r] classifySolverDaemonStep_def bytes32_def open_step_def
      split: option.splits if_splits)

text \<open>What each direction's classification rests on: the row of the method it names.\<close>

lemma views_map_of:
  "map_of (settlement_views s k) m = Some v \<Longrightarrow>
     \<exists>a\<in>set (actions s). ac_settlementId a = k \<and> ac_method a = m \<and> v = planner_view s a"
  by (drule map_of_SomeD) (auto simp: settlement_views_iff)

lemma views_states:
  assumes "unresolvedStep r (map snd (settlement_views s k)) = None" and "a \<in> set (actions s)" and "ac_settlementId a = k"
  shows "ac_state a \<noteq> DISPATCHING \<and> ac_state a \<noteq> UNKNOWN"
proof -
  have "planner_view s a \<in> set (map snd (settlement_views s k))"
    using assms(2,3) settlement_views_iff [of "ac_method a" "planner_view s a" s k] by force
  then show ?thesis using assms(1) unfolding unresolvedStep_None by (metis planner_view_fields)
qed

definition acts_on_lightning :: "step_kind \<Rightarrow> bool" where
  "acts_on_lightning kind = (case kind of PLAN_LIGHTNING_ACTION _ \<Rightarrow> True
     | AUTHORIZE_AND_DISPATCH_LIGHTNING _ _ \<Rightarrow> True | _ \<Rightarrow> False)"

definition acts_on_evm :: "step_kind \<Rightarrow> bool" where
  "acts_on_evm kind = (case kind of RECOVER_PAYMENT_PROOF_AND_PREPARE_EVM_CLAIM _ \<Rightarrow> True
     | PREPARE_EVM_CLAIM_TRANSACTION _ \<Rightarrow> True | DISPATCH_EVM_CLAIM _ \<Rightarrow> True | _ \<Rightarrow> False)"

lemmas planner_defs = open_step_def paymentDirectionStep_def invoiceDirectionStep_def step_def Let_def

lemma unresolvedStep_passive:
  "unresolvedStep r acts = Some d \<Longrightarrow> ds_settlementId d = se_id r \<and> \<not> acts_on_lightning (ds_kind d) \<and> \<not> acts_on_evm (ds_kind d)
     \<and> (ds_kind d = HALT_REQUIRED w \<longrightarrow> se_reconciliationRequired r \<and> se_haltCode r = None \<and>
          (\<forall>a\<in>set acts. pa_state a \<noteq> UNKNOWN))"
  by (auto simp: unresolvedStep_def step_def acts_on_lightning_def acts_on_evm_def find_None_iff split: option.splits if_splits)

lemma open_step_active:
  "acts_on_lightning (ds_kind (open_step r views)) \<or> acts_on_evm (ds_kind (open_step r views)) \<Longrightarrow> se_reservation r \<noteq> None"
  "acts_on_evm (ds_kind (open_step r views)) \<Longrightarrow> tm_direction (se_terms r) = ''bit-to-lightning''
     \<and> (\<exists>p. map_of views SEND_PAYMENT = Some p \<and> pa_state p = CONFIRMED)"
  by (auto simp: planner_defs acts_on_lightning_def acts_on_evm_def split: option.splits if_splits)

lemma open_step_dispatch:
  "ds_kind (open_step r views) = AUTHORIZE_AND_DISPATCH_LIGHTNING i m \<Longrightarrow>
     \<exists>p. map_of views m = Some p \<and> pa_id p = i \<and> pa_state p = PENDING \<and> (m = SEND_PAYMENT \<or> m = SETTLE_INVOICE)"
  by (auto simp: planner_defs split: option.splits if_splits)

lemma open_step_named: "ds_settlementId (open_step r views) = se_id r"
  by (auto simp: planner_defs split: option.splits)

lemma open_step_halt:
  "tm_direction (se_terms r) \<in> set DIRECTIONS \<Longrightarrow>
     ds_kind (open_step r views) \<noteq> HALT_REQUIRED ''reconciliation is required without an unknown action''"
  by (auto simp: planner_defs DIRECTIONS_def split: option.splits if_splits)

section \<open>Properties of the advice\<close>

text \<open>
  Property C28.  The planner always has an answer: for every settlement of a reachable store it returns a
  step for that settlement, without an exception, and never the inconsistency that a settlement waits
  for reconciliation with no unknown action to reconcile.
\<close>

theorem planner_total:
  assumes "coordinator_state H E V s" and "find_settlement s k = Some r"
  shows "\<exists>d. nextSolverDaemonStep s (JStr k) = Inr d \<and> ds_settlementId d = k
    \<and> ds_kind d \<noteq> HALT_REQUIRED ''reconciliation is required without an unknown action''"
proof -
  note k = coordinator_settlement [OF assms]
  have "\<exists>d. nextSolverDaemonStep s (JStr k) = Inr d"
    using k by (simp add: next_step_eq [OF assms] classifySolverDaemonStep_def bytes32_def split: option.splits)
  then obtain d where d: "nextSolverDaemonStep s (JStr k) = Inr d" by blast
  have "ds_settlementId d = k \<and> ds_kind d \<noteq> HALT_REQUIRED ''reconciliation is required without an unknown action''"
    using assms d
  proof (cases rule: next_step_cases)
    case unresolved
    have "\<exists>v\<in>set (map snd (settlement_views s k)). pa_state v = UNKNOWN"
      if "se_reconciliationRequired r" "se_haltCode r = None"
    proof -
      have "\<exists>a\<in>set (actions s). ac_settlementId a = k \<and> ac_state a = UNKNOWN"
        using k(1,4) that by (simp add: waiting_ok_def)
      then obtain a where "a \<in> set (actions s)" "ac_settlementId a = k" "ac_state a = UNKNOWN" by blast
      then have "planner_view s a \<in> set (map snd (settlement_views s k))" "pa_state (planner_view s a) = UNKNOWN"
        using settlement_views_iff [of "ac_method a" "planner_view s a" s k] by force+
      then show ?thesis by blast
    qed
    then show ?thesis
      using unresolvedStep_passive [OF unresolved(2), of "''reconciliation is required without an unknown action''"] k(1)
      by meson
  next
    case opened
    then show ?thesis using open_step_named open_step_halt [OF k(3)] k(1) by simp
  qed (use k(1) in \<open>simp_all add: step_def\<close>)
  then show ?thesis using d by blast
qed

lemma sample_view:
  "find_settlement planned_store h4 = Some row_3" "find_settlement recovered_store h4 = Some (row_3\<lparr>se_state :=
     RECONCILIATION_REQUIRED, se_reconciliationRequired := True, se_version := 6, se_updatedAt := 1050\<rparr>)"
  "nextSolverDaemonStep planned_store (JStr h4) =
     Inr (step (AUTHORIZE_AND_DISPATCH_LIGHTNING h0 SEND_PAYMENT) row_3)"
  by code_simp+

theorem planner_total_witness:
  "\<exists>d. nextSolverDaemonStep recovered_store (JStr h4) = Inr d \<and> ds_settlementId d = h4"
  using planner_total [OF sample_states(6) sample_view(2)] by blast

text \<open>
  Property C10.  Advice that moves value is safe.  The planner names a Lightning or EVM step only for an
  open settlement that is not halted, waits for no reconciliation, has its reservation observed and has
  no action in flight or of unknown outcome; and a step of the EVM claim only once the Lightning payment
  that the claim repays is confirmed.
\<close>

theorem planner_advice_safe:
  assumes "coordinator_state H E V s" and "find_settlement s k = Some r"
    and "nextSolverDaemonStep s (JStr k) = Inr d" and "acts_on_lightning (ds_kind d) \<or> acts_on_evm (ds_kind d)"
  shows "se_terminal r = None \<and> se_haltCode r = None \<and> \<not> se_reconciliationRequired r \<and> se_reservation r \<noteq> None
    \<and> (\<forall>a\<in>set (actions s). ac_settlementId a = k \<longrightarrow> ac_state a \<noteq> DISPATCHING \<and> ac_state a \<noteq> UNKNOWN)
    \<and> (acts_on_evm (ds_kind d) \<longrightarrow> tm_direction (se_terms r) = ''bit-to-lightning'' \<and> lightning_confirmed s r)"
  using assms(1-3)
proof (cases rule: next_step_cases)
  case opened
  have "lightning_confirmed s r \<and> tm_direction (se_terms r) = ''bit-to-lightning''" if "acts_on_evm (ds_kind d)"
  proof -
    from that opened(4) obtain p where p: "map_of (settlement_views s k) SEND_PAYMENT = Some p" "pa_state p = CONFIRMED"
        "tm_direction (se_terms r) = ''bit-to-lightning''"
      using open_step_active(2) by blast
    from views_map_of [OF p(1)] p coordinator_settlement(1) [OF assms(1,2)] show ?thesis
      by (auto simp: lightning_confirmed_def list_ex_iff lightning_method_def SEND_PAYMENT_def)
  qed
  moreover have "\<not> se_reconciliationRequired r" using opened(2,3) unfolding unresolvedStep_None by simp
  ultimately show ?thesis
    using opened assms(4) open_step_active(1) views_states [OF opened(3)] by blast
next
  case unresolved
  then show ?thesis using unresolvedStep_passive [OF unresolved(2)] assms(4) by blast
qed (use assms(4) in \<open>auto simp: step_def acts_on_lightning_def acts_on_evm_def\<close>)

theorem planner_advice_safe_witness:
  "se_reservation row_3 \<noteq> None \<and> \<not> se_reconciliationRequired row_3 \<and> se_terminal row_3 = None"
  using planner_advice_safe [OF sample_states(4) sample_view(1,3)]
  by (simp add: step_def acts_on_lightning_def)

text \<open>
  Property C19.  The planner and the store agree.  When the planner says that a Lightning action is to be
  dispatched, claiming that action at any valid time succeeds: it is of the advised settlement and
  method, and it is now dispatched, for the first time.
\<close>

theorem planner_dispatch_succeeds:
  assumes "coordinator_state H E V s" and "find_settlement s k = Some r"
    and "nextSolverDaemonStep s (JStr k) = Inr d" and "ds_kind d = AUTHORIZE_AND_DISPATCH_LIGHTNING i m"
    and "isSafeInteger (JInt at)" and "0 \<le> at"
  shows "\<exists>s' a. claimAction (JStr i) (JInt at) s = (s', Inr (Some a)) \<and> ac_id a = i \<and> ac_settlementId a = k
    \<and> ac_method a = m \<and> ac_state a = DISPATCHING \<and> ac_dispatchCount a = 1 \<and> ac_dispatchedAt a = Some at"
  using assms(1-3)
proof (cases rule: next_step_cases)
  case opened
  obtain p where p: "map_of (settlement_views s k) m = Some p" "pa_id p = i" "pa_state p = PENDING"
      "m = SEND_PAYMENT \<or> m = SETTLE_INVOICE"
    using open_step_dispatch assms(4) opened(4) by metis
  then obtain a where a: "a \<in> set (actions s)" "ac_settlementId a = k" "ac_method a = m" "ac_id a = i" "ac_state a = PENDING"
    using views_map_of [OF p(1)] by auto
  have rec: "\<not> se_reconciliationRequired r" using opened(2,3) unfolding unresolvedStep_None by simp
  have found: "find_settlement s (ac_settlementId a) = Some r" using assms(2) a(2) by simp
  have "ac_method a \<noteq> ''evm:claim''" using p(4) a(3) by (auto simp: SEND_PAYMENT_def SETTLE_INVOICE_def)
  from claim_total [OF assms(1) a(1) found a(5) this rec _ _ assms(5,6)] opened a(4) show ?thesis
    using a by (auto simp: ac_id_def ac_method_def ac_settlementId_def)
next
  case unresolved
  then show ?thesis using unresolvedStep_passive [OF unresolved(2)] assms(4) by (auto simp: acts_on_lightning_def)
qed (use assms(4) in \<open>auto simp: step_def\<close>)

theorem planner_dispatch_succeeds_witness:
  "\<exists>s' a. claimAction (JStr h0) (JInt 2000) planned_store = (s', Inr (Some a)) \<and> ac_state a = DISPATCHING"
  using planner_dispatch_succeeds [OF sample_states(4) sample_view(1,3), of h0 SEND_PAYMENT 2000]
  by (auto simp: step_def MAX_SAFE_INTEGER_def)

end
