(* ===== verification/Canonical_Binding.thy ===== *)
theory Canonical_Binding
  imports Canonical_Digest
begin

text \<open>
  What a digest commits to.  The canonical text of \<^verbatim>\<open>coordinator-store.mjs\<close> determines the value it was
  made from up to the order of object fields: the text is a prefix code.  So two values with one digest
  are the same data, unless the hash collides on two texts that are at hand.
\<close>

section \<open>Strings\<close>

text \<open>The reader of one escaped character.\<close>

definition hex_index :: "char \<Rightarrow> nat" where
  "hex_index c = the (map_of (zip ''0123456789abcdef'' [0, 1, 2, 3, 4, 5, 6, 7, 8, 9, 10, 11, 12, 13, 14, 15]) c)"

definition unescape :: "string \<Rightarrow> (char \<times> string) option" where
  "unescape t = (case t of
     [] \<Rightarrow> None
   | c # r \<Rightarrow>
       if c = CHR 0x22 then None
       else if c \<noteq> CHR 0x5C then Some (c, r)
       else (case r of
         [] \<Rightarrow> None
       | d # r' \<Rightarrow>
           if d = CHR 0x22 \<or> d = CHR 0x5C then Some (d, r')
           else if d = CHR ''b'' then Some (CHR 8, r')
           else if d = CHR ''t'' then Some (CHR 9, r')
           else if d = CHR ''n'' then Some (CHR 10, r')
           else if d = CHR ''f'' then Some (CHR 12, r')
           else if d = CHR ''r'' then Some (CHR 13, r')
           else Some (char_of (hex_index (r' ! 2) * 16 + hex_index (r' ! 3)), drop 4 r')))"

lemma unescape_json_char: "unescape (json_char c @ r) = Some (c, r)"
proof (cases c)
  case (Char b0 b1 b2 b3 b4 b5 b6 b7)
  then show ?thesis
    by (cases b0; cases b1; cases b2; cases b3; cases b4; cases b5; cases b6; cases b7)
      (simp_all add: json_char_bits json_escape_def unescape_def hex_index_def char_of_def bit_0 bit_Suc, simp_all add: numeral_eq_Suc bit_Suc)
qed

lemma json_string_unique: "json_string s @ x = json_string s' @ y \<Longrightarrow> s = s' \<and> x = y"
proof (induction s arbitrary: s')
  case start: Nil
  show ?case
  proof (cases s')
    case Nil
    then show ?thesis using start.prems by (simp add: json_string_def)
  next
    case (Cons c q)
    then have "CHR 0x22 # x = json_char c @ concat (map json_char q) @ CHR 0x22 # y"
      using start.prems by (simp add: json_string_def)
    then have "unescape (CHR 0x22 # x) = Some (c, concat (map json_char q) @ CHR 0x22 # y)"
      by (simp add: unescape_json_char)
    then show ?thesis by (simp add: unescape_def)
  qed
next
  case (Cons c s)
  let ?tail = "\<lambda>s x. concat (map json_char s) @ CHR 0x22 # x"
  have eq: "json_char c @ ?tail s x = ?tail s' y" using Cons.prems by (simp add: json_string_def)
  then have "unescape (?tail s' y) = Some (c, ?tail s x)" using unescape_json_char [of c "?tail s x"] by simp
  then obtain q where s': "s' = c # q" and "?tail s x = ?tail q y"
    by (cases s') (auto simp: unescape_json_char, simp add: unescape_def)
  then have "json_string s @ x = json_string q @ y" by (simp add: json_string_def)
  from Cons.IH [OF this] s' show ?case by simp
qed

section \<open>Numbers\<close>

text \<open>What may follow a value inside a text.\<close>

definition ends :: "string \<Rightarrow> bool" where
  "ends r \<longleftrightarrow> r = [] \<or> hd r \<in> {CHR '','', CHR '']'', CHR ''}''}"

lemma takeWhile_digits:
  assumes "list_all is_digit d" and "ends r"
  shows "takeWhile is_digit (d @ r) = d"
proof -
  have "takeWhile is_digit r = []" using assms(2) by (cases r) (auto simp: ends_def is_digit_def)
  then show ?thesis using assms(1) by (simp add: takeWhile_append2 list_all_iff)
qed

lemma dec_str_unique:
  assumes "0 \<le> i" "0 \<le> j" "ends r" "ends r'" and "dec_str i @ r = dec_str j @ r'"
  shows "i = j \<and> r = r'"
proof -
  have "dec_str i = dec_str j"
    using takeWhile_digits [OF dec_str_digits [OF assms(1)] assms(3)]
      takeWhile_digits [OF dec_str_digits [OF assms(2)] assms(4)] assms(5) by simp
  with assms show ?thesis by (simp add: dec_str_inject)
qed

lemma dec_str_lead: "0 \<le> i \<Longrightarrow> is_digit (hd (dec_str i))"
  using dec_str_digits [of i] dec_str_nonempty [of i] by (cases "dec_str i") auto

lemma int_str_unique:
  assumes "ends r" "ends r'" and "int_str i @ r = int_str j @ r'"
  shows "i = j \<and> r = r'"
proof -
  have "(i < 0) = (j < 0)"
  proof (rule ccontr)
    assume differ: "(i < 0) \<noteq> (j < 0)"
    have minus: "dec_str k @ t \<noteq> CHR ''-'' # x" if "0 \<le> k" for k t x
      using dec_str_lead [OF that] dec_str_nonempty [of k] by (cases "dec_str k") (auto simp: is_digit_def)
    show False using differ assms(3) minus [of i r "dec_str (- j) @ r'"] minus [of j r' "dec_str (- i) @ r"]
      by (cases "i < 0"; cases "j < 0") (auto simp: int_str_def dest: sym)
  qed
  then show ?thesis using assms dec_str_unique [of i j r r'] dec_str_unique [of "- i" "- j" r r']
    by (auto simp: int_str_def split: if_splits)
qed

section \<open>Values\<close>

text \<open>A value with the fields of every object in the order of their names.\<close>

function in_order :: "jsval \<Rightarrow> jsval" where
  "in_order (JArr vs) = JArr (map in_order vs)"
| "in_order (JObj kvs) = JObj (map (\<lambda>(k, v). (k, in_order v)) (sort_key fst kvs))"
| "in_order JUndefined = JUndefined"
| "in_order JNull = JNull"
| "in_order (JBool b) = JBool b"
| "in_order (JInt i) = JInt i"
| "in_order (JNumX s i) = JNumX s i"
| "in_order (JBigInt i) = JBigInt i"
| "in_order (JStr s) = JStr s"
  by pat_completeness auto

termination
  by (relation "measure size") (auto simp: jsval_size_obj less_Suc_eq_le size_list_estimation')

fun lead :: "jsval \<Rightarrow> char \<Rightarrow> bool" where
  "lead JNull c = (c = CHR ''n'')"
| "lead (JBool b) c = (c = (if b then CHR ''t'' else CHR ''f''))"
| "lead (JStr s) c = (c = CHR 0x22)"
| "lead (JInt i) c = (is_digit c \<or> c = CHR ''-'')"
| "lead (JArr vs) c = (c = CHR ''['')"
| "lead (JObj kvs) c = (c = CHR ''{'')"
| "lead _ c = False"

lemma lead_text: "canonicalize v = Inr t \<Longrightarrow> t \<noteq> [] \<and> lead v (hd t)"
  by (cases v)
    (auto simp: json_string_def int_str_def dec_str_nonempty dec_str_lead bindE_eq_Inr split: if_splits)

lemma lead_separates: "lead v c \<Longrightarrow> c \<notin> {CHR '','', CHR '']'', CHR ''}''}"
  by (cases v) (auto simp: is_digit_def split: if_splits)

lemma js_join_Cons: "js_join (t # ts) = t @ concat (map ((#) (CHR '','')) ts)"
  by (induction ts arbitrary: t) auto

text \<open>A list of encoded elements is determined by its text when each element is.\<close>

definition determined :: "('a \<Rightarrow> string result) \<Rightarrow> ('a \<Rightarrow> 'b) \<Rightarrow> 'a \<Rightarrow> bool" where
  "determined enc N v \<longleftrightarrow> (\<forall>w t u r r'. enc v = Inr t \<longrightarrow> enc w = Inr u \<longrightarrow> ends r \<longrightarrow> ends r'
     \<longrightarrow> t @ r = u @ r' \<longrightarrow> N v = N w \<and> r = r')"

lemma rest_determined:
  assumes "\<forall>v\<in>set vs. determined enc N v" and "mapE enc vs = Inr ts" and "mapE enc ws = Inr us"
    and "z \<in> {CHR '']'', CHR ''}''}"
    and "concat (map ((#) (CHR '','')) ts) @ z # r = concat (map ((#) (CHR '','')) us) @ z # r'"
  shows "map N vs = map N ws \<and> r = r'"
  using assms
proof (induction vs arbitrary: ws ts us)
  case Nil
  then show ?case by (cases ws) (auto simp: bindE_eq_Inr)
next
  case (Cons v vs)
  then obtain t ts' where t: "enc v = Inr t" "mapE enc vs = Inr ts'" "ts = t # ts'" by (auto simp: bindE_eq_Inr)
  with Cons.prems obtain w ws' u us' where w: "ws = w # ws'" "enc w = Inr u" "mapE enc ws' = Inr us'" "us = u # us'"
    by (cases ws) (auto simp: bindE_eq_Inr)
  let ?rest = "\<lambda>ts r. concat (map ((#) (CHR '','')) ts) @ z # r"
  have ends: "ends (?rest ts r)" for ts r using Cons.prems(4) by (cases ts) (auto simp: ends_def)
  have "t @ ?rest ts' r = u @ ?rest us' r'" using Cons.prems(5) t w by simp
  moreover have "determined enc N v" using Cons.prems(1) by simp
  ultimately have "N v = N w \<and> ?rest ts' r = ?rest us' r'"
    using t(1) w(2) ends unfolding determined_def by blast
  with Cons.IH [of ts' ws' us'] Cons.prems(1,4) t w show ?case by simp
qed

lemma join_determined:
  assumes "\<forall>v\<in>set vs. determined enc N v" and "mapE enc vs = Inr ts" and "mapE enc ws = Inr us"
    and "z \<in> {CHR '']'', CHR ''}''}" and "\<And>x t. enc x = Inr t \<Longrightarrow> t \<noteq> [] \<and> hd t \<noteq> z"
    and "js_join ts @ z # r = js_join us @ z # r'"
  shows "map N vs = map N ws \<and> r = r'"
proof (cases "vs = [] \<or> ws = []")
  case True
  have other: "js_join ys @ z # q \<noteq> z # p" if ys: "mapE enc xs = Inr ys" and "xs \<noteq> []" for xs ys p q
  proof -
    from that obtain y ys' where "ys = y # ys'" "y \<noteq> []" "hd y \<noteq> z" using assms(5) by (cases xs) (auto simp: bindE_eq_Inr)
    then show ?thesis by (cases y) (auto simp: js_join_Cons)
  qed
  have "vs = [] \<and> ws = []"
  proof (cases "vs = []")
    case True
    then have "js_join us @ z # r' = z # r" using assms(2,6) by simp
    with other [OF assms(3)] True show ?thesis by blast
  next
    case False
    then have "ws = []" using \<open>vs = [] \<or> ws = []\<close> by simp
    then have "js_join ts @ z # r = z # r'" using assms(3,6) by simp
    with other [OF assms(2)] False show ?thesis by blast
  qed
  then show ?thesis using assms(2,3,6) by simp
next
  case False
  then obtain v vs' w ws' where vw: "vs = v # vs'" "ws = w # ws'" by (cases vs; cases ws) auto
  then obtain t ts' u us' where "ts = t # ts'" "us = u # us'" using assms(2,3) by (auto simp: bindE_eq_Inr)
  then have "concat (map ((#) (CHR '','')) ts) @ z # r = concat (map ((#) (CHR '','')) us) @ z # r'"
    using assms(6) by (simp add: js_join_Cons)
  from rest_determined [OF assms(1-4) this] show ?thesis .
qed

definition field_text :: "string \<times> jsval \<Rightarrow> string result" where
  "field_text = (\<lambda>(k, v). bindE (canonicalize v) (\<lambda>t. Inr (json_string k @ '':'' @ t)))"

lemma field_determined:
  assumes "determined canonicalize in_order v"
  shows "determined field_text (\<lambda>(k, v). (k, in_order v)) (k, v)"
  unfolding determined_def field_text_def
proof (intro allI impI)
  fix w t u r r'
  assume t: "(case (k, v) of (k, v) \<Rightarrow> bindE (canonicalize v) (\<lambda>t. Inr (json_string k @ '':'' @ t))) = Inr t"
    and u: "(case w of (k, v) \<Rightarrow> bindE (canonicalize v) (\<lambda>t. Inr (json_string k @ '':'' @ t))) = Inr u"
    and ends: "ends r" "ends r'" and eq: "t @ r = u @ r'"
  obtain k' v' where w: "w = (k', v')" by (cases w)
  from t u w obtain t0 u0 where t0: "canonicalize v = Inr t0" "t = json_string k @ '':'' @ t0"
    and u0: "canonicalize v' = Inr u0" "u = json_string k' @ '':'' @ u0" by (auto simp: bindE_eq_Inr)
  have "json_string k @ (CHR '':'' # t0 @ r) = json_string k' @ (CHR '':'' # u0 @ r')" using eq t0(2) u0(2) by simp
  from json_string_unique [OF this] have "k = k'" "t0 @ r = u0 @ r'" by simp_all
  moreover from assms [unfolded determined_def, rule_format, OF t0(1) u0(1) ends this(2)]
  have "in_order v = in_order v' \<and> r = r'" .
  ultimately show "(case (k, v) of (k, v) \<Rightarrow> (k, in_order v)) = (case w of (k, v) \<Rightarrow> (k, in_order v)) \<and> r = r'" using w by simp
qed

lemma canonical_array: "canonicalize (JArr vs) = Inr t \<longleftrightarrow> (\<exists>ts. mapE canonicalize vs = Inr ts \<and> t = ''['' @ js_join ts @ '']'')"
  by (auto simp: bindE_eq_Inr)

lemma canonical_object:
  "canonicalize (JObj kvs) = Inr t \<longleftrightarrow> (\<exists>ts. mapE field_text (sort_key fst kvs) = Inr ts \<and> t = ''{'' @ js_join ts @ ''}'')"
  by (auto simp: bindE_eq_Inr field_text_def)

lemma field_lead: "field_text x = Inr t \<Longrightarrow> t \<noteq> [] \<and> hd t \<noteq> CHR ''}''"
  by (cases x) (auto simp: field_text_def json_string_def bindE_eq_Inr)

lemma same_kind:
  assumes "canonicalize v = Inr t" "canonicalize w = Inr u" "t @ r = u @ r'"
  shows "\<exists>c. lead v c \<and> lead w c"
proof -
  have "hd t = hd u" using assms lead_text [OF assms(1)] lead_text [OF assms(2)] by (cases t; cases u) auto
  then show ?thesis using lead_text [OF assms(1)] lead_text [OF assms(2)] by auto
qed

lemma text_determines: "determined canonicalize in_order v"
proof (induction v rule: canonicalize.induct)
  case (6 vs)
  have all: "\<forall>v\<in>set vs. determined canonicalize in_order v" using 6 by blast
  show ?case
    unfolding determined_def
  proof (intro allI impI)
    fix w t u r r'
    assume a: "canonicalize (JArr vs) = Inr t" "canonicalize w = Inr u" "ends r" "ends r'" "t @ r = u @ r'"
    then obtain ws where w: "w = JArr ws" using same_kind [OF a(1,2,5)] by (cases w) (auto simp: is_digit_def split: if_splits)
    from a(1) a(2) [unfolded w] obtain ts us where ts: "mapE canonicalize vs = Inr ts" "t = ''['' @ js_join ts @ '']''"
      and us: "mapE canonicalize ws = Inr us" "u = ''['' @ js_join us @ '']''" unfolding canonical_array by blast
    have "js_join ts @ CHR '']'' # r = js_join us @ CHR '']'' # r'" using a(5) ts us by simp
    moreover have "\<And>x t. canonicalize x = Inr t \<Longrightarrow> t \<noteq> [] \<and> hd t \<noteq> CHR '']''"
      using lead_text lead_separates by fastforce
    ultimately have "map in_order vs = map in_order ws \<and> r = r'"
      by (intro join_determined [OF all ts(1) us(1), of "CHR '']''"]) auto
    then show "in_order (JArr vs) = in_order w \<and> r = r'" using w by simp
  qed
next
  case (7 kvs)
  have all: "\<forall>x\<in>set (sort_key fst kvs). determined field_text (\<lambda>(k, v). (k, in_order v)) x"
    using 7 field_determined by force
  show ?case
    unfolding determined_def
  proof (intro allI impI)
    fix w t u r r'
    assume a: "canonicalize (JObj kvs) = Inr t" "canonicalize w = Inr u" "ends r" "ends r'" "t @ r = u @ r'"
    then obtain ws where w: "w = JObj ws" using same_kind [OF a(1,2,5)] by (cases w) (auto simp: is_digit_def split: if_splits)
    from a(1) a(2) [unfolded w] obtain ts us where ts: "mapE field_text (sort_key fst kvs) = Inr ts" "t = ''{'' @ js_join ts @ ''}''"
      and us: "mapE field_text (sort_key fst ws) = Inr us" "u = ''{'' @ js_join us @ ''}''" unfolding canonical_object by blast
    have "js_join ts @ CHR ''}'' # r = js_join us @ CHR ''}'' # r'" using a(5) ts us by simp
    then have "map (\<lambda>(k, v). (k, in_order v)) (sort_key fst kvs) = map (\<lambda>(k, v). (k, in_order v)) (sort_key fst ws) \<and> r = r'"
      by (intro join_determined [OF all ts(1) us(1), of "CHR ''}''"]) (auto dest: field_lead)
    then show "in_order (JObj kvs) = in_order w \<and> r = r'" using w by simp
  qed
next
  case (3 s)
  show ?case
    unfolding determined_def
  proof (intro allI impI)
    fix w t u r r'
    assume a: "canonicalize (JStr s) = Inr t" "canonicalize w = Inr u" "ends r" "ends r'" "t @ r = u @ r'"
    then obtain s' where "w = JStr s'" using same_kind [OF a(1,2,5)] by (cases w) (auto simp: is_digit_def split: if_splits)
    then show "in_order (JStr s) = in_order w \<and> r = r'" using a json_string_unique [of s r s' r'] by simp
  qed
next
  case (4 i)
  show ?case
    unfolding determined_def
  proof (intro allI impI)
    fix w t u r r'
    assume a: "canonicalize (JInt i) = Inr t" "canonicalize w = Inr u" "ends r" "ends r'" "t @ r = u @ r'"
    then obtain j where "w = JInt j" using same_kind [OF a(1,2,5)] by (cases w) (auto simp: is_digit_def split: if_splits)
    then show "in_order (JInt i) = in_order w \<and> r = r'"
      using a int_str_unique [of r r' i j] by (simp split: if_splits)
  qed
next
  case 1
  show ?case
    unfolding determined_def
  proof (intro allI impI)
    fix w t u r r'
    assume a: "canonicalize JNull = Inr t" "canonicalize w = Inr u" "ends r" "ends r'" "t @ r = u @ r'"
    then have "w = JNull" using same_kind [OF a(1,2,5)] by (cases w) (auto simp: is_digit_def split: if_splits)
    then show "in_order JNull = in_order w \<and> r = r'" using a by simp
  qed
next
  case (2 b)
  show ?case
    unfolding determined_def
  proof (intro allI impI)
    fix w t u r r'
    assume a: "canonicalize (JBool b) = Inr t" "canonicalize w = Inr u" "ends r" "ends r'" "t @ r = u @ r'"
    then have "w = JBool b" using same_kind [OF a(1,2,5)] by (cases w) (auto simp: is_digit_def split: if_splits)
    then show "in_order (JBool b) = in_order w \<and> r = r'" using a by simp
  qed
qed (simp_all add: determined_def)

lemma same_text: "canonicalize v = Inr t \<Longrightarrow> canonicalize w = Inr t \<Longrightarrow> in_order v = in_order w"
  using text_determines [unfolded determined_def, rule_format, of v t w t "[]" "[]"] by (simp add: ends_def)

text \<open>Two values that share a digest are one value, or their texts are a collision of the hash.\<close>

definition collision :: "(string \<Rightarrow> string) \<Rightarrow> jsval \<Rightarrow> jsval \<Rightarrow> bool" where
  "collision H v w \<longleftrightarrow> (\<exists>t u. canonicalize v = Inr t \<and> canonicalize w = Inr u \<and> t \<noteq> u \<and> H t = H u)"

lemma digest_determines:
  assumes "digest H v = Inr d" and "digest H w = Inr d"
  shows "in_order v = in_order w \<or> collision H v w"
proof -
  from assms obtain t u where t: "canonicalize v = Inr t" "canonicalize w = Inr u" "H t = H u"
    by (auto simp: digest_Inr)
  then show ?thesis using same_text [of v t w] unfolding collision_def by blast
qed

text \<open>
  A commitment binds its data.  If two values have the same digest, they are the same
  value up to the order of the fields of objects, or else their two canonical texts are different and
  collide under the hash.
\<close>

theorem digest_binds_data:
  assumes "digest H v = Inr d" and "digest H w = Inr d"
  shows "in_order v = in_order w \<or> (\<exists>t u. canonicalize v = Inr t \<and> canonicalize w = Inr u \<and> t \<noteq> u \<and> H t = H u)"
  using digest_determines [OF assms] unfolding collision_def .

theorem digest_binds_data_witness:
  "in_order (JObj [(''b'', JInt 1), (''a'', JStr [CHR 0x22])]) = in_order (JObj [(''a'', JStr [CHR 0x22]), (''b'', JInt 1)])"
proof -
  let ?H = "\<lambda>t. t"
  have "digest ?H (JObj [(''b'', JInt 1), (''a'', JStr [CHR 0x22])]) = digest ?H (JObj [(''a'', JStr [CHR 0x22]), (''b'', JInt 1)])"
    by code_simp
  moreover have "digest ?H (JObj [(''b'', JInt 1), (''a'', JStr [CHR 0x22])])
      = Inr ([CHR ''0'', CHR ''x'', CHR ''{'', CHR 0x22, CHR ''a'', CHR 0x22, CHR '':'', CHR 0x22, CHR 0x5C, CHR 0x22, CHR 0x22,
        CHR '','', CHR 0x22, CHR ''b'', CHR 0x22, CHR '':'', CHR ''1'', CHR ''}''])" by code_simp
  ultimately show ?thesis using digest_binds_data [of ?H] by auto
qed

end
