(* ===== verification/Lightning_Envelope.thy ===== *)
theory Lightning_Envelope
  imports Canonical_Binding
begin

text \<open>
  The signed authorization a coordinator sends to a Lightning adapter
  (\<^verbatim>\<open>src/lib/lightning-authorization-envelope.mjs\<close>): normalization of the payload, its signature, and the
  check the adapter makes.  The cryptography of the runtime is a parameter record.
\<close>

section \<open>The cryptography of the runtime\<close>

text \<open>
  A key object has the class \<^verbatim>\<open>type\<close>, the algorithm \<^verbatim>\<open>asymmetricKeyType\<close> and its material.  Signatures are
  kept as the base64 text of their bytes.  \<open>nc_hash\<close> is SHA-256 of a text in hexadecimal,
  \<open>nc_hashBytes\<close> of the bytes a hexadecimal text denotes.
\<close>

record node_key =
  nk_class :: string
  nk_algorithm :: string
  nk_material :: string

record node_crypto =
  nc_hash :: "string \<Rightarrow> string"
  nc_hashBytes :: "string \<Rightarrow> string"
  nc_sign :: "node_key \<Rightarrow> string \<Rightarrow> string"
  nc_verify :: "node_key \<Rightarrow> string \<Rightarrow> string \<Rightarrow> bool"
  nc_createPrivateKey :: "node_key \<Rightarrow> node_key option"
  nc_createPublicKey :: "node_key \<Rightarrow> node_key option"
  nc_spki :: "node_key \<Rightarrow> string"

section \<open>Plain data\<close>

text \<open>An object with exactly the expected fields, read in the expected order.\<close>

definition exactDataRecord :: "jsval \<Rightarrow> string list \<Rightarrow> string \<Rightarrow> jsval result" where
  "exactDataRecord v expected name = (case v of
     JObj kvs \<Rightarrow>
       if sort (map fst kvs) \<noteq> sort expected then Inl (TypeError (name @ '' fields are not exact''))
       else Inr (JObj (map (\<lambda>k. (k, js_get v k)) expected))
   | _ \<Rightarrow> Inl (TypeError (name @ '' must be an object'')))"

definition exactInteger :: "jsval \<Rightarrow> string \<Rightarrow> int result" where
  "exactInteger v name = (case v of
     JInt i \<Rightarrow> if isSafeInteger v \<and> 0 \<le> i then Inr i
       else Inl (TypeError (name @ '' must be a non-negative safe integer''))
   | _ \<Rightarrow> Inl (TypeError (name @ '' must be a non-negative safe integer'')))"

definition text_bytes32 :: "jsval \<Rightarrow> string \<Rightarrow> string result" where
  "text_bytes32 v name = (case v of
     JStr s \<Rightarrow> if is_bytes32 s then Inr s else Inl (TypeError (name @ '' must be lowercase bytes32''))
   | _ \<Rightarrow> Inl (TypeError (name @ '' must be lowercase bytes32'')))"

text \<open>An amount is kept as the integer its canonical decimal denotes.\<close>

definition amount :: "jsval \<Rightarrow> int result" where
  "amount v = (case v of
     JStr s \<Rightarrow>
       if \<not> is_uint s then Inl (TypeError ''amountSats must be a canonical unsigned decimal string'')
       else if dec_val s = 0 \<or> dec_val s > UINT64_MAX
       then Inl (RangeError ''amountSats must fit uint64 and be non-zero'')
       else Inr (dec_val s)
   | _ \<Rightarrow> Inl (TypeError ''amountSats must be a canonical unsigned decimal string''))"

text \<open>The pattern \<^verbatim>\<open>/^[a-z0-9][a-z0-9._-]{0,n}$/\<close>.\<close>

definition is_lower_digit :: "char \<Rightarrow> bool" where
  "is_lower_digit c \<longleftrightarrow> c \<in> set ''abcdefghijklmnopqrstuvwxyz0123456789''"

definition is_key_id :: "nat \<Rightarrow> string \<Rightarrow> bool" where
  "is_key_id n s \<longleftrightarrow> s \<noteq> [] \<and> length s \<le> Suc n \<and> is_lower_digit (hd s)
     \<and> list_all (\<lambda>c. is_lower_digit c \<or> c \<in> set ''._-'') (tl s)"

text \<open>
  \<^verbatim>\<open>Buffer.from(s, "base64")\<close> has 64 bytes and prints as \<open>s\<close> again: 85 characters of the alphabet, one whose
  four low bits are zero, and two padding characters.
\<close>

definition base64_char :: "char \<Rightarrow> bool" where
  "base64_char c \<longleftrightarrow> c \<in> set ''ABCDEFGHIJKLMNOPQRSTUVWXYZabcdefghijklmnopqrstuvwxyz0123456789+/''"

definition is_base64_signature :: "string \<Rightarrow> bool" where
  "is_base64_signature s \<longleftrightarrow> length s = 88 \<and> list_all base64_char (take 85 s) \<and> s ! 85 \<in> set ''AQgw'' \<and> drop 86 s = ''==''"

section \<open>Payload\<close>

definition OPERATION_KEYS :: "(string \<times> string list) list" where
  "OPERATION_KEYS =
    [(''/invoicesrpc.Invoices/AddHoldInvoice'', [''cltvExpiry'', ''expirySeconds'', ''isPrivate'', ''memo'']),
     (''/invoicesrpc.Invoices/CancelInvoice'', []),
     (''/invoicesrpc.Invoices/LookupInvoiceV2'', []),
     (''/invoicesrpc.Invoices/SettleInvoice'', [''preimage'']),
     (''/lnrpc.Lightning/DecodePayReq'', [''paymentRequest'']),
     (''/routerrpc.Router/SendPaymentV2'', [''feeLimitSats'', ''paymentRequest'', ''timeoutSeconds'']),
     (''/routerrpc.Router/TrackPaymentV2'', [])]"

definition PAYLOAD_KEYS :: "string list" where
  "PAYLOAD_KEYS = [''amountSats'', ''authorizedAt'', ''capacityEpoch'', ''expiresAt'', ''intentDigest'', ''invoiceDigest'',
     ''keyId'', ''method'', ''operation'', ''paymentHash'', ''requestId'', ''schema'']"

definition VERIFY_KEYS :: "string list" where
  "VERIFY_KEYS = [''envelope'', ''expectedKeyId'', ''maxLifetimeSeconds'', ''now'', ''publicKey'']"

fun operation_value :: "jsval \<Rightarrow> bool" where
  "operation_value (JStr s) = True"
| "operation_value (JBool b) = True"
| "operation_value (JInt i) = isSafeInteger (JInt i)"
| "operation_value _ = False"

definition snapshotOperation :: "jsval \<Rightarrow> string \<Rightarrow> jsval result" where
  "snapshotOperation v method = (case map_of OPERATION_KEYS method of
     None \<Rightarrow> Inl (TypeError ''authorization method is unsupported'')
   | Some expected \<Rightarrow>
       bindE (exactDataRecord v expected ''authorization operation'') (\<lambda>source.
       bindE (mapE (\<lambda>key. let child = js_get source key in
           if operation_value child then Inr (key, child)
           else Inl (TypeError (''authorization operation.'' @ key @ '' contains an unsupported value''))) expected)
         (\<lambda>fields. Inr (JObj fields))))"

record authorization_payload =
  ap_keyId :: string
  ap_method :: string
  ap_requestId :: string
  ap_intentDigest :: string
  ap_paymentHash :: string
  ap_invoiceDigest :: string
  ap_amountSats :: int
  ap_capacityEpoch :: int
  ap_authorizedAt :: int
  ap_expiresAt :: int
  ap_operation :: jsval

definition AUTHORIZATION_SCHEMA :: string where
  "AUTHORIZATION_SCHEMA = ''treeswap.lightning-authorization.v1''"

definition payload_json :: "authorization_payload \<Rightarrow> jsval" where
  "payload_json p = JObj [(''schema'', JStr AUTHORIZATION_SCHEMA), (''keyId'', JStr (ap_keyId p)), (''method'', JStr (ap_method p)),
     (''requestId'', JStr (ap_requestId p)), (''intentDigest'', JStr (ap_intentDigest p)),
     (''paymentHash'', JStr (ap_paymentHash p)), (''invoiceDigest'', JStr (ap_invoiceDigest p)),
     (''amountSats'', JStr (dec_str (ap_amountSats p))), (''capacityEpoch'', JInt (ap_capacityEpoch p)),
     (''authorizedAt'', JInt (ap_authorizedAt p)), (''expiresAt'', JInt (ap_expiresAt p)), (''operation'', ap_operation p)]"

text \<open>The module's own copy of the canonical text differs from the store's in its messages only.\<close>

definition canonicalize_authorization :: "jsval \<Rightarrow> string result" where
  "canonicalize_authorization v = (case canonicalize v of
     Inr t \<Rightarrow> Inr t
   | Inl (TypeError m) \<Rightarrow> Inl (TypeError (if m = ''canonical numbers must be safe integers''
       then ''signed authorization numbers must be safe integers'' else ''signed authorization contains an unsupported value''))
   | Inl e \<Rightarrow> Inl e)"

definition normalizeLightningAuthorizationPayload :: "jsval \<Rightarrow> authorization_payload result" where
  "normalizeLightningAuthorizationPayload payload =
     bindE (exactDataRecord payload PAYLOAD_KEYS ''authorization payload'') (\<lambda>source.
     bindE (case js_get source ''keyId'' of
         JStr k \<Rightarrow> if is_key_id 63 k then Inr k else Inl (TypeError ''authorization keyId is invalid'')
       | _ \<Rightarrow> Inl (TypeError ''authorization keyId is invalid'')) (\<lambda>keyId.
     bindE (case js_get source ''method'' of
         JStr m \<Rightarrow> if take 1 m = ''/'' \<and> length m \<le> 120 then Inr m else Inl (TypeError ''authorization method is invalid'')
       | _ \<Rightarrow> Inl (TypeError ''authorization method is invalid'')) (\<lambda>method.
     bindE (text_bytes32 (js_get source ''requestId'') ''requestId'') (\<lambda>requestId.
     bindE (text_bytes32 (js_get source ''intentDigest'') ''intentDigest'') (\<lambda>intentDigest.
     bindE (text_bytes32 (js_get source ''paymentHash'') ''paymentHash'') (\<lambda>paymentHash.
     bindE (text_bytes32 (js_get source ''invoiceDigest'') ''invoiceDigest'') (\<lambda>invoiceDigest.
     bindE (amount (js_get source ''amountSats'')) (\<lambda>amountSats.
     bindE (exactInteger (js_get source ''capacityEpoch'') ''capacityEpoch'') (\<lambda>capacityEpoch.
     bindE (exactInteger (js_get source ''authorizedAt'') ''authorizedAt'') (\<lambda>authorizedAt.
     bindE (exactInteger (js_get source ''expiresAt'') ''expiresAt'') (\<lambda>expiresAt.
     bindE (snapshotOperation (js_get source ''operation'') method) (\<lambda>operation.
     if js_get source ''schema'' \<noteq> JStr AUTHORIZATION_SCHEMA then Inl (TypeError ''authorization schema is unsupported'')
     else bindE (canonicalize_authorization operation) (\<lambda>_.
     Inr \<lparr>ap_keyId = keyId, ap_method = method, ap_requestId = requestId, ap_intentDigest = intentDigest,
       ap_paymentHash = paymentHash, ap_invoiceDigest = invoiceDigest, ap_amountSats = amountSats,
       ap_capacityEpoch = capacityEpoch, ap_authorizedAt = authorizedAt, ap_expiresAt = expiresAt,
       ap_operation = operation\<rparr>)))))))))))))"

definition serializeLightningAuthorizationPayload :: "jsval \<Rightarrow> string result" where
  "serializeLightningAuthorizationPayload payload =
     bindE (normalizeLightningAuthorizationPayload payload) (\<lambda>p. canonicalize_authorization (payload_json p))"

section \<open>Envelope\<close>

definition envelope_json :: "authorization_payload \<Rightarrow> string \<Rightarrow> jsval" where
  "envelope_json p signature = JObj [(''payload'', payload_json p), (''signature'', JStr signature)]"

definition normalizeLightningAuthorizationEnvelope :: "jsval \<Rightarrow> (authorization_payload \<times> string) result" where
  "normalizeLightningAuthorizationEnvelope envelope =
     bindE (exactDataRecord envelope [''payload'', ''signature''] ''authorization envelope'') (\<lambda>source.
     bindE (normalizeLightningAuthorizationPayload (js_get source ''payload'')) (\<lambda>payload.
     case js_get source ''signature'' of
       JStr s \<Rightarrow> if is_base64_signature s then Inr (payload, s) else Inl (Error ''authorization signature is invalid'')
     | _ \<Rightarrow> Inl (Error ''authorization signature is invalid'')))"

definition lightningAuthorizationEnvelopeDigest :: "node_crypto \<Rightarrow> jsval \<Rightarrow> string result" where
  "lightningAuthorizationEnvelopeDigest C envelope =
     bindE (normalizeLightningAuthorizationEnvelope envelope) (\<lambda>(payload, signature).
     bindE (canonicalize_authorization (envelope_json payload signature)) (\<lambda>text. Inr (''0x'' @ nc_hash C text)))"

definition signLightningAuthorizationEnvelope :: "node_crypto \<Rightarrow> jsval \<Rightarrow> node_key \<Rightarrow> jsval result" where
  "signLightningAuthorizationEnvelope C payload privateKey =
     (if nk_algorithm privateKey \<noteq> ''ed25519'' then Inl (TypeError ''coordinator signing key must be Ed25519'')
      else bindE (normalizeLightningAuthorizationPayload payload) (\<lambda>normalized.
      bindE (canonicalize_authorization (payload_json normalized)) (\<lambda>text.
      Inr (envelope_json normalized (nc_sign C privateKey text)))))"

text \<open>The key is not plain data, so it is an argument beside the other fields of the input.\<close>

definition verifyLightningAuthorizationEnvelope ::
    "node_crypto \<Rightarrow> jsval \<Rightarrow> node_key \<Rightarrow> authorization_payload result" where
  "verifyLightningAuthorizationEnvelope C input publicKey =
     bindE (exactDataRecord input (removeAll ''publicKey'' VERIFY_KEYS) ''authorization verification'') (\<lambda>source.
     bindE (normalizeLightningAuthorizationEnvelope (js_get source ''envelope'')) (\<lambda>(payload, signature).
     if nk_algorithm publicKey \<noteq> ''ed25519'' then Inl (TypeError ''coordinator verification key must be Ed25519'')
     else bindE (case js_get source ''expectedKeyId'' of
         JStr k \<Rightarrow> if is_key_id 63 k then Inr k else Inl (TypeError ''expected authorization keyId is invalid'')
       | _ \<Rightarrow> Inl (TypeError ''expected authorization keyId is invalid'')) (\<lambda>expectedKeyId.
     bindE (normalizeLightningAuthorizationPayload (payload_json payload)) (\<lambda>payload.
     bindE (exactInteger (js_get source ''now'') ''now'') (\<lambda>observedAt.
     bindE (exactInteger (js_get source ''maxLifetimeSeconds'') ''maxLifetimeSeconds'') (\<lambda>maximumLifetime.
     if ap_keyId payload \<noteq> expectedKeyId then Inl (Error ''authorization key is not active'')
     else if ap_authorizedAt payload > observedAt then Inl (Error ''authorization time is in the future'')
     else if observedAt \<ge> ap_expiresAt payload then Inl (Error ''authorization expired'')
     else if ap_expiresAt payload \<le> ap_authorizedAt payload
         \<or> ap_expiresAt payload - ap_authorizedAt payload > maximumLifetime
     then Inl (Error ''authorization lifetime exceeds policy'')
     else bindE (canonicalize_authorization (payload_json payload)) (\<lambda>text.
     if \<not> nc_verify C publicKey text signature then Inl (Error ''authorization signature is invalid'')
     else Inr payload)))))))"

section \<open>Facts\<close>

lemma exactDataRecord_Inr:
  "exactDataRecord v ks name = Inr w \<longleftrightarrow>
     (\<exists>kvs. v = JObj kvs \<and> sort (map fst kvs) = sort ks) \<and> w = JObj (map (\<lambda>k. (k, js_get v k)) ks)"
  by (auto simp: exactDataRecord_def split: jsval.splits)

lemma map_of_fields [simp]: "map_of (map (\<lambda>k. (k, f k)) ks) k = (if k \<in> set ks then Some (f k) else None)"
  by (induction ks) auto

lemma js_get_fields: "js_get (JObj (map (\<lambda>k. (k, f k)) ks)) k = (if k \<in> set ks then f k else JUndefined)"
  by simp

lemma exactDataRecord_get: "exactDataRecord v ks name = Inr w \<Longrightarrow> k \<in> set ks \<Longrightarrow> js_get w k = js_get v k"
  by (auto simp: exactDataRecord_Inr js_get_fields)

lemma exactInteger_Inr [result_simps]: "exactInteger v name = Inr i \<longleftrightarrow> v = JInt i \<and> isSafeInteger (JInt i) \<and> 0 \<le> i"
  by (auto simp: exactInteger_def split: jsval.splits)

lemma text_bytes32_Inr [result_simps]: "text_bytes32 v name = Inr s \<longleftrightarrow> v = JStr s \<and> is_bytes32 s"
  by (auto simp: text_bytes32_def split: jsval.splits)

lemma amount_Inr [result_simps]:
  "amount v = Inr i \<longleftrightarrow> v = JStr (dec_str i) \<and> 0 < i \<and> i \<le> UINT64_MAX"
proof
  assume "amount v = Inr i"
  then obtain s where s: "v = JStr s" "is_uint s" "dec_val s = i" "i \<noteq> 0" "i \<le> UINT64_MAX"
    by (auto simp: amount_def split: jsval.splits if_splits)
  with is_uint_nonneg [OF s(2)] dec_str_dec_val [of s] show "v = JStr (dec_str i) \<and> 0 < i \<and> i \<le> UINT64_MAX"
    by (auto simp: is_uint_iff dec_val_dec_str)
next
  assume "v = JStr (dec_str i) \<and> 0 < i \<and> i \<le> UINT64_MAX"
  then show "amount v = Inr i" by (simp add: amount_def dec_val_dec_str is_uint_dec_str)
qed

lemma canonicalize_authorization_Inr [result_simps]: "canonicalize_authorization v = Inr t \<longleftrightarrow> canonicalize v = Inr t"
  by (auto simp: canonicalize_authorization_def split: sum.splits js_error.splits)

lemma mapE_select:
  "mapE (\<lambda>k. if P k then Inr (f k) else Inl (e k)) ks = Inr ys \<longleftrightarrow> (\<forall>k\<in>set ks. P k) \<and> ys = map f ks"
  by (induction ks arbitrary: ys) (auto simp: bindE_eq_Inr)

lemma snapshotOperation_Inr:
  "snapshotOperation v m = Inr op \<longleftrightarrow> (\<exists>ks kvs. map_of OPERATION_KEYS m = Some ks \<and> v = JObj kvs
     \<and> sort (map fst kvs) = sort ks \<and> (\<forall>k\<in>set ks. operation_value (js_get v k)) \<and> op = JObj (map (\<lambda>k. (k, js_get v k)) ks))"
  unfolding snapshotOperation_def Let_def option_case_eq_Inr bindE_eq_Inr exactDataRecord_Inr mapE_select
  by (auto cong: map_cong)

lemma snapshotOperation_again: "snapshotOperation v m = Inr op \<Longrightarrow> snapshotOperation op m = Inr op"
  unfolding snapshotOperation_Inr by (auto simp: js_get_fields comp_def)

lemma operation_value_json: "operation_value v \<Longrightarrow> \<exists>t. canonicalize v = Inr t"
  by (cases v) auto

text \<open>An object has a canonical text when each of its fields has one.\<close>

lemma canonicalize_object:
  assumes "\<And>k v. (k, v) \<in> set kvs \<Longrightarrow> \<exists>t. canonicalize v = Inr t"
  shows "\<exists>t. canonicalize (JObj kvs) = Inr t"
proof -
  have "\<exists>t. field_text x = Inr t" if "x \<in> set (sort_key fst kvs)" for x
  proof -
    obtain k v where x: "x = (k, v)" by (cases x)
    then have "(k, v) \<in> set kvs" using that by simp
    from assms [OF this] x show ?thesis by (auto simp: field_text_def)
  qed
  then have "\<exists>ts. mapE field_text (sort_key fst kvs) = Inr ts" by (rule mapE_total)
  then show ?thesis unfolding canonical_object by blast
qed

text \<open>A normalized payload, its text and its own normal form.\<close>

definition payload_ok :: "authorization_payload \<Rightarrow> bool" where
  "payload_ok p \<longleftrightarrow> is_key_id 63 (ap_keyId p) \<and> take 1 (ap_method p) = ''/'' \<and> length (ap_method p) \<le> 120
     \<and> is_bytes32 (ap_requestId p) \<and> is_bytes32 (ap_intentDigest p) \<and> is_bytes32 (ap_paymentHash p)
     \<and> is_bytes32 (ap_invoiceDigest p) \<and> 0 < ap_amountSats p \<and> ap_amountSats p \<le> UINT64_MAX
     \<and> isSafeInteger (JInt (ap_capacityEpoch p)) \<and> 0 \<le> ap_capacityEpoch p
     \<and> isSafeInteger (JInt (ap_authorizedAt p)) \<and> 0 \<le> ap_authorizedAt p
     \<and> isSafeInteger (JInt (ap_expiresAt p)) \<and> 0 \<le> ap_expiresAt p
     \<and> snapshotOperation (ap_operation p) (ap_method p) = Inr (ap_operation p)"

lemma checked_text:
  "(case v of JStr s \<Rightarrow> if P s then Inr s else Inl e | _ \<Rightarrow> Inl e) = Inr x \<longleftrightarrow> v = JStr x \<and> P x"
  by (cases v) auto

lemma payload_json_exact:
  "exactDataRecord (payload_json p) PAYLOAD_KEYS name = Inr (JObj (map (\<lambda>k. (k, js_get (payload_json p) k)) PAYLOAD_KEYS))"
proof -
  have "sort (map fst [(''schema'', a), (''keyId'', b), (''method'', c), (''requestId'', d), (''intentDigest'', e), (''paymentHash'', f),
      (''invoiceDigest'', g), (''amountSats'', h), (''capacityEpoch'', i), (''authorizedAt'', j), (''expiresAt'', k), (''operation'', l)])
    = sort PAYLOAD_KEYS" for a b c d e f g h i j k l :: jsval
    unfolding PAYLOAD_KEYS_def by code_simp
  then show ?thesis by (simp add: exactDataRecord_def payload_json_def)
qed

lemma normalize_ok: "normalizeLightningAuthorizationPayload v = Inr p \<Longrightarrow> payload_ok p"
  unfolding normalizeLightningAuthorizationPayload_def
  by (auto simp: result_simps checked_text payload_ok_def bindE_eq_Inr dest: snapshotOperation_again)

lemma operation_text: "snapshotOperation v m = Inr op \<Longrightarrow> \<exists>t. canonicalize op = Inr t"
  unfolding snapshotOperation_Inr using operation_value_json by (auto intro!: canonicalize_object)

lemma payload_text: "payload_ok p \<Longrightarrow> \<exists>t. canonicalize (payload_json p) = Inr t"
  unfolding payload_json_def payload_ok_def
  by (rule canonicalize_object) (auto dest: operation_text)

lemma payload_fields:
  "js_get (payload_json p) ''schema'' = JStr AUTHORIZATION_SCHEMA" "js_get (payload_json p) ''keyId'' = JStr (ap_keyId p)"
  "js_get (payload_json p) ''method'' = JStr (ap_method p)" "js_get (payload_json p) ''requestId'' = JStr (ap_requestId p)"
  "js_get (payload_json p) ''intentDigest'' = JStr (ap_intentDigest p)"
  "js_get (payload_json p) ''paymentHash'' = JStr (ap_paymentHash p)"
  "js_get (payload_json p) ''invoiceDigest'' = JStr (ap_invoiceDigest p)"
  "js_get (payload_json p) ''amountSats'' = JStr (dec_str (ap_amountSats p))"
  "js_get (payload_json p) ''capacityEpoch'' = JInt (ap_capacityEpoch p)"
  "js_get (payload_json p) ''authorizedAt'' = JInt (ap_authorizedAt p)"
  "js_get (payload_json p) ''expiresAt'' = JInt (ap_expiresAt p)" "js_get (payload_json p) ''operation'' = ap_operation p"
  by (simp_all add: payload_json_def)

lemma normalize_payload_json:
  assumes "payload_ok p"
  shows "normalizeLightningAuthorizationPayload (payload_json p) = Inr p"
proof -
  have get: "js_get (JObj (map (\<lambda>k. (k, js_get (payload_json p) k)) PAYLOAD_KEYS)) k = js_get (payload_json p) k"
    if "k \<in> set PAYLOAD_KEYS" for k
    using that by simp
  obtain t where t: "canonicalize_authorization (ap_operation p) = Inr t"
    using assms operation_text canonicalize_authorization_Inr unfolding payload_ok_def by blast
  have amt: "amount (JStr (dec_str (ap_amountSats p))) = Inr (ap_amountSats p)"
    using assms by (simp add: amount_Inr payload_ok_def)
  show ?thesis
    using assms unfolding normalizeLightningAuthorizationPayload_def payload_json_exact payload_ok_def bindE_Inr
    by (subst get, simp add: PAYLOAD_KEYS_def)+
      (simp add: payload_fields amt t text_bytes32_def exactInteger_def del: js_get.simps)
qed

lemma normalizeEnvelope_Inr:
  "normalizeLightningAuthorizationEnvelope e = Inr (p, s) \<longleftrightarrow>
     (\<exists>kvs. e = JObj kvs \<and> sort (map fst kvs) = sort [''payload'', ''signature''])
     \<and> normalizeLightningAuthorizationPayload (js_get e ''payload'') = Inr p
     \<and> js_get e ''signature'' = JStr s \<and> is_base64_signature s"
proof -
  have "(case v of JStr s \<Rightarrow> if is_base64_signature s then Inr (p', s) else Inl x | _ \<Rightarrow> Inl x) = Inr (p, s)
      \<longleftrightarrow> p' = p \<and> v = JStr s \<and> is_base64_signature s" for v p' and x :: js_error
    by (cases v) auto
  then show ?thesis
    unfolding normalizeLightningAuthorizationEnvelope_def bindE_eq_Inr exactDataRecord_Inr by auto
qed

text \<open>Reading a field commutes with ordering the fields.\<close>

lemma in_order_get:
  assumes "distinct (map fst kvs)"
  shows "js_get (in_order (JObj kvs)) k = in_order (js_get (JObj kvs) k)"
proof -
  have "map_of (map (\<lambda>(k, v). (k, in_order v)) (sort_key fst kvs)) k = map_option in_order (map_of (sort_key fst kvs) k)"
    by (induction "sort_key fst kvs") (auto simp: map_of_map [unfolded comp_def])
  moreover have "map_of (sort_key fst kvs) k = map_of kvs k"
    using assms by (subst map_of_inject_set [THEN iffD2, of "sort_key fst kvs" kvs]) (simp_all add: distinct_map)
  ultimately show ?thesis by (simp split: option.splits)
qed

lemma scalar_in_order: "operation_value v \<Longrightarrow> in_order v = v"
  by (cases v) auto

lemma object_same_fields:
  assumes "in_order (JObj kvs) = in_order (JObj kvs')" and "distinct (map fst kvs)" and "distinct (map fst kvs')"
  shows "in_order (js_get (JObj kvs) k) = in_order (js_get (JObj kvs') k)"
  using assms(1) in_order_get [OF assms(2)] in_order_get [OF assms(3)] by metis

lemma distinct_operation_keys: "map_of OPERATION_KEYS m = Some ks \<Longrightarrow> distinct ks"
  by (auto simp: OPERATION_KEYS_def split: if_splits)

lemma operation_determined:
  assumes "snapshotOperation v m = Inr op" and "snapshotOperation w m = Inr op'" and "in_order op = in_order op'"
  shows "op = op'"
proof -
  from assms(1,2) obtain ks where ks: "map_of OPERATION_KEYS m = Some ks"
    and v: "\<forall>k\<in>set ks. operation_value (js_get v k)" "op = JObj (map (\<lambda>k. (k, js_get v k)) ks)"
    and w: "\<forall>k\<in>set ks. operation_value (js_get w k)" "op' = JObj (map (\<lambda>k. (k, js_get w k)) ks)"
    unfolding snapshotOperation_Inr by auto
  have "distinct (map fst (map (\<lambda>k. (k, js_get v k)) ks))" "distinct (map fst (map (\<lambda>k. (k, js_get w k)) ks))"
    using distinct_operation_keys [OF ks] by (simp_all add: comp_def)
  note same = object_same_fields [OF assms(3) [unfolded v w] this]
  have "in_order (js_get v k) = in_order (js_get w k)" if "k \<in> set ks" for k
    using same [of k] that unfolding js_get_fields by simp
  then show ?thesis using v w by (auto simp: scalar_in_order)
qed

lemma payload_determined:
  assumes "payload_ok p" and "payload_ok q" and "canonicalize (payload_json p) = canonicalize (payload_json q)"
  shows "p = q"
proof -
  obtain t where t: "canonicalize (payload_json p) = Inr t" "canonicalize (payload_json q) = Inr t"
    using payload_text [OF assms(1)] assms(3) by auto
  have order: "in_order (payload_json p) = in_order (payload_json q)" by (rule same_text [OF t])
  have same: "in_order (js_get (payload_json p) k) = in_order (js_get (payload_json q) k)" for k
    using order unfolding payload_json_def by (intro object_same_fields) auto
  have scalars: "ap_keyId p = ap_keyId q" "ap_method p = ap_method q" "ap_requestId p = ap_requestId q"
    "ap_intentDigest p = ap_intentDigest q" "ap_paymentHash p = ap_paymentHash q"
    "ap_invoiceDigest p = ap_invoiceDigest q" "dec_str (ap_amountSats p) = dec_str (ap_amountSats q)"
    "ap_capacityEpoch p = ap_capacityEpoch q" "ap_authorizedAt p = ap_authorizedAt q" "ap_expiresAt p = ap_expiresAt q"
    using same [of "''keyId''"] same [of "''method''"] same [of "''requestId''"] same [of "''intentDigest''"]
      same [of "''paymentHash''"] same [of "''invoiceDigest''"] same [of "''amountSats''"] same [of "''capacityEpoch''"]
      same [of "''authorizedAt''"] same [of "''expiresAt''"] unfolding payload_fields by simp_all
  moreover have "ap_amountSats p = ap_amountSats q"
    using scalars(7) assms(1,2) by (simp add: dec_str_inject payload_ok_def)
  moreover have "ap_operation p = ap_operation q"
    using assms(1,2) same [of "''operation''"] scalars(2) operation_determined unfolding payload_fields payload_ok_def by metis
  ultimately show ?thesis by simp
qed

text \<open>A private key and its public key, as the documentation of the signature scheme promises it.\<close>

definition key_pair :: "node_crypto \<Rightarrow> node_key \<Rightarrow> node_key \<Rightarrow> bool" where
  "key_pair C privateKey publicKey \<longleftrightarrow> nk_algorithm publicKey = ''ed25519''
     \<and> (\<forall>m. is_base64_signature (nc_sign C privateKey m) \<and> nc_verify C publicKey m (nc_sign C privateKey m))"

lemma sign_then_verify:
  assumes "signLightningAuthorizationEnvelope C payload privateKey = Inr envelope"
    and "key_pair C privateKey publicKey"
    and "normalizeLightningAuthorizationPayload payload = Inr p"
    and "ap_authorizedAt p \<le> now" and "now < ap_expiresAt p" and "ap_expiresAt p - ap_authorizedAt p \<le> lifetime"
    and "lifetime \<le> MAX_SAFE_INTEGER"
  shows "verifyLightningAuthorizationEnvelope C (JObj [(''envelope'', envelope), (''expectedKeyId'', JStr (ap_keyId p)),
      (''maxLifetimeSeconds'', JInt lifetime), (''now'', JInt now)]) publicKey = Inr p"
proof -
  let ?input = "JObj [(''envelope'', envelope), (''expectedKeyId'', JStr (ap_keyId p)),
      (''maxLifetimeSeconds'', JInt lifetime), (''now'', JInt now)]"
  have ok: "payload_ok p" by (rule normalize_ok [OF assms(3)])
  from assms(1,3) obtain t where t: "canonicalize (payload_json p) = Inr t" "envelope = envelope_json p (nc_sign C privateKey t)"
    by (auto simp: signLightningAuthorizationEnvelope_def result_simps split: if_splits)
  have sig: "is_base64_signature (nc_sign C privateKey t)" "nc_verify C publicKey t (nc_sign C privateKey t)"
      "nk_algorithm publicKey = ''ed25519''"
    using assms(2) by (simp_all add: key_pair_def)
  have keys: "exactDataRecord ?input (removeAll ''publicKey'' VERIFY_KEYS) name = Inr ?input" for name
    by (simp add: exactDataRecord_def VERIFY_KEYS_def)
  have env: "normalizeLightningAuthorizationEnvelope envelope = Inr (p, nc_sign C privateKey t)"
    unfolding normalizeEnvelope_Inr t(2) envelope_json_def using normalize_payload_json [OF ok] sig(1) by simp
  have range: "isSafeInteger (JInt now)" "0 \<le> now" "isSafeInteger (JInt lifetime)" "0 \<le> lifetime" "is_key_id 63 (ap_keyId p)"
    using ok assms(4-7) by (auto simp: payload_ok_def MAX_SAFE_INTEGER_def)
  have canon: "canonicalize_authorization (payload_json p) = Inr t" using t(1) by (simp add: canonicalize_authorization_Inr)
  show ?thesis
    unfolding verifyLightningAuthorizationEnvelope_def keys bindE_Inr
    using range assms(4-6) sig by (simp add: env normalize_payload_json [OF ok] canon exactInteger_def)
qed

text \<open>What a successful check has established, part by part.\<close>

lemma verified_parts:
  assumes "verifyLightningAuthorizationEnvelope C input publicKey = Inr p"
  shows "\<exists>source p' signature now m t. exactDataRecord input (removeAll ''publicKey'' VERIFY_KEYS) ''authorization verification'' = Inr source
    \<and> normalizeLightningAuthorizationEnvelope (js_get source ''envelope'') = Inr (p', signature)
    \<and> nk_algorithm publicKey = ''ed25519'' \<and> js_get source ''expectedKeyId'' = JStr (ap_keyId p)
    \<and> normalizeLightningAuthorizationPayload (payload_json p') = Inr p
    \<and> js_get source ''now'' = JInt now \<and> js_get source ''maxLifetimeSeconds'' = JInt m
    \<and> ap_authorizedAt p \<le> now \<and> now < ap_expiresAt p \<and> ap_expiresAt p - ap_authorizedAt p \<le> m
    \<and> canonicalize (payload_json p) = Inr t \<and> nc_verify C publicKey t signature"
  using assms unfolding verifyLightningAuthorizationEnvelope_def
  by (auto simp: result_simps checked_text not_less not_le simp del: js_get.simps)

section \<open>Properties\<close>

text \<open>
  Property C38.  A verified authorization is exactly what the coordinator signed.  The signature verifies
  under the given key over the canonical text of the returned payload; the payload is live at the time of
  the check and within the allowed lifetime; and no other payload has that text, so a signature for one
  request never authorizes another.
\<close>

theorem verified_authorization_authentic:
  assumes "verifyLightningAuthorizationEnvelope C input publicKey = Inr p"
  shows "\<exists>t signature now. js_get (js_get input ''envelope'') ''signature'' = JStr signature
    \<and> js_get input ''expectedKeyId'' = JStr (ap_keyId p) \<and> js_get input ''now'' = JInt now
    \<and> normalizeLightningAuthorizationPayload (js_get (js_get input ''envelope'') ''payload'') = Inr p
    \<and> canonicalize (payload_json p) = Inr t \<and> nk_algorithm publicKey = ''ed25519'' \<and> nc_verify C publicKey t signature
    \<and> ap_authorizedAt p \<le> now \<and> now < ap_expiresAt p
    \<and> (\<exists>m. js_get input ''maxLifetimeSeconds'' = JInt m \<and> ap_expiresAt p - ap_authorizedAt p \<le> m)
    \<and> (\<forall>q. serializeLightningAuthorizationPayload q = Inr t \<longrightarrow> normalizeLightningAuthorizationPayload q = Inr p)"
proof -
  from verified_parts [OF assms] obtain source p' signature now m t where v:
      "exactDataRecord input (removeAll ''publicKey'' VERIFY_KEYS) ''authorization verification'' = Inr source"
      "normalizeLightningAuthorizationEnvelope (js_get source ''envelope'') = Inr (p', signature)"
      "nk_algorithm publicKey = ''ed25519''" "js_get source ''expectedKeyId'' = JStr (ap_keyId p)"
      "normalizeLightningAuthorizationPayload (payload_json p') = Inr p"
      "js_get source ''now'' = JInt now" "js_get source ''maxLifetimeSeconds'' = JInt m"
      "ap_authorizedAt p \<le> now" "now < ap_expiresAt p" "ap_expiresAt p - ap_authorizedAt p \<le> m"
      "canonicalize (payload_json p) = Inr t" "nc_verify C publicKey t signature" by blast
  have get: "js_get source k = js_get input k" if "k \<in> {''envelope'', ''expectedKeyId'', ''maxLifetimeSeconds'', ''now''}" for k
    using that by (intro exactDataRecord_get [OF v(1)]) (auto simp: VERIFY_KEYS_def)
  have e: "normalizeLightningAuthorizationPayload (js_get (js_get input ''envelope'') ''payload'') = Inr p'"
      "js_get (js_get input ''envelope'') ''signature'' = JStr signature"
    using v(2) get [of "''envelope''"] unfolding normalizeEnvelope_Inr by simp_all
  have p: "p' = p" using normalize_payload_json [OF normalize_ok [OF e(1)]] v(5) by simp
  have "normalizeLightningAuthorizationPayload q = Inr p" if q: "serializeLightningAuthorizationPayload q = Inr t" for q
  proof -
    from q obtain q' where "normalizeLightningAuthorizationPayload q = Inr q'" "canonicalize (payload_json q') = Inr t"
      by (auto simp: serializeLightningAuthorizationPayload_def result_simps)
    then show ?thesis using payload_determined [OF normalize_ok normalize_ok [OF v(5)], of q q'] v(11) by simp
  qed
  then show ?thesis using v e p get by auto
qed

text \<open>
  Property C39.  Signing and verifying are inverse, inside the window and nowhere else: the adapter's check of
  the envelope the coordinator signs returns exactly the payload that was signed, at exactly the times from
  its authorization up to, not including, its expiry, and only if its lifetime is within the limit; at every
  other time and under every smaller limit the check throws.
\<close>

theorem authorization_round_trip:
  assumes "signLightningAuthorizationEnvelope C payload privateKey = Inr envelope"
    and "key_pair C privateKey publicKey"
    and "normalizeLightningAuthorizationPayload payload = Inr p"
    and "lifetime \<le> MAX_SAFE_INTEGER"
  shows "verifyLightningAuthorizationEnvelope C (JObj [(''envelope'', envelope), (''expectedKeyId'', JStr (ap_keyId p)),
      (''maxLifetimeSeconds'', JInt lifetime), (''now'', JInt now)]) publicKey = Inr p'
    \<longleftrightarrow> p' = p \<and> ap_authorizedAt p \<le> now \<and> now < ap_expiresAt p \<and> ap_expiresAt p - ap_authorizedAt p \<le> lifetime"
  (is "verifyLightningAuthorizationEnvelope C ?input publicKey = Inr p' \<longleftrightarrow> p' = p \<and> ?window")
proof
  assume "verifyLightningAuthorizationEnvelope C ?input publicKey = Inr p'"
  from verified_parts [OF this] obtain source p1 signature now' m where v:
      "exactDataRecord ?input (removeAll ''publicKey'' VERIFY_KEYS) ''authorization verification'' = Inr source"
      "normalizeLightningAuthorizationEnvelope (js_get source ''envelope'') = Inr (p1, signature)"
      "normalizeLightningAuthorizationPayload (payload_json p1) = Inr p'" "js_get source ''now'' = JInt now'"
      "js_get source ''maxLifetimeSeconds'' = JInt m" "ap_authorizedAt p' \<le> now'" "now' < ap_expiresAt p'"
      "ap_expiresAt p' - ap_authorizedAt p' \<le> m" by blast
  have get: "js_get source k = js_get ?input k" if "k \<in> {''envelope'', ''maxLifetimeSeconds'', ''now''}" for k
    using that by (intro exactDataRecord_get [OF v(1)]) (auto simp: VERIFY_KEYS_def)
  have ok: "payload_ok p" by (rule normalize_ok [OF assms(3)])
  from assms(1,3) obtain sig where "envelope = envelope_json p sig"
    by (auto simp: signLightningAuthorizationEnvelope_def result_simps split: if_splits)
  then have "p1 = p" using v(2) get [of "''envelope''"] normalize_payload_json [OF ok]
    by (simp add: normalizeEnvelope_Inr envelope_json_def)
  then have "p' = p" using v(3) normalize_payload_json [OF ok] by simp
  moreover have "now' = now" "m = lifetime" using v(4,5) get [of "''now''"] get [of "''maxLifetimeSeconds''"] by simp_all
  ultimately show "p' = p \<and> ?window" using v(6-8) by simp
qed (use sign_then_verify [OF assms(1-3)] assms(4) in blast)

section \<open>A sample\<close>

text \<open>A signature scheme for the witnesses: the signature depends on the length of the message.\<close>

definition sample_signature :: "string \<Rightarrow> string" where
  "sample_signature m = (''ABCDEFGHIJKLMNOPQRSTUVWXYZabcdefghijklmnopqrstuvwxyz0123456789+/'' ! (length m mod 64))
     # replicate 85 (CHR ''A'') @ ''==''"

definition sample_key :: "string \<Rightarrow> node_key" where
  "sample_key c = \<lparr>nk_class = c, nk_algorithm = ''ed25519'', nk_material = []\<rparr>"

definition sample_node_crypto :: "string \<Rightarrow> node_crypto" where
  "sample_node_crypto paymentHash = \<lparr>nc_hash = (\<lambda>t. replicate 64 (CHR ''5'')), nc_hashBytes = (\<lambda>b. drop 2 paymentHash),
     nc_sign = (\<lambda>k m. sample_signature m), nc_verify = (\<lambda>k m s. s = sample_signature m),
     nc_createPrivateKey = (\<lambda>k. None), nc_createPublicKey = (\<lambda>k. None), nc_spki = (\<lambda>k. [])\<rparr>"

lemma sample_key_pair: "key_pair (sample_node_crypto h) (sample_key ''private'') (sample_key ''public'')"
proof -
  let ?alphabet = "''ABCDEFGHIJKLMNOPQRSTUVWXYZabcdefghijklmnopqrstuvwxyz0123456789+/''"
  have "length ?alphabet = 64" by simp
  then have "?alphabet ! (n mod 64) \<in> set ?alphabet" for n by (intro nth_mem) simp
  then have first: "base64_char (?alphabet ! (n mod 64))" for n unfolding base64_char_def .
  have A: "base64_char (CHR ''A'')" by (simp add: base64_char_def)
  have "is_base64_signature (c # replicate 85 (CHR ''A'') @ ''=='')" if "base64_char c" for c
    using that A by (simp add: is_base64_signature_def list_all_iff nth_append)
  then have "is_base64_signature (sample_signature m)" for m unfolding sample_signature_def using first by blast
  then show ?thesis by (simp add: key_pair_def sample_node_crypto_def sample_key_def)
qed

lemma sample_node_hex: "hex_digest (nc_hash (sample_node_crypto h))"
  by (simp add: hex_digest_def sample_node_crypto_def list_all_iff is_hex_lower_def)

definition sample_authorization :: jsval where
  "sample_authorization = JObj [(''schema'', JStr AUTHORIZATION_SCHEMA), (''keyId'', JStr ''coordinator-1''),
     (''method'', JStr ''/routerrpc.Router/SendPaymentV2''), (''requestId'', JStr (''0x'' @ replicate 64 (CHR ''1''))),
     (''intentDigest'', JStr (''0x'' @ replicate 64 (CHR ''2''))), (''paymentHash'', JStr (''0x'' @ replicate 64 (CHR ''3''))),
     (''invoiceDigest'', JStr (''0x'' @ replicate 64 (CHR ''4''))), (''amountSats'', JStr ''50000''), (''capacityEpoch'', JInt 1),
     (''authorizedAt'', JInt 1040), (''expiresAt'', JInt 1055),
     (''operation'', JObj [(''feeLimitSats'', JStr ''100''), (''paymentRequest'', JStr ''lnbc1''), (''timeoutSeconds'', JInt 60)])]"

definition sample_payload :: authorization_payload where
  "sample_payload = \<lparr>ap_keyId = ''coordinator-1'', ap_method = ''/routerrpc.Router/SendPaymentV2'',
     ap_requestId = ''0x'' @ replicate 64 (CHR ''1''), ap_intentDigest = ''0x'' @ replicate 64 (CHR ''2''),
     ap_paymentHash = ''0x'' @ replicate 64 (CHR ''3''), ap_invoiceDigest = ''0x'' @ replicate 64 (CHR ''4''), ap_amountSats = 50000,
     ap_capacityEpoch = 1, ap_authorizedAt = 1040, ap_expiresAt = 1055,
     ap_operation = JObj [(''feeLimitSats'', JStr ''100''), (''paymentRequest'', JStr ''lnbc1''), (''timeoutSeconds'', JInt 60)]\<rparr>"

lemma sample_authorization_normal: "normalizeLightningAuthorizationPayload sample_authorization = Inr sample_payload"
  by code_simp

definition sample_verification :: "jsval \<Rightarrow> jsval" where
  "sample_verification envelope = JObj [(''envelope'', envelope), (''expectedKeyId'', JStr (ap_keyId sample_payload)),
     (''maxLifetimeSeconds'', JInt 30), (''now'', JInt 1050)]"

lemma sample_signs:
  "\<exists>envelope. signLightningAuthorizationEnvelope (sample_node_crypto h) sample_authorization (sample_key ''private'') = Inr envelope"
proof -
  obtain t where "canonicalize (payload_json sample_payload) = Inr t"
    using payload_text [OF normalize_ok [OF sample_authorization_normal]] by blast
  then show ?thesis
    by (simp add: signLightningAuthorizationEnvelope_def sample_key_def sample_authorization_normal canonicalize_authorization_def)
qed

lemma sample_verifies:
  "\<exists>envelope. verifyLightningAuthorizationEnvelope (sample_node_crypto []) (sample_verification envelope) (sample_key ''public'') = Inr sample_payload"
proof -
  obtain envelope where "signLightningAuthorizationEnvelope (sample_node_crypto []) sample_authorization (sample_key ''private'') = Inr envelope"
    using sample_signs by blast
  from sign_then_verify [OF this sample_key_pair sample_authorization_normal, of 1050 30] show ?thesis
    by (auto simp: sample_verification_def sample_payload_def MAX_SAFE_INTEGER_def)
qed

theorem verified_authorization_authentic_witness:
  "\<exists>t signature. canonicalize (payload_json sample_payload) = Inr t \<and> nc_verify (sample_node_crypto []) (sample_key ''public'') t signature"
proof -
  obtain envelope where "verifyLightningAuthorizationEnvelope (sample_node_crypto []) (sample_verification envelope) (sample_key ''public'')
    = Inr sample_payload" using sample_verifies by blast
  from verified_authorization_authentic [OF this] show ?thesis by blast
qed

theorem authorization_round_trip_witness:
  "\<exists>envelope. verifyLightningAuthorizationEnvelope (sample_node_crypto []) (sample_verification envelope) (sample_key ''public'') = Inr sample_payload
    \<and> (\<forall>p'. verifyLightningAuthorizationEnvelope (sample_node_crypto []) (JObj [(''envelope'', envelope),
        (''expectedKeyId'', JStr (ap_keyId sample_payload)), (''maxLifetimeSeconds'', JInt 30), (''now'', JInt 1055)]) (sample_key ''public'') \<noteq> Inr p')"
proof -
  obtain envelope where e: "signLightningAuthorizationEnvelope (sample_node_crypto []) sample_authorization (sample_key ''private'') = Inr envelope"
    using sample_signs by blast
  note round_trip = authorization_round_trip [OF e sample_key_pair sample_authorization_normal, of 30]
  show ?thesis
    by (intro exI [of _ envelope] conjI allI)
      (use round_trip [of 1050 sample_payload] round_trip [of 1055] in \<open>auto simp: sample_verification_def sample_payload_def MAX_SAFE_INTEGER_def\<close>)
qed

end
