(* ===== verification/Adapter_Response.thy ===== *)
theory Adapter_Response
  imports Lightning_Envelope
begin

text \<open>
  The signed answer of a Lightning adapter (\<^verbatim>\<open>src/lib/lightning-adapter-response.mjs\<close>): the bounded snapshot
  of a JSON body, the digest and signature of the payload, and the check the coordinator makes.
\<close>

section \<open>Snapshot of a body\<close>

text \<open>
  The counter of visited nodes is shared by the whole traversal, so it is threaded through; the depth
  belongs to each branch.  What the traversal returns is a copy of plain data.
\<close>

fun snapshotJson :: "jsval \<Rightarrow> string \<Rightarrow> nat \<Rightarrow> nat \<Rightarrow> (jsval \<times> nat) result"
  and snapshot_items :: "jsval list \<Rightarrow> string \<Rightarrow> int \<Rightarrow> nat \<Rightarrow> nat \<Rightarrow> (jsval list \<times> nat) result"
  and snapshot_fields :: "(string \<times> jsval) list \<Rightarrow> string \<Rightarrow> nat \<Rightarrow> nat \<Rightarrow> ((string \<times> jsval) list \<times> nat) result"
where
  "snapshotJson v name depth nodes =
     (let nodes = Suc nodes in
      if depth > 16 \<or> nodes > 65536 then Inl (RangeError (name @ '' is outside the bounded response policy''))
      else case v of
        JNull \<Rightarrow> Inr (v, nodes)
      | JBool b \<Rightarrow> Inr (v, nodes)
      | JStr s \<Rightarrow> if length s > 8192 then Inl (RangeError (name @ '' string is too long'')) else Inr (v, nodes)
      | JInt i \<Rightarrow> if isSafeInteger v then Inr (v, nodes) else Inl (TypeError (name @ '' number must be a safe integer''))
      | JNumX s i \<Rightarrow> Inl (TypeError (name @ '' number must be a safe integer''))
      | JUndefined \<Rightarrow> Inl (TypeError (name @ '' contains an unsupported value''))
      | JBigInt i \<Rightarrow> Inl (TypeError (name @ '' contains an unsupported value''))
      | JArr vs \<Rightarrow>
          if length vs > 4096 then Inl (TypeError (name @ '' contains an unsupported array''))
          else bindE (snapshot_items vs name 0 (Suc depth) nodes) (\<lambda>(ws, n). Inr (JArr ws, n))
      | JObj kvs \<Rightarrow>
          if length kvs > 32 then Inl (TypeError (name @ '' object fields are outside policy''))
          else bindE (snapshot_fields kvs name (Suc depth) nodes) (\<lambda>(ws, n). Inr (JObj ws, n)))"
| "snapshot_items [] name index depth nodes = Inr ([], nodes)"
| "snapshot_items (v # vs) name index depth nodes =
     bindE (snapshotJson v (name @ ''['' @ int_str index @ '']'') depth nodes) (\<lambda>(w, n).
     bindE (snapshot_items vs name (index + 1) depth n) (\<lambda>(ws, m). Inr (w # ws, m)))"
| "snapshot_fields [] name depth nodes = Inr ([], nodes)"
| "snapshot_fields ((k, v) # kvs) name depth nodes =
     (if k = [] \<or> length k > 80 then Inl (TypeError (name @ '' contains an invalid field name''))
      else bindE (snapshotJson v (name @ ''.'' @ k) depth nodes) (\<lambda>(w, n).
      bindE (snapshot_fields kvs name depth n) (\<lambda>(ws, m). Inr ((k, w) # ws, m))))"

declare snapshotJson.simps [simp del]

section \<open>Payload, digest and signature\<close>

definition LIGHTNING_ADAPTER_RESPONSE_SCHEMA :: string where
  "LIGHTNING_ADAPTER_RESPONSE_SCHEMA = ''treeswap.lightning-adapter-response.v1''"

definition response_keyId :: "jsval \<Rightarrow> string \<Rightarrow> string result" where
  "response_keyId v name = (case v of
     JStr s \<Rightarrow> if is_key_id 79 s then Inr s else Inl (TypeError (name @ '' is invalid''))
   | _ \<Rightarrow> Inl (TypeError (name @ '' is invalid'')))"

definition privateEd25519Key :: "node_crypto \<Rightarrow> node_key \<Rightarrow> node_key result" where
  "privateEd25519Key C v =
     (case if nk_class v = ''private'' then Some v else nc_createPrivateKey C v of
        None \<Rightarrow> Inl (TypeError ''Lightning adapter response private key is invalid'')
      | Some key \<Rightarrow> if nk_algorithm key \<noteq> ''ed25519''
          then Inl (TypeError ''Lightning adapter response private key must be Ed25519'') else Inr key)"

definition publicEd25519Key :: "node_crypto \<Rightarrow> node_key \<Rightarrow> node_key result" where
  "publicEd25519Key C v =
     (case if nk_class v = ''public'' then Some v else nc_createPublicKey C v of
        None \<Rightarrow> Inl (TypeError ''Lightning adapter response public key is invalid'')
      | Some key \<Rightarrow> if nk_algorithm key \<noteq> ''ed25519''
          then Inl (TypeError ''Lightning adapter response public key must be Ed25519'') else Inr key)"

record response_payload =
  rp_keyId :: string
  rp_body :: jsval

definition response_json :: "response_payload \<Rightarrow> jsval" where
  "response_json p = JObj [(''schema'', JStr LIGHTNING_ADAPTER_RESPONSE_SCHEMA), (''keyId'', JStr (rp_keyId p)), (''body'', rp_body p)]"

definition normalizePayload :: "jsval \<Rightarrow> response_payload result" where
  "normalizePayload v =
     bindE (exactDataRecord v [''body'', ''keyId'', ''schema''] ''Lightning adapter response payload'') (\<lambda>source.
     if js_get source ''schema'' \<noteq> JStr LIGHTNING_ADAPTER_RESPONSE_SCHEMA
     then Inl (TypeError ''Lightning adapter response schema is unsupported'')
     else bindE (response_keyId (js_get source ''keyId'') ''Lightning adapter response key identifier'') (\<lambda>keyId.
     bindE (snapshotJson (js_get source ''body'') ''Lightning adapter response body'' 0 0) (\<lambda>(body, n).
     Inr \<lparr>rp_keyId = keyId, rp_body = body\<rparr>)))"

text \<open>On the result of \<open>normalizePayload\<close> the module's \<^verbatim>\<open>canonicalize\<close> prints what the store's does.\<close>

definition responseDigest :: "node_crypto \<Rightarrow> jsval \<Rightarrow> string result" where
  "responseDigest C payload =
     bindE (normalizePayload payload) (\<lambda>p.
     bindE (canonicalize (response_json p)) (\<lambda>text. Inr (''0x'' @ nc_hash C text)))"

definition responseMessage :: "string \<Rightarrow> string result" where
  "responseMessage d =
     (if \<not> is_bytes32 d then Inl (TypeError ''Lightning adapter response digest is invalid'')
      else Inr (''TreeSwap Lightning adapter response v1'' @ [CHR 10] @ d @ [CHR 10]))"

text \<open>The pattern \<^verbatim>\<open>/^[A-Za-z0-9+/]+={0,2}$/\<close>, then the canonical form of 64 bytes.\<close>

definition is_base64_text :: "string \<Rightarrow> bool" where
  "is_base64_text s \<longleftrightarrow> takeWhile base64_char s \<noteq> [] \<and> dropWhile base64_char s \<in> {'''', ''='', ''==''}"

definition response_signature :: "jsval \<Rightarrow> string result" where
  "response_signature v = (case v of
     JStr s \<Rightarrow>
       if \<not> is_base64_text s then Inl (TypeError ''Lightning adapter response signature is not canonical base64'')
       else if \<not> is_base64_signature s then Inl (TypeError ''Lightning adapter response signature is invalid'')
       else Inr s
   | _ \<Rightarrow> Inl (TypeError ''Lightning adapter response signature is not canonical base64''))"

text \<open>
  The two entry points.  The keys are not plain data, so they are arguments beside the other fields of
  the input objects.
\<close>

definition signLightningAdapterResponseEnvelope :: "node_crypto \<Rightarrow> jsval \<Rightarrow> jsval \<Rightarrow> node_key \<Rightarrow> jsval result" where
  "signLightningAdapterResponseEnvelope C body keyId privateKey =
     bindE (normalizePayload (JObj [(''schema'', JStr LIGHTNING_ADAPTER_RESPONSE_SCHEMA), (''keyId'', keyId), (''body'', body)]))
       (\<lambda>payload.
     bindE (responseDigest C (response_json payload)) (\<lambda>d.
     bindE (responseMessage d) (\<lambda>message.
     bindE (privateEd25519Key C privateKey) (\<lambda>key.
     Inr (JObj [(''payload'', response_json payload), (''signature'', JStr (nc_sign C key message))])))))"

record verified_response =
  vr_body :: jsval
  vr_keyId :: string
  vr_publicKeyDigest :: string
  vr_responseDigest :: string

definition verifyLightningAdapterResponseEnvelope ::
    "node_crypto \<Rightarrow> jsval \<Rightarrow> node_key \<Rightarrow> jsval \<Rightarrow> verified_response result" where
  "verifyLightningAdapterResponseEnvelope C envelope publicKey expectedKeyId =
     bindE (exactDataRecord envelope [''payload'', ''signature''] ''Lightning adapter response envelope'') (\<lambda>source.
     bindE (normalizePayload (js_get source ''payload'')) (\<lambda>payload.
     bindE (response_keyId expectedKeyId ''expected Lightning adapter response key identifier'') (\<lambda>expected.
     if rp_keyId payload \<noteq> expected then Inl (Error ''Lightning adapter response key is not active'')
     else bindE (responseDigest C (response_json payload)) (\<lambda>d.
     bindE (publicEd25519Key C publicKey) (\<lambda>key.
     bindE (responseMessage d) (\<lambda>message.
     bindE (response_signature (js_get source ''signature'')) (\<lambda>signature.
     if \<not> nc_verify C key message signature then Inl (Error ''Lightning adapter response signature is invalid'')
     else Inr \<lparr>vr_body = rp_body payload, vr_keyId = rp_keyId payload, vr_publicKeyDigest = ''0x'' @ nc_hash C (nc_spki C key),
       vr_responseDigest = d\<rparr>)))))))"

section \<open>Facts\<close>

text \<open>A snapshot is the value itself, and a value that has one has a canonical text.\<close>

lemma snapshot_same:
  "snapshotJson v name depth nodes = Inr (w, n) \<Longrightarrow> w = v"
  "snapshot_items vs name index depth nodes = Inr (ws, n) \<Longrightarrow> ws = vs"
  "snapshot_fields kvs name depth nodes = Inr (fs, n) \<Longrightarrow> fs = kvs"
proof (induction v name depth nodes and vs name index depth nodes and kvs name depth nodes
    arbitrary: w n and ws n and fs n rule: snapshotJson_snapshot_items_snapshot_fields.induct)
  case (1 v name depth nodes)
  then show ?case
    by (simp add: snapshotJson.simps Let_def) (auto simp: bindE_eq_Inr split: if_splits jsval.splits prod.splits)
qed (auto simp: bindE_eq_Inr split: if_splits prod.splits)

lemma snapshot_text:
  "snapshotJson v name depth nodes = Inr (w, n) \<Longrightarrow> \<exists>t. canonicalize v = Inr t"
  "snapshot_items vs name index depth nodes = Inr (ws, n) \<Longrightarrow> \<forall>v\<in>set vs. \<exists>t. canonicalize v = Inr t"
  "snapshot_fields kvs name depth nodes = Inr (fs, n) \<Longrightarrow> \<forall>x\<in>set kvs. \<exists>t. canonicalize (snd x) = Inr t"
proof (induction v name depth nodes and vs name index depth nodes and kvs name depth nodes
    arbitrary: w n and ws n and fs n rule: snapshotJson_snapshot_items_snapshot_fields.induct)
  case (1 v name depth nodes)
  show ?case
  proof (cases v)
    case (JArr vs)
    with 1 have "\<forall>v\<in>set vs. \<exists>t. canonicalize v = Inr t"
      by (auto simp: snapshotJson.simps Let_def bindE_eq_Inr split: if_splits prod.splits)
    then have "\<exists>ts. mapE canonicalize vs = Inr ts" by (intro mapE_total) blast
    then show ?thesis using JArr by auto
  next
    case (JObj kvs)
    with "1.prems" obtain fs where f: "\<not> (16 < depth \<or> 65536 < Suc nodes)" "\<not> 32 < length kvs"
        "snapshot_fields kvs name (Suc depth) (Suc nodes) = Inr (fs, n)"
      by (auto simp: snapshotJson.simps Let_def bindE_eq_Inr split: if_splits prod.splits)
    have "\<forall>x\<in>set kvs. \<exists>t. canonicalize (snd x) = Inr t" by (rule "1.IH"(2) [OF refl f(1) JObj f(2,3)])
    then show ?thesis using JObj by (auto intro!: canonicalize_object simp del: canonicalize.simps)
  qed (use "1.prems" in \<open>auto simp: snapshotJson.simps Let_def split: if_splits\<close>)
qed (auto simp: bindE_eq_Inr split: if_splits prod.splits, fastforce)

lemma response_keyId_Inr [result_simps]: "response_keyId v name = Inr k \<longleftrightarrow> v = JStr k \<and> is_key_id 79 k"
  by (auto simp: response_keyId_def split: jsval.splits)

lemma response_fields: "js_get (response_json p) ''schema'' = JStr LIGHTNING_ADAPTER_RESPONSE_SCHEMA"
  "js_get (response_json p) ''keyId'' = JStr (rp_keyId p)" "js_get (response_json p) ''body'' = rp_body p"
  by (simp_all add: response_json_def)

lemma normalizePayload_Inr:
  "normalizePayload v = Inr p \<longleftrightarrow> (\<exists>kvs. v = JObj kvs \<and> sort (map fst kvs) = sort [''body'', ''keyId'', ''schema''])
     \<and> js_get v ''schema'' = JStr LIGHTNING_ADAPTER_RESPONSE_SCHEMA \<and> js_get v ''keyId'' = JStr (rp_keyId p)
     \<and> js_get v ''body'' = rp_body p \<and> is_key_id 79 (rp_keyId p)
     \<and> (\<exists>n. snapshotJson (rp_body p) ''Lightning adapter response body'' 0 0 = Inr (rp_body p, n))"
proof -
  have "normalizePayload v = Inr p \<longleftrightarrow> (\<exists>kvs. v = JObj kvs \<and> sort (map fst kvs) = sort [''body'', ''keyId'', ''schema''])
     \<and> js_get v ''schema'' = JStr LIGHTNING_ADAPTER_RESPONSE_SCHEMA \<and> js_get v ''keyId'' = JStr (rp_keyId p)
     \<and> is_key_id 79 (rp_keyId p)
     \<and> (\<exists>n. snapshotJson (js_get v ''body'') ''Lightning adapter response body'' 0 0 = Inr (rp_body p, n))"
    unfolding normalizePayload_def bindE_eq_Inr exactDataRecord_Inr
    by (cases p) (auto simp: bindE_eq_Inr response_keyId_Inr)
  also have "\<dots> \<longleftrightarrow> (\<exists>kvs. v = JObj kvs \<and> sort (map fst kvs) = sort [''body'', ''keyId'', ''schema''])
     \<and> js_get v ''schema'' = JStr LIGHTNING_ADAPTER_RESPONSE_SCHEMA \<and> js_get v ''keyId'' = JStr (rp_keyId p)
     \<and> js_get v ''body'' = rp_body p \<and> is_key_id 79 (rp_keyId p)
     \<and> (\<exists>n. snapshotJson (rp_body p) ''Lightning adapter response body'' 0 0 = Inr (rp_body p, n))"
    by (rule iffI; elim conjE exE; (frule snapshot_same(1))?; auto simp del: js_get.simps)
  finally show ?thesis .
qed

lemma normalizePayload_again: "normalizePayload v = Inr p \<Longrightarrow> normalizePayload (response_json p) = Inr p"
  unfolding normalizePayload_Inr by (auto simp: response_fields) (simp add: response_json_def)

lemma response_text: "normalizePayload v = Inr p \<Longrightarrow> \<exists>t. canonicalize (response_json p) = Inr t"
  unfolding normalizePayload_Inr response_json_def
  by (rule canonicalize_object) (auto dest: snapshot_text(1))

lemma responseDigest_eq:
  "normalizePayload v = Inr p \<Longrightarrow> responseDigest C (response_json p) = digest (nc_hash C) (response_json p)"
  by (simp add: responseDigest_def normalizePayload_again digest_def)

lemma response_signature_Inr [result_simps]:
  "response_signature v = Inr s \<longleftrightarrow> v = JStr s \<and> is_base64_text s \<and> is_base64_signature s"
  by (auto simp: response_signature_def split: jsval.splits)

text \<open>What a verified answer is, under the key and identifier the coordinator expects.\<close>

definition adapter_signed :: "node_crypto \<Rightarrow> node_key \<Rightarrow> jsval \<Rightarrow> response_payload \<Rightarrow> string \<Rightarrow> bool" where
  "adapter_signed C publicKey envelope p d \<longleftrightarrow> normalizePayload (js_get envelope ''payload'') = Inr p
     \<and> digest (nc_hash C) (response_json p) = Inr d
     \<and> (\<exists>key signature. publicEd25519Key C publicKey = Inr key \<and> js_get envelope ''signature'' = JStr signature
        \<and> nc_verify C key (''TreeSwap Lightning adapter response v1'' @ [CHR 10] @ d @ [CHR 10]) signature)"

lemma verified_response:
  assumes "verifyLightningAdapterResponseEnvelope C envelope publicKey expectedKeyId = Inr r"
  shows "adapter_signed C publicKey envelope \<lparr>rp_keyId = vr_keyId r, rp_body = vr_body r\<rparr> (vr_responseDigest r)
    \<and> expectedKeyId = JStr (vr_keyId r)"
proof -
  from assms obtain source p key message signature where v:
      "exactDataRecord envelope [''payload'', ''signature''] ''Lightning adapter response envelope'' = Inr source"
      "normalizePayload (js_get source ''payload'') = Inr p" "expectedKeyId = JStr (rp_keyId p)"
      "responseDigest C (response_json p) = Inr (vr_responseDigest r)" "publicEd25519Key C publicKey = Inr key"
      "responseMessage (vr_responseDigest r) = Inr message" "js_get source ''signature'' = JStr signature"
      "nc_verify C key message signature" "vr_body r = rp_body p" "vr_keyId r = rp_keyId p"
    unfolding verifyLightningAdapterResponseEnvelope_def
    by (auto simp: bindE_eq_Inr response_keyId_Inr response_signature_Inr simp del: js_get.simps split: if_splits)
  have get: "js_get source k = js_get envelope k" if "k \<in> {''payload'', ''signature''}" for k
    using that by (intro exactDataRecord_get [OF v(1)]) auto
  have p: "p = \<lparr>rp_keyId = vr_keyId r, rp_body = vr_body r\<rparr>" using v(9,10) by (cases p) simp
  have "message = ''TreeSwap Lightning adapter response v1'' @ [CHR 10] @ vr_responseDigest r @ [CHR 10]"
    using v(6) by (simp add: responseMessage_def split: if_splits)
  then show ?thesis
    using v get responseDigest_eq [OF v(2)] unfolding adapter_signed_def p [symmetric] by auto
qed

lemma body_in_order:
  assumes "in_order (response_json p) = in_order (response_json q)"
  shows "rp_keyId p = rp_keyId q \<and> in_order (rp_body p) = in_order (rp_body q)"
proof -
  have same: "in_order (js_get (response_json p) k) = in_order (js_get (response_json q) k)" for k
    using assms unfolding response_json_def by (intro object_same_fields) auto
  show ?thesis using same [of "''keyId''"] same [of "''body''"] unfolding response_fields by simp
qed

text \<open>
  Property C37.  A verified answer is exactly what the adapter signed.  Its body is the body of the
  envelope, unchanged; the signature verifies under the expected key over the digest of that body and key
  identifier; and an answer with another body cannot carry the same digest unless the hash collides.
\<close>

theorem verified_response_authentic:
  assumes "verifyLightningAdapterResponseEnvelope C envelope publicKey expectedKeyId = Inr r"
  shows "js_get (js_get envelope ''payload'') ''body'' = vr_body r \<and> expectedKeyId = JStr (vr_keyId r)
    \<and> (\<exists>key signature. publicEd25519Key C publicKey = Inr key \<and> js_get envelope ''signature'' = JStr signature
        \<and> nc_verify C key (''TreeSwap Lightning adapter response v1'' @ [CHR 10] @ vr_responseDigest r @ [CHR 10]) signature)
    \<and> (\<forall>q. responseDigest C (response_json q) = Inr (vr_responseDigest r) \<longrightarrow>
         in_order (rp_body q) = in_order (vr_body r)
         \<or> collision (nc_hash C) (response_json q) (response_json \<lparr>rp_keyId = vr_keyId r, rp_body = vr_body r\<rparr>))"
proof -
  let ?p = "\<lparr>rp_keyId = vr_keyId r, rp_body = vr_body r\<rparr>"
  have v: "adapter_signed C publicKey envelope ?p (vr_responseDigest r)" "expectedKeyId = JStr (vr_keyId r)"
    using verified_response [OF assms] by simp_all
  have "in_order (rp_body q) = in_order (vr_body r) \<or> collision (nc_hash C) (response_json q) (response_json ?p)"
    if q: "responseDigest C (response_json q) = Inr (vr_responseDigest r)" for q
  proof -
    from q obtain q' where q': "normalizePayload (response_json q) = Inr q'" by (auto simp: responseDigest_def bindE_eq_Inr)
    then have "q' = q" unfolding normalizePayload_Inr response_fields by (cases q, cases q') simp
    then have "digest (nc_hash C) (response_json q) = Inr (vr_responseDigest r)" using q responseDigest_eq [OF q'] by simp
    from digest_determines [OF this, of "response_json ?p"] v(1) body_in_order [of q ?p] show ?thesis
      by (auto simp: adapter_signed_def)
  qed
  then show ?thesis using v unfolding adapter_signed_def normalizePayload_Inr by auto
qed

text \<open>Signing and verifying are inverse for a key pair when the hash yields hexadecimal digests.\<close>

lemma base64_signature_text:
  assumes "is_base64_signature s"
  shows "is_base64_text s"
proof -
  have len: "length s = 88" "list_all base64_char (take 85 s)" "s ! 85 \<in> set ''AQgw''" "drop 86 s = ''==''"
    using assms by (simp_all add: is_base64_signature_def)
  have last: "base64_char (s ! 85)" using len(3) by (auto simp: base64_char_def)
  define x where "x = take 85 s @ [s ! 85]"
  have s: "s = x @ ''==''" using len(1,4) id_take_nth_drop [of 85 s] by (simp add: x_def)
  have x: "\<forall>c\<in>set x. base64_char c" "x \<noteq> []" using len(2) last by (auto simp: list_all_iff x_def)
  have "\<not> base64_char (CHR ''='')" by (simp add: base64_char_def)
  then have "takeWhile base64_char s = x" "dropWhile base64_char s = ''==''"
    using x(1) unfolding s by (simp_all add: takeWhile_append2 dropWhile_append2)
  with x(2) show ?thesis by (simp add: is_base64_text_def)
qed

lemma adapter_response_round_trip:
  assumes "signLightningAdapterResponseEnvelope C body (JStr k) privateKey = Inr envelope" and "hex_digest (nc_hash C)"
    and "privateEd25519Key C privateKey = Inr key" and "publicEd25519Key C publicKey = Inr pkey" and "key_pair C key pkey"
  shows "\<exists>r. verifyLightningAdapterResponseEnvelope C envelope publicKey (JStr k) = Inr r \<and> vr_body r = body \<and> vr_keyId r = k"
proof -
  from assms(1,3) obtain p d message where s: "normalizePayload (JObj [(''schema'', JStr LIGHTNING_ADAPTER_RESPONSE_SCHEMA),
        (''keyId'', JStr k), (''body'', body)]) = Inr p" "responseDigest C (response_json p) = Inr d" "responseMessage d = Inr message"
      "envelope = JObj [(''payload'', response_json p), (''signature'', JStr (nc_sign C key message))]"
    by (auto simp: signLightningAdapterResponseEnvelope_def bindE_eq_Inr)
  have p: "rp_keyId p = k" "rp_body p = body" "is_key_id 79 k" using s(1) unfolding normalizePayload_Inr by auto
  have sig: "is_base64_signature (nc_sign C key message)" "nc_verify C pkey message (nc_sign C key message)"
    using assms(5) by (simp_all add: key_pair_def)
  have keys: "exactDataRecord envelope [''payload'', ''signature''] name = Inr envelope" for name
    unfolding s(4) by (simp add: exactDataRecord_def)
  have "response_signature (JStr (nc_sign C key message)) = Inr (nc_sign C key message)"
    using sig(1) base64_signature_text by (simp add: response_signature_Inr)
  moreover have "response_keyId (JStr k) name = Inr k" for name using p(3) by (simp add: response_keyId_Inr)
  ultimately show ?thesis
    unfolding verifyLightningAdapterResponseEnvelope_def keys using s(2-3) assms(4) p sig(2)
    by (simp add: s(4) normalizePayload_again [OF s(1)])
qed

section \<open>A sample\<close>

text \<open>An answer signed with the sample key is accepted with its body and key identifier.\<close>

lemma sample_answer:
  assumes "snapshotJson body ''Lightning adapter response body'' 0 0 = Inr (body, n)"
  shows "\<exists>envelope r. verifyLightningAdapterResponseEnvelope (sample_node_crypto h) envelope (sample_key ''public'') (JStr ''adapter-1'')
    = Inr r \<and> vr_body r = body"
proof -
  let ?C = "sample_node_crypto h" and ?p = "\<lparr>rp_keyId = ''adapter-1'', rp_body = body\<rparr>"
  have "is_key_id 79 ''adapter-1''" by code_simp
  then have p: "normalizePayload (response_json ?p) = Inr ?p"
    using assms unfolding normalizePayload_Inr by (auto simp: response_json_def)
  from response_text [OF p] obtain t where "canonicalize (response_json ?p) = Inr t" ..
  then have d: "responseDigest ?C (response_json ?p) = Inr (''0x'' @ replicate 64 (CHR ''5''))"
    by (simp add: responseDigest_def p sample_node_crypto_def)
  have "is_bytes32 (''0x'' @ replicate 64 (CHR ''5''))" by code_simp
  then have "signLightningAdapterResponseEnvelope ?C body (JStr ''adapter-1'') (sample_key ''private'') = Inr (JObj
      [(''payload'', response_json ?p), (''signature'', JStr (nc_sign ?C (sample_key ''private'')
        (''TreeSwap Lightning adapter response v1'' @ [CHR 10] @ (''0x'' @ replicate 64 (CHR ''5'')) @ [CHR 10])))])"
    using p d by (simp add: signLightningAdapterResponseEnvelope_def privateEd25519Key_def sample_key_def responseMessage_def response_json_def)
  moreover have "privateEd25519Key ?C (sample_key ''private'') = Inr (sample_key ''private'')"
      "publicEd25519Key ?C (sample_key ''public'') = Inr (sample_key ''public'')"
    by (simp_all add: privateEd25519Key_def publicEd25519Key_def sample_key_def)
  ultimately show ?thesis using adapter_response_round_trip sample_node_hex sample_key_pair by blast
qed

theorem verified_response_authentic_witness:
  "\<exists>envelope. js_get (js_get envelope ''payload'') ''body'' = JObj [(''ok'', JBool True)]"
proof -
  have "snapshotJson (JObj [(''ok'', JBool True)]) ''Lightning adapter response body'' 0 0 = Inr (JObj [(''ok'', JBool True)], 2)"
    by (simp add: snapshotJson.simps)
  from sample_answer [OF this] obtain envelope r where "verifyLightningAdapterResponseEnvelope (sample_node_crypto []) envelope
      (sample_key ''public'') (JStr ''adapter-1'') = Inr r" "vr_body r = JObj [(''ok'', JBool True)]" by blast
  with verified_response_authentic [OF this(1)] show ?thesis by auto
qed

end
