(* ===== verification/Action_Runner.thy ===== *)
theory Action_Runner
  imports Coordinator_Machine Adapter_Response
begin

text \<open>
  The runner of Lightning actions (\<^verbatim>\<open>src/lib/coordinator-action-runner.mjs\<close>): what it commits to, how it judges
  an adapter's answer, and how dispatch, reconciliation and the lookup of a payment proof drive the store.
  Clock readings, the checks of the adapter's address, the hooks and the answer of the network are inputs.
  At every \<^verbatim>\<open>await\<close> other tasks may use the store, so each run also takes the calls they make there.
\<close>

section \<open>Plain data\<close>

definition LIGHTNING_METHODS :: "string list" where
  "LIGHTNING_METHODS = [''/invoicesrpc.Invoices/AddHoldInvoice'', ''/invoicesrpc.Invoices/SettleInvoice'',
     ''/invoicesrpc.Invoices/CancelInvoice'', ''/routerrpc.Router/SendPaymentV2'']"

definition ADAPTER_AUDIT_FIELDS :: "string list" where
  "ADAPTER_AUDIT_FIELDS = [''amountSats'', ''capacityEpoch'', ''credentialIdHash'', ''decision'', ''intentDigest'', ''invoiceDigest'',
     ''method'', ''observedAt'', ''paymentHash'', ''reasons'', ''requestId'', ''role'']"

definition PAYMENT_TRACKING_STATES :: "string list" where
  "PAYMENT_TRACKING_STATES = [''FAILED'', ''IN_FLIGHT'', ''SUCCEEDED'']"

definition INVOICE_STATES :: "string list" where
  "INVOICE_STATES = [''ACCEPTED'', ''CANCELED'', ''OPEN'', ''SETTLED'']"

definition INVOICE_HTLC_STATES :: "string list" where
  "INVOICE_HTLC_STATES = [''ACCEPTED'', ''CANCELED'', ''SETTLED'']"

definition data_array :: "jsval \<Rightarrow> string \<Rightarrow> nat \<Rightarrow> jsval list result" where
  "data_array v name maximumLength = (case v of
     JArr vs \<Rightarrow> if length vs > maximumLength then Inl (RangeError (name @ '' length is invalid or unbounded'')) else Inr vs
   | _ \<Rightarrow> Inl (TypeError (name @ '' must be a plain array'')))"

definition uint64 :: "jsval \<Rightarrow> string \<Rightarrow> int result" where
  "uint64 v name = (case v of
     JStr s \<Rightarrow>
       if \<not> is_uint s then Inl (TypeError (name @ '' must be a canonical unsigned decimal string''))
       else if length s > 20 \<or> dec_val s > UINT64_MAX then Inl (RangeError (name @ '' must fit uint64''))
       else Inr (dec_val s)
   | _ \<Rightarrow> Inl (TypeError (name @ '' must be a canonical unsigned decimal string'')))"

definition integer_upto :: "jsval \<Rightarrow> string \<Rightarrow> int \<Rightarrow> int result" where
  "integer_upto v name maximum = (case v of
     JInt i \<Rightarrow> if isSafeInteger v \<and> 0 \<le> i \<and> i \<le> maximum then Inr i
       else Inl (TypeError (name @ '' must be a non-negative safe integer at or below '' @ int_str maximum))
   | _ \<Rightarrow> Inl (TypeError (name @ '' must be a non-negative safe integer at or below '' @ int_str maximum)))"

definition bounded_text :: "jsval \<Rightarrow> nat \<Rightarrow> nat \<Rightarrow> string \<Rightarrow> string result" where
  "bounded_text v minimum maximum message = (case v of
     JStr s \<Rightarrow> if length s < minimum \<or> length s > maximum then Inl (TypeError message) else Inr s
   | _ \<Rightarrow> Inl (TypeError message))"

section \<open>The operation and its commitment\<close>

definition normalizeOperation :: "string \<Rightarrow> jsval \<Rightarrow> jsval result" where
  "normalizeOperation method operation =
     (if method \<notin> set LIGHTNING_METHODS then Inl (RangeError ''action is not a Lightning adapter method'')
      else if method = ''/invoicesrpc.Invoices/AddHoldInvoice'' then
        bindE (exactDataRecord operation [''cltvExpiry'', ''expirySeconds'', ''isPrivate'', ''memo''] ''hold-invoice operation'') (\<lambda>source.
        bindE (case js_get source ''isPrivate'' of JBool b \<Rightarrow> Inr b | _ \<Rightarrow> Inl (TypeError ''isPrivate must be a boolean'')) (\<lambda>isPrivate.
        bindE (bounded_text (js_get source ''memo'') 0 256 ''memo must be a string no longer than 256 characters'') (\<lambda>memo.
        bindE (integer_upto (js_get source ''cltvExpiry'') ''cltvExpiry'' MAX_SAFE_INTEGER) (\<lambda>cltvExpiry.
        bindE (integer_upto (js_get source ''expirySeconds'') ''expirySeconds'' MAX_SAFE_INTEGER) (\<lambda>expirySeconds.
        Inr (JObj [(''cltvExpiry'', JInt cltvExpiry), (''expirySeconds'', JInt expirySeconds), (''isPrivate'', JBool isPrivate),
          (''memo'', JStr memo)]))))))
      else if method = ''/invoicesrpc.Invoices/SettleInvoice'' then
        bindE (exactDataRecord operation [''preimage''] ''settle-invoice operation'') (\<lambda>source.
        bindE (text_bytes32 (js_get source ''preimage'') ''preimage'') (\<lambda>preimage. Inr (JObj [(''preimage'', JStr preimage)])))
      else if method = ''/invoicesrpc.Invoices/CancelInvoice'' then exactDataRecord operation [] ''cancel-invoice operation''
      else if method = ''/routerrpc.Router/SendPaymentV2'' then
        bindE (exactDataRecord operation [''feeLimitSats'', ''paymentRequest'', ''timeoutSeconds''] ''send-payment operation'') (\<lambda>source.
        bindE (bounded_text (js_get source ''paymentRequest'') 1 8192
          ''paymentRequest must be a non-empty string no longer than 8192 characters'') (\<lambda>paymentRequest.
        bindE (uint64 (js_get source ''feeLimitSats'') ''feeLimitSats'') (\<lambda>feeLimitSats.
        bindE (integer_upto (js_get source ''timeoutSeconds'') ''timeoutSeconds'' MAX_SAFE_INTEGER) (\<lambda>timeoutSeconds.
        Inr (JObj [(''feeLimitSats'', JStr (dec_str feeLimitSats)), (''paymentRequest'', JStr paymentRequest),
          (''timeoutSeconds'', JInt timeoutSeconds)])))))
      else Inl (RangeError ''action is not a Lightning adapter method''))"

definition lightningActionCommitment :: "(string \<Rightarrow> string) \<Rightarrow> action_terms \<Rightarrow> jsval \<Rightarrow> string result" where
  "lightningActionCommitment H t operation =
     bindE (normalizeOperation (at_method t) operation) (\<lambda>normalizedOperation.
     bindE (text_bytes32 (JStr (at_requestId t)) ''requestId'') (\<lambda>requestId.
     bindE (text_bytes32 (JStr (at_intentDigest t)) ''intentDigest'') (\<lambda>intentDigest.
     bindE (text_bytes32 (JStr (at_paymentHash t)) ''paymentHash'') (\<lambda>paymentHash.
     bindE (text_bytes32 (JStr (at_invoiceDigest t)) ''invoiceDigest'') (\<lambda>invoiceDigest.
     bindE (uint64 (JStr (dec_str (at_amountSats t))) ''amountSats'') (\<lambda>amountSats.
     bindE (integer_upto (JInt (at_capacityEpoch t)) ''capacityEpoch'' MAX_SAFE_INTEGER) (\<lambda>capacityEpoch.
     digest H (JObj [(''method'', JStr (at_method t)), (''requestId'', JStr requestId), (''intentDigest'', JStr intentDigest),
       (''paymentHash'', JStr paymentHash), (''invoiceDigest'', JStr invoiceDigest), (''amountSats'', JStr (dec_str amountSats)),
       (''capacityEpoch'', JInt capacityEpoch), (''operation'', normalizedOperation)]))))))))"

section \<open>Judging an answer\<close>

definition preimageHash :: "node_crypto \<Rightarrow> string \<Rightarrow> string" where
  "preimageHash C preimage = ''0x'' @ nc_hashBytes C (drop 2 preimage)"

definition starts_with :: "string \<Rightarrow> string \<Rightarrow> bool" where
  "starts_with p s \<longleftrightarrow> take (length p) s = p"

definition adapterRole :: "string \<Rightarrow> string result" where
  "adapterRole method =
     (if starts_with ''/invoicesrpc.Invoices/'' method then Inr ''invoice''
      else if starts_with ''/routerrpc.Router/'' method then Inr ''payer''
      else Inl (RangeError ''adapter response method has no role''))"

text \<open>The window of an authorization, and the key its answer must be signed with.\<close>

record answer_authorization =
  aa_requestId :: string
  aa_authorizedAt :: int
  aa_expiresAt :: int
  aa_publicKey :: node_key
  aa_keyId :: jsval

definition audit_json :: "action_terms \<Rightarrow> string \<Rightarrow> string \<Rightarrow> int \<Rightarrow> string \<Rightarrow> string \<Rightarrow> jsval" where
  "audit_json t method requestId observedAt role credentialIdHash =
     JObj [(''observedAt'', JInt observedAt), (''decision'', JStr ''allowed''), (''role'', JStr role),
       (''credentialIdHash'', JStr credentialIdHash), (''requestId'', JStr requestId), (''method'', JStr method),
       (''intentDigest'', JStr (at_intentDigest t)), (''paymentHash'', JStr (at_paymentHash t)),
       (''invoiceDigest'', JStr (at_invoiceDigest t)), (''amountSats'', JStr (dec_str (at_amountSats t))),
       (''capacityEpoch'', JInt (at_capacityEpoch t))]"

definition validateAdapterAudit ::
    "action_terms \<Rightarrow> string \<Rightarrow> string \<Rightarrow> int \<Rightarrow> int \<Rightarrow> jsval \<Rightarrow> jsval result" where
  "validateAdapterAudit t method requestId authorizedAt expiresAt rawAudit =
     bindE (exactDataRecord rawAudit ADAPTER_AUDIT_FIELDS ''adapter authorization audit'') (\<lambda>audit.
     bindE (data_array (js_get audit ''reasons'') ''adapter authorization reasons'' 32) (\<lambda>reasons.
     if js_get audit ''decision'' \<noteq> JStr ''allowed'' \<or> reasons \<noteq> []
     then Inl (Error ''adapter audit did not prove an allowed authorization'')
     else bindE (adapterRole method) (\<lambda>role.
     if js_get audit ''role'' \<noteq> JStr role \<or> js_get audit ''method'' \<noteq> JStr method
     then Inl (Error ''adapter audit role or method changed'')
     else bindE (text_bytes32 (js_get audit ''credentialIdHash'') ''adapter credentialIdHash'') (\<lambda>credentialIdHash.
     if credentialIdHash = zero_bytes32 then Inl (TypeError ''adapter credentialIdHash must be nonzero'')
     else bindE (text_bytes32 (js_get audit ''requestId'') ''adapter audit requestId'') (\<lambda>auditRequestId.
     if auditRequestId \<noteq> requestId then Inl (Error ''adapter audit request identifier changed'')
     else bindE (text_bytes32 (js_get audit ''intentDigest'') ''adapter audit intentDigest'') (\<lambda>intentDigest.
     if intentDigest \<noteq> at_intentDigest t then Inl (Error ''adapter audit action binding changed'')
     else bindE (text_bytes32 (js_get audit ''paymentHash'') ''adapter audit paymentHash'') (\<lambda>paymentHash.
     if paymentHash \<noteq> at_paymentHash t then Inl (Error ''adapter audit action binding changed'')
     else bindE (text_bytes32 (js_get audit ''invoiceDigest'') ''adapter audit invoiceDigest'') (\<lambda>invoiceDigest.
     if invoiceDigest \<noteq> at_invoiceDigest t then Inl (Error ''adapter audit action binding changed'')
     else bindE (uint64 (js_get audit ''amountSats'') ''adapter audit amountSats'') (\<lambda>amountSats.
     if amountSats \<noteq> at_amountSats t then Inl (Error ''adapter audit amount or capacity epoch changed'')
     else bindE (integer_upto (js_get audit ''capacityEpoch'') ''adapter audit capacityEpoch'' MAX_SAFE_INTEGER) (\<lambda>capacityEpoch.
     if capacityEpoch \<noteq> at_capacityEpoch t then Inl (Error ''adapter audit amount or capacity epoch changed'')
     else bindE (integer_upto (js_get audit ''observedAt'') ''adapter audit observedAt'' MAX_SAFE_INTEGER) (\<lambda>observedAt.
     if observedAt < authorizedAt \<or> observedAt \<ge> expiresAt
     then Inl (Error ''adapter audit was outside the signed authorization window'')
     else Inr (audit_json t method requestId observedAt role credentialIdHash))))))))))))"

definition authenticateAdapterResponse ::
    "node_crypto \<Rightarrow> jsval \<Rightarrow> node_key \<Rightarrow> jsval \<Rightarrow> (jsval \<times> jsval) result" where
  "authenticateAdapterResponse C envelope responsePublicKey responseKeyId =
     bindE (verifyLightningAdapterResponseEnvelope C envelope responsePublicKey responseKeyId) (\<lambda>verified.
     Inr (vr_body verified, JObj [(''keyId'', JStr (vr_keyId verified)),
       (''publicKeyDigest'', JStr (vr_publicKeyDigest verified)), (''responseDigest'', JStr (vr_responseDigest verified))]))"

record adapter_error =
  ae_ambiguous :: bool
  ae_authorizationDigest :: string
  ae_errorCode :: string
  ae_requestId :: string
  ae_authentication :: jsval

definition adapter_error_fields :: "adapter_error \<Rightarrow> (string \<times> jsval) list" where
  "adapter_error_fields e = [(''error'', JObj [(''ambiguous'', JBool (ae_ambiguous e)),
       (''authorizationDigest'', JStr (ae_authorizationDigest e)), (''errorCode'', JStr (ae_errorCode e)),
       (''requestId'', JStr (ae_requestId e))]), (''responseAuthentication'', ae_authentication e)]"

definition validateAdapterError ::
    "node_crypto \<Rightarrow> jsval \<Rightarrow> string \<Rightarrow> string \<Rightarrow> node_key \<Rightarrow> jsval \<Rightarrow> adapter_error result" where
  "validateAdapterError C envelope authorizationDigest requestId responsePublicKey responseKeyId =
     bindE (authenticateAdapterResponse C envelope responsePublicKey responseKeyId) (\<lambda>(body, authentication).
     bindE (exactDataRecord body [''ambiguous'', ''authorizationDigest'', ''error'', ''errorCode'', ''requestId'']
       ''adapter error response'') (\<lambda>e.
     bindE (case js_get e ''ambiguous'' of JBool b \<Rightarrow> Inr b | _ \<Rightarrow> Inl (TypeError ''adapter error ambiguity is invalid'')) (\<lambda>ambiguous.
     bindE (case js_get e ''errorCode'' of
         JStr c \<Rightarrow> if c \<noteq> ''NOT_FOUND'' \<and> c \<noteq> ''REJECTED'' then Inl (TypeError ''adapter error code is invalid'') else Inr c
       | _ \<Rightarrow> Inl (TypeError ''adapter error code is invalid'')) (\<lambda>errorCode.
     bindE (bounded_text (js_get e ''error'') 1 240 ''adapter error message is invalid'') (\<lambda>message.
     bindE (text_bytes32 (js_get e ''requestId'') ''adapter error requestId'') (\<lambda>errorRequestId.
     if errorRequestId \<noteq> requestId then Inl (Error ''adapter error request does not match'')
     else bindE (text_bytes32 (js_get e ''authorizationDigest'') ''adapter error authorizationDigest'') (\<lambda>errorDigest.
     if errorDigest \<noteq> authorizationDigest then Inl (Error ''adapter error authorization does not match'')
     else Inr \<lparr>ae_ambiguous = ambiguous, ae_authorizationDigest = errorDigest, ae_errorCode = errorCode,
       ae_requestId = errorRequestId, ae_authentication = authentication\<rparr>)))))))"

text \<open>The validated evidence: the result, the bound audit and the authentication, which is what is hashed.\<close>

definition evidence :: "string \<Rightarrow> jsval \<Rightarrow> jsval \<Rightarrow> jsval \<Rightarrow> jsval" where
  "evidence field result auditBinding authentication =
     JObj [(field, result), (''auditBinding'', auditBinding), (''responseAuthentication'', authentication)]"

definition validate_result :: "node_crypto \<Rightarrow> action_terms \<Rightarrow> jsval \<Rightarrow> jsval \<Rightarrow> jsval result" where
  "validate_result C t operation result =
     (if at_method t = ''/invoicesrpc.Invoices/AddHoldInvoice'' then
        bindE (exactDataRecord result [''addIndex'', ''invoiceDigest'', ''paymentRequest''] ''hold-invoice result'') (\<lambda>normalized.
        bindE (bounded_text (js_get normalized ''paymentRequest'') 1 8192 ''adapter returned an invalid payment request'') (\<lambda>paymentRequest.
        if js_get normalized ''invoiceDigest'' \<noteq> JStr (invoiceDigest (nc_hash C) paymentRequest)
        then Inl (Error ''adapter returned an invalid invoice digest'')
        else bindE (uint64 (js_get normalized ''addIndex'') ''addIndex'') (\<lambda>_.
        bindE (text_bytes32 (js_get normalized ''invoiceDigest'') ''created invoice digest'') (\<lambda>_. Inr normalized))))
      else if at_method t = ''/invoicesrpc.Invoices/SettleInvoice'' then
        bindE (exactDataRecord result [''state''] ''settle-invoice result'') (\<lambda>normalized.
        if js_get normalized ''state'' \<noteq> JStr ''SETTLED'' then Inl (Error ''adapter did not confirm invoice settlement'')
        else Inr (JObj [(''state'', JStr ''SETTLED'')]))
      else if at_method t = ''/invoicesrpc.Invoices/CancelInvoice'' then
        bindE (exactDataRecord result [''state''] ''cancel-invoice result'') (\<lambda>normalized.
        if js_get normalized ''state'' \<noteq> JStr ''CANCELED'' then Inl (Error ''adapter did not confirm invoice cancellation'')
        else Inr (JObj [(''state'', JStr ''CANCELED'')]))
      else if at_method t = ''/routerrpc.Router/SendPaymentV2'' then
        bindE (exactDataRecord result [''amountSats'', ''feeSats'', ''paymentHash'', ''preimage'', ''status''] ''send-payment result'') (\<lambda>normalized.
        if js_get normalized ''status'' \<noteq> JStr ''SUCCEEDED'' then Inl (Error ''adapter did not confirm Lightning payment success'')
        else bindE (text_bytes32 (js_get normalized ''paymentHash'') ''result paymentHash'') (\<lambda>paymentHash.
        bindE (text_bytes32 (js_get normalized ''preimage'') ''result preimage'') (\<lambda>preimage.
        if paymentHash \<noteq> at_paymentHash t \<or> preimageHash C preimage \<noteq> at_paymentHash t
        then Inl (Error ''adapter payment proof does not match the action hash'')
        else bindE (uint64 (js_get normalized ''amountSats'') ''result amountSats'') (\<lambda>amountSats.
        if amountSats \<noteq> at_amountSats t then Inl (Error ''adapter payment amount changed'')
        else bindE (uint64 (js_get normalized ''feeSats'') ''result feeSats'') (\<lambda>feeSats.
        case js_BigInt (js_get operation ''feeLimitSats'') of
          None \<Rightarrow> Inl (TypeError ''Cannot convert the fee limit to a BigInt'')
        | Some limit \<Rightarrow>
            if feeSats > limit then Inl (Error ''adapter payment fee exceeded the signed limit'')
            else Inr (JObj [(''status'', JStr ''SUCCEEDED''), (''paymentHash'', JStr paymentHash),
              (''amountSats'', JStr (dec_str (at_amountSats t))), (''feeSats'', JStr (dec_str feeSats)), (''preimage'', JStr preimage)]))))))
      else Inl (RangeError ''action is not a Lightning adapter method''))"

definition validateAdapterResult ::
    "node_crypto \<Rightarrow> action_terms \<Rightarrow> jsval \<Rightarrow> jsval \<Rightarrow> answer_authorization \<Rightarrow> (jsval \<times> jsval) result" where
  "validateAdapterResult C t operation envelope auth =
     bindE (authenticateAdapterResponse C envelope (aa_publicKey auth) (aa_keyId auth)) (\<lambda>(body, authentication).
     bindE (exactDataRecord body [''audit'', ''result''] ''adapter success response'') (\<lambda>response.
     bindE (validateAdapterAudit t (at_method t) (at_requestId t) (aa_authorizedAt auth) (aa_expiresAt auth) (js_get response ''audit''))
       (\<lambda>auditBinding.
     bindE (validate_result C t operation (js_get response ''result'')) (\<lambda>result.
     Inr (result, evidence ''result'' result auditBinding authentication)))))"


text \<open>The observed state of a payment or invoice, for reconciliation.\<close>

definition track_payment :: "node_crypto \<Rightarrow> action_terms \<Rightarrow> jsval \<Rightarrow> jsval result" where
  "track_payment C t result = (case result of
     JObj kvs \<Rightarrow>
       bindE (case map_of kvs ''status'' of
           Some (JStr s) \<Rightarrow> if s \<in> set PAYMENT_TRACKING_STATES then Inr s else Inl (TypeError ''payment tracking state is unsupported'')
         | _ \<Rightarrow> Inl (TypeError ''payment tracking state is unsupported'')) (\<lambda>status.
       bindE (exactDataRecord result (if status = ''SUCCEEDED''
           then [''amountSats'', ''feeSats'', ''paymentHash'', ''preimage'', ''status'']
           else [''amountSats'', ''feeSats'', ''paymentHash'', ''status'']) ''payment tracking result'') (\<lambda>normalized.
       bindE (text_bytes32 (js_get normalized ''paymentHash'') ''tracked paymentHash'') (\<lambda>paymentHash.
       if paymentHash \<noteq> at_paymentHash t then Inl (Error ''tracked payment hash changed'')
       else bindE (uint64 (js_get normalized ''amountSats'') ''tracked amountSats'') (\<lambda>amountSats.
       if amountSats \<noteq> at_amountSats t then Inl (Error ''tracked payment amount changed'')
       else bindE (uint64 (js_get normalized ''feeSats'') ''tracked feeSats'') (\<lambda>feeSats.
       let observation = [(''status'', JStr status), (''paymentHash'', JStr (at_paymentHash t)),
         (''amountSats'', JStr (dec_str (at_amountSats t))), (''feeSats'', JStr (dec_str feeSats))] in
       if status = ''SUCCEEDED'' then
         bindE (text_bytes32 (js_get normalized ''preimage'') ''tracked preimage'') (\<lambda>preimage.
         if preimageHash C preimage \<noteq> at_paymentHash t then Inl (Error ''tracked preimage does not match the payment hash'')
         else Inr (JObj (observation @ [(''preimage'', JStr preimage)])))
       else Inr (JObj observation))))))
   | _ \<Rightarrow> Inl (TypeError ''payment tracking result must be an object''))"

record htlc_summary =
  hs_state :: string
  hs_amountMsat :: int
  hs_acceptHeight :: int
  hs_expiryHeight :: int

definition htlc_summary_of :: "int \<Rightarrow> jsval \<Rightarrow> htlc_summary result" where
  "htlc_summary_of index raw =
     bindE (exactDataRecord raw [''acceptHeight'', ''amountMsat'', ''expiryHeight'', ''state'']
       (''invoice HTLC summary '' @ int_str index)) (\<lambda>htlc.
     bindE (case js_get htlc ''state'' of
         JStr s \<Rightarrow> if s \<in> set INVOICE_HTLC_STATES then Inr s else Inl (TypeError ''invoice HTLC state is unsupported'')
       | _ \<Rightarrow> Inl (TypeError ''invoice HTLC state is unsupported'')) (\<lambda>state.
     bindE (integer_upto (js_get htlc ''acceptHeight'') ''invoice HTLC acceptHeight'' MAX_SAFE_INTEGER) (\<lambda>acceptHeight.
     bindE (integer_upto (js_get htlc ''expiryHeight'') ''invoice HTLC expiryHeight'' MAX_SAFE_INTEGER) (\<lambda>expiryHeight.
     if expiryHeight < acceptHeight then Inl (Error ''invoice HTLC height order is invalid'')
     else bindE (uint64 (js_get htlc ''amountMsat'') ''invoice HTLC amountMsat'') (\<lambda>amountMsat.
     Inr \<lparr>hs_state = state, hs_amountMsat = amountMsat, hs_acceptHeight = acceptHeight, hs_expiryHeight = expiryHeight\<rparr>)))))"

fun htlc_summaries :: "int \<Rightarrow> jsval list \<Rightarrow> htlc_summary list result" where
  "htlc_summaries index [] = Inr []"
| "htlc_summaries index (raw # rest) =
     bindE (htlc_summary_of index raw) (\<lambda>h. bindE (htlc_summaries (index + 1) rest) (\<lambda>hs. Inr (h # hs)))"

definition lookup_invoice :: "action_terms \<Rightarrow> jsval \<Rightarrow> jsval result" where
  "lookup_invoice t result =
     bindE (exactDataRecord result [''amountPaidSats'', ''htlcs'', ''paymentHash'', ''state'', ''valueSats''] ''invoice lookup result'') (\<lambda>normalized.
     bindE (case js_get normalized ''state'' of
         JStr s \<Rightarrow> if s \<in> set INVOICE_STATES then Inr s else Inl (TypeError ''invoice lookup state is unsupported'')
       | _ \<Rightarrow> Inl (TypeError ''invoice lookup state is unsupported'')) (\<lambda>state.
     bindE (text_bytes32 (js_get normalized ''paymentHash'') ''looked-up paymentHash'') (\<lambda>paymentHash.
     if paymentHash \<noteq> at_paymentHash t then Inl (Error ''looked-up payment hash changed'')
     else bindE (uint64 (js_get normalized ''valueSats'') ''invoice valueSats'') (\<lambda>valueSats.
     if valueSats \<noteq> at_amountSats t then Inl (Error ''looked-up invoice amount changed'')
     else bindE (uint64 (js_get normalized ''amountPaidSats'') ''invoice amountPaidSats'') (\<lambda>amountPaidSats.
     bindE (data_array (js_get normalized ''htlcs'') ''invoice HTLC summary'' 4096) (\<lambda>raw.
     bindE (htlc_summaries 0 raw) (\<lambda>htlcs.
     if state = ''SETTLED'' \<and> amountPaidSats < at_amountSats t then Inl (Error ''settled invoice paid amount is insufficient'')
     else if state = ''ACCEPTED''
         \<and> sum_list (map hs_amountMsat (filter (\<lambda>h. hs_state h = ''ACCEPTED'') htlcs)) < at_amountSats t * 1000
     then Inl (Error ''accepted invoice HTLC amount is insufficient'')
     else Inr (JObj [(''status'', JStr state), (''paymentHash'', JStr (at_paymentHash t)),
       (''valueSats'', JStr (dec_str (at_amountSats t))), (''amountPaidSats'', JStr (dec_str amountPaidSats)),
       (''htlcCount'', JInt (int (length htlcs)))]))))))))"

definition validateReconciliationResult ::
    "node_crypto \<Rightarrow> action_terms \<Rightarrow> string \<Rightarrow> jsval \<Rightarrow> answer_authorization \<Rightarrow> (jsval \<times> jsval) result" where
  "validateReconciliationResult C t method envelope auth =
     bindE (authenticateAdapterResponse C envelope (aa_publicKey auth) (aa_keyId auth)) (\<lambda>(body, authentication).
     bindE (exactDataRecord body [''audit'', ''result''] ''adapter reconciliation response'') (\<lambda>response.
     bindE (validateAdapterAudit t method (aa_requestId auth) (aa_authorizedAt auth) (aa_expiresAt auth) (js_get response ''audit''))
       (\<lambda>auditBinding.
     bindE (if method = ''/routerrpc.Router/TrackPaymentV2'' then track_payment C t (js_get response ''result'')
            else lookup_invoice t (js_get response ''result'')) (\<lambda>observation.
     Inr (observation, evidence ''observation'' observation auditBinding authentication)))))"

text \<open>The answer of the network: none that can be read, or a status, whether it is a success, and a body.\<close>

datatype transport = NoResponse | Response int bool jsval

definition validateNotFoundResponse ::
    "node_crypto \<Rightarrow> int \<Rightarrow> jsval \<Rightarrow> string \<Rightarrow> string \<Rightarrow> node_key \<Rightarrow> jsval \<Rightarrow> adapter_error result" where
  "validateNotFoundResponse C status envelope authorizationDigest requestId responsePublicKey responseKeyId =
     (if status \<noteq> 502 then Inl (Error ''adapter NOT_FOUND status is invalid'')
      else bindE (validateAdapterError C envelope authorizationDigest requestId responsePublicKey responseKeyId) (\<lambda>validated.
      if ae_ambiguous validated \<or> ae_errorCode validated \<noteq> ''NOT_FOUND''
      then Inl (Error ''adapter NOT_FOUND response is invalid'') else Inr validated))"

section \<open>Authorizing a request\<close>

text \<open>
  The arguments a caller fixes.  \<open>rc_addressCheck\<close> is the outcome of the checks of the adapter's address and
  of the TLS setting of the process.
\<close>

record runner_config =
  rc_privateKey :: node_key
  rc_keyId :: jsval
  rc_addressCheck :: "unit result"
  rc_responsePublicKey :: node_key
  rc_responseKeyId :: jsval
  rc_lifetimeSeconds :: jsval
  rc_timeoutMs :: jsval

definition authorization_json :: "action_terms \<Rightarrow> jsval \<Rightarrow> string \<Rightarrow> string \<Rightarrow> int \<Rightarrow> int \<Rightarrow> jsval \<Rightarrow> jsval" where
  "authorization_json t keyId method requestId authorizedAt expiresAt operation =
     JObj [(''schema'', JStr AUTHORIZATION_SCHEMA), (''keyId'', keyId), (''method'', JStr method), (''requestId'', JStr requestId),
       (''intentDigest'', JStr (at_intentDigest t)), (''paymentHash'', JStr (at_paymentHash t)),
       (''invoiceDigest'', JStr (at_invoiceDigest t)), (''amountSats'', JStr (dec_str (at_amountSats t))),
       (''capacityEpoch'', JInt (at_capacityEpoch t)), (''authorizedAt'', JInt authorizedAt), (''expiresAt'', JInt expiresAt),
       (''operation'', operation)]"

record signed_request =
  sq_terms :: action_terms
  sq_operation :: jsval
  sq_envelope :: jsval
  sq_digest :: string
  sq_auth :: answer_authorization

definition authorize ::
    "node_crypto \<Rightarrow> runner_config \<Rightarrow> action_terms \<Rightarrow> string \<Rightarrow> string result \<Rightarrow> jsval \<Rightarrow> jsval \<Rightarrow> signed_request result" where
  "authorize C cfg t method requestId operation now =
     bindE (rc_addressCheck cfg) (\<lambda>_.
     bindE (integer_upto now ''authorizedAt'' MAX_SAFE_INTEGER) (\<lambda>authorizedAt.
     bindE (integer_upto (rc_lifetimeSeconds cfg) ''authorizationLifetimeSeconds'' 30) (\<lambda>lifetime.
     if lifetime = 0 then Inl (RangeError ''authorization lifetime must be non-zero'')
     else let expiresAt = authorizedAt + lifetime in
     bindE requestId (\<lambda>request.
     bindE (signLightningAuthorizationEnvelope C
       (authorization_json t (rc_keyId cfg) method request authorizedAt expiresAt operation) (rc_privateKey cfg)) (\<lambda>envelope.
     bindE (lightningAuthorizationEnvelopeDigest C envelope) (\<lambda>d.
     Inr \<lparr>sq_terms = t, sq_operation = operation, sq_envelope = envelope, sq_digest = d,
       sq_auth = \<lparr>aa_requestId = request, aa_authorizedAt = authorizedAt, aa_expiresAt = expiresAt,
         aa_publicKey = rc_responsePublicKey cfg, aa_keyId = rc_responseKeyId cfg\<rparr>\<rparr>))))))"

section \<open>Dispatch\<close>

text \<open>
  One run: the three clock readings, the hook before each side effect where there is one, the calls other
  tasks make at the awaits, and the answer.
\<close>

record dispatch_run =
  dr_authorizedAt :: jsval
  dr_sendAt :: jsval
  dr_observedAt :: jsval
  dr_hooks :: "(unit result \<times> unit result) option"
  dr_beforeClaim :: "store_call list"
  dr_beforeSend :: "store_call list"
  dr_duringRequest :: "store_call list"
  dr_answer :: transport

definition others :: "(string \<Rightarrow> string) \<Rightarrow> ethers \<Rightarrow> store_call list \<Rightarrow> store \<Rightarrow> store" where
  "others H E calls s = fold (perform H E) calls s"

definition dispatch_prepare ::
    "node_crypto \<Rightarrow> runner_config \<Rightarrow> jsval \<Rightarrow> jsval \<Rightarrow> jsval \<Rightarrow> store \<Rightarrow> signed_request result" where
  "dispatch_prepare C cfg actionId operation now s =
     bindE (text_bytes32 actionId ''actionId'') (\<lambda>k.
     bindE (getAction s k) (\<lambda>found.
     case found of
       None \<Rightarrow> Inl (Error ''action does not exist'')
     | Some a \<Rightarrow>
         if ac_state a \<noteq> PENDING then Inl (Error ''action is not pending'')
         else bindE (normalizeOperation (ac_method a) operation) (\<lambda>normalizedOperation.
         bindE (lightningActionCommitment (nc_hash C) (ac_terms a) normalizedOperation) (\<lambda>commitment.
         if commitment \<noteq> at_payloadDigest (ac_terms a)
         then Inl (Error ''transient Lightning operation does not match the durable commitment'')
         else authorize C cfg (ac_terms a) (ac_method a) (Inr (at_requestId (ac_terms a))) normalizedOperation now))))"

definition dispatch_send :: "runner_config \<Rightarrow> signed_request \<Rightarrow> jsval \<Rightarrow> unit result" where
  "dispatch_send cfg q now =
     bindE (integer_upto now ''dispatch send time'' MAX_SAFE_INTEGER) (\<lambda>sendAt.
     if sendAt < aa_authorizedAt (sq_auth q) then Inl (Error ''Lightning dispatch clock moved backwards before send'')
     else if sendAt \<ge> aa_expiresAt (sq_auth q) then Inl (Error ''Lightning authorization envelope expired before send'')
     else bindE (integer_upto (rc_timeoutMs cfg) ''dispatchTimeoutMs'' 300000) (\<lambda>_. Inr ()))"

definition result_json :: "string \<Rightarrow> string \<Rightarrow> string \<Rightarrow> jsval \<Rightarrow> int \<Rightarrow> jsval" where
  "result_json actionId outcome resultDigest resultCode recordedAt =
     JObj [(''actionId'', JStr actionId), (''outcome'', JStr outcome), (''resultDigest'', JStr resultDigest),
       (''resultCode'', resultCode), (''recordedAt'', JInt recordedAt)]"

definition record_ambiguous ::
    "node_crypto \<Rightarrow> string \<Rightarrow> string \<Rightarrow> jsval \<Rightarrow> int \<Rightarrow> string \<Rightarrow> store \<Rightarrow> store \<times> 'a result" where
  "record_ambiguous C actionId code proof observedAt message s =
     (case digest (nc_hash C) proof of
        Inl e \<Rightarrow> (s, Inl e)
      | Inr d \<Rightarrow>
          (case recordActionResult (result_json actionId ''ambiguous'' d (JStr code) observedAt) s of
             (s', Inl e) \<Rightarrow> (s', Inl e)
           | (s', Inr _) \<Rightarrow> (s', Inl (CoordinatorDispatchError message True ''UNKNOWN''))))"

text \<open>\<^verbatim>\<open>result.status ?? result.state ?? "SUCCEEDED"\<close>.\<close>

definition result_code :: "jsval \<Rightarrow> jsval" where
  "result_code result = (if js_get result ''status'' \<notin> {JUndefined, JNull} then js_get result ''status''
     else if js_get result ''state'' \<notin> {JUndefined, JNull} then js_get result ''state'' else JStr ''SUCCEEDED'')"

definition error_code :: "int \<Rightarrow> adapter_error option \<Rightarrow> string" where
  "error_code status validated = (case validated of
     None \<Rightarrow> ''UNAUTHENTICATED_ADAPTER_ERROR''
   | Some e \<Rightarrow> if ae_ambiguous e \<or> status = 409 \<or> status \<ge> 500 then ''ADAPTER_AMBIGUOUS'' else ''ADAPTER_REJECTED_UNPROVEN'')"

definition dispatch_finish ::
    "node_crypto \<Rightarrow> signed_request \<Rightarrow> transport \<Rightarrow> jsval \<Rightarrow> store \<Rightarrow> store \<times> (action option \<times> jsval) result" where
  "dispatch_finish C q answer now s =
     (let t = sq_terms q; k = at_actionId t; auth = sq_auth q in
      case integer_upto now ''recordedAt'' MAX_SAFE_INTEGER of
        Inl e \<Rightarrow> (s, Inl e)
      | Inr observedAt \<Rightarrow>
          (case answer of
             NoResponse \<Rightarrow> record_ambiguous C k ''TRANSPORT_AMBIGUOUS''
               (JObj [(''actionId'', JStr k), (''code'', JStr ''TRANSPORT_AMBIGUOUS''), (''observedAt'', JInt observedAt)]) observedAt
               ''Lightning adapter response is ambiguous; reconcile before retry'' s
           | Response status ok body \<Rightarrow>
               if \<not> ok then
                 let validated = (case validateAdapterError C body (sq_digest q) (at_requestId t) (aa_publicKey auth) (aa_keyId auth) of
                       Inl _ \<Rightarrow> None | Inr e \<Rightarrow> Some e);
                     code = error_code status validated in
                 record_ambiguous C k code
                   (JObj ([(''actionId'', JStr k), (''httpStatus'', JInt status), (''resultCode'', JStr code), (''observedAt'', JInt observedAt)]
                     @ (case validated of None \<Rightarrow> [] | Some e \<Rightarrow> adapter_error_fields e))) observedAt
                   ''Lightning adapter did not return a success proof; reconcile before retry'' s
               else (case validateAdapterResult C t (sq_operation q) body auth of
                   Inl _ \<Rightarrow> record_ambiguous C k ''INVALID_SUCCESS_RESPONSE''
                     (JObj [(''actionId'', JStr k), (''code'', JStr ''INVALID_SUCCESS_RESPONSE''), (''observedAt'', JInt observedAt)]) observedAt
                     ''Lightning adapter returned an invalid success proof; reconcile before retry'' s
                 | Inr (result, validated) \<Rightarrow>
                     (case digest (nc_hash C) validated of
                        Inl e \<Rightarrow> (s, Inl e)
                      | Inr resultDigest \<Rightarrow>
                          (case recordActionResult (result_json k ''confirmed'' resultDigest (result_code result) observedAt) s of
                             (s', Inl e) \<Rightarrow> (s', Inl e)
                           | (s', Inr _) \<Rightarrow> (s', bindE (getAction s' k) (\<lambda>row. Inr (row, result))))))))"

text \<open>The whole dispatch: the store it leaves, whether the request was sent, and what it returns or throws.\<close>

definition dispatchLightningAction ::
    "node_crypto \<Rightarrow> ethers \<Rightarrow> runner_config \<Rightarrow> jsval \<Rightarrow> jsval \<Rightarrow> dispatch_run \<Rightarrow> store
       \<Rightarrow> store \<times> bool \<times> (action option \<times> jsval) result" where
  "dispatchLightningAction C E cfg actionId operation run s =
     (let awaits = (\<lambda>calls s. if dr_hooks run = None then s else others (nc_hash C) E calls s);
          hook = (\<lambda>sel. case dr_hooks run of None \<Rightarrow> Inr () | Some hs \<Rightarrow> sel hs) in
      case dispatch_prepare C cfg actionId operation (dr_authorizedAt run) s of
        Inl e \<Rightarrow> (s, False, Inl e)
      | Inr q \<Rightarrow>
          let s1 = awaits (dr_beforeClaim run) s in
          (case hook fst of
             Inl e \<Rightarrow> (s1, False, Inl e)
           | Inr _ \<Rightarrow>
               (case claimAction (JStr (at_actionId (sq_terms q))) (JInt (aa_authorizedAt (sq_auth q))) s1 of
                  (s2, Inl e) \<Rightarrow> (s2, False, Inl e)
                | (s2, Inr _) \<Rightarrow>
                    let s3 = awaits (dr_beforeSend run) s2 in
                    (case bindE (hook snd) (\<lambda>_. dispatch_send cfg q (dr_sendAt run)) of
                       Inl e \<Rightarrow> (s3, False, Inl e)
                     | Inr _ \<Rightarrow>
                         (case dispatch_finish C q (dr_answer run) (dr_observedAt run)
                             (others (nc_hash C) E (dr_duringRequest run) s3) of
                            (s5, r) \<Rightarrow> (s5, True, r))))))"

section \<open>Reconciliation\<close>

record reconcile_run =
  rr_authorizedAt :: jsval
  rr_observedAt :: jsval
  rr_hook :: "unit result option"
  rr_duringRequest :: "store_call list"
  rr_beforeWrite :: "store_call list"
  rr_answer :: transport

definition reconcile_method :: "string \<Rightarrow> string option" where
  "reconcile_method method =
     (if method = ''/routerrpc.Router/SendPaymentV2'' then Some ''/routerrpc.Router/TrackPaymentV2''
      else if starts_with ''/invoicesrpc.Invoices/'' method then Some ''/invoicesrpc.Invoices/LookupInvoiceV2''
      else None)"

definition reconcile_prepare ::
    "node_crypto \<Rightarrow> runner_config \<Rightarrow> jsval \<Rightarrow> jsval \<Rightarrow> jsval \<Rightarrow> store \<Rightarrow> (string \<times> signed_request) result" where
  "reconcile_prepare C cfg actionId reconciliationRequestId now s =
     bindE (text_bytes32 actionId ''actionId'') (\<lambda>k.
     bindE (getAction s k) (\<lambda>found.
     case found of
       None \<Rightarrow> Inl (Error ''action does not exist'')
     | Some a \<Rightarrow>
         if ac_state a \<noteq> UNKNOWN then Inl (Error ''action does not require reconciliation'')
         else (case reconcile_method (ac_method a) of
             None \<Rightarrow> Inl (RangeError ''action requires a chain-specific reconciler'')
           | Some method \<Rightarrow>
               bindE (authorize C cfg (ac_terms a) method
                 (text_bytes32 reconciliationRequestId ''reconciliationRequestId'') (JObj []) now) (\<lambda>q.
               bindE (integer_upto (rc_timeoutMs cfg) ''requestTimeoutMs'' 120000) (\<lambda>_. Inr (method, q))))))"

definition reconciliation_json :: "string \<Rightarrow> jsval \<Rightarrow> string \<Rightarrow> int \<Rightarrow> jsval" where
  "reconciliation_json actionId observedState observationDigest observedAt =
     JObj [(''actionId'', JStr actionId), (''observedState'', observedState), (''observationDigest'', JStr observationDigest),
       (''observedAt'', JInt observedAt)]"

text \<open>The evidence of the answer: the observed state and the value whose digest is recorded.\<close>

definition reconcile_evidence ::
    "node_crypto \<Rightarrow> string \<Rightarrow> signed_request \<Rightarrow> int \<Rightarrow> bool \<Rightarrow> jsval \<Rightarrow> int \<Rightarrow> (jsval \<times> jsval \<times> jsval option) result" where
  "reconcile_evidence C method q status ok body observedAt =
     (let t = sq_terms q; auth = sq_auth q in
          if \<not> ok then
            (case validateNotFoundResponse C status body (sq_digest q) (aa_requestId auth) (aa_publicKey auth) (aa_keyId auth) of
               Inl _ \<Rightarrow> Inl (CoordinatorDispatchError
                 ''read-only Lightning reconciliation was rejected; the action remains unknown'' True ''UNKNOWN'')
             | Inr e \<Rightarrow> Inr (JStr ''NOT_FOUND'', JObj ([(''actionId'', JStr (at_actionId t)), (''method'', JStr method),
                 (''status'', JStr ''NOT_FOUND''), (''observedAt'', JInt observedAt)] @ adapter_error_fields e), None))
          else (case validateReconciliationResult C t method body auth of
               Inl _ \<Rightarrow> Inl (CoordinatorDispatchError
                 ''read-only Lightning reconciliation proof was invalid; the action remains unknown'' True ''UNKNOWN'')
             | Inr (observation, validated) \<Rightarrow> Inr (js_get observation ''status'', validated, Some observation)))"

definition reconcileLightningAction ::
    "node_crypto \<Rightarrow> ethers \<Rightarrow> runner_config \<Rightarrow> jsval \<Rightarrow> jsval \<Rightarrow> reconcile_run \<Rightarrow> store
       \<Rightarrow> store \<times> ((disposition \<times> action option \<times> settlement option) \<times> jsval option) result" where
  "reconcileLightningAction C E cfg actionId reconciliationRequestId run s =
     (case reconcile_prepare C cfg actionId reconciliationRequestId (rr_authorizedAt run) s of
        Inl e \<Rightarrow> (s, Inl e)
      | Inr (method, q) \<Rightarrow>
          let s1 = others (nc_hash C) E (rr_duringRequest run) s; k = at_actionId (sq_terms q) in
          (case rr_answer run of
             NoResponse \<Rightarrow> (s1, Inl (CoordinatorDispatchError
               ''read-only Lightning reconciliation did not return; the action remains unknown'' True ''UNKNOWN''))
           | Response status ok body \<Rightarrow>
               (case bindE (integer_upto (rr_observedAt run) ''observedAt'' MAX_SAFE_INTEGER) (\<lambda>observedAt.
                   bindE (reconcile_evidence C method q status ok body observedAt) (\<lambda>(state, proof, observation).
                   bindE (digest (nc_hash C) proof) (\<lambda>d. Inr (observedAt, state, d, observation)))) of
                  Inl e \<Rightarrow> (s1, Inl e)
                | Inr (observedAt, state, d, observation) \<Rightarrow>
                    let s2 = (if rr_hook run = None then s1 else others (nc_hash C) E (rr_beforeWrite run) s1) in
                    (case (case rr_hook run of None \<Rightarrow> Inr () | Some h \<Rightarrow> h) of
                       Inl e \<Rightarrow> (s2, Inl e)
                     | Inr _ \<Rightarrow>
                         (case reconcileAction (reconciliation_json k state d observedAt) s2 of
                            (s3, Inl e) \<Rightarrow> (s3, Inl e)
                          | (s3, Inr r) \<Rightarrow> (s3, Inr (r, observation)))))))"

section \<open>The proof of a confirmed payment\<close>

definition readConfirmedLightningPaymentProof ::
    "node_crypto \<Rightarrow> runner_config \<Rightarrow> jsval \<Rightarrow> jsval \<Rightarrow> jsval \<Rightarrow> transport \<Rightarrow> store \<Rightarrow> jsval result" where
  "readConfirmedLightningPaymentProof C cfg actionId requestId now answer s =
     bindE (text_bytes32 actionId ''actionId'') (\<lambda>k.
     bindE (getAction s k) (\<lambda>found.
     case found of
       None \<Rightarrow> Inl (Error ''confirmed payment action does not exist'')
     | Some a \<Rightarrow>
         if ac_method a \<noteq> ''/routerrpc.Router/SendPaymentV2'' then Inl (Error ''confirmed payment action does not exist'')
         else if ac_state a \<noteq> CONFIRMED then Inl (Error ''payment action is not confirmed'')
         else bindE (authorize C cfg (ac_terms a) ''/routerrpc.Router/TrackPaymentV2''
           (text_bytes32 requestId ''requestId'') (JObj []) now) (\<lambda>q.
         bindE (integer_upto (rc_timeoutMs cfg) ''requestTimeoutMs'' 120000) (\<lambda>_.
         case answer of
           NoResponse \<Rightarrow> Inl (CoordinatorDispatchError ''confirmed payment proof lookup did not return'' False ''CONFIRMED'')
         | Response status ok body \<Rightarrow>
             if \<not> ok then
               (case validateAdapterError C body (sq_digest q) (aa_requestId (sq_auth q)) (aa_publicKey (sq_auth q)) (aa_keyId (sq_auth q)) of
                  Inl _ \<Rightarrow> Inl (CoordinatorDispatchError
                    ''confirmed payment proof lookup returned an unauthenticated rejection'' False ''CONFIRMED'')
                | Inr _ \<Rightarrow> Inl (CoordinatorDispatchError ''confirmed payment proof lookup was rejected'' False ''CONFIRMED''))
             else (case validateReconciliationResult C (ac_terms a) ''/routerrpc.Router/TrackPaymentV2'' body (sq_auth q) of
                  Inl _ \<Rightarrow> Inl (CoordinatorDispatchError ''confirmed payment proof was invalid'' False ''CONFIRMED'')
                | Inr (observation, validated) \<Rightarrow>
                    if js_get observation ''status'' \<noteq> JStr ''SUCCEEDED'' \<or> \<not> js_truthy (js_get observation ''preimage'')
                    then Inl (CoordinatorDispatchError ''confirmed payment proof was invalid'' False ''CONFIRMED'')
                    else Inr observation)))))"

end
