(* ===== verification/Runner_Sample.thy ===== *)
theory Runner_Sample
  imports Coordinator_Sample Action_Runner
begin

text \<open>
  A run of the action runner on concrete inputs: the planned payment of the sample coordinator, the request
  that authorizes it, and a signed answer that confirms it, for the dispatch and for its reconciliation.
\<close>

lemma not_isl_iff: "\<not> isl x \<longleftrightarrow> (\<exists>y. x = Inr y)"
  by (cases x) auto

definition sample_crypto :: node_crypto where
  "sample_crypto = sample_node_crypto (im_paymentHash sample_message)"

definition sample_config :: runner_config where
  "sample_config = \<lparr>rc_privateKey = sample_key ''private'', rc_keyId = JStr ''coordinator-1'', rc_addressCheck = Inr (),
     rc_responsePublicKey = sample_key ''public'', rc_responseKeyId = JStr ''adapter-1'', rc_lifetimeSeconds = JInt 15,
     rc_timeoutMs = JInt 60000\<rparr>"

definition sample_operation :: jsval where
  "sample_operation = JObj [(''feeLimitSats'', JStr ''100''), (''paymentRequest'', JStr ''lnbc1''), (''timeoutSeconds'', JInt 60)]"

definition sample_request :: string where
  "sample_request = at_requestId sample_action_terms"

definition sample_auth :: "string \<Rightarrow> int \<Rightarrow> answer_authorization" where
  "sample_auth requestId at = \<lparr>aa_requestId = requestId, aa_authorizedAt = at, aa_expiresAt = at + 15,
     aa_publicKey = sample_key ''public'', aa_keyId = JStr ''adapter-1''\<rparr>"

lemma sample_crypto_hash: "nc_hash sample_crypto = sample_hex"
  by (simp add: sample_crypto_def sample_node_crypto_def sample_hex_def fun_eq_iff)

lemma sample_crypto_hex: "hex_digest (nc_hash sample_crypto)"
  unfolding sample_crypto_def by (rule sample_node_hex)

text \<open>With the sample hash every value that has a text has the same digest.\<close>

lemma sample_digest: "\<exists>t. canonicalize v = Inr t \<Longrightarrow> digest (nc_hash sample_crypto) v = Inr digest5"
  by (auto simp: digest_def sample_crypto_hash digest5_def sample_hash_def sample_hex_def)

section \<open>The requests\<close>

definition sample_payload_for :: "string \<Rightarrow> string \<Rightarrow> int \<Rightarrow> jsval \<Rightarrow> authorization_payload" where
  "sample_payload_for method requestId at operation = \<lparr>ap_keyId = ''coordinator-1'', ap_method = method, ap_requestId = requestId,
     ap_intentDigest = at_intentDigest sample_action_terms, ap_paymentHash = at_paymentHash sample_action_terms,
     ap_invoiceDigest = at_invoiceDigest sample_action_terms, ap_amountSats = 50000, ap_capacityEpoch = 1,
     ap_authorizedAt = at, ap_expiresAt = at + 15, ap_operation = operation\<rparr>"

lemma sample_authorize:
  assumes p: "payload_ok (sample_payload_for method requestId at operation)"
  shows "\<exists>q. authorize sample_crypto sample_config sample_action_terms method (Inr requestId) operation (JInt at) = Inr q
    \<and> sq_terms q = sample_action_terms \<and> sq_operation q = operation \<and> sq_auth q = sample_auth requestId at"
proof -
  let ?p = "sample_payload_for method requestId at operation" and ?k = "sample_key ''private''"
  have json: "authorization_json sample_action_terms (JStr ''coordinator-1'') method requestId at (at + 15) operation = payload_json ?p"
    by (simp add: authorization_json_def payload_json_def sample_payload_for_def sample_action_terms_def)
  obtain t where t: "canonicalize (payload_json ?p) = Inr t" using payload_text [OF p] by blast
  have sign: "signLightningAuthorizationEnvelope sample_crypto (payload_json ?p) ?k = Inr (envelope_json ?p (nc_sign sample_crypto ?k t))"
    using t by (simp add: signLightningAuthorizationEnvelope_def sample_key_def normalize_payload_json [OF p] canonicalize_authorization_def)
  have sig: "is_base64_signature (nc_sign sample_crypto ?k t)"
    using sample_key_pair by (simp add: key_pair_def sample_crypto_def)
  have "normalizeLightningAuthorizationEnvelope (envelope_json ?p (nc_sign sample_crypto ?k t)) = Inr (?p, nc_sign sample_crypto ?k t)"
    unfolding normalizeEnvelope_Inr using sig normalize_payload_json [OF p] by (simp add: envelope_json_def)
  moreover have "\<exists>u. canonicalize (envelope_json ?p (nc_sign sample_crypto ?k t)) = Inr u"
    unfolding envelope_json_def by (rule canonicalize_object) (use t in auto)
  then obtain u where "canonicalize (envelope_json ?p (nc_sign sample_crypto ?k t)) = Inr u" ..
  ultimately obtain d where d: "lightningAuthorizationEnvelopeDigest sample_crypto (envelope_json ?p (nc_sign sample_crypto ?k t)) = Inr d"
    by (auto simp: lightningAuthorizationEnvelopeDigest_def canonicalize_authorization_def)
  have at: "integer_upto (JInt at) name MAX_SAFE_INTEGER = Inr at" for name
    using p by (auto simp: payload_ok_def sample_payload_for_def integer_upto_def)
  have "integer_upto (JInt 15) name 30 = Inr 15" for name by (simp add: integer_upto_def MAX_SAFE_INTEGER_def)
  then show ?thesis
    using sign d by (simp add: authorize_def sample_config_def at json sample_auth_def)
qed

lemma sample_payload_ok:
  assumes "0 \<le> at" "at \<le> 2000" and "is_bytes32 requestId"
  shows "payload_ok (sample_payload_for ''/routerrpc.Router/SendPaymentV2'' requestId at sample_operation)"
    "payload_ok (sample_payload_for ''/routerrpc.Router/TrackPaymentV2'' requestId at (JObj []))"
proof -
  have "is_key_id 63 ''coordinator-1''" "is_bytes32 (at_intentDigest sample_action_terms)" "is_bytes32 (at_paymentHash sample_action_terms)"
      "is_bytes32 (at_invoiceDigest sample_action_terms)"
      "snapshotOperation sample_operation ''/routerrpc.Router/SendPaymentV2'' = Inr sample_operation"
      "snapshotOperation (JObj []) ''/routerrpc.Router/TrackPaymentV2'' = Inr (JObj [])" by code_simp+
  then show "payload_ok (sample_payload_for ''/routerrpc.Router/SendPaymentV2'' requestId at sample_operation)"
    "payload_ok (sample_payload_for ''/routerrpc.Router/TrackPaymentV2'' requestId at (JObj []))"
    using assms by (simp_all add: payload_ok_def sample_payload_for_def UINT64_MAX_def MAX_SAFE_INTEGER_def)
qed

lemma sample_prepare:
  "\<exists>q. dispatch_prepare sample_crypto sample_config (JStr h0) sample_operation (JInt 1040) planned_store = Inr q
    \<and> sq_terms q = sample_action_terms \<and> sq_operation q = sample_operation \<and> sq_auth q = sample_auth sample_request 1040"
proof -
  let ?t = "sample_action_terms"
  have get: "getAction planned_store h0 = Inr (Some action_0)" "text_bytes32 (JStr h0) ''actionId'' = Inr h0" by code_simp+
  have a: "ac_state action_0 = PENDING" "ac_method action_0 = ''/routerrpc.Router/SendPaymentV2''" "ac_terms action_0 = ?t"
      "at_method ?t = ''/routerrpc.Router/SendPaymentV2''" "at_payloadDigest ?t = digest5"
    by (simp_all add: action_0_def sample_action_terms_def ac_method_def)
  have n: "normalizeOperation ''/routerrpc.Router/SendPaymentV2'' sample_operation = Inr sample_operation"
  proof -
    have "exactDataRecord sample_operation [''feeLimitSats'', ''paymentRequest'', ''timeoutSeconds''] ''send-payment operation''
        = Inr sample_operation" "uint64 (JStr ''100'') ''feeLimitSats'' = Inr 100" "dec_str 100 = ''100''"
        "integer_upto (JInt 60) ''timeoutSeconds'' MAX_SAFE_INTEGER = Inr 60" by code_simp+
    then show ?thesis by (simp add: normalizeOperation_def LIGHTNING_METHODS_def bounded_text_def sample_operation_def)
  qed
  have fields: "text_bytes32 (JStr (at_requestId ?t)) name = Inr (at_requestId ?t)" "text_bytes32 (JStr (at_intentDigest ?t)) name = Inr (at_intentDigest ?t)"
      "text_bytes32 (JStr (at_paymentHash ?t)) name = Inr (at_paymentHash ?t)" "text_bytes32 (JStr (at_invoiceDigest ?t)) name = Inr (at_invoiceDigest ?t)"
      "uint64 (JStr (dec_str (at_amountSats ?t))) name = Inr (at_amountSats ?t)"
      "integer_upto (JInt (at_capacityEpoch ?t)) name MAX_SAFE_INTEGER = Inr (at_capacityEpoch ?t)" for name
    by code_simp+
  have operation: "\<exists>t. canonicalize sample_operation = Inr t" unfolding sample_operation_def
    by (rule canonicalize_object) (auto simp: MAX_SAFE_INTEGER_def)
  have safe: "isSafeInteger (JInt (at_capacityEpoch ?t))" by code_simp
  have "lightningActionCommitment (nc_hash sample_crypto) ?t sample_operation = Inr digest5"
    unfolding lightningActionCommitment_def a n bindE_Inr fields
    by (rule sample_digest, rule canonicalize_object) (use operation safe in auto)
  moreover have "is_bytes32 sample_request" by code_simp
  ultimately show ?thesis
    using sample_authorize [OF sample_payload_ok(1) [of 1040 sample_request]]
    by (simp add: dispatch_prepare_def get a n sample_request_def)
qed

lemma sample_reconcile_prepare:
  "\<exists>q. reconcile_prepare sample_crypto sample_config (JStr h0) (JStr h4) (JInt 1060) recovered_store
      = Inr (''/routerrpc.Router/TrackPaymentV2'', q) \<and> sq_terms q = sample_action_terms \<and> sq_auth q = sample_auth h4 1060"
proof -
  have get: "\<exists>a. getAction recovered_store h0 = Inr (Some a) \<and> ac_state a = UNKNOWN \<and> ac_terms a = sample_action_terms
      \<and> ac_method a = ''/routerrpc.Router/SendPaymentV2''"
    by (intro exI [of _ "hd (actions recovered_store)"] conjI) code_simp+
  have k: "text_bytes32 (JStr h0) ''actionId'' = Inr h0" "text_bytes32 (JStr h4) name = Inr h4" for name by code_simp+
  have m: "reconcile_method ''/routerrpc.Router/SendPaymentV2'' = Some ''/routerrpc.Router/TrackPaymentV2''"
      "integer_upto (JInt 60000) ''requestTimeoutMs'' 120000 = Inr 60000" by code_simp+
  have "is_bytes32 h4" by code_simp
  from sample_authorize [OF sample_payload_ok(2) [OF _ _ this, of 1060]] get k m show ?thesis
    by (auto simp: reconcile_prepare_def sample_config_def)
qed

section \<open>The answer\<close>

definition sample_audit :: "string \<Rightarrow> string \<Rightarrow> int \<Rightarrow> jsval" where
  "sample_audit method requestId at = JObj [(''amountSats'', JStr ''50000''), (''capacityEpoch'', JInt 1),
     (''credentialIdHash'', JStr h4), (''decision'', JStr ''allowed''), (''intentDigest'', JStr (at_intentDigest sample_action_terms)),
     (''invoiceDigest'', JStr (at_invoiceDigest sample_action_terms)), (''method'', JStr method), (''observedAt'', JInt at),
     (''paymentHash'', JStr (at_paymentHash sample_action_terms)), (''reasons'', JArr []), (''requestId'', JStr requestId),
     (''role'', JStr ''payer'')]"

definition sample_paid :: jsval where
  "sample_paid = JObj [(''amountSats'', JStr ''50000''), (''feeSats'', JStr ''2''),
     (''paymentHash'', JStr (at_paymentHash sample_action_terms)), (''preimage'', JStr h4), (''status'', JStr ''SUCCEEDED'')]"

definition sample_body :: "string \<Rightarrow> string \<Rightarrow> int \<Rightarrow> jsval" where
  "sample_body method requestId at = JObj [(''audit'', sample_audit method requestId at), (''result'', sample_paid)]"

lemma sample_body_signed:
  assumes "length method \<le> 8192" "length requestId \<le> 8192" "isSafeInteger (JInt at)"
  shows "\<exists>envelope authentication. authenticateAdapterResponse sample_crypto envelope (sample_key ''public'') (JStr ''adapter-1'')
    = Inr (sample_body method requestId at, authentication) \<and> (\<exists>t. canonicalize authentication = Inr t)"
proof -
  have small: "isSafeInteger (JInt 1)" "length h4 \<le> 8192" "length (at_intentDigest sample_action_terms) \<le> 8192"
      "length (at_invoiceDigest sample_action_terms) \<le> 8192" "length (at_paymentHash sample_action_terms) \<le> 8192"
    by (simp_all add: MAX_SAFE_INTEGER_def h4_def sample_hash_def sample_action_terms_def sample_message_def)
  have "\<exists>n. snapshotJson (sample_body method requestId at) ''Lightning adapter response body'' 0 0 = Inr (sample_body method requestId at, n)"
    using assms small by (simp add: snapshotJson.simps sample_body_def sample_audit_def sample_paid_def not_less del: isSafeInteger.simps)
  then obtain n where "snapshotJson (sample_body method requestId at) ''Lightning adapter response body'' 0 0
      = Inr (sample_body method requestId at, n)" ..
  from sample_answer [OF this, of "im_paymentHash sample_message"] obtain envelope x where x:
      "verifyLightningAdapterResponseEnvelope sample_crypto envelope (sample_key ''public'') (JStr ''adapter-1'') = Inr x"
      "vr_body x = sample_body method requestId at" unfolding sample_crypto_def by blast
  have "\<exists>t. canonicalize (JObj [(''keyId'', JStr (vr_keyId x)), (''publicKeyDigest'', JStr (vr_publicKeyDigest x)),
      (''responseDigest'', JStr (vr_responseDigest x))]) = Inr t" by (rule canonicalize_object) auto
  moreover have "authenticateAdapterResponse sample_crypto envelope (sample_key ''public'') (JStr ''adapter-1'')
      = Inr (sample_body method requestId at, JObj [(''keyId'', JStr (vr_keyId x)),
          (''publicKeyDigest'', JStr (vr_publicKeyDigest x)), (''responseDigest'', JStr (vr_responseDigest x))])"
    using x by (simp add: authenticateAdapterResponse_def)
  ultimately show ?thesis by blast
qed

lemma sample_answer_judged:
  "\<exists>envelope result validated. validateAdapterResult sample_crypto sample_action_terms sample_operation envelope
    (sample_auth sample_request 1040) = Inr (result, validated)"
proof -
  let ?m = "''/routerrpc.Router/SendPaymentV2''"
  have "length sample_request \<le> 8192" by (simp add: sample_request_def sample_action_terms_def sample_hash_def)
  then obtain envelope authentication where signed: "authenticateAdapterResponse sample_crypto envelope (sample_key ''public'')
      (JStr ''adapter-1'') = Inr (sample_body ?m sample_request 1041, authentication)"
    using sample_body_signed [of ?m sample_request 1041] by (auto simp: MAX_SAFE_INTEGER_def)
  have body: "exactDataRecord (sample_body ?m sample_request 1041) [''audit'', ''result''] ''adapter success response''
      = Inr (sample_body ?m sample_request 1041)" by code_simp
  have "\<not> isl (validateAdapterAudit sample_action_terms ?m sample_request 1040 1055 (sample_audit ?m sample_request 1041))"
      "\<not> isl (validate_result sample_crypto sample_action_terms sample_operation sample_paid)" by code_simp+
  then obtain v w where v: "validateAdapterAudit sample_action_terms ?m sample_request 1040 1055 (sample_audit ?m sample_request 1041) = Inr v"
    and w: "validate_result sample_crypto sample_action_terms sample_operation sample_paid = Inr w" by (auto simp: not_isl_iff)
  have terms: "at_method sample_action_terms = ?m" "at_requestId sample_action_terms = sample_request"
      "js_get (sample_body ?m sample_request 1041) ''audit'' = sample_audit ?m sample_request 1041"
      "js_get (sample_body ?m sample_request 1041) ''result'' = sample_paid"
    by (simp_all add: sample_action_terms_def sample_request_def sample_body_def)
  have "validateAdapterResult sample_crypto sample_action_terms sample_operation envelope (sample_auth sample_request 1040)
      = Inr (w, evidence ''result'' w v authentication)"
    using signed by (simp add: validateAdapterResult_def sample_auth_def body terms v w del: js_get.simps)
  then show ?thesis by blast
qed

lemma sample_track_judged:
  "\<exists>envelope observation validated. validateReconciliationResult sample_crypto sample_action_terms ''/routerrpc.Router/TrackPaymentV2''
    envelope (sample_auth h4 1060) = Inr (observation, validated) \<and> js_get observation ''status'' = JStr ''SUCCEEDED''
    \<and> (\<exists>t. canonicalize validated = Inr t)"
proof -
  let ?m = "''/routerrpc.Router/TrackPaymentV2''"
  have "length h4 \<le> 8192" by (simp add: h4_def sample_hash_def)
  then obtain envelope authentication where signed: "authenticateAdapterResponse sample_crypto envelope (sample_key ''public'')
      (JStr ''adapter-1'') = Inr (sample_body ?m h4 1061, authentication)" "\<exists>t. canonicalize authentication = Inr t"
    using sample_body_signed [of ?m h4 1061] by (auto simp: MAX_SAFE_INTEGER_def)
  have body: "exactDataRecord (sample_body ?m h4 1061) [''audit'', ''result''] ''adapter reconciliation response''
      = Inr (sample_body ?m h4 1061)" by code_simp
  have "case validateAdapterAudit sample_action_terms ?m h4 1060 1075 (sample_audit ?m h4 1061) of Inl _ \<Rightarrow> False
      | Inr v \<Rightarrow> \<not> isl (canonicalize v)" by code_simp
  then obtain v where v: "validateAdapterAudit sample_action_terms ?m h4 1060 1075 (sample_audit ?m h4 1061) = Inr v"
      "\<exists>t. canonicalize v = Inr t" by (auto simp: not_isl_iff split: sum.splits)
  have "case track_payment sample_crypto sample_action_terms sample_paid of Inl _ \<Rightarrow> False
      | Inr v \<Rightarrow> js_get v ''status'' = JStr ''SUCCEEDED'' \<and> \<not> isl (canonicalize v)" by code_simp
  then obtain w where w: "track_payment sample_crypto sample_action_terms sample_paid = Inr w" "js_get w ''status'' = JStr ''SUCCEEDED''"
      "\<exists>t. canonicalize w = Inr t" by (auto simp: not_isl_iff split: sum.splits)
  have get: "js_get (sample_body ?m h4 1061) ''audit'' = sample_audit ?m h4 1061" "js_get (sample_body ?m h4 1061) ''result'' = sample_paid"
    by (simp_all add: sample_body_def)
  have "validateReconciliationResult sample_crypto sample_action_terms ?m envelope (sample_auth h4 1060)
      = Inr (w, evidence ''observation'' w v authentication)"
    using signed(1) by (simp add: validateReconciliationResult_def sample_auth_def body get v(1) w(1) del: js_get.simps)
  moreover have "\<exists>t. canonicalize (evidence ''observation'' w v authentication) = Inr t"
    unfolding evidence_def by (rule canonicalize_object) (use signed(2) v(2) w(3) in auto)
  ultimately show ?thesis using w(2) by blast
qed

end
