(* ===== verification/Runner_Properties.thy ===== *)
theory Runner_Properties
  imports Coordinator_Properties Runner_Sample
begin

text \<open>
  The action runner against the store: which answers settle an action, what a sent request leaves in
  the journal whatever other tasks do meanwhile, and that no interleaving sends an action twice.
\<close>

section \<open>What a judged answer proves\<close>

lemma uint64_Inr: "uint64 v name = Inr i \<Longrightarrow> v = JStr (dec_str i) \<and> 0 \<le> i \<and> i \<le> UINT64_MAX"
  by (auto simp: uint64_def is_uint_iff dec_val_dec_str split: jsval.splits if_splits)

lemma integer_upto_Inr [result_simps]:
  "integer_upto v name m = Inr i \<longleftrightarrow> v = JInt i \<and> isSafeInteger (JInt i) \<and> 0 \<le> i \<and> i \<le> m"
  by (auto simp: integer_upto_def split: jsval.splits)

lemma bounded_text_Inr [result_simps]:
  "bounded_text v lo hi m = Inr s \<longleftrightarrow> v = JStr s \<and> lo \<le> length s \<and> length s \<le> hi"
  by (auto simp: bounded_text_def split: jsval.splits)

text \<open>An answer that authenticates: signed under the expected key and identifier.\<close>

definition authenticated :: "node_crypto \<Rightarrow> answer_authorization \<Rightarrow> jsval \<Rightarrow> jsval \<Rightarrow> bool" where
  "authenticated C auth envelope body \<longleftrightarrow> (\<exists>keyId d. aa_keyId auth = JStr keyId
     \<and> adapter_signed C (aa_publicKey auth) envelope \<lparr>rp_keyId = keyId, rp_body = body\<rparr> d)"

lemma authenticate_Inr:
  assumes "authenticateAdapterResponse C envelope (aa_publicKey auth) (aa_keyId auth) = Inr (body, authentication)"
  shows "authenticated C auth envelope body \<and> (\<exists>t. canonicalize authentication = Inr t)"
proof -
  from assms obtain r where r: "verifyLightningAdapterResponseEnvelope C envelope (aa_publicKey auth) (aa_keyId auth) = Inr r"
      "body = vr_body r" "authentication = JObj [(''keyId'', JStr (vr_keyId r)),
       (''publicKeyDigest'', JStr (vr_publicKeyDigest r)), (''responseDigest'', JStr (vr_responseDigest r))]"
    by (auto simp: authenticateAdapterResponse_def bindE_eq_Inr)
  have "\<exists>t. canonicalize authentication = Inr t"
    unfolding r(3) by (rule canonicalize_object) auto
  then show ?thesis using verified_response [OF r(1)] r(2) unfolding authenticated_def by blast
qed

text \<open>
  The proof of a payment: a preimage of the action's payment hash, for the action's amount, at a fee within
  the limit.
\<close>

definition payment_proof :: "node_crypto \<Rightarrow> action_terms \<Rightarrow> jsval \<Rightarrow> bool" where
  "payment_proof C t result \<longleftrightarrow> js_get result ''status'' = JStr ''SUCCEEDED''
     \<and> js_get result ''amountSats'' = JStr (dec_str (at_amountSats t))
     \<and> (\<exists>preimage. js_get result ''preimage'' = JStr preimage \<and> is_bytes32 preimage \<and> preimageHash C preimage = at_paymentHash t)"

definition fee_within :: "jsval \<Rightarrow> jsval \<Rightarrow> bool" where
  "fee_within operation result \<longleftrightarrow> (\<exists>fee limit. js_get result ''feeSats'' = JStr (dec_str fee) \<and> 0 \<le> fee
     \<and> js_BigInt (js_get operation ''feeLimitSats'') = Some limit \<and> fee \<le> limit)"

text \<open>What a confirmation proves, by the method of the action.\<close>

definition confirmation :: "node_crypto \<Rightarrow> action_terms \<Rightarrow> jsval \<Rightarrow> jsval \<Rightarrow> bool" where
  "confirmation C t operation result \<longleftrightarrow>
     (at_method t = ''/routerrpc.Router/SendPaymentV2'' \<and> payment_proof C t result \<and> fee_within operation result)
     \<or> (at_method t = ''/invoicesrpc.Invoices/SettleInvoice'' \<and> js_get result ''state'' = JStr ''SETTLED'')
     \<or> (at_method t = ''/invoicesrpc.Invoices/CancelInvoice'' \<and> js_get result ''state'' = JStr ''CANCELED'')
     \<or> (at_method t = ''/invoicesrpc.Invoices/AddHoldInvoice'' \<and> (\<exists>text. js_get result ''paymentRequest'' = JStr text
          \<and> js_get result ''invoiceDigest'' = JStr (invoiceDigest (nc_hash C) text)))"

lemma sample_codes: "is_code ''SUCCEEDED''" "is_code ''SETTLED''" "is_code ''CANCELED''"
  by (simp_all add: is_code_def is_upper_def)

lemma validate_payment:
  assumes "validate_result C t operation result = Inr x" and m: "at_method t = ''/routerrpc.Router/SendPaymentV2''"
  shows "confirmation C t operation x \<and> (\<exists>u. canonicalize x = Inr u) \<and> (\<exists>c. result_code x = JStr c \<and> is_code c)"
proof -
  from assms(1) obtain normalized preimage fee limit where n: "js_get normalized ''feeSats'' = JStr (dec_str fee)" "0 \<le> fee"
      "is_bytes32 preimage" "preimageHash C preimage = at_paymentHash t"
      "js_BigInt (js_get operation ''feeLimitSats'') = Some limit" "fee \<le> limit"
      "x = JObj [(''status'', JStr ''SUCCEEDED''), (''paymentHash'', JStr (at_paymentHash t)),
        (''amountSats'', JStr (dec_str (at_amountSats t))), (''feeSats'', JStr (dec_str fee)), (''preimage'', JStr preimage)]"
    unfolding validate_result_def m
    by (auto simp: result_simps option_case_eq_Inr not_less simp del: js_get.simps dest!: uint64_Inr)
  have "\<exists>u. canonicalize x = Inr u" unfolding n(7) by (rule canonicalize_object) auto
  moreover have "result_code x = JStr ''SUCCEEDED''" by (simp add: result_code_def n(7))
  moreover have "confirmation C t operation x"
    using n m by (auto simp: confirmation_def payment_proof_def fee_within_def)
  ultimately show ?thesis using sample_codes by blast
qed

lemma validate_state:
  assumes "validate_result C t operation result = Inr x"
    and "at_method t = ''/invoicesrpc.Invoices/SettleInvoice'' \<or> at_method t = ''/invoicesrpc.Invoices/CancelInvoice''"
  shows "confirmation C t operation x \<and> (\<exists>u. canonicalize x = Inr u) \<and> (\<exists>c. result_code x = JStr c \<and> is_code c)"
proof -
  from assms obtain c where c: "x = JObj [(''state'', JStr c)]"
      "at_method t = ''/invoicesrpc.Invoices/SettleInvoice'' \<and> c = ''SETTLED''
       \<or> at_method t = ''/invoicesrpc.Invoices/CancelInvoice'' \<and> c = ''CANCELED''"
    unfolding validate_result_def by (elim disjE) (auto simp: result_simps simp del: js_get.simps)
  have "\<exists>u. canonicalize x = Inr u" unfolding c(1) by (rule canonicalize_object) auto
  moreover have "result_code x = JStr c" by (simp add: result_code_def c(1))
  ultimately show ?thesis using c sample_codes by (auto simp: confirmation_def)
qed

lemma validate_invoice:
  assumes "validate_result C t operation result = Inr x" and m: "at_method t = ''/invoicesrpc.Invoices/AddHoldInvoice''"
  shows "confirmation C t operation x \<and> (\<exists>u. canonicalize x = Inr u) \<and> (\<exists>c. result_code x = JStr c \<and> is_code c)"
proof -
  let ?ks = "[''addIndex'', ''invoiceDigest'', ''paymentRequest'']"
  from assms(1) obtain i request where n: "exactDataRecord result ?ks ''hold-invoice result'' = Inr x"
      "js_get x ''paymentRequest'' = JStr request" "js_get x ''invoiceDigest'' = JStr (invoiceDigest (nc_hash C) request)"
      "js_get x ''addIndex'' = JStr (dec_str i)"
    unfolding validate_result_def m by (auto simp: result_simps simp del: js_get.simps dest!: uint64_Inr)
  from n(1) have x: "x = JObj (map (\<lambda>k. (k, js_get result k)) ?ks)" unfolding exactDataRecord_Inr by simp
  have get: "js_get x k = js_get result k" if "k \<in> set ?ks" for k using that unfolding x js_get_fields by simp
  have "x = JObj [(''addIndex'', JStr (dec_str i)), (''invoiceDigest'', JStr (invoiceDigest (nc_hash C) request)),
      (''paymentRequest'', JStr request)]"
    using n(2-4) get by (simp add: x del: js_get.simps)
  moreover from this have "\<exists>u. canonicalize x = Inr u" by (simp only:) (rule canonicalize_object, auto)
  ultimately show ?thesis using n m sample_codes by (auto simp: confirmation_def result_code_def)
qed

lemma validate_result_Inr:
  assumes "validate_result C t operation result = Inr x"
  shows "confirmation C t operation x \<and> (\<exists>u. canonicalize x = Inr u) \<and> (\<exists>c. result_code x = JStr c \<and> is_code c)"
proof -
  from assms have "at_method t \<in> {''/routerrpc.Router/SendPaymentV2'', ''/invoicesrpc.Invoices/SettleInvoice'',
      ''/invoicesrpc.Invoices/CancelInvoice'', ''/invoicesrpc.Invoices/AddHoldInvoice''}"
    by (auto simp: validate_result_def split: if_splits)
  then show ?thesis using validate_payment [OF assms] validate_state [OF assms] validate_invoice [OF assms] by blast
qed

text \<open>An audit that allows exactly this action for this request, observed within the signed window.\<close>

definition audited :: "action_terms \<Rightarrow> string \<Rightarrow> string \<Rightarrow> int \<Rightarrow> int \<Rightarrow> jsval \<Rightarrow> bool" where
  "audited t method requestId opens closes audit \<longleftrightarrow> js_get audit ''decision'' = JStr ''allowed''
     \<and> js_get audit ''method'' = JStr method \<and> js_get audit ''requestId'' = JStr requestId
     \<and> js_get audit ''intentDigest'' = JStr (at_intentDigest t) \<and> js_get audit ''paymentHash'' = JStr (at_paymentHash t)
     \<and> js_get audit ''invoiceDigest'' = JStr (at_invoiceDigest t)
     \<and> js_get audit ''amountSats'' = JStr (dec_str (at_amountSats t)) \<and> js_get audit ''capacityEpoch'' = JInt (at_capacityEpoch t)
     \<and> (\<exists>at. js_get audit ''observedAt'' = JInt at \<and> opens \<le> at \<and> at < closes)"

lemma validateAdapterAudit_Inr:
  assumes "validateAdapterAudit t method requestId opens closes raw = Inr a"
  shows "audited t method requestId opens closes raw \<and> (\<exists>u. canonicalize a = Inr u)"
proof -
  from assms obtain audit where audit: "exactDataRecord raw ADAPTER_AUDIT_FIELDS ''adapter authorization audit'' = Inr audit"
    by (auto simp: validateAdapterAudit_def bindE_eq_Inr)
  have get: "js_get audit k = js_get raw k" if "k \<in> set ADAPTER_AUDIT_FIELDS" for k
    using that by (rule exactDataRecord_get [OF audit])
  from assms obtain role cred at where a: "a = audit_json t method requestId at role cred" "isSafeInteger (JInt at)"
      "isSafeInteger (JInt (at_capacityEpoch t))"
    and "audited t method requestId opens closes raw"
    unfolding validateAdapterAudit_def audit bindE_Inr
    by (simp add: get ADAPTER_AUDIT_FIELDS_def result_simps audited_def del: js_get.simps)
      (elim exE conjE, drule uint64_Inr, auto)
  moreover have "\<exists>u. canonicalize a = Inr u"
    unfolding a(1) audit_json_def by (rule canonicalize_object) (use a(2,3) in auto)
  ultimately show ?thesis by blast
qed

text \<open>A success answer: authenticated, audited for this action, and a confirmation of it.\<close>

definition success_answer :: "node_crypto \<Rightarrow> signed_request \<Rightarrow> jsval \<Rightarrow> jsval \<Rightarrow> bool" where
  "success_answer C q envelope result \<longleftrightarrow> (\<exists>body. authenticated C (sq_auth q) envelope body
     \<and> audited (sq_terms q) (at_method (sq_terms q)) (at_requestId (sq_terms q)) (aa_authorizedAt (sq_auth q)) (aa_expiresAt (sq_auth q))
         (js_get body ''audit'')
     \<and> confirmation C (sq_terms q) (sq_operation q) result)"

lemma evidence_text:
  assumes "\<exists>t. canonicalize r = Inr t" "\<exists>t. canonicalize a = Inr t" "\<exists>t. canonicalize b = Inr t"
  shows "\<exists>t. canonicalize (evidence f r a b) = Inr t"
  unfolding evidence_def by (rule canonicalize_object) (use assms in auto)

lemma validateAdapterResult_Inr:
  assumes "validateAdapterResult C (sq_terms q) (sq_operation q) envelope (sq_auth q) = Inr (result, validated)"
  shows "success_answer C q envelope result \<and> (\<exists>d. digest (nc_hash C) validated = Inr d)
    \<and> (\<exists>c. result_code result = JStr c \<and> is_code c)"
proof -
  from assms obtain body authentication response auditBinding where r:
      "authenticateAdapterResponse C envelope (aa_publicKey (sq_auth q)) (aa_keyId (sq_auth q)) = Inr (body, authentication)"
      "exactDataRecord body [''audit'', ''result''] ''adapter success response'' = Inr response"
      "validateAdapterAudit (sq_terms q) (at_method (sq_terms q)) (at_requestId (sq_terms q)) (aa_authorizedAt (sq_auth q))
        (aa_expiresAt (sq_auth q)) (js_get response ''audit'') = Inr auditBinding"
      "validate_result C (sq_terms q) (sq_operation q) (js_get response ''result'') = Inr result"
      "validated = evidence ''result'' result auditBinding authentication"
    unfolding validateAdapterResult_def by (auto simp: bindE_eq_Inr simp del: js_get.simps)
  have "js_get response ''audit'' = js_get body ''audit''" by (rule exactDataRecord_get [OF r(2)]) simp
  moreover have "\<exists>t. canonicalize validated = Inr t" unfolding r(5)
    using validate_result_Inr [OF r(4)] validateAdapterAudit_Inr [OF r(3)] authenticate_Inr [OF r(1)] by (intro evidence_text) auto
  ultimately show ?thesis
    using validate_result_Inr [OF r(4)] validateAdapterAudit_Inr [OF r(3)] authenticate_Inr [OF r(1)]
    unfolding success_answer_def digest_def by auto
qed

section \<open>The store calls of a run\<close>

text \<open>The outcome and the state it leads to.\<close>

definition outcome_state :: "string \<Rightarrow> action_state" where
  "outcome_state outcome = (if outcome = ''confirmed'' then CONFIRMED else UNKNOWN)"

definition result_input_of :: "string \<Rightarrow> string \<Rightarrow> string \<Rightarrow> string \<Rightarrow> int \<Rightarrow> result_input" where
  "result_input_of k outcome d c at = \<lparr>ri_actionId = k, ri_recordedAt = at, ri_proof = d, ri_code = c, ri_next = outcome_state outcome\<rparr>"

lemma normalizeResultInput_json:
  assumes "outcome = ''confirmed'' \<or> outcome = ''ambiguous''"
  shows "normalizeResultInput (result_json k outcome d (JStr c) at) = Inr v \<longleftrightarrow>
     is_bytes32 k \<and> is_bytes32 d \<and> is_code c \<and> isSafeInteger (JInt at) \<and> 0 \<le> at \<and> v = result_input_of k outcome d c at"
proof -
  have keys: "exactKeys (result_json k outcome d (JStr c) at) [''actionId'', ''outcome'', ''recordedAt'', ''resultCode'', ''resultDigest'']
      name = Inr ()" for name
    by (simp add: result_json_def exactKeys_def)
  have outcome: "result_outcome (JStr outcome) = Some (outcome_state outcome)"
    using assms by (auto simp: result_outcome_def outcome_state_def Let_def)
  show ?thesis
    unfolding normalizeResultInput_def keys bindE_Inr
    by (auto simp: result_json_def result_simps outcome result_input_of_def)
qed

lemma action_result_row:
  "find_action ((set_reconciliation i st b at (set_action_result k next d c at s))\<lparr>events := e\<rparr>) k =
     map_option (\<lambda>a. a\<lparr>ac_state := next, ac_result := Some \<lparr>re_digest = d, re_code = c, re_at = at\<rparr>\<rparr>) (find_action s k)"
  by (simp add: set_reconciliation_def set_action_result_def action_table.lookup_rows action_table.rows_modify row_find_update ac_id_def)

lemma record_total:
  assumes "find_action s k = Some a" and "ac_state a = DISPATCHING" and "ac_method a \<noteq> ''evm:claim''"
    and "is_bytes32 k" "is_bytes32 d" "is_code c" "isSafeInteger (JInt at)" "0 \<le> at"
    and o: "outcome = ''confirmed'' \<or> outcome = ''ambiguous''"
  shows "\<exists>s' a'. recordActionResult (result_json k outcome d (JStr c) at) s = (s', Inr (Some a')) \<and> find_action s' k = Some a'
    \<and> a' = a\<lparr>ac_state := outcome_state outcome, ac_result := Some \<lparr>re_digest = d, re_code = c, re_at = at\<rparr>\<rparr>"
proof -
  have "normalizeResultInput (result_json k outcome d (JStr c) at) = Inr (result_input_of k outcome d c at)"
    using normalizeResultInput_json [OF o] assms(4-8) by blast
  moreover have codes: "code_text (JStr ''ACTION'') ''eventType'' = Inr ''ACTION''" "code_text (JStr ''UNKNOWN'') ''eventCode'' = Inr ''UNKNOWN''"
      "code_text (JStr ''CONFIRMED'') ''eventCode'' = Inr ''CONFIRMED''" by code_simp+
  ultimately show ?thesis
    using assms by (auto simp: recordActionResult_def transaction_def result_body_def result_input_of_def Let_def get_defs bytes32_def
        event_def action_result_row)
qed

lemma result_body_eq:
  assumes "getAction s k = Inr (Some a)" and "ac_method a \<noteq> ''evm:claim''"
  shows "result_body (result_input_of k outcome d c at) s =
    (if ac_state a \<noteq> DISPATCHING then
       (if ac_state a = outcome_state outcome \<and> map_option re_digest (ac_result a) = Some d \<and> map_option re_code (ac_result a) = Some c
        then Inr (s, Some a) else Inl (Error ''action is not awaiting a dispatch result''))
     else bindE (event (ac_settlementId a) (Some k) ''ACTION'' (if outcome_state outcome = UNKNOWN then ''UNKNOWN'' else ''CONFIRMED'') d at
         (set_reconciliation (ac_settlementId a) (if outcome_state outcome = UNKNOWN then RECONCILIATION_REQUIRED else ACTION_CONFIRMED)
            (outcome_state outcome = UNKNOWN) at (set_action_result k (outcome_state outcome) d c at s))) (\<lambda>s4.
       bindE (getAction s4 k) (\<lambda>row. Inr (s4, row))))"
  using assms by (simp add: result_body_def result_input_of_def Let_def)

lemma record_success:
  assumes r: "recordActionResult (result_json k outcome d (JStr c) at) s = (s', Inr x)"
    and o: "outcome = ''confirmed'' \<or> outcome = ''ambiguous''" and a: "find_action s k = Some a" "ac_method a \<noteq> ''evm:claim''"
  shows "\<exists>a'. find_action s' k = Some a' \<and> ac_state a' = outcome_state outcome
    \<and> map_option re_digest (ac_result a') = Some d \<and> map_option re_code (ac_result a') = Some c"
proof -
  from r have b: "result_body (result_input_of k outcome d c at) s = Inr (s', x)" and k: "is_bytes32 k"
    using normalizeResultInput_json [OF o] by (auto simp: recordActionResult_def withInput_def transaction_Inr split: sum.splits)
  have get: "getAction s k = Inr (Some a)" using a k by (simp add: getAction_Inr)
  note body = b [unfolded result_body_eq [OF get a(2)]]
  show ?thesis
  proof (cases "ac_state a = DISPATCHING")
    case True
    from body obtain e where "s' = (set_reconciliation (ac_settlementId a)
        (if outcome_state outcome = UNKNOWN then RECONCILIATION_REQUIRED else ACTION_CONFIRMED) (outcome_state outcome = UNKNOWN) at
        (set_action_result k (outcome_state outcome) d c at s))\<lparr>events := e\<rparr>"
      by (simp add: True bindE_eq_Inr) (elim exE conjE, drule event_Inr, blast)
    then show ?thesis using a by (simp add: action_result_row)
  next
    case False
    with body have "s' = s" "ac_state a = outcome_state outcome" "map_option re_digest (ac_result a) = Some d"
        "map_option re_code (ac_result a) = Some c" by (simp_all split: if_splits)
    with a show ?thesis by simp
  qed
qed

text \<open>Other tasks and the run itself move a reachable store to a later reachable one.\<close>

lemma coordinator_state_others: "coordinator_state H E V s \<Longrightarrow> coordinator_state H E V (others H E cs s)"
  unfolding others_def by (rule coordinator_state_run)

lemma others_later: "store_ok H E z s \<Longrightarrow> store_ok H E z (others H E cs s)"
  unfolding others_def by (induction cs arbitrary: s) (simp_all add: perform_ok)

lemma claim_performs: "fst (claimAction k at s) = perform H E (ClaimAction k at) s"
  by simp

text \<open>An action of an earlier store, in a later one.\<close>

lemma action_persists:
  assumes "store_ok H E z s" and "a \<in> set (actions z)"
  shows "\<exists>a'. find_action s (ac_id a) = Some a' \<and> a' \<in> set (actions s) \<and> ac_terms a' = ac_terms a
    \<and> ac_dispatchCount a \<le> ac_dispatchCount a' \<and> ac_dispatchCount a' = (if ac_state a' = PENDING then 0 else 1)"
proof -
  from assms obtain a' where a': "a' \<in> set (actions s)" "action_later a a'" unfolding store_ok_def history_def by blast
  then have "ac_id a' = ac_id a" by (simp add: action_later_def ac_id_def)
  moreover have "find_action s (ac_id a') = Some a'"
    using assms(1) a'(1) by (intro action_table.lookup_member) (simp_all add: store_ok_def ids_ok_def)
  moreover have "ac_dispatchCount a' = (if ac_state a' = PENDING then 0 else 1)"
    using assms(1) a'(1) by (simp add: store_ok_def action_ok_def)
  ultimately show ?thesis using a' by (auto simp: action_later_def)
qed

section \<open>The phases of a run\<close>

lemma prepare_Inr:
  assumes "dispatch_prepare C cfg actionId operation now s = Inr q"
  shows "\<exists>a. actionId = JStr (ac_id a) \<and> a \<in> set (actions s) \<and> find_action s (ac_id a) = Some a \<and> ac_state a = PENDING
    \<and> sq_terms q = ac_terms a \<and> ac_method a \<noteq> ''evm:claim'' \<and> is_bytes32 (ac_id a)
    \<and> normalizeOperation (ac_method a) operation = Inr (sq_operation q)
    \<and> lightningActionCommitment (nc_hash C) (ac_terms a) (sq_operation q) = Inr (at_payloadDigest (ac_terms a))
    \<and> aa_publicKey (sq_auth q) = rc_responsePublicKey cfg \<and> aa_keyId (sq_auth q) = rc_responseKeyId cfg"
proof -
  from assms obtain k a where k: "actionId = JStr k" "is_bytes32 k" "find_action s k = Some a" "ac_state a = PENDING"
      "normalizeOperation (ac_method a) operation = Inr (sq_operation q)"
      "lightningActionCommitment (nc_hash C) (ac_terms a) (sq_operation q) = Inr (at_payloadDigest (ac_terms a))"
      "sq_terms q = ac_terms a" "aa_publicKey (sq_auth q) = rc_responsePublicKey cfg" "aa_keyId (sq_auth q) = rc_responseKeyId cfg"
    unfolding dispatch_prepare_def authorize_def Let_def
    by (simp only: returned text_bytes32_Inr getAction_Inr) (elim exE conjE, auto simp: result_simps)
  moreover have "a \<in> set (actions s)" "ac_id a = k" using action_table.lookup_SomeD [OF k(3)] by simp_all
  moreover have "ac_method a \<noteq> ''evm:claim''" using k(5) by (auto simp: normalizeOperation_def LIGHTNING_METHODS_def split: if_splits)
  ultimately show ?thesis by blast
qed

text \<open>The store at the moment a run claims its action, and the store that claim leaves.\<close>

definition claim_store :: "(string \<Rightarrow> string) \<Rightarrow> ethers \<Rightarrow> dispatch_run \<Rightarrow> store \<Rightarrow> store" where
  "claim_store H E run s = (if dr_hooks run = None then s else others H E (dr_beforeClaim run) s)"

definition send_store :: "(string \<Rightarrow> string) \<Rightarrow> ethers \<Rightarrow> dispatch_run \<Rightarrow> store \<Rightarrow> store" where
  "send_store H E run s = others H E (dr_duringRequest run) (if dr_hooks run = None then s else others H E (dr_beforeSend run) s)"

lemma dispatch_sent:
  assumes "dispatchLightningAction C E cfg actionId operation run s = (s', True, r)"
  shows "\<exists>q s2 x. dispatch_prepare C cfg actionId operation (dr_authorizedAt run) s = Inr q
    \<and> claimAction (JStr (at_actionId (sq_terms q))) (JInt (aa_authorizedAt (sq_auth q))) (claim_store (nc_hash C) E run s) = (s2, Inr x)
    \<and> dispatch_finish C q (dr_answer run) (dr_observedAt run) (send_store (nc_hash C) E run s2) = (s', r)"
  using assms unfolding dispatchLightningAction_def Let_def claim_store_def send_store_def
  by (simp split: sum.splits prod.splits) auto

lemma dispatch_returns:
  assumes "dispatchLightningAction C E cfg actionId operation run s = (s', sent, Inr x)"
  shows "sent"
  using assms unfolding dispatchLightningAction_def Let_def by (simp split: sum.splits prod.splits)

lemma record_ambiguous_Inl: "record_ambiguous C k code proof at message s = (s', r) \<Longrightarrow> \<exists>e. r = Inl e"
  unfolding record_ambiguous_def by (auto split: sum.splits prod.splits)

lemma finish_Inr:
  assumes f: "dispatch_finish C q answer now s = (s', Inr (row, result))"
  shows "\<exists>status body validated d c at x. answer = Response status True body \<and> success_answer C q body result
    \<and> validateAdapterResult C (sq_terms q) (sq_operation q) body (sq_auth q) = Inr (result, validated)
    \<and> digest (nc_hash C) validated = Inr d
    \<and> recordActionResult (result_json (at_actionId (sq_terms q)) ''confirmed'' d (JStr c) at) s = (s', Inr x)
    \<and> find_action s' (at_actionId (sq_terms q)) = row"
proof -
  let ?k = "at_actionId (sq_terms q)"
  from f obtain at where at: "integer_upto now ''recordedAt'' MAX_SAFE_INTEGER = Inr at"
    unfolding dispatch_finish_def Let_def by (cases "integer_upto now ''recordedAt'' MAX_SAFE_INTEGER") auto
  from f obtain status body where answer: "answer = Response status True body"
    unfolding dispatch_finish_def Let_def at sum.case
    by (cases answer) (auto dest: record_ambiguous_Inl split: if_splits)
  from f obtain result' validated where v: "validateAdapterResult C (sq_terms q) (sq_operation q) body (sq_auth q) = Inr (result', validated)"
    unfolding dispatch_finish_def Let_def at sum.case answer
    by (cases "validateAdapterResult C (sq_terms q) (sq_operation q) body (sq_auth q)") (auto dest: record_ambiguous_Inl)
  from validateAdapterResult_Inr [OF v] obtain d c where d: "digest (nc_hash C) validated = Inr d" "result_code result' = JStr c"
    "success_answer C q body result'" by blast
  from f obtain x where x: "recordActionResult (result_json ?k ''confirmed'' d (JStr c) at) s = (s', Inr x)"
      "bindE (getAction s' ?k) (\<lambda>row. Inr (row, result')) = Inr (row, result)"
    unfolding dispatch_finish_def Let_def at sum.case answer
    by (cases "recordActionResult (result_json ?k ''confirmed'' d (JStr c) at) s") (auto simp: v d split: sum.splits)
  from x(2) have "find_action s' ?k = row" "result' = result" by (auto simp: result_simps)
  then show ?thesis using answer v d x(1) by blast
qed

text \<open>A finished request is in the journal, whatever the answer was.\<close>

definition recorded :: "store \<Rightarrow> action \<Rightarrow> (action option \<times> jsval) result \<Rightarrow> bool" where
  "recorded s' a r \<longleftrightarrow> (\<exists>a'. find_action s' (ac_id a) = Some a' \<and> ac_terms a' = ac_terms a \<and> ac_dispatchCount a' = ac_dispatchCount a
     \<and> (case r of Inr (row, _) \<Rightarrow> row = Some a' \<and> ac_state a' = CONFIRMED
        | Inl e \<Rightarrow> ac_state a' = UNKNOWN \<and> (\<exists>m. e = CoordinatorDispatchError m True ''UNKNOWN'')))"

lemma ambiguous_total:
  assumes "find_action s (ac_id a) = Some a" "ac_state a = DISPATCHING" "ac_method a \<noteq> ''evm:claim''" "is_bytes32 (ac_id a)"
    and "is_code code" "isSafeInteger (JInt at)" "0 \<le> at" "hex_digest (nc_hash C)" "\<exists>t. canonicalize proof = Inr t"
    and "record_ambiguous C (ac_id a) code proof at m s = (s', r)"
  shows "recorded s' a r"
proof -
  obtain d where d: "digest (nc_hash C) proof = Inr d" using assms(9) by (auto simp: digest_def)
  have "is_bytes32 d" by (rule digest_bytes32 [OF assms(8) d])
  from record_total [OF assms(1-4) this assms(5-7), of "''ambiguous''"] d assms(10) show ?thesis
    by (auto simp: record_ambiguous_def recorded_def outcome_state_def)
qed

lemma ambiguous_codes: "is_code ''TRANSPORT_AMBIGUOUS''" "is_code ''INVALID_SUCCESS_RESPONSE''" "is_code (error_code status e)"
proof -
  have "is_code ''UNAUTHENTICATED_ADAPTER_ERROR''" "is_code ''ADAPTER_AMBIGUOUS''" "is_code ''ADAPTER_REJECTED_UNPROVEN''" by code_simp+
  then show "is_code (error_code status e)" by (cases e) (simp_all add: error_code_def)
qed code_simp+

lemma validateAdapterError_text:
  fixes auth :: answer_authorization
  assumes "validateAdapterError C envelope d requestId (aa_publicKey auth) (aa_keyId auth) = Inr e" and "(k, v) \<in> set (adapter_error_fields e)"
  shows "\<exists>t. canonicalize v = Inr t"
proof -
  from assms(1) obtain body where "authenticateAdapterResponse C envelope (aa_publicKey auth) (aa_keyId auth) = Inr (body, ae_authentication e)"
    unfolding validateAdapterError_def by (auto simp: bindE_eq_Inr split: if_splits)
  from authenticate_Inr [OF this] have "\<exists>t. canonicalize (ae_authentication e) = Inr t" ..
  moreover have "\<exists>t. canonicalize (JObj [(''ambiguous'', JBool (ae_ambiguous e)), (''authorizationDigest'', JStr (ae_authorizationDigest e)),
      (''errorCode'', JStr (ae_errorCode e)), (''requestId'', JStr (ae_requestId e))]) = Inr t"
    by (rule canonicalize_object) auto
  ultimately show ?thesis using assms(2) by (auto simp: adapter_error_fields_def simp del: canonicalize.simps)
qed

fun answer_status_ok :: "transport \<Rightarrow> bool" where
  "answer_status_ok NoResponse = True"
| "answer_status_ok (Response status ok body) = isSafeInteger (JInt status)"

lemma finish_total:
  assumes a: "find_action s (ac_id a) = Some a" "ac_state a = DISPATCHING" "ac_method a \<noteq> ''evm:claim''" "is_bytes32 (ac_id a)"
    and at: "isSafeInteger (JInt at)" "0 \<le> at" and H: "hex_digest (nc_hash C)" and q: "sq_terms q = ac_terms a"
    and "answer_status_ok answer" and f: "dispatch_finish C q answer (JInt at) s = (s', r)"
  shows "recorded s' a r"
proof -
  have k: "at_actionId (sq_terms q) = ac_id a" by (simp add: q ac_id_def)
  have now: "integer_upto (JInt at) ''recordedAt'' MAX_SAFE_INTEGER = Inr at" using at by (simp add: integer_upto_Inr)
  note total = ambiguous_total [OF a _ at H]
  show ?thesis
  proof (cases answer)
    case NoResponse
    have "\<exists>t. canonicalize (JObj [(''actionId'', JStr (ac_id a)), (''code'', JStr ''TRANSPORT_AMBIGUOUS''), (''observedAt'', JInt at)]) = Inr t"
      by (rule canonicalize_object) (use at in auto)
    from total [OF ambiguous_codes(1) this] f show ?thesis unfolding dispatch_finish_def Let_def now k NoResponse by simp
  next
    case (Response status ok body)
    show ?thesis
    proof (cases ok)
      case False
      define e where "e = (case validateAdapterError C body (sq_digest q) (at_requestId (sq_terms q)) (aa_publicKey (sq_auth q))
        (aa_keyId (sq_auth q)) of Inl _ \<Rightarrow> None | Inr e \<Rightarrow> Some e)"
      have fields: "\<exists>t. canonicalize v = Inr t" if "(k, v) \<in> set (case e of None \<Rightarrow> [] | Some e \<Rightarrow> adapter_error_fields e)" for k v
        using that validateAdapterError_text unfolding e_def by (fastforce split: sum.splits)
      have "\<exists>t. canonicalize (JObj ([(''actionId'', JStr (ac_id a)), (''httpStatus'', JInt status), (''resultCode'', JStr (error_code status e)),
          (''observedAt'', JInt at)] @ (case e of None \<Rightarrow> [] | Some e \<Rightarrow> adapter_error_fields e))) = Inr t"
        by (rule canonicalize_object) (use at assms(9) fields Response in auto)
      from total [OF ambiguous_codes(3) [of status e] this] f False show ?thesis
        unfolding dispatch_finish_def Let_def now k Response by (simp add: e_def)
    next
      case True
      show ?thesis
      proof (cases "validateAdapterResult C (sq_terms q) (sq_operation q) body (sq_auth q)")
        case (Inl x)
        have "\<exists>t. canonicalize (JObj [(''actionId'', JStr (ac_id a)), (''code'', JStr ''INVALID_SUCCESS_RESPONSE''), (''observedAt'', JInt at)]) = Inr t"
          by (rule canonicalize_object) (use at in auto)
        from total [OF ambiguous_codes(2) this] f True Inl show ?thesis
          unfolding dispatch_finish_def Let_def now k Response by simp
      next
        case (Inr p)
        then obtain result validated where v: "validateAdapterResult C (sq_terms q) (sq_operation q) body (sq_auth q) = Inr (result, validated)"
          by (cases p) simp
        from validateAdapterResult_Inr [OF v] obtain d c where d: "digest (nc_hash C) validated = Inr d" "result_code result = JStr c" "is_code c"
          by blast
        from record_total [OF a digest_bytes32 [OF H d(1)] d(3) at, of "''confirmed''"] f True v d(1,2) a(4) show ?thesis
          unfolding dispatch_finish_def Let_def now k Response
          by (auto simp: recorded_def outcome_state_def getAction_def bytes32_def)
      qed
    qed
  qed
qed

section \<open>Dispatch\<close>

lemma sent_states:
  assumes "coordinator_state (nc_hash C) E V s" and "dispatch_prepare C cfg actionId operation now s = Inr q"
    and "claimAction (JStr (at_actionId (sq_terms q))) (JInt at) (claim_store (nc_hash C) E run s) = (s2, Inr x)"
  shows "coordinator_state (nc_hash C) E V s2" "store_ok (nc_hash C) E s s2"
    and "\<exists>a a2. actionId = JStr (ac_id a) \<and> a \<in> set (actions s) \<and> sq_terms q = ac_terms a \<and> is_bytes32 (ac_id a)
      \<and> find_action s2 (ac_id a) = Some a2 \<and> ac_terms a2 = ac_terms a \<and> ac_state a2 = DISPATCHING \<and> ac_dispatchCount a2 = 1
      \<and> ac_method a2 \<noteq> ''evm:claim''"
proof -
  let ?s1 = "claim_store (nc_hash C) E run s"
  have s1: "coordinator_state (nc_hash C) E V ?s1" "store_ok (nc_hash C) E s ?s1"
    using assms(1) coordinator_state_ok [OF assms(1)] by (simp_all add: claim_store_def coordinator_state_others others_later)
  have s2: "s2 = perform (nc_hash C) E (ClaimAction (JStr (at_actionId (sq_terms q))) (JInt at)) ?s1" using assms(3) by simp
  show "coordinator_state (nc_hash C) E V s2" "store_ok (nc_hash C) E s s2"
    unfolding s2 by (rule coordinator_state_perform [OF s1(1)], rule perform_ok [OF s1(2)])
  from prepare_Inr [OF assms(2)] obtain a where a: "actionId = JStr (ac_id a)" "a \<in> set (actions s)" "sq_terms q = ac_terms a"
      "is_bytes32 (ac_id a)" by blast
  have k: "at_actionId (sq_terms q) = ac_id a" by (simp add: a(3) ac_id_def)
  from claim_success [OF assms(3)] obtain a1 where a1: "find_action ?s1 (ac_id a) = Some a1" "ac_method a1 \<noteq> ''evm:claim''"
      "find_action s2 (ac_id a) = Some (a1\<lparr>ac_state := DISPATCHING, ac_dispatchCount := 1, ac_dispatchedAt := Some at\<rparr>)"
    unfolding k by blast
  moreover have "ac_terms a1 = ac_terms a" using action_persists [OF s1(2) a(2)] a1(1) by auto
  ultimately show "\<exists>a a2. actionId = JStr (ac_id a) \<and> a \<in> set (actions s) \<and> sq_terms q = ac_terms a \<and> is_bytes32 (ac_id a)
      \<and> find_action s2 (ac_id a) = Some a2 \<and> ac_terms a2 = ac_terms a \<and> ac_state a2 = DISPATCHING \<and> ac_dispatchCount a2 = 1
      \<and> ac_method a2 \<noteq> ''evm:claim''"
    using a by (auto simp: ac_method_def)
qed

text \<open>The last phase writes at most one result, of its own action.\<close>

definition records :: "string \<Rightarrow> store \<Rightarrow> store \<Rightarrow> bool" where
  "records k s s' \<longleftrightarrow> s' = s \<or> (\<exists>outcome d code at x. recordActionResult (result_json k outcome d code at) s = (s', x))"

lemma ambiguous_records: "record_ambiguous C k code pf at m s = (s', r) \<Longrightarrow> records k s s'"
  unfolding record_ambiguous_def records_def by (auto split: sum.splits prod.splits)

lemma finish_records:
  assumes "dispatch_finish C q answer now s = (s', r)"
  shows "records (at_actionId (sq_terms q)) s s'"
proof (cases "integer_upto now ''recordedAt'' MAX_SAFE_INTEGER")
  case (Inr at)
  note f = assms [unfolded dispatch_finish_def Let_def Inr sum.case]
  show ?thesis
  proof (cases answer)
    case NoResponse
    with f show ?thesis using ambiguous_records by (simp only: transport.case)
  next
    case (Response status ok body)
    show ?thesis
    proof (cases "ok \<and> (\<exists>p. validateAdapterResult C (sq_terms q) (sq_operation q) body (sq_auth q) = Inr p)")
      case True
      then obtain result validated where v: "ok"
          "validateAdapterResult C (sq_terms q) (sq_operation q) body (sq_auth q) = Inr (result, validated)" by auto
      from f show ?thesis unfolding Response transport.case v(2) sum.case prod.case records_def using v(1)
        by (auto split: sum.splits prod.splits)
    next
      case False
      then show ?thesis using f ambiguous_records unfolding Response transport.case
        by (cases ok; cases "validateAdapterResult C (sq_terms q) (sq_operation q) body (sq_auth q)")
          (simp_all only: simp_thms if_True if_False sum.case, blast+)
    qed
  qed
qed (use assms in \<open>simp add: dispatch_finish_def Let_def records_def\<close>)

lemma finish_writes:
  assumes "dispatch_finish C q answer now s = (s', r)"
  shows "s' = s \<or> (\<exists>i. s' = perform H E (RecordActionResult i) s)"
  using finish_records [OF assms] unfolding records_def by (metis fst_conv perform.simps(21))

text \<open>A result of an action that is no longer in dispatch changes nothing, and neither does a reading of the clock that is no time.\<close>

definition clock_time :: "jsval \<Rightarrow> bool" where
  "clock_time v = (case v of JInt at \<Rightarrow> isSafeInteger v \<and> 0 \<le> at | _ \<Rightarrow> False)"

lemma record_idle:
  assumes "find_action s k = Some a" "ac_method a \<noteq> ''evm:claim''" "ac_state a \<noteq> DISPATCHING" and "records k s s'"
  shows "s' = s"
proof -
  have "s' = s" if r: "recordActionResult (result_json k outcome d code at) s = (s', x)" for outcome d code at x
  proof (cases x)
    case (Inr y)
    with r obtain v where v: "normalizeResultInput (result_json k outcome d code at) = Inr v" "result_body v s = Inr (s', y)"
      by (auto simp: recordActionResult_def withInput_def transaction_Inr split: sum.splits)
    then have k: "ri_actionId v = k" "is_bytes32 k"
      by (auto simp: normalizeResultInput_def result_json_def bindE_eq_Inr bytes32_Inr Let_def split: if_splits option.splits)
    then have "getAction s k = Inr (Some a)" using assms(1) by (simp add: getAction_Inr)
    with v(2) k(1) assms(2,3) show ?thesis by (simp add: result_body_def Let_def split: if_splits)
  qed (use r in \<open>auto simp: recordActionResult_def withInput_def transaction_Inl split: sum.splits prod.splits\<close>)
  with assms(4) show ?thesis unfolding records_def by blast
qed

lemma finish_idle:
  assumes "find_action s (at_actionId (sq_terms q)) = Some a" "ac_method a \<noteq> ''evm:claim''"
    and idle: "ac_state a \<noteq> DISPATCHING \<or> \<not> clock_time now" and f: "dispatch_finish C q answer now s = (s', r)"
  shows "s' = s"
proof (cases "clock_time now")
  case True
  with record_idle [OF assms(1,2) _ finish_records [OF f]] idle show ?thesis by blast
next
  case False
  then have "\<exists>e. integer_upto now ''recordedAt'' MAX_SAFE_INTEGER = Inl e"
    by (auto simp: clock_time_def integer_upto_def split: jsval.splits)
  with f show ?thesis by (auto simp: dispatch_finish_def Let_def)
qed

lemma finish_confirms:
  assumes "dispatch_finish C q answer now s = (s', Inr (row, result))" and a: "find_action s (at_actionId (sq_terms q)) = Some a"
      "ac_method a \<noteq> ''evm:claim''"
  shows "\<exists>a'. row = Some a' \<and> find_action s' (at_actionId (sq_terms q)) = Some a' \<and> ac_state a' = CONFIRMED"
proof -
  from finish_Inr [OF assms(1)] obtain d c at x where f:
      "recordActionResult (result_json (at_actionId (sq_terms q)) ''confirmed'' d (JStr c) at) s = (s', Inr x)"
      "find_action s' (at_actionId (sq_terms q)) = row" by blast
  from record_success [OF f(1) _ a] f(2) show ?thesis by (auto simp: outcome_state_def)
qed

lemma finish_state:
  assumes "coordinator_state (nc_hash C) E V s" and "dispatch_finish C q answer now s = (s', r)"
  shows "coordinator_state (nc_hash C) E V s'"
  using finish_writes [OF assms(2), of "nc_hash C" E] assms(1) coordinator_state_perform by metis

text \<open>
  Property C2.  A dispatch returns only with proof.  When it returns, whatever other tasks did to the store
  meanwhile, the request was sent, its operation is the one the action committed to, the answer was signed
  by the configured adapter and audited for exactly this action within the signed window, and it confirms
  the action: for a payment with a preimage of the payment hash, the action's amount and a fee within the
  limit.  The action is then confirmed, dispatched once, and carries the digest of this evidence.
\<close>

theorem dispatch_returns_only_with_proof:
  assumes "coordinator_state (nc_hash C) E V s"
    and "dispatchLightningAction C E cfg actionId operation run s = (s', sent, Inr (row, result))"
  shows "\<exists>a q status body validated d. sent \<and> row = Some a \<and> a \<in> set (actions s') \<and> actionId = JStr (ac_id a)
    \<and> ac_state a = CONFIRMED \<and> ac_dispatchCount a = 1 \<and> sq_terms q = ac_terms a
    \<and> normalizeOperation (ac_method a) operation = Inr (sq_operation q)
    \<and> lightningActionCommitment (nc_hash C) (ac_terms a) (sq_operation q) = Inr (at_payloadDigest (ac_terms a))
    \<and> aa_publicKey (sq_auth q) = rc_responsePublicKey cfg \<and> aa_keyId (sq_auth q) = rc_responseKeyId cfg
    \<and> dr_answer run = Response status True body \<and> success_answer C q body result
    \<and> validateAdapterResult C (ac_terms a) (sq_operation q) body (sq_auth q) = Inr (result, validated)
    \<and> digest (nc_hash C) validated = Inr d \<and> map_option re_digest (ac_result a) = Some d"
proof -
  let ?H = "nc_hash C"
  have sent: "sent" by (rule dispatch_returns [OF assms(2)])
  with dispatch_sent [of C E cfg actionId operation run s s' "Inr (row, result)"] assms(2) obtain q s2 x where p:
      "dispatch_prepare C cfg actionId operation (dr_authorizedAt run) s = Inr q"
      "claimAction (JStr (at_actionId (sq_terms q))) (JInt (aa_authorizedAt (sq_auth q))) (claim_store ?H E run s) = (s2, Inr x)"
      "dispatch_finish C q (dr_answer run) (dr_observedAt run) (send_store ?H E run s2) = (s', Inr (row, result))" by auto
  let ?s4 = "send_store ?H E run s2"
  note states = sent_states [OF assms(1) p(1,2)]
  obtain a where a: "actionId = JStr (ac_id a)" "a \<in> set (actions s)" "sq_terms q = ac_terms a" "ac_method a \<noteq> ''evm:claim''"
      "normalizeOperation (ac_method a) operation = Inr (sq_operation q)"
      "lightningActionCommitment ?H (ac_terms a) (sq_operation q) = Inr (at_payloadDigest (ac_terms a))"
      "aa_publicKey (sq_auth q) = rc_responsePublicKey cfg" "aa_keyId (sq_auth q) = rc_responseKeyId cfg"
    using prepare_Inr [OF p(1)] by auto
  have k: "at_actionId (sq_terms q) = ac_id a" by (simp add: a(3) ac_id_def)
  have s4: "store_ok ?H E s ?s4" using states(2) by (simp add: send_store_def others_later)
  from finish_Inr [OF p(3)] obtain status body validated d c at y where f: "dr_answer run = Response status True body"
      "success_answer C q body result" "validateAdapterResult C (sq_terms q) (sq_operation q) body (sq_auth q) = Inr (result, validated)"
      "digest ?H validated = Inr d" "recordActionResult (result_json (ac_id a) ''confirmed'' d (JStr c) at) ?s4 = (s', Inr y)"
      "find_action s' (ac_id a) = row" unfolding k by blast
  obtain a4 where a4: "find_action ?s4 (ac_id a) = Some a4" "ac_terms a4 = ac_terms a" using action_persists [OF s4 a(2)] by blast
  then have "ac_method a4 \<noteq> ''evm:claim''" using a(4) by (simp add: ac_method_def)
  from record_success [OF f(5) _ a4(1) this] obtain a' where a': "find_action s' (ac_id a) = Some a'" "ac_state a' = CONFIRMED"
      "map_option re_digest (ac_result a') = Some d" by (auto simp: outcome_state_def)
  have "s' = perform ?H E (RecordActionResult (result_json (ac_id a) ''confirmed'' d (JStr c) at)) ?s4" using f(5) by simp
  then have "store_ok ?H E s s'" by (simp only: perform_ok [OF s4])
  from action_persists [OF this a(2)] a' have "ac_terms a' = ac_terms a" "a' \<in> set (actions s')" "ac_dispatchCount a' = 1" by auto
  moreover from this have "ac_id a' = ac_id a" "ac_method a' = ac_method a" by (simp_all add: ac_id_def ac_method_def)
  moreover have "row = Some a'" using f(6) a'(1) by simp
  ultimately show ?thesis using sent a(1,3,5-8) a'(2,3) f(1-4) by metis
qed

text \<open>The claim of a run, as the store it leaves.\<close>

definition claimed_store :: "node_crypto \<Rightarrow> ethers \<Rightarrow> runner_config \<Rightarrow> jsval \<Rightarrow> jsval \<Rightarrow> dispatch_run \<Rightarrow> store \<Rightarrow> store" where
  "claimed_store C E cfg actionId operation run s =
     (case dispatch_prepare C cfg actionId operation (dr_authorizedAt run) s of
        Inl _ \<Rightarrow> s
      | Inr q \<Rightarrow> fst (claimAction (JStr (at_actionId (sq_terms q))) (JInt (aa_authorizedAt (sq_auth q)))
          (claim_store (nc_hash C) E run s)))"

text \<open>The row of a sent action when its answer arrives, and how the run ends.\<close>

lemma sent_row:
  assumes "coordinator_state (nc_hash C) E V s" and "dispatchLightningAction C E cfg actionId operation run s = (s', True, r)"
  defines "t \<equiv> send_store (nc_hash C) E run (claimed_store C E cfg actionId operation run s)"
  shows "\<exists>q b. dispatch_finish C q (dr_answer run) (dr_observedAt run) t = (s', r) \<and> coordinator_state (nc_hash C) E V t
    \<and> actionId = JStr (ac_id b) \<and> sq_terms q = ac_terms b \<and> is_bytes32 (ac_id b) \<and> find_action t (ac_id b) = Some b
    \<and> b \<in> set (actions t) \<and> ac_dispatchCount b = 1 \<and> ac_state b \<noteq> PENDING \<and> ac_method b \<noteq> ''evm:claim''"
proof -
  let ?H = "nc_hash C"
  from dispatch_sent [OF assms(2)] obtain q s2 x where p:
      "dispatch_prepare C cfg actionId operation (dr_authorizedAt run) s = Inr q"
      "claimAction (JStr (at_actionId (sq_terms q))) (JInt (aa_authorizedAt (sq_auth q))) (claim_store ?H E run s) = (s2, Inr x)"
      "dispatch_finish C q (dr_answer run) (dr_observedAt run) (send_store ?H E run s2) = (s', r)" by blast
  have t: "t = send_store ?H E run s2" using p(1,2) by (simp add: t_def claimed_store_def)
  note states = sent_states [OF assms(1) p(1,2)]
  from states(3) obtain a0 a2 where a: "actionId = JStr (ac_id a0)" "sq_terms q = ac_terms a0" "is_bytes32 (ac_id a0)"
      "find_action s2 (ac_id a0) = Some a2" "ac_terms a2 = ac_terms a0" "ac_dispatchCount a2 = 1" "ac_method a2 \<noteq> ''evm:claim''" by blast
  have id: "ac_id a2 = ac_id a0" using a(5) by (simp add: ac_id_def)
  have state: "coordinator_state ?H E V t" using states(1) by (simp add: t send_store_def coordinator_state_others)
  have "store_ok ?H E s2 t" using coordinator_state_ok [OF states(1)] by (simp add: t send_store_def others_later)
  from action_persists [OF this, of a2] a(4,6) id obtain b where b: "find_action t (ac_id a0) = Some b" "b \<in> set (actions t)"
      "ac_terms b = ac_terms a2" "ac_dispatchCount b = 1" "ac_state b \<noteq> PENDING"
    using action_table.lookup_SomeD [OF a(4)] by (auto split: if_splits)
  moreover have "ac_id b = ac_id a0" "ac_method b \<noteq> ''evm:claim''" using b(3) a(5,7) id by (simp_all add: ac_id_def ac_method_def)
  ultimately show ?thesis using p(3) state a(1-3,5) unfolding t [symmetric]
    by (intro exI [of _ q] exI [of _ b]) simp
qed

text \<open>
  Property C7.  No sent payment is lost, whatever the network answers and whatever other tasks do to the
  store meanwhile.  Once its request was sent the action has been dispatched exactly once and is never
  pending again.  If it is still in dispatch when the answer arrives and the clock then reads a time, the
  run settles it: confirmed when the run returns, otherwise unknown, with its settlement waiting for
  reconciliation and an exception that says so.  If another task has recovered or resolved it first, or if
  the clock reads no time, the run leaves the store as it finds it, so an action the clock failure leaves
  in dispatch is found by the recovery; and a run that returns always returns the confirmed action.
\<close>

theorem sent_dispatch_is_recorded:
  assumes "coordinator_state (nc_hash C) E V s" and "hex_digest (nc_hash C)"
    and "dispatchLightningAction C E cfg actionId operation run s = (s', True, r)" and "answer_status_ok (dr_answer run)"
  shows "\<exists>a b. let t = send_store (nc_hash C) E run (claimed_store C E cfg actionId operation run s) in
      actionId = JStr (ac_id a) \<and> b \<in> set (actions t) \<and> ac_id b = ac_id a \<and> a \<in> set (actions s') \<and> ac_terms a = ac_terms b
    \<and> ac_dispatchCount a = 1 \<and> ac_state a \<noteq> PENDING
    \<and> (if ac_state b = DISPATCHING \<and> clock_time (dr_observedAt run)
       then (case r of Inr (row, _) \<Rightarrow> row = Some a \<and> ac_state a = CONFIRMED
          | Inl e \<Rightarrow> ac_state a = UNKNOWN \<and> (\<exists>m. e = CoordinatorDispatchError m True ''UNKNOWN'')
              \<and> (\<exists>r\<in>set (settlements s'). se_id r = ac_settlementId a \<and> se_reconciliationRequired r))
       else s' = t \<and> a = b \<and> (case r of Inr (row, _) \<Rightarrow> row = Some a \<and> ac_state a = CONFIRMED | Inl e \<Rightarrow> True))"
proof -
  let ?t = "send_store (nc_hash C) E run (claimed_store C E cfg actionId operation run s)"
  from sent_row [OF assms(1,3)] obtain q b where p: "dispatch_finish C q (dr_answer run) (dr_observedAt run) ?t = (s', r)"
      "coordinator_state (nc_hash C) E V ?t" "actionId = JStr (ac_id b)" "sq_terms q = ac_terms b" "is_bytes32 (ac_id b)"
    and b: "find_action ?t (ac_id b) = Some b" "b \<in> set (actions ?t)" "ac_dispatchCount b = 1" "ac_state b \<noteq> PENDING"
      "ac_method b \<noteq> ''evm:claim''" by blast
  have k: "at_actionId (sq_terms q) = ac_id b" using p(4) by (simp add: ac_id_def)
  show ?thesis
  proof (cases "ac_state b = DISPATCHING \<and> clock_time (dr_observedAt run)")
    case True
    then obtain at where at: "dr_observedAt run = JInt at" "isSafeInteger (JInt at)" "0 \<le> at"
      by (auto simp: clock_time_def split: jsval.splits)
    have "recorded s' b r"
      by (rule finish_total [OF _ _ b(5) _ at(2,3) assms(2) _ assms(4) p(1) [unfolded at(1)]])
        (use b(1,3) p(4,5) True in simp_all)
    then obtain a' where a': "find_action s' (ac_id b) = Some a'" "ac_terms a' = ac_terms b" "ac_dispatchCount a' = 1"
        "case r of Inr (row, _) \<Rightarrow> row = Some a' \<and> ac_state a' = CONFIRMED
          | Inl e \<Rightarrow> ac_state a' = UNKNOWN \<and> (\<exists>m. e = CoordinatorDispatchError m True ''UNKNOWN'')"
      unfolding recorded_def b(3) by blast
    have row: "a' \<in> set (actions s')" "ac_id a' = ac_id b" using action_table.lookup_SomeD [OF a'(1)] by simp_all
    have "action_ok (settlements s') a'"
      using coordinator_state_ok [OF finish_state [OF p(2,1)]] row(1) by (simp add: store_ok_def)
    then have "ac_state a' = UNKNOWN \<Longrightarrow> \<exists>r\<in>set (settlements s'). se_id r = ac_settlementId a' \<and> se_reconciliationRequired r"
      by (auto simp: action_ok_def)
    then show ?thesis unfolding Let_def using True p(3) a' row b
      by (intro exI [of _ a'] exI [of _ b]) (auto split: sum.splits)
  next
    case False
    have s': "s' = ?t" by (rule finish_idle [OF _ b(5) _ p(1)]) (use False b(1) k in simp_all)
    have "case r of Inr (row, _) \<Rightarrow> row = Some b \<and> ac_state b = CONFIRMED | Inl e \<Rightarrow> True"
    proof (cases r)
      case (Inr y)
      with finish_confirms [of C q "dr_answer run" "dr_observedAt run" ?t s' "fst y" "snd y" b] p(1) b(1,5) k s'
      show ?thesis by auto
    qed simp
    then show ?thesis unfolding Let_def using False s' p(3) b
      by (intro exI [of _ b]) (simp del: de_Morgan_conj)
  qed
qed

text \<open>
  Property C3.  No interleaving sends an action twice.  Once a run has sent an action, no other run on the
  same action sends it, also one that read the action as pending before the first run's claim: whatever
  calls lie between the first claim and the moment the second run makes its own.
\<close>

theorem never_sent_twice:
  assumes "coordinator_state (nc_hash C) E V s"
    and "dispatchLightningAction C E cfg actionId operation run s = (s', True, r)"
    and "claim_store (nc_hash C) E run' s0 = others (nc_hash C) E calls (claimed_store C E cfg actionId operation run s)"
    and "dispatchLightningAction C E cfg' actionId operation' run' s0 = (s0', sent, r')"
  shows "\<not> sent"
proof
  assume sent
  let ?H = "nc_hash C"
  from dispatch_sent [OF assms(2)] obtain q s2 x where p:
      "dispatch_prepare C cfg actionId operation (dr_authorizedAt run) s = Inr q"
      "claimAction (JStr (at_actionId (sq_terms q))) (JInt (aa_authorizedAt (sq_auth q))) (claim_store ?H E run s) = (s2, Inr x)"
    by blast
  then have s2: "claimed_store C E cfg actionId operation run s = s2" by (simp add: claimed_store_def)
  note states = sent_states [OF assms(1) p]
  from states(3) obtain a a2 where a: "actionId = JStr (ac_id a)" "find_action s2 (ac_id a) = Some a2" "ac_dispatchCount a2 = 1"
    by blast
  let ?t = "others ?H E calls s2"
  have "store_ok ?H E s2 ?t" using coordinator_state_ok [OF states(1)] by (rule others_later)
  moreover have "a2 \<in> set (actions s2)" "ac_id a2 = ac_id a" using action_table.lookup_SomeD [OF a(2)] by simp_all
  ultimately obtain a3 where a3: "find_action ?t (ac_id a) = Some a3" "ac_state a3 \<noteq> PENDING"
    using action_persists [of ?H E s2 ?t a2] a(3) by (auto split: if_splits)
  from \<open>sent\<close> assms(4) dispatch_sent [of C E cfg' actionId operation' run' s0 s0' r'] obtain q' t' y where p':
      "dispatch_prepare C cfg' actionId operation' (dr_authorizedAt run') s0 = Inr q'"
      "claimAction (JStr (at_actionId (sq_terms q'))) (JInt (aa_authorizedAt (sq_auth q'))) ?t = (t', Inr y)"
    unfolding assms(3) s2 by auto
  have "at_actionId (sq_terms q') = ac_id a" using prepare_Inr [OF p'(1)] a(1) by (auto simp: ac_id_def)
  with claim_success [OF p'(2)] a3 show False by auto
qed

section \<open>Reconciliation\<close>

text \<open>
  What an observation establishes: a tracked payment that succeeded comes with its proof, a settled invoice
  was paid in full.
\<close>

definition observed :: "node_crypto \<Rightarrow> action_terms \<Rightarrow> string \<Rightarrow> jsval \<Rightarrow> bool" where
  "observed C t method observation \<longleftrightarrow> (\<exists>status. js_get observation ''status'' = JStr status \<and>
     (if method = ''/routerrpc.Router/TrackPaymentV2''
      then status \<in> set PAYMENT_TRACKING_STATES \<and> (status = ''SUCCEEDED'' \<longrightarrow> payment_proof C t observation)
      else status \<in> set INVOICE_STATES \<and> (\<exists>paid. js_get observation ''amountPaidSats'' = JStr (dec_str paid)
        \<and> (status = ''SETTLED'' \<longrightarrow> at_amountSats t \<le> paid))))"

lemma track_payment_Inr:
  assumes "track_payment C t result = Inr x"
  shows "observed C t ''/routerrpc.Router/TrackPaymentV2'' x"
proof -
  from assms obtain kvs where r: "result = JObj kvs" by (cases result) (auto simp: track_payment_def)
  obtain status where status: "map_of kvs ''status'' = Some (JStr status)" "status \<in> set PAYMENT_TRACKING_STATES"
    using assms unfolding track_payment_def r jsval.case bindE_eq_Inr
    by (auto split: option.splits jsval.splits if_splits)
  show ?thesis
  proof (cases "status = ''SUCCEEDED''")
    case True
    with assms status obtain preimage fee where "is_bytes32 preimage" "preimageHash C preimage = at_paymentHash t"
        "x = JObj [(''status'', JStr status), (''paymentHash'', JStr (at_paymentHash t)),
          (''amountSats'', JStr (dec_str (at_amountSats t))), (''feeSats'', JStr (dec_str fee)), (''preimage'', JStr preimage)]"
      unfolding track_payment_def r jsval.case
      by (auto simp: Let_def result_simps simp del: js_get.simps split: if_splits)
    then show ?thesis using True status(2) by (simp add: observed_def payment_proof_def)
  next
    case False
    with assms status obtain fee where "x = JObj [(''status'', JStr status), (''paymentHash'', JStr (at_paymentHash t)),
        (''amountSats'', JStr (dec_str (at_amountSats t))), (''feeSats'', JStr (dec_str fee))]"
      unfolding track_payment_def r jsval.case
      by (auto simp: Let_def result_simps simp del: js_get.simps split: if_splits)
    then show ?thesis using False status(2) by (simp add: observed_def)
  qed
qed

lemma state_text_Inr:
  "(case v of JStr s \<Rightarrow> if s \<in> A then Inr s else Inl e | _ \<Rightarrow> Inl e) = Inr x \<longleftrightarrow> v = JStr x \<and> x \<in> A"
  by (cases v) auto

lemma lookup_invoice_Inr:
  assumes "lookup_invoice t result = Inr x" and "method \<noteq> ''/routerrpc.Router/TrackPaymentV2''"
  shows "observed C t method x"
proof -
  from assms(1) obtain state paid n where "state \<in> set INVOICE_STATES" "\<not> (state = ''SETTLED'' \<and> paid < at_amountSats t)"
      "x = JObj [(''status'', JStr state), (''paymentHash'', JStr (at_paymentHash t)),
        (''valueSats'', JStr (dec_str (at_amountSats t))), (''amountPaidSats'', JStr (dec_str paid)), (''htlcCount'', JInt n)]"
    unfolding lookup_invoice_def bindE_eq_Inr if_Inl_eq_Inr state_text_Inr sum.inject by metis
  then show ?thesis using assms(2) by (auto simp: observed_def)
qed

lemma validateReconciliationResult_Inr:
  fixes auth :: answer_authorization
  assumes "validateReconciliationResult C t method envelope auth = Inr (observation, validated)"
  shows "observed C t method observation \<and> (\<exists>body. authenticated C auth envelope body
    \<and> audited t method (aa_requestId auth) (aa_authorizedAt auth) (aa_expiresAt auth) (js_get body ''audit''))"
proof -
  from assms obtain body authentication response auditBinding where r:
      "authenticateAdapterResponse C envelope (aa_publicKey auth) (aa_keyId auth) = Inr (body, authentication)"
      "exactDataRecord body [''audit'', ''result''] ''adapter reconciliation response'' = Inr response"
      "validateAdapterAudit t method (aa_requestId auth) (aa_authorizedAt auth) (aa_expiresAt auth) (js_get response ''audit'')
        = Inr auditBinding"
      "(if method = ''/routerrpc.Router/TrackPaymentV2'' then track_payment C t (js_get response ''result'')
        else lookup_invoice t (js_get response ''result'')) = Inr observation"
    unfolding validateReconciliationResult_def by (auto simp: bindE_eq_Inr simp del: js_get.simps)
  have "js_get response ''audit'' = js_get body ''audit''" by (rule exactDataRecord_get [OF r(2)]) simp
  moreover have "observed C t method observation"
    using r(4) track_payment_Inr lookup_invoice_Inr by (auto split: if_splits)
  ultimately show ?thesis using authenticate_Inr [OF r(1)] validateAdapterAudit_Inr [OF r(3)] by auto
qed

definition disposition_state :: "disposition \<Rightarrow> action_state" where
  "disposition_state d = (case d of D_CONFIRMED \<Rightarrow> CONFIRMED | D_FAILED \<Rightarrow> FAILED | _ \<Rightarrow> UNKNOWN)"

lemma reconcile_effect_row:
  assumes "find_action s (ac_id a) = Some a"
  shows "\<exists>a'. find_action ((fst (reconcile_effect a status d pf at s))\<lparr>events := e\<rparr>) (ac_id a) = Some a' \<and> ac_terms a' = ac_terms a
    \<and> ac_state a' = disposition_state d"
  using assms by (cases d) (auto simp: reconcile_effect_def disposition_state_def Let_def set_action_result_def set_evm_state_def halt_row_def
      set_reconciliation_def action_table.lookup_rows action_table.rows_modify row_find_update ac_id_def)

lemma reconcile_success:
  assumes "reconcileAction (reconciliation_json k (JStr observedState) dg at) s = (s', Inr (d, row, settlement))"
  shows "\<exists>a a'. find_action s k = Some a \<and> ac_state a = UNKNOWN \<and> find_action s' k = Some a' \<and> row = Some a'
    \<and> ac_terms a' = ac_terms a \<and> ac_state a' = disposition_state d
    \<and> reconciliationDisposition (ac_method a) (JStr observedState) = Inr (observedState, d)"
proof -
  have get: "js_get (reconciliation_json k v dg at) ''observedState'' = v" for v by (simp add: reconciliation_json_def)
  from assms have "reconcile_body k (JStr observedState) dg at s = Inr (s', d, row, settlement)"
    by (auto simp: reconcileAction_def withInput_def transaction_Inr get result_simps reconciliation_json_def split: sum.splits)
  then obtain a e where a: "find_action s k = Some a" "ac_state a = UNKNOWN"
      "reconciliationDisposition (ac_method a) (JStr observedState) = Inr (observedState, d)"
      "s' = (fst (reconcile_effect a observedState d dg at s))\<lparr>events := e\<rparr>" "find_action s' k = row"
    unfolding reconcile_body_def Let_def
    by (simp only: returned getAction_Inr getSettlement_Inr)
      (elim exE conjE, drule event_Inr, auto simp: reconciliationDisposition_def result_simps)
  have "ac_id a = k" using action_table.lookup_SomeD [OF a(1)] by simp
  with reconcile_effect_row [of s a e observedState d dg at] a show ?thesis by auto
qed

lemma reconcile_prepare_Inr:
  assumes "reconcile_prepare C cfg actionId requestId now s = Inr (method, q)"
  shows "\<exists>a. actionId = JStr (ac_id a) \<and> a \<in> set (actions s) \<and> sq_terms q = ac_terms a \<and> reconcile_method (ac_method a) = Some method
    \<and> aa_publicKey (sq_auth q) = rc_responsePublicKey cfg \<and> aa_keyId (sq_auth q) = rc_responseKeyId cfg
    \<and> requestId = JStr (aa_requestId (sq_auth q))"
proof -
  from assms obtain k a where k: "actionId = JStr k" "find_action s k = Some a" "reconcile_method (ac_method a) = Some method"
      "sq_terms q = ac_terms a" "aa_publicKey (sq_auth q) = rc_responsePublicKey cfg" "aa_keyId (sq_auth q) = rc_responseKeyId cfg"
      "requestId = JStr (aa_requestId (sq_auth q))"
    unfolding reconcile_prepare_def authorize_def Let_def
    by (simp only: returned text_bytes32_Inr getAction_Inr) (elim exE conjE, auto simp: result_simps)
  moreover have "a \<in> set (actions s)" "ac_id a = k" using action_table.lookup_SomeD [OF k(2)] by simp_all
  ultimately show ?thesis by blast
qed

text \<open>The states a read of the network may report, and which of them decide.\<close>

lemma decisive_states:
  assumes "reconciliationDisposition m (JStr st) = Inr (st, d)" and "reconcile_method m = Some method"
    and "m \<in> set VALUE_METHODS" and "disposition_state d \<noteq> UNKNOWN"
  shows "st \<noteq> ''NOT_FOUND''"
    and "method = ''/routerrpc.Router/TrackPaymentV2'' \<longrightarrow> d = D_CONFIRMED \<longrightarrow> st = ''SUCCEEDED''"
    and "d = D_FAILED \<longrightarrow> st \<in> {''FAILED'', ''CANCELED''}"
  using assms by (auto simp: reconciliationDisposition_def RECONCILIATION_DECISIONS_def result_simps VALUE_METHODS_def
      reconcile_method_def starts_with_def disposition_state_def split: if_splits option.splits)

lemma reconcile_evidence_Inr:
  assumes "reconcile_evidence C method q status ok body at = Inr (state, pf, observation)"
  shows "\<not> ok \<and> state = JStr ''NOT_FOUND'' \<or> ok \<and> (\<exists>o' validated. observation = Some o' \<and> state = js_get o' ''status''
    \<and> validateReconciliationResult C (sq_terms q) method body (sq_auth q) = Inr (o', validated))"
  using assms unfolding reconcile_evidence_def Let_def by (auto split: if_splits sum.splits)

text \<open>A resolved action and the answer that resolved it.\<close>

definition resolved_on_evidence ::
    "node_crypto \<Rightarrow> signed_request \<Rightarrow> string \<Rightarrow> action \<Rightarrow> transport \<Rightarrow> jsval option \<Rightarrow> bool" where
  "resolved_on_evidence C q method a answer observation \<longleftrightarrow> (\<exists>status envelope body obs. answer = Response status True envelope
     \<and> authenticated C (sq_auth q) envelope body \<and> observation = Some obs \<and> observed C (ac_terms a) method obs
     \<and> audited (ac_terms a) method (aa_requestId (sq_auth q)) (aa_authorizedAt (sq_auth q)) (aa_expiresAt (sq_auth q)) (js_get body ''audit'')
     \<and> (ac_state a = CONFIRMED \<and> ac_method a = ''/routerrpc.Router/SendPaymentV2'' \<and> payment_proof C (ac_terms a) obs
        \<or> ac_state a = CONFIRMED \<and> ac_method a \<noteq> ''/routerrpc.Router/SendPaymentV2''
        \<or> ac_state a = FAILED \<and> js_get obs ''status'' \<in> {JStr ''FAILED'', JStr ''CANCELED''}))"

lemma reconcile_thrown: "reconcileAction i s = (s', Inl e) \<Longrightarrow> s' = s"
  by (auto simp: reconcileAction_def withInput_def transaction_Inl split: sum.splits prod.splits)

lemma evidence_resolves:
  assumes evidence: "reconcile_evidence C rpc q status ok body at = Inr (JStr st, pf, observation)" and q: "sq_terms q = ac_terms a"
    and m: "reconciliationDisposition (ac_method a) (JStr st) = Inr (st, d)" "reconcile_method (ac_method a) = Some rpc"
      "ac_method a \<in> set VALUE_METHODS"
    and resolved: "ac_state a = disposition_state d" "ac_state a \<noteq> UNKNOWN"
  shows "resolved_on_evidence C q rpc a (Response status ok body) observation"
proof -
  note decide = decisive_states [OF m resolved(2) [unfolded resolved(1)]]
  from reconcile_evidence_Inr [OF evidence] decide(1) obtain obs validated where ev: "ok" "observation = Some obs"
      "js_get obs ''status'' = JStr st" "validateReconciliationResult C (sq_terms q) rpc body (sq_auth q) = Inr (obs, validated)" by auto
  from validateReconciliationResult_Inr [OF ev(4)] obtain answer where v: "observed C (ac_terms a) rpc obs"
      "authenticated C (sq_auth q) body answer"
      "audited (ac_terms a) rpc (aa_requestId (sq_auth q)) (aa_authorizedAt (sq_auth q)) (aa_expiresAt (sq_auth q)) (js_get answer ''audit'')"
    unfolding q by blast
  have "rpc = ''/routerrpc.Router/TrackPaymentV2''" if "ac_method a = ''/routerrpc.Router/SendPaymentV2''"
    using m(2) that by (simp add: reconcile_method_def)
  then have "payment_proof C (ac_terms a) obs" if "ac_method a = ''/routerrpc.Router/SendPaymentV2''" "d = D_CONFIRMED"
    using that v(1) decide(2) ev(3) by (auto simp: observed_def)
  moreover have "d = D_CONFIRMED \<or> d = D_FAILED" using resolved by (cases d) (auto simp: disposition_state_def)
  ultimately have "ac_state a = CONFIRMED \<and> ac_method a = ''/routerrpc.Router/SendPaymentV2'' \<and> payment_proof C (ac_terms a) obs
       \<or> ac_state a = CONFIRMED \<and> ac_method a \<noteq> ''/routerrpc.Router/SendPaymentV2''
       \<or> ac_state a = FAILED \<and> js_get obs ''status'' \<in> {JStr ''FAILED'', JStr ''CANCELED''}"
    using decide(3) ev(3) resolved(1) by (auto simp: disposition_state_def)
  then show ?thesis using v ev(1,2) unfolding resolved_on_evidence_def by blast
qed

text \<open>
  Property C4.  Reconciliation resolves an action only on evidence.  When it returns, whatever other tasks
  did to the store meanwhile, the action it returns is the one asked for, and it is confirmed or failed only
  if the adapter answered with success, signed under the configured key and audited for this action, this
  read and its window; a confirmed payment comes with its preimage, and a failed action was observed failed
  or cancelled.  When it throws, it has written nothing.
\<close>

theorem reconciliation_needs_evidence:
  assumes "coordinator_state (nc_hash C) E V s"
    and "reconcileLightningAction C E cfg actionId requestId run s = (s', r)"
  shows "case r of
      Inl e \<Rightarrow> rr_duringRequest run = [] \<and> rr_beforeWrite run = [] \<longrightarrow> s' = s
    | Inr ((d, row, settlement), observation) \<Rightarrow> (\<exists>a q method. row = Some a \<and> a \<in> set (actions s') \<and> actionId = JStr (ac_id a)
        \<and> reconcile_method (ac_method a) = Some method \<and> sq_terms q = ac_terms a \<and> requestId = JStr (aa_requestId (sq_auth q))
        \<and> aa_publicKey (sq_auth q) = rc_responsePublicKey cfg \<and> aa_keyId (sq_auth q) = rc_responseKeyId cfg
        \<and> (ac_state a = UNKNOWN \<or> resolved_on_evidence C q method a (rr_answer run) observation))"
proof (cases r)
  case (Inl e)
  have "s' = s" if "rr_duringRequest run = []" "rr_beforeWrite run = []"
    using assms(2) that unfolding reconcileLightningAction_def Let_def Inl
    by (auto simp: others_def split: sum.splits prod.splits transport.splits if_splits dest: reconcile_thrown)
  then show ?thesis using Inl by simp
next
  case (Inr p)
  obtain d row settlement observation where p: "p = ((d, row, settlement), observation)" by (cases p) auto
  let ?H = "nc_hash C"
  from assms(2) obtain rpc q status ok body at state pf dg t where run:
      "reconcile_prepare C cfg actionId requestId (rr_authorizedAt run) s = Inr (rpc, q)"
      "rr_answer run = Response status ok body" "reconcile_evidence C rpc q status ok body at = Inr (state, pf, observation)"
      "t = others ?H E (rr_duringRequest run) s \<or> t = others ?H E (rr_beforeWrite run) (others ?H E (rr_duringRequest run) s)"
      "reconcileAction (reconciliation_json (at_actionId (sq_terms q)) state dg at) t = (s', Inr (d, row, settlement))"
    unfolding reconcileLightningAction_def Let_def Inr p
    by (auto simp: bindE_eq_Inr split: sum.splits prod.splits transport.splits if_splits) blast+
  from reconcile_prepare_Inr [OF run(1)] obtain a where a: "actionId = JStr (ac_id a)" "a \<in> set (actions s)" "sq_terms q = ac_terms a"
      "reconcile_method (ac_method a) = Some rpc" "aa_publicKey (sq_auth q) = rc_responsePublicKey cfg"
      "aa_keyId (sq_auth q) = rc_responseKeyId cfg" "requestId = JStr (aa_requestId (sq_auth q))" by blast
  have k: "at_actionId (sq_terms q) = ac_id a" by (simp add: a(3) ac_id_def)
  obtain st where st: "state = JStr st"
    using reconcile_evidence_Inr [OF run(3)] validateReconciliationResult_Inr unfolding observed_def by blast
  from reconcile_success [OF run(5) [unfolded st k]] obtain a1 a' where a1: "find_action t (ac_id a) = Some a1"
      "find_action s' (ac_id a) = Some a'" "row = Some a'" "ac_terms a' = ac_terms a1" "ac_state a' = disposition_state d"
      "reconciliationDisposition (ac_method a1) (JStr st) = Inr (st, d)" by blast
  have t: "store_ok ?H E s t" using run(4) coordinator_state_ok [OF assms(1)] by (auto intro: others_later)
  have terms: "ac_terms a1 = ac_terms a" using action_persists [OF t a(2)] a1(1) by auto
  then have same: "ac_terms a' = ac_terms a" "ac_id a' = ac_id a" "ac_method a' = ac_method a" "ac_method a1 = ac_method a"
    using a1(4) by (simp_all add: ac_id_def ac_method_def)
  have mem: "a' \<in> set (actions s')" using action_table.lookup_SomeD [OF a1(2)] by simp
  have m: "ac_method a \<in> set VALUE_METHODS"
    using coordinator_action(1) [OF assms(1) a(2)] by (simp add: action_typed_def ac_method_def)
  have "resolved_on_evidence C q rpc a' (rr_answer run) observation" if "ac_state a' \<noteq> UNKNOWN"
    unfolding run(2)
    by (rule evidence_resolves [OF run(3) [unfolded st]]) (use a(3,4) a1(5,6) m same that in simp_all)
  then show ?thesis unfolding Inr p sum.case prod.case using a a1(3) mem same by metis
qed

section \<open>Witnesses\<close>

text \<open>The sample run on the planned payment: the hooks are unset, and no other task uses the store.\<close>

definition sample_run :: "transport \<Rightarrow> dispatch_run" where
  "sample_run answer = \<lparr>dr_authorizedAt = JInt 1040, dr_sendAt = JInt 1041, dr_observedAt = JInt 1045, dr_hooks = None,
     dr_beforeClaim = [], dr_beforeSend = [], dr_duringRequest = [], dr_answer = answer\<rparr>"

lemma sample_planned: "coordinator_state (nc_hash sample_crypto) sample_ethers sample_validators planned_store"
  unfolding sample_crypto_hash by (rule sample_states(4))

lemma sample_sent:
  "\<exists>q. dispatchLightningAction sample_crypto sample_ethers sample_config (JStr h0) sample_operation (sample_run answer) planned_store
      = (fst (dispatch_finish sample_crypto q answer (JInt 1045) dispatched_store), True,
         snd (dispatch_finish sample_crypto q answer (JInt 1045) dispatched_store))
    \<and> claimed_store sample_crypto sample_ethers sample_config (JStr h0) sample_operation (sample_run answer) planned_store = dispatched_store
    \<and> sq_terms q = sample_action_terms \<and> sq_operation q = sample_operation \<and> sq_auth q = sample_auth sample_request 1040"
proof -
  obtain q where q: "dispatch_prepare sample_crypto sample_config (JStr h0) sample_operation (JInt 1040) planned_store = Inr q"
      "sq_terms q = sample_action_terms" "sq_operation q = sample_operation" "sq_auth q = sample_auth sample_request 1040"
    using sample_prepare by blast
  have "claimAction (JStr h0) (JInt 1040) planned_store = (dispatched_store, Inr (Some action_1))" by code_simp
  moreover have "at_actionId sample_action_terms = h0" "aa_authorizedAt (sample_auth sample_request 1040) = 1040"
    by (simp_all add: sample_action_terms_def sample_auth_def)
  moreover have "dispatch_send sample_config q (JInt 1041) = Inr ()"
    by (simp add: dispatch_send_def q(4) sample_auth_def sample_config_def integer_upto_def MAX_SAFE_INTEGER_def)
  ultimately show ?thesis
    using q by (intro exI [of _ q])
      (simp add: dispatchLightningAction_def claimed_store_def claim_store_def sample_run_def others_def Let_def case_prod_beta)
qed

lemma sample_claimed: "find_action dispatched_store h0 = Some action_1" "ac_state action_1 = DISPATCHING"
    "ac_method action_1 \<noteq> ''evm:claim''" "is_bytes32 h0"
  by code_simp+

lemma sample_confirmed:
  "\<exists>answer s' a result. dispatchLightningAction sample_crypto sample_ethers sample_config (JStr h0) sample_operation (sample_run answer)
    planned_store = (s', True, Inr (Some a, result))"
proof -
  obtain envelope result validated where v: "validateAdapterResult sample_crypto sample_action_terms sample_operation envelope
      (sample_auth sample_request 1040) = Inr (result, validated)" using sample_answer_judged by blast
  let ?answer = "Response 200 True envelope"
  obtain q where q: "dispatchLightningAction sample_crypto sample_ethers sample_config (JStr h0) sample_operation (sample_run ?answer) planned_store
      = (fst (dispatch_finish sample_crypto q ?answer (JInt 1045) dispatched_store), True,
         snd (dispatch_finish sample_crypto q ?answer (JInt 1045) dispatched_store))"
      "sq_terms q = sample_action_terms" "sq_operation q = sample_operation" "sq_auth q = sample_auth sample_request 1040"
    using sample_sent by blast
  from validateAdapterResult_Inr [of sample_crypto q envelope result validated] v q(2-4) obtain d c where d:
      "digest (nc_hash sample_crypto) validated = Inr d" "result_code result = JStr c" "is_code c" by auto
  have at: "isSafeInteger (JInt 1045)" "integer_upto (JInt 1045) ''recordedAt'' MAX_SAFE_INTEGER = Inr 1045" by code_simp+
  have k: "at_actionId sample_action_terms = h0" by (simp add: sample_action_terms_def)
  from record_total [OF sample_claimed digest_bytes32 [OF sample_crypto_hex d(1)] d(3) at(1), of "''confirmed''"] obtain s' a' where
      "recordActionResult (result_json h0 ''confirmed'' d (JStr c) 1045) dispatched_store = (s', Inr (Some a'))" "find_action s' h0 = Some a'"
    by auto
  then have "dispatch_finish sample_crypto q ?answer (JInt 1045) dispatched_store = (s', Inr (Some a', result))"
    using v d at q(2-4) k sample_claimed(4) by (simp add: dispatch_finish_def getAction_def bytes32_def)
  with q(1) show ?thesis by auto
qed

theorem dispatch_returns_only_with_proof_witness:
  "\<exists>answer s' a result. dispatchLightningAction sample_crypto sample_ethers sample_config (JStr h0) sample_operation (sample_run answer)
      planned_store = (s', True, Inr (Some a, result))
    \<and> a \<in> set (actions s') \<and> ac_id a = h0 \<and> ac_state a = CONFIRMED \<and> ac_dispatchCount a = 1"
proof -
  obtain answer s' a result where run: "dispatchLightningAction sample_crypto sample_ethers sample_config (JStr h0) sample_operation
      (sample_run answer) planned_store = (s', True, Inr (Some a, result))" using sample_confirmed by blast
  from dispatch_returns_only_with_proof [OF sample_planned run]
  have "a \<in> set (actions s') \<and> ac_id a = h0 \<and> ac_state a = CONFIRMED \<and> ac_dispatchCount a = 1" by auto
  with run show ?thesis by blast
qed

text \<open>A run that gets no answer.\<close>

theorem sent_dispatch_is_recorded_witness:
  "\<exists>a. a \<in> set (actions (fst (dispatchLightningAction sample_crypto sample_ethers sample_config (JStr h0) sample_operation
      (sample_run NoResponse) planned_store))) \<and> ac_id a = h0 \<and> ac_dispatchCount a = 1 \<and> ac_state a = UNKNOWN"
proof -
  obtain s' r where run: "dispatchLightningAction sample_crypto sample_ethers sample_config (JStr h0) sample_operation
      (sample_run NoResponse) planned_store = (s', True, r)"
    and claimed: "claimed_store sample_crypto sample_ethers sample_config (JStr h0) sample_operation (sample_run NoResponse) planned_store
      = dispatched_store"
    using sample_sent [of NoResponse] by blast
  have dispatched_only: "\<forall>b\<in>set (actions dispatched_store). ac_state b = DISPATCHING" by code_simp
  have quiet: "send_store (nc_hash sample_crypto) sample_ethers (sample_run NoResponse) dispatched_store = dispatched_store"
    by (simp add: send_store_def sample_run_def others_def)
  have clock: "clock_time (dr_observedAt (sample_run NoResponse))" by (simp add: clock_time_def sample_run_def MAX_SAFE_INTEGER_def)
  have answer: "answer_status_ok (dr_answer (sample_run NoResponse))" by (simp add: sample_run_def)
  have "\<nexists>x. r = Inr x" using dispatch_sent [OF run] finish_Inr by (fastforce simp: sample_run_def)
  then obtain e where e: "r = Inl e" by (cases r) auto
  from sent_dispatch_is_recorded [OF sample_planned sample_crypto_hex run answer] dispatched_only clock
  obtain a where "a \<in> set (actions s')" "ac_id a = h0" "ac_dispatchCount a = 1" "ac_state a = UNKNOWN"
    unfolding claimed quiet Let_def e by auto
  with run show ?thesis by auto
qed

text \<open>Two runs that both read the action as pending: the first claims and sends while the second waits for its hook.\<close>

definition late_run :: dispatch_run where
  "late_run = (sample_run NoResponse)\<lparr>dr_hooks := Some (Inr (), Inr ()), dr_beforeClaim := [ClaimAction (JStr h0) (JInt 1040)]\<rparr>"

theorem never_sent_twice_witness:
  "\<not> fst (snd (dispatchLightningAction sample_crypto sample_ethers sample_config (JStr h0) sample_operation late_run planned_store))"
proof -
  let ?run = "\<lambda>run. dispatchLightningAction sample_crypto sample_ethers sample_config (JStr h0) sample_operation run planned_store"
  obtain s' r where run: "?run (sample_run NoResponse) = (s', True, r)"
    and claimed: "claimed_store sample_crypto sample_ethers sample_config (JStr h0) sample_operation (sample_run NoResponse) planned_store
      = dispatched_store"
    using sample_sent [of NoResponse] by blast
  have "claim_store (nc_hash sample_crypto) sample_ethers late_run planned_store = others (nc_hash sample_crypto) sample_ethers [] dispatched_store"
    using sample_claim unfolding sample_crypto_hash [symmetric]
    by (simp add: claim_store_def late_run_def others_def del: perform.simps)
  then have late: "claim_store (nc_hash sample_crypto) sample_ethers late_run planned_store = others (nc_hash sample_crypto) sample_ethers []
      (claimed_store sample_crypto sample_ethers sample_config (JStr h0) sample_operation (sample_run NoResponse) planned_store)"
    unfolding claimed .
  obtain t sent x where second: "?run late_run = (t, sent, x)" by (cases "?run late_run") auto
  show ?thesis using never_sent_twice [OF sample_planned run late second] second by simp
qed

definition sample_read :: "transport \<Rightarrow> reconcile_run" where
  "sample_read answer = \<lparr>rr_authorizedAt = JInt 1060, rr_observedAt = JInt 1060, rr_hook = None, rr_duringRequest = [],
     rr_beforeWrite = [], rr_answer = answer\<rparr>"

lemma sample_reconciled:
  "\<exists>answer s' d row settlement observation. reconcileLightningAction sample_crypto sample_ethers sample_config (JStr h0) (JStr h4)
    (sample_read answer) recovered_store = (s', Inr ((d, row, settlement), observation))"
proof -
  obtain envelope obs validated where v: "validateReconciliationResult sample_crypto sample_action_terms ''/routerrpc.Router/TrackPaymentV2''
      envelope (sample_auth h4 1060) = Inr (obs, validated)" "js_get obs ''status'' = JStr ''SUCCEEDED''"
      and validated: "\<exists>t. canonicalize validated = Inr t"
    using sample_track_judged by blast
  let ?answer = "Response 200 True envelope"
  obtain q where q: "reconcile_prepare sample_crypto sample_config (JStr h0) (JStr h4) (JInt 1060) recovered_store
      = Inr (''/routerrpc.Router/TrackPaymentV2'', q)" "sq_terms q = sample_action_terms" "sq_auth q = sample_auth h4 1060"
    using sample_reconcile_prepare by blast
  have evidence: "reconcile_evidence sample_crypto ''/routerrpc.Router/TrackPaymentV2'' q 200 True envelope 1060
      = Inr (JStr ''SUCCEEDED'', validated, Some obs)"
    using v q(2,3) by (simp add: reconcile_evidence_def)
  have "\<not> isl (snd (reconcileAction (reconciliation_json h0 (JStr ''SUCCEEDED'') digest5 1060) recovered_store))" by code_simp
  then obtain s' r where "reconcileAction (reconciliation_json h0 (JStr ''SUCCEEDED'') digest5 1060) recovered_store = (s', Inr r)"
    by (cases "reconcileAction (reconciliation_json h0 (JStr ''SUCCEEDED'') digest5 1060) recovered_store") (auto simp: not_isl_iff)
  moreover have "integer_upto (JInt 1060) ''observedAt'' MAX_SAFE_INTEGER = Inr 1060" "at_actionId sample_action_terms = h0" by code_simp+
  ultimately have "reconcileLightningAction sample_crypto sample_ethers sample_config (JStr h0) (JStr h4) (sample_read ?answer) recovered_store
      = (s', Inr (r, Some obs))"
    using q evidence sample_digest [OF validated] by (simp add: reconcileLightningAction_def sample_read_def others_def)
  then show ?thesis by (cases r) blast
qed

theorem reconciliation_needs_evidence_witness:
  "\<exists>answer s' d a settlement observation. reconcileLightningAction sample_crypto sample_ethers sample_config (JStr h0) (JStr h4)
      (sample_read answer) recovered_store = (s', Inr ((d, Some a, settlement), observation))
    \<and> a \<in> set (actions s') \<and> ac_id a = h0"
proof -
  have s: "coordinator_state (nc_hash sample_crypto) sample_ethers sample_validators recovered_store"
    unfolding sample_crypto_hash by (rule sample_states(6))
  obtain answer s' d row settlement observation where run: "reconcileLightningAction sample_crypto sample_ethers sample_config (JStr h0)
      (JStr h4) (sample_read answer) recovered_store = (s', Inr ((d, row, settlement), observation))" using sample_reconciled by blast
  from reconciliation_needs_evidence [OF s run]
  obtain a where "row = Some a" "a \<in> set (actions s')" "ac_id a = h0" by auto
  with run show ?thesis by blast
qed

end
