(* ===== verification/Bolt11_Codec.thy ===== *)
theory Bolt11_Codec
  imports Canonical_Digest "HOL-Library.Word"
begin

text \<open>
  The text layer of Lightning invoices (\<^verbatim>\<open>src/lib/bolt11.mjs\<close>): the Bech32 alphabet and checksum, and the
  regrouping of five-bit words into bytes.  JavaScript's bit operations work on 32 bits, so the numbers
  they touch are 32-bit words here.
\<close>

unbundle bit_operations_syntax

type_synonym u32 = "32 word"

definition bolt11_fail :: "string \<Rightarrow> 'a result" where
  "bolt11_fail message = Inl (Bolt11DecodeError message)"

section \<open>Bech32\<close>

definition BECH32_ALPHABET :: string where
  "BECH32_ALPHABET = ''qpzry9x8gf2tvdw0s3jn54khce6mua7l''"

definition BECH32_INDEX :: "char \<Rightarrow> u32 option" where
  "BECH32_INDEX c = map_of (zip BECH32_ALPHABET (map of_nat [0..<32])) c"

definition BECH32_GENERATORS :: "u32 list" where
  "BECH32_GENERATORS = [0x3b6a57b2, 0x26508e6d, 0x1ea119fa, 0x3d4233dd, 0x2a1462b3]"

text \<open>The inner loop of \<^verbatim>\<open>polymod\<close> over the generators, from the given index.\<close>

fun mix_generators :: "u32 \<Rightarrow> nat \<Rightarrow> u32 list \<Rightarrow> u32 \<Rightarrow> u32" where
  "mix_generators hi index [] checksum = checksum"
| "mix_generators hi index (g # gs) checksum =
     mix_generators hi (index + 1) gs
       (if drop_bit index hi AND 1 \<noteq> 0 then checksum XOR g else checksum)"

definition polymod_step :: "u32 \<Rightarrow> u32 \<Rightarrow> u32" where
  "polymod_step checksum v =
     (let hi = drop_bit 25 checksum in
      mix_generators hi 0 BECH32_GENERATORS (push_bit 5 (checksum AND 0x1ffffff) XOR v))"

definition polymod :: "u32 list \<Rightarrow> u32" where
  "polymod values = foldl polymod_step 1 values"

definition humanReadableExpansion :: "string \<Rightarrow> u32 list" where
  "humanReadableExpansion s =
     map (\<lambda>c. drop_bit 5 (of_nat (of_char c))) s @ 0 # map (\<lambda>c. of_nat (of_char c) AND 31) s"

text \<open>\<^verbatim>\<open>s.lastIndexOf(c)\<close>, -1 when the character is absent.\<close>

definition lastIndexOf :: "char \<Rightarrow> string \<Rightarrow> int" where
  "lastIndexOf c s = (if c \<in> set s
     then int (length s) - 1 - int (length (takeWhile (\<lambda>x. x \<noteq> c) (rev s))) else -1)"

fun bech32_words :: "string \<Rightarrow> u32 list result" where
  "bech32_words [] = Inr []"
| "bech32_words (c # cs) = (case BECH32_INDEX c of
     None \<Rightarrow> bolt11_fail ''BOLT 11 contains a non-Bech32 character''
   | Some w \<Rightarrow> bindE (bech32_words cs) (\<lambda>ws. Inr (w # ws)))"

definition decodeBech32 :: "string \<Rightarrow> (string \<times> u32 list) result" where
  "decodeBech32 invoice =
     (let separator = lastIndexOf (CHR ''1'') invoice in
      if separator < 1 \<or> separator + 7 > int (length invoice)
      then bolt11_fail ''BOLT 11 Bech32 separator is invalid''
      else let humanReadablePart = take (nat separator) invoice in
      if list_ex (\<lambda>c. (of_char c :: nat) < 33 \<or> (of_char c :: nat) > 126) humanReadablePart
      then bolt11_fail ''BOLT 11 human-readable part is invalid''
      else bindE (bech32_words (drop (nat separator + 1) invoice)) (\<lambda>words.
      if polymod (humanReadableExpansion humanReadablePart @ words) \<noteq> 1
      then bolt11_fail ''BOLT 11 Bech32 checksum is invalid''
      else Inr (humanReadablePart, take (length words - 6) words)))"

section \<open>Regrouping of bits\<close>

text \<open>
  The \<^verbatim>\<open>while\<close> loop of \<^verbatim>\<open>convertBits\<close>, which takes groups of \<open>toBits\<close> off the accumulator.  The sources
  call it with \<open>toBits = 8\<close>; a group of no bits would not end and is cut off here.
\<close>

function emit_groups :: "u32 \<Rightarrow> nat \<Rightarrow> nat \<Rightarrow> u32 list \<Rightarrow> nat \<times> u32 list" where
  "emit_groups accumulator toBits bits out =
     (if toBits \<le> bits \<and> 0 < toBits
      then emit_groups accumulator toBits (bits - toBits)
        (out @ [drop_bit (bits - toBits) accumulator AND (push_bit toBits 1 - 1)])
      else (bits, out))"
  by pat_completeness auto
termination
  by (relation "measure (\<lambda>(accumulator, toBits, bits, out). bits)") auto

declare emit_groups.simps [simp del]

text \<open>The loop over the values: accumulator, number of pending bits, output.\<close>

fun convert_loop :: "u32 list \<Rightarrow> nat \<Rightarrow> nat \<Rightarrow> u32 \<Rightarrow> nat \<Rightarrow> u32 list \<Rightarrow> (u32 \<times> nat \<times> u32 list) result" where
  "convert_loop [] fromBits toBits accumulator bits out = Inr (accumulator, bits, out)"
| "convert_loop (v # vs) fromBits toBits accumulator bits out =
     (if drop_bit fromBits v \<noteq> 0 then bolt11_fail ''BOLT 11 contains an invalid data word''
      else let accumulator' = (push_bit fromBits accumulator OR v) AND (push_bit (fromBits + toBits - 1) 1 - 1);
               (bits', out') = emit_groups accumulator' toBits (bits + fromBits) out in
           convert_loop vs fromBits toBits accumulator' bits' out')"

definition convertBits :: "u32 list \<Rightarrow> nat \<Rightarrow> nat \<Rightarrow> bool \<Rightarrow> u32 list result" where
  "convertBits values fromBits toBits pad =
     bindE (convert_loop values fromBits toBits 0 0 []) (\<lambda>(accumulator, bits, out).
     if pad then Inr (if bits > 0 then out @ [push_bit (toBits - bits) accumulator AND (push_bit toBits 1 - 1)] else out)
     else if bits \<ge> fromBits \<or> push_bit (toBits - bits) accumulator AND (push_bit toBits 1 - 1) \<noteq> 0
     then bolt11_fail ''BOLT 11 data has invalid nonzero padding''
     else Inr out)"

section \<open>The checksum is linear\<close>

text \<open>A word that fits in \<open>n\<close> bits.\<close>

abbreviation fits :: "nat \<Rightarrow> u32 \<Rightarrow> bool" where
  "fits n w \<equiv> drop_bit n w = 0"

lemma fits_bit:
  assumes "fits n w" and "n \<le> i"
  shows "\<not> bit w i"
proof -
  have "bit w i = bit (drop_bit n w) (i - n)" using assms(2) by (simp add: bit_drop_bit_eq)
  then show ?thesis using assms(1) by simp
qed

lemma fitsI: "(\<And>i. n \<le> i \<Longrightarrow> \<not> bit w i) \<Longrightarrow> fits n w"
  by (simp add: bit_eq_iff bit_drop_bit_eq)

lemma bit_generators: "drop_bit i w AND 1 \<noteq> 0 \<longleftrightarrow> bit (w :: u32) i"
  by (simp add: and_one_eq bit_iff_odd_drop_bit odd_iff_mod_2_eq_one)

fun generator_sum :: "u32 \<Rightarrow> nat \<Rightarrow> u32 list \<Rightarrow> u32" where
  "generator_sum hi i [] = 0"
| "generator_sum hi i (g # gs) = (if bit hi i then g else 0) XOR generator_sum hi (Suc i) gs"

lemma mix_generators_sum: "mix_generators hi i gs c = c XOR generator_sum hi i gs"
  by (induction gs arbitrary: i c) (simp_all add: bit_generators xor.assoc)

lemma generator_sum_add: "generator_sum (a XOR b) i gs = generator_sum a i gs XOR generator_sum b i gs"
  by (induction gs arbitrary: i) (auto simp: bit_xor_iff xor.assoc xor.left_commute)

lemma polymod_step_sum:
  "polymod_step c v = push_bit 5 (c AND 0x1ffffff) XOR generator_sum (drop_bit 25 c) 0 BECH32_GENERATORS XOR v"
  by (simp only: polymod_step_def Let_def mix_generators_sum xor.assoc xor.left_commute xor.commute)

lemma polymod_step_add: "polymod_step (c XOR d) v = polymod_step c v XOR polymod_step d 0"
proof -
  have "push_bit 5 ((c XOR d) AND 0x1ffffff) = push_bit 5 (c AND 0x1ffffff) XOR push_bit 5 (d AND 0x1ffffff)"
    by (auto simp: bit_eq_iff bit_push_bit_iff bit_and_iff bit_xor_iff)
  then show ?thesis
    by (simp only: polymod_step_sum drop_bit_xor generator_sum_add xor.assoc xor.left_commute xor.commute xor.right_neutral xor.left_neutral)
qed

text \<open>The generators determine the top bits by their low bits.\<close>

lemma generator_sum_low: "n < 32 \<Longrightarrow> generator_sum (of_nat n) 0 BECH32_GENERATORS AND 31 = 0 \<Longrightarrow> n = 0"
proof -
  have "list_all (\<lambda>n. generator_sum (of_nat n) 0 BECH32_GENERATORS AND 31 = 0 \<longrightarrow> n = 0) [0..<32]"
    by code_simp
  then show "n < 32 \<Longrightarrow> generator_sum (of_nat n) 0 BECH32_GENERATORS AND 31 = 0 \<Longrightarrow> n = 0"
    by (simp add: list_all_iff)
qed

lemma fits_less: "fits n w \<Longrightarrow> n < 32 \<Longrightarrow> unat w < 2 ^ n"
  by (metis drop_bit_eq_div div_eq_0_iff unat_drop_bit_eq unsigned_0 power_not_zero zero_neq_numeral)

lemma xor_zeroD:
  assumes "a XOR b = (0 :: u32)"
  shows "b = a"
proof (rule bit_word_eqI)
  fix i
  have "bit (a XOR b) i = False" using assms by simp
  then show "bit b i = bit a i" by (simp add: bit_xor_iff)
qed

lemma polymod_step_kernel:
  assumes "fits 30 d" and "polymod_step d 0 = 0"
  shows "d = 0"
proof -
  let ?g = "generator_sum (drop_bit 25 d) 0 BECH32_GENERATORS"
  have sum: "push_bit 5 (d AND 0x1ffffff) XOR ?g = 0" using assms(2) by (simp only: polymod_step_sum xor.right_neutral)
  then have g: "?g = push_bit 5 (d AND 0x1ffffff)" by (rule xor_zeroD)
  have "push_bit 5 (d AND 0x1ffffff) AND (mask 5 :: u32) = 0"
    unfolding take_bit_eq_mask [symmetric] take_bit_push_bit by simp
  moreover have "(mask 5 :: u32) = 31" by (simp add: mask_eq_exp_minus_1)
  ultimately have "push_bit 5 (d AND 0x1ffffff) AND (31 :: u32) = 0" by (simp only:)
  then have low: "?g AND 31 = 0" unfolding g .
  have "fits 5 (drop_bit 25 d)" using assms(1) by (simp add: drop_bit_drop_bit)
  then have "unat (drop_bit 25 d) < 32" using fits_less [of 5 "drop_bit 25 d"] by simp
  moreover have "generator_sum (of_nat (unat (drop_bit 25 d))) 0 BECH32_GENERATORS AND 31 = 0" using low by simp
  ultimately have "unat (drop_bit 25 d) = 0" by (rule generator_sum_low)
  then have hi: "drop_bit 25 d = 0" by (simp add: unat_eq_0)
  have short: "bit d i \<Longrightarrow> i < 25" for i using fits_bit [OF hi, of i] by (cases "i < 25") auto
  have "take_bit 25 d = d" by (rule bit_word_eqI) (use short in \<open>auto simp: bit_take_bit_iff\<close>)
  moreover have "(mask 25 :: u32) = 0x1ffffff" by (simp add: mask_eq_exp_minus_1)
  ultimately have "push_bit 5 d = 0"
    using sum hi by (simp add: BECH32_GENERATORS_def take_bit_eq_mask del: push_bit_and)
  then have "\<not> bit (push_bit 5 d) (i + 5)" for i by simp
  then show ?thesis using short by (intro bit_word_eqI) (force simp: bit_push_bit_iff)
qed

text \<open>A checksum stays within 30 bits, and a difference in it never vanishes.\<close>

lemma polymod_step_zero: "polymod_step 0 0 = 0"
  by (simp add: polymod_step_sum BECH32_GENERATORS_def)

lemma generators_fit: "list_all (fits 30) BECH32_GENERATORS"
  by (simp add: BECH32_GENERATORS_def)

lemma fits_xor: "fits n a \<Longrightarrow> fits n b \<Longrightarrow> fits n (a XOR b)"
  by (simp add: drop_bit_xor)

lemma generator_sum_fits: "list_all (fits 30) gs \<Longrightarrow> fits 30 (generator_sum hi i gs)"
  by (induction gs arbitrary: i) (auto intro: fits_xor)

lemma polymod_step_fits:
  assumes "fits 5 v"
  shows "fits 30 (polymod_step c v)"
proof -
  have "drop_bit 25 (take_bit 25 c) = 0" by (rule bit_word_eqI) (simp add: bit_take_bit_iff bit_drop_bit_eq)
  then have "fits 30 (push_bit 5 (take_bit 25 c))"
    by (intro fitsI) (auto simp: bit_push_bit_iff bit_take_bit_iff)
  moreover have "(mask 25 :: u32) = 0x1ffffff" by (simp add: mask_eq_exp_minus_1)
  ultimately have "fits 30 (push_bit 5 (c AND 0x1ffffff))" by (simp only: take_bit_eq_mask)
  moreover have "fits 30 v" using fits_bit [OF assms] by (intro fitsI) auto
  ultimately show ?thesis
    unfolding polymod_step_sum by (intro fits_xor generator_sum_fits generators_fit)
qed

lemma polymod_fold_fits: "fits 30 c \<Longrightarrow> list_all (fits 5) vs \<Longrightarrow> fits 30 (foldl polymod_step c vs)"
  by (induction vs arbitrary: c) (auto simp del: drop_bit_xor intro: polymod_step_fits)

lemma polymod_fold_differs:
  "fits 30 d \<Longrightarrow> d \<noteq> 0 \<Longrightarrow> foldl polymod_step (c XOR d) vs \<noteq> foldl polymod_step c vs"
proof (induction vs arbitrary: c d)
  case Nil
  then show ?case using xor_zeroD [of c "c XOR d"] by (metis foldl_Nil xor.assoc xor_self_eq xor.left_neutral)
next
  case (Cons v vs)
  have "fits 30 (polymod_step d 0)" by (rule polymod_step_fits) simp
  moreover have "polymod_step d 0 \<noteq> 0" using polymod_step_kernel Cons.prems by blast
  ultimately show ?case using Cons.IH [of "polymod_step d 0" "polymod_step c v"] by (simp add: polymod_step_add)
qed

lemma polymod_substitution:
  assumes "fits 5 v" and "fits 5 w" and "v \<noteq> w"
  shows "polymod (xs @ v # ys) \<noteq> polymod (xs @ w # ys)"
proof -
  let ?c = "foldl polymod_step 1 xs" and ?d = "v XOR w"
  have "v \<noteq> w \<Longrightarrow> ?d \<noteq> 0" using xor_zeroD [of v w] by auto
  then have "?d \<noteq> 0" using assms(3) .
  moreover have "fits 30 ?d" using fits_bit [OF fits_xor [OF assms(1,2)]] by (intro fitsI) auto
  moreover have "polymod_step ?c v = polymod_step ?c w XOR ?d"
    by (rule bit_word_eqI) (auto simp: polymod_step_sum bit_xor_iff simp del: push_bit_and)
  ultimately show ?thesis
    using polymod_fold_differs [of ?d "polymod_step ?c w" ys] by (simp add: polymod_def)
qed

section \<open>The Bech32 layer\<close>

lemma bech32_index_range: "BECH32_INDEX c = Some w \<Longrightarrow> fits 5 w \<and> unat w < 32 \<and> c = BECH32_ALPHABET ! unat w"
proof -
  have all: "list_all (\<lambda>(c, w). fits 5 w \<and> unat w < 32 \<and> c = BECH32_ALPHABET ! unat w)
      (zip BECH32_ALPHABET (map of_nat [0..<32]))"
    by code_simp
  assume "BECH32_INDEX c = Some w"
  then have "(c, w) \<in> set (zip BECH32_ALPHABET (map of_nat [0..<32]))" unfolding BECH32_INDEX_def by (rule map_of_SomeD)
  with all show ?thesis by (auto simp: list_all_iff)
qed

lemma bech32_words_append:
  "bech32_words (xs @ ys) = bindE (bech32_words xs) (\<lambda>u. bindE (bech32_words ys) (\<lambda>v. Inr (u @ v)))"
  by (induction xs) (auto simp: bolt11_fail_def bindE_def split: option.splits sum.splits)

lemma bech32_words_Inr:
  "bech32_words s = Inr ws \<longleftrightarrow> list_all2 (\<lambda>c w. BECH32_INDEX c = Some w) s ws"
  by (induction s arbitrary: ws) (auto simp: bolt11_fail_def bindE_eq_Inr list_all2_Cons1 split: option.splits)

lemma bech32_words_Inl: "bech32_words s = Inl e \<Longrightarrow> e = Bolt11DecodeError ''BOLT 11 contains a non-Bech32 character''"
  by (induction s) (auto simp: bolt11_fail_def bindE_eq_Inl split: option.splits)

text \<open>The separator of a string that ends in a part without it.\<close>

lemma lastIndexOf_split:
  "c \<notin> set d \<Longrightarrow> lastIndexOf c (h @ c # d) = int (length h)"
proof -
  assume "c \<notin> set d"
  then have "takeWhile (\<lambda>x. x \<noteq> c) (rev d) = rev d" by auto
  then have "length (takeWhile (\<lambda>x. x \<noteq> c) (rev d)) = length d" by (simp only: length_rev)
  with \<open>c \<notin> set d\<close> show ?thesis by (simp add: lastIndexOf_def takeWhile_tail)
qed

text \<open>
  Property C29.  The Bech32 checksum protects an invoice against every single-character error in its
  data part: if a string decodes, then the same string with one data character replaced by another
  character (other than the separator) is refused.
\<close>

theorem bech32_detects_substitution:
  assumes "decodeBech32 (h @ CHR ''1'' # d @ c # e) = Inr r" and "CHR ''1'' \<notin> set (d @ c # e)"
    and "c' \<noteq> c" and "c' \<noteq> CHR ''1''"
  shows "\<exists>m. decodeBech32 (h @ CHR ''1'' # d @ c' # e) = Inl (Bolt11DecodeError m)"
proof -
  let ?hrp = "humanReadableExpansion h"
  have sep: "lastIndexOf (CHR ''1'') (h @ CHR ''1'' # d @ x # e) = int (length h)" if "x \<in> {c, c'}" for x
    using lastIndexOf_split [of "CHR ''1''" "d @ x # e" h] assms(2,4) that by auto
  have part: "bech32_words (d @ x # e) = Inr ws \<longleftrightarrow> (\<exists>u w v. ws = u @ w # v \<and> bech32_words d = Inr u
      \<and> BECH32_INDEX x = Some w \<and> bech32_words e = Inr v)" for x ws
    by (auto simp: bech32_words_append bindE_eq_Inr bolt11_fail_def split: option.splits)
  from assms(1) obtain u w v where ok: "bech32_words d = Inr u" "BECH32_INDEX c = Some w" "bech32_words e = Inr v"
      "polymod (?hrp @ u @ w # v) = 1"
    using part [of c] by (auto simp: decodeBech32_def sep Let_def bindE_eq_Inr bolt11_fail_def split: if_splits)
  show ?thesis
  proof (cases "bech32_words (d @ c' # e)")
    case (Inl err)
    then show ?thesis
      using assms(1) bech32_words_Inl [OF Inl] by (auto simp: decodeBech32_def sep Let_def bolt11_fail_def split: if_splits)
  next
    case (Inr ws)
    then obtain w' where w': "ws = u @ w' # v" "BECH32_INDEX c' = Some w'" using part [of c' ws] ok by auto
    have "w \<noteq> w'" using bech32_index_range [OF ok(2)] bech32_index_range [OF w'(2)] assms(3) by auto
    then have "polymod (?hrp @ ws) \<noteq> 1"
      using polymod_substitution [of w w' "?hrp @ u" v] bech32_index_range [OF ok(2)] bech32_index_range [OF w'(2)] ok(4)
      by (simp add: w'(1))
    then show ?thesis
      using assms(1) Inr by (auto simp: decodeBech32_def sep Let_def bolt11_fail_def split: if_splits)
  qed
qed

theorem bech32_detects_substitution_witness:
  "\<exists>m. decodeBech32 ''lnbc1qpzrqmnf35j'' = Inl (Bolt11DecodeError m)"
proof -
  have "decodeBech32 ''lnbc1qpzrymnf35j'' = Inr (''lnbc'', [0, 1, 2, 3, 4])" by code_simp
  then show ?thesis
    using bech32_detects_substitution [of "''lnbc''" "''qpzr''" "CHR ''y''" "''mnf35j''" "(''lnbc'', [0, 1, 2, 3, 4])" "CHR ''q''"]
    by simp
qed

section \<open>Regrouping keeps the bits\<close>

text \<open>The bits of a word, most significant first.\<close>

definition bits_of :: "nat \<Rightarrow> u32 \<Rightarrow> bool list" where
  "bits_of n w = map (bit w) (rev [0..<n])"

lemma length_bits_of [simp]: "length (bits_of n w) = n"
  by (simp add: bits_of_def)

lemma bits_of_append: "bits_of (m + n) w = bits_of m (drop_bit n w) @ bits_of n w"
proof -
  have "[0..<n + m] = [0..<n] @ [n..<n + m]" by (rule upt_add_eq_append) simp
  moreover have "[n..<m + n] = map (\<lambda>i. i + n) [0..<m]" by (rule map_add_upt [symmetric])
  ultimately have "[0..<m + n] = [0..<n] @ map (\<lambda>i. i + n) [0..<m]" by (simp add: add.commute)
  then show ?thesis by (simp add: bits_of_def rev_map bit_drop_bit_eq comp_def add.commute)
qed

lemma bits_of_cong: "(\<And>i. i < n \<Longrightarrow> bit v i = bit w i) \<Longrightarrow> bits_of n v = bits_of n w"
  by (auto simp: bits_of_def)

lemma bits_of_inject:
  assumes "bits_of n v = bits_of n w" and "fits n v" and "fits n w"
  shows "v = w"
proof (rule bit_word_eqI)
  fix i
  have "\<forall>i<n. bit v i = bit w i" using assms(1) by (auto simp: bits_of_def)
  then show "bit v i = bit w i" using fits_bit [OF assms(2), of i] fits_bit [OF assms(3), of i] by (cases "i < n") auto
qed

lemma bits_of_zero: "bits_of n w = replicate n False \<longleftrightarrow> (\<forall>i<n. \<not> bit w i)"
  by (induction n) (auto simp: bits_of_def less_Suc_eq)

abbreviation stream :: "nat \<Rightarrow> u32 list \<Rightarrow> bool list" where
  "stream n ws \<equiv> concat (map (bits_of n) ws)"

lemma length_stream: "length (stream n ws) = n * length ws"
  by (induction ws) auto

lemma stream_inject:
  "stream n vs = stream n ws \<Longrightarrow> length vs = length ws \<Longrightarrow> list_all (fits n) vs \<Longrightarrow> list_all (fits n) ws \<Longrightarrow> vs = ws"
proof (induction vs arbitrary: ws)
  case (Cons v vs)
  then obtain w ws' where "ws = w # ws'" by (cases ws) auto
  with Cons show ?case using bits_of_inject [of n v w] by auto
qed simp

lemma low_masks: "(mask 8 :: u32) = 255" "(mask 12 :: u32) = 4095"
  by (simp_all add: mask_eq_exp_minus_1)

text \<open>One round of the loop with five-bit input and eight-bit output.\<close>

lemma pending_bits:
  assumes "fits 5 v" and "k < 8"
  shows "bits_of (k + 5) ((push_bit 5 a OR v) AND mask 12) = bits_of k a @ bits_of 5 v"
proof -
  let ?a = "(push_bit 5 a OR v) AND mask 12 :: u32"
  have bit_a: "bit ?a i \<longleftrightarrow> (if i < 5 then bit v i else bit a (i - 5))" if "i < k + 5" for i
    using that assms(2) fits_bit [OF assms(1), of i]
    by (auto simp: bit_and_iff bit_or_iff bit_push_bit_iff bit_mask_iff)
  have "bits_of k (drop_bit 5 ?a) = bits_of k a"
    by (rule bits_of_cong) (simp only: bit_drop_bit_eq comp_apply, simp add: bit_a add.commute)
  moreover have "bits_of 5 ?a = bits_of 5 v" by (rule bits_of_cong) (simp add: bit_a)
  ultimately show ?thesis using bits_of_append [of k 5 ?a] by simp
qed

lemma emit_round:
  assumes "k < 8"
  shows "emit_groups a 8 (k + 5) out = (if k < 3 then (k + 5, out) else (k - 3, out @ [drop_bit (k - 3) a AND mask 8]))"
proof -
  have "\<not> 8 \<le> k - 3" using assms by simp
  then show ?thesis using assms by (simp add: emit_groups.simps [of a 8] low_masks)
qed

lemma emitted_byte:
  assumes "3 \<le> k"
  shows "bits_of (k + 5) a = bits_of 8 (drop_bit (k - 3) a AND mask 8) @ bits_of (k - 3) a"
proof -
  have "k + 5 = 8 + (k - 3)" using assms by simp
  moreover have "bits_of 8 (drop_bit (k - 3) a) = bits_of 8 (drop_bit (k - 3) a AND mask 8)"
    by (rule bits_of_cong) (simp add: bit_and_iff bit_mask_iff)
  ultimately show ?thesis using bits_of_append [of 8 "k - 3" a] by (simp only:)
qed

lemma byte_fits: "fits 8 (w AND mask 8)"
  by (rule fitsI) (simp add: bit_and_iff bit_mask_iff)

lemma convert_loop_stream:
  assumes "list_all (fits 5) ws" and "k < 8" and "list_all (fits 8) out"
  shows "\<exists>a' k' out'. convert_loop ws 5 8 a k out = Inr (a', k', out') \<and> k' < 8 \<and> list_all (fits 8) out'
    \<and> stream 8 out @ bits_of k a @ stream 5 ws = stream 8 out' @ bits_of k' a'"
  using assms
proof (induction ws arbitrary: a k out)
  case (Cons w ws)
  let ?a = "(push_bit 5 a OR w) AND mask 12"
  have w: "fits 5 w" "list_all (fits 5) ws" using Cons.prems(1) by auto
  obtain k' out' where e: "emit_groups ?a 8 (k + 5) out = (k', out')" by fastforce
  have step: "convert_loop (w # ws) 5 8 a k out = convert_loop ws 5 8 ?a k' out'"
    using w(1) e by (simp add: low_masks)
  have round: "k' < 8" "list_all (fits 8) out'" "stream 8 out' @ bits_of k' ?a = stream 8 out @ bits_of k a @ bits_of 5 w"
    using e Cons.prems(2,3) emitted_byte [of k ?a] pending_bits [OF w(1) Cons.prems(2), of a]
    by (auto simp: emit_round byte_fits simp del: drop_bit_and drop_bit_or split: if_splits)
  have "stream 8 out @ bits_of k a @ stream 5 (w # ws) = (stream 8 out' @ bits_of k' ?a) @ stream 5 ws"
    unfolding round(3) by simp
  then have "stream 8 out @ bits_of k a @ stream 5 (w # ws) = stream 8 out' @ bits_of k' ?a @ stream 5 ws"
    by (simp only: append_assoc)
  then show ?case using Cons.IH [OF w(2) round(1,2), of ?a] by (simp only: step)
qed simp

lemma convert_loop_refuses:
  "\<not> list_all (fits 5) ws \<Longrightarrow> convert_loop ws 5 8 a k out \<noteq> Inr r"
  by (induction ws arbitrary: a k out) (auto simp: bolt11_fail_def Let_def split: prod.splits)

lemma word_zero_bits: "(w :: u32) = 0 \<longleftrightarrow> (\<forall>i. \<not> bit w i)"
  by (auto intro: bit_word_eqI)

lemma padding_zero:
  assumes "k < 8"
  shows "push_bit (8 - k) a AND mask 8 = 0 \<longleftrightarrow> bits_of k a = replicate k False"
proof -
  have "bit (push_bit (8 - k) a AND mask 8) i \<longleftrightarrow> i < 8 \<and> 8 - k \<le> i \<and> bit a (i - (8 - k))" for i
    by (auto simp: bit_and_iff bit_push_bit_iff bit_mask_iff)
  then have "push_bit (8 - k) a AND mask 8 = 0 \<longleftrightarrow> (\<forall>i<8. 8 - k \<le> i \<longrightarrow> \<not> bit a (i - (8 - k)))"
    unfolding word_zero_bits by blast
  also have "\<dots> \<longleftrightarrow> (\<forall>i<k. \<not> bit a i)"
  proof
    assume *: "\<forall>i<8. 8 - k \<le> i \<longrightarrow> \<not> bit a (i - (8 - k))"
    show "\<forall>i<k. \<not> bit a i"
    proof (intro allI impI)
      fix i assume "i < k"
      with * [rule_format, of "i + (8 - k)"] assms show "\<not> bit a i" by simp
    qed
  next
    assume "\<forall>i<k. \<not> bit a i"
    then show "\<forall>i<8. 8 - k \<le> i \<longrightarrow> \<not> bit a (i - (8 - k))" using assms by auto
  qed
  finally show ?thesis by (simp add: bits_of_zero)
qed

lemma fits_unat: "fits n w \<longleftrightarrow> unat w < 2 ^ n"
proof -
  have "unat (drop_bit n w) = unat w div 2 ^ n" by (simp only: unat_drop_bit_eq) (simp add: drop_bit_eq_div)
  moreover have "fits n w \<longleftrightarrow> unat (drop_bit n w) = 0" by (simp add: unat_eq_0)
  ultimately show ?thesis by (simp add: div_eq_0_iff)
qed

lemma fits_range: "fits 5 w \<longleftrightarrow> w < 32" "fits 8 w \<longleftrightarrow> w < 256"
  by (simp_all add: fits_unat word_less_nat_alt)

lemma convertBits_iff:
  "convertBits ws 5 8 False = Inr bs \<longleftrightarrow> list_all (fits 5) ws \<and> list_all (fits 8) bs
     \<and> (\<exists>n. n < 5 \<and> stream 5 ws = stream 8 bs @ replicate n False)"
proof (cases "list_all (fits 5) ws")
  case False
  then show ?thesis
    using convert_loop_refuses [OF False] by (auto simp: convertBits_def bindE_eq_Inr)
next
  case True
  obtain a k out where c: "convert_loop ws 5 8 0 0 [] = Inr (a, k, out)" "k < 8" "list_all (fits 8) out"
      "stream 5 ws = stream 8 out @ bits_of k a"
    using convert_loop_stream [OF True, of 0 "[]" 0] by (auto simp: bits_of_def)
  have conv: "convertBits ws 5 8 False = Inr bs \<longleftrightarrow> k < 5 \<and> bits_of k a = replicate k False \<and> bs = out"
    using padding_zero [OF c(2), of a] by (auto simp: convertBits_def c(1) low_masks bolt11_fail_def)
  have "k = n \<and> out = bs \<and> bits_of k a = replicate n False"
    if n: "n < 5" "stream 8 out @ bits_of k a = stream 8 bs @ replicate n False" "list_all (fits 8) bs" for n
  proof -
    have "length (stream 8 out @ bits_of k a) = length (stream 8 bs @ replicate n False)" by (simp only: n(2))
    then have len: "8 * length out + k = 8 * length bs + n" by (simp add: length_stream)
    then have "k = n" "length out = length bs" using n(1) c(2) by presburger+
    moreover from this have "stream 8 out = stream 8 bs" "bits_of k a = replicate n False"
      using n(2) by (simp_all add: append_eq_append_conv length_stream)
    ultimately show ?thesis using stream_inject [of 8 out bs] c(3) n(3) by simp
  qed
  then show ?thesis using True c(2-4) unfolding conv by auto
qed

lemma convertBits_words: "convertBits ws 5 8 False = Inr bs \<Longrightarrow> list_all (fits 8) bs \<and> 8 * length bs \<le> 5 * length ws"
proof -
  assume "convertBits ws 5 8 False = Inr bs"
  then obtain n where n: "stream 5 ws = stream 8 bs @ replicate n False" "list_all (fits 8) bs"
    unfolding convertBits_iff by auto
  have "length (stream 5 ws) = length (stream 8 bs) + n" unfolding n(1) by simp
  then show ?thesis using n(2) by (simp add: length_stream)
qed

text \<open>
  Property C30.  Regrouping five-bit words into bytes is exactly a reading of the same bit string:
  \<open>convertBits\<close> without padding returns the bytes if and only if all words are below 32, the bits of
  the bytes are the bits of the words less a tail of at most four zero bits, and it is the only such
  list of bytes.
\<close>

theorem convertBits_exact:
  "convertBits ws 5 8 False = Inr bs \<longleftrightarrow> list_all (\<lambda>w. w < 32) ws \<and> list_all (\<lambda>b. b < 256) bs
     \<and> (\<exists>n. n < 5 \<and> concat (map (bits_of 5) ws) = concat (map (bits_of 8) bs) @ replicate n False)"
  unfolding convertBits_iff fits_range ..

end
