(* ===== verification/Bolt11.thy ===== *)
theory Bolt11
  imports Bolt11_Codec
begin

text \<open>
  The decoder of Lightning invoices (\<^verbatim>\<open>src/lib/bolt11.mjs\<close>) above its text layer: amounts, tagged fields,
  features and the signature.  The elliptic-curve library and the hash of the runtime are parameters.
\<close>

section \<open>Normalization and amount\<close>

definition char_code :: "char \<Rightarrow> nat" where "char_code c = of_char c"

definition normalizeBolt11Invoice :: "jsval \<Rightarrow> string result" where
  "normalizeBolt11Invoice v = (case v of
     JStr s \<Rightarrow>
       (let trimmed = js_trim s;
            invoice = (if toLowerCase (take 10 trimmed) = ''lightning:'' then drop 10 trimmed else trimmed) in
        if invoice = [] \<or> list_ex (\<lambda>c. char_code c < 33 \<or> 126 < char_code c) invoice
        then bolt11_fail ''BOLT 11 invoice contains unsupported characters''
        else if list_ex (\<lambda>c. 97 \<le> char_code c \<and> char_code c \<le> 122) invoice
          \<and> list_ex (\<lambda>c. 65 \<le> char_code c \<and> char_code c \<le> 90) invoice
        then bolt11_fail ''BOLT 11 invoice uses mixed case''
        else Inr (toLowerCase invoice))
   | _ \<Rightarrow> Inl (TypeError ''BOLT 11 invoice must be a string''))"

definition NETWORK_PREFIXES :: "(string \<times> string) list" where
  "NETWORK_PREFIXES = [(''lnbcrt'', ''regtest''), (''lntbs'', ''signet''), (''lntb'', ''testnet''), (''lnbc'', ''mainnet'')]"

definition MAXIMUM_UINT64 :: int where "MAXIMUM_UINT64 = 2 ^ 64 - 1"

text \<open>The pattern \<^verbatim>\<open>/^([1-9][0-9]*)([munp]?)$/\<close>: the digits and the multiplier.\<close>

definition amount_match :: "string \<Rightarrow> (string \<times> string) option" where
  "amount_match s = (let digits = takeWhile is_digit s; unit = dropWhile is_digit s in
     if digits \<noteq> [] \<and> hd digits \<noteq> CHR ''0'' \<and> unit \<in> {'''', ''m'', ''u'', ''n'', ''p''}
     then Some (digits, unit) else None)"

definition parseNetworkAndAmount :: "string \<Rightarrow> (int \<times> string \<times> string) result" where
  "parseNetworkAndAmount humanReadablePart =
     (case find (\<lambda>(prefix, _). take (length prefix) humanReadablePart = prefix) NETWORK_PREFIXES of
        None \<Rightarrow> bolt11_fail ''BOLT 11 network prefix is unsupported''
      | Some (prefix, network) \<Rightarrow>
          let amount = drop (length prefix) humanReadablePart in
          if amount = [] then Inr (0, network, prefix)
          else (case amount_match amount of
             None \<Rightarrow> bolt11_fail ''BOLT 11 amount is not canonical''
           | Some (digits, unit) \<Rightarrow>
               let quantity = dec_val digits in
               bindE (if unit = ''m'' then Inr (quantity * 100000000)
                 else if unit = ''u'' then Inr (quantity * 100000)
                 else if unit = ''n'' then Inr (quantity * 100)
                 else if unit = ''p''
                 then (if last digits \<noteq> CHR ''0''
                       then bolt11_fail ''BOLT 11 pico-bitcoin amount is below millisatoshi precision''
                       else Inr (quantity div 10))
                 else Inr (quantity * 100000000000)) (\<lambda>amountMsat.
               if amountMsat = 0 \<or> amountMsat > MAXIMUM_UINT64
               then bolt11_fail ''BOLT 11 amount is outside policy''
               else Inr (amountMsat, network, prefix))))"

section \<open>Tagged fields\<close>

text \<open>The functions of \<^verbatim>\<open>@noble/curves\<close> and \<^verbatim>\<open>node:crypto\<close> the decoder calls.\<close>

record bolt11_crypto =
  bc_sha256 :: "u32 list \<Rightarrow> u32 list"
  bc_point :: "u32 list \<Rightarrow> bool"
  bc_compact :: "u32 list \<Rightarrow> bool"
  bc_highS :: "u32 list \<Rightarrow> bool"
  bc_verify :: "u32 list \<Rightarrow> u32 list \<Rightarrow> string \<Rightarrow> bool \<Rightarrow> bool"
  bc_recover :: "u32 list \<Rightarrow> u32 \<Rightarrow> u32 list \<Rightarrow> u32 list option"

definition hex_digit :: "u32 \<Rightarrow> char" where
  "hex_digit w = ''0123456789abcdef'' ! unat (w AND 15)"

definition toHex :: "u32 list \<Rightarrow> string" where
  "toHex bytes = concat (map (\<lambda>b. [hex_digit (drop_bit 4 b), hex_digit b]) bytes)"

definition wordsToInteger :: "u32 list \<Rightarrow> string \<Rightarrow> int result" where
  "wordsToInteger words name =
     (if words \<noteq> [] \<and> hd words = 0 then bolt11_fail (name @ '' is not minimally encoded'')
      else let v = foldl (\<lambda>v w. push_bit 5 v OR int (unat w)) 0 words in
      if v > MAX_SAFE_INTEGER then bolt11_fail (name @ '' is outside the safe integer range'')
      else Inr v)"

definition bytes32_of_words :: "u32 list \<Rightarrow> string \<Rightarrow> string result" where
  "bytes32_of_words words name =
     bindE (convertBits words 5 8 False) (\<lambda>bytes.
     if length bytes \<noteq> 32 then bolt11_fail (name @ '' is not 32 bytes'') else Inr (''0x'' @ toHex bytes))"

definition compressedPublicKey :: "bolt11_crypto \<Rightarrow> u32 list \<Rightarrow> string \<Rightarrow> string result" where
  "compressedPublicKey C words name =
     bindE (convertBits words 5 8 False) (\<lambda>bytes.
     if length bytes \<noteq> 33 \<or> (bytes ! 0 \<noteq> 2 \<and> bytes ! 0 \<noteq> 3) then bolt11_fail (name @ '' is not compressed'')
     else if \<not> bc_point C bytes then bolt11_fail (name @ '' is not a valid secp256k1 point'')
     else Inr (toHex bytes))"

text \<open>The loop over the 51-byte hops of a route hint.\<close>

function check_hops :: "bolt11_crypto \<Rightarrow> u32 list \<Rightarrow> unit result" where
  "check_hops C bytes =
     (if bytes = [] then Inr ()
      else let publicKey = take 33 bytes in
      if publicKey ! 0 \<noteq> 2 \<and> publicKey ! 0 \<noteq> 3 \<or> \<not> bc_point C publicKey
      then bolt11_fail ''BOLT 11 route hint has an invalid public key''
      else check_hops C (drop 51 bytes))"
  by pat_completeness auto
termination
  by (relation "measure (\<lambda>(C, bytes). length bytes)") auto

declare check_hops.simps [simp del]

definition validateRouteHint :: "bolt11_crypto \<Rightarrow> u32 list \<Rightarrow> unit result" where
  "validateRouteHint C words =
     bindE (convertBits words 5 8 False) (\<lambda>bytes.
     if bytes = [] \<or> length bytes mod 51 \<noteq> 0 then bolt11_fail ''BOLT 11 route hint has an invalid length''
     else check_hops C bytes)"

definition validateFallback :: "u32 list \<Rightarrow> unit result" where
  "validateFallback words =
     (if words = [] then bolt11_fail ''BOLT 11 fallback address is empty''
      else let version = hd words in
      if version \<ge> 19 then Inr ()
      else bindE (convertBits (tl words) 5 8 False) (\<lambda>program.
      if version = 17 \<or> version = 18
      then (if length program \<noteq> 20 then bolt11_fail ''BOLT 11 legacy fallback program has an invalid length''
            else Inr ())
      else if version > 16 \<or> length program < 2 \<or> length program > 40
      then bolt11_fail ''BOLT 11 witness fallback program is invalid''
      else if version = 0 \<and> length program \<noteq> 20 \<and> length program \<noteq> 32
      then bolt11_fail ''BOLT 11 version-zero fallback program has an invalid length''
      else Inr ()))"

definition INVOICE_FEATURE_PAIRS :: "(nat \<times> nat) list" where
  "INVOICE_FEATURE_PAIRS = [(8, 9), (14, 15), (16, 17), (24, 25), (36, 37), (48, 49)]"

definition KNOWN_INVOICE_FEATURE_BITS :: "nat list" where
  "KNOWN_INVOICE_FEATURE_BITS = concat (map (\<lambda>(r, p). [r, p]) INVOICE_FEATURE_PAIRS)"

definition SUPPORTED_REQUIRED_FEATURE_BITS :: "nat list" where
  "SUPPORTED_REQUIRED_FEATURE_BITS = [8, 14, 16, 48]"

text \<open>The set bits, from the last word to the first and from the lowest bit to the highest.\<close>

definition feature_list :: "u32 list \<Rightarrow> nat list" where
  "feature_list words = concat (map (\<lambda>(i, w). map (\<lambda>b. i * 5 + b) (filter (\<lambda>b. drop_bit b w AND 1 \<noteq> 0) [0..<5]))
     (enumerate 0 (rev words)))"

definition featureBits :: "u32 list \<Rightarrow> nat list result" where
  "featureBits words =
     (if words = [] \<or> hd words = 0 then bolt11_fail ''BOLT 11 features are not minimally encoded''
      else let bits = feature_list words in
      case find (\<lambda>(r, p). r \<in> set bits \<and> p \<in> set bits) INVOICE_FEATURE_PAIRS of
        Some (r, p) \<Rightarrow> bolt11_fail (''BOLT 11 feature pair '' @ dec_str (int r) @ ''/'' @ dec_str (int p) @ '' sets both bits'')
      | None \<Rightarrow> Inr (sort bits))"

text \<open>The fatal UTF-8 decoder accepts exactly the well-formed sequences.\<close>

definition is_continuation :: "u32 \<Rightarrow> bool" where
  "is_continuation b \<longleftrightarrow> 0x80 \<le> b \<and> b \<le> 0xbf"

function valid_utf8 :: "u32 list \<Rightarrow> bool" where
  "valid_utf8 bytes = (case bytes of
     [] \<Rightarrow> True
   | b # rest \<Rightarrow>
       if b \<le> 0x7f then valid_utf8 rest
       else if 0xc2 \<le> b \<and> b \<le> 0xdf
       then 1 \<le> length rest \<and> is_continuation (rest ! 0) \<and> valid_utf8 (drop 1 rest)
       else if 0xe0 \<le> b \<and> b \<le> 0xef
       then 2 \<le> length rest \<and> is_continuation (rest ! 0) \<and> is_continuation (rest ! 1)
         \<and> (b = 0xe0 \<longrightarrow> 0xa0 \<le> rest ! 0) \<and> (b = 0xed \<longrightarrow> rest ! 0 \<le> 0x9f) \<and> valid_utf8 (drop 2 rest)
       else if 0xf0 \<le> b \<and> b \<le> 0xf4
       then 3 \<le> length rest \<and> is_continuation (rest ! 0) \<and> is_continuation (rest ! 1) \<and> is_continuation (rest ! 2)
         \<and> (b = 0xf0 \<longrightarrow> 0x90 \<le> rest ! 0) \<and> (b = 0xf4 \<longrightarrow> rest ! 0 \<le> 0x8f) \<and> valid_utf8 (drop 3 rest)
       else False)"
  by pat_completeness auto
termination
  by (relation "measure length") auto

declare valid_utf8.simps [simp del]

definition FIXED_TAG_LENGTHS :: "(char \<times> nat) list" where
  "FIXED_TAG_LENGTHS = [(CHR ''h'', 52), (CHR ''n'', 53), (CHR ''p'', 52), (CHR ''s'', 52)]"

definition SINGLETON_TAGS :: string where "SINGLETON_TAGS = ''psdhnxc9''"

definition MAXIMUM_TAGS :: nat where "MAXIMUM_TAGS = 128"

text \<open>The state of the tag parser; the description is kept as the bytes that decode.\<close>

record tag_state =
  ts_counts :: "(char \<times> nat) list"
  ts_description :: "u32 list option"
  ts_descriptionHash :: "string option"
  ts_destination :: "string option"
  ts_expirySeconds :: int
  ts_fallbackCount :: nat
  ts_features :: "nat list"
  ts_metadataCount :: nat
  ts_minFinalCltvDelta :: int
  ts_paymentHash :: "string option"
  ts_paymentSecret :: "string option"
  ts_routeHintCount :: nat
  ts_tagCount :: nat
  ts_unknownTagCount :: nat

definition initial_tags :: tag_state where
  "initial_tags = \<lparr>ts_counts = map (\<lambda>t. (t, 0)) SINGLETON_TAGS, ts_description = None, ts_descriptionHash = None,
     ts_destination = None, ts_expirySeconds = 3600, ts_fallbackCount = 0, ts_features = [], ts_metadataCount = 0,
     ts_minFinalCltvDelta = 18, ts_paymentHash = None, ts_paymentSecret = None, ts_routeHintCount = 0,
     ts_tagCount = 0, ts_unknownTagCount = 0\<rparr>"

definition count_tag :: "char \<Rightarrow> tag_state \<Rightarrow> tag_state" where
  "count_tag t st = st\<lparr>ts_counts := map (\<lambda>(u, n). (u, if u = t then n + 1 else n)) (ts_counts st)\<rparr>"

text \<open>The body of the parser's loop once the type and the data of a field are read.\<close>

definition read_tag :: "bolt11_crypto \<Rightarrow> char \<Rightarrow> u32 list \<Rightarrow> tag_state \<Rightarrow> tag_state result" where
  "read_tag C t data st0 =
     (let st = count_tag t st0 in
      if (case map_of FIXED_TAG_LENGTHS t of None \<Rightarrow> False | Some n \<Rightarrow> length data \<noteq> n)
      then bolt11_fail (''BOLT 11 '' @ [t] @ '' tag has an invalid length'')
      else if t = CHR ''p'' then bindE (bytes32_of_words data ''BOLT 11 payment hash'') (\<lambda>v. Inr (st\<lparr>ts_paymentHash := Some v\<rparr>))
      else if t = CHR ''s'' then bindE (bytes32_of_words data ''BOLT 11 payment secret'') (\<lambda>v. Inr (st\<lparr>ts_paymentSecret := Some v\<rparr>))
      else if t = CHR ''h'' then bindE (bytes32_of_words data ''BOLT 11 description hash'') (\<lambda>v. Inr (st\<lparr>ts_descriptionHash := Some v\<rparr>))
      else if t = CHR ''n'' then bindE (compressedPublicKey C data ''BOLT 11 payee'') (\<lambda>v. Inr (st\<lparr>ts_destination := Some v\<rparr>))
      else if t = CHR ''d'' then bindE (convertBits data 5 8 False) (\<lambda>bytes.
        if valid_utf8 bytes then Inr (st\<lparr>ts_description := Some bytes\<rparr>)
        else bolt11_fail ''BOLT 11 description is not valid UTF-8'')
      else if t = CHR ''x'' then bindE (wordsToInteger data ''BOLT 11 expiry'') (\<lambda>v. Inr (st\<lparr>ts_expirySeconds := v\<rparr>))
      else if t = CHR ''c'' then bindE (wordsToInteger data ''BOLT 11 final CLTV delta'') (\<lambda>v. Inr (st\<lparr>ts_minFinalCltvDelta := v\<rparr>))
      else if t = CHR ''9'' then bindE (featureBits data) (\<lambda>v. Inr (st\<lparr>ts_features := v\<rparr>))
      else if t = CHR ''r'' then bindE (validateRouteHint C data) (\<lambda>_. Inr (st\<lparr>ts_routeHintCount := ts_routeHintCount st + 1\<rparr>))
      else if t = CHR ''f'' then bindE (validateFallback data) (\<lambda>_. Inr (st\<lparr>ts_fallbackCount := ts_fallbackCount st + 1\<rparr>))
      else if t = CHR ''m'' then bindE (convertBits data 5 8 False) (\<lambda>_. Inr (st\<lparr>ts_metadataCount := ts_metadataCount st + 1\<rparr>))
      else Inr (st\<lparr>ts_unknownTagCount := ts_unknownTagCount st + 1\<rparr>))"

text \<open>The loop: the remaining words are the source's words from \<^verbatim>\<open>offset\<close> on.\<close>

function tag_loop :: "bolt11_crypto \<Rightarrow> u32 list \<Rightarrow> tag_state \<Rightarrow> tag_state result" where
  "tag_loop C words st =
     (if words = [] then Inr st
      else if length words < 3 then bolt11_fail ''BOLT 11 tagged field header is truncated''
      else let st1 = st\<lparr>ts_tagCount := ts_tagCount st + 1\<rparr> in
      if ts_tagCount st1 > MAXIMUM_TAGS then bolt11_fail ''BOLT 11 has too many tagged fields''
      else let t = BECH32_ALPHABET ! unat (words ! 0);
               len = unat (push_bit 5 (words ! 1) OR words ! 2); rest = drop 3 words in
      if len > length rest then bolt11_fail ''BOLT 11 tagged field data is truncated''
      else bindE (read_tag C t (take len rest) st1) (\<lambda>st2. tag_loop C (drop len rest) st2))"
  by pat_completeness auto
termination
  by (relation "measure (\<lambda>(C, words, st). length words)") auto

declare tag_loop.simps [simp del]

definition tag_count :: "tag_state \<Rightarrow> char \<Rightarrow> nat" where
  "tag_count st t = (case map_of (ts_counts st) t of None \<Rightarrow> 0 | Some n \<Rightarrow> n)"

definition tagState :: "bolt11_crypto \<Rightarrow> u32 list \<Rightarrow> tag_state result" where
  "tagState C words =
     bindE (tag_loop C words initial_tags) (\<lambda>st.
     case find (\<lambda>t. tag_count st t > 1) SINGLETON_TAGS of
       Some t \<Rightarrow> bolt11_fail (''BOLT 11 repeats singleton tag '' @ [t])
     | None \<Rightarrow>
         if tag_count st (CHR ''p'') \<noteq> 1 then bolt11_fail ''BOLT 11 must contain exactly one payment hash tag''
         else if tag_count st (CHR ''s'') \<noteq> 1 then bolt11_fail ''BOLT 11 must contain exactly one payment secret tag''
         else if tag_count st (CHR ''d'') + tag_count st (CHR ''h'') \<noteq> 1
         then bolt11_fail ''BOLT 11 must contain exactly one description or description-hash tag''
         else if ts_metadataCount st > 0 \<and> 48 \<notin> set (ts_features st) \<and> 49 \<notin> set (ts_features st)
         then bolt11_fail ''BOLT 11 payment metadata lacks its feature bit''
         else Inr st)"

section \<open>Signature and result\<close>

definition ascii_bytes :: "string \<Rightarrow> u32 list" where
  "ascii_bytes s = map (\<lambda>c. of_nat (char_code c)) s"

definition verifySignature ::
    "bolt11_crypto \<Rightarrow> string \<Rightarrow> u32 list \<Rightarrow> u32 list \<Rightarrow> tag_state \<Rightarrow> string result" where
  "verifySignature C humanReadablePart signingWords signatureWords tagged =
     bindE (convertBits signatureWords 5 8 False) (\<lambda>signatureBytes.
     if length signatureBytes \<noteq> 65 \<or> signatureBytes ! 64 > 3 then bolt11_fail ''BOLT 11 signature is malformed''
     else bindE (convertBits signingWords 5 8 True) (\<lambda>signed.
     let messageHash = bc_sha256 C (ascii_bytes humanReadablePart @ signed);
         signature = take 64 signatureBytes in
     if \<not> bc_compact C signature then bolt11_fail ''BOLT 11 signature scalar is invalid''
     else case ts_destination tagged of
       Some destination \<Rightarrow>
         if bc_highS C signature then bolt11_fail ''BOLT 11 explicit-payee signature is not low-S''
         else if \<not> bc_verify C signature messageHash destination True
         then bolt11_fail ''BOLT 11 signature does not match its explicit payee''
         else Inr destination
     | None \<Rightarrow>
         (case bc_recover C signature (signatureBytes ! 64) messageHash of
            None \<Rightarrow> bolt11_fail ''BOLT 11 signature public key is not recoverable''
          | Some recovered \<Rightarrow>
              let publicKey = toHex recovered in
              if \<not> bc_verify C signature messageHash publicKey False
              then bolt11_fail ''BOLT 11 recovered signature is invalid''
              else Inr publicKey)))"

record decoded_invoice =
  di_invoice :: string
  di_network :: string
  di_amountMsat :: int
  di_paymentHash :: "string option"
  di_paymentSecret :: "string option"
  di_destination :: string
  di_timestamp :: int
  di_expirySeconds :: int
  di_minFinalCltvDelta :: int
  di_basicMpp :: bool
  di_amp :: bool
  di_featureBits :: "nat list"
  di_unknownRequiredFeatures :: "nat list"
  di_unsupportedRequiredFeatures :: "nat list"
  di_routeHintCount :: nat
  di_fallbackCount :: nat
  di_metadataCount :: nat
  di_unknownTagCount :: nat
  di_singletonTagCounts :: "(char \<times> nat) list"
  di_hasInlineDescription :: bool
  di_hasHashedDescription :: bool

definition integer_between :: "jsval \<Rightarrow> string \<Rightarrow> int \<Rightarrow> int \<Rightarrow> int result" where
  "integer_between v name minimum maximum = (case v of
       JInt i \<Rightarrow> if isSafeInteger v \<and> minimum \<le> i \<and> i \<le> maximum then Inr i
         else Inl (TypeError (name @ '' must be a safe integer between '' @ int_str minimum @ '' and '' @ int_str maximum))
     | _ \<Rightarrow> Inl (TypeError (name @ '' must be a safe integer between '' @ int_str minimum @ '' and '' @ int_str maximum)))"

definition SIGNATURE_WORDS :: nat where "SIGNATURE_WORDS = 104"
definition TIMESTAMP_WORDS :: nat where "TIMESTAMP_WORDS = 7"

definition decodeBolt11Invoice :: "bolt11_crypto \<Rightarrow> jsval \<Rightarrow> jsval \<Rightarrow> decoded_invoice result" where
  "decodeBolt11Invoice C rawInvoice options =
     bindE (exactKeys options [''maximumInvoiceLength''] ''BOLT 11 decoder options'') (\<lambda>_.
     bindE (integer_between (js_get options ''maximumInvoiceLength'') ''maximum BOLT 11 invoice length'' 256 8192)
       (\<lambda>maximumInvoiceLength.
     bindE (normalizeBolt11Invoice rawInvoice) (\<lambda>invoice.
     if int (length invoice) > maximumInvoiceLength then bolt11_fail ''BOLT 11 invoice exceeds the length limit''
     else bindE (decodeBech32 invoice) (\<lambda>(humanReadablePart, words).
     bindE (parseNetworkAndAmount humanReadablePart) (\<lambda>(amountMsat, network, prefix).
     if length words < TIMESTAMP_WORDS + SIGNATURE_WORDS then bolt11_fail ''BOLT 11 data is too short''
     else let signingWords = take (length words - SIGNATURE_WORDS) words;
              signatureWords = drop (length words - SIGNATURE_WORDS) words;
              timestamp = foldl (\<lambda>t w. t * 32 + int (unat w)) 0 (take TIMESTAMP_WORDS signingWords) in
     bindE (tagState C (drop TIMESTAMP_WORDS signingWords)) (\<lambda>tagged.
     bindE (verifySignature C humanReadablePart signingWords signatureWords tagged) (\<lambda>destination.
     let features = ts_features tagged in
     Inr \<lparr>di_invoice = invoice, di_network = network, di_amountMsat = amountMsat,
       di_paymentHash = ts_paymentHash tagged, di_paymentSecret = ts_paymentSecret tagged,
       di_destination = destination, di_timestamp = timestamp, di_expirySeconds = ts_expirySeconds tagged,
       di_minFinalCltvDelta = ts_minFinalCltvDelta tagged,
       di_basicMpp = (16 \<in> set features \<or> 17 \<in> set features), di_amp = (30 \<in> set features \<or> 31 \<in> set features),
       di_featureBits = features,
       di_unknownRequiredFeatures = filter (\<lambda>b. even b \<and> b \<notin> set KNOWN_INVOICE_FEATURE_BITS) features,
       di_unsupportedRequiredFeatures = filter (\<lambda>b. even b \<and> b \<in> set KNOWN_INVOICE_FEATURE_BITS
         \<and> b \<notin> set SUPPORTED_REQUIRED_FEATURE_BITS) features,
       di_routeHintCount = ts_routeHintCount tagged, di_fallbackCount = ts_fallbackCount tagged,
       di_metadataCount = ts_metadataCount tagged, di_unknownTagCount = ts_unknownTagCount tagged,
       di_singletonTagCounts = ts_counts tagged, di_hasInlineDescription = (ts_description tagged \<noteq> None),
       di_hasHashedDescription = (ts_descriptionHash tagged \<noteq> None)\<rparr>)))))))"

section \<open>Values of the fields\<close>

lemma hex_digit_lower: "is_hex_lower (hex_digit w)"
proof -
  have "unat (w AND 15) < 16" using word_and_le1 [of w 15] by (simp add: word_le_nat_alt)
  then have "hex_digit w \<in> set ''0123456789abcdef''" unfolding hex_digit_def by (intro nth_mem) simp
  then show ?thesis by (simp only: is_hex_lower_def)
qed

lemma toHex_lower: "list_all is_hex_lower (toHex bs)" "length (toHex bs) = 2 * length bs"
  by (induction bs) (auto simp: toHex_def hex_digit_lower)

lemma bytes32_of_words_value: "bytes32_of_words ws name = Inr v \<Longrightarrow> is_bytes32 v"
  by (auto simp: bytes32_of_words_def bindE_eq_Inr bolt11_fail_def is_bytes32_def toHex_lower split: if_splits)

lemma wordsToInteger_range: "wordsToInteger ws name = Inr v \<Longrightarrow> 0 \<le> v \<and> v \<le> MAX_SAFE_INTEGER"
proof -
  have "0 \<le> a \<Longrightarrow> 0 \<le> foldl (\<lambda>v w. push_bit 5 v OR int (unat w)) a ws" for a :: int and ws :: "u32 list"
    by (induction ws arbitrary: a) (simp_all add: push_bit_eq_mult)
  then show "wordsToInteger ws name = Inr v \<Longrightarrow> 0 \<le> v \<and> v \<le> MAX_SAFE_INTEGER"
    by (auto simp: wordsToInteger_def bolt11_fail_def Let_def split: if_splits)
qed

lemma amount_range: "parseNetworkAndAmount hrp = Inr (amount, network, prefix) \<Longrightarrow>
    0 \<le> amount \<and> amount \<le> MAXIMUM_UINT64 \<and> (prefix, network) \<in> set NETWORK_PREFIXES"
proof -
  assume p: "parseNetworkAndAmount hrp = Inr (amount, network, prefix)"
  have find: "find P xs = Some x \<Longrightarrow> x \<in> set xs" for P and xs :: "(string \<times> string) list" and x
    by (induction xs) (auto split: if_splits)
  have digits: "amount_match s = Some (ds, u) \<Longrightarrow> 0 \<le> dec_val ds \<and> 0 \<le> dec_val ds div 10" for s ds u
  proof -
    have "list_all is_digit (takeWhile is_digit s)" by (auto simp: list_all_iff dest: set_takeWhileD)
    then have "0 \<le> dec_val (takeWhile is_digit s)" by (rule dec_val_nonneg)
    then show "amount_match s = Some (ds, u) \<Longrightarrow> 0 \<le> dec_val ds \<and> 0 \<le> dec_val ds div 10"
      by (auto simp: amount_match_def Let_def split: if_splits)
  qed
  from p show ?thesis
    using digits by (auto simp: parseNetworkAndAmount_def Let_def bolt11_fail_def bindE_eq_Inr MAXIMUM_UINT64_def
        split: option.splits prod.splits if_splits dest!: find)
qed

lemma feature_list_sorted: "sorted (feature_list ws) \<and> distinct (feature_list ws)"
proof -
  have gen: "sorted (concat (map (\<lambda>(i, w). map (\<lambda>b. i * 5 + b) (filter (P w) [0..<5])) (enumerate n xs)))
     \<and> distinct (concat (map (\<lambda>(i, w). map (\<lambda>b. i * 5 + b) (filter (P w) [0..<5])) (enumerate n xs)))
     \<and> (\<forall>x\<in>set (concat (map (\<lambda>(i, w). map (\<lambda>b. i * 5 + b) (filter (P w) [0..<5])) (enumerate n xs))). n * 5 \<le> x)"
    for P :: "u32 \<Rightarrow> nat \<Rightarrow> bool" and n and xs :: "u32 list"
  proof (induction xs arbitrary: n)
    case (Cons x xs)
    have "sorted (map (\<lambda>b. n * 5 + b) (filter (P x) [0..<5]))"
      by (simp add: sorted_map sorted_wrt_filter)
    moreover have "distinct (map (\<lambda>b. n * 5 + b) (filter (P x) [0..<5]))" by (simp add: distinct_map inj_on_def)
    ultimately show ?case using Cons [of "Suc n"] by (fastforce simp: sorted_append)
  qed simp
  show ?thesis unfolding feature_list_def using gen [of "\<lambda>w b. drop_bit b w AND 1 \<noteq> 0" 0 "rev ws"] by blast
qed

lemma featureBits_value: "featureBits ws = Inr bits \<Longrightarrow> sorted bits \<and> distinct bits
    \<and> list_all (\<lambda>(r, p). r \<notin> set bits \<or> p \<notin> set bits) INVOICE_FEATURE_PAIRS"
  using feature_list_sorted [of ws]
  by (auto simp: featureBits_def Let_def bolt11_fail_def list_all_iff find_None_iff split: if_splits option.splits prod.splits)

lemma decodeBech32_words:
  assumes "decodeBech32 s = Inr (hrp, ws)"
  shows "list_all (fits 5) ws"
proof -
  from assms obtain vs rest where "bech32_words rest = Inr vs" "ws = take (length vs - 6) vs"
    by (auto simp: decodeBech32_def Let_def bindE_eq_Inr bolt11_fail_def split: if_splits)
  moreover from this have "list_all (fits 5) vs"
    by (auto simp: bech32_words_Inr list_all_length list_all2_conv_all_nth dest!: bech32_index_range)
  ultimately show ?thesis by (auto simp: list_all_iff dest: in_set_takeD)
qed

lemma base32_range: "list_all (fits 5) ws \<Longrightarrow> 0 \<le> t \<Longrightarrow> t < 32 ^ k \<Longrightarrow>
    0 \<le> foldl (\<lambda>t w. t * 32 + int (unat w)) t ws \<and> foldl (\<lambda>t w. t * 32 + int (unat w)) t ws < 32 ^ (k + length ws)"
proof (induction ws arbitrary: t k)
  case (Cons w ws)
  have "unat w < 32" using Cons.prems(1) by (simp add: fits_unat)
  then have "int (unat w) < 32" by linarith
  moreover have "t \<le> 32 ^ k - 1" using Cons.prems(3) by simp
  ultimately have "t * 32 + int (unat w) < 32 ^ Suc k" by simp
  then show ?case using Cons.IH [of "t * 32 + int (unat w)" "Suc k"] Cons.prems by simp
qed simp

section \<open>The tagged fields\<close>

text \<open>A field as its words: type, two length words, data.\<close>

type_synonym tag_field = "u32 \<times> u32 \<times> u32 \<times> u32 list"

definition field_words :: "tag_field \<Rightarrow> u32 list" where
  "field_words f = (case f of (t, h, l, d) \<Rightarrow> t # h # l # d)"

definition field_type :: "tag_field \<Rightarrow> char" where
  "field_type f = BECH32_ALPHABET ! unat (fst f)"

definition field_data :: "tag_field \<Rightarrow> u32 list" where
  "field_data f = snd (snd (snd f))"

definition fields_of :: "char \<Rightarrow> tag_field list \<Rightarrow> tag_field list" where
  "fields_of c fs = filter (\<lambda>f. field_type f = c) fs"

definition read_field :: "bolt11_crypto \<Rightarrow> tag_field \<Rightarrow> tag_state \<Rightarrow> tag_state result" where
  "read_field C f st =
     (if ts_tagCount st + 1 > MAXIMUM_TAGS then bolt11_fail ''BOLT 11 has too many tagged fields''
      else read_tag C (field_type f) (field_data f) (st\<lparr>ts_tagCount := ts_tagCount st + 1\<rparr>))"

text \<open>The loop over the words is a fold over the fields they spell out.\<close>

lemma tag_loop_fields:
  "tag_loop C ws st = Inr st' \<Longrightarrow> \<exists>fs. ws = concat (map field_words fs) \<and> foldE (read_field C) fs st = Inr st'"
proof (induction C ws st rule: tag_loop.induct)
  case (1 C ws st)
  show ?case
  proof (cases "ws = []")
    case True
    then show ?thesis using "1.prems" by (intro exI [of _ "[]"]) (simp add: tag_loop.simps)
  next
    case False
    let ?len = "unat (push_bit 5 (ws ! 1) OR ws ! 2)" and ?st = "st\<lparr>ts_tagCount := ts_tagCount st + 1\<rparr>"
    let ?f = "(ws ! 0, ws ! 1, ws ! 2, take ?len (drop 3 ws))"
    from False "1.prems" obtain st2 where ok: "\<not> length ws < 3" "\<not> ts_tagCount ?st > MAXIMUM_TAGS"
        "\<not> ?len > length (drop 3 ws)"
        "read_tag C (BECH32_ALPHABET ! unat (ws ! 0)) (take ?len (drop 3 ws)) ?st = Inr st2"
        "tag_loop C (drop ?len (drop 3 ws)) st2 = Inr st'"
      by (subst (asm) tag_loop.simps) (auto simp: Let_def bolt11_fail_def bindE_eq_Inr split: if_splits)
    from "1.IH" [OF False ok(1) refl ok(2) refl refl refl ok(3,4,5)] obtain fs where fs:
        "drop ?len (drop 3 ws) = concat (map field_words fs)" "foldE (read_field C) fs st2 = Inr st'" by blast
    obtain a b c rest where ws: "ws = a # b # c # rest"
      using ok(1) by (cases ws; cases "tl ws"; cases "tl (tl ws)") auto
    have "read_field C ?f st = Inr st2"
      using ok(2,4) by (simp add: read_field_def field_type_def field_data_def)
    moreover have "ws = field_words ?f @ concat (map field_words fs)"
      unfolding fs(1) [symmetric] field_words_def ws by simp
    ultimately show ?thesis using fs(2) by (intro exI [of _ "?f # fs"]) simp
  qed
qed

lemma read_field_count:
  assumes "read_field C f st = Inr st'"
  shows "map fst (ts_counts st') = map fst (ts_counts st)"
    and "tag_count st' c = tag_count st c + (if c \<in> fst ` set (ts_counts st) \<and> field_type f = c then 1 else 0)"
proof -
  have counts: "ts_counts st' = map (\<lambda>(u, n). (u, if u = field_type f then n + 1 else n)) (ts_counts st)"
    using assms by (auto simp: read_field_def read_tag_def count_tag_def Let_def bolt11_fail_def bindE_eq_Inr
        split: if_splits option.splits)
  then show "map fst (ts_counts st') = map fst (ts_counts st)" by (simp add: comp_def case_prod_unfold)
  have "map_of (map (\<lambda>(u, n). (u, if u = t then n + 1 else n)) xs) c =
    map_option (\<lambda>n. if c = t then n + 1 else n) (map_of xs c)" for xs :: "(char \<times> nat) list" and t
    by (induction xs) auto
  then have "map_of (ts_counts st') c = map_option (\<lambda>n. if c = field_type f then n + 1 else n) (map_of (ts_counts st) c)"
    unfolding counts .
  moreover have "map_of (ts_counts st) c = None \<longleftrightarrow> c \<notin> fst ` set (ts_counts st)" by (rule map_of_eq_None_iff)
  ultimately show "tag_count st' c = tag_count st c + (if c \<in> fst ` set (ts_counts st) \<and> field_type f = c then 1 else 0)"
    by (cases "map_of (ts_counts st) c") (auto simp: tag_count_def)
qed

lemma read_fields_count:
  assumes "foldE (read_field C) fs st = Inr st'" and "c \<in> fst ` set (ts_counts st)"
  shows "tag_count st' c = tag_count st c + length (fields_of c fs)"
  using assms
proof (induction fs arbitrary: st)
  case (Cons f fs)
  then obtain st1 where f: "read_field C f st = Inr st1" "foldE (read_field C) fs st1 = Inr st'" by (auto simp: bindE_eq_Inr)
  have "fst ` set (ts_counts st1) = fst ` set (ts_counts st)"
    using read_field_count(1) [OF f(1)] by (metis set_map)
  then show ?case using Cons.IH [OF f(2)] Cons.prems(2) read_field_count(2) [OF f(1), of c] by (simp add: fields_of_def)
qed (simp add: fields_of_def)

text \<open>The payment hash and the payment secret change with their own field only.\<close>

lemma read_field_hash:
  assumes "read_field C f st = Inr st'"
  shows "if field_type f = CHR ''p''
    then \<exists>v. bytes32_of_words (field_data f) ''BOLT 11 payment hash'' = Inr v \<and> ts_paymentHash st' = Some v
    else ts_paymentHash st' = ts_paymentHash st"
    and "if field_type f = CHR ''s''
    then \<exists>v. bytes32_of_words (field_data f) ''BOLT 11 payment secret'' = Inr v \<and> ts_paymentSecret st' = Some v
    else ts_paymentSecret st' = ts_paymentSecret st"
  using assms by (auto simp: read_field_def read_tag_def count_tag_def Let_def bolt11_fail_def bindE_eq_Inr
      split: if_splits option.splits)

lemma read_fields_hash:
  assumes "foldE (read_field C) fs st = Inr st'"
  shows "(fields_of (CHR ''p'') fs = [] \<longrightarrow> ts_paymentHash st' = ts_paymentHash st)
      \<and> (\<forall>f. fields_of (CHR ''p'') fs = [f] \<longrightarrow>
           (\<exists>v. bytes32_of_words (field_data f) ''BOLT 11 payment hash'' = Inr v \<and> ts_paymentHash st' = Some v))"
    and "(fields_of (CHR ''s'') fs = [] \<longrightarrow> ts_paymentSecret st' = ts_paymentSecret st)
      \<and> (\<forall>f. fields_of (CHR ''s'') fs = [f] \<longrightarrow>
           (\<exists>v. bytes32_of_words (field_data f) ''BOLT 11 payment secret'' = Inr v \<and> ts_paymentSecret st' = Some v))"
  using assms
proof (induction fs arbitrary: st)
  case (Cons f fs)
  case 1
  then obtain st1 where "read_field C f st = Inr st1" "foldE (read_field C) fs st1 = Inr st'" by (auto simp: bindE_eq_Inr)
  then show ?case using Cons.IH(1) [of st1] read_field_hash(1) [of C f st st1] by (auto simp: fields_of_def split: if_splits)
next
  case (Cons f fs)
  case 2
  then obtain st1 where "read_field C f st = Inr st1" "foldE (read_field C) fs st1 = Inr st'" by (auto simp: bindE_eq_Inr)
  then show ?case using Cons.IH(2) [of st1] read_field_hash(2) [of C f st st1] by (auto simp: fields_of_def split: if_splits)
qed (simp_all add: fields_of_def)

text \<open>What every parsed field leaves well formed.\<close>

definition tag_values_ok :: "tag_state \<Rightarrow> bool" where
  "tag_values_ok st \<longleftrightarrow> 0 \<le> ts_expirySeconds st \<and> ts_expirySeconds st \<le> MAX_SAFE_INTEGER
     \<and> 0 \<le> ts_minFinalCltvDelta st \<and> ts_minFinalCltvDelta st \<le> MAX_SAFE_INTEGER
     \<and> sorted (ts_features st) \<and> distinct (ts_features st)
     \<and> list_all (\<lambda>(r, p). r \<notin> set (ts_features st) \<or> p \<notin> set (ts_features st)) INVOICE_FEATURE_PAIRS"

lemma read_field_values:
  assumes "tag_values_ok st" and "read_field C f st = Inr st'"
  shows "tag_values_ok st'"
proof -
  from assms(2) consider "ts_expirySeconds st' = ts_expirySeconds st \<and> ts_minFinalCltvDelta st' = ts_minFinalCltvDelta st
      \<and> ts_features st' = ts_features st"
    | v where "wordsToInteger (field_data f) ''BOLT 11 expiry'' = Inr v"
      "ts_expirySeconds st' = v \<and> ts_minFinalCltvDelta st' = ts_minFinalCltvDelta st \<and> ts_features st' = ts_features st"
    | v where "wordsToInteger (field_data f) ''BOLT 11 final CLTV delta'' = Inr v"
      "ts_expirySeconds st' = ts_expirySeconds st \<and> ts_minFinalCltvDelta st' = v \<and> ts_features st' = ts_features st"
    | v where "featureBits (field_data f) = Inr v"
      "ts_expirySeconds st' = ts_expirySeconds st \<and> ts_minFinalCltvDelta st' = ts_minFinalCltvDelta st \<and> ts_features st' = v"
    by (auto simp: read_field_def read_tag_def count_tag_def Let_def bolt11_fail_def bindE_eq_Inr split: if_splits option.splits)
  then show ?thesis
    using assms(1) wordsToInteger_range featureBits_value unfolding tag_values_ok_def by cases auto
qed

lemma read_fields_values: "tag_values_ok st \<Longrightarrow> foldE (read_field C) fs st = Inr st' \<Longrightarrow> tag_values_ok st'"
  by (induction fs arbitrary: st) (auto simp: bindE_eq_Inr dest: read_field_values)

lemma initial_tags_ok: "tag_values_ok initial_tags" "c \<in> set SINGLETON_TAGS \<Longrightarrow> tag_count initial_tags c = 0"
    "fst ` set (ts_counts initial_tags) = set SINGLETON_TAGS"
  by (auto simp: tag_values_ok_def initial_tags_def MAX_SAFE_INTEGER_def INVOICE_FEATURE_PAIRS_def tag_count_def
      SINGLETON_TAGS_def image_image)

text \<open>The parsed tags as fields: one payment hash, one payment secret, no singleton twice.\<close>

lemma tagState_fields:
  assumes "tagState C ws = Inr st"
  shows "\<exists>fs. ws = concat (map field_words fs) \<and> foldE (read_field C) fs initial_tags = Inr st
    \<and> (\<forall>c\<in>set SINGLETON_TAGS. length (fields_of c fs) \<le> 1) \<and> length (fields_of (CHR ''p'') fs) = 1
    \<and> length (fields_of (CHR ''s'') fs) = 1"
proof -
  from assms have loop: "tag_loop C ws initial_tags = Inr st"
    and none: "find (\<lambda>t. tag_count st t > 1) SINGLETON_TAGS = None"
    and ps: "tag_count st (CHR ''p'') = 1" "tag_count st (CHR ''s'') = 1"
    by (auto simp: tagState_def bindE_eq_Inr bolt11_fail_def split: option.splits if_splits)
  obtain fs where fs: "ws = concat (map field_words fs)" "foldE (read_field C) fs initial_tags = Inr st"
    using tag_loop_fields [OF loop] by blast
  have count: "tag_count st c = length (fields_of c fs)" if "c \<in> set SINGLETON_TAGS" for c
    using read_fields_count [OF fs(2), of c] initial_tags_ok(2,3) that by simp
  have "\<forall>c\<in>set SINGLETON_TAGS. tag_count st c \<le> 1" using none by (auto simp: find_None_iff)
  moreover have "CHR ''p'' \<in> set SINGLETON_TAGS" "CHR ''s'' \<in> set SINGLETON_TAGS" by (simp_all add: SINGLETON_TAGS_def)
  ultimately show ?thesis using fs ps count by (intro exI [of _ fs]) auto
qed

section \<open>Correctness of the decoder\<close>

lemma decoded_parts:
  assumes "decodeBolt11Invoice C raw options = Inr d"
  obtains hrp ws prefix st where "normalizeBolt11Invoice raw = Inr (di_invoice d)"
    "decodeBech32 (di_invoice d) = Inr (hrp, ws)"
    "parseNetworkAndAmount hrp = Inr (di_amountMsat d, di_network d, prefix)"
    "TIMESTAMP_WORDS + SIGNATURE_WORDS \<le> length ws"
    "tagState C (drop TIMESTAMP_WORDS (take (length ws - SIGNATURE_WORDS) ws)) = Inr st"
    "verifySignature C hrp (take (length ws - SIGNATURE_WORDS) ws) (drop (length ws - SIGNATURE_WORDS) ws) st = Inr (di_destination d)"
    "di_timestamp d = foldl (\<lambda>t w. t * 32 + int (unat w)) 0 (take TIMESTAMP_WORDS (take (length ws - SIGNATURE_WORDS) ws))"
    "di_paymentHash d = ts_paymentHash st" "di_paymentSecret d = ts_paymentSecret st"
    "di_expirySeconds d = ts_expirySeconds st" "di_minFinalCltvDelta d = ts_minFinalCltvDelta st"
    "di_featureBits d = ts_features st"
  using assms unfolding decodeBolt11Invoice_def Let_def bindE_eq_Inr if_Inl_eq_Inr bolt11_fail_def
  by (elim exE conjE) (auto simp: bindE_eq_Inr not_less split: prod.splits if_splits)

text \<open>
  Property C31.  A decoded invoice is authentic: its text carries the amount and the network, and the
  signature in its last 104 words verifies, under the destination that is reported, over the hash of
  exactly the human-readable part and all other data words.
\<close>

theorem decoded_invoice_authentic:
  assumes "decodeBolt11Invoice C raw options = Inr d"
  shows "\<exists>hrp ws prefix sig signed lowS. decodeBech32 (di_invoice d) = Inr (hrp, ws)
    \<and> parseNetworkAndAmount hrp = Inr (di_amountMsat d, di_network d, prefix)
    \<and> convertBits (drop (length ws - 104) ws) 5 8 False = Inr sig \<and> length sig = 65
    \<and> convertBits (take (length ws - 104) ws) 5 8 True = Inr signed
    \<and> bc_compact C (take 64 sig)
    \<and> bc_verify C (take 64 sig) (bc_sha256 C (ascii_bytes hrp @ signed)) (di_destination d) lowS"
proof -
  from assms obtain hrp ws prefix st where parts: "decodeBech32 (di_invoice d) = Inr (hrp, ws)"
      "parseNetworkAndAmount hrp = Inr (di_amountMsat d, di_network d, prefix)"
      "verifySignature C hrp (take (length ws - SIGNATURE_WORDS) ws) (drop (length ws - SIGNATURE_WORDS) ws) st = Inr (di_destination d)"
    by (rule decoded_parts)
  from parts(3) show ?thesis
    using parts(1,2) unfolding verifySignature_def bindE_eq_Inr SIGNATURE_WORDS_def
    by (auto simp: Let_def bolt11_fail_def bindE_eq_Inr split: if_splits option.splits)
qed

text \<open>
  Property C32.  The payment hash of a decoded invoice is the one and only payment-hash field of its
  text: the words between timestamp and signature split into tagged fields, exactly one of them is a
  payment hash and one a payment secret, and the reported values are the bytes of these fields.
\<close>

theorem payment_hash_from_unique_field:
  assumes "decodeBolt11Invoice C raw options = Inr d"
  shows "\<exists>hrp ws fs f g v w. decodeBech32 (di_invoice d) = Inr (hrp, ws)
    \<and> drop 7 (take (length ws - 104) ws) = concat (map field_words fs)
    \<and> fields_of (CHR ''p'') fs = [f] \<and> fields_of (CHR ''s'') fs = [g]
    \<and> bytes32_of_words (field_data f) ''BOLT 11 payment hash'' = Inr v \<and> di_paymentHash d = Some v \<and> is_bytes32 v
    \<and> bytes32_of_words (field_data g) ''BOLT 11 payment secret'' = Inr w \<and> di_paymentSecret d = Some w \<and> is_bytes32 w"
proof -
  from assms obtain hrp ws st where parts: "decodeBech32 (di_invoice d) = Inr (hrp, ws)"
      "tagState C (drop TIMESTAMP_WORDS (take (length ws - SIGNATURE_WORDS) ws)) = Inr st"
      "di_paymentHash d = ts_paymentHash st" "di_paymentSecret d = ts_paymentSecret st"
    by (rule decoded_parts)
  from tagState_fields [OF parts(2)] obtain fs f g where fs:
      "drop TIMESTAMP_WORDS (take (length ws - SIGNATURE_WORDS) ws) = concat (map field_words fs)"
      "foldE (read_field C) fs initial_tags = Inr st" "fields_of (CHR ''p'') fs = [f]" "fields_of (CHR ''s'') fs = [g]"
    by (auto simp: length_Suc_conv)
  obtain v w where "bytes32_of_words (field_data f) ''BOLT 11 payment hash'' = Inr v" "ts_paymentHash st = Some v"
      "bytes32_of_words (field_data g) ''BOLT 11 payment secret'' = Inr w" "ts_paymentSecret st = Some w"
    using read_fields_hash [OF fs(2)] fs(3,4) by blast
  then show ?thesis
    using parts fs bytes32_of_words_value unfolding TIMESTAMP_WORDS_def SIGNATURE_WORDS_def by metis
qed

lemma decoded_in_range:
  assumes "decodeBolt11Invoice C raw options = Inr d"
  shows "0 \<le> di_amountMsat d \<and> di_amountMsat d < 2 ^ 64 \<and> 0 \<le> di_timestamp d \<and> di_timestamp d < 2 ^ 35
    \<and> 0 \<le> di_expirySeconds d \<and> di_expirySeconds d \<le> MAX_SAFE_INTEGER
    \<and> 0 \<le> di_minFinalCltvDelta d \<and> di_minFinalCltvDelta d \<le> MAX_SAFE_INTEGER
    \<and> sorted (di_featureBits d) \<and> distinct (di_featureBits d)
    \<and> list_all (\<lambda>(r, p). r \<notin> set (di_featureBits d) \<or> p \<notin> set (di_featureBits d)) INVOICE_FEATURE_PAIRS"
proof -
  from assms obtain hrp ws prefix st where parts: "decodeBech32 (di_invoice d) = Inr (hrp, ws)"
      "parseNetworkAndAmount hrp = Inr (di_amountMsat d, di_network d, prefix)"
      "TIMESTAMP_WORDS + SIGNATURE_WORDS \<le> length ws"
      "tagState C (drop TIMESTAMP_WORDS (take (length ws - SIGNATURE_WORDS) ws)) = Inr st"
      "di_timestamp d = foldl (\<lambda>t w. t * 32 + int (unat w)) 0 (take TIMESTAMP_WORDS (take (length ws - SIGNATURE_WORDS) ws))"
      "di_expirySeconds d = ts_expirySeconds st" "di_minFinalCltvDelta d = ts_minFinalCltvDelta st"
      "di_featureBits d = ts_features st"
    by (rule decoded_parts)
  let ?t = "take TIMESTAMP_WORDS (take (length ws - SIGNATURE_WORDS) ws)"
  have "list_all (fits 5) ?t"
    using decodeBech32_words [OF parts(1)] by (auto simp: list_all_iff dest!: in_set_takeD)
  moreover have "length ?t = 7" using parts(3) by (simp add: TIMESTAMP_WORDS_def SIGNATURE_WORDS_def)
  ultimately have "0 \<le> di_timestamp d \<and> di_timestamp d < 2 ^ 35"
    unfolding parts(5) using base32_range [of ?t 0 0] by simp
  moreover have "tag_values_ok st"
    using tagState_fields [OF parts(4)] read_fields_values [OF initial_tags_ok(1)] by blast
  ultimately show ?thesis
    using amount_range [OF parts(2)] parts(6-8) by (auto simp: tag_values_ok_def MAXIMUM_UINT64_def)
qed

text \<open>
  Property C33.  Every number of a decoded invoice is in range: the amount is a 64-bit number of
  millisatoshis, the timestamp has 35 bits, expiry and final CLTV are safe integers, the feature bits
  are sorted without repetition, and no feature is both required and optional.
\<close>

theorem decoded_invoice_ranges:
  assumes "decodeBolt11Invoice C raw options = Inr d"
  shows "0 \<le> di_amountMsat d \<and> di_amountMsat d < 2 ^ 64 \<and> 0 \<le> di_timestamp d \<and> di_timestamp d < 2 ^ 35
    \<and> 0 \<le> di_expirySeconds d \<and> di_expirySeconds d \<le> MAX_SAFE_INTEGER
    \<and> 0 \<le> di_minFinalCltvDelta d \<and> di_minFinalCltvDelta d \<le> MAX_SAFE_INTEGER
    \<and> sorted (di_featureBits d) \<and> distinct (di_featureBits d)
    \<and> list_all (\<lambda>(r, p). r \<notin> set (di_featureBits d) \<or> p \<notin> set (di_featureBits d)) INVOICE_FEATURE_PAIRS"
  by (rule decoded_in_range [OF assms])

section \<open>A sample invoice\<close>

text \<open>
  An invoice over 50000 satoshis with a payment hash, a payment secret and an empty description, and an
  instance of the curve library that accepts its signature.
\<close>

definition sample_crypto :: bolt11_crypto where
  "sample_crypto = \<lparr>bc_sha256 = take 32, bc_point = (\<lambda>_. True), bc_compact = (\<lambda>_. True), bc_highS = (\<lambda>_. False),
     bc_verify = (\<lambda>_ _ _ _. True), bc_recover = (\<lambda>_ _ _. Some (2 # replicate 32 7))\<rparr>"

definition sample_signed :: "u32 list" where
  "sample_signed = [0, 0, 0, 0, 0, 31, 8, 1, 1, 20, 2, 4, 8, 17, 2, 4, 8, 17, 2, 4, 8, 17, 2, 4, 8, 17, 2, 4, 8, 17, 2, 4,
     8, 17, 2, 4, 8, 17, 2, 4, 8, 17, 2, 4, 8, 17, 2, 4, 8, 17, 2, 4, 8, 17, 2, 4, 8, 17, 2, 4, 8, 16,
     16, 1, 20, 4, 8, 17, 2, 4, 8, 17, 2, 4, 8, 17, 2, 4, 8, 17, 2, 4, 8, 17, 2, 4, 8, 17, 2, 4, 8, 17,
     2, 4, 8, 17, 2, 4, 8, 17, 2, 4, 8, 17, 2, 4, 8, 17, 2, 4, 8, 17, 2, 4, 8, 17, 0, 13, 0, 0]"

definition sample_signature :: "u32 list" where
  "sample_signature = [0, 28, 3, 16, 14, 1, 24, 7, 0, 28, 3, 16, 14, 1, 24, 7, 0, 28, 3, 16, 14, 1, 24, 7, 0, 28, 3, 16, 14, 1,
     24, 7, 0, 28, 3, 16, 14, 1, 24, 7, 0, 28, 3, 16, 14, 1, 24, 7, 0, 28, 3, 16, 14, 1, 24, 7, 0, 28, 3,
     16, 14, 1, 24, 7, 0, 28, 3, 16, 14, 1, 24, 7, 0, 28, 3, 16, 14, 1, 24, 7, 0, 28, 3, 16, 14, 1, 24,
     7, 0, 28, 3, 16, 14, 1, 24, 7, 0, 28, 3, 16, 14, 1, 24, 0]"

definition sample_data :: string where
  "sample_data = ''qqqqqlgpp5zyg3zyg3zyg3zyg3zyg3zyg3zyg3zyg3zyg3zyg3zyg3zyg3zygssp5yg3zyg3zyg3zyg3zyg3zyg3zyg3zyg3zyg3''
     @ ''zyg3zyg3zyg3zyg3qdqqqurswpc8qurswpc8qurswpc8qurswpc8qurswpc8qurswpc8qurswpc8qurswpc8qurswpc8qurswpc8''
     @ ''qurswpc8qurswpc8qurswpcqzpjdua''"

definition sample_invoice :: string where "sample_invoice = ''lnbc500u1'' @ sample_data"

definition sample_options :: jsval where "sample_options = JObj [(''maximumInvoiceLength'', JInt 2048)]"

definition sample_decoded :: decoded_invoice where
  "sample_decoded = \<lparr>di_invoice = sample_invoice, di_network = ''mainnet'', di_amountMsat = 50000000,
     di_paymentHash = Some (''0x'' @ replicate 64 (CHR ''1'')), di_paymentSecret = Some (''0x'' @ replicate 64 (CHR ''2'')),
     di_destination = ''02'' @ concat (replicate 32 ''07''), di_timestamp = 1000, di_expirySeconds = 3600,
     di_minFinalCltvDelta = 18, di_basicMpp = False, di_amp = False, di_featureBits = [],
     di_unknownRequiredFeatures = [], di_unsupportedRequiredFeatures = [], di_routeHintCount = 0,
     di_fallbackCount = 0, di_metadataCount = 0, di_unknownTagCount = 0,
     di_singletonTagCounts = [(CHR ''p'', 1), (CHR ''s'', 1), (CHR ''d'', 1), (CHR ''h'', 0), (CHR ''n'', 0),
       (CHR ''x'', 0), (CHR ''c'', 0), (CHR ''9'', 0)], di_hasInlineDescription = True, di_hasHashedDescription = False\<rparr>"

lemma sample_words: "bech32_words sample_data = Inr (sample_signed @ sample_signature @ [2, 1, 18, 13, 28, 29])"
  by code_simp

lemma sample_checksum:
  "polymod (humanReadableExpansion ''lnbc500u'' @ sample_signed @ sample_signature @ [2, 1, 18, 13, 28, 29]) = 1"
  by (simp add: humanReadableExpansion_def sample_signed_def sample_signature_def polymod_def polymod_step_def
      BECH32_GENERATORS_def)

lemma sample_bech32: "decodeBech32 sample_invoice = Inr (''lnbc500u'', sample_signed @ sample_signature)"
proof -
  have "CHR ''1'' \<notin> set sample_data" by code_simp
  then have "lastIndexOf (CHR ''1'') sample_invoice = 8"
    using lastIndexOf_split [of "CHR ''1''" sample_data "''lnbc500u''"] by (simp add: sample_invoice_def)
  moreover have "length sample_data = 230" by (simp add: sample_data_def)
  moreover have "length sample_signed = 120" "length sample_signature = 104"
    by (simp_all add: sample_signed_def sample_signature_def)
  ultimately show ?thesis
    using sample_words sample_checksum by (simp add: decodeBech32_def sample_invoice_def Let_def)
qed

lemma sample_tags:
  "tagState sample_crypto (drop 7 sample_signed) = Inr \<lparr>ts_counts = di_singletonTagCounts sample_decoded,
     ts_description = Some [], ts_descriptionHash = None, ts_destination = None, ts_expirySeconds = 3600,
     ts_fallbackCount = 0, ts_features = [], ts_metadataCount = 0, ts_minFinalCltvDelta = 18,
     ts_paymentHash = di_paymentHash sample_decoded, ts_paymentSecret = di_paymentSecret sample_decoded,
     ts_routeHintCount = 0, ts_tagCount = 3, ts_unknownTagCount = 0\<rparr>"
  by code_simp

lemma sample_signature_bytes: "convertBits sample_signature 5 8 False = Inr (replicate 64 7 @ [0])"
  by code_simp

lemma sample_signed_bytes: "\<exists>bytes. convertBits sample_signed 5 8 True = Inr bytes"
proof -
  have "list_all (fits 5) sample_signed" by (simp add: sample_signed_def)
  from convert_loop_stream [OF this, of 0 "[]" 0] show ?thesis by (auto simp: convertBits_def)
qed

lemma sample_decodes: "decodeBolt11Invoice sample_crypto (JStr sample_invoice) sample_options = Inr sample_decoded"
proof -
  obtain bytes where bytes: "convertBits sample_signed 5 8 True = Inr bytes" using sample_signed_bytes by blast
  have lens: "length sample_signed = 120" "length sample_signature = 104"
    by (simp_all add: sample_signed_def sample_signature_def)
  have "normalizeBolt11Invoice (JStr sample_invoice) = Inr sample_invoice" by code_simp
  moreover have "exactKeys sample_options [''maximumInvoiceLength''] ''BOLT 11 decoder options'' = Inr ()"
      "integer_between (js_get sample_options ''maximumInvoiceLength'') ''maximum BOLT 11 invoice length'' 256 8192 = Inr 2048"
    by code_simp+
  moreover have "length sample_invoice \<le> 2048" by (simp add: sample_invoice_def sample_data_def)
  moreover have "parseNetworkAndAmount ''lnbc500u'' = Inr (50000000, ''mainnet'', ''lnbc'')" by code_simp
  moreover have "foldl (\<lambda>t w. t * 32 + int (unat w)) 0 (take 7 sample_signed) = 1000" by code_simp
  moreover have "toHex (2 # replicate 32 7) = di_destination sample_decoded" by code_simp
  ultimately show ?thesis
    by (simp add: decodeBolt11Invoice_def sample_bech32 lens TIMESTAMP_WORDS_def SIGNATURE_WORDS_def sample_tags
        verifySignature_def sample_signature_bytes bytes Let_def nth_append)
      (simp add: sample_crypto_def sample_decoded_def)
qed

theorem decoded_invoice_authentic_witness:
  "\<exists>hrp ws sig. decodeBech32 sample_invoice = Inr (hrp, ws) \<and> length sig = 65
     \<and> convertBits (drop (length ws - 104) ws) 5 8 False = Inr sig"
proof -
  have "di_invoice sample_decoded = sample_invoice" by (simp add: sample_decoded_def)
  then show ?thesis using decoded_invoice_authentic [OF sample_decodes] by metis
qed

theorem payment_hash_from_unique_field_witness:
  "\<exists>hrp ws fs f. decodeBech32 sample_invoice = Inr (hrp, ws) \<and> fields_of (CHR ''p'') fs = [f]
     \<and> drop 7 (take (length ws - 104) ws) = concat (map field_words fs)"
proof -
  have "di_invoice sample_decoded = sample_invoice" by (simp add: sample_decoded_def)
  then show ?thesis using payment_hash_from_unique_field [OF sample_decodes] by metis
qed

theorem decoded_invoice_ranges_witness:
  "di_amountMsat sample_decoded = 50000000 \<and> (50000000 :: int) < 2 ^ 64 \<and> di_timestamp sample_decoded < 2 ^ 35"
  using decoded_invoice_ranges [OF sample_decodes] by (simp add: sample_decoded_def)

end
