(* ===== verification/Invoice_Policy.thy ===== *)
theory Invoice_Policy
  imports Bolt11
begin

text \<open>
  The full-fill policy for Lightning invoices (\<^verbatim>\<open>src/lib/invoice-policy.mjs\<close>) on top of the decoder: the
  snapshots of its inputs, the reasons to refuse an invoice, and the registry of payment hashes.  The
  hash \<open>H\<close> of the runtime and \<^verbatim>\<open>getBytes\<close> of the Ethereum library (\<open>G\<close>, \<open>None\<close> where it throws) are
  parameters, like the curve library of the decoder.
\<close>

section \<open>Inputs\<close>

definition INPUT_FIELDS :: "string list" where
  "INPUT_FIELDS = [''now'', ''policy'', ''rawInvoice'', ''registry'', ''request'']"

definition INVOICE_POLICY_FIELDS :: "string list" where
  "INVOICE_POLICY_FIELDS = [''allowHashedDescriptions'', ''maxExpirySeconds'', ''maxInvoiceLength'', ''maxRouteHints'',
     ''maximumFinalCltvDelta'', ''minimumFinalCltvDelta'', ''minimumRemainingSeconds'']"

definition REQUEST_FIELDS :: "string list" where
  "REQUEST_FIELDS = [''amountSats'', ''childIndex'', ''expectedPayee'', ''fillAmountSats'', ''invoiceDigest'',
     ''parentIntentId'', ''paymentHash'', ''totalAmountSats'']"

definition REGISTRY_FIELDS :: "string list" where
  "REGISTRY_FIELDS = [''consumedPaymentHashes'', ''reservedPaymentHashes'']"

text \<open>The pattern \<^verbatim>\<open>/^(02|03)[0-9a-f]{64}$/\<close>.\<close>

definition is_compressed_pubkey :: "string \<Rightarrow> bool" where
  "is_compressed_pubkey s \<longleftrightarrow> length s = 66 \<and> (take 2 s = ''02'' \<or> take 2 s = ''03'') \<and> list_all is_hex_lower (drop 2 s)"

definition invoice_uint :: "jsval \<Rightarrow> string \<Rightarrow> int result" where
  "invoice_uint v name = (case v of
     JBigInt i \<Rightarrow> if 0 \<le> i then Inr i else Inl (TypeError (name @ '' must be a non-negative integer''))
   | JInt i \<Rightarrow> if isSafeInteger v \<and> 0 \<le> i then Inr i else Inl (TypeError (name @ '' must be a non-negative integer''))
   | JStr s \<Rightarrow> if is_uint s then Inr (dec_val s) else Inl (TypeError (name @ '' must be a non-negative integer''))
   | _ \<Rightarrow> Inl (TypeError (name @ '' must be a non-negative integer'')))"

definition invoice_boolean :: "jsval \<Rightarrow> string \<Rightarrow> bool result" where
  "invoice_boolean v name = (case v of JBool b \<Rightarrow> Inr b | _ \<Rightarrow> Inl (TypeError (name @ '' must be a boolean'')))"

definition invoice_bytes32 :: "jsval \<Rightarrow> string \<Rightarrow> string result" where
  "invoice_bytes32 v name = (case v of
     JStr s \<Rightarrow> if is_bytes32 s then Inr s else Inl (TypeError (name @ '' must be lowercase bytes32''))
   | _ \<Rightarrow> Inl (TypeError (name @ '' must be lowercase bytes32'')))"

definition optionalPayee :: "jsval \<Rightarrow> string option result" where
  "optionalPayee v = (case v of
     JNull \<Rightarrow> Inr None
   | JStr s \<Rightarrow> if is_compressed_pubkey (toLowerCase s) then Inr (Some (toLowerCase s))
       else Inl (TypeError ''request.expectedPayee must be a compressed secp256k1 public key or null'')
   | _ \<Rightarrow> Inl (TypeError ''request.expectedPayee must be a compressed secp256k1 public key or null''))"

fun hash_array :: "string \<Rightarrow> nat \<Rightarrow> jsval list \<Rightarrow> string list result" where
  "hash_array name index [] = Inr []"
| "hash_array name index (v # vs) =
     bindE (invoice_bytes32 v (name @ ''['' @ dec_str (int index) @ '']'')) (\<lambda>h.
     bindE (hash_array name (index + 1) vs) (\<lambda>hs. Inr (h # hs)))"

definition exactDataArray :: "jsval \<Rightarrow> string \<Rightarrow> string list result" where
  "exactDataArray v name = (case v of
     JArr vs \<Rightarrow> if length vs > 4096 then Inl (TypeError (name @ '' must be a bounded plain array''))
       else hash_array name 0 vs
   | _ \<Rightarrow> Inl (TypeError (name @ '' must be a bounded plain array'')))"

section \<open>Snapshots\<close>

record invoice_policy =
  vp_allowHashedDescriptions :: bool
  vp_maxInvoiceLength :: int
  vp_maxExpirySeconds :: int
  vp_minimumRemainingSeconds :: int
  vp_minimumFinalCltvDelta :: int
  vp_maximumFinalCltvDelta :: int
  vp_maxRouteHints :: int

definition snapshotPolicy :: "jsval \<Rightarrow> invoice_policy result" where
  "snapshotPolicy v =
     bindE (exactKeys v INVOICE_POLICY_FIELDS ''invoice policy'') (\<lambda>_.
     bindE (invoice_boolean (js_get v ''allowHashedDescriptions'') ''policy.allowHashedDescriptions'') (\<lambda>hashed.
     bindE (integer_between (js_get v ''maxInvoiceLength'') ''policy.maxInvoiceLength'' 256 8192) (\<lambda>maxLength.
     bindE (integer_between (js_get v ''maxExpirySeconds'') ''policy.maxExpirySeconds'' 1 604800) (\<lambda>maxExpiry.
     bindE (integer_between (js_get v ''minimumRemainingSeconds'') ''policy.minimumRemainingSeconds'' 1 86400) (\<lambda>remaining.
     bindE (integer_between (js_get v ''minimumFinalCltvDelta'') ''policy.minimumFinalCltvDelta'' 1 2016) (\<lambda>minCltv.
     bindE (integer_between (js_get v ''maximumFinalCltvDelta'') ''policy.maximumFinalCltvDelta'' 1 2016) (\<lambda>maxCltv.
     bindE (integer_between (js_get v ''maxRouteHints'') ''policy.maxRouteHints'' 0 64) (\<lambda>hints.
     if minCltv > maxCltv then Inl (RangeError ''invoice final CLTV policy bounds are inverted'')
     else if hashed then Inl (RangeError ''hashed invoice descriptions cannot be enabled without a verified preimage'')
     else if remaining \<ge> maxExpiry then Inl (RangeError ''invoice remaining-time policy cannot reach its maximum expiry'')
     else Inr \<lparr>vp_allowHashedDescriptions = hashed, vp_maxInvoiceLength = maxLength, vp_maxExpirySeconds = maxExpiry,
       vp_minimumRemainingSeconds = remaining, vp_minimumFinalCltvDelta = minCltv, vp_maximumFinalCltvDelta = maxCltv,
       vp_maxRouteHints = hints\<rparr>))))))))"

definition validatedInvoicePolicy :: "jsval \<Rightarrow> invoice_policy result" where
  "validatedInvoicePolicy v = snapshotPolicy v"

record invoice_request =
  ir_amountSats :: int
  ir_childIndex :: jsval
  ir_expectedPayee :: "string option"
  ir_fillAmountSats :: int
  ir_invoiceDigest :: string
  ir_parentIntentId :: jsval
  ir_paymentHash :: string
  ir_totalAmountSats :: int

definition snapshotRequest :: "jsval \<Rightarrow> invoice_request result" where
  "snapshotRequest v =
     bindE (exactKeys v REQUEST_FIELDS ''invoice request'') (\<lambda>_.
     bindE (if js_get v ''parentIntentId'' \<noteq> JNull
       then invoice_bytes32 (js_get v ''parentIntentId'') ''request.parentIntentId'' else Inr '''') (\<lambda>_.
     bindE (if js_get v ''childIndex'' \<noteq> JNull
       then integer_between (js_get v ''childIndex'') ''request.childIndex'' 0 MAX_SAFE_INTEGER else Inr 0) (\<lambda>_.
     bindE (invoice_uint (js_get v ''amountSats'') ''request.amountSats'') (\<lambda>amount.
     bindE (optionalPayee (js_get v ''expectedPayee'')) (\<lambda>payee.
     bindE (invoice_uint (js_get v ''fillAmountSats'') ''request.fillAmountSats'') (\<lambda>fill.
     bindE (invoice_bytes32 (js_get v ''invoiceDigest'') ''request.invoiceDigest'') (\<lambda>digest.
     bindE (invoice_bytes32 (js_get v ''paymentHash'') ''request.paymentHash'') (\<lambda>hash.
     bindE (invoice_uint (js_get v ''totalAmountSats'') ''request.totalAmountSats'') (\<lambda>total.
     Inr \<lparr>ir_amountSats = amount, ir_childIndex = js_get v ''childIndex'', ir_expectedPayee = payee,
       ir_fillAmountSats = fill, ir_invoiceDigest = digest, ir_parentIntentId = js_get v ''parentIntentId'',
       ir_paymentHash = hash, ir_totalAmountSats = total\<rparr>)))))))))"

record invoice_registry =
  rg_consumed :: "string list"
  rg_reserved :: "string list"

definition snapshotRegistry :: "jsval \<Rightarrow> invoice_registry result" where
  "snapshotRegistry v =
     bindE (exactKeys v REGISTRY_FIELDS ''invoice registry'') (\<lambda>_.
     bindE (exactDataArray (js_get v ''consumedPaymentHashes'') ''registry.consumedPaymentHashes'') (\<lambda>consumed.
     bindE (exactDataArray (js_get v ''reservedPaymentHashes'') ''registry.reservedPaymentHashes'') (\<lambda>reserved.
     Inr \<lparr>rg_consumed = consumed, rg_reserved = reserved\<rparr>)))"

section \<open>Validation\<close>

record canonical_invoice =
  cn_invoice :: string
  cn_invoiceDigest :: string
  cn_paymentHash :: string
  cn_paymentSecret :: string
  cn_destination :: string
  cn_amountSats :: int
  cn_timestamp :: int
  cn_expiresAt :: int
  cn_minFinalCltvDelta :: int
  cn_featureBits :: "nat list"
  cn_routeHintCount :: nat
  cn_multiPart :: bool

record invoice_validation =
  iv_valid :: bool
  iv_reasons :: "string list"
  iv_canonical :: "canonical_invoice option"

text \<open>A decoded value that may be missing, as the text the patterns and comparisons see.\<close>

definition present_text :: "string option \<Rightarrow> string" where
  "present_text v = (case v of None \<Rightarrow> ''null'' | Some s \<Rightarrow> s)"

definition invoice_reasons ::
    "(string \<Rightarrow> string) \<Rightarrow> (string \<Rightarrow> int list option) \<Rightarrow> int \<Rightarrow> invoice_policy \<Rightarrow> invoice_request \<Rightarrow> invoice_registry
       \<Rightarrow> string \<Rightarrow> decoded_invoice \<Rightarrow> string list" where
  "invoice_reasons H G observedAt policy request registry invoice decoded =
     (let amountSats = di_amountMsat decoded div 1000;
          expiresAt = num_add (di_timestamp decoded) (di_expirySeconds decoded);
          paymentHash = present_text (di_paymentHash decoded); paymentSecret = present_text (di_paymentSecret decoded) in
      addReason (di_network decoded \<noteq> ''mainnet'') ''invoice network is not Bitcoin mainnet''
      @ addReason (invoiceDigest H invoice \<noteq> ir_invoiceDigest request) ''invoice digest changed''
      @ addReason (di_amountMsat decoded = 0) ''amountless invoices are not supported''
      @ addReason (di_amountMsat decoded mod 1000 \<noteq> 0) ''invoice amount is not a whole satoshi''
      @ addReason (amountSats \<noteq> ir_amountSats request) ''invoice amount changed''
      @ addReason (paymentHash \<noteq> ir_paymentHash request) ''invoice payment hash changed''
      @ addReason (\<not> is_bytes32 paymentSecret) ''invoice payment secret is required''
      @ (case G paymentSecret of
           None \<Rightarrow> [''invoice payment secret is malformed'']
         | Some bytes \<Rightarrow> addReason (list_all (\<lambda>b. b = 0) bytes) ''invoice payment secret cannot be zero'')
      @ addReason (\<not> is_compressed_pubkey (di_destination decoded)) ''invoice payee is invalid''
      @ (case ir_expectedPayee request of
           None \<Rightarrow> [] | Some payee \<Rightarrow> addReason (di_destination decoded \<noteq> payee) ''invoice payee changed'')
      @ addReason (di_timestamp decoded > observedAt) ''invoice timestamp is in the future''
      @ addReason (di_expirySeconds decoded = 0 \<or> di_expirySeconds decoded > vp_maxExpirySeconds policy)
          ''invoice expiry is unsupported''
      @ addReason (expiresAt \<le> num_add observedAt (vp_minimumRemainingSeconds policy))
          ''invoice does not have enough safe time remaining''
      @ addReason (di_minFinalCltvDelta decoded < vp_minimumFinalCltvDelta policy
          \<or> di_minFinalCltvDelta decoded > vp_maximumFinalCltvDelta policy) ''invoice final CLTV delta is outside policy''
      @ addReason (di_amp decoded) ''AMP invoices are not supported''
      @ addReason (di_unknownRequiredFeatures decoded \<noteq> []) ''invoice has an unknown required feature''
      @ addReason (di_unsupportedRequiredFeatures decoded \<noteq> []) ''invoice requires an unsupported feature''
      @ addReason (int (di_routeHintCount decoded) > vp_maxRouteHints policy) ''invoice has too many route hints''
      @ addReason (di_hasHashedDescription decoded) ''hashed invoice descriptions are not supported without their preimage''
      @ addReason (ir_fillAmountSats request \<noteq> ir_totalAmountSats request) ''partial fills are not supported''
      @ addReason (ir_parentIntentId request \<noteq> JNull \<or> ir_childIndex request \<noteq> JNull)
          ''child intents are not supported in v1''
      @ addReason (paymentHash \<in> set (rg_reserved registry)) ''payment hash is already reserved''
      @ addReason (paymentHash \<in> set (rg_consumed registry)) ''payment hash was already consumed'')"

definition validateFullFillInvoice ::
    "(string \<Rightarrow> string) \<Rightarrow> (string \<Rightarrow> int list option) \<Rightarrow> bolt11_crypto \<Rightarrow> jsval \<Rightarrow> invoice_validation result" where
  "validateFullFillInvoice H G C input =
     bindE (exactKeys input INPUT_FIELDS ''invoice validation input'') (\<lambda>_.
     bindE (case js_get input ''rawInvoice'' of JStr s \<Rightarrow> Inr () | _ \<Rightarrow> Inl (TypeError ''rawInvoice must be a string'')) (\<lambda>_.
     bindE (integer_between (js_get input ''now'') ''now'' 1 MAX_SAFE_INTEGER) (\<lambda>observedAt.
     bindE (snapshotPolicy (js_get input ''policy'')) (\<lambda>policy.
     bindE (snapshotRequest (js_get input ''request'')) (\<lambda>request.
     bindE (snapshotRegistry (js_get input ''registry'')) (\<lambda>registry.
     case bindE (normalizeBolt11Invoice (js_get input ''rawInvoice'')) (\<lambda>invoice.
         bindE (decodeBolt11Invoice C (JStr invoice) (JObj [(''maximumInvoiceLength'', JInt (vp_maxInvoiceLength policy))]))
           (\<lambda>decoded. Inr (invoice, decoded))) of
       Inl (Bolt11DecodeError _) \<Rightarrow>
         Inr \<lparr>iv_valid = False, iv_reasons = [''BOLT 11 invoice encoding, checksum, or signature is invalid''],
           iv_canonical = None\<rparr>
     | Inl e \<Rightarrow> Inl e
     | Inr (invoice, decoded) \<Rightarrow>
         let reasons = invoice_reasons H G observedAt policy request registry invoice decoded in
         Inr \<lparr>iv_valid = (reasons = []), iv_reasons = reasons,
           iv_canonical = (if reasons = [] then Some \<lparr>cn_invoice = invoice, cn_invoiceDigest = invoiceDigest H invoice,
             cn_paymentHash = present_text (di_paymentHash decoded), cn_paymentSecret = present_text (di_paymentSecret decoded),
             cn_destination = di_destination decoded, cn_amountSats = di_amountMsat decoded div 1000,
             cn_timestamp = di_timestamp decoded,
             cn_expiresAt = num_add (di_timestamp decoded) (di_expirySeconds decoded),
             cn_minFinalCltvDelta = di_minFinalCltvDelta decoded, cn_featureBits = di_featureBits decoded,
             cn_routeHintCount = di_routeHintCount decoded, cn_multiPart = di_basicMpp decoded\<rparr> else None)\<rparr>))))))"

definition reserveValidatedPaymentHash :: "jsval \<Rightarrow> invoice_validation \<Rightarrow> invoice_registry result" where
  "reserveValidatedPaymentHash registryValue validation =
     bindE (snapshotRegistry registryValue) (\<lambda>registry.
     case (iv_valid validation, iv_canonical validation) of
       (True, Some canonical) \<Rightarrow>
         let paymentHash = cn_paymentHash canonical in
         if \<not> is_bytes32 paymentHash then Inl (TypeError ''validated payment hash is malformed'')
         else if paymentHash \<in> set (rg_reserved registry) \<or> paymentHash \<in> set (rg_consumed registry)
         then Inl (Error ''validated payment hash is no longer unique'')
         else Inr (registry\<lparr>rg_reserved := rg_reserved registry @ [paymentHash]\<rparr>)
     | _ \<Rightarrow> Inl (Error ''only a validated full-fill invoice can reserve a hash''))"

section \<open>Correctness\<close>

lemma integer_between_Inr [result_simps]:
  "integer_between v name a b = Inr i \<longleftrightarrow> v = JInt i \<and> a \<le> i \<and> i \<le> b \<and> \<bar>i\<bar> \<le> MAX_SAFE_INTEGER"
  by (auto simp: integer_between_def split: jsval.splits)

lemma snapshotPolicy_bounds:
  "snapshotPolicy v = Inr p \<Longrightarrow> vp_maxExpirySeconds p \<le> 604800 \<and> 1 \<le> vp_minimumRemainingSeconds p
     \<and> vp_minimumRemainingSeconds p \<le> 86400 \<and> 1 \<le> vp_minimumFinalCltvDelta p"
  unfolding snapshotPolicy_def bindE_eq_Inr if_Inl_eq_Inr integer_between_Inr sum.inject
  by (elim exE conjE) (drule sym [where t = p], simp)

lemma validation_parts:
  assumes "validateFullFillInvoice H G C input = Inr v" and "iv_valid v"
  obtains now policy request registry raw invoice d where
    "js_get input ''rawInvoice'' = JStr raw" "js_get input ''now'' = JInt now" "1 \<le> now" "now \<le> MAX_SAFE_INTEGER"
    "snapshotPolicy (js_get input ''policy'') = Inr policy" "snapshotRequest (js_get input ''request'') = Inr request"
    "snapshotRegistry (js_get input ''registry'') = Inr registry" "normalizeBolt11Invoice (JStr raw) = Inr invoice"
    "decodeBolt11Invoice C (JStr invoice) (JObj [(''maximumInvoiceLength'', JInt (vp_maxInvoiceLength policy))]) = Inr d"
    "invoice_reasons H G now policy request registry invoice d = []"
    "iv_canonical v = Some \<lparr>cn_invoice = invoice, cn_invoiceDigest = invoiceDigest H invoice,
       cn_paymentHash = present_text (di_paymentHash d), cn_paymentSecret = present_text (di_paymentSecret d),
       cn_destination = di_destination d, cn_amountSats = di_amountMsat d div 1000, cn_timestamp = di_timestamp d,
       cn_expiresAt = num_add (di_timestamp d) (di_expirySeconds d), cn_minFinalCltvDelta = di_minFinalCltvDelta d,
       cn_featureBits = di_featureBits d, cn_routeHintCount = di_routeHintCount d, cn_multiPart = di_basicMpp d\<rparr>"
  using assms unfolding validateFullFillInvoice_def bindE_eq_Inr integer_between_Inr
  by (elim exE conjE)
    (auto simp: Let_def bindE_eq_Inr split: sum.splits js_error.splits jsval.splits prod.splits)

lemma snapshotRequest_hash: "snapshotRequest v = Inr r \<Longrightarrow> is_bytes32 (ir_paymentHash r)"
  unfolding snapshotRequest_def bindE_eq_Inr
  by (elim exE conjE) (auto simp: invoice_bytes32_def split: jsval.splits if_splits)

lemma remaining_exact:
  assumes "1 \<le> now" and "1 \<le> r" and "0 \<le> t" and "t < 2 ^ 35" and "0 \<le> e" and "e \<le> 604800"
    and "\<not> num_add t e \<le> num_add now r"
  shows "num_add t e = t + e \<and> now + r < t + e"
proof -
  have te: "num_add t e = t + e" using assms by (simp add: num_add_def)
  moreover have "now + r \<le> 9007199254740992"
  proof (rule ccontr)
    assume "\<not> now + r \<le> 9007199254740992"
    then have "9007199254740992 \<le> num_add now r" unfolding num_add_def by (intro js_round_big) simp
    then show False using assms te by simp
  qed
  moreover from this have "num_add now r = now + r" using assms by (simp add: num_add_def)
  ultimately show ?thesis using assms(7) by simp
qed

text \<open>
  Property C34.  A valid full-fill invoice is exactly what the request names: a mainnet invoice that the
  decoder accepts, for a positive whole number of satoshis equal to the requested and unsplit amount,
  with the requested digest, payment hash and payee, a payment hash that is neither reserved nor
  consumed, an expiry that leaves more than the required time (in exact arithmetic, whatever the clock
  value), and a final CLTV within the policy.
\<close>

theorem full_fill_invoice_sound:
  assumes "validateFullFillInvoice H G C input = Inr v" and "iv_valid v"
  shows "\<exists>now policy request registry c d. js_get input ''now'' = JInt now
    \<and> snapshotPolicy (js_get input ''policy'') = Inr policy \<and> snapshotRequest (js_get input ''request'') = Inr request
    \<and> snapshotRegistry (js_get input ''registry'') = Inr registry \<and> iv_canonical v = Some c
    \<and> decodeBolt11Invoice C (JStr (cn_invoice c)) (JObj [(''maximumInvoiceLength'', JInt (vp_maxInvoiceLength policy))]) = Inr d
    \<and> di_network d = ''mainnet'' \<and> di_amountMsat d = 1000 * cn_amountSats c \<and> 0 < cn_amountSats c
    \<and> cn_amountSats c = ir_amountSats request \<and> ir_fillAmountSats request = ir_totalAmountSats request
    \<and> di_paymentHash d = Some (cn_paymentHash c) \<and> cn_paymentHash c = ir_paymentHash request
    \<and> cn_paymentHash c \<notin> set (rg_reserved registry) \<union> set (rg_consumed registry)
    \<and> cn_invoiceDigest c = invoiceDigest H (cn_invoice c) \<and> cn_invoiceDigest c = ir_invoiceDigest request
    \<and> (\<forall>p. ir_expectedPayee request = Some p \<longrightarrow> cn_destination c = p) \<and> cn_destination c = di_destination d
    \<and> cn_timestamp c \<le> now \<and> cn_expiresAt c = di_timestamp d + di_expirySeconds d
    \<and> now + vp_minimumRemainingSeconds policy < cn_expiresAt c \<and> di_expirySeconds d \<le> vp_maxExpirySeconds policy
    \<and> vp_minimumFinalCltvDelta policy \<le> cn_minFinalCltvDelta c \<and> cn_minFinalCltvDelta c \<le> vp_maximumFinalCltvDelta policy"
  using assms
proof (rule validation_parts)
  fix now policy request registry raw invoice d
  assume p: "js_get input ''now'' = JInt now" "1 \<le> now" "snapshotPolicy (js_get input ''policy'') = Inr policy"
      "snapshotRequest (js_get input ''request'') = Inr request" "snapshotRegistry (js_get input ''registry'') = Inr registry"
    and dec: "decodeBolt11Invoice C (JStr invoice) (JObj [(''maximumInvoiceLength'', JInt (vp_maxInvoiceLength policy))]) = Inr d"
    and reasons: "invoice_reasons H G now policy request registry invoice d = []"
    and canonical: "iv_canonical v = Some \<lparr>cn_invoice = invoice, cn_invoiceDigest = invoiceDigest H invoice,
       cn_paymentHash = present_text (di_paymentHash d), cn_paymentSecret = present_text (di_paymentSecret d),
       cn_destination = di_destination d, cn_amountSats = di_amountMsat d div 1000, cn_timestamp = di_timestamp d,
       cn_expiresAt = num_add (di_timestamp d) (di_expirySeconds d), cn_minFinalCltvDelta = di_minFinalCltvDelta d,
       cn_featureBits = di_featureBits d, cn_routeHintCount = di_routeHintCount d, cn_multiPart = di_basicMpp d\<rparr>"
  note range = decoded_in_range [OF dec]
  have no: "di_network d = ''mainnet''" "invoiceDigest H invoice = ir_invoiceDigest request" "di_amountMsat d \<noteq> 0"
      "di_amountMsat d mod 1000 = 0" "di_amountMsat d div 1000 = ir_amountSats request"
      "present_text (di_paymentHash d) = ir_paymentHash request" "di_timestamp d \<le> now"
      "di_expirySeconds d \<le> vp_maxExpirySeconds policy"
      "\<not> num_add (di_timestamp d) (di_expirySeconds d) \<le> num_add now (vp_minimumRemainingSeconds policy)"
      "vp_minimumFinalCltvDelta policy \<le> di_minFinalCltvDelta d" "di_minFinalCltvDelta d \<le> vp_maximumFinalCltvDelta policy"
      "ir_fillAmountSats request = ir_totalAmountSats request"
      "present_text (di_paymentHash d) \<notin> set (rg_reserved registry)" "present_text (di_paymentHash d) \<notin> set (rg_consumed registry)"
      "\<forall>q. ir_expectedPayee request = Some q \<longrightarrow> di_destination d = q"
    using reasons unfolding invoice_reasons_def Let_def append_is_Nil_conv addReason_Nil
    by (auto simp: not_less split: option.splits)
  have exact: "num_add (di_timestamp d) (di_expirySeconds d) = di_timestamp d + di_expirySeconds d
      \<and> now + vp_minimumRemainingSeconds policy < di_timestamp d + di_expirySeconds d"
    using range no(8,9) p(2) snapshotPolicy_bounds [OF p(3)] by (intro remaining_exact) auto
  have "length (present_text (di_paymentHash d)) = 66"
    unfolding no(6) using snapshotRequest_hash [OF p(4)] by (simp add: is_bytes32_def)
  then have hash: "di_paymentHash d = Some (ir_paymentHash request)"
    using no(6) by (cases "di_paymentHash d") (auto simp: present_text_def)
  have "0 < di_amountMsat d" using range no(3) by auto
  moreover have "di_amountMsat d = 1000 * (di_amountMsat d div 1000)"
    using no(4) mult_div_mod_eq [of 1000 "di_amountMsat d"] by simp
  ultimately have amount: "di_amountMsat d = 1000 * (di_amountMsat d div 1000)" "0 < di_amountMsat d div 1000" by linarith+
  show ?thesis
    using p(1,3-5) dec no(1,2,5-8,10-15) exact hash canonical amount
    by (intro exI [of _ now] exI [of _ policy] exI [of _ request] exI [of _ registry]
        exI [of _ "the (iv_canonical v)"] exI [of _ d]) simp
qed

text \<open>The registry as the value the next call receives.\<close>

definition registry_value :: "invoice_registry \<Rightarrow> jsval" where
  "registry_value r = JObj [(''consumedPaymentHashes'', JArr (map JStr (rg_consumed r))),
     (''reservedPaymentHashes'', JArr (map JStr (rg_reserved r)))]"

lemma hash_array_back: "hash_array name i (map JStr hs) = Inr ks \<Longrightarrow> ks = hs"
  by (induction hs arbitrary: i ks) (auto simp: bindE_eq_Inr invoice_bytes32_def split: if_splits)

lemma registry_value_back: "snapshotRegistry (registry_value r) = Inr r' \<Longrightarrow> r' = r"
  by (cases r) (auto simp: snapshotRegistry_def registry_value_def bindE_eq_Inr exactDataArray_def
      dest!: hash_array_back split: if_splits)

text \<open>
  Property C35.  A payment hash is used once.  Reserving the hash of a validated invoice succeeds only
  when the registry does not hold it, keeps the registry free of repetitions, and from then on no
  invoice with that payment hash is valid against the registry.
\<close>

theorem payment_hash_reserved_once:
  assumes "reserveValidatedPaymentHash value v = Inr registry'" and "snapshotRegistry value = Inr registry"
    and "distinct (rg_reserved registry @ rg_consumed registry)"
  shows "\<exists>c. iv_canonical v = Some c \<and> cn_paymentHash c \<notin> set (rg_reserved registry @ rg_consumed registry)
    \<and> cn_paymentHash c \<in> set (rg_reserved registry') \<and> distinct (rg_reserved registry' @ rg_consumed registry')
    \<and> (\<forall>H G C input v' c'. js_get input ''registry'' = registry_value registry' \<longrightarrow>
         validateFullFillInvoice H G C input = Inr v' \<longrightarrow> iv_canonical v' = Some c' \<longrightarrow>
         iv_valid v' \<longrightarrow> cn_paymentHash c' \<noteq> cn_paymentHash c)"
proof -
  from assms(1,2) obtain c where c: "iv_canonical v = Some c" "cn_paymentHash c \<notin> set (rg_reserved registry @ rg_consumed registry)"
      "registry' = registry\<lparr>rg_reserved := rg_reserved registry @ [cn_paymentHash c]\<rparr>"
    by (auto simp: reserveValidatedPaymentHash_def Let_def split: bool.splits option.splits if_splits)
  have again: "cn_paymentHash c' \<noteq> cn_paymentHash c"
    if t: "js_get input ''registry'' = registry_value registry'" "validateFullFillInvoice H G C input = Inr v'"
      "iv_canonical v' = Some c'" "iv_valid v'" for H G C input v' c'
    using t(2,4)
  proof (rule validation_parts)
    fix now policy request reg raw invoice d
    assume p: "snapshotRegistry (js_get input ''registry'') = Inr reg"
        "invoice_reasons H G now policy request reg invoice d = []"
      and can: "iv_canonical v' = Some \<lparr>cn_invoice = invoice, cn_invoiceDigest = invoiceDigest H invoice,
       cn_paymentHash = present_text (di_paymentHash d), cn_paymentSecret = present_text (di_paymentSecret d),
       cn_destination = di_destination d, cn_amountSats = di_amountMsat d div 1000, cn_timestamp = di_timestamp d,
       cn_expiresAt = num_add (di_timestamp d) (di_expirySeconds d), cn_minFinalCltvDelta = di_minFinalCltvDelta d,
       cn_featureBits = di_featureBits d, cn_routeHintCount = di_routeHintCount d, cn_multiPart = di_basicMpp d\<rparr>"
    have "reg = registry'" using p(1) t(1) registry_value_back by simp
    moreover have "cn_paymentHash c' \<notin> set (rg_reserved reg)"
      using p(2) can t(3) unfolding invoice_reasons_def Let_def append_is_Nil_conv addReason_Nil by auto
    ultimately show ?thesis using c(3) by auto
  qed
  then show ?thesis using c assms(3) by auto
qed

section \<open>A sample validation\<close>

definition sample_invoice_input :: jsval where
  "sample_invoice_input = JObj [(''now'', JInt 1200),
     (''policy'', JObj [(''allowHashedDescriptions'', JBool False), (''maxExpirySeconds'', JInt 7200),
        (''maxInvoiceLength'', JInt 2048), (''maxRouteHints'', JInt 4), (''maximumFinalCltvDelta'', JInt 144),
        (''minimumFinalCltvDelta'', JInt 18), (''minimumRemainingSeconds'', JInt 600)]),
     (''rawInvoice'', JStr sample_invoice),
     (''registry'', JObj [(''consumedPaymentHashes'', JArr []), (''reservedPaymentHashes'', JArr [])]),
     (''request'', JObj [(''amountSats'', JStr ''50000''), (''childIndex'', JNull), (''expectedPayee'', JNull),
        (''fillAmountSats'', JStr ''50000''), (''invoiceDigest'', JStr (''0x'' @ replicate 64 (CHR ''5''))),
        (''parentIntentId'', JNull), (''paymentHash'', JStr (''0x'' @ replicate 64 (CHR ''1''))),
        (''totalAmountSats'', JStr ''50000'')])]"

abbreviation sample_validate :: "jsval \<Rightarrow> invoice_validation result" where
  "sample_validate \<equiv> validateFullFillInvoice (\<lambda>_. replicate 64 (CHR ''5'')) (\<lambda>_. Some [1]) sample_crypto"

definition sample_canonical :: canonical_invoice where
  "sample_canonical = \<lparr>cn_invoice = sample_invoice, cn_invoiceDigest = ''0x'' @ replicate 64 (CHR ''5''),
     cn_paymentHash = ''0x'' @ replicate 64 (CHR ''1''), cn_paymentSecret = ''0x'' @ replicate 64 (CHR ''2''),
     cn_destination = ''02'' @ concat (replicate 32 ''07''), cn_amountSats = 50000, cn_timestamp = 1000,
     cn_expiresAt = 4600, cn_minFinalCltvDelta = 18, cn_featureBits = [], cn_routeHintCount = 0, cn_multiPart = False\<rparr>"

lemma sample_validates: "sample_validate sample_invoice_input = Inr \<lparr>iv_valid = True, iv_reasons = [], iv_canonical = Some sample_canonical\<rparr>"
proof -
  let ?get = "js_get sample_invoice_input"
  obtain policy request registry where snap: "snapshotPolicy (?get ''policy'') = Inr policy"
      "snapshotRequest (?get ''request'') = Inr request" "snapshotRegistry (?get ''registry'') = Inr registry"
    and fields: "policy = \<lparr>vp_allowHashedDescriptions = False, vp_maxInvoiceLength = 2048, vp_maxExpirySeconds = 7200,
       vp_minimumRemainingSeconds = 600, vp_minimumFinalCltvDelta = 18, vp_maximumFinalCltvDelta = 144, vp_maxRouteHints = 4\<rparr>"
      "request = \<lparr>ir_amountSats = 50000, ir_childIndex = JNull, ir_expectedPayee = None, ir_fillAmountSats = 50000,
       ir_invoiceDigest = ''0x'' @ replicate 64 (CHR ''5''), ir_parentIntentId = JNull,
       ir_paymentHash = ''0x'' @ replicate 64 (CHR ''1''), ir_totalAmountSats = 50000\<rparr>"
      "registry = \<lparr>rg_consumed = [], rg_reserved = []\<rparr>"
  proof -
    have "snapshotPolicy (?get ''policy'') = Inr \<lparr>vp_allowHashedDescriptions = False, vp_maxInvoiceLength = 2048, vp_maxExpirySeconds = 7200,
       vp_minimumRemainingSeconds = 600, vp_minimumFinalCltvDelta = 18, vp_maximumFinalCltvDelta = 144, vp_maxRouteHints = 4\<rparr>"
      by code_simp
    moreover have "snapshotRequest (?get ''request'') = Inr \<lparr>ir_amountSats = 50000, ir_childIndex = JNull, ir_expectedPayee = None, ir_fillAmountSats = 50000,
       ir_invoiceDigest = ''0x'' @ replicate 64 (CHR ''5''), ir_parentIntentId = JNull,
       ir_paymentHash = ''0x'' @ replicate 64 (CHR ''1''), ir_totalAmountSats = 50000\<rparr>"
      by code_simp
    moreover have "snapshotRegistry (?get ''registry'') = Inr \<lparr>rg_consumed = [], rg_reserved = []\<rparr>" by code_simp
    ultimately show thesis by (intro that) simp_all
  qed
  have raw: "?get ''rawInvoice'' = JStr sample_invoice" "integer_between (?get ''now'') ''now'' 1 MAX_SAFE_INTEGER = Inr 1200"
      "exactKeys sample_invoice_input INPUT_FIELDS ''invoice validation input'' = Inr ()"
    by code_simp+
  have norm: "normalizeBolt11Invoice (JStr sample_invoice) = Inr sample_invoice" by code_simp
  have dec: "decodeBolt11Invoice sample_crypto (JStr sample_invoice) (JObj [(''maximumInvoiceLength'', JInt 2048)]) = Inr sample_decoded"
    using sample_decodes by (simp add: sample_options_def)
  have "invoice_reasons (\<lambda>_. replicate 64 (CHR ''5'')) (\<lambda>_. Some [1]) 1200 policy request registry sample_invoice sample_decoded = []"
    unfolding fields by code_simp
  then show ?thesis
    by (simp add: validateFullFillInvoice_def snap raw norm dec fields(1) Let_def)
      (simp add: sample_canonical_def sample_decoded_def invoiceDigest_def present_text_def num_add_def)
qed

theorem full_fill_invoice_sound_witness:
  "cn_paymentHash sample_canonical = ''0x'' @ replicate 64 (CHR ''1'') \<and> 0 < cn_amountSats sample_canonical"
  using full_fill_invoice_sound [OF sample_validates] by (auto simp: sample_canonical_def)

theorem payment_hash_reserved_once_witness:
  "\<exists>registry'. reserveValidatedPaymentHash (js_get sample_invoice_input ''registry'')
       \<lparr>iv_valid = True, iv_reasons = [], iv_canonical = Some sample_canonical\<rparr> = Inr registry'
     \<and> cn_paymentHash sample_canonical \<in> set (rg_reserved registry') \<and> distinct (rg_reserved registry')"
proof -
  have "snapshotRegistry (js_get sample_invoice_input ''registry'') = Inr \<lparr>rg_consumed = [], rg_reserved = []\<rparr>" by code_simp
  moreover have "reserveValidatedPaymentHash (js_get sample_invoice_input ''registry'')
       \<lparr>iv_valid = True, iv_reasons = [], iv_canonical = Some sample_canonical\<rparr>
     = Inr \<lparr>rg_consumed = [], rg_reserved = [''0x'' @ replicate 64 (CHR ''1'')]\<rparr>" by code_simp
  ultimately show ?thesis using payment_hash_reserved_once by fastforce
qed

end
