(* ===== verification/Risk_Policy.thy ===== *)
theory Risk_Policy
  imports JS_Values
begin

text \<open>
  The arithmetic of the risk policy (\<^verbatim>\<open>src/lib/risk-policy.mjs\<close>): the fee that rises as a solver's
  inventory runs out, the median of the price signals and the deviation test.  All of it is BigInt
  arithmetic, whose division rounds towards zero.
\<close>

section \<open>Definitions\<close>

definition BPS_RISK :: int where "BPS_RISK = 10000"

definition asBigInt :: "jsval \<Rightarrow> string \<Rightarrow> int result" where
  "asBigInt v name = (case js_BigInt v of None \<Rightarrow> Inl (TypeError (name @ '' must be an integer'')) | Some i \<Rightarrow> Inr i)"

definition bigint_div :: "int \<Rightarrow> int \<Rightarrow> int" where
  "bigint_div a b = sgn a * sgn b * (\<bar>a\<bar> div \<bar>b\<bar>)"

text \<open>The sources call it with at least one value.\<close>

definition median :: "int list \<Rightarrow> int" where
  "median values = (let ordered = sort values; middle = length ordered div 2 in
     if odd (length ordered) then ordered ! middle
     else bigint_div (ordered ! (middle - 1) + ordered ! middle) 2)"

definition exceedsDeviationBps :: "int \<Rightarrow> int \<Rightarrow> int \<Rightarrow> bool" where
  "exceedsDeviationBps observed reference maximumBps =
     (let difference = (if observed > reference then observed - reference else reference - observed) in
      difference * BPS_RISK > reference * maximumBps)"

record inventory_fee =
  if_enabled :: bool
  if_feeBps :: int
  if_remainingBps :: int

definition computeInventoryFeeBps ::
    "jsval \<Rightarrow> jsval \<Rightarrow> jsval \<Rightarrow> jsval \<Rightarrow> jsval \<Rightarrow> jsval \<Rightarrow> jsval \<Rightarrow> inventory_fee result" where
  "computeInventoryFeeBps available capacity requested baseFeeBps maxFeeBps reserveFloorBps scarcityStartsBps =
     bindE (asBigInt available ''available'') (\<lambda>availableAmount.
     bindE (asBigInt capacity ''capacity'') (\<lambda>capacityAmount.
     bindE (asBigInt requested ''requested'') (\<lambda>requestedAmount.
     bindE (asBigInt baseFeeBps ''baseFeeBps'') (\<lambda>base.
     bindE (asBigInt maxFeeBps ''maxFeeBps'') (\<lambda>maximum.
     bindE (asBigInt reserveFloorBps ''reserveFloorBps'') (\<lambda>floor.
     bindE (asBigInt scarcityStartsBps ''scarcityStartsBps'') (\<lambda>scarcityStart.
     if capacityAmount \<le> 0 \<or> requestedAmount \<le> 0 \<or> availableAmount < requestedAmount
     then Inr \<lparr>if_enabled = False, if_feeBps = maximum, if_remainingBps = 0\<rparr>
     else let remaining = availableAmount - requestedAmount;
              remainingBps = bigint_div (remaining * BPS_RISK) capacityAmount in
     if remainingBps < floor then Inr \<lparr>if_enabled = False, if_feeBps = maximum, if_remainingBps = remainingBps\<rparr>
     else if remainingBps \<ge> scarcityStart \<or> scarcityStart \<le> floor
     then Inr \<lparr>if_enabled = True, if_feeBps = base, if_remainingBps = remainingBps\<rparr>
     else let scarcityUsed = scarcityStart - remainingBps; scarcityRange = scarcityStart - floor;
              surcharge = bigint_div ((maximum - base) * scarcityUsed + scarcityRange - 1) scarcityRange in
     Inr \<lparr>if_enabled = True, if_feeBps = base + surcharge, if_remainingBps = remainingBps\<rparr>)))))))"

section \<open>Facts\<close>

lemma bigint_div_nonneg: "0 \<le> a \<Longrightarrow> 0 < b \<Longrightarrow> bigint_div a b = a div b"
  by (cases "a = 0") (simp_all add: bigint_div_def)

lemma asBigInt_Inr [result_simps]: "asBigInt v name = Inr i \<longleftrightarrow> js_BigInt v = Some i"
  by (auto simp: asBigInt_def split: option.splits)

text \<open>The surcharge over the part \<open>u\<close> of a range \<open>n\<close>, rounded up.\<close>

definition surcharge :: "int \<Rightarrow> int \<Rightarrow> int \<Rightarrow> int" where
  "surcharge spread n u = (spread * u + n - 1) div n"

lemma surcharge_bounds:
  assumes "0 \<le> spread" and "0 < n" and "0 \<le> u" and "u \<le> n"
  shows "0 \<le> surcharge spread n u \<and> surcharge spread n u \<le> spread"
proof
  have "0 \<le> spread * u" using assms by simp
  then have "0 \<le> spread * u + n - 1" using assms(2) by linarith
  then show "0 \<le> surcharge spread n u" using assms(2) by (simp add: surcharge_def pos_imp_zdiv_nonneg_iff)
  have "spread * u \<le> spread * n" using assms by (simp add: mult_left_mono)
  then have "(spread * u + n - 1) div n \<le> ((n - 1) + spread * n) div n" using assms by (intro zdiv_mono1) auto
  also have "\<dots> = spread + (n - 1) div n" using assms(2) by simp
  finally show "surcharge spread n u \<le> spread" using assms(2) by (simp add: surcharge_def)
qed

lemma surcharge_mono:
  "0 \<le> spread \<Longrightarrow> 0 < n \<Longrightarrow> u \<le> u' \<Longrightarrow> surcharge spread n u \<le> surcharge spread n u'"
  using mult_left_mono [of u u' spread] unfolding surcharge_def by (intro zdiv_mono1) auto

text \<open>The same computation on the integers the inputs denote.\<close>

definition inventory_fee_of :: "int \<Rightarrow> int \<Rightarrow> int \<Rightarrow> int \<Rightarrow> int \<Rightarrow> int \<Rightarrow> int \<Rightarrow> inventory_fee" where
  "inventory_fee_of a c r b m f s = (if c \<le> 0 \<or> r \<le> 0 \<or> a < r then \<lparr>if_enabled = False, if_feeBps = m, if_remainingBps = 0\<rparr>
     else let k = bigint_div ((a - r) * BPS_RISK) c in
     if k < f then \<lparr>if_enabled = False, if_feeBps = m, if_remainingBps = k\<rparr>
     else if s \<le> k \<or> s \<le> f then \<lparr>if_enabled = True, if_feeBps = b, if_remainingBps = k\<rparr>
     else \<lparr>if_enabled = True, if_feeBps = b + bigint_div ((m - b) * (s - k) + (s - f) - 1) (s - f), if_remainingBps = k\<rparr>)"

lemma computeInventoryFeeBps_value:
  assumes "js_BigInt available = Some a" "js_BigInt capacity = Some c" "js_BigInt requested = Some r"
    "js_BigInt baseFee = Some b" "js_BigInt maxFee = Some m" "js_BigInt floorBps = Some f" "js_BigInt scarcity = Some s"
  shows "computeInventoryFeeBps available capacity requested baseFee maxFee floorBps scarcity = Inr (inventory_fee_of a c r b m f s)"
  by (simp add: computeInventoryFeeBps_def asBigInt_def inventory_fee_of_def Let_def assms)

lemma computeInventoryFeeBps_inputs:
  assumes "computeInventoryFeeBps available capacity requested baseFee maxFee floorBps scarcity = Inr x"
  shows "\<exists>a c r b m f s. js_BigInt available = Some a \<and> js_BigInt capacity = Some c \<and> js_BigInt requested = Some r
    \<and> js_BigInt baseFee = Some b \<and> js_BigInt maxFee = Some m \<and> js_BigInt floorBps = Some f \<and> js_BigInt scarcity = Some s"
  using assms unfolding computeInventoryFeeBps_def bindE_eq_Inr asBigInt_Inr by blast

lemma inventory_fee_enabled:
  "if_enabled (inventory_fee_of a c r b m f s) \<longleftrightarrow> 0 < c \<and> 0 < r \<and> r \<le> a \<and> f \<le> (a - r) * 10000 div c"
proof (cases "c \<le> 0 \<or> r \<le> 0 \<or> a < r")
  case False
  then have "bigint_div ((a - r) * BPS_RISK) c = (a - r) * 10000 div c" by (simp add: bigint_div_nonneg BPS_RISK_def)
  with False show ?thesis by (auto simp: inventory_fee_of_def Let_def)
qed (auto simp: inventory_fee_of_def)

lemma inventory_fee_value:
  assumes "if_enabled (inventory_fee_of a c r b m f s)" and "b \<le> m" and k: "k = (a - r) * 10000 div c"
  shows "if_feeBps (inventory_fee_of a c r b m f s) = (if s \<le> k \<or> s \<le> f then b else b + surcharge (m - b) (s - f) (s - k))"
proof -
  have ok: "0 < c" "0 < r" "r \<le> a" "f \<le> k" using assms(1) unfolding inventory_fee_enabled k by auto
  then have "bigint_div ((a - r) * BPS_RISK) c = k" by (simp add: bigint_div_nonneg BPS_RISK_def k)
  moreover have "bigint_div ((m - b) * (s - k) + (s - f) - 1) (s - f) = surcharge (m - b) (s - f) (s - k)" if "k < s" "f < s"
  proof -
    have "0 \<le> (m - b) * (s - k)" using that assms(2) by simp
    then have "0 \<le> (m - b) * (s - k) + (s - f) - 1" using that(2) by linarith
    then show ?thesis using that(2) by (simp add: surcharge_def bigint_div_nonneg)
  qed
  ultimately show ?thesis using ok by (simp add: inventory_fee_of_def Let_def not_le)
qed

text \<open>
  Property C36.  The inventory fee protects the reserve.  A request is enabled only if it leaves at least
  the reserve floor; its fee lies between the base fee and the maximum; and of two requests against the
  same inventory the larger one never pays a lower fee, and is enabled only if the smaller one is.
\<close>

theorem inventory_fee_protects_reserve:
  assumes "computeInventoryFeeBps available capacity (JBigInt r') baseFee maxFee floorBps scarcity = Inr y" and "if_enabled y"
    and "js_BigInt baseFee = Some b" and "js_BigInt maxFee = Some m" and "b \<le> m"
    and "0 < r" and "r \<le> r'"
  shows "(\<exists>x. computeInventoryFeeBps available capacity (JBigInt r) baseFee maxFee floorBps scarcity = Inr x
      \<and> if_enabled x \<and> if_feeBps x \<le> if_feeBps y)
    \<and> b \<le> if_feeBps y \<and> if_feeBps y \<le> m
    \<and> (\<exists>f c a. js_BigInt floorBps = Some f \<and> js_BigInt capacity = Some c \<and> js_BigInt available = Some a
        \<and> f * c \<le> (a - r') * 10000)"
proof -
  from computeInventoryFeeBps_inputs [OF assms(1)] obtain a c f s where v: "js_BigInt available = Some a"
      "js_BigInt capacity = Some c" "js_BigInt floorBps = Some f" "js_BigInt scarcity = Some s" by blast
  have y: "y = inventory_fee_of a c r' b m f s"
    using assms(1) computeInventoryFeeBps_value [OF v(1,2) _ assms(3,4) v(3,4), of "JBigInt r'"] by simp
  have ok: "0 < c" "r' \<le> a" "f \<le> (a - r') * 10000 div c" using assms(2) unfolding y inventory_fee_enabled by auto
  define x where "x = inventory_fee_of a c r b m f s"
  define k where "k = (a - r) * 10000 div c"
  define k' where "k' = (a - r') * 10000 div c"
  have le: "k' \<le> k" unfolding k_def k'_def using ok(1) assms(7) by (intro zdiv_mono1) auto
  have x: "computeInventoryFeeBps available capacity (JBigInt r) baseFee maxFee floorBps scarcity = Inr x"
    unfolding x_def by (rule computeInventoryFeeBps_value [OF v(1,2) _ assms(3,4) v(3,4)]) simp
  have on: "if_enabled x" unfolding x_def inventory_fee_enabled using ok le assms(6,7) by (auto simp: k_def k'_def)
  note fees = inventory_fee_value [OF on [unfolded x_def] assms(5) k_def] inventory_fee_value [OF assms(2) [unfolded y] assms(5) k'_def]
  have bound: "0 \<le> surcharge (m - b) (s - f) (s - k') \<and> surcharge (m - b) (s - f) (s - k') \<le> m - b" if "k' < s" "f < s"
    using that assms(5) ok(3) by (intro surcharge_bounds) (auto simp: k'_def)
  have "if_feeBps x \<le> if_feeBps y"
    using bound surcharge_mono [of "m - b" "s - f" "s - k" "s - k'"] le assms(5) unfolding x_def y fees by auto
  moreover have "b \<le> if_feeBps y \<and> if_feeBps y \<le> m" using bound assms(5) unfolding y fees by auto
  moreover have "f * c \<le> (a - r') * 10000"
  proof -
    have "f * c \<le> ((a - r') * 10000 div c) * c" using ok(1,3) by simp
    also have "\<dots> \<le> (a - r') * 10000"
      using div_mult_mod_eq [of "(a - r') * 10000" c] pos_mod_sign [OF ok(1), of "(a - r') * 10000"] by linarith
    finally show ?thesis .
  qed
  ultimately show ?thesis using x on v by blast
qed

theorem inventory_fee_protects_reserve_witness:
  "\<exists>x. computeInventoryFeeBps (JInt 1000) (JInt 1000) (JBigInt 300) (JInt 25) (JInt 100) (JInt 2000) (JInt 8000) = Inr x
     \<and> if_enabled x \<and> if_feeBps x \<le> 63"
proof -
  have "computeInventoryFeeBps (JInt 1000) (JInt 1000) (JBigInt 500) (JInt 25) (JInt 100) (JInt 2000) (JInt 8000)
    = Inr \<lparr>if_enabled = True, if_feeBps = 63, if_remainingBps = 5000\<rparr>" by code_simp
  from inventory_fee_protects_reserve [OF this, of 25 100 300] show ?thesis by auto
qed

end
