(* ===== verification/Units.thy ===== *)
theory Units
  imports JS_Values
begin

text \<open>
  Canonical units and rounding, \<^verbatim>\<open>src/lib/units.mjs\<close>: satoshis, millisatoshis, BIT wei, the
  protocol fee, the two reference quotes and the two exact-output searches.  All amounts are
  bigints, so the model uses unbounded integers and writes the range checks out.
\<close>

section \<open>Definitions\<close>

definition BPS_DENOMINATOR :: int where "BPS_DENOMINATOR = 10000"
definition MSATS_PER_SAT :: int where "MSATS_PER_SAT = 1000"
definition BIT_WEI_PER_BIT :: int where "BIT_WEI_PER_BIT = 10 ^ 18"
definition REFERENCE_SATS_PER_BIT :: int where "REFERENCE_SATS_PER_BIT = 100"
definition BIT_WEI_PER_REFERENCE_SAT :: int where
  "BIT_WEI_PER_REFERENCE_SAT = BIT_WEI_PER_BIT div REFERENCE_SATS_PER_BIT"
definition MAX_UINT64 :: int where "MAX_UINT64 = 2 ^ 64 - 1"
definition MAX_UINT96 :: int where "MAX_UINT96 = 2 ^ 96 - 1"

lemmas unit_consts = BPS_DENOMINATOR_def MSATS_PER_SAT_def BIT_WEI_PER_BIT_def
  REFERENCE_SATS_PER_BIT_def BIT_WEI_PER_REFERENCE_SAT_def MAX_UINT64_def MAX_UINT96_def

text \<open>\<open>None\<close> as the maximum is the call without a third argument.\<close>

definition unsigned :: "jsval \<Rightarrow> string \<Rightarrow> int option \<Rightarrow> int result" where
  "unsigned v name maximum = (case js_BigInt v of
       None \<Rightarrow> Inl (TypeError (name @ '' must be an unsigned integer''))
     | Some parsed \<Rightarrow>
         if parsed < 0 \<or> (case maximum of None \<Rightarrow> False | Some m \<Rightarrow> parsed > m)
         then Inl (RangeError (name @ '' is outside the supported range'')) else Inr parsed)"

definition feeRate :: "jsval \<Rightarrow> int result" where
  "feeRate v = unsigned v ''feeBps'' (Some (BPS_DENOMINATOR - 1))"

definition ceilDiv :: "int \<Rightarrow> int \<Rightarrow> int result" where
  "ceilDiv numerator denominator =
     (if denominator \<le> 0 then Inl (RangeError ''division denominator must be positive'')
      else Inr (if numerator = 0 then 0 else (numerator - 1) div denominator + 1))"

definition satsToMsats :: "jsval \<Rightarrow> int result" where
  "satsToMsats sats = bindE (unsigned sats ''sats'' (Some MAX_UINT64)) (\<lambda>n. Inr (n * MSATS_PER_SAT))"

definition msatsToWholeSats :: "jsval \<Rightarrow> int result" where
  "msatsToWholeSats msats = bindE (unsigned msats ''msats'' None) (\<lambda>amount.
     if amount mod MSATS_PER_SAT \<noteq> 0
     then Inl (RangeError ''millisatoshi amount is not a whole satoshi'')
     else if amount div MSATS_PER_SAT > MAX_UINT64
     then Inl (RangeError ''satoshi amount is outside the supported range'')
     else Inr (amount div MSATS_PER_SAT))"

definition referenceBitWeiFromSats :: "jsval \<Rightarrow> int result" where
  "referenceBitWeiFromSats sats = bindE (unsigned sats ''sats'' (Some MAX_UINT64)) (\<lambda>amount.
     if amount * BIT_WEI_PER_REFERENCE_SAT > MAX_UINT96
     then Inl (RangeError ''reference BIT amount exceeds uint96 escrow range'')
     else Inr (amount * BIT_WEI_PER_REFERENCE_SAT))"

record reference_sats =
  rs_sats :: int
  rs_dustBitWei :: int

definition referenceSatsFromBitWei :: "jsval \<Rightarrow> reference_sats result" where
  "referenceSatsFromBitWei bitWei = bindE (unsigned bitWei ''bitWei'' (Some MAX_UINT96)) (\<lambda>amount.
     Inr \<lparr>rs_sats = amount div BIT_WEI_PER_REFERENCE_SAT,
          rs_dustBitWei = amount mod BIT_WEI_PER_REFERENCE_SAT\<rparr>)"

definition protocolFeeBitWei :: "jsval \<Rightarrow> jsval \<Rightarrow> int result" where
  "protocolFeeBitWei grossBitWei feeBps =
     bindE (unsigned grossBitWei ''grossBitWei'' (Some MAX_UINT96)) (\<lambda>gross.
     bindE (feeRate feeBps) (\<lambda>fee. Inr (gross * fee div BPS_DENOMINATOR)))"

text \<open>The loop of \<open>minimumGrossBitWeiForNet\<close>; the distance between the bounds shrinks.\<close>

function gross_search :: "int \<Rightarrow> int \<Rightarrow> int \<Rightarrow> int \<Rightarrow> int result" where
  "gross_search target fee low high =
     (if low < high
      then let middle = low + (high - low) div 2 in
           bindE (protocolFeeBitWei (JBigInt middle) (JBigInt fee)) (\<lambda>charged.
             if middle - charged \<ge> target then gross_search target fee low middle
             else gross_search target fee (middle + 1) high)
      else Inr low)"
  by pat_completeness auto
termination
  by (relation "measure (\<lambda>(target, fee, low, high). nat (high - low))") auto

declare gross_search.simps [simp del]

definition minimumGrossBitWeiForNet :: "jsval \<Rightarrow> jsval \<Rightarrow> int result" where
  "minimumGrossBitWeiForNet targetNetBitWei feeBps =
     bindE (unsigned targetNetBitWei ''targetNetBitWei'' (Some MAX_UINT96)) (\<lambda>target.
     bindE (feeRate feeBps) (\<lambda>fee.
     if target = 0 then Inr 0
     else bindE (ceilDiv (target * BPS_DENOMINATOR) (BPS_DENOMINATOR - fee)) (\<lambda>high.
       if high > MAX_UINT96
       then Inl (RangeError ''required gross BIT exceeds uint96 escrow range'')
       else gross_search target fee target high)))"

record lightning_to_bit_quote =
  lb_lightningInputSats :: int
  lb_grossBitWei :: int
  lb_feeBitWei :: int
  lb_outputBitWei :: int

definition quoteLightningToBit :: "jsval \<Rightarrow> jsval \<Rightarrow> lightning_to_bit_quote result" where
  "quoteLightningToBit inputSats feeBps =
     bindE (unsigned inputSats ''inputSats'' (Some MAX_UINT64)) (\<lambda>sats.
     if sats = 0 then Inl (RangeError ''inputSats must be positive'')
     else bindE (referenceBitWeiFromSats (JBigInt sats)) (\<lambda>gross.
       bindE (protocolFeeBitWei (JBigInt gross) feeBps) (\<lambda>fee.
       Inr \<lparr>lb_lightningInputSats = sats, lb_grossBitWei = gross, lb_feeBitWei = fee,
            lb_outputBitWei = gross - fee\<rparr>)))"

record bit_to_lightning_quote =
  bl_grossBitWei :: int
  bl_feeBitWei :: int
  bl_solverBitWei :: int
  bl_referenceLightningSats :: int
  bl_routingFeeSats :: int
  bl_outputLightningSats :: int
  bl_dustBitWei :: int

definition quoteBitToLightning :: "jsval \<Rightarrow> jsval \<Rightarrow> jsval \<Rightarrow> bit_to_lightning_quote result" where
  "quoteBitToLightning inputBitWei feeBps routingFeeSats =
     bindE (unsigned inputBitWei ''inputBitWei'' (Some MAX_UINT96)) (\<lambda>gross.
     bindE (unsigned (js_default routingFeeSats (JBigInt 0)) ''routingFeeSats'' (Some MAX_UINT64)) (\<lambda>route.
     if gross = 0 then Inl (RangeError ''inputBitWei must be positive'')
     else bindE (protocolFeeBitWei (JBigInt gross) feeBps) (\<lambda>fee.
       bindE (referenceSatsFromBitWei (JBigInt (gross - fee))) (\<lambda>reference.
       if rs_sats reference < route
       then Inl (RangeError ''routing fee exceeds reference Lightning output'')
       else Inr \<lparr>bl_grossBitWei = gross, bl_feeBitWei = fee, bl_solverBitWei = gross - fee,
                 bl_referenceLightningSats = rs_sats reference, bl_routingFeeSats = route,
                 bl_outputLightningSats = rs_sats reference - route,
                 bl_dustBitWei = rs_dustBitWei reference\<rparr>))))"

definition requiredBitForExactLightning ::
    "jsval \<Rightarrow> jsval \<Rightarrow> jsval \<Rightarrow> bit_to_lightning_quote result" where
  "requiredBitForExactLightning outputSats feeBps routingFeeSats =
     bindE (unsigned outputSats ''outputSats'' (Some MAX_UINT64)) (\<lambda>output.
     bindE (unsigned (js_default routingFeeSats (JBigInt 0)) ''routingFeeSats'' (Some MAX_UINT64)) (\<lambda>route.
     if output = 0 then Inl (RangeError ''outputSats must be positive'')
     else if output + route > MAX_UINT64
     then Inl (RangeError ''Lightning target exceeds uint64 range'')
     else bindE (minimumGrossBitWeiForNet
                  (JBigInt ((output + route) * BIT_WEI_PER_REFERENCE_SAT)) feeBps) (\<lambda>gross.
       bindE (quoteBitToLightning (JBigInt gross) feeBps (JBigInt route)) (\<lambda>quote.
       if bl_outputLightningSats quote < output
       then Inl (Error ''exact Lightning quote underfunded'')
       else Inr quote))))"

text \<open>The loop of \<open>requiredSatsForExactBit\<close>.\<close>

function sats_search :: "int \<Rightarrow> int \<Rightarrow> int \<Rightarrow> int \<Rightarrow> int result" where
  "sats_search target fee low high =
     (if low < high
      then let middle = low + (high - low) div 2 in
           bindE (quoteLightningToBit (JBigInt middle) (JBigInt fee)) (\<lambda>quote.
             if lb_outputBitWei quote \<ge> target then sats_search target fee low middle
             else sats_search target fee (middle + 1) high)
      else Inr low)"
  by pat_completeness auto
termination
  by (relation "measure (\<lambda>(target, fee, low, high). nat (high - low))") auto

declare sats_search.simps [simp del]

definition requiredSatsForExactBit :: "jsval \<Rightarrow> jsval \<Rightarrow> lightning_to_bit_quote result" where
  "requiredSatsForExactBit outputBitWei feeBps =
     bindE (unsigned outputBitWei ''outputBitWei'' (Some MAX_UINT96)) (\<lambda>target.
     if target = 0 then Inl (RangeError ''outputBitWei must be positive'')
     else bindE (feeRate feeBps) (\<lambda>fee.
       bindE (ceilDiv (target * BPS_DENOMINATOR)
                (BIT_WEI_PER_REFERENCE_SAT * (BPS_DENOMINATOR - fee))) (\<lambda>high.
       if high > MAX_UINT64 then Inl (RangeError ''required sats exceed uint64 range'')
       else bindE (sats_search target fee 1 high) (\<lambda>low.
         bindE (quoteLightningToBit (JBigInt low) (JBigInt fee)) (\<lambda>quote.
         if lb_outputBitWei quote < target
         then Inl (Error ''exact BIT quote underfunded'')
         else Inr quote)))))"

text \<open>The two shapes \<open>assertQuoteConservation\<close> tells apart by the field it finds.\<close>

datatype quote = LightningToBitQuote lightning_to_bit_quote | BitToLightningQuote bit_to_lightning_quote

fun assertQuoteConservation :: "quote \<Rightarrow> bool result" where
  "assertQuoteConservation (LightningToBitQuote q) =
     (if lb_grossBitWei q \<noteq> lb_outputBitWei q + lb_feeBitWei q
      then Inl (Error ''BIT value is not conserved'')
      else bindE (referenceBitWeiFromSats (JBigInt (lb_lightningInputSats q))) (\<lambda>expected.
        if lb_grossBitWei q \<noteq> expected
        then Inl (Error ''reference conversion is not conserved'') else Inr True))"
| "assertQuoteConservation (BitToLightningQuote q) =
     (if bl_grossBitWei q \<noteq> bl_solverBitWei q + bl_feeBitWei q
      then Inl (Error ''BIT value is not conserved'')
      else if bl_referenceLightningSats q \<noteq> bl_outputLightningSats q + bl_routingFeeSats q
      then Inl (Error ''Lightning value is not conserved'')
      else if bl_solverBitWei q
          \<noteq> bl_referenceLightningSats q * BIT_WEI_PER_REFERENCE_SAT + bl_dustBitWei q
      then Inl (Error ''BIT dust is not conserved'')
      else Inr True)"

section \<open>Correctness\<close>

lemma unsigned_Inr [result_simps]:
  "unsigned v name m = Inr i \<longleftrightarrow>
     js_BigInt v = Some i \<and> 0 \<le> i \<and> (case m of None \<Rightarrow> True | Some b \<Rightarrow> i \<le> b)"
  by (auto simp: unsigned_def split: option.splits)

lemma feeRate_Inr [result_simps]:
  "feeRate v = Inr f \<longleftrightarrow> js_BigInt v = Some f \<and> 0 \<le> f \<and> f < 10000"
  by (auto simp: feeRate_def unsigned_Inr BPS_DENOMINATOR_def)

lemma ceilDiv_Inr [result_simps]:
  "ceilDiv n d = Inr q \<longleftrightarrow> 0 < d \<and> q = (if n = 0 then 0 else (n - 1) div d + 1)"
  by (auto simp: ceilDiv_def)

lemma div_less_mult_iff: "0 < (d::int) \<Longrightarrow> n div d < k \<longleftrightarrow> n < k * d"
proof -
  assume d: "0 < d"
  have n: "n = d * (n div d) + n mod d" and r: "0 \<le> n mod d" "n mod d < d" using d by simp_all
  show ?thesis
  proof
    assume "n div d < k"
    then have "d * (n div d + 1) \<le> d * k" using d by (intro mult_left_mono) auto
    then have "d * (n div d) + d \<le> k * d" by (simp add: algebra_simps)
    with n r show "n < k * d" by linarith
  next
    assume l: "n < k * d"
    show "n div d < k"
    proof (rule ccontr)
      assume "\<not> n div d < k"
      then have "d * k \<le> d * (n div d)" using d by (intro mult_left_mono) auto
      then have "k * d \<le> d * (n div d)" by (simp add: mult.commute)
      with n r l show False by linarith
    qed
  qed
qed

text \<open>\<open>ceilDiv\<close> is the least quotient that covers the numerator.\<close>

lemma ceilDiv_le_iff:
  assumes "ceilDiv n d = Inr q" and "0 \<le> n"
  shows "q \<le> k \<longleftrightarrow> n \<le> k * d"
proof -
  from assms have d: "0 < d" and q: "q = (if n = 0 then 0 else (n - 1) div d + 1)"
    by (auto simp: ceilDiv_Inr)
  show ?thesis
  proof (cases "n = 0")
    case True
    with q d show ?thesis by (simp add: zero_le_mult_iff)
  next
    case False
    have "(n - 1) div d < k \<longleftrightarrow> n - 1 < k * d"
      using d by (rule div_less_mult_iff)
    with False q show ?thesis by auto
  qed
qed

definition fee_of :: "int \<Rightarrow> int \<Rightarrow> int" where
  "fee_of gross fee = gross * fee div 10000"

definition net_of :: "int \<Rightarrow> int \<Rightarrow> int" where
  "net_of gross fee = gross - fee_of gross fee"

lemma protocolFee_Inr [result_simps]:
  "protocolFeeBitWei g v = Inr c \<longleftrightarrow>
     (\<exists>gross fee. js_BigInt g = Some gross \<and> 0 \<le> gross \<and> gross \<le> MAX_UINT96 \<and>
        feeRate v = Inr fee \<and> c = fee_of gross fee)"
  by (auto simp: protocolFeeBitWei_def unsigned_Inr bindE_eq_Inr fee_of_def BPS_DENOMINATOR_def)

lemma fee_of_bounds:
  "0 \<le> g \<Longrightarrow> 0 \<le> f \<Longrightarrow> f < 10000 \<Longrightarrow> 0 \<le> fee_of g f \<and> fee_of g f \<le> g"
proof -
  assume a: "0 \<le> g" "0 \<le> f" "f < 10000"
  then have "g * f \<le> g * 10000" by (intro mult_left_mono) auto
  then have "g * f div 10000 \<le> g * 10000 div 10000" by (rule zdiv_mono1) simp
  moreover have "0 \<le> g * f div 10000" using a by (simp add: pos_imp_zdiv_nonneg_iff)
  ultimately show ?thesis by (simp add: fee_of_def)
qed

text \<open>One more unit of gross adds nothing or one unit of net.\<close>

lemma net_of_step:
  assumes "0 \<le> f" and "f < 10000"
  shows "net_of g f \<le> net_of (g + 1) f"
proof -
  have "(g + 1) * f \<le> g * f + 1 * 10000" using assms by (simp add: algebra_simps)
  then have "(g + 1) * f div 10000 \<le> (g * f + 1 * 10000) div 10000" by (rule zdiv_mono1) simp
  then show ?thesis by (simp add: net_of_def fee_of_def)
qed

lemma net_of_mono:
  assumes "0 \<le> f" and "f < 10000" and "g \<le> h"
  shows "net_of g f \<le> net_of h f"
proof -
  have "net_of g f \<le> net_of (g + int n) f" for n
  proof (induction n)
    case (Suc n)
    from net_of_step [OF assms(1,2), of "g + int n"] Suc.IH show ?case by (simp add: algebra_simps)
  qed simp
  from this [of "nat (h - g)"] assms(3) show ?thesis by simp
qed

text \<open>
  The interface of both searches: a bisection over a monotone test between a bound and a value
  that passes returns the least value that passes.
\<close>

definition least_from :: "(int \<Rightarrow> bool) \<Rightarrow> int \<Rightarrow> int \<Rightarrow> bool" where
  "least_from P low r \<longleftrightarrow> low \<le> r \<and> P r \<and> (\<forall>k. low \<le> k \<and> k < r \<longrightarrow> \<not> P k)"

locale bisection =
  fixes search :: "'p \<Rightarrow> int \<Rightarrow> int \<Rightarrow> int result"
    and ok :: "'p \<Rightarrow> int \<Rightarrow> bool"
    and valid :: "'p \<Rightarrow> bool"
    and limit :: int
  assumes search_stop: "\<not> low < high \<Longrightarrow> search p low high = Inr low"
    and search_down: "valid p \<Longrightarrow> low < high \<Longrightarrow> high \<le> limit \<Longrightarrow> 0 < low \<Longrightarrow>
          mid = low + (high - low) div 2 \<Longrightarrow> ok p mid \<Longrightarrow> search p low high = search p low mid"
    and search_up: "valid p \<Longrightarrow> low < high \<Longrightarrow> high \<le> limit \<Longrightarrow> 0 < low \<Longrightarrow>
          mid = low + (high - low) div 2 \<Longrightarrow> \<not> ok p mid \<Longrightarrow>
          search p low high = search p (mid + 1) high"
    and ok_mono: "valid p \<Longrightarrow> ok p k \<Longrightarrow> k \<le> m \<Longrightarrow> ok p m"
begin

lemma search_least:
  assumes "valid p"
  shows "0 < low \<Longrightarrow> low \<le> high \<Longrightarrow> high \<le> limit \<Longrightarrow> ok p high \<Longrightarrow>
   \<exists>r \<le> high. search p low high = Inr r \<and> least_from (ok p) low r"
proof (induction "nat (high - low)" arbitrary: low high rule: less_induct)
  case less
  show ?case
  proof (cases "low < high")
    case False
    with less.prems show ?thesis by (auto simp: search_stop least_from_def)
  next
    case True
    define m where "m = low + (high - low) div 2"
    have m: "low \<le> m" "m < high" using True by (auto simp: m_def)
    show ?thesis
    proof (cases "ok p m")
      case yes: True
      have "nat (m - low) < nat (high - low)" using m by simp
      from less.hyps [OF this less.prems(1) m(1) _ yes] m less.prems
      obtain r where "r \<le> m" "search p low m = Inr r" "least_from (ok p) low r" by auto
      with m search_down [OF assms True less.prems(3,1) m_def yes] show ?thesis by auto
    next
      case no: False
      have "nat (high - (m + 1)) < nat (high - low)" using m by simp
      from less.hyps [OF this _ _ less.prems(3,4)] m less.prems(1)
      obtain r where r: "r \<le> high" "search p (m + 1) high = Inr r" "least_from (ok p) (m + 1) r"
        by auto
      have "\<not> ok p k" if "low \<le> k" "k < r" for k
      proof (cases "k \<le> m")
        case True
        with no ok_mono [OF assms] show ?thesis by blast
      next
        case False
        with r(3) that show ?thesis by (auto simp: least_from_def)
      qed
      with r m have "least_from (ok p) low r" by (auto simp: least_from_def)
      with r search_up [OF assms True less.prems(3,1) m_def no] show ?thesis by auto
    qed
  qed
qed

end

lemma protocolFee_bigint:
  "0 \<le> g \<Longrightarrow> g \<le> MAX_UINT96 \<Longrightarrow> 0 \<le> f \<Longrightarrow> f < 10000 \<Longrightarrow>
   protocolFeeBitWei (JBigInt g) (JBigInt f) = Inr (fee_of g f)"
  by (simp add: protocolFee_Inr feeRate_Inr)

definition fee_ok :: "int \<times> int \<Rightarrow> bool" where
  "fee_ok p \<longleftrightarrow> 0 \<le> snd p \<and> snd p < 10000"

interpretation gross: bisection "\<lambda>p. gross_search (fst p) (snd p)"
  "\<lambda>p g. fst p \<le> net_of g (snd p)" fee_ok MAX_UINT96
proof
  fix p :: "int \<times> int" and low high mid k m :: int
  show "gross_search (fst p) (snd p) low high = Inr low" if "\<not> low < high"
    using that by (simp add: gross_search.simps)
  have fee: "protocolFeeBitWei (JBigInt mid) (JBigInt (snd p)) = Inr (fee_of mid (snd p))"
    if "fee_ok p" "low < high" "high \<le> MAX_UINT96" "0 < low" "mid = low + (high - low) div 2"
    using that by (intro protocolFee_bigint) (auto simp: fee_ok_def)
  show "gross_search (fst p) (snd p) low high = gross_search (fst p) (snd p) low mid"
    if "fee_ok p" "low < high" "high \<le> MAX_UINT96" "0 < low" "mid = low + (high - low) div 2"
      "fst p \<le> net_of mid (snd p)"
    using that fee [OF that(1-5)] by (simp add: gross_search.simps [of _ _ low high] Let_def net_of_def)
  show "gross_search (fst p) (snd p) low high = gross_search (fst p) (snd p) (mid + 1) high"
    if "fee_ok p" "low < high" "high \<le> MAX_UINT96" "0 < low" "mid = low + (high - low) div 2"
      "\<not> fst p \<le> net_of mid (snd p)"
    using that fee [OF that(1-5)] by (simp add: gross_search.simps [of _ _ low high] Let_def net_of_def)
  show "fst p \<le> net_of m (snd p)" if "fee_ok p" "fst p \<le> net_of k (snd p)" "k \<le> m"
    using that net_of_mono [of "snd p" k m] by (auto simp: fee_ok_def)
qed

lemma ceil_gross_ok:
  assumes "ceilDiv (target * BPS_DENOMINATOR) (BPS_DENOMINATOR - f) = Inr high"
    and "0 \<le> target" and "0 \<le> f" and "f < 10000"
  shows "target \<le> high \<and> target \<le> net_of high f"
proof -
  have cover: "target * 10000 \<le> high * (10000 - f)"
    using ceilDiv_le_iff [OF assms(1), of high] assms(2) by (simp add: BPS_DENOMINATOR_def)
  have "high * f div 10000 \<le> high - target"
    using cover div_less_mult_iff [of 10000 "high * f" "high - target + 1"]
    by (simp add: algebra_simps)
  moreover have "0 \<le> high"
    using assms by (auto simp: ceilDiv_Inr BPS_DENOMINATOR_def pos_imp_zdiv_nonneg_iff split: if_splits)
  then have "high * (10000 - f) \<le> high * 10000" using assms by (intro mult_left_mono) auto
  with cover have "target \<le> high" by simp
  ultimately show ?thesis by (simp add: net_of_def fee_of_def)
qed

text \<open>Below the search's lower bound nothing passes: the net never exceeds the gross.\<close>

lemma net_of_le: "0 \<le> g \<Longrightarrow> 0 \<le> f \<Longrightarrow> f < 10000 \<Longrightarrow> net_of g f \<le> g"
  using fee_of_bounds [of g f] by (simp add: net_of_def)

text \<open>
  The gross search returns, whatever the target: its result is the least gross amount whose net
  after the floored fee covers the target.
\<close>

lemma minimumGross_least:
  assumes t: "js_BigInt tv = Some target" "0 \<le> target" "target \<le> MAX_UINT96"
    and f: "feeRate fv = Inr fee"
    and h: "ceilDiv (target * BPS_DENOMINATOR) (BPS_DENOMINATOR - fee) = Inr high" "high \<le> MAX_UINT96"
  shows "\<exists>r \<le> high. minimumGrossBitWeiForNet tv fv = Inr r \<and>
           least_from (\<lambda>g. target \<le> net_of g fee) 0 r"
proof (cases "target = 0")
  case True
  then have "high = 0" using h by (simp add: ceilDiv_Inr)
  with True t f show ?thesis
    by (auto simp: minimumGrossBitWeiForNet_def unsigned_def least_from_def net_of_def fee_of_def)
next
  case False
  have fee: "0 \<le> fee" "fee < 10000" using f by (auto simp: feeRate_Inr)
  then have "fee_ok (target, fee)" by (simp add: fee_ok_def)
  from gross.search_least [OF this, of target high] ceil_gross_ok [OF h(1) t(2) fee] t h False
  obtain r where r: "r \<le> high" "gross_search target fee target high = Inr r"
    "least_from (\<lambda>g. target \<le> net_of g fee) target r" by auto
  have "\<not> target \<le> net_of k fee" if "0 \<le> k" "k < r" for k
    using that r(3) net_of_le [of k fee] fee by (cases "target \<le> k") (auto simp: least_from_def)
  with r(3) t(2) have "least_from (\<lambda>g. target \<le> net_of g fee) 0 r" by (auto simp: least_from_def)
  moreover have "minimumGrossBitWeiForNet tv fv = Inr r"
    using False t f h r(2) by (simp add: minimumGrossBitWeiForNet_def unsigned_def)
  ultimately show ?thesis using r(1) by auto
qed

lemma referenceBitWei_Inr [result_simps]:
  "referenceBitWeiFromSats v = Inr w \<longleftrightarrow>
     (\<exists>s. js_BigInt v = Some s \<and> 0 \<le> s \<and> s \<le> MAX_UINT64 \<and> w = s * BIT_WEI_PER_REFERENCE_SAT \<and> w \<le> MAX_UINT96)"
  by (auto simp: referenceBitWeiFromSats_def unsigned_Inr bindE_eq_Inr if_Inl_eq_Inr)

lemma wei_nonneg [simp]: "0 \<le> s \<Longrightarrow> 0 \<le> s * BIT_WEI_PER_REFERENCE_SAT"
  by (simp add: unit_consts)

text \<open>A quote succeeds exactly on a positive input whose reference value fits the escrow range.\<close>

lemma quoteLightningToBit_Inr [result_simps]:
  "quoteLightningToBit v fv = Inr q \<longleftrightarrow>
     (\<exists>s fee. js_BigInt v = Some s \<and> 0 < s \<and> s \<le> MAX_UINT64 \<and> s * BIT_WEI_PER_REFERENCE_SAT \<le> MAX_UINT96 \<and>
        feeRate fv = Inr fee \<and>
        q = \<lparr>lb_lightningInputSats = s, lb_grossBitWei = s * BIT_WEI_PER_REFERENCE_SAT,
             lb_feeBitWei = fee_of (s * BIT_WEI_PER_REFERENCE_SAT) fee, lb_outputBitWei = net_of (s * BIT_WEI_PER_REFERENCE_SAT) fee\<rparr>)"
  by (auto simp: quoteLightningToBit_def unsigned_Inr bindE_eq_Inr if_Inl_eq_Inr
      referenceBitWei_Inr protocolFee_Inr net_of_def order_less_le wei_nonneg)

text \<open>A whole number of reference satoshis divides by the fee denominator, so no wei is lost.\<close>

definition sat_net :: "int \<Rightarrow> int" where
  "sat_net f = 10 ^ 12 * (10000 - f)"

lemma wei_sat_net: "BIT_WEI_PER_REFERENCE_SAT * (BPS_DENOMINATOR - f) = sat_net f * BPS_DENOMINATOR"
  by (simp add: sat_net_def unit_consts)

lemma sat_net_pos: "f < 10000 \<Longrightarrow> 0 < sat_net f"
  by (simp add: sat_net_def)

lemma net_of_sats: "net_of (s * BIT_WEI_PER_REFERENCE_SAT) f = s * sat_net f"
proof -
  have "s * 10 ^ 16 * f div 10000 = s * 10 ^ 12 * f"
    using nonzero_mult_div_cancel_right [of 10000 "s * 10 ^ 12 * f"] by (simp add: mult_ac)
  then show ?thesis by (simp add: net_of_def fee_of_def sat_net_def unit_consts algebra_simps)
qed

lemma quoteLightningToBit_bigint:
  "0 < s \<Longrightarrow> s * BIT_WEI_PER_REFERENCE_SAT \<le> MAX_UINT96 \<Longrightarrow> 0 \<le> f \<Longrightarrow> f < 10000 \<Longrightarrow>
   \<exists>q. quoteLightningToBit (JBigInt s) (JBigInt f) = Inr q \<and> lb_lightningInputSats q = s \<and>
       lb_outputBitWei q = s * sat_net f"
  unfolding net_of_sats [symmetric]
  by (simp add: quoteLightningToBit_Inr feeRate_Inr) (simp add: unit_consts)

definition sats_limit :: int where
  "sats_limit = MAX_UINT96 div BIT_WEI_PER_REFERENCE_SAT"

lemma sats_limit_le: "s \<le> sats_limit \<longleftrightarrow> s * BIT_WEI_PER_REFERENCE_SAT \<le> MAX_UINT96"
  using div_less_mult_iff [of BIT_WEI_PER_REFERENCE_SAT MAX_UINT96 s]
  by (auto simp: sats_limit_def not_less [symmetric] BIT_WEI_PER_REFERENCE_SAT_def unit_consts)

interpretation sats: bisection "\<lambda>p. sats_search (fst p) (snd p)"
  "\<lambda>p k. fst p \<le> k * sat_net (snd p)" fee_ok sats_limit
proof
  fix p :: "int \<times> int" and low high mid k m :: int
  show "sats_search (fst p) (snd p) low high = Inr low" if "\<not> low < high"
    using that by (simp add: sats_search.simps)
  have q: "\<exists>q. quoteLightningToBit (JBigInt mid) (JBigInt (snd p)) = Inr q \<and>
      lb_outputBitWei q = mid * sat_net (snd p)"
    if "fee_ok p" "low < high" "high \<le> sats_limit" "0 < low" "mid = low + (high - low) div 2"
  proof -
    from that have "0 < mid" "mid \<le> sats_limit" by auto
    with that(1) quoteLightningToBit_bigint [of mid "snd p"] sats_limit_le [of mid] show ?thesis
      by (auto simp: fee_ok_def)
  qed
  show "sats_search (fst p) (snd p) low high = sats_search (fst p) (snd p) low mid"
    if "fee_ok p" "low < high" "high \<le> sats_limit" "0 < low" "mid = low + (high - low) div 2"
      "fst p \<le> mid * sat_net (snd p)"
    using that q [OF that(1-5)] by (auto simp: sats_search.simps [of _ _ low high] Let_def)
  show "sats_search (fst p) (snd p) low high = sats_search (fst p) (snd p) (mid + 1) high"
    if "fee_ok p" "low < high" "high \<le> sats_limit" "0 < low" "mid = low + (high - low) div 2"
      "\<not> fst p \<le> mid * sat_net (snd p)"
    using that q [OF that(1-5)] by (auto simp: sats_search.simps [of _ _ low high] Let_def)
  show "fst p \<le> m * sat_net (snd p)"
    if "fee_ok p" "fst p \<le> k * sat_net (snd p)" "k \<le> m"
  proof -
    have "k * sat_net (snd p) \<le> m * sat_net (snd p)"
      using that(1,3) sat_net_pos [of "snd p"] by (intro mult_right_mono) (auto simp: fee_ok_def)
    with that(2) show ?thesis by (rule order_trans)
  qed
qed

section \<open>Properties\<close>

text \<open>
  Property C24.  The exact-BIT search is sound and complete: what it returns is the quote of
  its own input amount and delivers the target, and whenever some amount of satoshis delivers the
  target the search returns, with an input no larger than that amount.
\<close>

theorem requiredSatsForExactBit_least:
  assumes target: "js_BigInt outputBitWei = Some target" "0 < target" "target \<le> MAX_UINT96"
    and fee: "feeRate feeBps = Inr fee"
  shows "(\<forall>q. requiredSatsForExactBit outputBitWei feeBps = Inr q \<longrightarrow>
            quoteLightningToBit (JBigInt (lb_lightningInputSats q)) feeBps = Inr q \<and>
            target \<le> lb_outputBitWei q) \<and>
         (\<forall>s q'. quoteLightningToBit (JBigInt s) feeBps = Inr q' \<and> target \<le> lb_outputBitWei q' \<longrightarrow>
            (\<exists>q. requiredSatsForExactBit outputBitWei feeBps = Inr q \<and> lb_lightningInputSats q \<le> s))"
proof (intro conjI allI impI)
  fix q assume "requiredSatsForExactBit outputBitWei feeBps = Inr q"
  with assms obtain low where "quoteLightningToBit (JBigInt low) (JBigInt fee) = Inr q"
      "target \<le> lb_outputBitWei q"
    by (auto simp: requiredSatsForExactBit_def bindE_eq_Inr if_Inl_eq_Inr unsigned_Inr not_less)
  with fee show "quoteLightningToBit (JBigInt (lb_lightningInputSats q)) feeBps = Inr q"
      "target \<le> lb_outputBitWei q"
    by (auto simp: quoteLightningToBit_Inr feeRate_Inr)
next
  fix s q' assume "quoteLightningToBit (JBigInt s) feeBps = Inr q' \<and> target \<le> lb_outputBitWei q'"
  with fee have s: "0 < s" "s \<le> MAX_UINT64" "s * BIT_WEI_PER_REFERENCE_SAT \<le> MAX_UINT96"
      and covers: "target \<le> s * sat_net fee"
    by (auto simp: quoteLightningToBit_Inr net_of_sats)
  have f: "0 \<le> fee" "fee < 10000" using fee by (auto simp: feeRate_Inr)
  define d where "d = sat_net fee * BPS_DENOMINATOR"
  obtain high where h: "ceilDiv (target * BPS_DENOMINATOR) d = Inr high"
    using f sat_net_pos [of fee] by (auto simp: ceilDiv_def d_def BPS_DENOMINATOR_def)
  have pass: "high \<le> k \<longleftrightarrow> target \<le> k * sat_net fee" for k
    using ceilDiv_le_iff [OF h, of k] target(2)
    by (simp add: d_def mult.assoc [symmetric] BPS_DENOMINATOR_def)
  have "0 < high" using pass [of 0] target(2) by auto
  moreover have "high \<le> s" using pass covers by simp
  moreover have "high \<le> sats_limit" using \<open>high \<le> s\<close> s(3) sats_limit_le [of s] by simp
  ultimately obtain r where r: "r \<le> high" "sats_search target fee 1 high = Inr r"
      "least_from (\<lambda>k. target \<le> k * sat_net fee) 1 r"
    using sats.search_least [of "(target, fee)" 1 high] pass f by (auto simp: fee_ok_def)
  then have "r = high" "0 < r" using pass [of r] by (auto simp: least_from_def)
  with \<open>high \<le> s\<close> s f quoteLightningToBit_bigint [of r fee] sats_limit_le [of r] \<open>high \<le> sats_limit\<close>
  obtain q where "quoteLightningToBit (JBigInt r) (JBigInt fee) = Inr q" "lb_lightningInputSats q = r"
      "target \<le> lb_outputBitWei q" using pass [of r] by auto
  with r h \<open>r = high\<close> \<open>high \<le> s\<close> s target fee
  show "\<exists>q. requiredSatsForExactBit outputBitWei feeBps = Inr q \<and> lb_lightningInputSats q \<le> s"
    by (auto simp: requiredSatsForExactBit_def unsigned_def d_def wei_sat_net)
qed

theorem requiredSatsForExactBit_least_witness:
  "\<exists>q. requiredSatsForExactBit (JBigInt (10 ^ 18)) (JBigInt 35) = Inr q \<and> lb_lightningInputSats q \<le> 101"
proof -
  have "js_BigInt (JBigInt (10 ^ 18)) = Some (10 ^ 18)" "(0::int) < 10 ^ 18" "10 ^ 18 \<le> MAX_UINT96"
    and "feeRate (JBigInt 35) = Inr 35"
    by (simp_all add: MAX_UINT96_def feeRate_Inr)
  note least = conjunct2 [OF requiredSatsForExactBit_least [OF this]]
  obtain q' where "quoteLightningToBit (JBigInt 101) (JBigInt 35) = Inr q'"
      "lb_outputBitWei q' = 101 * sat_net 35"
    using quoteLightningToBit_bigint [of 101 35] by (auto simp: unit_consts)
  moreover have "10 ^ 18 \<le> 101 * sat_net 35" by (simp add: sat_net_def)
  ultimately show ?thesis using least by metis
qed

lemma referenceSats_Inr [result_simps]:
  "referenceSatsFromBitWei v = Inr r \<longleftrightarrow>
     (\<exists>w. js_BigInt v = Some w \<and> 0 \<le> w \<and> w \<le> MAX_UINT96 \<and>
        r = \<lparr>rs_sats = w div BIT_WEI_PER_REFERENCE_SAT, rs_dustBitWei = w mod BIT_WEI_PER_REFERENCE_SAT\<rparr>)"
  by (auto simp: referenceSatsFromBitWei_def unsigned_Inr bindE_eq_Inr)

lemma quoteBitToLightning_Inr [result_simps]:
  "quoteBitToLightning v fv rv = Inr q \<longleftrightarrow>
     (\<exists>gross fee route. js_BigInt v = Some gross \<and> 0 < gross \<and> gross \<le> MAX_UINT96 \<and>
        js_BigInt (js_default rv (JBigInt 0)) = Some route \<and> 0 \<le> route \<and> route \<le> MAX_UINT64 \<and>
        feeRate fv = Inr fee \<and> route \<le> net_of gross fee div BIT_WEI_PER_REFERENCE_SAT \<and>
        q = \<lparr>bl_grossBitWei = gross, bl_feeBitWei = fee_of gross fee, bl_solverBitWei = net_of gross fee,
             bl_referenceLightningSats = net_of gross fee div BIT_WEI_PER_REFERENCE_SAT,
             bl_routingFeeSats = route,
             bl_outputLightningSats = net_of gross fee div BIT_WEI_PER_REFERENCE_SAT - route,
             bl_dustBitWei = net_of gross fee mod BIT_WEI_PER_REFERENCE_SAT\<rparr>)"
proof -
  have range: "fee_of gross fee \<le> gross \<and> gross - fee_of gross fee \<le> MAX_UINT96"
    if "0 \<le> gross" "gross \<le> MAX_UINT96" "feeRate fv = Inr fee" for gross fee
    using that fee_of_bounds [of gross fee] by (auto simp: feeRate_Inr)
  show ?thesis
    by (auto simp: quoteBitToLightning_def unsigned_Inr bindE_eq_Inr if_Inl_eq_Inr protocolFee_Inr
        referenceSats_Inr net_of_def not_less order_less_le range [THEN conjunct1] range [THEN conjunct2])
qed

text \<open>
  For a payable Lightning amount with a routing allowance, whenever the covering
  gross amount fits the escrow range the exact-Lightning search returns a quote that pays at least
  the amount, and no smaller BIT input buys it.
\<close>

theorem requiredBitForExactLightning_least:
  assumes out: "js_BigInt outputSats = Some output" "0 < output"
    and route: "js_BigInt (js_default routingFeeSats (JBigInt 0)) = Some route" "0 \<le> route"
      "output + route \<le> MAX_UINT64"
    and fee: "feeRate feeBps = Inr fee"
    and high: "ceilDiv ((output + route) * BIT_WEI_PER_REFERENCE_SAT * BPS_DENOMINATOR)
                 (BPS_DENOMINATOR - fee) = Inr high" "high \<le> MAX_UINT96"
  shows "\<exists>q. requiredBitForExactLightning outputSats feeBps routingFeeSats = Inr q \<and>
           output \<le> bl_outputLightningSats q \<and>
           (\<forall>g q'. quoteBitToLightning (JBigInt g) feeBps routingFeeSats = Inr q' \<and>
                   output \<le> bl_outputLightningSats q' \<longrightarrow> bl_grossBitWei q \<le> g)"
proof -
  define t where "t = (output + route) * BIT_WEI_PER_REFERENCE_SAT"
  have f: "0 \<le> fee" "fee < 10000" using fee by (auto simp: feeRate_Inr)
  have t0: "0 < t" using out route by (simp add: t_def unit_consts)
  have tw: "output + route \<le> n div BIT_WEI_PER_REFERENCE_SAT \<longleftrightarrow> t \<le> n" for n
    using div_less_mult_iff [of BIT_WEI_PER_REFERENCE_SAT n "output + route"]
    by (auto simp: t_def not_less [symmetric] unit_consts)
  have h: "ceilDiv (t * BPS_DENOMINATOR) (BPS_DENOMINATOR - fee) = Inr high"
    using high(1) by (simp add: t_def)
  have "t \<le> MAX_UINT96" using ceil_gross_ok [OF h _ f] t0 high(2) by simp
  then obtain r where r: "r \<le> high" "minimumGrossBitWeiForNet (JBigInt t) feeBps = Inr r"
      "least_from (\<lambda>g. t \<le> net_of g fee) 0 r"
    using minimumGross_least [of "JBigInt t" t feeBps fee high] t0 fee h high(2) by auto
  have "0 < r" using r(3) t0 net_of_le [of 0 fee] f by (cases "r = 0") (auto simp: least_from_def)
  have net: "output + route \<le> net_of r fee div BIT_WEI_PER_REFERENCE_SAT"
    using r(3) tw by (simp add: least_from_def)
  obtain q where q: "quoteBitToLightning (JBigInt r) feeBps (JBigInt route) = Inr q"
      "bl_grossBitWei q = r" "output \<le> bl_outputLightningSats q"
    using \<open>0 < r\<close> r(1) high(2) route out(2) fee net
    by (simp add: quoteBitToLightning_Inr js_default_def)
  have "requiredBitForExactLightning outputSats feeBps routingFeeSats = Inr q"
    using out route r(2) q(1,3)
    by (simp add: requiredBitForExactLightning_def unsigned_def t_def not_less)
  moreover have "r \<le> g" if "quoteBitToLightning (JBigInt g) feeBps routingFeeSats = Inr q'"
      "output \<le> bl_outputLightningSats q'" for g q'
  proof -
    from that route fee have "0 \<le> g" "t \<le> net_of g fee"
      using tw [of "net_of g fee"] by (auto simp: quoteBitToLightning_Inr)
    with r(3) show ?thesis by (meson least_from_def not_le)
  qed
  ultimately show ?thesis using q(2,3) by blast
qed

theorem requiredBitForExactLightning_least_witness:
  "\<exists>q. requiredBitForExactLightning (JBigInt 100000) (JBigInt 50) (JBigInt 12) = Inr q \<and>
       100000 \<le> bl_outputLightningSats q"
proof -
  have "js_BigInt (JBigInt 100000) = Some 100000" "(0::int) < 100000"
    and "js_BigInt (js_default (JBigInt 12) (JBigInt 0)) = Some 12" "(0::int) \<le> 12"
    and "(100000::int) + 12 \<le> MAX_UINT64" and "feeRate (JBigInt 50) = Inr 50"
    and "ceilDiv ((100000 + 12) * BIT_WEI_PER_REFERENCE_SAT * BPS_DENOMINATOR) (BPS_DENOMINATOR - 50)
           = Inr 1005145728643216080403"
    and "1005145728643216080403 \<le> MAX_UINT96"
    by (simp_all add: unit_consts feeRate_Inr js_default_def ceilDiv_def)
  from requiredBitForExactLightning_least [OF this] show ?thesis by blast
qed

text \<open>
  Every quote the two pricing functions produce passes the conservation check: BIT
  in equals BIT out plus fee, satoshis and dust add up to the reference conversion, and the fee is
  the floored basis-point share.
\<close>

theorem quotes_conserve_value:
  "(quoteLightningToBit inputSats feeBps = Inr q \<longrightarrow>
      assertQuoteConservation (LightningToBitQuote q) = Inr True) \<and>
   (quoteBitToLightning inputBitWei feeBps routingFeeSats = Inr q' \<longrightarrow>
      assertQuoteConservation (BitToLightningQuote q') = Inr True \<and>
      0 \<le> bl_outputLightningSats q' \<and> bl_dustBitWei q' < BIT_WEI_PER_REFERENCE_SAT)"
proof -
  have "0 < BIT_WEI_PER_REFERENCE_SAT" by (simp add: unit_consts)
  then show ?thesis
    by (auto simp: quoteLightningToBit_Inr quoteBitToLightning_Inr bindE_eq_Inr if_Inl_eq_Inr
        referenceBitWei_Inr net_of_def)
qed

theorem quotes_conserve_value_witness:
  "\<exists>q. quoteLightningToBit (JBigInt 5) (JBigInt 35) = Inr q \<and>
       assertQuoteConservation (LightningToBitQuote q) = Inr True"
proof -
  obtain q where "quoteLightningToBit (JBigInt 5) (JBigInt 35) = Inr q"
    using quoteLightningToBit_bigint [of 5 35] by (auto simp: unit_consts)
  with quotes_conserve_value [of "JBigInt 5" "JBigInt 35" q] show ?thesis by blast
qed

text \<open>
  Unit conversions round-trip: satoshis to millisatoshis and back, and satoshis to
  reference wei and back with no dust.
\<close>

theorem unit_round_trips:
  assumes "js_BigInt sats = Some n"
  shows "(satsToMsats sats = Inr m \<longrightarrow> msatsToWholeSats (JBigInt m) = Inr n) \<and>
         (referenceBitWeiFromSats sats = Inr w \<longrightarrow>
            referenceSatsFromBitWei (JBigInt w) = Inr \<lparr>rs_sats = n, rs_dustBitWei = 0\<rparr>)"
proof -
  have "0 < BIT_WEI_PER_REFERENCE_SAT" "0 < MSATS_PER_SAT" by (simp_all add: unit_consts)
  with assms show ?thesis
    by (auto simp: satsToMsats_def msatsToWholeSats_def bindE_eq_Inr if_Inl_eq_Inr unsigned_Inr
        referenceBitWei_Inr referenceSats_Inr)
qed

theorem unit_round_trips_witness:
  "msatsToWholeSats (JBigInt 21000) = Inr 21 \<and>
   referenceSatsFromBitWei (JBigInt (21 * 10 ^ 16)) = Inr \<lparr>rs_sats = 21, rs_dustBitWei = 0\<rparr>"
proof -
  have "js_BigInt (JStr ''21'') = Some 21" "satsToMsats (JStr ''21'') = Inr 21000"
    and "referenceBitWeiFromSats (JStr ''21'') = Inr (21 * 10 ^ 16)"
    by code_simp+
  with unit_round_trips [of "JStr ''21''" 21] show ?thesis by blast
qed

end
