(* ===== verification/Settlement_Policy.thy ===== *)
theory Settlement_Policy
  imports JS_Values
begin

text \<open>
  The cross-chain clock policy, \<^verbatim>\<open>src/lib/settlement-policy.mjs\<close>: derivation of the deadlines of
  a settlement, the check of a held HTLC, and the issue, check and one-time use of a Lightning
  authorization.  Times and heights are JavaScript numbers: sums and products go through the
  rounding operations of \<^verbatim>\<open>JS_Values\<close>; differences and minima of safe integers are exact.
\<close>

section \<open>Definitions\<close>

definition POLICY_FIELDS :: "(string \<times> jsval) list" where
  "POLICY_FIELDS =
    [(''version'', JStr ''1''),
     (''maxClockSkewSeconds'', JInt 60),
     (''minimumPaymentCltvBlocks'', JInt 18),
     (''minimumHoldInvoiceCltvBlocks'', JInt 48),
     (''fulfillmentSafetyBlocks'', JInt 24),
     (''minimumBitcoinBlockSeconds'', JInt 300),
     (''invoiceExpiryMarginSeconds'', JInt 300),
     (''ethereumConfirmations'', JInt 12),
     (''maximumEthereumBlockSeconds'', JInt 18),
     (''maxFinalityLagBlocks'', JInt 80),
     (''minimumPaymentWindowSeconds'', JInt 600),
     (''minimumHeldHtlcActionSeconds'', JInt 900),
     (''quoteTtlSeconds'', JInt 120),
     (''claimRelaySeconds'', JInt 600),
     (''ethereumCongestionSeconds'', JInt 1800),
     (''maximumLockSeconds'', JInt 172800),
     (''maxAuthorizationAgeSeconds'', JInt 15)]"

definition TREE_SWAP_SETTLEMENT_POLICY_V1 :: jsval where
  "TREE_SWAP_SETTLEMENT_POLICY_V1 = JObj POLICY_FIELDS"

definition validatedTreeSwapSettlementPolicy :: "jsval \<Rightarrow> jsval result" where
  "validatedTreeSwapSettlementPolicy v = (case v of
     JObj kvs \<Rightarrow>
       if sort (map fst kvs) \<noteq> sort (map fst POLICY_FIELDS)
       then Inl (TypeError ''settlement policy fields are not exact'')
       else bindE (mapE (\<lambda>(field, expected).
           if \<not> js_strict_eq (js_get v field) expected
           then Inl (RangeError (''settlement policy '' @ field @ '' is not the approved v1 value''))
           else Inr ()) POLICY_FIELDS)
         (\<lambda>_. Inr TREE_SWAP_SETTLEMENT_POLICY_V1)
   | _ \<Rightarrow> Inl (TypeError ''settlement policy must be an object''))"

definition minimum :: "int \<Rightarrow> int \<Rightarrow> int" where
  "minimum left right = (if left < right then left else right)"

text \<open>\<open>integer(policy.field, "field")\<close>, as every policy read is written.\<close>

definition policy_int :: "jsval \<Rightarrow> string \<Rightarrow> int result" where
  "policy_int policy field = integer (js_get policy field) field"

record settlement_schedule =
  sc_direction :: string
  sc_derivedAt :: int
  sc_bitcoinHeight :: int
  sc_invoiceExpiresAt :: int
  sc_invoiceCutoffAt :: int
  sc_cltvSafeHeight :: "int option"
  sc_cltvCutoffAt :: "int option"
  sc_ethereumFinalAt :: int
  sc_quoteExpiresAt :: int
  sc_lastSafeClaimAt :: int
  sc_refundAfter :: int
  sc_claimBufferSeconds :: int
  sc_policyVersion :: string

text \<open>The part of \<open>deriveSettlementSchedule\<close> after the two cutoffs are known.\<close>

definition schedule_deadlines ::
    "string \<Rightarrow> int \<Rightarrow> int \<Rightarrow> int \<Rightarrow> int \<Rightarrow> int option \<Rightarrow> int \<Rightarrow> jsval \<Rightarrow> settlement_schedule result" where
  "schedule_deadlines direction now height invoiceExpiresAt invoiceCutoffAt cltvSafeHeight cltvCutoffAt policy =
     (let lastSafeClaimAt = minimum invoiceCutoffAt cltvCutoffAt in
      bindE (policy_int policy ''ethereumConfirmations'') (\<lambda>confirmations.
      bindE (policy_int policy ''maximumEthereumBlockSeconds'') (\<lambda>blockSeconds.
      let ethereumFinalitySeconds = num_mul confirmations blockSeconds;
          ethereumFinalAt = num_add now ethereumFinalitySeconds in
      bindE (policy_int policy ''minimumPaymentWindowSeconds'') (\<lambda>window.
      if num_sub lastSafeClaimAt ethereumFinalAt < window
      then Inl (RangeError ''invoice cannot outlive Ethereum finality and the Lightning action window'')
      else bindE (policy_int policy ''quoteTtlSeconds'') (\<lambda>ttl.
      let quoteExpiresAt = minimum (num_add now ttl) (num_sub lastSafeClaimAt window) in
      if quoteExpiresAt \<le> now \<or> quoteExpiresAt \<ge> lastSafeClaimAt
      then Inl (RangeError ''quote expiry cannot be safely ordered'')
      else bindE (policy_int policy ''claimRelaySeconds'') (\<lambda>relay.
      bindE (policy_int policy ''ethereumCongestionSeconds'') (\<lambda>congestion.
      let claimBufferSeconds = num_add (num_add relay ethereumFinalitySeconds) congestion;
          refundAfter = num_add lastSafeClaimAt claimBufferSeconds in
      bindE (policy_int policy ''maximumLockSeconds'') (\<lambda>maximumLock.
      if num_sub refundAfter now > maximumLock
      then Inl (RangeError ''derived refund exceeds the maximum lock duration'')
      else Inr \<lparr>sc_direction = direction, sc_derivedAt = now, sc_bitcoinHeight = height,
        sc_invoiceExpiresAt = invoiceExpiresAt, sc_invoiceCutoffAt = invoiceCutoffAt,
        sc_cltvSafeHeight = cltvSafeHeight,
        sc_cltvCutoffAt = (if cltvCutoffAt = MAX_SAFE_INTEGER then None else Some cltvCutoffAt),
        sc_ethereumFinalAt = ethereumFinalAt, sc_quoteExpiresAt = quoteExpiresAt,
        sc_lastSafeClaimAt = lastSafeClaimAt, sc_refundAfter = refundAfter,
        sc_claimBufferSeconds = claimBufferSeconds,
        sc_policyVersion = js_String (js_get policy ''version'')\<rparr>))))))))"

definition deriveSettlementSchedule ::
    "string \<Rightarrow> jsval \<Rightarrow> jsval \<Rightarrow> jsval \<Rightarrow> jsval \<Rightarrow> settlement_schedule result" where
  "deriveSettlementSchedule direction nowSeconds bitcoinHeight invoice policy =
     bindE (integer nowSeconds ''nowSeconds'') (\<lambda>now.
     bindE (integer bitcoinHeight ''bitcoinHeight'') (\<lambda>height.
     bindE (integer (js_get invoice ''timestamp'') ''invoice.timestamp'') (\<lambda>createdAt.
     bindE (integer (js_get invoice ''expirySeconds'') ''invoice.expirySeconds'') (\<lambda>expirySeconds.
     bindE (integer (js_get invoice ''minFinalCltvExpiryDelta'') ''invoice.minFinalCltvExpiryDelta'')
       (\<lambda>finalCltv.
     if direction \<noteq> ''lightning-to-bit'' \<and> direction \<noteq> ''bit-to-lightning''
     then Inl (RangeError ''unsupported settlement direction'')
     else bindE (policy_int policy ''maxClockSkewSeconds'') (\<lambda>skew.
     if createdAt > num_add now skew then Inl (RangeError ''invoice timestamp is in the future'')
     else if expirySeconds = 0 then Inl (RangeError ''invoice expiry is required'')
     else bindE (if direction = ''lightning-to-bit''
                 then policy_int policy ''minimumHoldInvoiceCltvBlocks''
                 else policy_int policy ''minimumPaymentCltvBlocks'') (\<lambda>minimumFinalCltv.
     if finalCltv < minimumFinalCltv then Inl (RangeError ''invoice final CLTV is below policy'')
     else bindE (policy_int policy ''fulfillmentSafetyBlocks'') (\<lambda>safetyBlocks.
     if direction = ''lightning-to-bit'' \<and> finalCltv \<le> safetyBlocks
     then Inl (RangeError ''hold invoice has no safe settlement block window'')
     else let invoiceExpiresAt = num_add createdAt expirySeconds in
     bindE (policy_int policy ''invoiceExpiryMarginSeconds'') (\<lambda>margin.
     let invoiceCutoffAt = num_sub invoiceExpiresAt margin in
     if invoiceCutoffAt \<le> now
     then Inl (RangeError ''invoice is expired or inside its safety margin'')
     else if direction = ''lightning-to-bit'' then
       let cltvSafeHeight = num_sub (num_add height finalCltv) safetyBlocks in
       bindE (policy_int policy ''minimumBitcoinBlockSeconds'') (\<lambda>blockSeconds.
       schedule_deadlines direction now height invoiceExpiresAt invoiceCutoffAt (Some cltvSafeHeight)
         (num_add now (num_mul (num_sub cltvSafeHeight height) blockSeconds)) policy)
     else schedule_deadlines direction now height invoiceExpiresAt invoiceCutoffAt None
         MAX_SAFE_INTEGER policy)))))))))"

record held_htlc_decision =
  hd_valid :: bool
  hd_reasons :: "string list"
  hd_safeHeight :: int
  hd_htlcLastSafeAt :: int
  hd_effectiveLastSafeAt :: int

definition validateHeldHtlc ::
    "settlement_schedule \<Rightarrow> jsval \<Rightarrow> jsval \<Rightarrow> jsval \<Rightarrow> jsval \<Rightarrow> held_htlc_decision result" where
  "validateHeldHtlc schedule observedAt currentBitcoinHeight htlcExpiryHeight policy =
     bindE (integer observedAt ''observedAt'') (\<lambda>now.
     bindE (integer currentBitcoinHeight ''currentBitcoinHeight'') (\<lambda>currentHeight.
     bindE (integer htlcExpiryHeight ''htlcExpiryHeight'') (\<lambda>expiryHeight.
     bindE (policy_int policy ''fulfillmentSafetyBlocks'') (\<lambda>safetyBlocks.
     bindE (policy_int policy ''minimumHoldInvoiceCltvBlocks'') (\<lambda>minimumDelta.
     bindE (policy_int policy ''minimumBitcoinBlockSeconds'') (\<lambda>blockSeconds.
     bindE (policy_int policy ''minimumHeldHtlcActionSeconds'') (\<lambda>actionSeconds.
     let safeHeight = (if expiryHeight > safetyBlocks then expiryHeight - safetyBlocks else 0);
         safeBlocksRemaining = (if safeHeight > currentHeight then safeHeight - currentHeight else 0);
         htlcLastSafeAt = num_add now (num_mul safeBlocksRemaining blockSeconds);
         effectiveLastSafeAt = minimum (sc_lastSafeClaimAt schedule) htlcLastSafeAt;
         reasons =
           addReason (sc_direction schedule \<noteq> ''lightning-to-bit'')
             ''hold HTLC is not valid for this direction'' @
           addReason (expiryHeight < num_add currentHeight minimumDelta)
             ''accepted HTLC expiry is below the hold-invoice minimum'' @
           addReason (expiryHeight \<le> num_add currentHeight safetyBlocks)
             ''accepted HTLC has no onchain fulfillment margin'' @
           addReason (num_sub effectiveLastSafeAt now < actionSeconds)
             ''accepted HTLC is too close to its safe settlement boundary'' in
     Inr \<lparr>hd_valid = (reasons = []), hd_reasons = reasons, hd_safeHeight = safeHeight,
          hd_htlcLastSafeAt = htlcLastSafeAt, hd_effectiveLastSafeAt = effectiveLastSafeAt\<rparr>)))))))"

record decision =
  authorized :: bool
  reasons :: "string list"

definition service_reasons :: "jsval \<Rightarrow> string \<Rightarrow> string \<Rightarrow> string \<Rightarrow> string \<Rightarrow> string list" where
  "service_reasons service gate balances synced adapter =
     addReason (js_get service ''riskGateEnabled'' \<noteq> JBool True) gate @
     addReason (js_get service ''balancesReconciled'' \<noteq> JBool True) balances @
     addReason (js_get service ''lightningNodeSynced'' \<noteq> JBool True) synced @
     addReason (js_get service ''adapterHealthy'' \<noteq> JBool True) adapter"

definition authorizeLightningAction ::
    "settlement_schedule \<Rightarrow> jsval \<Rightarrow> jsval \<Rightarrow> jsval \<Rightarrow> jsval \<Rightarrow> decision result" where
  "authorizeLightningAction schedule chain service nowSeconds policy =
     bindE (integer nowSeconds ''nowSeconds'') (\<lambda>now.
     bindE (integer (js_get chain ''latestBlock'') ''chain.latestBlock'') (\<lambda>latestBlock.
     bindE (integer (js_get chain ''finalizedBlock'') ''chain.finalizedBlock'') (\<lambda>finalizedBlock.
     bindE (integer (js_get chain ''escrowBlock'') ''chain.escrowBlock'') (\<lambda>escrowBlock.
     bindE (policy_int policy ''ethereumConfirmations'') (\<lambda>requiredConfirmations.
     bindE (if latestBlock \<ge> finalizedBlock then policy_int policy ''maxFinalityLagBlocks'' else Inr 0)
       (\<lambda>maxLag.
     let rs =
       addReason (now \<ge> sc_lastSafeClaimAt schedule) ''Lightning action cutoff has passed'' @
       addReason (latestBlock < escrowBlock) ''escrow block is ahead of the observed chain'' @
       addReason (latestBlock \<ge> escrowBlock \<and> latestBlock - escrowBlock + 1 < requiredConfirmations)
         ''escrow does not have enough confirmations'' @
       addReason (escrowBlock > finalizedBlock) ''escrow is not finalized'' @
       addReason (finalizedBlock > latestBlock) ''invalid Ethereum finality state'' @
       addReason (latestBlock \<ge> finalizedBlock \<and> latestBlock - finalizedBlock > maxLag)
         ''Ethereum finality lag exceeds policy'' @
       addReason (\<not> js_truthy (js_get chain ''escrowBlockHash'')
           \<or> \<not> js_strict_eq (js_get chain ''escrowBlockHash'') (js_get chain ''canonicalBlockHash''))
         ''escrow block is no longer canonical'' @
       addReason (\<not> js_strict_eq (js_get chain ''escrowDigest'') (js_get chain ''expectedEscrowDigest''))
         ''escrow terms do not match the authorized intent'' @
       service_reasons service ''risk gate is closed'' ''solver balances are not reconciled''
         ''Lightning node is not synced'' ''Lightning adapter is unhealthy'' in
     Inr \<lparr>authorized = (rs = []), reasons = rs\<rparr>))))))"

record lightning_authorization =
  la_actionId :: jsval
  la_intentDigest :: jsval
  la_escrowBlock :: int
  la_escrowBlockHash :: jsval
  la_finalizedBlock :: int
  la_authorizedAt :: int
  la_expiresAt :: int

definition issueLightningAuthorization ::
    "jsval \<Rightarrow> settlement_schedule \<Rightarrow> jsval \<Rightarrow> jsval \<Rightarrow> jsval \<Rightarrow> jsval \<Rightarrow> lightning_authorization result" where
  "issueLightningAuthorization actionId schedule chain service nowSeconds policy =
     (if \<not> is_bytes32_mixed (js_text actionId) then Inl (TypeError ''actionId must be bytes32'')
      else bindE (authorizeLightningAction schedule chain service nowSeconds policy) (\<lambda>decision.
      if \<not> authorized decision
      then Inl (Error (''Lightning authorization denied: '' @ join_reasons (reasons decision)))
      else bindE (integer nowSeconds ''nowSeconds'') (\<lambda>now.
      bindE (policy_int policy ''maxAuthorizationAgeSeconds'') (\<lambda>age.
      let expiresAt = minimum (sc_lastSafeClaimAt schedule) (num_add now age) in
      if expiresAt \<le> now then Inl (RangeError ''Lightning authorization has no usable lifetime'')
      else bindE (integer (js_get chain ''escrowBlock'') ''chain.escrowBlock'') (\<lambda>escrowBlock.
      bindE (integer (js_get chain ''finalizedBlock'') ''chain.finalizedBlock'') (\<lambda>finalizedBlock.
      Inr \<lparr>la_actionId = actionId, la_intentDigest = js_get chain ''expectedEscrowDigest'',
           la_escrowBlock = escrowBlock, la_escrowBlockHash = js_get chain ''escrowBlockHash'',
           la_finalizedBlock = finalizedBlock, la_authorizedAt = now, la_expiresAt = expiresAt\<rparr>))))))"

text \<open>
  The consumed identifiers are strings, as the issued ones are; on strings \<^verbatim>\<open>includes\<close> is membership.
\<close>

definition validateLightningDispatch ::
    "lightning_authorization \<Rightarrow> jsval \<Rightarrow> jsval \<Rightarrow> jsval list \<Rightarrow> jsval \<Rightarrow> jsval \<Rightarrow> decision result" where
  "validateLightningDispatch authorization chain service usedActionIds nowSeconds policy =
     bindE (integer nowSeconds ''nowSeconds'') (\<lambda>now.
     bindE (integer (js_get chain ''latestBlock'') ''chain.latestBlock'') (\<lambda>latestBlock.
     bindE (integer (js_get chain ''finalizedBlock'') ''chain.finalizedBlock'') (\<lambda>finalizedBlock.
     bindE (integer (js_get chain ''escrowBlock'') ''chain.escrowBlock'') (\<lambda>escrowBlock.
     bindE (policy_int policy ''maxAuthorizationAgeSeconds'') (\<lambda>age.
     let rs =
       addReason (la_actionId authorization \<in> set usedActionIds)
         ''Lightning authorization was already consumed'' @
       addReason (now \<ge> la_expiresAt authorization) ''Lightning authorization expired'' @
       addReason (now < la_authorizedAt authorization) ''Lightning authorization time is in the future'' @
       addReason (now - la_authorizedAt authorization > age) ''Lightning authorization is stale'' @
       addReason (escrowBlock \<noteq> la_escrowBlock authorization) ''escrow block changed after authorization'' @
       addReason (\<not> js_truthy (js_get chain ''escrowBlockHash'')
           \<or> \<not> js_strict_eq (js_get chain ''escrowBlockHash'') (la_escrowBlockHash authorization)
           \<or> \<not> js_strict_eq (js_get chain ''canonicalBlockHash'') (la_escrowBlockHash authorization))
         ''escrow block reorged after authorization'' @
       addReason (finalizedBlock < la_finalizedBlock authorization \<or> escrowBlock > finalizedBlock
           \<or> finalizedBlock > latestBlock)
         ''Ethereum finalized state regressed or is inconsistent'' @
       addReason (\<not> js_strict_eq (js_get chain ''escrowDigest'') (la_intentDigest authorization)
           \<or> \<not> js_strict_eq (js_get chain ''expectedEscrowDigest'') (la_intentDigest authorization))
         ''escrow intent changed after authorization'' @
       service_reasons service ''risk gate closed after authorization''
         ''balances diverged after authorization'' ''Lightning node lost sync after authorization''
         ''Lightning adapter became unhealthy'' in
     Inr \<lparr>authorized = (rs = []), reasons = rs\<rparr>)))))"

definition consumeLightningAuthorization ::
    "jsval list \<Rightarrow> lightning_authorization \<Rightarrow> decision \<Rightarrow> jsval list result" where
  "consumeLightningAuthorization usedActionIds authorization dispatchDecision =
     (if \<not> authorized dispatchDecision
      then Inl (Error ''cannot consume a denied Lightning authorization'')
      else if la_actionId authorization \<in> set usedActionIds
      then Inl (Error ''Lightning authorization was already consumed'')
      else Inr (usedActionIds @ [la_actionId authorization]))"

section \<open>Correctness\<close>

lemma policy_v1 [simp]:
  "policy_int TREE_SWAP_SETTLEMENT_POLICY_V1 f =
     (case map_of POLICY_FIELDS f of Some v \<Rightarrow> integer v f | None \<Rightarrow> integer JUndefined f)"
  by (auto simp: policy_int_def TREE_SWAP_SETTLEMENT_POLICY_V1_def split: option.splits)

lemma integer_JInt: "0 \<le> i \<Longrightarrow> i \<le> MAX_SAFE_INTEGER \<Longrightarrow> integer (JInt i) n = Inr i"
  by (simp add: integer_Inr)

lemmas v1_eval = POLICY_FIELDS_def integer_JInt MAX_SAFE_INTEGER_def

text \<open>Seconds and heights below this bound keep every sum of the schedule exact.\<close>

definition CLOCK_BOUND :: int where
  "CLOCK_BOUND = 2 ^ 40"

definition deadlines_ordered :: "settlement_schedule \<Rightarrow> bool" where
  "deadlines_ordered s \<longleftrightarrow>
     sc_derivedAt s < sc_quoteExpiresAt s \<and>
     sc_quoteExpiresAt s + 600 \<le> sc_lastSafeClaimAt s \<and>
     sc_ethereumFinalAt s = sc_derivedAt s + 216 \<and>
     sc_ethereumFinalAt s + 600 \<le> sc_lastSafeClaimAt s \<and>
     sc_lastSafeClaimAt s \<le> sc_invoiceExpiresAt s - 300 \<and>
     sc_refundAfter s = sc_lastSafeClaimAt s + 2616 \<and>
     sc_refundAfter s \<le> sc_derivedAt s + 172800"

lemma schedule_deadlines_v1:
  assumes "schedule_deadlines d now h expires cutoff sh cltv TREE_SWAP_SETTLEMENT_POLICY_V1 = Inr s"
    and "0 \<le> now" "now \<le> 2 * CLOCK_BOUND" and "0 \<le> cltv" and "cltv \<le> MAX_SAFE_INTEGER"
    and "0 \<le> cutoff" and "cutoff \<le> 2 * CLOCK_BOUND" and "expires = cutoff + 300"
  shows "deadlines_ordered s \<and> sc_derivedAt s = now \<and> sc_lastSafeClaimAt s \<le> cltv \<and>
         sc_invoiceExpiresAt s = expires"
  using assms
  by (auto simp: schedule_deadlines_def deadlines_ordered_def v1_eval bindE_eq_Inr if_Inl_eq_Inr
      Let_def num_add_def num_mul_def num_sub_def minimum_def CLOCK_BOUND_def split: if_splits)

definition invoice_of :: "int \<Rightarrow> int \<Rightarrow> int \<Rightarrow> jsval" where
  "invoice_of timestamp expiry cltv = JObj [(''timestamp'', JInt timestamp),
     (''expirySeconds'', JInt expiry), (''minFinalCltvExpiryDelta'', JInt cltv)]"

lemma derive_v1_cases:
  assumes "deriveSettlementSchedule d (JInt now) (JInt h) (invoice_of c e f) TREE_SWAP_SETTLEMENT_POLICY_V1
             = Inr s"
    and bound: "now \<le> CLOCK_BOUND" "h \<le> CLOCK_BOUND" "c \<le> CLOCK_BOUND" "e \<le> CLOCK_BOUND"
      "f \<le> CLOCK_BOUND"
  shows "0 \<le> now \<and> now < c + e - 300 \<and>
    (d = ''lightning-to-bit'' \<and> 48 \<le> f \<and>
       schedule_deadlines d now h (c + e) (c + e - 300) (Some (h + f - 24)) (now + (f - 24) * 300)
         TREE_SWAP_SETTLEMENT_POLICY_V1 = Inr s
     \<or> d = ''bit-to-lightning'' \<and> 18 \<le> f \<and>
       schedule_deadlines d now h (c + e) (c + e - 300) None MAX_SAFE_INTEGER
         TREE_SWAP_SETTLEMENT_POLICY_V1 = Inr s)"
  using assms
  by (auto simp: deriveSettlementSchedule_def invoice_of_def v1_eval bindE_eq_Inr if_Inl_eq_Inr
      integer_Inr Let_def num_add_def num_mul_def num_sub_def CLOCK_BOUND_def split: if_splits)

text \<open>
  Property C17.  Under the approved policy every derived schedule orders its deadlines safely: the
  quote expires before the last safe claim with the payment window left, Ethereum finality fits
  before it, the claim ends before the invoice does, the refund opens a full claim buffer later and
  within the lock limit; a hold invoice is claimed before its CLTV margin runs out.
\<close>

theorem derived_schedule_ordered:
  assumes "deriveSettlementSchedule direction (JInt now) (JInt height) (invoice_of createdAt expiry cltv)
             TREE_SWAP_SETTLEMENT_POLICY_V1 = Inr s"
    and "now \<le> CLOCK_BOUND" "height \<le> CLOCK_BOUND" "createdAt \<le> CLOCK_BOUND" "expiry \<le> CLOCK_BOUND"
      "cltv \<le> CLOCK_BOUND"
  shows "deadlines_ordered s \<and> sc_derivedAt s = now \<and> sc_invoiceExpiresAt s = createdAt + expiry \<and>
         (direction = ''lightning-to-bit'' \<longrightarrow>
            48 \<le> cltv \<and> sc_lastSafeClaimAt s \<le> now + (cltv - 24) * 300)"
proof -
  note cases = derive_v1_cases [OF assms]
  have now: "0 \<le> now" "now < createdAt + expiry - 300" using cases by auto
  show ?thesis
  proof (cases "direction = ''lightning-to-bit''")
    case True
    with cases have sd: "48 \<le> cltv" "schedule_deadlines direction now height (createdAt + expiry)
      (createdAt + expiry - 300) (Some (height + cltv - 24)) (now + (cltv - 24) * 300)
      TREE_SWAP_SETTLEMENT_POLICY_V1 = Inr s" by auto
    from schedule_deadlines_v1 [OF sd(2)] sd(1) now assms show ?thesis
      by (auto simp: CLOCK_BOUND_def MAX_SAFE_INTEGER_def)
  next
    case False
    with cases have "schedule_deadlines direction now height (createdAt + expiry)
      (createdAt + expiry - 300) None MAX_SAFE_INTEGER TREE_SWAP_SETTLEMENT_POLICY_V1 = Inr s" by auto
    from schedule_deadlines_v1 [OF this] now False assms show ?thesis
      by (auto simp: CLOCK_BOUND_def MAX_SAFE_INTEGER_def)
  qed
qed

theorem derived_schedule_ordered_witness:
  "\<exists>s. deriveSettlementSchedule ''lightning-to-bit'' (JInt 1750000000) (JInt 900000)
         (invoice_of 1749999990 7200 144) TREE_SWAP_SETTLEMENT_POLICY_V1 = Inr s \<and> deadlines_ordered s"
proof -
  have "\<exists>s. deriveSettlementSchedule ''lightning-to-bit'' (JInt 1750000000) (JInt 900000)
         (invoice_of 1749999990 7200 144) TREE_SWAP_SETTLEMENT_POLICY_V1 = Inr s"
    by (simp add: deriveSettlementSchedule_def schedule_deadlines_def invoice_of_def v1_eval Let_def
        num_add_def num_mul_def num_sub_def minimum_def)
  then obtain s where s: "deriveSettlementSchedule ''lightning-to-bit'' (JInt 1750000000) (JInt 900000)
      (invoice_of 1749999990 7200 144) TREE_SWAP_SETTLEMENT_POLICY_V1 = Inr s" ..
  have "(1750000000::int) \<le> CLOCK_BOUND" "(900000::int) \<le> CLOCK_BOUND" "(1749999990::int) \<le> CLOCK_BOUND"
    "(7200::int) \<le> CLOCK_BOUND" "(144::int) \<le> CLOCK_BOUND"
    by (simp_all add: CLOCK_BOUND_def)
  from derived_schedule_ordered [OF s this] s show ?thesis by blast
qed

lemma validateHeldHtlc_v1:
  assumes "validateHeldHtlc schedule (JInt now) (JInt h) (JInt x) TREE_SWAP_SETTLEMENT_POLICY_V1 = Inr d"
    and "now \<le> CLOCK_BOUND" "h \<le> CLOCK_BOUND" "x \<le> CLOCK_BOUND" and "h + 24 < x"
  shows "hd_effectiveLastSafeAt d = minimum (sc_lastSafeClaimAt schedule) (now + (x - 24 - h) * 300) \<and>
    (hd_valid d \<longleftrightarrow> sc_direction schedule = ''lightning-to-bit'' \<and> h + 48 \<le> x \<and>
       900 \<le> hd_effectiveLastSafeAt d - now)"
proof -
  from assms(1) have nn: "0 \<le> now" "0 \<le> h" "0 \<le> x"
    by (auto simp: validateHeldHtlc_def bindE_eq_Inr integer_Inr)
  have mul: "num_mul (x - 24 - h) 300 = (x - 24 - h) * 300"
    and add: "num_add now ((x - 24 - h) * 300) = now + (x - 24 - h) * 300"
    using nn assms(2-5) by (simp_all add: num_mul_def num_add_def CLOCK_BOUND_def)
  show ?thesis
    using assms nn mul add
    by (simp add: validateHeldHtlc_def v1_eval bindE_eq_Inr integer_Inr Let_def CLOCK_BOUND_def
        num_sub_def js_round_less_iff not_less num_add_def [of h])
      (auto simp: not_less num_add_def js_round_ge_iff)
qed

lemma validateHeldHtlc_margin:
  assumes "validateHeldHtlc schedule now (JInt h) (JInt x) TREE_SWAP_SETTLEMENT_POLICY_V1 = Inr d"
    and "hd_valid d" and "h \<le> CLOCK_BOUND"
  shows "h + 24 < x"
proof -
  from assms(1) have nn: "0 \<le> h" "0 \<le> x" by (auto simp: validateHeldHtlc_def bindE_eq_Inr integer_Inr)
  have "\<not> x \<le> num_add h 24"
  proof
    assume "x \<le> num_add h 24"
    with assms(1) nn have "\<not> hd_valid d"
      by (clarsimp simp: validateHeldHtlc_def v1_eval bindE_eq_Inr integer_Inr Let_def)
    with assms(2) show False by simp
  qed
  with nn assms(3) show ?thesis by (simp add: num_add_def CLOCK_BOUND_def)
qed

text \<open>
  A held HTLC is accepted only for a Lightning-to-BIT settlement, with the full
  hold-invoice delta and at least fifteen minutes before both the schedule's last safe claim and
  the height from which the HTLC could time out on chain.
\<close>

theorem held_htlc_accepted_is_safe:
  assumes "validateHeldHtlc schedule (JInt now) (JInt height) (JInt expiryHeight)
             TREE_SWAP_SETTLEMENT_POLICY_V1 = Inr d"
    and "hd_valid d" and "now \<le> CLOCK_BOUND" "height \<le> CLOCK_BOUND" "expiryHeight \<le> CLOCK_BOUND"
  shows "sc_direction schedule = ''lightning-to-bit'' \<and> height + 48 \<le> expiryHeight \<and>
         now + 900 \<le> hd_effectiveLastSafeAt d \<and>
         hd_effectiveLastSafeAt d \<le> sc_lastSafeClaimAt schedule \<and>
         hd_effectiveLastSafeAt d \<le> now + (expiryHeight - 24 - height) * 300"
proof -
  have "height + 24 < expiryHeight"
    by (rule validateHeldHtlc_margin [OF assms(1,2,4)])
  from validateHeldHtlc_v1 [OF assms(1,3-5) this] assms(2) show ?thesis
    by (auto simp: minimum_def)
qed

definition sample_schedule :: settlement_schedule where
  "sample_schedule = \<lparr>sc_direction = ''lightning-to-bit'', sc_derivedAt = 1750000000,
     sc_bitcoinHeight = 900000, sc_invoiceExpiresAt = 1750007190, sc_invoiceCutoffAt = 1750006890,
     sc_cltvSafeHeight = Some 900120, sc_cltvCutoffAt = Some 1750036000,
     sc_ethereumFinalAt = 1750000216, sc_quoteExpiresAt = 1750000120, sc_lastSafeClaimAt = 1750006890,
     sc_refundAfter = 1750009506, sc_claimBufferSeconds = 2616, sc_policyVersion = ''1''\<rparr>"

theorem held_htlc_accepted_is_safe_witness:
  "\<exists>d. validateHeldHtlc sample_schedule (JInt 1750001000) (JInt 900001) (JInt 900100)
         TREE_SWAP_SETTLEMENT_POLICY_V1 = Inr d \<and> 1750001000 + 900 \<le> hd_effectiveLastSafeAt d"
proof -
  let ?d = "\<lparr>hd_valid = True, hd_reasons = [], hd_safeHeight = 900076,
    hd_htlcLastSafeAt = 1750023500, hd_effectiveLastSafeAt = 1750006890\<rparr>"
  have d: "validateHeldHtlc sample_schedule (JInt 1750001000) (JInt 900001) (JInt 900100)
      TREE_SWAP_SETTLEMENT_POLICY_V1 = Inr ?d" "hd_valid ?d"
    by code_simp+
  have "(1750001000::int) \<le> CLOCK_BOUND" "(900001::int) \<le> CLOCK_BOUND" "(900100::int) \<le> CLOCK_BOUND"
    by (simp_all add: CLOCK_BOUND_def)
  from held_htlc_accepted_is_safe [OF d this] d(1) show ?thesis by blast
qed

text \<open>What the service flags and the chain view must say for an action to be authorized.\<close>

definition service_ready :: "jsval \<Rightarrow> bool" where
  "service_ready service \<longleftrightarrow>
     (\<forall>flag \<in> {''riskGateEnabled'', ''balancesReconciled'', ''lightningNodeSynced'', ''adapterHealthy''}.
        js_get service flag = JBool True)"

lemma service_reasons_Nil [simp]: "service_reasons v a b c d = [] \<longleftrightarrow> service_ready v"
  by (auto simp: service_reasons_def service_ready_def)

lemma issue_Inr:
  assumes "issueLightningAuthorization actionId schedule chain service nowSeconds policy = Inr a"
  shows "\<exists>now latest. nowSeconds = JInt now \<and> js_get chain ''latestBlock'' = JInt latest \<and>
     js_get chain ''escrowBlock'' = JInt (la_escrowBlock a) \<and>
     js_get chain ''finalizedBlock'' = JInt (la_finalizedBlock a) \<and>
     la_actionId a = actionId \<and> la_authorizedAt a = now \<and>
     now < la_expiresAt a \<and> la_expiresAt a \<le> sc_lastSafeClaimAt schedule \<and>
     la_escrowBlock a \<le> la_finalizedBlock a \<and> la_finalizedBlock a \<le> latest \<and>
     la_intentDigest a = js_get chain ''escrowDigest'' \<and>
     la_escrowBlockHash a = js_get chain ''canonicalBlockHash'' \<and> service_ready service"
  using assms
  by (auto simp: issueLightningAuthorization_def authorizeLightningAction_def bindE_eq_Inr
      if_Inl_eq_Inr integer_Inr Let_def minimum_def split: if_splits dest!: js_strict_eq_imp)

text \<open>
  Property C18.  A Lightning action that passes the dispatch check under an issued authorization
  runs while the authorization lives and before the settlement's last safe claim, against the
  escrow block and the intent it was issued for, with that block finalized and canonical, with the
  service gates open, and with an action identifier that was not used before.
\<close>

theorem dispatch_only_under_live_authorization:
  assumes "issueLightningAuthorization actionId schedule chain0 service0 (JInt t0) policy = Inr a"
    and "validateLightningDispatch a chain service used (JInt t) policy = Inr d" and "authorized d"
  shows "t0 \<le> t \<and> t < la_expiresAt a \<and> t < sc_lastSafeClaimAt schedule \<and>
         actionId \<notin> set used \<and>
         js_get chain ''escrowBlock'' = js_get chain0 ''escrowBlock'' \<and>
         js_get chain ''canonicalBlockHash'' = js_get chain0 ''escrowBlockHash'' \<and>
         js_get chain ''escrowDigest'' = js_get chain0 ''expectedEscrowDigest'' \<and>
         (\<exists>e f. js_get chain ''escrowBlock'' = JInt e \<and> js_get chain ''finalizedBlock'' = JInt f \<and>
            e \<le> f \<and> la_finalizedBlock a \<le> f) \<and>
         service_ready service"
proof -
  have a: "la_intentDigest a = js_get chain0 ''expectedEscrowDigest''"
      "la_escrowBlockHash a = js_get chain0 ''escrowBlockHash''"
    using assms(1)
    by (auto simp: issueLightningAuthorization_def bindE_eq_Inr if_Inl_eq_Inr Let_def)
  from issue_Inr [OF assms(1)] assms(2,3) a show ?thesis
    by (auto simp: validateLightningDispatch_def bindE_eq_Inr integer_Inr Let_def dest!: js_strict_eq_imp)
qed

definition sample_chain :: jsval where
  "sample_chain = JObj [(''latestBlock'', JInt 21000100), (''finalizedBlock'', JInt 21000050),
     (''escrowBlock'', JInt 21000010), (''escrowBlockHash'', JStr ''0xb1''),
     (''canonicalBlockHash'', JStr ''0xb1''), (''escrowDigest'', JStr ''0xd1''),
     (''expectedEscrowDigest'', JStr ''0xd1'')]"

definition sample_service :: jsval where
  "sample_service = JObj [(''riskGateEnabled'', JBool True), (''balancesReconciled'', JBool True),
     (''lightningNodeSynced'', JBool True), (''adapterHealthy'', JBool True)]"

definition sample_action :: jsval where
  "sample_action = JStr (''0x'' @ replicate 64 (CHR ''a''))"

lemma sample_action_ok: "is_bytes32_mixed (js_text sample_action)"
  by code_simp

lemmas sample_eval = sample_chain_def sample_service_def sample_schedule_def v1_eval Let_def
  addReason_def service_reasons_def minimum_def num_add_def

lemma sample_issue:
  "\<exists>a. issueLightningAuthorization sample_action sample_schedule sample_chain sample_service
         (JInt 1750001000) TREE_SWAP_SETTLEMENT_POLICY_V1 = Inr a \<and> la_actionId a = sample_action \<and>
       (\<exists>d. validateLightningDispatch a sample_chain sample_service [] (JInt 1750001005)
              TREE_SWAP_SETTLEMENT_POLICY_V1 = Inr d \<and> authorized d)"
  by (simp add: issueLightningAuthorization_def authorizeLightningAction_def
      validateLightningDispatch_def sample_action_ok sample_eval)

theorem dispatch_only_under_live_authorization_witness:
  "\<exists>a. issueLightningAuthorization sample_action sample_schedule sample_chain sample_service
         (JInt 1750001000) TREE_SWAP_SETTLEMENT_POLICY_V1 = Inr a \<and> 1750001005 < la_expiresAt a"
proof -
  obtain a d where a: "issueLightningAuthorization sample_action sample_schedule sample_chain
        sample_service (JInt 1750001000) TREE_SWAP_SETTLEMENT_POLICY_V1 = Inr a"
      "validateLightningDispatch a sample_chain sample_service [] (JInt 1750001005)
        TREE_SWAP_SETTLEMENT_POLICY_V1 = Inr d" "authorized d"
    using sample_issue by blast
  from dispatch_only_under_live_authorization [OF a] a(1) show ?thesis by blast
qed

text \<open>
  Use of an authorization: the list of used identifiers is the state, a step is one
  authorization that passed the dispatch check and was consumed.
\<close>

inductive consume_step :: "jsval list \<Rightarrow> jsval list \<Rightarrow> bool" where
  consume: "validateLightningDispatch a chain service used now policy = Inr d \<Longrightarrow>
    consumeLightningAuthorization used a d = Inr used' \<Longrightarrow> consume_step used used'"

interpretation consumption: machine "\<lambda>used. used = []" consume_step distinct
  by unfold_locales
    (auto elim!: consume_step.cases simp: consumeLightningAuthorization_def split: if_splits)

text \<open>
  Authorizations are single use: however many are consumed one after the other, the
  used identifiers stay distinct, and an identifier that was used fails both the dispatch check and
  a second consumption.
\<close>

theorem authorization_single_use:
  assumes "reachable (\<lambda>used. used = []) consume_step used"
    and "la_actionId a \<in> set used"
  shows "distinct used \<and>
         (validateLightningDispatch a chain service used now policy = Inr d \<longrightarrow>
            \<not> authorized d \<and> consumeLightningAuthorization used a d =
              Inl (Error ''cannot consume a denied Lightning authorization'')) \<and>
         (\<forall>d used'. consumeLightningAuthorization used a d \<noteq> Inr used')"
  using consumption.inv_reachable [OF assms(1)] assms(2)
  by (auto simp: validateLightningDispatch_def consumeLightningAuthorization_def bindE_eq_Inr Let_def)

theorem authorization_single_use_witness:
  "\<exists>a. la_actionId a = sample_action \<and>
       (\<forall>d used'. consumeLightningAuthorization [sample_action] a d \<noteq> Inr used')"
proof -
  obtain a d where a: "la_actionId a = sample_action"
      "validateLightningDispatch a sample_chain sample_service [] (JInt 1750001005)
        TREE_SWAP_SETTLEMENT_POLICY_V1 = Inr d" "authorized d"
    using sample_issue by blast
  have "consumeLightningAuthorization [] a d = Inr [sample_action]"
    using a by (simp add: consumeLightningAuthorization_def)
  then have "consume_step [] [sample_action]" using a(2) by (rule consume_step.consume [rotated])
  then have r: "reachable (\<lambda>used. used = []) consume_step [sample_action]"
    by (auto intro: reach_step [OF reach_init])
  from a(1) have m: "la_actionId a \<in> set [sample_action]" by simp
  from authorization_single_use [OF r m] a(1) show ?thesis by blast
qed

end
