(* ===== verification/Solver_Capability.thy ===== *)
theory Solver_Capability
  imports Adapter_Response
begin

text \<open>
  Verified solver capabilities (\<^verbatim>\<open>src/lib/solver-capability.mjs\<close>): the declaration a solver signs with its
  Ethereum key, its endpoint key and its Lightning node, the policy it is checked under, and the check of
  the declared capacity against independent readings.  The Ethereum library, the keys and the URL parser
  of the runtime are the parameter record \<open>K\<close>; the three callbacks are functions, \<open>None\<close> where they throw.
\<close>

fun error_message :: "js_error \<Rightarrow> string" where
  "error_message (TypeError m) = m"
| "error_message (RangeError m) = m"
| "error_message (Error m) = m"
| "error_message (Bolt11DecodeError m) = m"
| "error_message (CoordinatorDispatchError m a s) = m"

section \<open>Parameters\<close>

record parsed_url =
  url_protocol :: string
  url_username :: string
  url_password :: string
  url_pathname :: string
  url_search :: string
  url_hash :: string
  url_origin :: string

record endpoint_key =
  ek_algorithm :: string
  ek_spki :: string
  ek_pem :: string

record capability_domain =
  cd_chainId :: int
  cd_verifyingContract :: string

record capability_declaration =
  de_capabilityId :: string
  de_direction :: string
  de_solver :: string
  de_lightningNodePubkeyDigest :: string
  de_endpointPublicKeyDigest :: string
  de_endpointOriginDigest :: string
  de_availableBitWei :: int
  de_availableLightningSats :: int
  de_capacityEpoch :: int
  de_issuedAt :: int
  de_expiresAt :: int
  de_proofChallenge :: string

text \<open>The claims are the declaration without its challenge; \<open>cx_hashClaims\<close> is given it with the zero challenge.\<close>

record capability_crypto =
  cx_getAddress :: "string \<Rightarrow> string option"
  cx_id :: "string \<Rightarrow> string"
  cx_keccak256 :: "string \<Rightarrow> string"
  cx_hashClaims :: "capability_domain \<Rightarrow> capability_declaration \<Rightarrow> string"
  cx_hashCapability :: "capability_domain \<Rightarrow> capability_declaration \<Rightarrow> string"
  cx_verifyTypedData :: "capability_domain \<Rightarrow> capability_declaration \<Rightarrow> string \<Rightarrow> string option"
  cx_URL :: "string \<Rightarrow> parsed_url option"
  cx_createPublicKey :: "string \<Rightarrow> endpoint_key option"
  cx_verify :: "string \<Rightarrow> endpoint_key \<Rightarrow> string \<Rightarrow> bool"

section \<open>Validators\<close>

definition capability_uint :: "jsval \<Rightarrow> string \<Rightarrow> int \<Rightarrow> int result" where
  "capability_uint v name maximum = (case js_BigInt v of
     None \<Rightarrow> Inl (TypeError (name @ '' must be a canonical bounded unsigned integer''))
   | Some parsed \<Rightarrow> if parsed < 0 \<or> parsed > maximum \<or> js_String v \<noteq> int_str parsed
       then Inl (TypeError (name @ '' must be a canonical bounded unsigned integer'')) else Inr parsed)"

definition lower_address :: "capability_crypto \<Rightarrow> jsval \<Rightarrow> string \<Rightarrow> string result" where
  "lower_address K v name = (case (case v of JStr s \<Rightarrow> cx_getAddress K s | _ \<Rightarrow> None) of
     None \<Rightarrow> Inl (TypeError (name @ '' must be an Ethereum address'')) | Some a \<Rightarrow> Inr (toLowerCase a))"

definition capability_directionHash :: "capability_crypto \<Rightarrow> string \<Rightarrow> string result" where
  "capability_directionHash K direction = (if direction \<notin> {''lightning-to-bit'', ''bit-to-lightning''}
     then Inl (RangeError ''solver capability direction is unsupported'') else Inr (cx_id K direction))"

definition normalizeOrigin :: "capability_crypto \<Rightarrow> jsval \<Rightarrow> string result" where
  "normalizeOrigin K v = (let raw = js_text v in
     if raw = [] \<or> length raw > 256 then Inl (TypeError ''solver endpoint origin is invalid'')
     else (case cx_URL K raw of
         None \<Rightarrow> Inl (TypeError ''solver endpoint origin is invalid'')
       | Some u \<Rightarrow> if url_protocol u \<noteq> ''https:'' \<or> url_username u \<noteq> [] \<or> url_password u \<noteq> [] \<or> url_pathname u \<noteq> ''/''
             \<or> url_search u \<noteq> [] \<or> url_hash u \<noteq> [] \<or> url_origin u \<noteq> raw
           then Inl (TypeError ''solver endpoint must be one canonical credential-free HTTPS origin'') else Inr raw))"

definition normalizeEndpointKey :: "capability_crypto \<Rightarrow> jsval \<Rightarrow> endpoint_key result" where
  "normalizeEndpointKey K pem = (let raw = js_text pem in
     if raw = [] \<or> length raw > 512 then Inl (TypeError ''solver endpoint public key is invalid'')
     else (case cx_createPublicKey K raw of
         None \<Rightarrow> Inl (TypeError ''solver endpoint public key is invalid'')
       | Some key \<Rightarrow> if ek_algorithm key \<noteq> ''ed25519'' then Inl (TypeError ''solver endpoint key must be Ed25519'') else Inr key))"

text \<open>A canonical base64 text of 64 bytes stands for those bytes.\<close>

definition canonicalBase64 :: "jsval \<Rightarrow> string \<Rightarrow> string result" where
  "canonicalBase64 v name = (let raw = js_text v in
     if \<not> is_base64_text raw then Inl (TypeError (name @ '' is not canonical base64''))
     else if \<not> is_base64_signature raw then Inl (TypeError (name @ '' is invalid'')) else Inr raw)"

definition is_node_pubkey :: "string \<Rightarrow> bool" where
  "is_node_pubkey s \<longleftrightarrow> length s = 66 \<and> take 2 s \<in> {''02'', ''03''} \<and> list_all is_hex_lower (drop 2 s)"

definition is_zbase32_signature :: "string \<Rightarrow> bool" where
  "is_zbase32_signature s \<longleftrightarrow> length s = 104 \<and> list_all (\<lambda>c. c \<in> set ''ybndrfg8ejkmcpqxot1uwisza345h769'') s"

definition is_evm_signature :: "string \<Rightarrow> bool" where
  "is_evm_signature s \<longleftrightarrow> length s = 132 \<and> take 2 s = ''0x'' \<and> list_all is_hex (drop 2 s)"

section \<open>Policy and declaration\<close>

record capability_policy =
  cp_chainId :: int
  cp_lightningToBitContract :: string
  cp_bitToLightningContract :: string
  cp_lightningToBitContractCodeHash :: string
  cp_bitToLightningContractCodeHash :: string
  cp_maxCapabilityTtlSeconds :: int
  cp_maxCapacityObservationAgeSeconds :: int
  cp_maxClockSkewSeconds :: int

definition normalizeCapabilityPolicy :: "capability_crypto \<Rightarrow> jsval \<Rightarrow> capability_policy result" where
  "normalizeCapabilityPolicy K raw =
     bindE (exactKeys raw [''bitToLightningContract'', ''bitToLightningContractCodeHash'', ''chainId'', ''lightningToBitContract'',
       ''lightningToBitContractCodeHash'', ''maxCapabilityTtlSeconds'', ''maxCapacityObservationAgeSeconds'',
       ''maxClockSkewSeconds''] ''solver capability policy'') (\<lambda>_.
     bindE (capability_uint (js_get raw ''chainId'') ''policy.chainId'' UINT256_MAX) (\<lambda>chainId.
     bindE (lower_address K (js_get raw ''lightningToBitContract'') ''policy.lightningToBitContract'') (\<lambda>lightningToBitContract.
     bindE (lower_address K (js_get raw ''bitToLightningContract'') ''policy.bitToLightningContract'') (\<lambda>bitToLightningContract.
     bindE (bytes32 (js_get raw ''lightningToBitContractCodeHash'') ''policy.lightningToBitContractCodeHash'') (\<lambda>lightningToBitContractCodeHash.
     bindE (bytes32 (js_get raw ''bitToLightningContractCodeHash'') ''policy.bitToLightningContractCodeHash'') (\<lambda>bitToLightningContractCodeHash.
     bindE (integer (js_get raw ''maxCapabilityTtlSeconds'') ''policy.maxCapabilityTtlSeconds'') (\<lambda>maxCapabilityTtlSeconds.
     bindE (integer (js_get raw ''maxCapacityObservationAgeSeconds'') ''policy.maxCapacityObservationAgeSeconds'')
       (\<lambda>maxCapacityObservationAgeSeconds.
     bindE (integer (js_get raw ''maxClockSkewSeconds'') ''policy.maxClockSkewSeconds'') (\<lambda>maxClockSkewSeconds.
     if maxCapabilityTtlSeconds = 0 \<or> maxCapabilityTtlSeconds > 3600
     then Inl (RangeError ''solver capability lifetime is outside policy'')
     else if maxClockSkewSeconds > 60 then Inl (RangeError ''solver capability clock skew is outside policy'')
     else if maxCapacityObservationAgeSeconds = 0 \<or> maxCapacityObservationAgeSeconds > 300
     then Inl (RangeError ''solver capacity observation age is outside policy'')
     else if lightningToBitContract = bitToLightningContract
     then Inl (Error ''solver capability contracts must be direction-specific'')
     else Inr \<lparr>cp_chainId = chainId, cp_lightningToBitContract = lightningToBitContract,
       cp_bitToLightningContract = bitToLightningContract, cp_lightningToBitContractCodeHash = lightningToBitContractCodeHash,
       cp_bitToLightningContractCodeHash = bitToLightningContractCodeHash, cp_maxCapabilityTtlSeconds = maxCapabilityTtlSeconds,
       cp_maxCapacityObservationAgeSeconds = maxCapacityObservationAgeSeconds,
       cp_maxClockSkewSeconds = maxClockSkewSeconds\<rparr>)))))))))"

definition normalizeDeclaration :: "capability_crypto \<Rightarrow> jsval \<Rightarrow> capability_declaration result" where
  "normalizeDeclaration K raw =
     bindE (exactKeys raw [''availableBitWei'', ''availableLightningSats'', ''capabilityId'', ''capacityEpoch'', ''direction'',
       ''endpointOriginDigest'', ''endpointPublicKeyDigest'', ''expiresAt'', ''issuedAt'', ''lightningNodePubkeyDigest'',
       ''proofChallenge'', ''solver''] ''solver capability declaration'') (\<lambda>_.
     bindE (bytes32 (js_get raw ''capabilityId'') ''declaration.capabilityId'') (\<lambda>capabilityId.
     if capabilityId = zero_bytes32 then Inl (RangeError ''solver capability identifier must be non-zero'')
     else bindE (bytes32 (js_get raw ''direction'') ''declaration.direction'') (\<lambda>direction.
     bindE (lower_address K (js_get raw ''solver'') ''declaration.solver'') (\<lambda>solver.
     bindE (bytes32 (js_get raw ''lightningNodePubkeyDigest'') ''declaration.lightningNodePubkeyDigest'') (\<lambda>lightningNodePubkeyDigest.
     bindE (bytes32 (js_get raw ''endpointPublicKeyDigest'') ''declaration.endpointPublicKeyDigest'') (\<lambda>endpointPublicKeyDigest.
     bindE (bytes32 (js_get raw ''endpointOriginDigest'') ''declaration.endpointOriginDigest'') (\<lambda>endpointOriginDigest.
     bindE (capability_uint (js_get raw ''availableBitWei'') ''declaration.availableBitWei'' UINT256_MAX) (\<lambda>availableBitWei.
     bindE (capability_uint (js_get raw ''availableLightningSats'') ''declaration.availableLightningSats'' UINT64_MAX) (\<lambda>availableLightningSats.
     bindE (capability_uint (js_get raw ''capacityEpoch'') ''declaration.capacityEpoch'' MAX_SAFE_INTEGER) (\<lambda>capacityEpoch.
     bindE (integer (js_get raw ''issuedAt'') ''declaration.issuedAt'') (\<lambda>issuedAt.
     bindE (integer (js_get raw ''expiresAt'') ''declaration.expiresAt'') (\<lambda>expiresAt.
     bindE (bytes32 (js_get raw ''proofChallenge'') ''declaration.proofChallenge'') (\<lambda>proofChallenge.
     Inr \<lparr>de_capabilityId = capabilityId, de_direction = direction, de_solver = solver,
       de_lightningNodePubkeyDigest = lightningNodePubkeyDigest, de_endpointPublicKeyDigest = endpointPublicKeyDigest,
       de_endpointOriginDigest = endpointOriginDigest, de_availableBitWei = availableBitWei,
       de_availableLightningSats = availableLightningSats, de_capacityEpoch = capacityEpoch, de_issuedAt = issuedAt,
       de_expiresAt = expiresAt, de_proofChallenge = proofChallenge\<rparr>)))))))))))))"

text \<open>The claims of a declaration, as the object that \<^verbatim>\<open>solverCapabilityClaimsDigest\<close> normalizes again.\<close>

definition claimsFromDeclaration :: "capability_declaration \<Rightarrow> jsval" where
  "claimsFromDeclaration d = JObj [(''capabilityId'', JStr (de_capabilityId d)), (''direction'', JStr (de_direction d)),
     (''solver'', JStr (de_solver d)), (''lightningNodePubkeyDigest'', JStr (de_lightningNodePubkeyDigest d)),
     (''endpointPublicKeyDigest'', JStr (de_endpointPublicKeyDigest d)), (''endpointOriginDigest'', JStr (de_endpointOriginDigest d)),
     (''availableBitWei'', JBigInt (de_availableBitWei d)), (''availableLightningSats'', JBigInt (de_availableLightningSats d)),
     (''capacityEpoch'', JBigInt (de_capacityEpoch d)), (''issuedAt'', JInt (de_issuedAt d)), (''expiresAt'', JInt (de_expiresAt d))]"

text \<open>\<^verbatim>\<open>{ ...claims, proofChallenge }\<close> with the zero challenge; what is no object fails the check of the keys that follows.\<close>

definition with_zero_challenge :: "jsval \<Rightarrow> jsval" where
  "with_zero_challenge claims = (case claims of
     JObj fs \<Rightarrow> JObj (filter (\<lambda>(k, _). k \<noteq> ''proofChallenge'') fs @ [(''proofChallenge'', JStr zero_bytes32)])
   | _ \<Rightarrow> JObj [(''proofChallenge'', JStr zero_bytes32)])"

definition solverCapabilityDomain :: "capability_crypto \<Rightarrow> jsval \<Rightarrow> jsval \<Rightarrow> capability_domain result" where
  "solverCapabilityDomain K chainId verifyingContract =
     bindE (capability_uint chainId ''chainId'' UINT256_MAX) (\<lambda>c.
     bindE (lower_address K verifyingContract ''verifyingContract'') (\<lambda>v.
     Inr \<lparr>cd_chainId = c, cd_verifyingContract = v\<rparr>))"

definition solverCapabilityClaimsDigest :: "capability_crypto \<Rightarrow> jsval \<Rightarrow> jsval \<Rightarrow> jsval \<Rightarrow> string result" where
  "solverCapabilityClaimsDigest K claims chainId verifyingContract =
     bindE (normalizeDeclaration K (with_zero_challenge claims)) (\<lambda>normalized.
     bindE (solverCapabilityDomain K chainId verifyingContract) (\<lambda>domain.
     Inr (cx_hashClaims K domain normalized)))"

definition solverCapabilityProofMessage :: "jsval \<Rightarrow> string result" where
  "solverCapabilityProofMessage proofChallenge =
     bindE (bytes32 proofChallenge ''proofChallenge'') (\<lambda>c.
     Inr (''TreeSwap solver capability v1'' @ [CHR 10] @ c @ [CHR 10]))"

definition solverEndpointPublicKeyDigest :: "capability_crypto \<Rightarrow> jsval \<Rightarrow> string result" where
  "solverEndpointPublicKeyDigest K publicKeyPem =
     bindE (normalizeEndpointKey K publicKeyPem) (\<lambda>key. Inr (cx_keccak256 K (ek_spki key)))"

definition solverEndpointOriginDigest :: "capability_crypto \<Rightarrow> jsval \<Rightarrow> string result" where
  "solverEndpointOriginDigest K endpointOrigin = bindE (normalizeOrigin K endpointOrigin) (\<lambda>origin. Inr (cx_keccak256 K origin))"

text \<open>The bytes of the key in hexadecimal are its key text.\<close>

fun hex_bytes :: "string \<Rightarrow> string" where
  "hex_bytes (a # b # t) = char_of (16 * hex_val a + hex_val b) # hex_bytes t"
| "hex_bytes t = []"

definition solverLightningNodePubkeyDigest :: "capability_crypto \<Rightarrow> jsval \<Rightarrow> string result" where
  "solverLightningNodePubkeyDigest K nodePubkey = (let raw = toLowerCase (js_text nodePubkey) in
     if \<not> is_node_pubkey raw then Inl (TypeError ''Lightning node pubkey must be compressed hex'')
     else Inr (cx_keccak256 K (hex_bytes raw)))"

section \<open>Verification\<close>

text \<open>The parts of the input once they are checked.\<close>

record bound_capability =
  bc_declaration :: capability_declaration
  bc_policy :: capability_policy
  bc_endpointKey :: endpoint_key
  bc_endpointOrigin :: string
  bc_endpointSignature :: string
  bc_lightningNodePubkey :: string
  bc_lightningSignature :: string
  bc_evmSignature :: string

definition bound_capability_of :: "capability_crypto \<Rightarrow> jsval \<Rightarrow> jsval \<Rightarrow> bound_capability result" where
  "bound_capability_of K envelope policy =
     bindE (exactKeys envelope [''declaration'', ''endpointOrigin'', ''endpointPublicKey'', ''endpointSignature'', ''evmSignature'',
       ''lightningNodePubkey'', ''lightningSignature''] ''solver capability envelope'') (\<lambda>_.
     bindE (normalizeDeclaration K (js_get envelope ''declaration'')) (\<lambda>declaration.
     bindE (normalizeCapabilityPolicy K policy) (\<lambda>boundPolicy.
     bindE (normalizeEndpointKey K (js_get envelope ''endpointPublicKey'')) (\<lambda>endpointKey.
     bindE (normalizeOrigin K (js_get envelope ''endpointOrigin'')) (\<lambda>endpointOrigin.
     bindE (canonicalBase64 (js_get envelope ''endpointSignature'') ''endpoint signature'') (\<lambda>endpointSignature.
     let lightningNodePubkey = toLowerCase (js_text (js_get envelope ''lightningNodePubkey''));
         lightningSignature = js_text (js_get envelope ''lightningSignature''); evmSignature = js_text (js_get envelope ''evmSignature'') in
     if \<not> is_node_pubkey lightningNodePubkey then Inl (TypeError ''Lightning node pubkey must be compressed hex'')
     else if \<not> is_zbase32_signature lightningSignature then Inl (TypeError ''Lightning node signature is not canonical zbase32'')
     else if \<not> is_evm_signature evmSignature then Inl (TypeError ''solver EVM signature is not canonical'')
     else Inr \<lparr>bc_declaration = declaration, bc_policy = boundPolicy, bc_endpointKey = endpointKey, bc_endpointOrigin = endpointOrigin,
       bc_endpointSignature = endpointSignature, bc_lightningNodePubkey = lightningNodePubkey,
       bc_lightningSignature = lightningSignature, bc_evmSignature = evmSignature\<rparr>))))))"

definition declared_direction :: "capability_crypto \<Rightarrow> capability_declaration \<Rightarrow> string option" where
  "declared_direction K d = (if de_direction d = cx_id K ''lightning-to-bit'' then Some ''lightning-to-bit''
     else if de_direction d = cx_id K ''bit-to-lightning'' then Some ''bit-to-lightning'' else None)"

definition direction_contract :: "capability_policy \<Rightarrow> string \<Rightarrow> string" where
  "direction_contract p direction = (if direction = ''lightning-to-bit'' then cp_lightningToBitContract p else cp_bitToLightningContract p)"

definition direction_code_hash :: "capability_policy \<Rightarrow> string \<Rightarrow> string" where
  "direction_code_hash p direction =
     (if direction = ''lightning-to-bit'' then cp_lightningToBitContractCodeHash p else cp_bitToLightningContractCodeHash p)"

text \<open>The reasons against the declared claims and times.\<close>

definition declaration_reasons :: "capability_crypto \<Rightarrow> bound_capability \<Rightarrow> int \<Rightarrow> string list" where
  "declaration_reasons K b observedAt = (let d = bc_declaration b; p = bc_policy b; direction = declared_direction K d in
     addReason (direction = None) ''solver capability direction hash is unsupported''
     @ addReason (de_capacityEpoch d = 0) ''solver capacity epoch must be positive''
     @ addReason (direction = Some ''lightning-to-bit'' \<and> (de_availableBitWei d = 0 \<or> de_availableLightningSats d = 0))
         ''Lightning-to-BIT capability requires prefunded BIT and inbound Lightning capacity''
     @ (if direction = Some ''bit-to-lightning''
        then addReason (de_availableBitWei d \<noteq> 0) ''BIT-to-Lightning capability must not claim solver BIT inventory''
             @ addReason (de_availableLightningSats d = 0) ''BIT-to-Lightning capability requires outbound Lightning capacity''
        else [])
     @ addReason (de_issuedAt d > num_add observedAt (cp_maxClockSkewSeconds p)) ''solver capability issuance is in the future''
     @ addReason (de_expiresAt d \<le> observedAt) ''solver capability expired''
     @ addReason (de_expiresAt d \<le> de_issuedAt d \<or> num_sub (de_expiresAt d) (de_issuedAt d) > cp_maxCapabilityTtlSeconds p)
         ''solver capability lifetime exceeds policy'')"

text \<open>The reasons against its proofs of possession; these computations may throw.\<close>

definition possession_reasons :: "capability_crypto \<Rightarrow> bound_capability \<Rightarrow> jsval \<Rightarrow> string list result" where
  "possession_reasons K b envelope = (let d = bc_declaration b; p = bc_policy b; direction = declared_direction K d;
       chainId = JBigInt (cp_chainId p) in
     bindE (case direction of
         None \<Rightarrow> Inr []
       | Some dir \<Rightarrow> bindE (solverCapabilityClaimsDigest K (claimsFromDeclaration d) chainId (JStr (direction_contract p dir))) (\<lambda>claimsDigest.
           Inr (addReason (claimsDigest \<noteq> de_proofChallenge d) ''solver capability proof challenge changed''))) (\<lambda>r1.
     bindE (solverEndpointPublicKeyDigest K (js_get envelope ''endpointPublicKey'')) (\<lambda>keyDigest.
     bindE (solverEndpointOriginDigest K (JStr (bc_endpointOrigin b))) (\<lambda>originDigest.
     bindE (solverLightningNodePubkeyDigest K (JStr (bc_lightningNodePubkey b))) (\<lambda>nodeDigest.
     bindE (solverCapabilityProofMessage (JStr (de_proofChallenge d))) (\<lambda>proofMessage.
     Inr (r1 @ addReason (keyDigest \<noteq> de_endpointPublicKeyDigest d) ''solver endpoint public key changed''
       @ addReason (originDigest \<noteq> de_endpointOriginDigest d) ''solver endpoint origin changed''
       @ addReason (nodeDigest \<noteq> de_lightningNodePubkeyDigest d) ''solver Lightning node pubkey changed''
       @ addReason (\<not> cx_verify K proofMessage (bc_endpointKey b) (bc_endpointSignature b)) ''solver endpoint possession proof is invalid''
       @ (case direction of
            None \<Rightarrow> []
          | Some dir \<Rightarrow> addReason
              (case bindE (solverCapabilityDomain K chainId (JStr (direction_contract p dir))) (\<lambda>domain.
                 case cx_verifyTypedData K domain d (bc_evmSignature b) of
                   None \<Rightarrow> Inl (Error [])
                 | Some recovered \<Rightarrow> lower_address K (JStr recovered) ''recovered solver'') of
                 Inl _ \<Rightarrow> True | Inr recovered \<Rightarrow> recovered \<noteq> de_solver d) ''solver EVM signature is invalid''))))))))"

text \<open>The node's proof of possession, from the answer of the callback to the message and signature.\<close>

definition node_reasons :: "bound_capability \<Rightarrow> jsval option \<Rightarrow> string list" where
  "node_reasons b answer = (case answer of
     None \<Rightarrow> [''Lightning node possession proof could not be verified'']
   | Some v \<Rightarrow> (case exactKeys v [''pubkey'', ''valid''] ''Lightning verification result'' of
         Inl _ \<Rightarrow> [''Lightning node possession proof could not be verified'']
       | Inr _ \<Rightarrow> let recoveredPubkey = toLowerCase (js_text (js_get v ''pubkey'')) in
           addReason (js_get v ''valid'' \<noteq> JBool True \<or> \<not> is_node_pubkey recoveredPubkey \<or> recoveredPubkey \<noteq> bc_lightningNodePubkey b)
             ''Lightning node possession proof is invalid''))"

text \<open>What the capacity readers are asked.\<close>

record capacity_query =
  cq_capabilityDigest :: string
  cq_direction :: string
  cq_solverId :: string
  cq_verifyingContract :: string
  cq_capacityEpoch :: int
  cq_endpointOrigin :: string
  cq_endpointKey :: endpoint_key
  cq_lightningNodePubkey :: string

record capacity_observation =
  co_bitWei :: int
  co_lightningSats :: int
  co_bitObservedAt :: int
  co_lightningObservedAt :: int
  co_reasons :: "string list"

definition capacity_observed ::
    "capability_crypto \<Rightarrow> bound_capability \<Rightarrow> jsval \<Rightarrow> jsval \<Rightarrow> capacity_observation result" where
  "capacity_observed K b bitReading lightning = (let d = bc_declaration b in
     bindE (capability_uint (js_get bitReading ''availableBitWei'') ''observed BIT inventory'' UINT256_MAX) (\<lambda>bitWei.
     bindE (capability_uint (js_get lightning ''availableLightningSats'') ''observed Lightning capacity'' UINT64_MAX) (\<lambda>lightningSats.
     bindE (integer (js_get bitReading ''observedAt'') ''BIT inventory observedAt'') (\<lambda>bitObservedAt.
     bindE (integer (js_get lightning ''observedAt'') ''Lightning capacity observedAt'') (\<lambda>lightningObservedAt.
     bindE (lower_address K (js_get bitReading ''solverId'') ''observed BIT solver'') (\<lambda>solver.
     bindE (capability_uint (js_get lightning ''capacityEpoch'') ''observed capacity epoch'' UINT64_MAX) (\<lambda>epoch.
     Inr \<lparr>co_bitWei = bitWei, co_lightningSats = lightningSats, co_bitObservedAt = bitObservedAt,
       co_lightningObservedAt = lightningObservedAt,
       co_reasons = addReason (solver \<noteq> de_solver d) ''BIT inventory belongs to another solver''
         @ addReason (toLowerCase (js_text (js_get lightning ''nodePubkey'')) \<noteq> bc_lightningNodePubkey b) ''Lightning capacity belongs to another node''
         @ addReason (epoch \<noteq> de_capacityEpoch d) ''authenticated Lightning capacity epoch changed''\<rparr>)))))))"

definition stale_reading :: "capability_policy \<Rightarrow> int \<Rightarrow> int \<Rightarrow> bool" where
  "stale_reading p observedAt observed \<longleftrightarrow> observed > num_add observedAt (cp_maxClockSkewSeconds p)
     \<or> num_sub observedAt observed > cp_maxCapacityObservationAgeSeconds p"

definition capacity_shortfalls :: "bound_capability \<Rightarrow> int \<Rightarrow> capacity_observation \<Rightarrow> string list" where
  "capacity_shortfalls b observedAt o' = (let d = bc_declaration b; p = bc_policy b in
     co_reasons o'
     @ addReason (co_bitWei o' < de_availableBitWei d) ''declared BIT inventory exceeds verified inventory''
     @ addReason (co_lightningSats o' < de_availableLightningSats d) ''declared Lightning capacity exceeds verified capacity''
     @ addReason (stale_reading p observedAt (co_bitObservedAt o')) ''BIT inventory observation is stale or in the future''
     @ addReason (stale_reading p observedAt (co_lightningObservedAt o')) ''Lightning capacity observation is stale or in the future'')"

record verified_capability =
  vc_capabilityDigest :: string
  vc_capacitySnapshotDigest :: string
  vc_chainId :: int
  vc_direction :: string
  vc_endpointOrigin :: string
  vc_endpointPublicKey :: string
  vc_lightningNodePubkey :: string
  vc_settlementContract :: string
  vc_settlementContractCodeHash :: string
  vc_observedAt :: int
  vc_declaration :: capability_declaration

text \<open>\<^verbatim>\<open>JSON.stringify(capacitySnapshot)\<close>.\<close>

definition snapshot_text :: "capability_declaration \<Rightarrow> string \<Rightarrow> int \<Rightarrow> string" where
  "snapshot_text d capabilityDigest observedAt =
     ''{'' @ json_string ''solverId'' @ '':'' @ json_string (de_solver d)
     @ '','' @ json_string ''capabilityDigest'' @ '':'' @ json_string capabilityDigest
     @ '','' @ json_string ''capabilityVerified'' @ '':true''
     @ '','' @ json_string ''capabilityExpiresAt'' @ '':'' @ int_str (de_expiresAt d)
     @ '','' @ json_string ''capacityEpoch'' @ '':'' @ int_str (de_capacityEpoch d)
     @ '','' @ json_string ''availableBitWei'' @ '':'' @ json_string (int_str (de_availableBitWei d))
     @ '','' @ json_string ''availableLightningSats'' @ '':'' @ json_string (int_str (de_availableLightningSats d))
     @ '','' @ json_string ''observedAt'' @ '':'' @ int_str observedAt @ ''}''"

text \<open>The result: the reasons of a refusal, or the verified capability.\<close>

type_synonym capability_verification = "string list + verified_capability"

text \<open>The readings of the two capacity readers, judged.\<close>

definition judge_capacity ::
    "capability_crypto \<Rightarrow> bound_capability \<Rightarrow> int \<Rightarrow> string \<Rightarrow> capability_domain \<Rightarrow> jsval option \<Rightarrow> jsval option \<Rightarrow> capability_verification" where
  "judge_capacity K b observedAt direction domain bitAnswer lightningAnswer =
     (let d = bc_declaration b; p = bc_policy b; capabilityDigest = cx_hashCapability K domain d in
      case (bitAnswer, lightningAnswer) of
        (Some bitReading, Some lightning) \<Rightarrow>
          (case bindE (exactKeys bitReading [''availableBitWei'', ''observedAt'', ''solverId''] ''BIT inventory observation'') (\<lambda>_.
             exactKeys lightning [''availableLightningSats'', ''capacityEpoch'', ''nodePubkey'', ''observedAt''] ''Lightning capacity observation'') of
             Inl _ \<Rightarrow> Inl [''independent solver capacity could not be verified'']
           | Inr _ \<Rightarrow>
               (case capacity_observed K b bitReading lightning of
                  Inl _ \<Rightarrow> Inl [''independent solver capacity result is malformed'']
                | Inr o' \<Rightarrow>
                    let reasons = capacity_shortfalls b observedAt o'; readAt = min (co_bitObservedAt o') (co_lightningObservedAt o') in
                    if reasons \<noteq> [] then Inl reasons
                    else Inr \<lparr>vc_capabilityDigest = capabilityDigest,
                      vc_capacitySnapshotDigest = cx_keccak256 K (snapshot_text d capabilityDigest readAt), vc_chainId = cp_chainId p,
                      vc_direction = direction, vc_endpointOrigin = bc_endpointOrigin b, vc_endpointPublicKey = ek_pem (bc_endpointKey b),
                      vc_lightningNodePubkey = bc_lightningNodePubkey b, vc_settlementContract = direction_contract p direction,
                      vc_settlementContractCodeHash = direction_code_hash p direction, vc_observedAt = readAt, vc_declaration = d\<rparr>))
      | _ \<Rightarrow> Inl [''independent solver capacity could not be verified''])"

definition verifySolverCapability ::
    "capability_crypto \<Rightarrow> jsval \<Rightarrow> jsval \<Rightarrow> jsval \<Rightarrow> (string \<Rightarrow> string \<Rightarrow> jsval option) \<Rightarrow> (capacity_query \<Rightarrow> jsval option)
      \<Rightarrow> (capacity_query \<Rightarrow> jsval option) \<Rightarrow> capability_verification result" where
  "verifySolverCapability K envelope now policy verifyLightningNodeSignature readVerifiedBitInventory readVerifiedLightningCapacity =
     bindE (integer now ''now'') (\<lambda>observedAt.
     case bound_capability_of K envelope policy of
       Inl e \<Rightarrow> Inr (Inl [error_message e])
     | Inr b \<Rightarrow> let d = bc_declaration b; p = bc_policy b in
         bindE (possession_reasons K b envelope) (\<lambda>possession.
         bindE (solverCapabilityProofMessage (JStr (de_proofChallenge d))) (\<lambda>proofMessage.
         let reasons = declaration_reasons K b observedAt @ possession;
             reasons = (if reasons = [] then node_reasons b (verifyLightningNodeSignature proofMessage (bc_lightningSignature b)) else reasons) in
         case declared_direction K d of
           Some direction \<Rightarrow>
             if reasons \<noteq> [] then Inr (Inl reasons)
             else bindE (solverCapabilityDomain K (JBigInt (cp_chainId p)) (JStr (direction_contract p direction))) (\<lambda>domain.
               let q = \<lparr>cq_capabilityDigest = cx_hashCapability K domain d, cq_direction = direction, cq_solverId = de_solver d,
                     cq_verifyingContract = direction_contract p direction, cq_capacityEpoch = de_capacityEpoch d,
                     cq_endpointOrigin = bc_endpointOrigin b, cq_endpointKey = bc_endpointKey b,
                     cq_lightningNodePubkey = bc_lightningNodePubkey b\<rparr> in
               Inr (judge_capacity K b observedAt direction domain (readVerifiedBitInventory q) (readVerifiedLightningCapacity q)))
         | None \<Rightarrow> Inr (Inl reasons))))"

section \<open>What other modules read of a verified capability\<close>

text \<open>The module recognizes the results it verified; \<open>None\<close> is any other value.\<close>

record quote_binding =
  qc_chainId :: int
  qc_direction :: string
  qc_solverId :: string
  qc_capabilityDigest :: string
  qc_capacitySnapshotDigest :: string
  qc_endpointOrigin :: string
  qc_endpointPublicKeyDigest :: string
  qc_settlementContract :: string
  qc_settlementContractCodeHash :: string
  qc_capacityEpoch :: int
  qc_availableBitWei :: int
  qc_availableLightningSats :: int
  qc_expiresAt :: int

definition quote_binding_of :: "verified_capability \<Rightarrow> quote_binding" where
  "quote_binding_of v = (let d = vc_declaration v in
     \<lparr>qc_chainId = vc_chainId v, qc_direction = vc_direction v, qc_solverId = de_solver d,
      qc_capabilityDigest = vc_capabilityDigest v, qc_capacitySnapshotDigest = vc_capacitySnapshotDigest v,
      qc_endpointOrigin = vc_endpointOrigin v, qc_endpointPublicKeyDigest = de_endpointPublicKeyDigest d,
      qc_settlementContract = vc_settlementContract v, qc_settlementContractCodeHash = vc_settlementContractCodeHash v,
      qc_capacityEpoch = de_capacityEpoch d, qc_availableBitWei = de_availableBitWei d,
      qc_availableLightningSats = de_availableLightningSats d, qc_expiresAt = de_expiresAt d\<rparr>)"

definition verifiedSolverQuoteBinding :: "verified_capability option \<Rightarrow> quote_binding result" where
  "verifiedSolverQuoteBinding verification = (case verification of
     None \<Rightarrow> Inl (TypeError ''solver quote binding requires a locally verified capability'') | Some v \<Rightarrow> Inr (quote_binding_of v))"

definition verifiedSolverEndpointTransportBinding :: "verified_capability option \<Rightarrow> (quote_binding \<times> string) result" where
  "verifiedSolverEndpointTransportBinding verification = (case verification of
     None \<Rightarrow> Inl (TypeError ''solver endpoint transport binding requires a locally verified capability'')
   | Some v \<Rightarrow> bindE (verifiedSolverQuoteBinding (Some v)) (\<lambda>b. Inr (b, vc_endpointPublicKey v)))"

text \<open>The capacity record is the input of the store's \<^verbatim>\<open>recordSolverCapacity\<close>.\<close>

definition verifiedSolverCapacityRecord :: "verified_capability option \<Rightarrow> jsval result" where
  "verifiedSolverCapacityRecord verification = (case verification of
     None \<Rightarrow> Inl (TypeError ''solver capacity record requires a locally verified capability'')
   | Some v \<Rightarrow> let d = vc_declaration v in
       Inr (JObj [(''solverId'', JStr (toLowerCase (de_solver d))), (''capabilityDigest'', JStr (vc_capabilityDigest v)),
         (''capabilityVerified'', JBool True), (''capabilityExpiresAt'', JInt (de_expiresAt d)),
         (''capacityEpoch'', JInt (de_capacityEpoch d)), (''availableBitWei'', JStr (int_str (de_availableBitWei d))),
         (''availableLightningSats'', JStr (int_str (de_availableLightningSats d))), (''observedAt'', JInt (vc_observedAt v))]))"

record recovery_authority =
  ra_capabilityDigest :: string
  ra_capacityObservedAt :: int
  ra_direction :: string
  ra_endpointPublicKeyDigest :: string
  ra_expiresAt :: int
  ra_lightningNodePubkey :: string
  ra_settlementContract :: string
  ra_settlementContractCodeHash :: string
  ra_solverId :: string

definition verifiedSolverRecoveryAuthority :: "verified_capability option \<Rightarrow> recovery_authority result" where
  "verifiedSolverRecoveryAuthority verification = (case verification of
     None \<Rightarrow> Inl (TypeError ''solver recovery authority requires a locally verified capability'')
   | Some v \<Rightarrow> let d = vc_declaration v in
       Inr \<lparr>ra_capabilityDigest = vc_capabilityDigest v, ra_capacityObservedAt = vc_observedAt v, ra_direction = vc_direction v,
         ra_endpointPublicKeyDigest = de_endpointPublicKeyDigest d, ra_expiresAt = de_expiresAt d,
         ra_lightningNodePubkey = vc_lightningNodePubkey v, ra_settlementContract = vc_settlementContract v,
         ra_settlementContractCodeHash = vc_settlementContractCodeHash v, ra_solverId = de_solver d\<rparr>)"

section \<open>What a verified capability proves\<close>

text \<open>The claims are current under the policy.\<close>

definition claims_current :: "capability_policy \<Rightarrow> int \<Rightarrow> capability_declaration \<Rightarrow> bool" where
  "claims_current p at d \<longleftrightarrow> de_issuedAt d \<le> at + cp_maxClockSkewSeconds p \<and> at < de_expiresAt d \<and> de_issuedAt d < de_expiresAt d
     \<and> de_expiresAt d - de_issuedAt d \<le> cp_maxCapabilityTtlSeconds p \<and> 0 < de_capacityEpoch d \<and> 0 < de_availableLightningSats d"

text \<open>
  The three keys: the solver's account signed the declaration for the contract, the endpoint key and the
  Lightning node signed its challenge, and the declaration names both keys and the origin by digest.
\<close>

definition keys_proven :: "capability_crypto \<Rightarrow> (string \<Rightarrow> string \<Rightarrow> jsval option) \<Rightarrow> capability_policy \<Rightarrow> verified_capability \<Rightarrow> bool" where
  "keys_proven K node p v \<longleftrightarrow> (let d = vc_declaration v;
       message = ''TreeSwap solver capability v1'' @ [CHR 10] @ de_proofChallenge d @ [CHR 10] in
     (\<exists>domain signature recovered a. solverCapabilityDomain K (JBigInt (cp_chainId p)) (JStr (vc_settlementContract v)) = Inr domain
        \<and> cx_verifyTypedData K domain d signature = Some recovered \<and> cx_getAddress K recovered = Some a \<and> toLowerCase a = de_solver d)
     \<and> (\<exists>key signature. cx_verify K message key signature \<and> ek_algorithm key = ''ed25519'' \<and> ek_pem key = vc_endpointPublicKey v
        \<and> cx_keccak256 K (ek_spki key) = de_endpointPublicKeyDigest d)
     \<and> cx_keccak256 K (vc_endpointOrigin v) = de_endpointOriginDigest d
     \<and> (\<exists>signature answer. node message signature = Some answer \<and> js_get answer ''valid'' = JBool True
        \<and> toLowerCase (js_text (js_get answer ''pubkey'')) = vc_lightningNodePubkey v)
     \<and> cx_keccak256 K (hex_bytes (vc_lightningNodePubkey v)) = de_lightningNodePubkeyDigest d)"

text \<open>The declared capacity was read, recently, from both readers.\<close>

definition recent :: "capability_policy \<Rightarrow> int \<Rightarrow> int \<Rightarrow> bool" where
  "recent p at t \<longleftrightarrow> t \<le> at + cp_maxClockSkewSeconds p \<and> at - t \<le> cp_maxCapacityObservationAgeSeconds p"

definition capacity_read ::
    "(capacity_query \<Rightarrow> jsval option) \<Rightarrow> (capacity_query \<Rightarrow> jsval option) \<Rightarrow> capability_policy \<Rightarrow> int \<Rightarrow> verified_capability \<Rightarrow> bool" where
  "capacity_read readBit readLightning p at v \<longleftrightarrow> (\<exists>q bitReading lightning wei sats t1 t2. readBit q = Some bitReading \<and> readLightning q = Some lightning
     \<and> cq_solverId q = de_solver (vc_declaration v) \<and> cq_capabilityDigest q = vc_capabilityDigest v
     \<and> js_BigInt (js_get bitReading ''availableBitWei'') = Some wei \<and> de_availableBitWei (vc_declaration v) \<le> wei
     \<and> js_BigInt (js_get lightning ''availableLightningSats'') = Some sats \<and> de_availableLightningSats (vc_declaration v) \<le> sats
     \<and> js_get bitReading ''observedAt'' = JInt t1 \<and> js_get lightning ''observedAt'' = JInt t2 \<and> recent p at t1 \<and> recent p at t2
     \<and> vc_observedAt v = min t1 t2)"

lemma capability_uint_Inr:
  "capability_uint v name m = Inr i \<longleftrightarrow> js_BigInt v = Some i \<and> 0 \<le> i \<and> i \<le> m \<and> js_String v = int_str i"
  by (auto simp: capability_uint_def split: option.splits)

lemma lower_address_Inr: "lower_address K v name = Inr a \<longleftrightarrow> (\<exists>s b. v = JStr s \<and> cx_getAddress K s = Some b \<and> a = toLowerCase b)"
  by (auto simp: lower_address_def split: jsval.splits option.splits)

lemma declaration_ranges:
  assumes "normalizeDeclaration K raw = Inr d"
  shows "0 \<le> de_issuedAt d \<and> de_issuedAt d \<le> MAX_SAFE_INTEGER \<and> 0 \<le> de_expiresAt d \<and> de_expiresAt d \<le> MAX_SAFE_INTEGER
    \<and> 0 \<le> de_capacityEpoch d \<and> 0 \<le> de_availableLightningSats d \<and> is_bytes32 (de_proofChallenge d)"
  using assms unfolding normalizeDeclaration_def
  by (auto simp: bindE_eq_Inr if_Inl_eq_Inr capability_uint_Inr integer_Inr bytes32_def Let_def simp del: js_get.simps split: if_splits)

lemma policy_ranges:
  assumes "normalizeCapabilityPolicy K raw = Inr p"
  shows "0 \<le> cp_maxClockSkewSeconds p \<and> cp_maxClockSkewSeconds p \<le> 60 \<and> 0 \<le> cp_maxCapabilityTtlSeconds p"
  using assms unfolding normalizeCapabilityPolicy_def
  by (auto simp: bindE_eq_Inr if_Inl_eq_Inr integer_Inr simp del: js_get.simps)

lemma exact_difference: "0 \<le> a \<Longrightarrow> a \<le> MAX_SAFE_INTEGER \<Longrightarrow> 0 \<le> b \<Longrightarrow> b \<le> MAX_SAFE_INTEGER \<Longrightarrow> num_sub a b = a - b"
  unfolding num_sub_def by (rule js_round_exact) (simp add: MAX_SAFE_INTEGER_def)

lemma exact_sum_bound: "0 \<le> a \<Longrightarrow> a \<le> MAX_SAFE_INTEGER \<Longrightarrow> a \<le> num_add b c \<longleftrightarrow> a \<le> b + c"
  unfolding num_add_def by (rule js_round_ge_iff) (simp_all add: MAX_SAFE_INTEGER_def)

lemma declaration_reasons_Nil:
  assumes "declaration_reasons K b at = []" and "normalizeDeclaration K raw = Inr (bc_declaration b)"
  shows "claims_current (bc_policy b) at (bc_declaration b)"
proof -
  note r = declaration_ranges [OF assms(2)]
  have "declared_direction K (bc_declaration b) \<in> {Some ''lightning-to-bit'', Some ''bit-to-lightning'', None}"
    by (simp add: declared_direction_def)
  with assms(1) r show ?thesis
    unfolding declaration_reasons_def Let_def claims_current_def
    by (auto simp: not_less exact_difference exact_sum_bound)
qed

text \<open>Lower case is idempotent.\<close>

lemma lower_again: "toLowerCase (toLowerCase s) = toLowerCase s"
proof -
  have "char_lower (char_lower c) = char_lower c" for c
    by (auto simp: char_lower_def)
  then show ?thesis by (simp add: toLowerCase_def)
qed

lemma bound_capability_Inr:
  assumes "bound_capability_of K envelope policy = Inr b"
  shows "normalizeDeclaration K (js_get envelope ''declaration'') = Inr (bc_declaration b) \<and> normalizeCapabilityPolicy K policy = Inr (bc_policy b)
    \<and> normalizeEndpointKey K (js_get envelope ''endpointPublicKey'') = Inr (bc_endpointKey b)"
  using assms unfolding bound_capability_of_def by (auto simp: bindE_eq_Inr if_Inl_eq_Inr Let_def simp del: js_get.simps)

text \<open>The proofs, once no reason is left against them.\<close>

lemma possession_reasons_Nil:
  assumes "possession_reasons K b envelope = Inr []" and dir: "declared_direction K (bc_declaration b) = Some direction"
    and key: "normalizeEndpointKey K (js_get envelope ''endpointPublicKey'') = Inr (bc_endpointKey b)"
  shows "(\<exists>domain recovered a. solverCapabilityDomain K (JBigInt (cp_chainId (bc_policy b))) (JStr (direction_contract (bc_policy b) direction)) = Inr domain
        \<and> cx_verifyTypedData K domain (bc_declaration b) (bc_evmSignature b) = Some recovered \<and> cx_getAddress K recovered = Some a
        \<and> toLowerCase a = de_solver (bc_declaration b))
     \<and> cx_verify K (''TreeSwap solver capability v1'' @ [CHR 10] @ de_proofChallenge (bc_declaration b) @ [CHR 10]) (bc_endpointKey b) (bc_endpointSignature b)
     \<and> cx_keccak256 K (ek_spki (bc_endpointKey b)) = de_endpointPublicKeyDigest (bc_declaration b)
     \<and> cx_keccak256 K (bc_endpointOrigin b) = de_endpointOriginDigest (bc_declaration b)
     \<and> (\<exists>n. solverLightningNodePubkeyDigest K (JStr (bc_lightningNodePubkey b)) = Inr n \<and> n = de_lightningNodePubkeyDigest (bc_declaration b))"
proof -
  let ?d = "bc_declaration b" and ?chain = "JBigInt (cp_chainId (bc_policy b))" and ?c = "JStr (direction_contract (bc_policy b) direction)"
  let ?evm = "bindE (solverCapabilityDomain K ?chain ?c) (\<lambda>domain. case cx_verifyTypedData K domain ?d (bc_evmSignature b) of
      None \<Rightarrow> Inl (Error []) | Some recovered \<Rightarrow> lower_address K (JStr recovered) ''recovered solver'')"
  from assms(1) obtain keyDigest originDigest nodeDigest message where p:
      "solverEndpointPublicKeyDigest K (js_get envelope ''endpointPublicKey'') = Inr keyDigest" "keyDigest = de_endpointPublicKeyDigest ?d"
      "solverEndpointOriginDigest K (JStr (bc_endpointOrigin b)) = Inr originDigest" "originDigest = de_endpointOriginDigest ?d"
      "solverLightningNodePubkeyDigest K (JStr (bc_lightningNodePubkey b)) = Inr nodeDigest" "nodeDigest = de_lightningNodePubkeyDigest ?d"
      "solverCapabilityProofMessage (JStr (de_proofChallenge ?d)) = Inr message" "cx_verify K message (bc_endpointKey b) (bc_endpointSignature b)"
      "\<not> (case ?evm of Inl _ \<Rightarrow> True | Inr recovered \<Rightarrow> recovered \<noteq> de_solver ?d)"
    unfolding possession_reasons_def Let_def dir option.case by (auto simp: bindE_eq_Inr simp del: js_get.simps)
  have "message = ''TreeSwap solver capability v1'' @ [CHR 10] @ de_proofChallenge ?d @ [CHR 10]"
    using p(7) by (auto simp: solverCapabilityProofMessage_def bytes32_def js_text_def bindE_eq_Inr Let_def split: if_splits)
  moreover have "cx_keccak256 K (ek_spki (bc_endpointKey b)) = keyDigest"
    using p(1) by (simp add: solverEndpointPublicKeyDigest_def key del: js_get.simps)
  moreover have "cx_keccak256 K (bc_endpointOrigin b) = originDigest"
    using p(3) by (auto simp: solverEndpointOriginDigest_def bindE_eq_Inr normalizeOrigin_def js_text_def Let_def split: option.splits if_splits)
  moreover from p(9) obtain recovered where "?evm = Inr recovered" "recovered = de_solver ?d" by (cases ?evm) auto
  ultimately show ?thesis
    using p(2,4,5,6,8) by (auto simp: bindE_eq_Inr option_case_eq_Inr lower_address_Inr)
qed

lemma judge_capacity_Inr:
  assumes "judge_capacity K b at direction domain bitAnswer lightningAnswer = Inr v" and "0 \<le> at" "at \<le> MAX_SAFE_INTEGER"
    and p: "0 \<le> cp_maxClockSkewSeconds (bc_policy b)"
  shows "\<exists>bitReading lightning wei sats t1 t2. bitAnswer = Some bitReading \<and> lightningAnswer = Some lightning
     \<and> js_BigInt (js_get bitReading ''availableBitWei'') = Some wei \<and> de_availableBitWei (bc_declaration b) \<le> wei
     \<and> js_BigInt (js_get lightning ''availableLightningSats'') = Some sats \<and> de_availableLightningSats (bc_declaration b) \<le> sats
     \<and> js_get bitReading ''observedAt'' = JInt t1 \<and> js_get lightning ''observedAt'' = JInt t2 \<and> recent (bc_policy b) at t1 \<and> recent (bc_policy b) at t2
     \<and> vc_observedAt v = min t1 t2 \<and> vc_declaration v = bc_declaration b \<and> vc_direction v = direction
     \<and> vc_capabilityDigest v = cx_hashCapability K domain (bc_declaration b) \<and> vc_endpointOrigin v = bc_endpointOrigin b
     \<and> vc_endpointPublicKey v = ek_pem (bc_endpointKey b) \<and> vc_lightningNodePubkey v = bc_lightningNodePubkey b
     \<and> vc_chainId v = cp_chainId (bc_policy b) \<and> vc_settlementContract v = direction_contract (bc_policy b) direction
     \<and> vc_settlementContractCodeHash v = direction_code_hash (bc_policy b) direction"
proof -
  from assms(1) obtain bitReading lightning o' where j: "bitAnswer = Some bitReading" "lightningAnswer = Some lightning"
      "capacity_observed K b bitReading lightning = Inr o'" "capacity_shortfalls b at o' = []"
      "vc_observedAt v = min (co_bitObservedAt o') (co_lightningObservedAt o')" "vc_declaration v = bc_declaration b" "vc_direction v = direction"
      "vc_capabilityDigest v = cx_hashCapability K domain (bc_declaration b)" "vc_endpointOrigin v = bc_endpointOrigin b"
      "vc_endpointPublicKey v = ek_pem (bc_endpointKey b)" "vc_lightningNodePubkey v = bc_lightningNodePubkey b"
      "vc_chainId v = cp_chainId (bc_policy b)" "vc_settlementContract v = direction_contract (bc_policy b) direction"
      "vc_settlementContractCodeHash v = direction_code_hash (bc_policy b) direction"
    unfolding judge_capacity_def Let_def by (auto split: option.splits sum.splits if_splits)
  from j(3) have o': "js_BigInt (js_get bitReading ''availableBitWei'') = Some (co_bitWei o')" "js_get bitReading ''observedAt'' = JInt (co_bitObservedAt o')"
      "js_BigInt (js_get lightning ''availableLightningSats'') = Some (co_lightningSats o')"
      "js_get lightning ''observedAt'' = JInt (co_lightningObservedAt o')"
      "0 \<le> co_bitObservedAt o'" "co_bitObservedAt o' \<le> MAX_SAFE_INTEGER" "0 \<le> co_lightningObservedAt o'" "co_lightningObservedAt o' \<le> MAX_SAFE_INTEGER"
    unfolding capacity_observed_def Let_def by (auto simp: bindE_eq_Inr capability_uint_Inr integer_Inr simp del: js_get.simps)
  from j(4) have "de_availableBitWei (bc_declaration b) \<le> co_bitWei o'" "de_availableLightningSats (bc_declaration b) \<le> co_lightningSats o'"
      "\<not> stale_reading (bc_policy b) at (co_bitObservedAt o')" "\<not> stale_reading (bc_policy b) at (co_lightningObservedAt o')"
    by (simp_all add: capacity_shortfalls_def Let_def)
  moreover from this o' assms(2,3) have "recent (bc_policy b) at (co_bitObservedAt o')" "recent (bc_policy b) at (co_lightningObservedAt o')"
    by (auto simp: stale_reading_def recent_def not_less exact_difference exact_sum_bound)
  ultimately show ?thesis using j o' by blast
qed

text \<open>A successful check, step by step: what the keys, the node and the readers were asked and answered.\<close>

definition proof_message :: "capability_declaration \<Rightarrow> string" where
  "proof_message d = ''TreeSwap solver capability v1'' @ [CHR 10] @ de_proofChallenge d @ [CHR 10]"

lemma solverCapabilityProofMessage_declared:
  assumes "normalizeDeclaration K raw = Inr d"
  shows "solverCapabilityProofMessage (JStr (de_proofChallenge d)) = Inr (proof_message d)"
  using declaration_ranges [OF assms] by (simp add: solverCapabilityProofMessage_def bytes32_def js_text_def proof_message_def)

lemma verification_run:
  assumes "verifySolverCapability K envelope now policy node readBit readLightning = Inr (Inr v)"
  shows "\<exists>at b direction domain q. now = JInt at \<and> 0 \<le> at \<and> at \<le> MAX_SAFE_INTEGER \<and> bound_capability_of K envelope policy = Inr b
    \<and> declared_direction K (bc_declaration b) = Some direction \<and> possession_reasons K b envelope = Inr []
    \<and> declaration_reasons K b at = [] \<and> node_reasons b (node (proof_message (bc_declaration b)) (bc_lightningSignature b)) = []
    \<and> cq_solverId q = de_solver (bc_declaration b) \<and> cq_capabilityDigest q = cx_hashCapability K domain (bc_declaration b)
    \<and> judge_capacity K b at direction domain (readBit q) (readLightning q) = Inr v"
proof -
  from assms obtain at where at: "now = JInt at" "0 \<le> at" "at \<le> MAX_SAFE_INTEGER"
    by (auto simp: verifySolverCapability_def bindE_eq_Inr integer_Inr)
  then have integer: "integer (JInt at) ''now'' = Inr at" by (simp add: integer_Inr)
  from assms obtain b where b: "bound_capability_of K envelope policy = Inr b"
    unfolding verifySolverCapability_def by (cases "bound_capability_of K envelope policy") (auto simp: bindE_eq_Inr)
  note message = solverCapabilityProofMessage_declared [OF conjunct1 [OF bound_capability_Inr [OF b]]]
  from assms obtain direction domain q where "declared_direction K (bc_declaration b) = Some direction"
      "possession_reasons K b envelope = Inr []" "declaration_reasons K b at = []"
      "node_reasons b (node (proof_message (bc_declaration b)) (bc_lightningSignature b)) = []"
      "q = \<lparr>cq_capabilityDigest = cx_hashCapability K domain (bc_declaration b), cq_direction = direction,
         cq_solverId = de_solver (bc_declaration b), cq_verifyingContract = direction_contract (bc_policy b) direction,
         cq_capacityEpoch = de_capacityEpoch (bc_declaration b), cq_endpointOrigin = bc_endpointOrigin b,
         cq_endpointKey = bc_endpointKey b, cq_lightningNodePubkey = bc_lightningNodePubkey b\<rparr>"
      "judge_capacity K b at direction domain (readBit q) (readLightning q) = Inr v"
    unfolding verifySolverCapability_def at(1) integer bindE_Inr b sum.case Let_def message
    by (auto simp: bindE_eq_Inr split: option.splits if_splits)
  with at b show ?thesis
    by (intro exI [of _ at] exI [of _ b] exI [of _ direction] exI [of _ domain] exI [of _ q]) simp
qed

lemma run_proves_keys:
  assumes b: "bound_capability_of K envelope policy = Inr b" and dir: "declared_direction K (bc_declaration b) = Some direction"
    and possession: "possession_reasons K b envelope = Inr []"
    and node: "node_reasons b (node (proof_message (bc_declaration b)) (bc_lightningSignature b)) = []"
    and v: "vc_declaration v = bc_declaration b" "vc_settlementContract v = direction_contract (bc_policy b) direction"
      "vc_endpointOrigin v = bc_endpointOrigin b" "vc_endpointPublicKey v = ek_pem (bc_endpointKey b)"
      "vc_lightningNodePubkey v = bc_lightningNodePubkey b"
  shows "keys_proven K node (bc_policy b) v"
proof -
  have key: "normalizeEndpointKey K (js_get envelope ''endpointPublicKey'') = Inr (bc_endpointKey b)"
    using bound_capability_Inr [OF b] by simp
  note possession = possession_reasons_Nil [OF possession dir key]
  have "ek_algorithm (bc_endpointKey b) = ''ed25519''"
    using key by (auto simp: normalizeEndpointKey_def Let_def split: option.splits if_splits)
  moreover have "\<exists>answer. node (proof_message (bc_declaration b)) (bc_lightningSignature b) = Some answer \<and> js_get answer ''valid'' = JBool True
      \<and> toLowerCase (js_text (js_get answer ''pubkey'')) = bc_lightningNodePubkey b" "is_node_pubkey (bc_lightningNodePubkey b)"
    using node by (auto simp: node_reasons_def Let_def simp del: js_get.simps split: option.splits sum.splits)
  moreover have "cx_keccak256 K (hex_bytes (bc_lightningNodePubkey b)) = de_lightningNodePubkeyDigest (bc_declaration b)"
    using possession b
    by (auto simp: solverLightningNodePubkeyDigest_def js_text_def bound_capability_of_def bindE_eq_Inr if_Inl_eq_Inr Let_def
        lower_again simp del: js_get.simps split: if_splits)
  ultimately show ?thesis
    using possession unfolding keys_proven_def Let_def v proof_message_def by blast
qed

lemma run_reads_capacity:
  assumes "judge_capacity K b at direction domain (readBit q) (readLightning q) = Inr v" and "0 \<le> at" "at \<le> MAX_SAFE_INTEGER"
    and "0 \<le> cp_maxClockSkewSeconds (bc_policy b)" and q: "cq_solverId q = de_solver (bc_declaration b)"
      "cq_capabilityDigest q = cx_hashCapability K domain (bc_declaration b)"
  shows "capacity_read readBit readLightning (bc_policy b) at v"
proof -
  from judge_capacity_Inr [OF assms(1-4)] q show ?thesis
    unfolding capacity_read_def by metis
qed

text \<open>
  Property C12.  A verified capability is proven and current.  When the check succeeds, the solver's account
  signed the declaration for the contract and chain of the policy and its direction; the endpoint key and
  the Lightning node signed its challenge, and both are the keys it names; it is inside its lifetime; and
  both independent readers reported, within the allowed age, at least the capacity it declares.
\<close>

theorem verified_capability_sound:
  assumes "verifySolverCapability K envelope now policy node readBit readLightning = Inr (Inr v)"
  shows "\<exists>p at. normalizeCapabilityPolicy K policy = Inr p \<and> now = JInt at \<and> de_direction (vc_declaration v) = cx_id K (vc_direction v)
    \<and> vc_chainId v = cp_chainId p \<and> vc_settlementContract v = direction_contract p (vc_direction v)
    \<and> vc_settlementContractCodeHash v = direction_code_hash p (vc_direction v)
    \<and> claims_current p at (vc_declaration v) \<and> keys_proven K node p v \<and> capacity_read readBit readLightning p at v"
proof -
  from verification_run [OF assms] obtain at b direction domain q where run: "now = JInt at" "0 \<le> at" "at \<le> MAX_SAFE_INTEGER"
      "bound_capability_of K envelope policy = Inr b" "declared_direction K (bc_declaration b) = Some direction"
      "possession_reasons K b envelope = Inr []" "declaration_reasons K b at = []"
      "node_reasons b (node (proof_message (bc_declaration b)) (bc_lightningSignature b)) = []"
      "cq_solverId q = de_solver (bc_declaration b)" "cq_capabilityDigest q = cx_hashCapability K domain (bc_declaration b)"
      "judge_capacity K b at direction domain (readBit q) (readLightning q) = Inr v" by blast
  note bound = bound_capability_Inr [OF run(4)]
  have skew: "0 \<le> cp_maxClockSkewSeconds (bc_policy b)" using policy_ranges bound by blast
  have v: "vc_declaration v = bc_declaration b" "vc_direction v = direction" "vc_endpointOrigin v = bc_endpointOrigin b"
      "vc_endpointPublicKey v = ek_pem (bc_endpointKey b)" "vc_lightningNodePubkey v = bc_lightningNodePubkey b"
      "vc_chainId v = cp_chainId (bc_policy b)" "vc_settlementContract v = direction_contract (bc_policy b) direction"
      "vc_settlementContractCodeHash v = direction_code_hash (bc_policy b) direction"
    using judge_capacity_Inr [OF run(11,2,3) skew] by blast+
  have "de_direction (bc_declaration b) = cx_id K direction" using run(5) by (auto simp: declared_direction_def split: if_splits)
  moreover have "claims_current (bc_policy b) at (bc_declaration b)" using declaration_reasons_Nil [OF run(7)] bound by blast
  moreover have "keys_proven K node (bc_policy b) v" by (rule run_proves_keys [where node = node, OF run(4,5,6,8) v(1,7,3,4,5)])
  moreover have "capacity_read readBit readLightning (bc_policy b) at v" by (rule run_reads_capacity [where readBit = readBit and readLightning = readLightning, OF run(11,2,3) skew run(9,10)])
  ultimately show ?thesis using bound run(1) v by metis
qed

section \<open>A sample\<close>

lemma UINT256_MAX_value [code]: "UINT256_MAX = 115792089237316195423570985008687907853269984665640564039457584007913129639935"
  by (simp add: UINT256_MAX_def)

text \<open>A capability for 5000 wei of BIT and 90000 sats, whose readers report a little more.\<close>

definition repeated_hash :: "char \<Rightarrow> string" where
  "repeated_hash c = ''0x'' @ replicate 64 c"

definition repeated_account :: "char \<Rightarrow> string" where
  "repeated_account c = ''0x'' @ replicate 40 c"

definition capability_node :: string where
  "capability_node = ''02'' @ replicate 64 (CHR ''7'')"

definition capability_keys :: capability_crypto where
  "capability_keys = \<lparr>cx_getAddress = (\<lambda>s. if is_address s then Some s else None),
     cx_id = (\<lambda>s. repeated_hash (if s = ''lightning-to-bit'' then CHR ''d'' else CHR ''e'')),
     cx_keccak256 = (\<lambda>s. repeated_hash (CHR ''8'')), cx_hashClaims = (\<lambda>domain d. repeated_hash (CHR ''9'')),
     cx_hashCapability = (\<lambda>domain d. repeated_hash (CHR ''a'')), cx_verifyTypedData = (\<lambda>domain d signature. Some (de_solver d)),
     cx_URL = (\<lambda>s. Some \<lparr>url_protocol = ''https:'', url_username = [], url_password = [], url_pathname = ''/'', url_search = [],
       url_hash = [], url_origin = s\<rparr>),
     cx_createPublicKey = (\<lambda>s. Some \<lparr>ek_algorithm = ''ed25519'', ek_spki = s, ek_pem = s\<rparr>), cx_verify = (\<lambda>message key signature. True)\<rparr>"

definition capability_sample_policy :: jsval where
  "capability_sample_policy = JObj [(''chainId'', JStr ''1''), (''lightningToBitContract'', JStr (repeated_account (CHR ''c''))),
     (''bitToLightningContract'', JStr (repeated_account (CHR ''b''))), (''lightningToBitContractCodeHash'', JStr (repeated_hash (CHR ''1''))),
     (''bitToLightningContractCodeHash'', JStr (repeated_hash (CHR ''2''))), (''maxCapabilityTtlSeconds'', JInt 600),
     (''maxCapacityObservationAgeSeconds'', JInt 60), (''maxClockSkewSeconds'', JInt 30)]"

definition capability_envelope :: jsval where
  "capability_envelope = JObj [(''endpointOrigin'', JStr ''https://solver.example''), (''endpointPublicKey'', JStr ''pem''),
     (''endpointSignature'', JStr (replicate 86 (CHR ''A'') @ ''=='')), (''evmSignature'', JStr (''0x'' @ replicate 130 (CHR ''a''))),
     (''lightningNodePubkey'', JStr capability_node), (''lightningSignature'', JStr (replicate 104 (CHR ''y''))),
     (''declaration'', JObj [(''capabilityId'', JStr (repeated_hash (CHR ''7''))), (''direction'', JStr (repeated_hash (CHR ''d''))),
       (''solver'', JStr (repeated_account (CHR ''5''))), (''lightningNodePubkeyDigest'', JStr (repeated_hash (CHR ''8''))),
       (''endpointPublicKeyDigest'', JStr (repeated_hash (CHR ''8''))), (''endpointOriginDigest'', JStr (repeated_hash (CHR ''8''))),
       (''availableBitWei'', JStr ''5000''), (''availableLightningSats'', JStr ''90000''), (''capacityEpoch'', JInt 3),
       (''issuedAt'', JInt 990), (''expiresAt'', JInt 1500), (''proofChallenge'', JStr (repeated_hash (CHR ''9'')))])]"

definition capability_answer :: "string \<Rightarrow> string \<Rightarrow> jsval option" where
  "capability_answer message signature = Some (JObj [(''pubkey'', JStr capability_node), (''valid'', JBool True)])"

definition inventory_reading :: "capacity_query \<Rightarrow> jsval option" where
  "inventory_reading q = Some (JObj [(''availableBitWei'', JStr ''5100''), (''observedAt'', JInt 980), (''solverId'', JStr (cq_solverId q))])"

definition lightning_reading :: "capacity_query \<Rightarrow> jsval option" where
  "lightning_reading q = Some (JObj [(''availableLightningSats'', JStr ''90001''), (''capacityEpoch'', JBigInt (cq_capacityEpoch q)),
     (''nodePubkey'', JStr (cq_lightningNodePubkey q)), (''observedAt'', JInt 1010)])"

definition sample_verification :: "capability_verification result" where
  "sample_verification = verifySolverCapability capability_keys capability_envelope (JInt 1000) capability_sample_policy
     capability_answer inventory_reading lightning_reading"

lemma sample_verified: "\<exists>v. sample_verification = Inr (Inr v) \<and> vc_observedAt v = 980"
proof -
  have "case sample_verification of Inr (Inr v) \<Rightarrow> vc_observedAt v = 980 | _ \<Rightarrow> False" by code_simp
  then show ?thesis by (auto split: sum.splits)
qed

theorem verified_capability_sound_witness:
  "\<exists>v p. sample_verification = Inr (Inr v) \<and> normalizeCapabilityPolicy capability_keys capability_sample_policy = Inr p
    \<and> claims_current p 1000 (vc_declaration v) \<and> capacity_read inventory_reading lightning_reading p 1000 v"
proof -
  obtain v where v: "sample_verification = Inr (Inr v)" using sample_verified by blast
  from verified_capability_sound [OF v [unfolded sample_verification_def]] v show ?thesis by auto
qed

end
