(* ===== verification/RFQ_Quotes.thy ===== *)
theory RFQ_Quotes
  imports Solver_Capability "HOL-Library.Product_Lexorder"
begin

text \<open>
  The quote book of a request (\<^verbatim>\<open>src/lib/rfq.mjs\<close>): the request and its digest, the policy, the check of
  a solver's signed offer, the book of the best valid offer of each solver, and the selection from it.
  The Ethereum library is the parameter record \<open>Q\<close>.
\<close>

section \<open>\<^verbatim>\<open>Number(value)\<close>\<close>

text \<open>
  The double nearest to the ratio \<open>p / q\<close> of non-negative integers, where it is an integer.  Below
  \<open>2 ^ 53\<close> the double has \<open>k\<close> fractional bits: as many as keep 53 significant bits, at most 1074.
\<close>

primrec fraction_bits :: "nat \<Rightarrow> int \<Rightarrow> int \<Rightarrow> nat" where
  "fraction_bits 0 p q = 0"
| "fraction_bits (Suc b) p q = (if 2 * p < q * 9007199254740992 then Suc (fraction_bits b (2 * p) q) else 0)"

definition nearest_integer_double :: "int \<Rightarrow> int \<Rightarrow> int option" where
  "nearest_integer_double p q =
     (if p div q \<ge> 9007199254740992 then Some (p div q)
      else let k = fraction_bits 1074 p q; n = round_half_even (p * 2 ^ k) q div q in
        if n mod 2 ^ k = 0 then Some (n div 2 ^ k) else None)"

text \<open>The decimal grammar of \<^verbatim>\<open>Number(string)\<close>: digits, a fraction, an exponent.\<close>

fun decimal_exponent :: "string \<Rightarrow> int option" where
  "decimal_exponent [] = Some 0"
| "decimal_exponent (c # t) =
     (if c \<noteq> CHR ''e'' \<and> c \<noteq> CHR ''E'' then None
      else let digits = (if take 1 t = ''-'' \<or> take 1 t = ''+'' then drop 1 t else t) in
        if digits = [] \<or> \<not> list_all is_digit digits then None
        else Some (if take 1 t = ''-'' then - dec_val digits else dec_val digits))"

definition decimal_number :: "string \<Rightarrow> int option" where
  "decimal_number s =
     (let whole = takeWhile is_digit s; rest = dropWhile is_digit s;
          fraction = (if take 1 rest = ''.'' then takeWhile is_digit (drop 1 rest) else []);
          rest' = (if take 1 rest = ''.'' then dropWhile is_digit (drop 1 rest) else rest) in
      if whole @ fraction = [] then None
      else (case decimal_exponent rest' of
          None \<Rightarrow> None
        | Some e \<Rightarrow> let d = e - int (length fraction); m = dec_val (whole @ fraction) in
            if 0 \<le> d then nearest_integer_double (m * 10 ^ nat d) 1 else nearest_integer_double m (10 ^ nat (- d))))"

definition string_number :: "string \<Rightarrow> int option" where
  "string_number raw = (let s = js_trim raw; p = take 2 s; t = drop 2 s in
     if s = [] then Some 0
     else if (p = ''0x'' \<or> p = ''0X'') \<and> t \<noteq> [] \<and> list_all is_hex t then Some (js_round (radix_val 16 t))
     else if (p = ''0o'' \<or> p = ''0O'') \<and> t \<noteq> [] \<and> list_all (\<lambda>c. c \<in> set ''01234567'') t then Some (js_round (radix_val 8 t))
     else if (p = ''0b'' \<or> p = ''0B'') \<and> t \<noteq> [] \<and> list_all (\<lambda>c. c \<in> set ''01'') t then Some (js_round (radix_val 2 t))
     else if take 1 s = ''-'' then map_option uminus (decimal_number (drop 1 s))
     else if take 1 s = ''+'' then decimal_number (drop 1 s)
     else decimal_number s)"

text \<open>\<open>None\<close> stands for a number that is not an integer, infinite or not a number.\<close>

fun js_Number :: "jsval \<Rightarrow> int option" where
  "js_Number JUndefined = None"
| "js_Number JNull = Some 0"
| "js_Number (JBool b) = Some (if b then 1 else 0)"
| "js_Number (JInt i) = Some i"
| "js_Number (JNumX s i) = i"
| "js_Number (JBigInt i) = Some (js_round i)"
| "js_Number (JStr s) = string_number s"
| "js_Number (JArr vs) = string_number (js_String (JArr vs))"
| "js_Number (JObj kvs) = None"

definition number_integer :: "jsval \<Rightarrow> string \<Rightarrow> int result" where
  "number_integer v name = integer (case js_Number v of Some i \<Rightarrow> JInt i | None \<Rightarrow> JNumX ''NaN'' None) name"

section \<open>Parameters and validators\<close>

record rfq_domain =
  rd_chainId :: int
  rd_verifyingContract :: string

record executable_binding =
  eb_capabilityDigest :: jsval
  eb_capacitySnapshotDigest :: jsval
  eb_endpointPublicKeyDigest :: jsval
  eb_settlementContractCodeHash :: jsval
  eb_availableBitWei :: int
  eb_availableLightningSats :: int

record solver_offer =
  so_offerId :: jsval
  so_requestId :: jsval
  so_direction :: jsval
  so_user :: string
  so_beneficiary :: string
  so_solver :: string
  so_grossBitAmount :: int
  so_feeBitAmount :: int
  so_lightningAmountSats :: int
  so_maxRoutingFeeSats :: int
  so_paymentHash :: jsval
  so_invoiceDigest :: jsval
  so_requestNonce :: int
  so_offerNonce :: int
  so_expiresAt :: int
  so_capacityEpoch :: int
  so_binding :: "executable_binding option"

record rfq_crypto =
  qx_getAddress :: "string \<Rightarrow> string option"
  qx_id :: "string \<Rightarrow> string"
  qx_keccakText :: "string \<Rightarrow> string"
  qx_verifyTypedData :: "rfq_domain \<Rightarrow> solver_offer \<Rightarrow> string \<Rightarrow> string option"
  qx_hashTypedData :: "rfq_domain \<Rightarrow> solver_offer \<Rightarrow> string"

definition OFFER_FIELDS :: "string list" where
  "OFFER_FIELDS = [''offerId'', ''requestId'', ''direction'', ''user'', ''beneficiary'', ''solver'', ''grossBitAmount'',
     ''feeBitAmount'', ''lightningAmountSats'', ''maxRoutingFeeSats'', ''paymentHash'', ''invoiceDigest'', ''requestNonce'',
     ''offerNonce'', ''expiresAt'', ''capacityEpoch'']"

definition EXECUTABLE_BINDING_FIELDS :: "string list" where
  "EXECUTABLE_BINDING_FIELDS = [''capabilityDigest'', ''capacitySnapshotDigest'', ''endpointPublicKeyDigest'',
     ''settlementContractCodeHash'', ''availableBitWei'', ''availableLightningSats'']"

definition rfq_uint :: "jsval \<Rightarrow> string \<Rightarrow> int \<Rightarrow> int result" where
  "rfq_uint v name maximum =
     (let raw = js_text v; e = TypeError (name @ '' must be a canonical bounded unsigned integer'') in
      if length raw > length (int_str maximum) \<or> \<not> is_uint raw then Inl e
      else if dec_val raw > maximum then Inl e else Inr (dec_val raw))"

definition safeUint :: "jsval \<Rightarrow> string \<Rightarrow> int result" where
  "safeUint v name = rfq_uint v name MAX_SAFE_INTEGER"

definition rfq_address :: "rfq_crypto \<Rightarrow> jsval \<Rightarrow> string \<Rightarrow> string result" where
  "rfq_address Q v name = (case (case v of JStr s \<Rightarrow> qx_getAddress Q s | _ \<Rightarrow> None) of
     None \<Rightarrow> Inl (TypeError (name @ '' must be an Ethereum address'')) | Some a \<Rightarrow> Inr a)"

definition rfq_sameAddress :: "rfq_crypto \<Rightarrow> string \<Rightarrow> string \<Rightarrow> bool" where
  "rfq_sameAddress Q left right = (case (qx_getAddress Q left, qx_getAddress Q right) of
     (Some a, Some b) \<Rightarrow> a = b | _ \<Rightarrow> False)"

definition directionHash :: "rfq_crypto \<Rightarrow> string \<Rightarrow> string result" where
  "directionHash Q direction = (if direction \<noteq> ''lightning-to-bit'' \<and> direction \<noteq> ''bit-to-lightning''
     then Inl (RangeError ''unsupported RFQ direction'') else Inr (qx_id Q direction))"

text \<open>The pattern test \<^verbatim>\<open>BYTES32.test(value)\<close> reads the text of any value.\<close>

definition bytes32_text :: "jsval \<Rightarrow> bool" where
  "bytes32_text v \<longleftrightarrow> is_bytes32 (js_String v)"

section \<open>Request and policy\<close>

record bound_request =
  qr_requestId :: jsval
  qr_direction :: string
  qr_chainId :: int
  qr_verifyingContract :: string
  qr_user :: string
  qr_beneficiary :: string
  qr_paymentHash :: jsval
  qr_invoiceDigest :: jsval
  qr_nonce :: int
  qr_expiresAt :: int
  qr_exactBitOutputWei :: int
  qr_exactLightningOutputSats :: int
  qr_maxRoutingFeeSats :: int
  qr_maxFeeBps :: int

definition RFQ_REQUEST_FIELDS :: "string list" where
  "RFQ_REQUEST_FIELDS = [''beneficiary'', ''chainId'', ''direction'', ''exactBitOutputWei'', ''exactLightningOutputSats'',
     ''expiresAt'', ''invoiceDigest'', ''maxFeeBps'', ''maxRoutingFeeSats'', ''nonce'', ''paymentHash'', ''requestId'',
     ''user'', ''verifyingContract'']"

definition normalizedRequest :: "rfq_crypto \<Rightarrow> jsval \<Rightarrow> bound_request result" where
  "normalizedRequest Q raw =
     bindE (exactKeys raw RFQ_REQUEST_FIELDS ''RFQ request'') (\<lambda>_.
     bindE (case js_get raw ''direction'' of
         JStr d \<Rightarrow> if d \<noteq> ''lightning-to-bit'' \<and> d \<noteq> ''bit-to-lightning'' then Inl (RangeError ''unsupported RFQ direction'') else Inr d
       | _ \<Rightarrow> Inl (RangeError ''unsupported RFQ direction'')) (\<lambda>direction.
     if \<not> bytes32_text (js_get raw ''requestId'') \<or> \<not> bytes32_text (js_get raw ''paymentHash'')
         \<or> \<not> bytes32_text (js_get raw ''invoiceDigest'')
     then Inl (TypeError ''RFQ request identifiers must be lowercase bytes32'')
     else bindE (rfq_uint (js_get raw ''chainId'') ''request.chainId'' UINT256_MAX) (\<lambda>chainId.
     bindE (rfq_address Q (js_get raw ''verifyingContract'') ''request.verifyingContract'') (\<lambda>verifyingContract.
     bindE (rfq_address Q (js_get raw ''user'') ''request.user'') (\<lambda>user.
     bindE (rfq_address Q (js_get raw ''beneficiary'') ''request.beneficiary'') (\<lambda>beneficiary.
     bindE (rfq_uint (js_get raw ''nonce'') ''request.nonce'' UINT256_MAX) (\<lambda>nonce.
     bindE (safeUint (js_get raw ''expiresAt'') ''request.expiresAt'') (\<lambda>expiresAt.
     bindE (rfq_uint (js_get raw ''exactBitOutputWei'') ''request.exactBitOutputWei'' UINT256_MAX) (\<lambda>exactBitOutputWei.
     bindE (rfq_uint (js_get raw ''exactLightningOutputSats'') ''request.exactLightningOutputSats'' UINT64_MAX)
       (\<lambda>exactLightningOutputSats.
     bindE (rfq_uint (js_get raw ''maxRoutingFeeSats'') ''request.maxRoutingFeeSats'' UINT64_MAX) (\<lambda>maxRoutingFeeSats.
     bindE (rfq_uint (js_get raw ''maxFeeBps'') ''request.maxFeeBps'' 10000) (\<lambda>maxFeeBps.
     Inr \<lparr>qr_requestId = js_get raw ''requestId'', qr_direction = direction, qr_chainId = chainId,
       qr_verifyingContract = verifyingContract, qr_user = user, qr_beneficiary = beneficiary,
       qr_paymentHash = js_get raw ''paymentHash'', qr_invoiceDigest = js_get raw ''invoiceDigest'', qr_nonce = nonce,
       qr_expiresAt = expiresAt, qr_exactBitOutputWei = exactBitOutputWei,
       qr_exactLightningOutputSats = exactLightningOutputSats, qr_maxRoutingFeeSats = maxRoutingFeeSats,
       qr_maxFeeBps = maxFeeBps\<rparr>))))))))))))"

text \<open>The frozen object \<open>normalizedRequest\<close> returns, as the functions that take a request see it again.\<close>

definition request_object :: "bound_request \<Rightarrow> jsval" where
  "request_object r = JObj [(''requestId'', qr_requestId r), (''direction'', JStr (qr_direction r)), (''chainId'', JBigInt (qr_chainId r)),
     (''verifyingContract'', JStr (qr_verifyingContract r)), (''user'', JStr (qr_user r)), (''beneficiary'', JStr (qr_beneficiary r)),
     (''paymentHash'', qr_paymentHash r), (''invoiceDigest'', qr_invoiceDigest r), (''nonce'', JBigInt (qr_nonce r)),
     (''expiresAt'', JInt (qr_expiresAt r)), (''exactBitOutputWei'', JBigInt (qr_exactBitOutputWei r)),
     (''exactLightningOutputSats'', JBigInt (qr_exactLightningOutputSats r)),
     (''maxRoutingFeeSats'', JBigInt (qr_maxRoutingFeeSats r)), (''maxFeeBps'', JBigInt (qr_maxFeeBps r))]"

record rfq_policy =
  qp_maxSourceLength :: int
  qp_maxClockSkewSeconds :: int
  qp_maxQuoteTtlSeconds :: int
  qp_maxOffersPerRequest :: int
  qp_minimumIndependentSolvers :: int

definition normalizedPolicy :: "jsval \<Rightarrow> rfq_policy result" where
  "normalizedPolicy raw =
     bindE (exactKeys raw [''maxClockSkewSeconds'', ''maxOffersPerRequest'', ''maxQuoteTtlSeconds'', ''maxSourceLength'',
       ''minimumIndependentSolvers''] ''RFQ policy'') (\<lambda>_.
     bindE (number_integer (js_get raw ''maxSourceLength'') ''policy.maxSourceLength'') (\<lambda>maxSourceLength.
     bindE (number_integer (js_get raw ''maxClockSkewSeconds'') ''policy.maxClockSkewSeconds'') (\<lambda>maxClockSkewSeconds.
     bindE (number_integer (js_get raw ''maxQuoteTtlSeconds'') ''policy.maxQuoteTtlSeconds'') (\<lambda>maxQuoteTtlSeconds.
     bindE (number_integer (js_get raw ''maxOffersPerRequest'') ''policy.maxOffersPerRequest'') (\<lambda>maxOffersPerRequest.
     bindE (number_integer (js_get raw ''minimumIndependentSolvers'') ''policy.minimumIndependentSolvers'') (\<lambda>minimumIndependentSolvers.
     if maxSourceLength = 0 \<or> maxSourceLength > 64 then Inl (RangeError ''RFQ source length is outside policy'')
     else if maxClockSkewSeconds > 60 then Inl (RangeError ''RFQ clock skew is outside policy'')
     else if maxQuoteTtlSeconds = 0 \<or> maxQuoteTtlSeconds > 300 then Inl (RangeError ''RFQ quote lifetime is outside policy'')
     else if maxOffersPerRequest < 2 \<or> maxOffersPerRequest > 128 then Inl (RangeError ''RFQ offer limit is outside policy'')
     else if minimumIndependentSolvers < 2 \<or> minimumIndependentSolvers > maxOffersPerRequest
     then Inl (RangeError ''RFQ independent-solver minimum is outside policy'')
     else Inr \<lparr>qp_maxSourceLength = maxSourceLength, qp_maxClockSkewSeconds = maxClockSkewSeconds,
       qp_maxQuoteTtlSeconds = maxQuoteTtlSeconds, qp_maxOffersPerRequest = maxOffersPerRequest,
       qp_minimumIndependentSolvers = minimumIndependentSolvers\<rparr>))))))"

definition policy_object :: "rfq_policy \<Rightarrow> jsval" where
  "policy_object p = JObj [(''maxSourceLength'', JInt (qp_maxSourceLength p)), (''maxClockSkewSeconds'', JInt (qp_maxClockSkewSeconds p)),
     (''maxQuoteTtlSeconds'', JInt (qp_maxQuoteTtlSeconds p)), (''maxOffersPerRequest'', JInt (qp_maxOffersPerRequest p)),
     (''minimumIndependentSolvers'', JInt (qp_minimumIndependentSolvers p))]"

definition requestPayload :: "bound_request \<Rightarrow> jsval" where
  "requestPayload r = JObj [(''requestId'', qr_requestId r), (''direction'', JStr (qr_direction r)),
     (''chainId'', JStr (int_str (qr_chainId r))), (''verifyingContract'', JStr (qr_verifyingContract r)), (''user'', JStr (qr_user r)),
     (''beneficiary'', JStr (qr_beneficiary r)), (''paymentHash'', qr_paymentHash r), (''invoiceDigest'', qr_invoiceDigest r),
     (''nonce'', JStr (int_str (qr_nonce r))), (''expiresAt'', JInt (qr_expiresAt r)),
     (''exactBitOutputWei'', JStr (int_str (qr_exactBitOutputWei r))),
     (''exactLightningOutputSats'', JStr (int_str (qr_exactLightningOutputSats r))),
     (''maxRoutingFeeSats'', JStr (int_str (qr_maxRoutingFeeSats r))), (''maxFeeBps'', JStr (int_str (qr_maxFeeBps r)))]"

text \<open>
  The module's \<^verbatim>\<open>canonicalize\<close> prints what the store's prints, on every value the store's accepts; a
  payload consists of strings, a safe integer and the identifiers, which read as strings.
\<close>

definition requestDigest :: "rfq_crypto \<Rightarrow> bound_request \<Rightarrow> string result" where
  "requestDigest Q r = bindE (canonicalize (requestPayload r)) (\<lambda>t. Inr (qx_keccakText Q t))"

definition rfqRequestDigest :: "rfq_crypto \<Rightarrow> jsval \<Rightarrow> string result" where
  "rfqRequestDigest Q request = bindE (normalizedRequest Q request) (requestDigest Q)"

definition rfqRequestPayload :: "rfq_crypto \<Rightarrow> jsval \<Rightarrow> jsval result" where
  "rfqRequestPayload Q request = bindE (normalizedRequest Q request) (\<lambda>r. Inr (requestPayload r))"

definition rfqDomain :: "rfq_crypto \<Rightarrow> jsval \<Rightarrow> rfq_domain result" where
  "rfqDomain Q request =
     bindE (rfq_uint (js_get request ''chainId'') ''request.chainId'' UINT256_MAX) (\<lambda>chainId.
     bindE (rfq_address Q (js_get request ''verifyingContract'') ''request.verifyingContract'') (\<lambda>verifyingContract.
     Inr \<lparr>rd_chainId = chainId, rd_verifyingContract = verifyingContract\<rparr>))"

section \<open>Offers\<close>

definition normalizedOffer :: "rfq_crypto \<Rightarrow> jsval \<Rightarrow> bool \<Rightarrow> solver_offer result" where
  "normalizedOffer Q raw executable =
     bindE (exactKeys raw (if executable then OFFER_FIELDS @ EXECUTABLE_BINDING_FIELDS else OFFER_FIELDS)
       (if executable then ''executable solver offer'' else ''solver offer'')) (\<lambda>_.
     bindE (rfq_address Q (js_get raw ''user'') ''offer.user'') (\<lambda>user.
     bindE (rfq_address Q (js_get raw ''beneficiary'') ''offer.beneficiary'') (\<lambda>beneficiary.
     bindE (rfq_address Q (js_get raw ''solver'') ''offer.solver'') (\<lambda>solver.
     bindE (rfq_uint (js_get raw ''grossBitAmount'') ''offer.grossBitAmount'' UINT256_MAX) (\<lambda>grossBitAmount.
     bindE (rfq_uint (js_get raw ''feeBitAmount'') ''offer.feeBitAmount'' UINT256_MAX) (\<lambda>feeBitAmount.
     bindE (rfq_uint (js_get raw ''lightningAmountSats'') ''offer.lightningAmountSats'' UINT64_MAX) (\<lambda>lightningAmountSats.
     bindE (rfq_uint (js_get raw ''maxRoutingFeeSats'') ''offer.maxRoutingFeeSats'' UINT64_MAX) (\<lambda>maxRoutingFeeSats.
     bindE (rfq_uint (js_get raw ''requestNonce'') ''offer.requestNonce'' UINT256_MAX) (\<lambda>requestNonce.
     bindE (rfq_uint (js_get raw ''offerNonce'') ''offer.offerNonce'' UINT256_MAX) (\<lambda>offerNonce.
     bindE (safeUint (js_get raw ''expiresAt'') ''offer.expiresAt'') (\<lambda>expiresAt.
     bindE (safeUint (js_get raw ''capacityEpoch'') ''offer.capacityEpoch'') (\<lambda>capacityEpoch.
     let offer = \<lparr>so_offerId = js_get raw ''offerId'', so_requestId = js_get raw ''requestId'', so_direction = js_get raw ''direction'',
       so_user = user, so_beneficiary = beneficiary, so_solver = solver, so_grossBitAmount = grossBitAmount,
       so_feeBitAmount = feeBitAmount, so_lightningAmountSats = lightningAmountSats, so_maxRoutingFeeSats = maxRoutingFeeSats,
       so_paymentHash = js_get raw ''paymentHash'', so_invoiceDigest = js_get raw ''invoiceDigest'', so_requestNonce = requestNonce,
       so_offerNonce = offerNonce, so_expiresAt = expiresAt, so_capacityEpoch = capacityEpoch, so_binding = None\<rparr> in
     if \<not> executable then Inr offer
     else bindE (mapE (\<lambda>field. if bytes32_text (js_get raw field) then Inr (js_get raw field)
         else Inl (TypeError (''offer.'' @ field @ '' must be lowercase bytes32'')))
         [''capabilityDigest'', ''capacitySnapshotDigest'', ''endpointPublicKeyDigest'', ''settlementContractCodeHash'']) (\<lambda>_.
     bindE (rfq_uint (js_get raw ''availableBitWei'') ''offer.availableBitWei'' UINT256_MAX) (\<lambda>availableBitWei.
     bindE (rfq_uint (js_get raw ''availableLightningSats'') ''offer.availableLightningSats'' UINT64_MAX) (\<lambda>availableLightningSats.
     Inr (offer\<lparr>so_binding := Some \<lparr>eb_capabilityDigest = js_get raw ''capabilityDigest'',
       eb_capacitySnapshotDigest = js_get raw ''capacitySnapshotDigest'',
       eb_endpointPublicKeyDigest = js_get raw ''endpointPublicKeyDigest'',
       eb_settlementContractCodeHash = js_get raw ''settlementContractCodeHash'', eb_availableBitWei = availableBitWei,
       eb_availableLightningSats = availableLightningSats\<rparr>\<rparr>))))))))))))))))"

definition inputAmount :: "string \<Rightarrow> solver_offer \<Rightarrow> int" where
  "inputAmount direction offer = (if direction = ''lightning-to-bit'' then so_lightningAmountSats offer else so_grossBitAmount offer)"

record quote_envelope =
  qe_source :: string
  qe_receivedAt :: int
  qe_signature :: string
  qe_offer :: solver_offer

text \<open>
  \<^verbatim>\<open>compareEnvelopes\<close> as the key it compares: input amount, time of receipt, offer identifier.  A valid
  offer has a bytes32 identifier, on which \<^verbatim>\<open>localeCompare\<close> is the order of the code units.
\<close>

definition envelope_key :: "string \<Rightarrow> quote_envelope \<Rightarrow> int \<times> int \<times> string" where
  "envelope_key direction e = (inputAmount direction (qe_offer e), qe_receivedAt e, js_String (so_offerId (qe_offer e)))"

text \<open>
  \<^verbatim>\<open>canonicalRelaySource\<close> of \<^verbatim>\<open>src/lib/untrusted-text.mjs\<close>.  A source that matches the pattern
  \<^verbatim>\<open>/^[a-z0-9](?:[a-z0-9._:-]{0,62}[a-z0-9])?$/\<close> is its own display text up to its length, so the comparison
  with the display text only bounds the length; any other source is refused whatever its display text.
\<close>

definition is_relay_source :: "string \<Rightarrow> bool" where
  "is_relay_source s \<longleftrightarrow> s \<noteq> [] \<and> length s \<le> 64
     \<and> hd s \<in> set ''abcdefghijklmnopqrstuvwxyz0123456789'' \<and> last s \<in> set ''abcdefghijklmnopqrstuvwxyz0123456789''
     \<and> list_all (\<lambda>c. c \<in> set ''abcdefghijklmnopqrstuvwxyz0123456789._:-'') s"

definition canonicalRelaySource :: "jsval \<Rightarrow> int \<Rightarrow> string result" where
  "canonicalRelaySource v maxLength =
     (let source = js_text v in
      if maxLength < 1 \<or> maxLength > 4096 then Inl (RangeError ''maxLength must be an integer from 1 through 4096'')
      else if int (length source) > maxLength \<or> \<not> is_relay_source source then Inl (TypeError ''invalid quote source'')
      else Inr source)"

definition ZERO_BYTES32 :: string where
  "ZERO_BYTES32 = ''0x'' @ replicate 64 (CHR ''0'')"

text \<open>The reasons against an offer that concern the request, in the order of the source.\<close>

definition request_reasons :: "rfq_crypto \<Rightarrow> bound_request \<Rightarrow> rfq_policy \<Rightarrow> solver_offer \<Rightarrow> int \<Rightarrow> int \<Rightarrow> string list" where
  "request_reasons Q r p offer observedAt receivedAt =
     addReason (num_add observedAt (qp_maxClockSkewSeconds p) < receivedAt) ''quote receipt time is in the future''
     @ addReason (\<not> bytes32_text (so_offerId offer) \<or> \<not> bytes32_text (so_requestId offer)) ''invalid offer or request identifier''
     @ addReason (\<not> bytes32_text (so_paymentHash offer) \<or> \<not> bytes32_text (so_invoiceDigest offer)) ''invalid payment or invoice digest''
     @ addReason (\<not> js_strict_eq (so_requestId offer) (qr_requestId r)) ''offer belongs to a different request''
     @ addReason (\<not> js_strict_eq (so_direction offer) (JStr (qx_id Q (qr_direction r)))) ''offer direction changed''
     @ addReason (\<not> rfq_sameAddress Q (so_user offer) (qr_user r)) ''offer user changed''
     @ addReason (\<not> rfq_sameAddress Q (so_beneficiary offer) (qr_beneficiary r)) ''offer beneficiary changed''
     @ (if qr_direction r = ''lightning-to-bit''
        then addReason (\<not> js_strict_eq (qr_paymentHash r) (JStr ZERO_BYTES32) \<or> \<not> js_strict_eq (qr_invoiceDigest r) (JStr ZERO_BYTES32))
               ''Lightning-to-BIT request must leave solver invoice fields unbound''
             @ addReason (js_strict_eq (so_paymentHash offer) (JStr ZERO_BYTES32) \<or> js_strict_eq (so_invoiceDigest offer) (JStr ZERO_BYTES32))
               ''Lightning-to-BIT solver offer must bind its own invoice''
        else addReason (\<not> js_strict_eq (so_paymentHash offer) (qr_paymentHash r)) ''offer payment hash changed''
             @ addReason (\<not> js_strict_eq (so_invoiceDigest offer) (qr_invoiceDigest r)) ''offer invoice digest changed'')
     @ addReason (so_requestNonce offer \<noteq> qr_nonce r) ''offer request nonce changed''
     @ addReason (so_grossBitAmount offer = 0 \<or> so_lightningAmountSats offer = 0 \<or> so_feeBitAmount offer \<ge> so_grossBitAmount offer)
         ''offer amount is invalid''
     @ addReason (so_expiresAt offer \<le> observedAt) ''offer expired''
     @ addReason (so_expiresAt offer > qr_expiresAt r) ''offer outlives the request''
     @ addReason (so_expiresAt offer > num_add observedAt (qp_maxQuoteTtlSeconds p)) ''offer expiry exceeds the short-lived quote limit''
     @ addReason (so_maxRoutingFeeSats offer > qr_maxRoutingFeeSats r) ''routing fee cap changed''
     @ addReason (so_feeBitAmount offer * 10000 > so_grossBitAmount offer * qr_maxFeeBps r) ''BIT fee exceeds the user cap''
     @ (if qr_direction r = ''lightning-to-bit''
        then addReason (so_grossBitAmount offer - so_feeBitAmount offer \<noteq> qr_exactBitOutputWei r) ''exact BIT output changed''
        else addReason (so_lightningAmountSats offer \<noteq> qr_exactLightningOutputSats r) ''exact Lightning output changed'')"

text \<open>The reasons that concern the verified capability of the solver.\<close>

definition capability_reasons :: "rfq_crypto \<Rightarrow> bound_request \<Rightarrow> solver_offer \<Rightarrow> executable_binding \<Rightarrow> quote_binding \<Rightarrow> string list" where
  "capability_reasons Q r offer b c =
     addReason (qc_chainId c \<noteq> qr_chainId r) ''capability chain changed''
     @ addReason (qc_direction c \<noteq> qr_direction r) ''capability direction changed''
     @ addReason (\<not> rfq_sameAddress Q (qc_solverId c) (so_solver offer)) ''capability belongs to another solver''
     @ addReason (\<not> rfq_sameAddress Q (qc_settlementContract c) (qr_verifyingContract r)) ''capability settlement contract changed''
     @ addReason (\<not> js_strict_eq (eb_capabilityDigest b) (JStr (qc_capabilityDigest c))) ''capability digest changed''
     @ addReason (\<not> js_strict_eq (eb_capacitySnapshotDigest b) (JStr (qc_capacitySnapshotDigest c))) ''capacity snapshot digest changed''
     @ addReason (\<not> js_strict_eq (eb_endpointPublicKeyDigest b) (JStr (qc_endpointPublicKeyDigest c))) ''solver endpoint key changed''
     @ addReason (\<not> js_strict_eq (eb_settlementContractCodeHash b) (JStr (qc_settlementContractCodeHash c)))
         ''settlement contract version changed''
     @ addReason (so_capacityEpoch offer \<noteq> qc_capacityEpoch c) ''offer capacity declaration is stale''
     @ addReason (eb_availableBitWei b \<noteq> qc_availableBitWei c) ''verified BIT inventory snapshot changed''
     @ addReason (eb_availableLightningSats b \<noteq> qc_availableLightningSats c) ''verified Lightning capacity snapshot changed''
     @ addReason (so_expiresAt offer > qc_expiresAt c) ''offer outlives the verified capability''
     @ (if qr_direction r = ''lightning-to-bit''
        then addReason (eb_availableBitWei b < so_grossBitAmount offer) ''offer exceeds prefunded solver BIT inventory''
             @ addReason (eb_availableLightningSats b < so_lightningAmountSats offer) ''offer exceeds verified inbound Lightning capacity''
        else addReason (eb_availableBitWei b \<noteq> 0) ''BIT-to-Lightning offer must not claim solver BIT inventory''
             @ addReason (eb_availableLightningSats b < so_lightningAmountSats offer + so_maxRoutingFeeSats offer)
               ''offer exceeds verified outbound Lightning capacity'')"

text \<open>
  The recovered signer.  The encoder of the library takes bytes32 values as strings (or byte arrays, which
  are not plain data) and throws on anything else.
\<close>

fun is_text :: "jsval \<Rightarrow> bool" where
  "is_text (JStr s) = True"
| "is_text _ = False"

definition bytes_as_text :: "solver_offer \<Rightarrow> bool" where
  "bytes_as_text offer \<longleftrightarrow> list_all is_text ([so_offerId offer, so_requestId offer, so_direction offer, so_paymentHash offer,
     so_invoiceDigest offer] @ (case so_binding offer of None \<Rightarrow> [] | Some b \<Rightarrow> [eb_capabilityDigest b, eb_capacitySnapshotDigest b,
     eb_endpointPublicKeyDigest b, eb_settlementContractCodeHash b]))"

definition recovered_signer :: "rfq_crypto \<Rightarrow> bound_request \<Rightarrow> solver_offer \<Rightarrow> string \<Rightarrow> string option" where
  "recovered_signer Q r offer signature = (case rfqDomain Q (request_object r) of
     Inl _ \<Rightarrow> None
   | Inr domain \<Rightarrow> if bytes_as_text offer then qx_verifyTypedData Q domain offer signature else None)"

definition signature_reasons :: "rfq_crypto \<Rightarrow> bound_request \<Rightarrow> solver_offer \<Rightarrow> string \<Rightarrow> string list" where
  "signature_reasons Q r offer signature =
     (if \<not> (length signature = 132 \<and> take 2 signature = ''0x'' \<and> list_all is_hex (drop 2 signature))
      then [''solver signature is not canonical'']
      else (case recovered_signer Q r offer signature of
          None \<Rightarrow> [''solver signature is invalid'']
        | Some recovered \<Rightarrow> addReason (\<not> rfq_sameAddress Q recovered (so_solver offer)) ''solver signature is invalid''))"

text \<open>Reading a property of undefined or null throws.\<close>

definition js_property :: "jsval \<Rightarrow> string \<Rightarrow> jsval result" where
  "js_property v k = (if v = JUndefined \<or> v = JNull
     then Inl (TypeError (''Cannot read properties of '' @ js_String v @ '' (reading '' @ [CHR 0x27] @ k @ [CHR 0x27] @ '')''))
     else Inr (js_get v k))"

record offer_validation =
  ov_valid :: bool
  ov_reasons :: "string list"
  ov_envelope :: "quote_envelope option"

text \<open>The checked parts of an input: the throwing block of the source.\<close>

definition bound_offer ::
    "rfq_crypto \<Rightarrow> jsval \<Rightarrow> jsval \<Rightarrow> verified_capability option \<Rightarrow> jsval \<Rightarrow> bool
      \<Rightarrow> (bound_request \<times> rfq_policy \<times> string \<times> solver_offer \<times> quote_binding option) result" where
  "bound_offer Q request envelope capabilityVerification policy executable =
     bindE (normalizedRequest Q request) (\<lambda>r.
     bindE (normalizedPolicy policy) (\<lambda>p.
     bindE (canonicalRelaySource (js_get envelope ''source'') (qp_maxSourceLength p)) (\<lambda>source.
     bindE (normalizedOffer Q (if js_get envelope ''offer'' \<in> {JUndefined, JNull} then JObj [] else js_get envelope ''offer'') executable) (\<lambda>offer.
     bindE (if executable then bindE (verifiedSolverQuoteBinding capabilityVerification) (\<lambda>c. Inr (Some c)) else Inr None) (\<lambda>c.
     Inr (r, p, source, offer, c))))))"

text \<open>The judgement of a checked offer.\<close>

definition offer_judgement ::
    "rfq_crypto \<Rightarrow> jsval \<Rightarrow> int \<Rightarrow> int \<Rightarrow> bound_request \<times> rfq_policy \<times> string \<times> solver_offer \<times> quote_binding option \<Rightarrow> offer_validation" where
  "offer_judgement Q envelope observedAt receivedAt = (\<lambda>(r, p, source, offer, c).
     let signature = js_text (js_get envelope ''signature'');
         reasons = request_reasons Q r p offer observedAt receivedAt
           @ (case (c, so_binding offer) of (Some c, Some b) \<Rightarrow> capability_reasons Q r offer b c | _ \<Rightarrow> [])
           @ signature_reasons Q r offer signature in
     \<lparr>ov_valid = (reasons = []), ov_reasons = reasons,
       ov_envelope = Some \<lparr>qe_source = source, qe_receivedAt = receivedAt, qe_signature = signature, qe_offer = offer\<rparr>\<rparr>)"

definition validateSolverOffer ::
    "rfq_crypto \<Rightarrow> jsval \<Rightarrow> jsval \<Rightarrow> jsval \<Rightarrow> jsval \<Rightarrow> verified_capability option \<Rightarrow> bool \<Rightarrow> offer_validation result" where
  "validateSolverOffer Q request envelope now policy capabilityVerification executable =
     bindE (integer now ''now'') (\<lambda>observedAt.
     bindE (js_property envelope ''receivedAt'') (\<lambda>received.
     bindE (integer received ''envelope.receivedAt'') (\<lambda>receivedAt.
     case bound_offer Q request envelope capabilityVerification policy executable of
       Inl e \<Rightarrow> Inr \<lparr>ov_valid = False, ov_reasons = [error_message e], ov_envelope = None\<rparr>
     | Inr bound \<Rightarrow> Inr (offer_judgement Q envelope observedAt receivedAt bound))))"

definition validateExecutableSolverOffer ::
    "rfq_crypto \<Rightarrow> jsval \<Rightarrow> jsval \<Rightarrow> verified_capability option \<Rightarrow> jsval \<Rightarrow> jsval \<Rightarrow> offer_validation result" where
  "validateExecutableSolverOffer Q request envelope capabilityVerification now policy =
     validateSolverOffer Q request envelope now policy capabilityVerification True"

section \<open>The quote book\<close>

text \<open>The verified capabilities by lower-case solver.\<close>

definition index_capability :: "verified_capability option \<Rightarrow> (string \<times> verified_capability option) list \<Rightarrow> (string \<times> verified_capability option) list result" where
  "index_capability verification index =
     bindE (verifiedSolverQuoteBinding verification) (\<lambda>b.
     let solverId = toLowerCase (qc_solverId b) in
     if map_of index solverId \<noteq> None then Inl (Error ''solver capability set contains a duplicate solver'')
     else Inr (index @ [(solverId, verification)]))"

text \<open>\<open>None\<close> is a capability argument that is not an array.\<close>

definition capability_index :: "verified_capability option list option \<Rightarrow> (string \<times> verified_capability option) list result" where
  "capability_index capabilityVerifications = (case capabilityVerifications of
     None \<Rightarrow> Inl (TypeError ''executable quote verification requires locally verified solver capabilities'')
   | Some verifications \<Rightarrow> foldE index_capability verifications [])"

record collection =
  cl_valid :: "quote_envelope list"
  cl_rejected :: "(jsval \<times> string list) list"
  cl_offerIds :: "jsval list"
  cl_paymentHashes :: "jsval list"
  cl_invoiceDigests :: "jsval list"

text \<open>\<^verbatim>\<open>set.has(value)\<close>, and the offer identifier a rejection names.\<close>

definition js_has :: "jsval list \<Rightarrow> jsval \<Rightarrow> bool" where
  "js_has seen v = list_ex (js_strict_eq v) seen"

definition named_offer :: "offer_validation \<Rightarrow> jsval \<Rightarrow> jsval" where
  "named_offer result envelope =
     (let normalized = (case ov_envelope result of None \<Rightarrow> JUndefined | Some e \<Rightarrow> so_offerId (qe_offer e));
          raw = js_get (js_get envelope ''offer'') ''offerId'' in
      if normalized \<notin> {JUndefined, JNull} then normalized else if raw \<notin> {JUndefined, JNull} then raw else JStr ''unknown'')"

definition collect_quote ::
    "rfq_crypto \<Rightarrow> bound_request \<Rightarrow> rfq_policy \<Rightarrow> (string \<times> verified_capability option) list \<Rightarrow> bool \<Rightarrow> jsval \<Rightarrow> jsval \<Rightarrow> collection \<Rightarrow> collection result" where
  "collect_quote Q r p capabilityBySolver executable now envelope s =
     (let capability = (if \<not> executable then None
          else case rfq_address Q (js_get (js_get envelope ''offer'') ''solver'') ''offer.solver'' of
            Inl _ \<Rightarrow> None | Inr a \<Rightarrow> (case map_of capabilityBySolver (toLowerCase a) of None \<Rightarrow> None | Some v \<Rightarrow> v)) in
      bindE (validateSolverOffer Q (request_object r) envelope now (policy_object p) capability executable) (\<lambda>result.
      let offerId = named_offer result envelope;
          paymentHash = (case ov_envelope result of None \<Rightarrow> JUndefined | Some e \<Rightarrow> so_paymentHash (qe_offer e));
          invoice = (case ov_envelope result of None \<Rightarrow> JUndefined | Some e \<Rightarrow> so_invoiceDigest (qe_offer e));
          duplicateInvoice = (qr_direction r = ''lightning-to-bit''
            \<and> (js_has (cl_paymentHashes s) paymentHash \<or> js_has (cl_invoiceDigests s) invoice)) in
      case (ov_valid result, ov_envelope result) of
        (True, Some e) \<Rightarrow>
          if js_has (cl_offerIds s) offerId \<or> duplicateInvoice
          then Inr (s\<lparr>cl_rejected := cl_rejected s @ [(offerId, if js_has (cl_offerIds s) offerId then [''duplicate offer identifier'']
            else [''Lightning-to-BIT solver offers must use distinct invoices''])]\<rparr>)
          else Inr \<lparr>cl_valid = cl_valid s @ [e], cl_rejected = cl_rejected s, cl_offerIds = offerId # cl_offerIds s,
            cl_paymentHashes = (if qr_direction r = ''lightning-to-bit'' then paymentHash # cl_paymentHashes s else cl_paymentHashes s),
            cl_invoiceDigests = (if qr_direction r = ''lightning-to-bit'' then invoice # cl_invoiceDigests s else cl_invoiceDigests s)\<rparr>
      | _ \<Rightarrow> Inr (s\<lparr>cl_rejected := cl_rejected s @ [(offerId, ov_reasons result)]\<rparr>)))"

text \<open>The best valid offer of each solver, from the sorted offers.\<close>

fun best_per_solver :: "string list \<Rightarrow> quote_envelope list \<Rightarrow> quote_envelope list \<times> (jsval \<times> string list) list" where
  "best_per_solver seenSolvers [] = ([], [])"
| "best_per_solver seenSolvers (e # es) =
     (let solver = toLowerCase (so_solver (qe_offer e)) in
      if solver \<in> set seenSolvers
      then (case best_per_solver seenSolvers es of (unique, rejected) \<Rightarrow>
        (unique, (so_offerId (qe_offer e), [''only the best valid offer per solver is retained'']) # rejected))
      else (case best_per_solver (solver # seenSolvers) es of (unique, rejected) \<Rightarrow> (e # unique, rejected)))"

text \<open>\<^verbatim>\<open>JSON.stringify(receipt)\<close>.\<close>

definition receipt_entry :: "rfq_crypto \<Rightarrow> rfq_domain \<Rightarrow> quote_envelope \<Rightarrow> string" where
  "receipt_entry Q domain e =
     ''{'' @ json_string ''offerDigest'' @ '':'' @ json_string (qx_hashTypedData Q domain (qe_offer e))
     @ '','' @ json_string ''source'' @ '':'' @ json_string (qe_source e)
     @ '','' @ json_string ''receivedAt'' @ '':'' @ int_str (qe_receivedAt e)
     @ '','' @ json_string ''signature'' @ '':'' @ json_string (qe_signature e) @ ''}''"

definition receipt_text :: "rfq_crypto \<Rightarrow> rfq_domain \<Rightarrow> quote_envelope list \<Rightarrow> string" where
  "receipt_text Q domain es = ''['' @ js_join (map (receipt_entry Q domain) es) @ '']''"

record quote_book =
  qb_requestId :: jsval
  qb_requestDigest :: string
  qb_label :: string
  qb_executable :: bool
  qb_deliveryAuthenticated :: bool
  qb_receiptDigest :: string
  qb_offerReceiptDigest :: string
  qb_solverCount :: nat
  qb_sourceCount :: nat
  qb_offers :: "quote_envelope list"
  qb_rejected :: "(jsval \<times> string list) list"

definition empty_collection :: collection where
  "empty_collection = \<lparr>cl_valid = [], cl_rejected = [], cl_offerIds = [], cl_paymentHashes = [], cl_invoiceDigests = []\<rparr>"

definition buildQuoteBook ::
    "rfq_crypto \<Rightarrow> jsval \<Rightarrow> jsval \<Rightarrow> verified_capability option list option \<Rightarrow> bool \<Rightarrow> jsval \<Rightarrow> jsval \<Rightarrow> quote_book result" where
  "buildQuoteBook Q request envelopes capabilityVerifications executable now policy =
     bindE (case envelopes of JArr es \<Rightarrow> Inr es | _ \<Rightarrow> Inl (TypeError ''envelopes must be an array'')) (\<lambda>es.
     bindE (normalizedRequest Q request) (\<lambda>r.
     bindE (normalizedPolicy policy) (\<lambda>p.
     if int (length es) > qp_maxOffersPerRequest p then Inl (RangeError ''quote response exceeds the bounded offer limit'')
     else bindE (if executable then capability_index capabilityVerifications else Inr []) (\<lambda>capabilityBySolver.
     bindE (foldE (collect_quote Q r p capabilityBySolver executable now) es empty_collection) (\<lambda>c.
     let (unique, extra) = best_per_solver [] (sort_key (envelope_key (qr_direction r)) (cl_valid c)) in
     if int (length unique) < qp_minimumIndependentSolvers p then Inl (RangeError ''not enough independent valid solver offers'')
     else bindE (rfqDomain Q (request_object r)) (\<lambda>domain.
     bindE (requestDigest Q r) (\<lambda>d.
     let receipt = qx_keccakText Q (receipt_text Q domain unique) in
     Inr \<lparr>qb_requestId = qr_requestId r, qb_requestDigest = d, qb_label = ''Best received quote'', qb_executable = executable,
       qb_deliveryAuthenticated = False, qb_receiptDigest = receipt, qb_offerReceiptDigest = receipt, qb_solverCount = length unique,
       qb_sourceCount = length (remdups (map qe_source unique)), qb_offers = unique, qb_rejected = cl_rejected c @ extra\<rparr>)))))))"

definition buildReceivedQuoteBook :: "rfq_crypto \<Rightarrow> jsval \<Rightarrow> jsval \<Rightarrow> jsval \<Rightarrow> jsval \<Rightarrow> quote_book result" where
  "buildReceivedQuoteBook Q request envelopes now policy = buildQuoteBook Q request envelopes None False now policy"

definition buildExecutableQuoteBook ::
    "rfq_crypto \<Rightarrow> jsval \<Rightarrow> jsval \<Rightarrow> verified_capability option list option \<Rightarrow> jsval \<Rightarrow> jsval \<Rightarrow> quote_book result" where
  "buildExecutableQuoteBook Q request envelopes capabilityVerifications now policy =
     buildQuoteBook Q request envelopes capabilityVerifications True now policy"

section \<open>Selection\<close>

record quote_selection =
  qs_executable :: bool
  qs_deliveryAuthenticated :: bool
  qs_requestId :: jsval
  qs_receiptDigest :: string
  qs_selected :: quote_envelope
  qs_requiresExactUserAuthorization :: bool

text \<open>The module recognizes the books it built; \<open>None\<close> is any other value.\<close>

definition selectReceivedQuote :: "quote_book option \<Rightarrow> jsval \<Rightarrow> quote_selection result" where
  "selectReceivedQuote book offerId = (case book of
     None \<Rightarrow> Inl (TypeError ''quote book must be built from locally verified offers'')
   | Some b \<Rightarrow>
       (case List.find (\<lambda>e. js_strict_eq (so_offerId (qe_offer e)) offerId) (qb_offers b) of
          None \<Rightarrow> Inl (RangeError ''selected quote is not in the verified received set'')
        | Some e \<Rightarrow> Inr \<lparr>qs_executable = qb_executable b, qs_deliveryAuthenticated = False, qs_requestId = qb_requestId b,
            qs_receiptDigest = qb_receiptDigest b, qs_selected = e, qs_requiresExactUserAuthorization = True\<rparr>))"

definition selectExecutableQuote :: "quote_book option \<Rightarrow> jsval \<Rightarrow> quote_selection result" where
  "selectExecutableQuote book offerId = (case book of
     None \<Rightarrow> Inl (TypeError ''executable selection requires capability-bound locally verified offers'')
   | Some b \<Rightarrow> if \<not> qb_executable b then Inl (TypeError ''executable selection requires capability-bound locally verified offers'')
       else selectReceivedQuote (Some b) offerId)"

definition bindSelectedSolverInvoice :: "unit result" where
  "bindSelectedSolverInvoice = Inl (TypeError ''invoice binding requires privacy-preserving selected-offer finalization'')"

record fallback =
  fb_allowed :: bool
  fb_requiresFreshAuthorization :: bool
  fb_reason :: string

definition fallbackAuthorization :: "quote_selection \<Rightarrow> quote_selection \<Rightarrow> fallback" where
  "fallbackAuthorization previous subsequent =
     (let sameOffer = js_strict_eq (so_offerId (qe_offer (qs_selected previous))) (so_offerId (qe_offer (qs_selected subsequent))) in
      \<lparr>fb_allowed = sameOffer, fb_requiresFreshAuthorization = \<not> sameOffer,
       fb_reason = (if sameOffer then ''same signed offer'' else ''every fallback solver requires a new exact user authorization'')\<rparr>)"

section \<open>Facts\<close>

lemma rfq_uint_Inr: "rfq_uint v name m = Inr i \<Longrightarrow> js_text v = dec_str i \<and> 0 \<le> i \<and> i \<le> m"
  by (auto simp: rfq_uint_def Let_def is_uint_iff dec_val_dec_str split: if_splits)

lemma rfq_uint_again: "0 \<le> i \<Longrightarrow> i \<le> m \<Longrightarrow> js_text v = dec_str i \<Longrightarrow> rfq_uint v name m = Inr i"
  using dec_str_length_mono [of i m] by (simp add: rfq_uint_def Let_def is_uint_dec_str dec_val_dec_str int_str_def)

text \<open>For evaluation: a canonical decimal within the maximum is not longer than it.\<close>

lemma rfq_uint_code [code]:
  "rfq_uint v name m = (let raw = js_text v; e = TypeError (name @ '' must be a canonical bounded unsigned integer'') in
     if m < 0 \<and> length raw > length (int_str m) then Inl e
     else if \<not> is_uint raw then Inl e else if dec_val raw > m then Inl e else Inr (dec_val raw))"
proof -
  have "length (js_text v) \<le> length (int_str m)" if "is_uint (js_text v)" "dec_val (js_text v) \<le> m" "0 \<le> m"
    using that dec_str_length_mono by (auto simp: is_uint_iff dec_val_dec_str int_str_def)
  then show ?thesis by (auto simp: rfq_uint_def Let_def not_less dest!: leD)
qed

lemma number_texts: "0 \<le> i \<Longrightarrow> js_text (JBigInt i) = dec_str i" "0 \<le> i \<Longrightarrow> js_text (JInt i) = dec_str i"
  by (simp_all add: js_text_def int_str_def)

text \<open>The library's canonical address is its own canonical form.\<close>

definition address_stable :: "rfq_crypto \<Rightarrow> bool" where
  "address_stable Q \<longleftrightarrow> (\<forall>s a. qx_getAddress Q s = Some a \<longrightarrow> qx_getAddress Q a = Some a)"

lemma rfq_address_Inr: "rfq_address Q v name = Inr a \<longleftrightarrow> (\<exists>s. v = JStr s \<and> qx_getAddress Q s = Some a)"
  by (auto simp: rfq_address_def split: jsval.splits option.splits)

definition request_ok :: "rfq_crypto \<Rightarrow> bound_request \<Rightarrow> bool" where
  "request_ok Q r \<longleftrightarrow> qr_direction r \<in> {''lightning-to-bit'', ''bit-to-lightning''} \<and> bytes32_text (qr_requestId r)
     \<and> bytes32_text (qr_paymentHash r) \<and> bytes32_text (qr_invoiceDigest r) \<and> 0 \<le> qr_chainId r \<and> qr_chainId r \<le> UINT256_MAX
     \<and> qx_getAddress Q (qr_verifyingContract r) = Some (qr_verifyingContract r) \<and> qx_getAddress Q (qr_user r) = Some (qr_user r)
     \<and> qx_getAddress Q (qr_beneficiary r) = Some (qr_beneficiary r) \<and> 0 \<le> qr_nonce r \<and> qr_nonce r \<le> UINT256_MAX
     \<and> 0 \<le> qr_expiresAt r \<and> qr_expiresAt r \<le> MAX_SAFE_INTEGER \<and> 0 \<le> qr_exactBitOutputWei r \<and> qr_exactBitOutputWei r \<le> UINT256_MAX
     \<and> 0 \<le> qr_exactLightningOutputSats r \<and> qr_exactLightningOutputSats r \<le> UINT64_MAX \<and> 0 \<le> qr_maxRoutingFeeSats r
     \<and> qr_maxRoutingFeeSats r \<le> UINT64_MAX \<and> 0 \<le> qr_maxFeeBps r \<and> qr_maxFeeBps r \<le> 10000"

lemma direction_Inr:
  "(case v of JStr d \<Rightarrow> if P d then Inl e else Inr d | _ \<Rightarrow> Inl e) = Inr x \<longleftrightarrow> v = JStr x \<and> \<not> P x"
  by (cases v) auto

lemma normalizedRequest_ok:
  assumes "normalizedRequest Q raw = Inr r" and "address_stable Q"
  shows "request_ok Q r"
  using assms unfolding normalizedRequest_def safeUint_def
  by (auto simp: bindE_eq_Inr direction_Inr rfq_address_Inr request_ok_def address_stable_def simp del: js_get.simps
      split: if_splits dest!: rfq_uint_Inr)

lemma request_object_keys: "exactKeys (request_object r) RFQ_REQUEST_FIELDS name = Inr ()"
proof -
  have "sort [''requestId'', ''direction'', ''chainId'', ''verifyingContract'', ''user'', ''beneficiary'', ''paymentHash'',
      ''invoiceDigest'', ''nonce'', ''expiresAt'', ''exactBitOutputWei'', ''exactLightningOutputSats'', ''maxRoutingFeeSats'',
      ''maxFeeBps''] = sort RFQ_REQUEST_FIELDS" unfolding RFQ_REQUEST_FIELDS_def by code_simp
  then show ?thesis by (simp add: exactKeys_def request_object_def)
qed

lemma request_object_get:
  "js_get (request_object r) ''requestId'' = qr_requestId r" "js_get (request_object r) ''direction'' = JStr (qr_direction r)"
  "js_get (request_object r) ''chainId'' = JBigInt (qr_chainId r)"
  "js_get (request_object r) ''verifyingContract'' = JStr (qr_verifyingContract r)" "js_get (request_object r) ''user'' = JStr (qr_user r)"
  "js_get (request_object r) ''beneficiary'' = JStr (qr_beneficiary r)" "js_get (request_object r) ''paymentHash'' = qr_paymentHash r"
  "js_get (request_object r) ''invoiceDigest'' = qr_invoiceDigest r" "js_get (request_object r) ''nonce'' = JBigInt (qr_nonce r)"
  "js_get (request_object r) ''expiresAt'' = JInt (qr_expiresAt r)"
  "js_get (request_object r) ''exactBitOutputWei'' = JBigInt (qr_exactBitOutputWei r)"
  "js_get (request_object r) ''exactLightningOutputSats'' = JBigInt (qr_exactLightningOutputSats r)"
  "js_get (request_object r) ''maxRoutingFeeSats'' = JBigInt (qr_maxRoutingFeeSats r)"
  "js_get (request_object r) ''maxFeeBps'' = JBigInt (qr_maxFeeBps r)"
  by (simp_all add: request_object_def)

lemma request_again:
  assumes "request_ok Q r"
  shows "normalizedRequest Q (request_object r) = Inr r"
proof -
  have "rfq_uint (JBigInt (qr_chainId r)) name UINT256_MAX = Inr (qr_chainId r)"
      "rfq_uint (JBigInt (qr_nonce r)) name UINT256_MAX = Inr (qr_nonce r)"
      "safeUint (JInt (qr_expiresAt r)) name = Inr (qr_expiresAt r)"
      "rfq_uint (JBigInt (qr_exactBitOutputWei r)) name UINT256_MAX = Inr (qr_exactBitOutputWei r)"
      "rfq_uint (JBigInt (qr_exactLightningOutputSats r)) name UINT64_MAX = Inr (qr_exactLightningOutputSats r)"
      "rfq_uint (JBigInt (qr_maxRoutingFeeSats r)) name UINT64_MAX = Inr (qr_maxRoutingFeeSats r)"
      "rfq_uint (JBigInt (qr_maxFeeBps r)) name 10000 = Inr (qr_maxFeeBps r)" for name
    using assms unfolding request_ok_def safeUint_def by (auto intro!: rfq_uint_again number_texts)
  moreover have "rfq_address Q (JStr (qr_verifyingContract r)) name = Inr (qr_verifyingContract r)"
      "rfq_address Q (JStr (qr_user r)) name = Inr (qr_user r)" "rfq_address Q (JStr (qr_beneficiary r)) name = Inr (qr_beneficiary r)" for name
    using assms by (simp_all add: request_ok_def rfq_address_Inr)
  ultimately show ?thesis
    using assms unfolding normalizedRequest_def request_object_keys request_object_get request_ok_def by auto
qed

definition policy_ok :: "rfq_policy \<Rightarrow> bool" where
  "policy_ok p \<longleftrightarrow> 1 \<le> qp_maxSourceLength p \<and> qp_maxSourceLength p \<le> 64 \<and> 0 \<le> qp_maxClockSkewSeconds p \<and> qp_maxClockSkewSeconds p \<le> 60
     \<and> 1 \<le> qp_maxQuoteTtlSeconds p \<and> qp_maxQuoteTtlSeconds p \<le> 300 \<and> 2 \<le> qp_minimumIndependentSolvers p
     \<and> qp_minimumIndependentSolvers p \<le> qp_maxOffersPerRequest p \<and> qp_maxOffersPerRequest p \<le> 128"

lemma number_integer_Inr: "number_integer v name = Inr i \<Longrightarrow> 0 \<le> i"
  by (auto simp: number_integer_def result_simps split: option.splits)

lemma normalizedPolicy_ok:
  assumes "normalizedPolicy raw = Inr p"
  shows "policy_ok p"
  using assms unfolding normalizedPolicy_def
  by (auto simp: bindE_eq_Inr policy_ok_def simp del: js_get.simps split: if_splits dest!: number_integer_Inr)

lemma policy_again:
  assumes "policy_ok p"
  shows "normalizedPolicy (policy_object p) = Inr p"
proof -
  have "sort [''maxSourceLength'', ''maxClockSkewSeconds'', ''maxQuoteTtlSeconds'', ''maxOffersPerRequest'', ''minimumIndependentSolvers'']
      = sort [''maxClockSkewSeconds'', ''maxOffersPerRequest'', ''maxQuoteTtlSeconds'', ''maxSourceLength'', ''minimumIndependentSolvers'']"
    by code_simp
  then have keys: "exactKeys (policy_object p) [''maxClockSkewSeconds'', ''maxOffersPerRequest'', ''maxQuoteTtlSeconds'', ''maxSourceLength'',
      ''minimumIndependentSolvers''] name = Inr ()" for name
    by (simp add: exactKeys_def policy_object_def)
  have num: "0 \<le> i \<Longrightarrow> i \<le> 300 \<Longrightarrow> number_integer (JInt i) name = Inr i" for i name
    by (simp add: number_integer_def integer_Inr MAX_SAFE_INTEGER_def)
  show ?thesis
    using assms unfolding normalizedPolicy_def keys by (cases p) (auto simp: policy_object_def policy_ok_def num)
qed

section \<open>A valid offer\<close>

text \<open>The offer answers the request: its parties, amounts, caps and times.\<close>

definition quote_fits :: "rfq_crypto \<Rightarrow> bound_request \<Rightarrow> rfq_policy \<Rightarrow> int \<Rightarrow> solver_offer \<Rightarrow> bool" where
  "quote_fits Q r p at offer \<longleftrightarrow> so_requestId offer = qr_requestId r \<and> so_direction offer = JStr (qx_id Q (qr_direction r))
     \<and> rfq_sameAddress Q (so_user offer) (qr_user r) \<and> rfq_sameAddress Q (so_beneficiary offer) (qr_beneficiary r)
     \<and> so_requestNonce offer = qr_nonce r \<and> 0 < so_lightningAmountSats offer \<and> so_feeBitAmount offer < so_grossBitAmount offer
     \<and> so_feeBitAmount offer * 10000 \<le> so_grossBitAmount offer * qr_maxFeeBps r
     \<and> so_maxRoutingFeeSats offer \<le> qr_maxRoutingFeeSats r
     \<and> at < so_expiresAt offer \<and> so_expiresAt offer \<le> qr_expiresAt r \<and> so_expiresAt offer \<le> at + qp_maxQuoteTtlSeconds p
     \<and> (if qr_direction r = ''lightning-to-bit''
        then so_grossBitAmount offer - so_feeBitAmount offer = qr_exactBitOutputWei r
          \<and> so_paymentHash offer \<noteq> JStr ZERO_BYTES32 \<and> so_invoiceDigest offer \<noteq> JStr ZERO_BYTES32
        else so_lightningAmountSats offer = qr_exactLightningOutputSats r
          \<and> so_paymentHash offer = qr_paymentHash r \<and> so_invoiceDigest offer = qr_invoiceDigest r)"

text \<open>The solver signed exactly this offer for the contract of the request.\<close>

definition quote_signed :: "rfq_crypto \<Rightarrow> bound_request \<Rightarrow> quote_envelope \<Rightarrow> bool" where
  "quote_signed Q r e \<longleftrightarrow> (\<exists>signer. rfq_sameAddress Q signer (so_solver (qe_offer e))
     \<and> qx_verifyTypedData Q \<lparr>rd_chainId = qr_chainId r, rd_verifyingContract = qr_verifyingContract r\<rparr> (qe_offer e) (qe_signature e) = Some signer)"

text \<open>The offer is covered by a capability of its solver for this contract and direction.\<close>

definition quote_backed :: "rfq_crypto \<Rightarrow> bound_request \<Rightarrow> quote_binding \<Rightarrow> solver_offer \<Rightarrow> bool" where
  "quote_backed Q r c offer \<longleftrightarrow> qc_chainId c = qr_chainId r \<and> qc_direction c = qr_direction r
     \<and> rfq_sameAddress Q (qc_solverId c) (so_solver offer) \<and> rfq_sameAddress Q (qc_settlementContract c) (qr_verifyingContract r)
     \<and> so_capacityEpoch offer = qc_capacityEpoch c \<and> so_expiresAt offer \<le> qc_expiresAt c
     \<and> (\<exists>b. so_binding offer = Some b \<and> eb_capabilityDigest b = JStr (qc_capabilityDigest c)
        \<and> eb_capacitySnapshotDigest b = JStr (qc_capacitySnapshotDigest c))
     \<and> (if qr_direction r = ''lightning-to-bit''
        then so_grossBitAmount offer \<le> qc_availableBitWei c \<and> so_lightningAmountSats offer \<le> qc_availableLightningSats c
        else so_lightningAmountSats offer + so_maxRoutingFeeSats offer \<le> qc_availableLightningSats c)"

lemma normalizedOffer_Inr:
  assumes "normalizedOffer Q raw executable = Inr offer"
  shows "0 \<le> so_expiresAt offer \<and> so_expiresAt offer \<le> MAX_SAFE_INTEGER \<and> 0 \<le> so_lightningAmountSats offer
    \<and> (so_binding offer = None) = (\<not> executable)"
  using assms unfolding normalizedOffer_def safeUint_def Let_def
  by (cases executable) (auto simp: bindE_eq_Inr simp del: js_get.simps dest!: rfq_uint_Inr)

lemma request_reasons_Nil:
  assumes "request_reasons Q r p offer at received = []" and "0 \<le> so_expiresAt offer" "so_expiresAt offer \<le> MAX_SAFE_INTEGER"
    and "0 \<le> so_lightningAmountSats offer"
  shows "quote_fits Q r p at offer"
proof -
  have "so_expiresAt offer \<le> num_add at (qp_maxQuoteTtlSeconds p) \<longleftrightarrow> so_expiresAt offer \<le> at + qp_maxQuoteTtlSeconds p"
    using assms(2,3) unfolding num_add_def by (intro js_round_ge_iff) (simp_all add: MAX_SAFE_INTEGER_def)
  moreover have "v = w" if "js_strict_eq v w" for v w using that by (rule js_strict_eq_imp)
  moreover have "js_strict_eq v (JStr s)" if "v = JStr s" for v s using that by simp
  ultimately show ?thesis
    using assms(1,4) unfolding request_reasons_def quote_fits_def
    by (simp add: not_less not_le split: if_splits) (auto dest: js_strict_eq_imp)
qed

lemma capability_reasons_Nil:
  assumes "capability_reasons Q r offer b c = []" and "so_binding offer = Some b"
  shows "quote_backed Q r c offer"
  using assms unfolding capability_reasons_def quote_backed_def
  by (auto simp: not_less dest!: js_strict_eq_imp split: if_splits)

lemma domain_of_request: "request_ok Q r \<Longrightarrow> rfqDomain Q (request_object r)
    = Inr \<lparr>rd_chainId = qr_chainId r, rd_verifyingContract = qr_verifyingContract r\<rparr>"
  using rfq_uint_again [OF _ _ number_texts(1), of "qr_chainId r" UINT256_MAX]
  by (simp add: rfqDomain_def request_object_get request_ok_def rfq_address_def)

lemma signature_reasons_Nil:
  assumes "signature_reasons Q r offer signature = []" and "request_ok Q r"
  shows "quote_signed Q r \<lparr>qe_source = s, qe_receivedAt = at, qe_signature = signature, qe_offer = offer\<rparr> \<and> bytes_as_text offer"
  using assms unfolding signature_reasons_def recovered_signer_def domain_of_request [OF assms(2)]
  by (auto simp: quote_signed_def split: if_splits option.splits)

text \<open>Everything a valid check establishes, for a request and a policy that are already normalized.\<close>

definition quote_good :: "rfq_crypto \<Rightarrow> bound_request \<Rightarrow> rfq_policy \<Rightarrow> jsval \<Rightarrow> quote_envelope \<Rightarrow> bool" where
  "quote_good Q r p now e \<longleftrightarrow> (\<exists>at. now = JInt at \<and> quote_fits Q r p at (qe_offer e)) \<and> quote_signed Q r e \<and> bytes_as_text (qe_offer e)"

lemma valid_offer:
  assumes "validateSolverOffer Q (request_object r) envelope now (policy_object p) capability executable = Inr v" and "ov_valid v"
    and r: "request_ok Q r" and p: "policy_ok p"
  shows "\<exists>e. ov_envelope v = Some e \<and> quote_good Q r p now e \<and> (executable \<longrightarrow> (\<exists>c. capability = Some c \<and> quote_backed Q r (quote_binding_of c) (qe_offer e)))"
proof -
  let ?bound = "bound_offer Q (request_object r) envelope capability (policy_object p) executable"
  from assms(1,2) obtain at received bound where at: "now = JInt at" "?bound = Inr bound" "offer_judgement Q envelope at received bound = v"
    unfolding validateSolverOffer_def by (cases ?bound) (auto simp: bindE_eq_Inr integer_Inr)
  obtain source offer c where b: "bound = (r, p, source, offer, c)"
    using at(2) by (auto simp: bound_offer_def bindE_eq_Inr request_again [OF r] policy_again [OF p])
  define signature where "signature = js_text (js_get envelope ''signature'')"
  have v: "now = JInt at" "?bound = Inr (r, p, source, offer, c)"
      "ov_envelope v = Some \<lparr>qe_source = source, qe_receivedAt = received, qe_signature = signature, qe_offer = offer\<rparr>"
      "request_reasons Q r p offer at received = []" "signature_reasons Q r offer signature = []"
      "(case (c, so_binding offer) of (Some c, Some b) \<Rightarrow> capability_reasons Q r offer b c | _ \<Rightarrow> []) = []"
    using at(1,2) at(3) [symmetric] assms(2) by (simp_all add: b offer_judgement_def Let_def signature_def)
  from v(2) have offer: "\<exists>raw. normalizedOffer Q raw executable = Inr offer" "executable \<longrightarrow> (\<exists>v. capability = Some v \<and> c = Some (quote_binding_of v))"
    unfolding bound_offer_def by (auto simp: bindE_eq_Inr verifiedSolverQuoteBinding_def split: if_splits option.splits)
  then have n: "0 \<le> so_expiresAt offer \<and> so_expiresAt offer \<le> MAX_SAFE_INTEGER \<and> 0 \<le> so_lightningAmountSats offer
      \<and> (so_binding offer = None) = (\<not> executable)" using normalizedOffer_Inr by blast
  have "quote_fits Q r p at offer" using request_reasons_Nil [OF v(4)] n by simp
  moreover have "\<exists>v. capability = Some v \<and> quote_backed Q r (quote_binding_of v) offer" if executable
  proof -
    from that offer(2) n obtain v' b where cb: "capability = Some v'" "c = Some (quote_binding_of v')" "so_binding offer = Some b" by auto
    with v(6) have "capability_reasons Q r offer b (quote_binding_of v') = []" by simp
    from capability_reasons_Nil [OF this cb(3)] cb(1) show ?thesis by blast
  qed
  ultimately show ?thesis using v(1,3) signature_reasons_Nil [OF v(5) r] by (auto simp: quote_good_def)
qed

section \<open>The book\<close>

definition solver_of :: "quote_envelope \<Rightarrow> string" where
  "solver_of e = toLowerCase (so_solver (qe_offer e))"

definition offer_id :: "quote_envelope \<Rightarrow> jsval" where
  "offer_id e = so_offerId (qe_offer e)"

definition covered :: "rfq_crypto \<Rightarrow> bound_request \<Rightarrow> (string \<times> verified_capability option) list \<Rightarrow> quote_envelope \<Rightarrow> bool" where
  "covered Q r index e \<longleftrightarrow> (\<exists>c. Some c \<in> snd ` set index \<and> quote_backed Q r (quote_binding_of c) (qe_offer e))"

text \<open>The loop over the envelopes: what it has accepted is valid and without repetition.\<close>

definition collected :: "rfq_crypto \<Rightarrow> bound_request \<Rightarrow> rfq_policy \<Rightarrow> (string \<times> verified_capability option) list \<Rightarrow> bool \<Rightarrow> jsval \<Rightarrow> collection \<Rightarrow> bool" where
  "collected Q r p index executable now s \<longleftrightarrow>
     (\<forall>e\<in>set (cl_valid s). quote_good Q r p now e \<and> (executable \<longrightarrow> covered Q r index e))
     \<and> distinct (map offer_id (cl_valid s)) \<and> cl_offerIds s = rev (map offer_id (cl_valid s))
     \<and> (qr_direction r = ''lightning-to-bit'' \<longrightarrow>
          distinct (map (\<lambda>e. so_paymentHash (qe_offer e)) (cl_valid s)) \<and> distinct (map (\<lambda>e. so_invoiceDigest (qe_offer e)) (cl_valid s))
          \<and> cl_paymentHashes s = rev (map (\<lambda>e. so_paymentHash (qe_offer e)) (cl_valid s))
          \<and> cl_invoiceDigests s = rev (map (\<lambda>e. so_invoiceDigest (qe_offer e)) (cl_valid s)))"

lemma js_has_text: "is_text v \<Longrightarrow> js_has seen v \<longleftrightarrow> v \<in> set seen"
  by (cases v) (auto simp: js_has_def list_ex_iff)

lemma collect_quote_ok:
  assumes "collect_quote Q r p index executable now envelope s = Inr s'" and ok: "collected Q r p index executable now s"
    and r: "request_ok Q r" and p: "policy_ok p"
  shows "collected Q r p index executable now s'"
proof -
  define capability where "capability = (if \<not> executable then None
      else case rfq_address Q (js_get (js_get envelope ''offer'') ''solver'') ''offer.solver'' of
        Inl _ \<Rightarrow> None | Inr a \<Rightarrow> (case map_of index (toLowerCase a) of None \<Rightarrow> None | Some v \<Rightarrow> v))"
  from assms(1) obtain v where v: "validateSolverOffer Q (request_object r) envelope now (policy_object p) capability executable = Inr v"
    unfolding collect_quote_def Let_def capability_def [symmetric] by (auto simp: bindE_eq_Inr)
  show ?thesis
  proof (cases "ov_valid v")
    case False
    with assms(1) v have "cl_valid s' = cl_valid s" "cl_offerIds s' = cl_offerIds s" "cl_paymentHashes s' = cl_paymentHashes s"
        "cl_invoiceDigests s' = cl_invoiceDigests s"
      unfolding collect_quote_def Let_def capability_def [symmetric] by (auto simp del: js_get.simps)
    with ok show ?thesis by (simp add: collected_def)
  next
    case True
    from valid_offer [OF v True r p] obtain e where e: "ov_envelope v = Some e" "quote_good Q r p now e"
        "executable \<longrightarrow> (\<exists>c. capability = Some c \<and> quote_backed Q r (quote_binding_of c) (qe_offer e))" by blast
    have texts: "is_text (offer_id e)" "is_text (so_paymentHash (qe_offer e))" "is_text (so_invoiceDigest (qe_offer e))"
      using e(2) by (simp_all add: quote_good_def bytes_as_text_def offer_id_def)
    then have named: "named_offer v envelope = offer_id e"
      unfolding named_offer_def e(1) Let_def offer_id_def option.case by (metis insertE is_text.simps(2,3) singletonD)
    have backed: "executable \<longrightarrow> covered Q r index e"
      using e(3) unfolding covered_def by (force simp: capability_def split: if_splits sum.splits option.splits dest!: map_of_SomeD)
    show ?thesis
      using assms(1) v True e(1,2) backed ok texts
      unfolding collect_quote_def Let_def capability_def [symmetric]
      by (auto simp: named js_has_text collected_def offer_id_def [symmetric] simp del: js_get.simps split: if_splits)
  qed
qed

lemma collect_counts:
  "foldE (collect_quote Q r p index executable now) es s = Inr c \<Longrightarrow>
   length (cl_valid c) + length (cl_rejected c) = length (cl_valid s) + length (cl_rejected s) + length es"
proof (induction es arbitrary: s)
  case (Cons x xs)
  then obtain t where t: "collect_quote Q r p index executable now x s = Inr t" "foldE (collect_quote Q r p index executable now) xs t = Inr c"
    by (auto simp: bindE_eq_Inr)
  have "length (cl_valid t) + length (cl_rejected t) = Suc (length (cl_valid s) + length (cl_rejected s))"
    using t(1) unfolding collect_quote_def Let_def
    by (auto simp: bindE_eq_Inr simp del: js_get.simps split: if_splits bool.splits option.splits)
  with Cons.IH [OF t(2)] show ?case by simp
qed simp

lemma best_per_solver:
  assumes "best_per_solver seen es = (unique, extra)"
  shows "set unique \<subseteq> set es" "distinct (map solver_of unique)" "set (map solver_of unique) \<inter> set seen = {}"
    "length unique + length extra = length es" "distinct (map f es) \<Longrightarrow> distinct (map f unique)"
    "sorted (map key es) \<Longrightarrow> sorted (map key unique)"
    "sorted (map key es) \<Longrightarrow> e \<in> set es \<Longrightarrow> solver_of e \<notin> set seen \<Longrightarrow> \<exists>b\<in>set unique. solver_of b = solver_of e \<and> key b \<le> key e"
proof -
  have all: "best_per_solver seen es = (unique, extra) \<Longrightarrow> set unique \<subseteq> set es \<and> distinct (map solver_of unique)
    \<and> set (map solver_of unique) \<inter> set seen = {} \<and> length unique + length extra = length es
    \<and> (distinct (map f es) \<longrightarrow> distinct (map f unique)) \<and> (sorted (map key es) \<longrightarrow> sorted (map key unique)
    \<and> (\<forall>e\<in>set es. solver_of e \<notin> set seen \<longrightarrow> (\<exists>b\<in>set unique. solver_of b = solver_of e \<and> key b \<le> key e)))" for seen es unique extra
  proof (induction seen es arbitrary: unique extra rule: best_per_solver.induct)
    case (2 seen e es)
    show ?case
    proof (cases "solver_of e \<in> set seen")
      case True
      with 2 obtain x where "best_per_solver seen es = (unique, x)" "extra = (so_offerId (qe_offer e), [''only the best valid offer per solver is retained'']) # x"
        by (auto simp: Let_def solver_of_def split: prod.splits)
      with "2.IH"(1) [OF refl, of unique x] True show ?thesis by (auto simp: solver_of_def)
    next
      case False
      with 2 obtain u where u: "best_per_solver (solver_of e # seen) es = (u, extra)" "unique = e # u"
        by (auto simp: Let_def solver_of_def split: prod.splits)
      from "2.IH"(2) [OF refl, of u extra] False u show ?thesis
        by (auto simp: solver_of_def)
    qed
  qed simp
  from all [OF assms] show "set unique \<subseteq> set es" "distinct (map solver_of unique)" "set (map solver_of unique) \<inter> set seen = {}"
    "length unique + length extra = length es" "distinct (map f es) \<Longrightarrow> distinct (map f unique)"
    "sorted (map key es) \<Longrightarrow> sorted (map key unique)"
    "sorted (map key es) \<Longrightarrow> e \<in> set es \<Longrightarrow> solver_of e \<notin> set seen \<Longrightarrow> \<exists>b\<in>set unique. solver_of b = solver_of e \<and> key b \<le> key e"
    by blast+
qed


lemma book_built:
  assumes "buildQuoteBook Q request envelopes verifications executable now policy = Inr book" and "address_stable Q"
  shows "\<exists>es r p index c extra. envelopes = JArr es \<and> normalizedRequest Q request = Inr r \<and> normalizedPolicy policy = Inr p
    \<and> request_ok Q r \<and> policy_ok p \<and> (executable \<longrightarrow> capability_index verifications = Inr index)
    \<and> foldE (collect_quote Q r p index executable now) es empty_collection = Inr c \<and> collected Q r p index executable now c
    \<and> best_per_solver [] (sort_key (envelope_key (qr_direction r)) (cl_valid c)) = (qb_offers book, extra)
    \<and> qb_rejected book = cl_rejected c @ extra \<and> qp_minimumIndependentSolvers p \<le> int (length (qb_offers book))
    \<and> qb_executable book = executable \<and> qb_requestId book = qr_requestId r"
proof -
  from assms(1) obtain es r p index c extra where b: "envelopes = JArr es" "normalizedRequest Q request = Inr r" "normalizedPolicy policy = Inr p"
      "executable \<longrightarrow> capability_index verifications = Inr index"
      "foldE (collect_quote Q r p index executable now) es empty_collection = Inr c"
      "best_per_solver [] (sort_key (envelope_key (qr_direction r)) (cl_valid c)) = (qb_offers book, extra)"
      "qb_rejected book = cl_rejected c @ extra" "qp_minimumIndependentSolvers p \<le> int (length (qb_offers book))"
      "qb_executable book = executable" "qb_requestId book = qr_requestId r"
    unfolding buildQuoteBook_def Let_def
    by (auto simp: bindE_eq_Inr prod_case_eq_Inr if_Inl_eq_Inr not_less split: jsval.splits if_splits)
  have ok: "request_ok Q r" "policy_ok p" using normalizedRequest_ok [OF b(2) assms(2)] normalizedPolicy_ok [OF b(3)] .
  have "collected Q r p index executable now empty_collection" by (simp add: collected_def empty_collection_def)
  with b(5) have "collected Q r p index executable now c"
    by (rule foldE_invariant) (rule collect_quote_ok [OF _ _ ok])
  with b ok show ?thesis by blast
qed


text \<open>
  Property C40.  The book keeps the best quotes and accounts for every answer.  Each received envelope is an
  offer of the book or is rejected with its reasons, never lost or counted twice; the offers are ordered by
  input amount, time of receipt and identifier; and for each accepted envelope the book has an offer of the
  same solver that is at least as good, so the first offer is the cheapest that was accepted.
\<close>

theorem best_quotes_kept:
  assumes "buildQuoteBook Q request envelopes verifications executable now policy = Inr book" and "address_stable Q"
  shows "\<exists>es r p index c. envelopes = JArr es \<and> normalizedRequest Q request = Inr r \<and> normalizedPolicy policy = Inr p
    \<and> foldE (collect_quote Q r p index executable now) es empty_collection = Inr c
    \<and> length (qb_offers book) + length (qb_rejected book) = length es
    \<and> set (qb_offers book) \<subseteq> set (cl_valid c) \<and> sorted (map (envelope_key (qr_direction r)) (qb_offers book))
    \<and> (\<forall>e\<in>set (cl_valid c). (\<exists>b\<in>set (qb_offers book). solver_of b = solver_of e
           \<and> envelope_key (qr_direction r) b \<le> envelope_key (qr_direction r) e)
         \<and> envelope_key (qr_direction r) (hd (qb_offers book)) \<le> envelope_key (qr_direction r) e)"
proof -
  from book_built [OF assms] obtain es r p index c extra where b: "envelopes = JArr es" "normalizedRequest Q request = Inr r"
      "normalizedPolicy policy = Inr p" "foldE (collect_quote Q r p index executable now) es empty_collection = Inr c"
      "best_per_solver [] (sort_key (envelope_key (qr_direction r)) (cl_valid c)) = (qb_offers book, extra)"
      "qb_rejected book = cl_rejected c @ extra" by blast
  let ?k = "envelope_key (qr_direction r)"
  note best = best_per_solver [OF b(5)]
  have s: "sorted (map ?k (sort_key ?k (cl_valid c)))" by simp
  have "length (qb_offers book) + length (qb_rejected book) = length es"
    using best(4) b(6) collect_counts [OF b(4)] by (simp add: empty_collection_def)
  moreover have sub: "set (qb_offers book) \<subseteq> set (cl_valid c)" using best(1) by simp
  moreover have sorted: "sorted (map ?k (qb_offers book))" by (rule best(6) [OF s])
  moreover have kept: "\<exists>b\<in>set (qb_offers book). solver_of b = solver_of e \<and> ?k b \<le> ?k e" if "e \<in> set (cl_valid c)" for e
    by (rule best(7) [OF s]) (use that in simp_all)
  moreover have "?k (hd (qb_offers book)) \<le> ?k e" if e: "e \<in> set (cl_valid c)" for e
  proof -
    from kept [OF e] obtain b where "b \<in> set (qb_offers book)" "?k b \<le> ?k e" by blast
    moreover from this sorted have "?k (hd (qb_offers book)) \<le> ?k b" by (cases "qb_offers book") auto
    ultimately show ?thesis by (meson order_trans)
  qed
  ultimately show ?thesis using b(1-4) by blast
qed

section \<open>A sample\<close>

text \<open>Three answers of two solvers to a request for 990 wei of BIT: the second answer of the first solver is dearer.\<close>

definition quote_crypto :: rfq_crypto where
  "quote_crypto = \<lparr>qx_getAddress = (\<lambda>s. if is_address s then Some s else None), qx_id = (\<lambda>s. repeated_hash (CHR ''d'')),
     qx_keccakText = (\<lambda>t. repeated_hash (CHR ''e'')), qx_verifyTypedData = (\<lambda>domain offer signature. Some (so_solver offer)),
     qx_hashTypedData = (\<lambda>domain offer. repeated_hash (CHR ''f''))\<rparr>"

definition quote_request :: jsval where
  "quote_request = JObj [(''requestId'', JStr (repeated_hash (CHR ''1''))), (''direction'', JStr ''lightning-to-bit''),
     (''chainId'', JStr ''1''), (''verifyingContract'', JStr (repeated_account (CHR ''c''))), (''user'', JStr (repeated_account (CHR ''a''))),
     (''beneficiary'', JStr (repeated_account (CHR ''b''))), (''paymentHash'', JStr ZERO_BYTES32), (''invoiceDigest'', JStr ZERO_BYTES32),
     (''nonce'', JStr ''7''), (''expiresAt'', JInt 2000), (''exactBitOutputWei'', JStr ''990''),
     (''exactLightningOutputSats'', JStr ''0''), (''maxRoutingFeeSats'', JStr ''5''), (''maxFeeBps'', JStr ''100'')]"

definition quote_policy :: jsval where
  "quote_policy = JObj [(''maxSourceLength'', JInt 64), (''maxClockSkewSeconds'', JInt 30), (''maxQuoteTtlSeconds'', JInt 300),
     (''maxOffersPerRequest'', JInt 8), (''minimumIndependentSolvers'', JInt 2)]"

definition quote_answer :: "char \<Rightarrow> char \<Rightarrow> string \<Rightarrow> jsval" where
  "quote_answer solver n sats = JObj [(''source'', JStr ''relay-1''), (''receivedAt'', JInt 1000),
     (''signature'', JStr (''0x'' @ replicate 130 (CHR ''a''))), (''offer'', JObj [(''offerId'', JStr (repeated_hash n)),
     (''requestId'', JStr (repeated_hash (CHR ''1''))), (''direction'', JStr (repeated_hash (CHR ''d''))), (''user'', JStr (repeated_account (CHR ''a''))),
     (''beneficiary'', JStr (repeated_account (CHR ''b''))), (''solver'', JStr (repeated_account solver)), (''grossBitAmount'', JStr ''1000''),
     (''feeBitAmount'', JStr ''10''), (''lightningAmountSats'', JStr sats), (''maxRoutingFeeSats'', JStr ''5''),
     (''paymentHash'', JStr (repeated_hash n)), (''invoiceDigest'', JStr (repeated_hash n)), (''requestNonce'', JStr ''7''),
     (''offerNonce'', JStr ''1''), (''expiresAt'', JInt 1100), (''capacityEpoch'', JInt 3),
     (''capabilityDigest'', JStr (repeated_hash (CHR ''8''))), (''capacitySnapshotDigest'', JStr (repeated_hash (CHR ''9''))),
     (''endpointPublicKeyDigest'', JStr (repeated_hash (CHR ''8''))), (''settlementContractCodeHash'', JStr (repeated_hash (CHR ''9''))),
     (''availableBitWei'', JStr ''5000''), (''availableLightningSats'', JStr ''90000'')])]"

definition quote_capability :: "char \<Rightarrow> verified_capability option" where
  "quote_capability solver = Some \<lparr>vc_capabilityDigest = repeated_hash (CHR ''8''), vc_capacitySnapshotDigest = repeated_hash (CHR ''9''),
     vc_chainId = 1, vc_direction = ''lightning-to-bit'', vc_endpointOrigin = ''https://solver.example'', vc_endpointPublicKey = ''pem'',
     vc_lightningNodePubkey = ''02'' @ replicate 64 (CHR ''7''), vc_settlementContract = repeated_account (CHR ''c''),
     vc_settlementContractCodeHash = repeated_hash (CHR ''9''), vc_observedAt = 990,
     vc_declaration = \<lparr>de_capabilityId = repeated_hash (CHR ''7''), de_direction = repeated_hash (CHR ''d''), de_solver = repeated_account solver,
       de_lightningNodePubkeyDigest = repeated_hash (CHR ''7''), de_endpointPublicKeyDigest = repeated_hash (CHR ''8''),
       de_endpointOriginDigest = repeated_hash (CHR ''7''), de_availableBitWei = 5000, de_availableLightningSats = 90000,
       de_capacityEpoch = 3, de_issuedAt = 900, de_expiresAt = 1500, de_proofChallenge = repeated_hash (CHR ''7'')\<rparr>\<rparr>"

definition sample_quotes :: jsval where
  "sample_quotes = JArr [quote_answer (CHR ''1'') (CHR ''3'') ''51000'', quote_answer (CHR ''2'') (CHR ''4'') ''50500'',
     quote_answer (CHR ''1'') (CHR ''5'') ''50000'']"

definition sample_book :: "quote_book result" where
  "sample_book = buildQuoteBook quote_crypto quote_request sample_quotes (Some [quote_capability (CHR ''1''), quote_capability (CHR ''2'')])
     True (JInt 1000) quote_policy"

lemma sample_book_built:
  "\<exists>book. sample_book = Inr book \<and> map solver_of (qb_offers book) = [repeated_account (CHR ''1''), repeated_account (CHR ''2'')]
    \<and> length (qb_rejected book) = 1"
proof -
  have "case sample_book of Inl e \<Rightarrow> False | Inr book \<Rightarrow> map solver_of (qb_offers book) = [repeated_account (CHR ''1''), repeated_account (CHR ''2'')]
    \<and> length (qb_rejected book) = 1" by code_simp
  then show ?thesis by (auto split: sum.splits)
qed

lemma quote_crypto_stable: "address_stable quote_crypto"
  by (simp add: address_stable_def quote_crypto_def)


theorem best_quotes_kept_witness:
  "\<exists>book. sample_book = Inr book \<and> length (qb_offers book) + length (qb_rejected book) = 3"
proof -
  obtain book where book: "sample_book = Inr book" using sample_book_built by blast
  from best_quotes_kept [OF this [unfolded sample_book_def] quote_crypto_stable] book show ?thesis
    by (auto simp: sample_quotes_def)
qed

end
