(* ===== verification/Spec2Isabelle.thy ===== *)
theory Spec2Isabelle
  imports Store_Properties Daemon_Properties Runner_Properties Invoice_Policy Risk_Policy Units Settlement_Policy
    RFQ_Quotes
begin

text \<open>
  \<^bold>\<open>Verification of the TreeSwap coordinator.\<close>

  TreeSwap swaps Bitcoin over Lightning against the BIT token.  Solvers answer a user's request for
  quotes with signed firm offers; the user selects one; both parties sign a contract intent for an
  escrow on Ethereum; then one leg moves over Lightning and the other through the escrow, both locked
  to one payment hash.  The coordinator is the process that keeps the durable state of all this and
  decides what may happen next.  This development models its decision and storage code
  (JavaScript modules under \<^verbatim>\<open>src/lib\<close>) as HOL functions, and proves that no order of calls, inputs and
  crashes breaks the promises the settlement rests on.

  \<^bold>\<open>The parts and the theories that model them.\<close>

  \<^item> \<^theory_text>\<open>Prelude\<close>: results with exceptions (\<open>error + 'a\<close>, \<open>bindE\<close>, \<open>foldE\<close>, \<open>mapE\<close>), the collections of
    simplification rules, tables as lists of rows behind the locale \<open>table\<close> (lookup and modify by key),
    and state machines behind the locale \<open>machine\<close> (an invariant of the reachable states).
  \<^item> \<^theory_text>\<open>JS_Values\<close>: plain JavaScript data as the datatype \<open>jsval\<close>, string and number conversions, the
    regular expressions the validators use, arithmetic on integral doubles with its rounding.
  \<^item> \<^theory_text>\<open>Units\<close> (\<^verbatim>\<open>units.mjs\<close>): exact amounts, fees, the quotes of both directions and their inversions,
    whose binary searches share the locale \<open>bisection\<close>.
  \<^item> \<^theory_text>\<open>Settlement_Policy\<close> (\<^verbatim>\<open>settlement-policy.mjs\<close>): the deadlines of a swap, the check of a held HTLC,
    and the authorization of a Lightning action with its single use.
  \<^item> \<^theory_text>\<open>Admission_Policy\<close> (\<^verbatim>\<open>admission-policy.mjs\<close>): admission of requests, assessment of firm offers,
    reservation and release of solver capacity.
  \<^item> \<^theory_text>\<open>Contract_Intent\<close> (\<^verbatim>\<open>contract-intent-schema.mjs\<close>): validation of the typed data, signatures and
    calldata of a contract intent.
  \<^item> \<^theory_text>\<open>Canonical_Digest\<close>: canonical JSON and the digest of \<^verbatim>\<open>coordinator-store.mjs\<close>.
  \<^item> \<^verbatim>\<open>coordinator-store.mjs\<close> in six theories.  \<^theory_text>\<open>Store_Schema\<close> has the tables as records, with the row
    readers, the events and the transaction; \<^theory_text>\<open>Store_Normalize\<close> the validators of the inputs;
    \<^theory_text>\<open>Store_Service_Run\<close> the journal of service runs and the crash-loop breaker; \<^theory_text>\<open>Store_Admission\<close>
    requests, solver capacity, firm offers, expiry, cancellation and the restart reconciliation;
    \<^theory_text>\<open>Store_Settlement\<close> settlements, actions, EVM transactions, dispatch, results, recovery,
    reconciliation, halts and terminal outcomes; \<^theory_text>\<open>Store_Audit\<close> the restart check of persisted intents,
    the liability snapshot, metrics and events.
  \<^item> \<^theory_text>\<open>Daemon_Planner\<close> (\<^verbatim>\<open>solver-daemon-planner.mjs\<close>): the next step of the solver daemon for a settlement.
  \<^item> \<^theory_text>\<open>Canonical_Binding\<close>: the canonical text is a prefix code, so a digest determines its value up to the
    order of fields or exhibits a collision of the hash.
  \<^item> \<^theory_text>\<open>Lightning_Envelope\<close> (\<^verbatim>\<open>lightning-authorization-envelope.mjs\<close>): the authorization the coordinator
    signs for one adapter call, and the check the adapter makes.
  \<^item> \<^theory_text>\<open>Adapter_Response\<close> (\<^verbatim>\<open>lightning-adapter-response.mjs\<close>): the answer an adapter signs, and the check
    the coordinator makes.
  \<^item> \<^theory_text>\<open>Action_Runner\<close> (\<^verbatim>\<open>coordinator-action-runner.mjs\<close>): the runner that sends a Lightning action, judges
    the answer, reconciles unknown outcomes and looks up payment proofs.  A run is a function of the
    store and of what its awaits bring: clock readings, the outcome of the hooks and of the request,
    and the calls other tasks make to the store meanwhile, so every interleaving is an input.
  \<^item> \<^theory_text>\<open>Bolt11_Codec\<close> and \<^theory_text>\<open>Bolt11\<close> (\<^verbatim>\<open>bolt11.mjs\<close>): the decoder of Lightning invoices, from the Bech32
    checksum and the regrouping of bits on 32-bit words to amounts, tagged fields and the signature.
  \<^item> \<^theory_text>\<open>Invoice_Policy\<close> (\<^verbatim>\<open>invoice-policy.mjs\<close>): the checks of an invoice against a request, and the
    registry of payment hashes.
  \<^item> \<^theory_text>\<open>Risk_Policy\<close> (part of \<^verbatim>\<open>risk-policy.mjs\<close>): the fee that rises as inventory runs out.
  \<^item> \<^theory_text>\<open>Solver_Capability\<close> (\<^verbatim>\<open>solver-capability.mjs\<close>): the declaration a solver signs with three keys, its
    check against independent readings of its capacity, and the views other modules get of the result.
  \<^item> \<^theory_text>\<open>RFQ_Quotes\<close> (\<^verbatim>\<open>rfq.mjs\<close>): a request and its digest, the check of a signed offer against it and
    against the capability of its solver, the book of the best offers, and the selection of a quote.

  Each public method of the store is one function from the store to the store and a result.  A method
  first normalizes its input, then runs a body inside a transaction; an exception in either rolls the
  store back, and the exception is the result.  Tables keep the order of insertion, queries are
  \<open>filter\<close> and \<open>sort_key\<close>, unique constraints are branches of the inserts.

  \<^bold>\<open>Parameters.\<close>  The hash of the runtime is the parameter \<open>H\<close> (SHA-256 in hexadecimal), the Ethereum
  library the record \<open>E\<close> of its functions (\<open>K\<close> and \<open>Q\<close> are the parts that capabilities and quotes use, \<open>K\<close>
  with the endpoint keys and the URL parser), the validators of published service statuses the record \<open>V\<close>,
  the curve library of the invoice decoder the record \<open>C\<close>, and the key operations of the runtime the
  record \<open>C\<close> of type \<open>node_crypto\<close>.
  Where a result needs something of them it is a named hypothesis: \<open>hex_digest\<close>, that the hash is 64
  lower-case hexadecimal digits, \<open>ethers_canonical\<close>, that the library parses its own canonical
  output to itself, \<open>address_stable\<close>, the same for the addresses of quotes, and \<open>key_pair\<close>, that a signature verifies under the matching key.  Concrete instances (\<open>sample_hex\<close>, \<open>sample_ethers\<close>, \<open>sample_validators\<close>,
  \<open>sample_node_crypto\<close>) satisfy
  them and carry the witnesses.

  \<^bold>\<open>What is proved.\<close>

  \<^item> Components: quotes conserve value, and the exact-output searches terminate with the least covering
    amount; derived schedules order their deadlines; an authorization is checked and used once; an
    allowed reservation stays within capacity, and its outcome undoes it; a validated intent is what
    its parties signed.
  \<^item> \<^theory_text>\<open>Settlement_Invariant\<close> and \<^theory_text>\<open>Coordinator_Machine\<close>: the invariant \<open>store_ok\<close> of ledger, settlements,
    actions and transactions, and that each of the 26 writing methods preserves it and only moves
    history forward.  \<^theory_text>\<open>Coordinator_Properties\<close> and \<^theory_text>\<open>Store_Properties\<close> draw the consequences for every
    state that calls, service runs and crashes reach in any order: permanent bindings, the life cycle
    of an action as a refinement, with at most one successful dispatch in any sequence of calls, the
    exact conditions under which a claim is refused, at most one open action, actions covered by the
    validated intent, sound terminal outcomes, balanced ledgers, capacity, idempotent retries, final
    halts, and recovery that always completes.
  \<^item> \<^theory_text>\<open>Daemon_Properties\<close>: in those states the planner is total, its advice is safe, and the store accepts
    the dispatch it advises.
  \<^item> \<^theory_text>\<open>Lightning_Envelope\<close>, \<^theory_text>\<open>Adapter_Response\<close>: what verifies is what was signed, field by field, and
    what was signed verifies, an authorization exactly inside its window and lifetime.
  \<^item> \<^theory_text>\<open>Runner_Properties\<close>: a dispatch returns only with a signed, audited confirmation, for a payment with
    its preimage; a sent action is dispatched once, and its run settles it unless another task has or the clock fails; no interleaving sends an action twice; and
    reconciliation resolves an action only on such evidence.
  \<^item> \<^theory_text>\<open>Bolt11_Codec\<close>, \<^theory_text>\<open>Bolt11\<close>, \<^theory_text>\<open>Invoice_Policy\<close>: the checksum is linear and detects every substituted
    character; the regrouping reads exactly the same bits; a decoded invoice is signed over its whole
    text, its payment hash is its only payment-hash field, its numbers are in range; a valid invoice is
    the requested one; a payment hash is reserved once.
  \<^item> \<^theory_text>\<open>Risk_Policy\<close>: the inventory fee keeps the reserve, stays in its range and is monotone.
  \<^item> \<^theory_text>\<open>Solver_Capability\<close>: a verified capability is signed by the three keys it names, current, and covered by
    recent readings.  \<^theory_text>\<open>RFQ_Quotes\<close>: a quote book holds only offers that answer the request exactly, each
    signed and, when executable, covered by such a capability; it accounts for every answer and keeps
    the best offer of each solver in order.
  \<^item> \<^theory_text>\<open>Coordinator_Sample\<close>, \<^theory_text>\<open>Ledger_Sample\<close> and \<^theory_text>\<open>Runner_Sample\<close>: evaluated runs from request to completed
    settlement, the inputs of the witnesses.

  \<^bold>\<open>Bounds.\<close>  Every modelled function is total: the two binary searches and the loops of the invoice
  decoder that consume several words at a time have a termination proof, all other loops run over lists.  No fuel is used.  Amounts are integers with the checks of the source
  at \<open>2 ^ 64\<close> and \<open>2 ^ 96\<close>; times and counters are the safe integers of JavaScript.

  \<^bold>\<open>Not modelled.\<close>  Opening, migrating, backing up and restoring the database file; the SQLite engine
  beyond the statements the store issues; the address checks and the HTTPS transport of the Lightning
  runner, whose outcomes are inputs of a run; the EVM runner and the other processes around the store
  (services, supervisors, LND and Ethereum clients), which call the modelled operations around network
  I/O; evidence, release and deployment governance; accounts and the web application;
  the encryption and delivery of requests and answers; the Solidity contracts; the market evaluation of
  the risk policy.
\<close>

end
